(* ===== verification/Prelude.thy ===== *)
theory Prelude
  imports Complex_Main
begin

text \<open>
  Shared vocabulary of the development: Python strings and numbers as the code
  uses them (\<open>str.strip\<close>, \<open>str.lower\<close>, \<open>int()\<close> on text, decimal text of
  an integer), stable sorting with \<open>reverse=True\<close>, and the SQL-style table
  operations (\<open>SELECT .. WHERE key\<close>, \<open>UPDATE .. WHERE\<close>) with the lemmas
  every component reuses. Python floats are exact rationals (\<open>rat\<close>): the
  rounding of IEEE arithmetic is not modelled. Characters are code points below 256.
\<close>

named_theorems hb_simps "functional facts of the small helper operations"

type_synonym py_float = rat

section \<open>Python strings\<close>

definition py_space :: "char \<Rightarrow> bool" where
  "py_space c \<longleftrightarrow>
     (let n = (of_char c :: nat)
      in (9 \<le> n \<and> n \<le> 13) \<or> (28 \<le> n \<and> n \<le> 32) \<or> n = 133 \<or> n = 160)"

definition py_strip :: "string \<Rightarrow> string" where
  "py_strip s = rev (dropWhile py_space (rev (dropWhile py_space s)))"

definition lower_char :: "char \<Rightarrow> char" where
  "lower_char c =
     (let n = (of_char c :: nat)
      in if (65 \<le> n \<and> n \<le> 90) \<or> (192 \<le> n \<and> n \<le> 222 \<and> n \<noteq> 215)
         then char_of (n + 32) else c)"

definition py_lower :: "string \<Rightarrow> string" where
  "py_lower s = map lower_char s"

text \<open>\<open>str(x or "").strip() or None\<close> for an optional string.\<close>

definition norm_opt :: "string option \<Rightarrow> string option" where
  "norm_opt x = (let s = py_strip (case x of None \<Rightarrow> [] | Some t \<Rightarrow> t)
                 in if s = [] then None else Some s)"

fun starts_with :: "string \<Rightarrow> string \<Rightarrow> bool" where
  "starts_with [] s = True"
| "starts_with (p # ps) [] = False"
| "starts_with (p # ps) (c # cs) = (p = c \<and> starts_with ps cs)"

lemma norm_opt_nonempty: "norm_opt x = Some s \<Longrightarrow> s \<noteq> []"
  by (auto simp: norm_opt_def Let_def split: if_splits)

lemma length_py_lower [simp]: "length (py_lower s) = length s"
  by (simp add: py_lower_def)

lemma length_dropWhile_le: "length (dropWhile P xs) \<le> length xs"
  by (induction xs) auto

lemma length_py_strip_le: "length (py_strip s) \<le> length s"
  using length_dropWhile_le [of py_space s]
    length_dropWhile_le [of py_space "rev (dropWhile py_space s)"]
  by (simp add: py_strip_def)

lemma dropWhile_fix: "xs = [] \<or> \<not> P (hd xs) \<Longrightarrow> dropWhile P xs = xs"
  by (cases xs) auto

lemma last_dropWhile: "dropWhile P xs \<noteq> [] \<Longrightarrow> last (dropWhile P xs) = last xs"
  by (induction xs) (auto split: if_splits)

lemma py_strip_idem [simp]: "py_strip (py_strip s) = py_strip s"
proof -
  let ?a = "dropWhile py_space s"
  let ?b = "dropWhile py_space (rev ?a)"
  have "dropWhile py_space (rev ?b) = rev ?b"
  proof (rule dropWhile_fix)
    have "?b \<noteq> [] \<Longrightarrow> hd (rev ?b) = hd ?a"
      by (metis hd_rev last_dropWhile rev_rev_ident dropWhile.simps(1))
    moreover have "?b \<noteq> [] \<Longrightarrow> \<not> py_space (hd ?a)"
      by (metis dropWhile.simps(1) hd_dropWhile rev.simps(1))
    ultimately show "rev ?b = [] \<or> \<not> py_space (hd (rev ?b))" by fastforce
  qed
  moreover have "dropWhile py_space ?b = ?b" by (simp add: dropWhile_idem)
  ultimately show ?thesis by (simp add: py_strip_def)
qed

section \<open>Integers and text\<close>

definition digit_char :: "nat \<Rightarrow> char" where
  "digit_char d = char_of (48 + d)"

fun show_nat :: "nat \<Rightarrow> string" where
  "show_nat n = (if n < 10 then [digit_char n] else show_nat (n div 10) @ [digit_char (n mod 10)])"

declare show_nat.simps [simp del]

definition show_int :: "int \<Rightarrow> string" where
  "show_int k = (if k < 0 then CHR ''-'' # show_nat (nat (- k)) else show_nat (nat k))"

definition is_digit :: "char \<Rightarrow> bool" where
  "is_digit c \<longleftrightarrow> (let n = (of_char c :: nat) in 48 \<le> n \<and> n \<le> 57)"

definition digit_val :: "char \<Rightarrow> int" where
  "digit_val c = int (of_char c :: nat) - 48"

text \<open>
  Digits with single underscores between them, as \<open>int()\<close> accepts them: the first
  argument is the value so far, the second says whether the last character was a digit.
\<close>

fun read_digits :: "int \<Rightarrow> bool \<Rightarrow> string \<Rightarrow> int option" where
  "read_digits acc after_digit [] = (if after_digit then Some acc else None)"
| "read_digits acc after_digit (c # cs) =
     (if is_digit c then read_digits (10 * acc + digit_val c) True cs
      else if c = CHR ''_'' \<and> after_digit then read_digits acc False cs
      else None)"

definition py_int_text :: "string \<Rightarrow> int option" where
  "py_int_text s =
     (case py_strip s of
        [] \<Rightarrow> None
      | c # cs \<Rightarrow>
          if c = CHR ''-'' then map_option uminus (read_digits 0 False cs)
          else if c = CHR ''+'' then read_digits 0 False cs
          else read_digits 0 False (c # cs))"

text \<open>\<open>int(x)\<close> of a float truncates towards zero.\<close>

definition py_trunc :: "py_float \<Rightarrow> int" where
  "py_trunc x = (if x < 0 then - \<lfloor>- x\<rfloor> else \<lfloor>x\<rfloor>)"

lemma py_trunc_nonneg: "0 \<le> x \<Longrightarrow> of_int (py_trunc x) \<le> x \<and> 0 \<le> py_trunc x"
  by (simp add: py_trunc_def)

lemma py_trunc_int [simp]: "py_trunc (of_int k) = k"
  by (simp add: py_trunc_def)

lemma nat_max_zero [simp]: "nat (max 0 x) = nat x"
  by (simp add: max_def)

text \<open>\<open>s.split(c)\<close> for a single character.\<close>

fun split_on :: "char \<Rightarrow> string \<Rightarrow> string list" where
  "split_on c [] = [[]]"
| "split_on c (x # xs) =
     (if x = c then [] # split_on c xs
      else (case split_on c xs of [] \<Rightarrow> [[x]] | p # ps \<Rightarrow> (x # p) # ps))"

text \<open>\<open>round(x, n)\<close>: to the nearest, ties to even.\<close>

definition py_round :: "nat \<Rightarrow> py_float \<Rightarrow> py_float" where
  "py_round n x =
     (let y = x * 10 ^ n; f = \<lfloor>y\<rfloor>; d = y - of_int f;
          k = (if d < 1 / 2 then f else if 1 / 2 < d then f + 1 else if even f then f else f + 1)
      in of_int k / 10 ^ n)"

lemma py_round_close: "\<bar>py_round n x - x\<bar> \<le> 1 / (2 * 10 ^ n)"
proof -
  let ?y = "x * 10 ^ n" and ?p = "10 ^ n :: py_float"
  define k where "k = (let f = \<lfloor>?y\<rfloor>; d = ?y - of_int f
    in if d < 1 / 2 then f else if 1 / 2 < d then f + 1 else if even f then f else f + 1)"
  have "of_int \<lfloor>?y\<rfloor> \<le> ?y" "?y < of_int \<lfloor>?y\<rfloor> + 1" by linarith+
  then have "\<bar>of_int k - ?y\<bar> \<le> 1 / 2" unfolding k_def Let_def by (auto split: if_splits)
  then have "\<bar>of_int k - ?y\<bar> / ?p \<le> (1 / 2) / ?p" by (intro divide_right_mono) simp_all
  moreover have "py_round n x - x = (of_int k - ?y) / ?p" by (simp add: py_round_def k_def Let_def diff_divide_distrib)
  ultimately show ?thesis by (simp add: abs_divide)
qed

section \<open>Sorting\<close>

text \<open>\<open>sorted(xs, key=f, reverse=True)\<close>: descending, equal keys keep their order.\<close>

definition sort_desc :: "('a \<Rightarrow> 'k::linorder) \<Rightarrow> 'a list \<Rightarrow> 'a list" where
  "sort_desc f xs = rev (sort_key f (rev xs))"

lemma set_sort_desc [simp]: "set (sort_desc f xs) = set xs"
  by (simp add: sort_desc_def)

lemma length_sort_desc [simp]: "length (sort_desc f xs) = length xs"
  by (simp add: sort_desc_def)

lemma distinct_sort_desc [simp]: "distinct (map g (sort_desc f xs)) = distinct (map g xs)"
  by (simp add: sort_desc_def distinct_map)

lemma sorted_wrt_sort_desc: "sorted_wrt (\<lambda>x y. f y \<le> f x) (sort_desc f xs)"
proof -
  have "sorted_wrt (\<lambda>x y. f x \<le> f y) (sort_key f (rev xs))"
    using sorted_sort_key [of f "rev xs"] by (simp only: sorted_map)
  then show ?thesis by (simp add: sort_desc_def sorted_wrt_rev)
qed

text \<open>\<open>tuple(dict.fromkeys(..))\<close>: the first occurrence of each item.\<close>

fun dedup :: "'a list \<Rightarrow> 'a list" where
  "dedup [] = []"
| "dedup (x # xs) = x # filter (\<lambda>y. y \<noteq> x) (dedup xs)"

lemma set_dedup [simp]: "set (dedup xs) = set xs"
  by (induction xs) auto

lemma distinct_dedup [simp]: "distinct (dedup xs)"
  by (induction xs) auto

lemma dedup_distinct: "distinct xs \<Longrightarrow> dedup xs = xs"
  by (induction xs) (auto simp: filter_id_conv)

lemma dedup_Nil [simp]: "dedup xs = [] \<longleftrightarrow> xs = []"
  by (cases xs) simp_all

section \<open>Tables\<close>

text \<open>
  A table is the list of its rows in the order they were inserted. A primary key is a
  projection; a lookup by key returns the first row with that key, an \<open>UPDATE\<close> maps
  the rows its \<open>WHERE\<close> selects.
\<close>

definition tbl_find :: "('r \<Rightarrow> 'k) \<Rightarrow> 'k \<Rightarrow> 'r list \<Rightarrow> 'r option" where
  "tbl_find key k rows = find (\<lambda>r. key r = k) rows"

definition tbl_update :: "('r \<Rightarrow> bool) \<Rightarrow> ('r \<Rightarrow> 'r) \<Rightarrow> 'r list \<Rightarrow> 'r list" where
  "tbl_update sel f rows = map (\<lambda>r. if sel r then f r else r) rows"

definition tbl_count :: "('r \<Rightarrow> bool) \<Rightarrow> 'r list \<Rightarrow> int" where
  "tbl_count sel rows = int (length (filter sel rows))"

lemma tbl_find_Nil [simp]: "tbl_find key k [] = None"
  by (simp add: tbl_find_def)

lemma tbl_find_Cons [simp]:
  "tbl_find key k (r # rs) = (if key r = k then Some r else tbl_find key k rs)"
  by (simp add: tbl_find_def)

lemma tbl_find_SomeD: "tbl_find key k rows = Some r \<Longrightarrow> r \<in> set rows \<and> key r = k"
  by (induction rows) (auto split: if_splits)

lemma tbl_find_None: "tbl_find key k rows = None \<longleftrightarrow> k \<notin> key ` set rows"
  by (induction rows) auto

lemma tbl_find_in: "distinct (map key rows) \<Longrightarrow> r \<in> set rows \<Longrightarrow> tbl_find key (key r) rows = Some r"
  by (induction rows) (auto simp: image_iff)

lemma tbl_find_append:
  "tbl_find key k (xs @ ys) =
     (case tbl_find key k xs of None \<Rightarrow> tbl_find key k ys | Some r \<Rightarrow> Some r)"
  by (induction xs) auto

lemma length_tbl_update [simp]: "length (tbl_update sel f rows) = length rows"
  by (simp add: tbl_update_def)

lemma map_key_tbl_update:
  "(\<And>r. sel r \<Longrightarrow> key (f r) = key r) \<Longrightarrow> map key (tbl_update sel f rows) = map key rows"
  by (simp add: tbl_update_def)

lemma tbl_find_update:
  "(\<And>r. sel r \<Longrightarrow> key (f r) = key r) \<Longrightarrow>
   tbl_find key k (tbl_update sel f rows) =
     map_option (\<lambda>r. if sel r then f r else r) (tbl_find key k rows)"
  by (induction rows) (auto simp: tbl_update_def)

lemma set_tbl_update: "set (tbl_update sel f rows) = (\<lambda>r. if sel r then f r else r) ` set rows"
  by (simp add: tbl_update_def)

lemma ball_tbl_update:
  "(\<forall>r \<in> set (tbl_update sel f rows). P r) \<longleftrightarrow>
   (\<forall>r \<in> set rows. P (if sel r then f r else r))"
  unfolding set_tbl_update by (auto split: if_splits)

lemma tbl_update_none: "(\<And>r. r \<in> set rows \<Longrightarrow> \<not> sel r) \<Longrightarrow> tbl_update sel f rows = rows"
  by (simp add: tbl_update_def map_idI)

lemma tbl_count_nonneg [simp]: "0 \<le> tbl_count sel rows"
  by (simp add: tbl_count_def)

lemma filter_tbl_update:
  "(\<And>r. P (if sel r then f r else r) = P r) \<Longrightarrow>
   length (filter P (tbl_update sel f rows)) = length (filter P rows)"
  by (induction rows) (auto simp: tbl_update_def)

lemma tbl_count_update:
  "(\<And>r. P (if sel r then f r else r) = P r) \<Longrightarrow> tbl_count P (tbl_update sel f rows) = tbl_count P rows"
  unfolding tbl_count_def using filter_tbl_update [of P sel f rows] by presburger


text \<open>\<open>INSERT .. ON CONFLICT(key) DO UPDATE\<close>\<close>

definition tbl_upsert :: "('r \<Rightarrow> bool) \<Rightarrow> 'r \<Rightarrow> ('r \<Rightarrow> 'r) \<Rightarrow> 'r list \<Rightarrow> 'r list" where
  "tbl_upsert sel new upd rows = (if list_ex sel rows then tbl_update sel upd rows else rows @ [new])"

lemma ball_tbl_upsert:
  "(\<And>r. r \<in> set rows \<Longrightarrow> sel r \<Longrightarrow> P (upd r)) \<Longrightarrow> P new \<Longrightarrow> (\<forall>r \<in> set rows. P r) \<Longrightarrow>
   \<forall>r \<in> set (tbl_upsert sel new upd rows). P r"
  by (auto simp: tbl_upsert_def set_tbl_update)

lemma distinct_tbl_upsert:
  assumes "\<And>r. sel r \<longleftrightarrow> key r = k" "key new = k" "\<And>r. sel r \<Longrightarrow> key (upd r) = key r"
    and "distinct (map key rows)"
  shows "distinct (map key (tbl_upsert sel new upd rows))"
proof (cases "list_ex sel rows")
  case True
  then show ?thesis using assms(3,4) by (simp add: tbl_upsert_def map_key_tbl_update)
next
  case False
  then have "k \<notin> set (map key rows)" using assms(1) by (auto simp: list_ex_iff)
  then show ?thesis using False assms(2,4) by (simp add: tbl_upsert_def)
qed

lemma tbl_count_append: "tbl_count P (xs @ ys) = tbl_count P xs + tbl_count P ys"
  by (simp add: tbl_count_def)

lemma tbl_count_Nil [simp]: "tbl_count P [] = 0"
  by (simp add: tbl_count_def)

lemma tbl_count_Cons [simp]: "tbl_count P (x # xs) = (if P x then 1 else 0) + tbl_count P xs"
  by (simp add: tbl_count_def)

section \<open>Results that may fail\<close>

definition bind_r :: "'e + 'a \<Rightarrow> ('a \<Rightarrow> 'e + 'b) \<Rightarrow> 'e + 'b" where
  "bind_r m f = (case m of Inl e \<Rightarrow> Inl e | Inr x \<Rightarrow> f x)"

lemma bind_r_simps [simp]: "bind_r (Inl e) f = Inl e" "bind_r (Inr x) f = f x"
  by (simp_all add: bind_r_def)

lemma bind_r_Inr: "bind_r m f = Inr y \<longleftrightarrow> (\<exists>x. m = Inr x \<and> f x = Inr y)"
  by (cases m) auto

lemma bind_r_Inl: "bind_r m f = Inl e \<longleftrightarrow> m = Inl e \<or> (\<exists>x. m = Inr x \<and> f x = Inl e)"
  by (cases m) auto


text \<open>Code that changes a state and may raise: the state as it is when it raises is kept.\<close>

type_synonym ('e, 's, 'a) st = "'s \<Rightarrow> ('e + 'a) \<times> 's"

definition st_ret :: "'a \<Rightarrow> ('e, 's, 'a) st" where
  "st_ret x s = (Inr x, s)"

definition st_fail :: "'e \<Rightarrow> ('e, 's, 'a) st" where
  "st_fail e s = (Inl e, s)"

definition st_bind :: "('e, 's, 'a) st \<Rightarrow> ('a \<Rightarrow> ('e, 's, 'b) st) \<Rightarrow> ('e, 's, 'b) st" where
  "st_bind m f s = (case m s of (Inl e, s1) \<Rightarrow> (Inl e, s1) | (Inr x, s1) \<Rightarrow> f x s1)"

lemma st_simps [simp]: "st_ret x s = (Inr x, s)" "st_fail e s = (Inl e, s)"
  by (simp_all add: st_ret_def st_fail_def)

lemma st_bind_Inr: "st_bind m f s = (Inr y, s') \<longleftrightarrow> (\<exists>x s1. m s = (Inr x, s1) \<and> f x s1 = (Inr y, s'))"
  by (auto simp: st_bind_def split: prod.splits sum.splits)

lemma st_bind_Inl: "st_bind m f s = (Inl e, s') \<longleftrightarrow>
    m s = (Inl e, s') \<or> (\<exists>x s1. m s = (Inr x, s1) \<and> f x s1 = (Inl e, s'))"
  by (auto simp: st_bind_def split: prod.splits sum.splits)

end
