(* ===== verification/Json.thy ===== *)
theory Json
  imports Prelude
begin

text \<open>
  Dynamically typed values as \<open>json.loads\<close> returns them, with the Python
  operations the program applies to them: truth value, \<open>str()\<close>, \<open>int()\<close>, and
  \<open>dict.get\<close>. A float carries its value and the text \<open>repr\<close> gives it, so
  \<open>str()\<close> needs no model of float formatting; NaN and infinities are left out.
\<close>

datatype json =
    JNull
  | JBool bool
  | JInt int
  | JFloat py_float string
  | JStr string
  | JList "json list"
  | JObj "(string \<times> json) list"

type_synonym jobj = "(string \<times> json) list"

definition jget :: "jobj \<Rightarrow> string \<Rightarrow> json" where
  "jget o' k = (case map_of o' k of None \<Rightarrow> JNull | Some v \<Rightarrow> v)"

definition jget_def_to :: "jobj \<Rightarrow> string \<Rightarrow> json \<Rightarrow> json" where
  "jget_def_to o' k d = (case map_of o' k of None \<Rightarrow> d | Some v \<Rightarrow> v)"

text \<open>\<open>d[k] = v\<close>: a new key goes to the end, an old one keeps its place.\<close>

fun put_key :: "string \<Rightarrow> json \<Rightarrow> jobj \<Rightarrow> jobj" where
  "put_key k v [] = [(k, v)]"
| "put_key k v ((k', v') # o') = (if k = k' then (k, v) # o' else (k', v') # put_key k v o')"

fun truthy :: "json \<Rightarrow> bool" where
  "truthy JNull = False"
| "truthy (JBool b) = b"
| "truthy (JInt k) = (k \<noteq> 0)"
| "truthy (JFloat x _) = (x \<noteq> 0)"
| "truthy (JStr s) = (s \<noteq> [])"
| "truthy (JList xs) = (xs \<noteq> [])"
| "truthy (JObj kvs) = (kvs \<noteq> [])"

text \<open>\<open>x or d\<close>\<close>

definition py_or :: "json \<Rightarrow> json \<Rightarrow> json" where
  "py_or x d = (if truthy x then x else d)"

fun as_obj :: "json \<Rightarrow> jobj option" where
  "as_obj (JObj kvs) = Some kvs"
| "as_obj _ = None"

fun as_str :: "json \<Rightarrow> string option" where
  "as_str (JStr s) = Some s"
| "as_str _ = None"

text \<open>\<open>isinstance(v, int) and not isinstance(v, bool)\<close>\<close>

fun as_int :: "json \<Rightarrow> int option" where
  "as_int (JInt k) = Some k"
| "as_int _ = None"

text \<open>\<open>int(v)\<close>; \<open>None\<close> is the \<open>TypeError\<close> or \<open>ValueError\<close> it raises.\<close>

fun py_int :: "json \<Rightarrow> int option" where
  "py_int (JInt k) = Some k"
| "py_int (JBool b) = Some (if b then 1 else 0)"
| "py_int (JFloat x _) = Some (py_trunc x)"
| "py_int (JStr s) = py_int_text s"
| "py_int _ = None"

section \<open>The text of a value\<close>

definition hex_digit :: "nat \<Rightarrow> char" where
  "hex_digit d = (if d < 10 then char_of (48 + d) else char_of (87 + d))"

definition repr_char :: "char \<Rightarrow> char \<Rightarrow> string" where
  "repr_char q c =
     (let n = (of_char c :: nat)
      in if c = q \<or> n = 92 then [char_of (92 :: nat), c]
         else if n = 9 then [char_of (92 :: nat), CHR ''t'']
         else if n = 10 then [char_of (92 :: nat), CHR ''n'']
         else if n = 13 then [char_of (92 :: nat), CHR ''r'']
         else if n < 32 \<or> (127 \<le> n \<and> n \<le> 160) \<or> n = 173
           then [char_of (92 :: nat), CHR ''x'', hex_digit (n div 16), hex_digit (n mod 16)]
         else [c])"

definition repr_str :: "string \<Rightarrow> string" where
  "repr_str s =
     (let sq = (char_of (39 :: nat) :: char); dq = (char_of (34 :: nat) :: char);
          q = (if sq \<in> set s \<and> dq \<notin> set s then dq else sq)
      in [q] @ concat (map (repr_char q) s) @ [q])"

fun join :: "string \<Rightarrow> string list \<Rightarrow> string" where
  "join sep [] = []"
| "join sep [x] = x"
| "join sep (x # y # xs) = x @ sep @ join sep (y # xs)"

fun py_repr :: "json \<Rightarrow> string" where
  "py_repr JNull = ''None''"
| "py_repr (JBool b) = (if b then ''True'' else ''False'')"
| "py_repr (JInt k) = show_int k"
| "py_repr (JFloat _ t) = t"
| "py_repr (JStr s) = repr_str s"
| "py_repr (JList xs) = ''['' @ join '', '' (map py_repr xs) @ '']''"
| "py_repr (JObj kvs) =
     ''{'' @ join '', '' (map (\<lambda>kv. repr_str (fst kv) @ '': '' @ py_repr (snd kv)) kvs) @ ''}''"

definition py_str :: "json \<Rightarrow> string" where
  "py_str v = (case v of JStr s \<Rightarrow> s | _ \<Rightarrow> py_repr v)"

text \<open>\<open>str(obj.get(k) or "")\<close> and the same with \<open>.strip()\<close>.\<close>

definition jtext :: "jobj \<Rightarrow> string \<Rightarrow> string" where
  "jtext o' k = py_str (py_or (jget o' k) (JStr []))"

definition jtext_strip :: "jobj \<Rightarrow> string \<Rightarrow> string" where
  "jtext_strip o' k = py_strip (jtext o' k)"

text \<open>\<open>for x in v\<close>: a list's items, the characters of a text, the keys of an object.\<close>

fun py_iter :: "json \<Rightarrow> json list option" where
  "py_iter (JList xs) = Some xs"
| "py_iter (JStr s) = Some (map (\<lambda>c. JStr [c]) s)"
| "py_iter (JObj kvs) = Some (map (JStr \<circ> fst) kvs)"
| "py_iter v = None"

text \<open>\<open>float(v)\<close>: of text, an optional sign, digits with an optional fraction and exponent (\<open>nan\<close>,
  \<open>inf\<close> and underscores are left out).\<close>

fun scan_digits :: "string \<Rightarrow> int \<Rightarrow> nat \<Rightarrow> int \<times> nat \<times> string" where
  "scan_digits [] acc n = (acc, n, [])"
| "scan_digits (c # cs) acc n =
     (if is_digit c then scan_digits cs (10 * acc + digit_val c) (Suc n) else (acc, n, c # cs))"

definition pow10 :: "int \<Rightarrow> py_float" where
  "pow10 k = (if 0 \<le> k then 10 ^ nat k else 1 / 10 ^ nat (- k))"

definition float_tail :: "py_float \<Rightarrow> string \<Rightarrow> py_float option" where
  "float_tail x s =
     (case s of
        [] \<Rightarrow> Some x
      | c # cs \<Rightarrow> if (c = CHR ''e'' \<or> c = CHR ''E'') \<and> \<not> list_ex py_space cs then map_option (\<lambda>k. x * pow10 k) (py_int_text cs) else None)"

definition float_unsigned :: "string \<Rightarrow> py_float option" where
  "float_unsigned s =
     (case scan_digits s 0 0 of
        (i, n, c # cs) \<Rightarrow>
          if c = CHR ''.'' then
            (case scan_digits cs 0 0 of
               (f, m, rest) \<Rightarrow> if n = 0 \<and> m = 0 then None else float_tail (of_int i + of_int f / 10 ^ m) rest)
          else if n = 0 then None else float_tail (of_int i) (c # cs)
      | (i, n, []) \<Rightarrow> if n = 0 then None else Some (of_int i))"

definition py_float_text :: "string \<Rightarrow> py_float option" where
  "py_float_text s =
     (case py_strip s of
        [] \<Rightarrow> None
      | c # cs \<Rightarrow>
          if c = CHR ''-'' then map_option uminus (float_unsigned cs)
          else if c = CHR ''+'' then float_unsigned cs
          else float_unsigned (c # cs))"

fun py_float_of :: "json \<Rightarrow> py_float option" where
  "py_float_of (JInt k) = Some (of_int k)"
| "py_float_of (JBool b) = Some (if b then 1 else 0)"
| "py_float_of (JFloat x t) = Some x"
| "py_float_of (JStr s) = py_float_text s"
| "py_float_of v = None"

section \<open>Facts\<close>

lemma jget_Nil [simp]: "jget [] k = JNull"
  by (simp add: jget_def)

lemma jget_Cons [simp]: "jget ((k', v) # o') k = (if k = k' then v else jget o' k)"
  by (simp add: jget_def)

lemma jget_def_to_Nil [simp]: "jget_def_to [] k d = d"
  by (simp add: jget_def_to_def)

lemma jget_def_to_Cons [simp]:
  "jget_def_to ((k', v) # o') k d = (if k = k' then v else jget_def_to o' k d)"
  by (simp add: jget_def_to_def)

lemma map_of_put_key: "map_of (put_key k v o') = (map_of o')(k \<mapsto> v)"
  by (induction o') auto

lemma jget_put_key [simp]: "jget (put_key k v o') k' = (if k' = k then v else jget o' k')"
  by (simp add: jget_def map_of_put_key)

lemma fst_put_key: "fst ` set (put_key k v o') = insert k (fst ` set o')"
  by (simp add: dom_map_of_conv_image_fst [symmetric] map_of_put_key)

lemma put_key_new: "k \<notin> fst ` set o' \<Longrightarrow> put_key k v o' = o' @ [(k, v)]"
  by (induction k v o' rule: put_key.induct) auto

lemma py_str_JStr [simp]: "py_str (JStr s) = s"
  by (simp add: py_str_def)

lemma py_or_JStr [simp]: "py_or (JStr s) (JStr []) = JStr s"
  by (simp add: py_or_def)

lemma py_or_JNull [simp]: "py_or JNull d = d"
  by (simp add: py_or_def)

lemma jtext_JStr: "jget o' k = JStr s \<Longrightarrow> jtext o' k = s"
  by (simp add: jtext_def)

lemma as_obj_Some [simp]: "as_obj v = Some kvs \<longleftrightarrow> v = JObj kvs"
  by (cases v) auto

lemma as_str_Some [simp]: "as_str v = Some s \<longleftrightarrow> v = JStr s"
  by (cases v) auto

lemma as_int_Some [simp]: "as_int v = Some k \<longleftrightarrow> v = JInt k"
  by (cases v) auto

text \<open>Dictionary keys and set members: hashing, and \<open>1 == 1.0 == True\<close>.\<close>

fun hashable :: "json \<Rightarrow> bool" where
  "hashable (JList xs) = False"
| "hashable (JObj d) = False"
| "hashable v = True"

fun as_num :: "json \<Rightarrow> py_float option" where
  "as_num (JInt k) = Some (of_int k)"
| "as_num (JBool b) = Some (if b then 1 else 0)"
| "as_num (JFloat x t) = Some x"
| "as_num v = None"

definition py_same :: "json \<Rightarrow> json \<Rightarrow> bool" where
  "py_same a b = (case (as_num a, as_num b) of (Some x, Some y) \<Rightarrow> x = y | (None, None) \<Rightarrow> a = b | _ \<Rightarrow> False)"

definition update_from :: "jobj \<Rightarrow> jobj \<Rightarrow> jobj" where
  "update_from d src = foldl (\<lambda>o' (k, v). put_key k v o') d src"

end
