(* ===== verification/Replication_Policy.thy ===== *)
theory Replication_Policy
  imports Prelude "HOL-Library.Multiset" "HOL-Library.Product_Lexorder"
begin

text \<open>
  Replica placement (\<open>replication/hb_replication_policy.py\<close>): the policy record and
  its validation, failure domains, capacity arithmetic, the scoring tuple, and the two
  selection loops of \<open>choose_placements\<close>. The SHA-256 tie break is a parameter
  \<open>tb\<close> of the definitions that use it; nothing is assumed about it. The quotients
  \<open>int(a / b)\<close> of the score have non-negative operands and are exact here.
\<close>

section \<open>Data\<close>

datatype capacity_class = Committable | BestEffort | UnknownClass

record policy =
  replication_n :: int
  committable_m :: int
  prefer_edge_for_extra :: bool
  safety_margin_bytes :: int

text \<open>The fields of a node dictionary that placement reads; absent text is empty.\<close>

record pnode =
  pn_id :: string
  pn_class :: capacity_class
  pn_enabled :: bool
  pn_online :: bool
  pn_total :: int
  pn_used :: int
  pn_stability :: int
  pn_penalty :: int
  pn_failure_domain :: string
  pn_provider :: string
  pn_region :: string
  pn_rack :: string

definition policy_validate :: "policy \<Rightarrow> string option" where
  "policy_validate p =
     (if replication_n p < 1 then Some ''replication_n must be >= 1''
      else if committable_m p < 0 then Some ''committable_m must be >= 0''
      else if committable_m p > replication_n p then Some ''committable_m cannot exceed replication_n''
      else None)"

section \<open>Scoring\<close>

fun join_slash :: "string list \<Rightarrow> string" where
  "join_slash [] = []"
| "join_slash [x] = x"
| "join_slash (x # y # xs) = x @ ''/'' @ join_slash (y # xs)"

definition node_failure_domain :: "pnode \<Rightarrow> string" where
  "node_failure_domain n =
     (let direct = py_strip (pn_failure_domain n)
      in if direct \<noteq> [] then direct
         else
           let parts = [py_strip (pn_provider n), py_strip (pn_region n), py_strip (pn_rack n)];
               compact = join_slash (filter (\<lambda>p. p \<noteq> []) parts)
           in if compact \<noteq> [] then compact else ''node:'' @ pn_id n)"

definition effective_free_bytes :: "pnode \<Rightarrow> int \<Rightarrow> int \<Rightarrow> int" where
  "effective_free_bytes n controller_reserved margin =
     (if pn_total n \<le> 0 then 0
      else max 0 (pn_total n - pn_used n - max 0 controller_reserved - max 0 margin))"

type_synonym score = "int \<times> int \<times> int \<times> int \<times> int"

definition node_score ::
  "(string \<Rightarrow> string \<Rightarrow> int) \<Rightarrow> string \<Rightarrow> pnode \<Rightarrow> int \<Rightarrow> int \<Rightarrow> int \<Rightarrow> int \<Rightarrow> score" where
  "node_score tb cid n controller_reserved margin desired assigned =
     (let total = max 1 (pn_total n);
          free = effective_free_bytes n controller_reserved margin;
          free_ratio_ppm = free * 1000000 div total;
          load_penalty = desired * 1000 + assigned div (1024 * 1024)
      in (free_ratio_ppm, pn_stability n, - pn_penalty n, - load_penalty, - tb cid (pn_id n)))"

definition eligible :: "pnode \<Rightarrow> int \<Rightarrow> int \<Rightarrow> policy \<Rightarrow> bool" where
  "eligible n object_size reserved p =
     (if \<not> pn_enabled n then False
      else if \<not> pn_online n then False
      else if pn_class n \<notin> {Committable, BestEffort} then False
      else object_size \<le> effective_free_bytes n reserved (safety_margin_bytes p))"

section \<open>Selection\<close>

type_synonym cand = "score \<times> pnode"

fun pop_first :: "(cand \<Rightarrow> bool) \<Rightarrow> cand list \<Rightarrow> (cand \<times> cand list) option" where
  "pop_first P [] = None"
| "pop_first P (x # xs) =
     (if P x then Some (x, xs)
      else (case pop_first P xs of None \<Rightarrow> None | Some (y, ys) \<Rightarrow> Some (y, x # ys)))"

definition pop_domain_preferred :: "cand list \<Rightarrow> string set \<Rightarrow> (cand \<times> cand list) option" where
  "pop_domain_preferred pool occupied =
     (case pop_first (\<lambda>item. node_failure_domain (snd item) \<notin> occupied) pool of
        Some r \<Rightarrow> Some r
      | None \<Rightarrow> (case pool of [] \<Rightarrow> None | x # xs \<Rightarrow> Some (x, xs)))"

text \<open>The local variables of \<open>choose_placements\<close> its loops change.\<close>

record placing =
  pl_chosen :: "pnode list"
  pl_excluded :: "string set"
  pl_domains :: "string set"
  pl_need_c :: int
  pl_need_t :: int

definition take_node :: "pnode \<Rightarrow> placing \<Rightarrow> placing" where
  "take_node n s = s\<lparr>pl_chosen := pl_chosen s @ [n],
                     pl_excluded := insert (pn_id n) (pl_excluded s),
                     pl_domains := insert (node_failure_domain n) (pl_domains s)\<rparr>"

lemma pop_first_mset: "pop_first P xs = Some (x, ys) \<Longrightarrow> mset xs = add_mset x (mset ys)"
  by (induction xs arbitrary: ys) (auto split: if_splits option.splits)

lemma pop_first_holds: "pop_first P xs = Some (x, ys) \<Longrightarrow> P x"
  by (induction xs arbitrary: ys) (auto split: if_splits option.splits)

lemma pop_first_None: "pop_first P xs = None \<longleftrightarrow> (\<forall>x \<in> set xs. \<not> P x)"
  by (induction xs) (auto split: option.splits)

lemma pop_mset: "pop_domain_preferred pool D = Some (x, rest) \<Longrightarrow> mset pool = add_mset x (mset rest)"
  by (auto simp: pop_domain_preferred_def dest: pop_first_mset split: option.splits list.splits)

lemma pop_length: "pop_domain_preferred pool D = Some (x, rest) \<Longrightarrow> length pool = Suc (length rest)"
  using pop_mset [of pool D x rest] by (metis size_add_mset size_mset)

lemma pop_None [simp]: "pop_domain_preferred pool D = None \<longleftrightarrow> pool = []"
  by (auto simp: pop_domain_preferred_def split: option.splits list.splits)

text \<open>\<open>while need_committable > 0 and committable\<close>\<close>

function place_committable :: "placing \<Rightarrow> cand list \<Rightarrow> placing \<times> cand list" where
  "place_committable s pool =
     (if 0 < pl_need_c s then
        (case pop_domain_preferred pool (pl_domains s) of
           None \<Rightarrow> (s, pool)
         | Some ((_, n), rest) \<Rightarrow>
             place_committable
               ((take_node n s)\<lparr>pl_need_c := pl_need_c s - 1,
                                pl_need_t := max 0 (pl_need_t s - 1)\<rparr>) rest)
      else (s, pool))"
  by pat_completeness auto
termination
  by (relation "measure (\<lambda>(s, pool). length pool)") (auto dest: pop_length)

text \<open>\<open>while need_total > 0 and pool\<close>\<close>

function place_rest :: "placing \<Rightarrow> cand list \<Rightarrow> placing" where
  "place_rest s pool =
     (if 0 < pl_need_t s then
        (case pop_domain_preferred pool (pl_domains s) of
           None \<Rightarrow> s
         | Some ((_, n), rest) \<Rightarrow>
             if pn_id n \<in> pl_excluded s then place_rest s rest
             else place_rest ((take_node n s)\<lparr>pl_need_t := pl_need_t s - 1\<rparr>) rest)
      else s)"
  by pat_completeness auto
termination
  by (relation "measure (\<lambda>(s, pool). length pool)") (auto dest: pop_length)

declare place_committable.simps [simp del] place_rest.simps [simp del]

definition get0 :: "(string \<rightharpoonup> int) \<Rightarrow> string \<Rightarrow> int" where
  "get0 m k = (case m k of None \<Rightarrow> 0 | Some v \<Rightarrow> v)"

record placement_input =
  pi_cid :: string
  pi_size :: int
  pi_nodes :: "pnode list"
  pi_current :: "string set"
  pi_current_comm :: int
  pi_current_total :: int
  pi_reserved :: "string \<rightharpoonup> int"
  pi_desired :: "string \<rightharpoonup> int"
  pi_assigned :: "string \<rightharpoonup> int"

definition is_candidate :: "placement_input \<Rightarrow> policy \<Rightarrow> pnode \<Rightarrow> bool" where
  "is_candidate i p n \<longleftrightarrow>
     pn_id n \<noteq> [] \<and> pn_id n \<notin> pi_current i \<and>
     eligible n (pi_size i) (get0 (pi_reserved i) (pn_id n)) p"

definition candidates :: "(string \<Rightarrow> string \<Rightarrow> int) \<Rightarrow> placement_input \<Rightarrow> policy \<Rightarrow> cand list" where
  "candidates tb i p =
     map (\<lambda>n. (node_score tb (pi_cid i) n (get0 (pi_reserved i) (pn_id n)) (safety_margin_bytes p)
                 (get0 (pi_desired i) (pn_id n)) (get0 (pi_assigned i) (pn_id n)), n))
       (filter (is_candidate i p) (pi_nodes i))"

definition ranked :: "capacity_class \<Rightarrow> cand list \<Rightarrow> cand list" where
  "ranked c xs = sort_desc fst (filter (\<lambda>x. pn_class (snd x) = c) xs)"

definition choose_placements ::
  "(string \<Rightarrow> string \<Rightarrow> int) \<Rightarrow> placement_input \<Rightarrow> policy \<Rightarrow> string + pnode list" where
  "choose_placements tb i p =
     (case policy_validate p of
        Some e \<Rightarrow> Inl e
      | None \<Rightarrow>
          let cs = candidates tb i p;
              s0 = \<lparr>pl_chosen = [], pl_excluded = pi_current i,
                    pl_domains = node_failure_domain `
                      set (filter (\<lambda>n. pn_id n \<in> pi_current i) (pi_nodes i)),
                    pl_need_c = max 0 (committable_m p - pi_current_comm i),
                    pl_need_t = max 0 (replication_n p - pi_current_total i)\<rparr>;
              edge = ranked BestEffort cs;
              (s1, committable) = place_committable s0 (ranked Committable cs)
          in if pl_need_t s1 \<le> 0 then Inr (pl_chosen s1)
             else Inr (pl_chosen (foldl place_rest s1
                    (if prefer_edge_for_extra p then [edge, committable] else [committable, edge]))))"


section \<open>The selection loops\<close>

abbreviation ids :: "cand list \<Rightarrow> string list" where
  "ids xs \<equiv> map (\<lambda>x. pn_id (snd x)) xs"

abbreviation doms :: "cand list \<Rightarrow> string list" where
  "doms xs \<equiv> map (\<lambda>x. node_failure_domain (snd x)) xs"

lemma pop_set: "pop_domain_preferred pool D = Some (x, rest) \<Longrightarrow> set pool = insert x (set rest)"
  using pop_mset [of pool D x rest] by (metis set_mset_add_mset_insert set_mset_mset)

lemma pop_distinct_ids:
  assumes "pop_domain_preferred pool D = Some (x, rest)" "distinct (ids pool)"
  shows "distinct (ids rest)" "pn_id (snd x) \<notin> set (ids rest)"
proof -
  have "mset (ids pool) = mset (ids (x # rest))"
    using pop_mset [OF assms(1)] by simp
  then have "distinct (ids (x # rest))" using assms(2) mset_eq_imp_distinct_iff by blast
  then show "distinct (ids rest)" "pn_id (snd x) \<notin> set (ids rest)" by auto
qed

text \<open>The pop prefers a free failure domain whenever the pool has one.\<close>

lemma pop_prefers_new_domain:
  assumes "pop_domain_preferred pool D = Some (x, rest)"
    and "\<exists>y \<in> set pool. node_failure_domain (snd y) \<notin> D"
  shows "node_failure_domain (snd x) \<notin> D"
  using assms pop_first_None [of "\<lambda>item. node_failure_domain (snd item) \<notin> D" pool]
  by (auto simp: pop_domain_preferred_def dest: pop_first_holds split: option.splits)

lemma pl_take [simp]:
  "pl_chosen (take_node n s) = pl_chosen s @ [n]"
  "pl_excluded (take_node n s) = insert (pn_id n) (pl_excluded s)"
  "pl_domains (take_node n s) = insert (node_failure_domain n) (pl_domains s)"
  "pl_need_c (take_node n s) = pl_need_c s" "pl_need_t (take_node n s) = pl_need_t s"
  by (simp_all add: take_node_def)

lemma pop_Nil [simp]: "pop_domain_preferred [] D = None"
  by simp

lemma place_committable_cases:
  "place_committable s pool =
     (if pl_need_c s \<le> 0 \<or> pool = [] then (s, pool)
      else (case the (pop_domain_preferred pool (pl_domains s)) of
              ((sc, n), rest) \<Rightarrow> place_committable
                ((take_node n s)\<lparr>pl_need_c := pl_need_c s - 1,
                                 pl_need_t := max 0 (pl_need_t s - 1)\<rparr>) rest))"
  by (subst place_committable.simps) (force split: option.splits)

lemma place_rest_cases:
  "place_rest s pool =
     (if pl_need_t s \<le> 0 \<or> pool = [] then s
      else (case the (pop_domain_preferred pool (pl_domains s)) of
              ((sc, n), rest) \<Rightarrow>
                if pn_id n \<in> pl_excluded s then place_rest s rest
                else place_rest ((take_node n s)\<lparr>pl_need_t := pl_need_t s - 1\<rparr>) rest))"
  by (subst place_rest.simps) (force split: option.splits)

lemma pop_obtain:
  assumes "pool \<noteq> []"
  obtains sc n rest where "pop_domain_preferred pool D = Some ((sc, n), rest)"
  using assms pop_None [of pool D] by (metis not_None_eq surj_pair)

definition took :: "placing \<Rightarrow> cand list \<Rightarrow> placing \<Rightarrow> bool" where
  "took s taken s' \<longleftrightarrow>
     pl_chosen s' = pl_chosen s @ map snd taken \<and>
     pl_excluded s' = pl_excluded s \<union> set (ids taken) \<and>
     pl_domains s' = pl_domains s \<union> set (doms taken) \<and>
     pl_need_t s' = max 0 (pl_need_t s - int (length taken))"

lemma place_committable_took:
  assumes "place_committable s pool = (s', rest)" "0 \<le> pl_need_t s"
  shows "\<exists>taken. took s taken s' \<and> mset pool = mset taken + mset rest \<and>
           length taken = min (nat (pl_need_c s)) (length pool)"
  using assms
proof (induction "length pool" arbitrary: pool s)
  case 0
  then have "pool = []" "s' = s" "rest = []" by (auto simp: place_committable_cases)
  with 0 show ?case by (intro exI [of _ "[]"]) (auto simp: took_def)
next
  case (Suc k)
  show ?case
  proof (cases "pl_need_c s \<le> 0")
    case True
    with Suc.prems show ?thesis
      by (intro exI [of _ "[]"]) (auto simp: took_def place_committable_cases)
  next
    case False
    from Suc.hyps(2) have "pool \<noteq> []" by auto
    then obtain sc n r where r: "pop_domain_preferred pool (pl_domains s) = Some ((sc, n), r)"
      by (rule pop_obtain)
    let ?s = "(take_node n s)\<lparr>pl_need_c := pl_need_c s - 1, pl_need_t := max 0 (pl_need_t s - 1)\<rparr>"
    have step: "place_committable ?s r = (s', rest)"
      using Suc.prems(1) False \<open>pool \<noteq> []\<close> r place_committable_cases [of s pool] by simp
    have k: "k = length r" using pop_length [OF r] Suc.hyps(2) by simp
    obtain taken where t: "took ?s taken s'" "mset r = mset taken + mset rest"
        "length taken = min (nat (pl_need_c ?s)) (length r)"
      using Suc.hyps(1) [OF k step] by auto
    show ?thesis
    proof (intro exI conjI)
      show "took s ((sc, n) # taken) s'" using t(1) by (auto simp: took_def)
      show "mset pool = mset ((sc, n) # taken) + mset rest" using pop_mset [OF r] t(2) by simp
      show "length ((sc, n) # taken) = min (nat (pl_need_c s)) (length pool)"
        using t(3) False pop_length [OF r] by (simp add: nat_diff_distrib min_def) linarith
    qed
  qed
qed

lemma place_rest_took:
  assumes "0 \<le> pl_need_t s"
  shows "\<exists>taken. took s taken (place_rest s pool) \<and> set taken \<subseteq> set pool \<and>
           distinct (ids taken) \<and> set (ids taken) \<inter> pl_excluded s = {} \<and>
           int (length taken) \<le> pl_need_t s \<and>
           (distinct (ids pool) \<and> set (ids pool) \<inter> pl_excluded s = {} \<longrightarrow>
              length taken = min (nat (pl_need_t s)) (length pool))"
  using assms
proof (induction "length pool" arbitrary: pool s)
  case 0
  then show ?case by (intro exI [of _ "[]"]) (auto simp: took_def place_rest_cases)
next
  case (Suc k)
  show ?case
  proof (cases "pl_need_t s \<le> 0")
    case True
    with Suc.prems show ?thesis
      by (intro exI [of _ "[]"]) (auto simp: took_def place_rest_cases)
  next
    case False
    from Suc.hyps(2) have ne: "pool \<noteq> []" by auto
    then obtain sc n r where r: "pop_domain_preferred pool (pl_domains s) = Some ((sc, n), r)"
      by (rule pop_obtain)
    have k: "k = length r" using pop_length [OF r] Suc.hyps(2) by simp
    have sub: "set pool = insert (sc, n) (set r)" by (rule pop_set [OF r])
    show ?thesis
    proof (cases "pn_id n \<in> pl_excluded s")
      case True
      then have "place_rest s pool = place_rest s r"
        using False ne r place_rest_cases [of s pool] by simp
      then show ?thesis using Suc.hyps(1) [OF k Suc.prems] sub True by fastforce
    next
      case new: False
      let ?s = "(take_node n s)\<lparr>pl_need_t := pl_need_t s - 1\<rparr>"
      have step: "place_rest s pool = place_rest ?s r"
        using False ne r new place_rest_cases [of s pool] by simp
      obtain taken where t: "took ?s taken (place_rest ?s r)" "set taken \<subseteq> set r"
          "distinct (ids taken)" "set (ids taken) \<inter> pl_excluded ?s = {}"
          "int (length taken) \<le> pl_need_t ?s"
          "distinct (ids r) \<and> set (ids r) \<inter> pl_excluded ?s = {} \<longrightarrow>
             length taken = min (nat (pl_need_t ?s)) (length r)"
        using Suc.hyps(1) [OF k, of ?s] False by auto
      have "length ((sc, n) # taken) = min (nat (pl_need_t s)) (length pool)"
        if d: "distinct (ids pool)" "set (ids pool) \<inter> pl_excluded s = {}"
      proof -
        have "distinct (ids r)" "pn_id n \<notin> set (ids r)" using pop_distinct_ids [OF r d(1)] by auto
        moreover have "set (ids r) \<inter> pl_excluded s = {}" using d(2) sub by auto
        ultimately have "length taken = min (nat (pl_need_t ?s)) (length r)" using t(6) by auto
        then show ?thesis using False pop_length [OF r] by (simp add: nat_diff_distrib min_def) linarith
      qed
      moreover have "took s ((sc, n) # taken) (place_rest s pool)"
        using t(1) False unfolding step by (auto simp: took_def)
      ultimately show ?thesis
        using t(2,3,4,5) sub new by (intro exI [of _ "(sc, n) # taken"]) auto
    qed
  qed
qed


lemma took_trans: "took s xs s' \<Longrightarrow> took s' ys s'' \<Longrightarrow> took s (xs @ ys) s''"
  by (auto simp: took_def)

lemma place_rest_two:
  assumes "0 \<le> pl_need_t s" "distinct (ids (a @ b))" "set (ids (a @ b)) \<inter> pl_excluded s = {}"
  shows "\<exists>taken. took s taken (place_rest (place_rest s a) b) \<and> set taken \<subseteq> set (a @ b) \<and>
           distinct (ids taken) \<and> length taken = min (nat (pl_need_t s)) (length (a @ b))"
proof -
  let ?s = "place_rest s a"
  have da: "distinct (ids a) \<and> set (ids a) \<inter> pl_excluded s = {}" using assms(2,3) by auto
  obtain ta where ta: "took s ta ?s" "set ta \<subseteq> set a" "distinct (ids ta)"
      "length ta = min (nat (pl_need_t s)) (length a)"
    using place_rest_took [OF assms(1), of a] da by blast
  have need: "pl_need_t ?s = max 0 (pl_need_t s - int (length ta))"
    and ex: "pl_excluded ?s = pl_excluded s \<union> set (ids ta)"
    using ta(1) by (auto simp: took_def)
  have "set (ids ta) \<subseteq> set (ids a)" using ta(2) by auto
  moreover have "set (ids a) \<inter> set (ids b) = {}" "set (ids b) \<inter> pl_excluded s = {}" "distinct (ids b)"
    using assms(2,3) by auto
  ultimately have db: "distinct (ids b) \<and> set (ids b) \<inter> pl_excluded ?s = {}" unfolding ex by blast
  have "0 \<le> pl_need_t ?s" using need by simp
  then obtain tb where tb: "took ?s tb (place_rest ?s b)" "set tb \<subseteq> set b" "distinct (ids tb)"
      "set (ids tb) \<inter> pl_excluded ?s = {}" "length tb = min (nat (pl_need_t ?s)) (length b)"
    using place_rest_took [of ?s b] db by blast
  show ?thesis
  proof (intro exI conjI)
    show "took s (ta @ tb) (place_rest ?s b)" by (rule took_trans [OF ta(1) tb(1)])
    show "set (ta @ tb) \<subseteq> set (a @ b)" using ta(2) tb(2) by auto
    show "distinct (ids (ta @ tb))" using ta(3) tb(3,4) ex by auto
    show "length (ta @ tb) = min (nat (pl_need_t s)) (length (a @ b))"
      using ta(4) tb(5) need assms(1) unfolding length_append by linarith
  qed
qed

section \<open>What \<open>choose_placements\<close> returns\<close>

definition start_placing :: "placement_input \<Rightarrow> policy \<Rightarrow> placing" where
  "start_placing i p =
     \<lparr>pl_chosen = [], pl_excluded = pi_current i,
      pl_domains = node_failure_domain ` set (filter (\<lambda>n. pn_id n \<in> pi_current i) (pi_nodes i)),
      pl_need_c = max 0 (committable_m p - pi_current_comm i),
      pl_need_t = max 0 (replication_n p - pi_current_total i)\<rparr>"

definition avail :: "placement_input \<Rightarrow> policy \<Rightarrow> capacity_class \<Rightarrow> nat" where
  "avail i p c = length (filter (\<lambda>n. is_candidate i p n \<and> pn_class n = c) (pi_nodes i))"

lemma start_placing_simps [simp]:
  "pl_chosen (start_placing i p) = []" "pl_excluded (start_placing i p) = pi_current i"
  "pl_need_c (start_placing i p) = max 0 (committable_m p - pi_current_comm i)"
  "pl_need_t (start_placing i p) = max 0 (replication_n p - pi_current_total i)"
  by (simp_all add: start_placing_def)

lemma set_candidates:
  "x \<in> set (candidates tb i p) \<Longrightarrow> snd x \<in> set (pi_nodes i) \<and> is_candidate i p (snd x)"
  by (auto simp: candidates_def)

lemma ids_candidates: "ids (candidates tb i p) = map pn_id (filter (is_candidate i p) (pi_nodes i))"
  by (simp add: candidates_def comp_def)

lemma length_ranked: "length (ranked c (candidates tb i p)) = avail i p c"
  by (simp add: ranked_def candidates_def filter_map comp_def avail_def conj_commute)

lemma set_ranked: "set (ranked c xs) = {x \<in> set xs. pn_class (snd x) = c}"
  by (auto simp: ranked_def)

lemma distinct_ids_ranked: "distinct (ids xs) \<Longrightarrow> distinct (ids (ranked c xs))"
  by (simp add: ranked_def distinct_map_filter)

lemma distinct_ids_candidates:
  "distinct (map pn_id (pi_nodes i)) \<Longrightarrow> distinct (ids (candidates tb i p))"
  by (simp add: ids_candidates distinct_map_filter)

lemma candidate_not_current: "x \<in> set (candidates tb i p) \<Longrightarrow> pn_id (snd x) \<notin> pi_current i"
  by (auto dest!: set_candidates simp: is_candidate_def)

lemma place_rest_done: "pl_need_t s \<le> 0 \<Longrightarrow> place_rest s pool = s"
  by (simp add: place_rest_cases)

lemma eligible_iff:
  "eligible n osize r p \<longleftrightarrow> pn_enabled n \<and> pn_online n \<and> pn_class n \<noteq> UnknownClass \<and>
     osize \<le> effective_free_bytes n r (safety_margin_bytes p)"
  by (cases "pn_class n") (auto simp: eligible_def)

lemma choose_eq:
  assumes "policy_validate p = None"
    and "place_committable (start_placing i p) (ranked Committable (candidates tb i p)) = (s1, rest)"
  shows "choose_placements tb i p = Inr (pl_chosen (foldl place_rest s1
           (if prefer_edge_for_extra p then [ranked BestEffort (candidates tb i p), rest]
            else [rest, ranked BestEffort (candidates tb i p)])))"
  using assms unfolding choose_placements_def start_placing_def
  by (simp add: Let_def place_rest_done)

lemma distinct_filter_two:
  "distinct (map f xs) \<Longrightarrow> (\<And>x. \<not> (P x \<and> Q x)) \<Longrightarrow> distinct (map f (filter P xs @ filter Q xs))"
  by (induction xs) auto

lemma mset_ranked: "mset (ranked c xs) = mset (filter (\<lambda>x. pn_class (snd x) = c) xs)"
  by (simp add: ranked_def sort_desc_def)

lemma pools_distinct:
  assumes "distinct (ids cs)" "mset (t @ rest) = mset (ranked Committable cs)"
  shows "distinct (ids (t @ rest @ ranked BestEffort cs))"
proof -
  let ?xs = "filter (\<lambda>x. pn_class (snd x) = Committable) cs @ filter (\<lambda>x. pn_class (snd x) = BestEffort) cs"
  have "distinct (ids ?xs)" by (rule distinct_filter_two [OF assms(1)]) auto
  moreover have "mset (t @ rest @ ranked BestEffort cs) = mset ?xs"
    using assms(2) by (simp add: mset_ranked)
  then have "mset (ids (t @ rest @ ranked BestEffort cs)) = mset (ids ?xs)"
    by (simp only: mset_map)
  ultimately show ?thesis using mset_eq_imp_distinct_iff by blast
qed

text \<open>The whole result in terms of what the two loops took.\<close>

lemma choose_took:
  assumes "distinct (map pn_id (pi_nodes i))" "choose_placements tb i p = Inr ns"
  obtains t1 t2 where "ns = map snd (t1 @ t2)"
    and "set (t1 @ t2) \<subseteq> set (candidates tb i p)" and "distinct (ids (t1 @ t2))"
    and "\<forall>x \<in> set t1. pn_class (snd x) = Committable"
    and "length t1 = min (nat (committable_m p - pi_current_comm i)) (avail i p Committable)"
    and "length t2 = min (nat (replication_n p - pi_current_total i) - length t1)
                         (avail i p Committable + avail i p BestEffort - length t1)"
    and "policy_validate p = None"
proof -
  let ?cs = "candidates tb i p"
  let ?C = "ranked Committable ?cs" and ?E = "ranked BestEffort ?cs"
  from assms(2) have v: "policy_validate p = None"
    by (auto simp: choose_placements_def split: option.splits)
  obtain s1 rest where pc: "place_committable (start_placing i p) ?C = (s1, rest)" by fastforce
  obtain t1 where t1: "took (start_placing i p) t1 s1" "mset ?C = mset t1 + mset rest"
      "length t1 = min (nat (pl_need_c (start_placing i p))) (length ?C)"
    using place_committable_took [OF pc] by auto
  obtain a b where ab: "a @ b \<in> {rest @ ?E, ?E @ rest}"
      "choose_placements tb i p = Inr (pl_chosen (place_rest (place_rest s1 a) b))"
    using choose_eq [OF v pc] by (cases "prefer_edge_for_extra p") auto
  have eqs: "mset (t1 @ rest) = mset ?C" using t1(2) by simp
  have setC: "set t1 \<union> set rest = set ?C" using eqs by (metis set_append set_mset_mset)
  have dall: "distinct (ids (t1 @ rest @ ?E))"
    by (rule pools_distinct [OF distinct_ids_candidates [OF assms(1)] eqs])
  have s1: "pl_need_t s1 = max 0 (pl_need_t (start_placing i p) - int (length t1))"
      "pl_excluded s1 = pi_current i \<union> set (ids t1)" "pl_chosen s1 = map snd t1"
    using t1(1) by (auto simp: took_def)
  have sub: "set t1 \<union> set rest \<union> set ?E \<subseteq> set ?cs" unfolding setC by (auto simp: set_ranked)
  have mab: "mset (a @ b) = mset (rest @ ?E)" using ab(1) by (elim insertE) (simp_all only: mset_append add.commute empty_iff)
  have lab: "length (a @ b) = length rest + length ?E" and sab: "set (a @ b) = set rest \<union> set ?E"
    using mset_eq_length [OF mab] mset_eq_setD [OF mab] by auto
  have mids: "mset (ids (a @ b)) = mset (ids (rest @ ?E))" by (simp only: mset_map mab)
  have dab: "distinct (ids (a @ b))" using dall mset_eq_imp_distinct_iff [OF mids] by simp
  have "set (ids (a @ b)) \<inter> set (ids t1) = {}" using dall mset_eq_setD [OF mids] by auto
  moreover have "set (ids (a @ b)) \<inter> pi_current i = {}"
  proof -
    have "\<forall>x \<in> set (a @ b). pn_id (snd x) \<notin> pi_current i"
      using sab sub candidate_not_current by blast
    then show ?thesis by auto
  qed
  ultimately have "set (ids (a @ b)) \<inter> pl_excluded s1 = {}" unfolding s1(2) by blast
  then obtain t2 where t2: "took s1 t2 (place_rest (place_rest s1 a) b)" "set t2 \<subseteq> set (a @ b)"
      "distinct (ids t2)" "length t2 = min (nat (pl_need_t s1)) (length (a @ b))"
    using place_rest_two [of s1 a b] s1(1) dab by auto
  show thesis
  proof (rule that [of t1 t2])
    show "ns = map snd (t1 @ t2)" using ab(2) assms(2) t2(1) s1(3) by (simp add: took_def)
    show "set (t1 @ t2) \<subseteq> set ?cs" using sub t2(2) sab by auto
    have "set (ids t2) \<inter> set (ids t1) = {}"
      using \<open>set (ids (a @ b)) \<inter> set (ids t1) = {}\<close> t2(2) by auto
    then show "distinct (ids (t1 @ t2))" using dall t2(3) by auto
    show "length t1 = min (nat (committable_m p - pi_current_comm i)) (avail i p Committable)"
      using t1(3) by (simp add: length_ranked)
    have "length t1 + length rest = avail i p Committable"
      using eqs length_ranked by (metis length_append size_mset)
    then show "length t2 = min (nat (replication_n p - pi_current_total i) - length t1)
                     (avail i p Committable + avail i p BestEffort - length t1)"
      using t2(4) s1(1) lab length_ranked [of BestEffort tb i p]
      unfolding start_placing_simps by linarith
    show "\<forall>x \<in> set t1. pn_class (snd x) = Committable"
      using setC by (auto simp: set_ranked)
  qed (rule v)
qed


text \<open>
  With enough free failure domains the first loop never reuses one: each step takes one
  domain out of the free ones.
\<close>

lemma pop_free_domains:
  assumes "pop_domain_preferred pool D = Some (x, rest)"
  shows "set (doms pool) - insert (node_failure_domain (snd x)) D
           = set (doms rest) - insert (node_failure_domain (snd x)) D"
  using pop_set [OF assms] by auto

lemma place_committable_domains:
  assumes "place_committable s pool = (s', rest)" "0 \<le> pl_need_t s"
    and "nat (pl_need_c s) \<le> card (set (doms pool) - pl_domains s)"
  shows "\<exists>taken. pl_chosen s' = pl_chosen s @ map snd taken \<and> set taken \<subseteq> set pool \<and>
           length taken = nat (pl_need_c s) \<and>
           distinct (doms taken) \<and> set (doms taken) \<inter> pl_domains s = {}"
  using assms
proof (induction "length pool" arbitrary: pool s)
  case 0
  then show ?case by (intro exI [of _ "[]"]) (auto simp: place_committable_cases)
next
  case (Suc k)
  show ?case
  proof (cases "pl_need_c s \<le> 0")
    case True
    with Suc.prems show ?thesis by (intro exI [of _ "[]"]) (auto simp: place_committable_cases)
  next
    case False
    from Suc.hyps(2) have ne: "pool \<noteq> []" by auto
    then obtain sc n r where r: "pop_domain_preferred pool (pl_domains s) = Some ((sc, n), r)"
      by (rule pop_obtain)
    let ?d = "node_failure_domain n"
    let ?s = "(take_node n s)\<lparr>pl_need_c := pl_need_c s - 1, pl_need_t := max 0 (pl_need_t s - 1)\<rparr>"
    let ?free = "set (doms pool) - pl_domains s"
    have step: "place_committable ?s r = (s', rest)"
      using Suc.prems(1) False ne r place_committable_cases [of s pool] by simp
    have k: "k = length r" using pop_length [OF r] Suc.hyps(2) by simp
    have "?free \<noteq> {}" using Suc.prems(3) False by (metis card.empty le_zero_eq nat_0_iff)
    then have new: "?d \<notin> pl_domains s"
      using pop_prefers_new_domain [OF r] by fastforce
    have "?d \<in> ?free" using new pop_set [OF r] by auto
    moreover have "set (doms r) - pl_domains ?s = ?free - {?d}"
      using pop_free_domains [OF r] by auto
    ultimately have "nat (pl_need_c ?s) \<le> card (set (doms r) - pl_domains ?s)"
      using Suc.prems(3) False by simp
    then obtain taken where t: "pl_chosen s' = pl_chosen ?s @ map snd taken" "set taken \<subseteq> set r"
        "length taken = nat (pl_need_c ?s)" "distinct (doms taken)"
        "set (doms taken) \<inter> pl_domains ?s = {}"
      using Suc.hyps(1) [OF k step] by auto
    show ?thesis
      using t False new pop_set [OF r]
      by (intro exI [of _ "(sc, n) # taken"]) (auto simp: nat_diff_distrib Suc_nat_eq_nat_zadd1)
  qed
qed

definition occupied :: "placement_input \<Rightarrow> string set" where
  "occupied i = node_failure_domain ` set (filter (\<lambda>n. pn_id n \<in> pi_current i) (pi_nodes i))"

lemma start_domains [simp]: "pl_domains (start_placing i p) = occupied i"
  by (simp add: start_placing_def occupied_def)

lemma place_rest_extends: "0 \<le> pl_need_t s \<Longrightarrow> \<exists>ys. pl_chosen (place_rest s pool) = pl_chosen s @ ys"
  using place_rest_took [of s pool] by (auto simp: took_def)

lemma place_rest_two_extends:
  "0 \<le> pl_need_t s \<Longrightarrow> \<exists>ys. pl_chosen (place_rest (place_rest s a) b) = pl_chosen s @ ys"
  using place_rest_extends [of s a] place_rest_extends [of "place_rest s a" b] place_rest_took [of s a]
  by (auto simp: took_def)

section \<open>Properties\<close>

text \<open>C6: With distinct node ids, every node \<open>choose_placements\<close> returns is one of the given nodes,
  enabled, online, of a known capacity class, with room for the object after reservations and
  the safety margin, not already holding the object, and no node is returned twice.\<close>

theorem choose_placements_sound:
  assumes "distinct (map pn_id (pi_nodes i))" "choose_placements tb i p = Inr ns"
  shows "distinct (map pn_id ns) \<and>
         set ns \<subseteq> {n. n \<in> set (pi_nodes i) \<and> pn_id n \<noteq> [] \<and> pn_id n \<notin> pi_current i \<and>
                       pn_enabled n \<and> pn_online n \<and> pn_class n \<noteq> UnknownClass \<and>
                       pi_size i \<le> effective_free_bytes n (get0 (pi_reserved i) (pn_id n))
                                    (safety_margin_bytes p)}"
proof -
  obtain t1 t2 where t: "ns = map snd (t1 @ t2)" "set (t1 @ t2) \<subseteq> set (candidates tb i p)"
      "distinct (ids (t1 @ t2))"
    by (rule choose_took [OF assms]) (erule that; assumption)
  have "distinct (map pn_id ns)" using t(3) by (simp add: t(1) comp_def)
  moreover have "n \<in> set (pi_nodes i) \<and> is_candidate i p n" if "n \<in> set ns" for n
    using that t(1,2) set_candidates [of _ tb i p] by fastforce
  ultimately show ?thesis by (auto simp: is_candidate_def eligible_iff)
qed

text \<open> The number of nodes returned is exact: first the committable shortfall as far as committable
  candidates go, then the remaining total shortfall as far as any candidates go; so the policy's
  N and M are met whenever the candidates allow it, and never exceeded.\<close>

theorem choose_placements_counts:
  assumes "distinct (map pn_id (pi_nodes i))" "choose_placements tb i p = Inr ns"
  shows "let k = min (nat (committable_m p - pi_current_comm i)) (avail i p Committable) in
           length ns = k + min (nat (replication_n p - pi_current_total i) - k)
                              (avail i p Committable + avail i p BestEffort - k) \<and>
           k \<le> length (filter (\<lambda>n. pn_class n = Committable) ns)"
proof -
  obtain t1 t2 :: "cand list" where t: "ns = map snd (t1 @ t2)"
      "length t1 = min (nat (committable_m p - pi_current_comm i)) (avail i p Committable)"
      "length t2 = min (nat (replication_n p - pi_current_total i) - length t1)
                       (avail i p Committable + avail i p BestEffort - length t1)"
      "\<forall>x \<in> set t1. pn_class (snd x) = Committable"
    by (rule choose_took [OF assms]) (erule that; assumption)
  have "filter (\<lambda>n. pn_class n = Committable) (map snd t1) = map snd t1"
    using t(4) by (induction t1) auto
  then have "length t1 \<le> length (filter (\<lambda>n. pn_class n = Committable) ns)" by (simp add: t(1))
  moreover have "length ns = length t1 + length t2" by (simp add: t(1))
  ultimately show ?thesis unfolding Let_def t(2) [symmetric] t(3) by simp
qed

text \<open> When the committable candidates span at least as many free failure domains as the committable
  shortfall, the nodes chosen for that shortfall lie in pairwise different failure domains, none of
  which already holds a copy.\<close>

theorem choose_placements_diverse:
  assumes "choose_placements tb i p = Inr ns"
    and "k = nat (committable_m p - pi_current_comm i)"
    and "k \<le> card (node_failure_domain ` {n \<in> set (pi_nodes i). is_candidate i p n \<and> pn_class n = Committable}
                     - occupied i)"
  shows "length (take k ns) = k \<and> (\<forall>n \<in> set (take k ns). pn_class n = Committable) \<and>
         distinct (map node_failure_domain (take k ns)) \<and>
         set (map node_failure_domain (take k ns)) \<inter> occupied i = {}"
proof -
  let ?C = "ranked Committable (candidates tb i p)"
  from assms(1) have v: "policy_validate p = None"
    by (auto simp: choose_placements_def split: option.splits)
  obtain s1 rest where pc: "place_committable (start_placing i p) ?C = (s1, rest)" by fastforce
  have "snd ` set (candidates tb i p) = {n \<in> set (pi_nodes i). is_candidate i p n}"
    by (simp add: candidates_def image_image)
  then have "snd ` set ?C = {n \<in> set (pi_nodes i). is_candidate i p n \<and> pn_class n = Committable}"
    unfolding set_ranked by auto
  moreover have "set (doms ?C) = node_failure_domain ` snd ` set ?C" by (simp add: image_image)
  ultimately have "set (doms ?C) = node_failure_domain ` {n \<in> set (pi_nodes i). is_candidate i p n \<and> pn_class n = Committable}"
    by simp
  then have "nat (pl_need_c (start_placing i p)) \<le> card (set (doms ?C) - pl_domains (start_placing i p))"
    using assms(2,3) by simp
  from place_committable_domains [OF pc _ this] obtain taken where
      t: "pl_chosen s1 = map snd taken" "set taken \<subseteq> set ?C" "length taken = k"
      "distinct (doms taken)" "set (doms taken) \<inter> occupied i = {}"
    using assms(2) by auto
  have n1: "0 \<le> pl_need_t s1" using place_committable_took [OF pc] by (fastforce simp: took_def)
  have "\<exists>ys. ns = map snd taken @ ys"
  proof (cases "prefer_edge_for_extra p")
    case True
    then have "ns = pl_chosen (place_rest (place_rest s1 (ranked BestEffort (candidates tb i p))) rest)"
      using choose_eq [OF v pc] assms(1) by simp
    then show ?thesis using place_rest_two_extends [OF n1] t(1) by metis
  next
    case False
    then have "ns = pl_chosen (place_rest (place_rest s1 rest) (ranked BestEffort (candidates tb i p)))"
      using choose_eq [OF v pc] assms(1) by simp
    then show ?thesis using place_rest_two_extends [OF n1] t(1) by metis
  qed
  then have "take k ns = map snd taken" using t(3) by auto
  then show ?thesis using t by (auto simp: set_ranked comp_def)
qed


text \<open>A cluster of three committable nodes in two racks and one edge node, one of them already
  holding the object.\<close>

definition sample_node :: "string \<Rightarrow> capacity_class \<Rightarrow> string \<Rightarrow> pnode" where
  "sample_node i c d = \<lparr>pn_id = i, pn_class = c, pn_enabled = True, pn_online = True, pn_total = 1000,
     pn_used = 100, pn_stability = 5, pn_penalty = 0, pn_failure_domain = d, pn_provider = [],
     pn_region = [], pn_rack = []\<rparr>"

definition sample_input :: placement_input where
  "sample_input = \<lparr>pi_cid = ''c'', pi_size = 50,
     pi_nodes = [sample_node ''a'' Committable ''r1'', sample_node ''b'' Committable ''r1'',
                 sample_node ''d'' Committable ''r2'', sample_node ''e'' BestEffort []],
     pi_current = {''a''}, pi_current_comm = 1, pi_current_total = 1,
     pi_reserved = Map.empty, pi_desired = Map.empty, pi_assigned = Map.empty\<rparr>"

definition sample_policy :: policy where
  "sample_policy = \<lparr>replication_n = 3, committable_m = 2, prefer_edge_for_extra = True,
     safety_margin_bytes = 10\<rparr>"

lemma sample_choose:
  "choose_placements (\<lambda>c n. 0) sample_input sample_policy =
     Inr [sample_node ''d'' Committable ''r2'', sample_node ''e'' BestEffort []]"
  by code_simp

lemma sample_distinct: "distinct (map pn_id (pi_nodes sample_input))"
  by code_simp

theorem choose_placements_sound_witness:
  "distinct (map pn_id [sample_node ''d'' Committable ''r2'', sample_node ''e'' BestEffort []])"
  using choose_placements_sound [OF sample_distinct sample_choose] by blast

theorem choose_placements_counts_witness:
  "avail sample_input sample_policy Committable = 2 \<and> avail sample_input sample_policy BestEffort = 1 \<and>
   length [sample_node ''d'' Committable ''r2'', sample_node ''e'' BestEffort []] = (2 :: nat)"
  using choose_placements_counts [OF sample_distinct sample_choose] by code_simp

lemma sample_domains:
  "node_failure_domain ` {n \<in> set (pi_nodes sample_input). is_candidate sample_input sample_policy n \<and>
     pn_class n = Committable} - occupied sample_input = {''r2''}"
proof -
  have "{n \<in> set (pi_nodes sample_input). is_candidate sample_input sample_policy n \<and> pn_class n = Committable}
          = set (filter (\<lambda>n. is_candidate sample_input sample_policy n \<and> pn_class n = Committable)
                   (pi_nodes sample_input))" by auto
  then show ?thesis by (simp only:) (thin_tac "_ = _", code_simp)
qed

theorem choose_placements_diverse_witness:
  "distinct (map node_failure_domain (take 1 [sample_node ''d'' Committable ''r2'', sample_node ''e'' BestEffort []]))
   \<and> ''r2'' \<notin> occupied sample_input"
proof -
  have "1 = nat (committable_m sample_policy - pi_current_comm sample_input)" by code_simp
  from choose_placements_diverse [OF sample_choose this] have
    "distinct (map node_failure_domain (take 1 [sample_node ''d'' Committable ''r2'', sample_node ''e'' BestEffort []]))"
    unfolding sample_domains by simp
  moreover have "''r2'' \<notin> occupied sample_input" by code_simp
  ultimately show ?thesis by blast
qed

end
