(* ===== verification/Replication_Db.thy ===== *)
theory Replication_Db
  imports Json Replication_Policy
begin

text \<open>
  The replication store, \<open>replication/hb_replication_db.py\<close>: the tables as lists of
  row records (with the columns the v2.1.4 migration adds), and one function per method of
  \<open>ReplicationDB\<close>. A transaction that raises returns \<open>Inl\<close> and with it no new
  state, which is the rollback; a method that returns early commits what it wrote. Foreign key
  and primary key violations are \<open>IntegrityError\<close>. The clock \<open>now\<close> is read once per
  method, \<open>uuid4().hex\<close> is an argument, and rows with equal \<open>created_at\<close> are delivered
  in insertion order. The audit table keeps the detail value, not its JSON text.
\<close>

section \<open>Tables\<close>

datatype object_state = OPending | OHealthy | ODegradedCommittable | ODegradedTotal | OReleasePending

datatype replica_state = Assigned | Pinning | Pinned | Grace | Missing | Failed | Unpinned

datatype job_op = OpPin | OpVerify | OpUnpin | OpUnpinVerify

datatype job_state = JPending | JRetry | JAuthorized | JDone | JStale

datatype db_error =
    ValueError string
  | KeyErr string
  | RuntimeErr string
  | LifecycleConflict string
  | IntegrityError

text \<open>A node as the registry configures it.\<close>

record node_spec =
  ns_id :: string
  ns_name :: string
  ns_role :: string
  ns_class :: capacity_class
  ns_enabled :: bool
  ns_token :: string
  ns_failure_domain :: string
  ns_provider :: string
  ns_region :: string
  ns_rack :: string

record node_row =
  nd_id :: string
  nd_name :: string
  nd_role :: string
  nd_class :: capacity_class
  nd_enabled :: bool
  nd_last_seen :: int
  nd_last_pin_report :: int
  nd_total :: int
  nd_used :: int
  nd_stability :: int
  nd_penalty :: int
  nd_token :: string
  nd_metadata :: "node_spec option"
  nd_failure_domain :: string
  nd_provider :: string
  nd_region :: string
  nd_rack :: string

record obj_row =
  ob_cid :: string
  ob_size :: int
  ob_created :: int
  ob_n :: int
  ob_m :: int
  ob_state :: object_state
  ob_reason :: string
  ob_gen :: int
  ob_refcount :: int
  ob_released_at :: int

record ref_row =
  rf_id :: string
  rf_cid :: string
  rf_created :: int
  rf_released_at :: int
  rf_request :: string

record rep_row =
  rp_cid :: string
  rp_node :: string
  rp_desired :: bool
  rp_state :: replica_state
  rp_class :: capacity_class
  rp_assigned :: int
  rp_confirmed :: int
  rp_verified :: int
  rp_failure_since :: int
  rp_gen :: int
  rp_error :: string

record job_row =
  jb_id :: string
  jb_cid :: string
  jb_node :: string
  jb_op :: job_op
  jb_gen :: int
  jb_state :: job_state
  jb_attempts :: int
  jb_next :: int
  jb_lease :: int
  jb_created :: int
  jb_updated :: int
  jb_error :: string
  jb_reason :: string
  jb_authorized_at :: int

record audit_row =
  au_ts :: int
  au_cid :: string
  au_node :: string
  au_action :: string
  au_detail :: jobj

record db =
  db_nodes :: "node_row list"
  db_objects :: "obj_row list"
  db_refs :: "ref_row list"
  db_replicas :: "rep_row list"
  db_jobs :: "job_row list"
  db_audit :: "audit_row list"

definition empty_db :: db where
  "empty_db = \<lparr>db_nodes = [], db_objects = [], db_refs = [], db_replicas = [], db_jobs = [], db_audit = []\<rparr>"

abbreviation find_node :: "db \<Rightarrow> string \<Rightarrow> node_row option" where
  "find_node d k \<equiv> tbl_find nd_id k (db_nodes d)"

abbreviation find_obj :: "db \<Rightarrow> string \<Rightarrow> obj_row option" where
  "find_obj d k \<equiv> tbl_find ob_cid k (db_objects d)"

abbreviation find_ref :: "db \<Rightarrow> string \<Rightarrow> ref_row option" where
  "find_ref d k \<equiv> tbl_find rf_id k (db_refs d)"

abbreviation rep_key :: "rep_row \<Rightarrow> string \<times> string" where
  "rep_key r \<equiv> (rp_cid r, rp_node r)"

abbreviation find_rep :: "db \<Rightarrow> string \<Rightarrow> string \<Rightarrow> rep_row option" where
  "find_rep d c n \<equiv> tbl_find rep_key (c, n) (db_replicas d)"

abbreviation find_job :: "db \<Rightarrow> string \<Rightarrow> job_row option" where
  "find_job d k \<equiv> tbl_find jb_id k (db_jobs d)"

definition upd_nodes :: "(node_row list \<Rightarrow> node_row list) \<Rightarrow> db \<Rightarrow> db" where
  "upd_nodes f d = d\<lparr>db_nodes := f (db_nodes d)\<rparr>"

definition upd_objects :: "(obj_row list \<Rightarrow> obj_row list) \<Rightarrow> db \<Rightarrow> db" where
  "upd_objects f d = d\<lparr>db_objects := f (db_objects d)\<rparr>"

definition upd_refs :: "(ref_row list \<Rightarrow> ref_row list) \<Rightarrow> db \<Rightarrow> db" where
  "upd_refs f d = d\<lparr>db_refs := f (db_refs d)\<rparr>"

definition upd_replicas :: "(rep_row list \<Rightarrow> rep_row list) \<Rightarrow> db \<Rightarrow> db" where
  "upd_replicas f d = d\<lparr>db_replicas := f (db_replicas d)\<rparr>"

definition upd_jobs :: "(job_row list \<Rightarrow> job_row list) \<Rightarrow> db \<Rightarrow> db" where
  "upd_jobs f d = d\<lparr>db_jobs := f (db_jobs d)\<rparr>"

lemma upd_simps [simp]:
  "db_nodes (upd_nodes f0 d) = f0 (db_nodes d)"
  "db_objects (upd_nodes f0 d) = db_objects d"
  "db_refs (upd_nodes f0 d) = db_refs d"
  "db_replicas (upd_nodes f0 d) = db_replicas d"
  "db_jobs (upd_nodes f0 d) = db_jobs d"
  "db_audit (upd_nodes f0 d) = db_audit d"
  "db_nodes (upd_objects f1 d) = db_nodes d"
  "db_objects (upd_objects f1 d) = f1 (db_objects d)"
  "db_refs (upd_objects f1 d) = db_refs d"
  "db_replicas (upd_objects f1 d) = db_replicas d"
  "db_jobs (upd_objects f1 d) = db_jobs d"
  "db_audit (upd_objects f1 d) = db_audit d"
  "db_nodes (upd_refs f2 d) = db_nodes d"
  "db_objects (upd_refs f2 d) = db_objects d"
  "db_refs (upd_refs f2 d) = f2 (db_refs d)"
  "db_replicas (upd_refs f2 d) = db_replicas d"
  "db_jobs (upd_refs f2 d) = db_jobs d"
  "db_audit (upd_refs f2 d) = db_audit d"
  "db_nodes (upd_replicas f3 d) = db_nodes d"
  "db_objects (upd_replicas f3 d) = db_objects d"
  "db_refs (upd_replicas f3 d) = db_refs d"
  "db_replicas (upd_replicas f3 d) = f3 (db_replicas d)"
  "db_jobs (upd_replicas f3 d) = db_jobs d"
  "db_audit (upd_replicas f3 d) = db_audit d"
  "db_nodes (upd_jobs f4 d) = db_nodes d"
  "db_objects (upd_jobs f4 d) = db_objects d"
  "db_refs (upd_jobs f4 d) = db_refs d"
  "db_replicas (upd_jobs f4 d) = db_replicas d"
  "db_jobs (upd_jobs f4 d) = f4 (db_jobs d)"
  "db_audit (upd_jobs f4 d) = db_audit d"
  by (simp_all add: upd_nodes_def upd_objects_def upd_refs_def upd_replicas_def upd_jobs_def)

text \<open>The states a job that is still to run is in.\<close>

definition active_states :: "job_state set" where
  "active_states = {JPending, JRetry}"

section \<open>Audit and nodes\<close>

definition audit :: "int \<Rightarrow> string \<Rightarrow> string \<Rightarrow> string \<Rightarrow> jobj \<Rightarrow> db \<Rightarrow> db" where
  "audit now action cid node detail d =
     d\<lparr>db_audit := db_audit d @ [\<lparr>au_ts = now, au_cid = cid, au_node = node, au_action = action,
                                   au_detail = detail\<rparr>]\<rparr>"

lemma audit_simps [simp]:
  "db_nodes (audit t a c n x d) = db_nodes d" "db_objects (audit t a c n x d) = db_objects d"
  "db_refs (audit t a c n x d) = db_refs d" "db_replicas (audit t a c n x d) = db_replicas d"
  "db_jobs (audit t a c n x d) = db_jobs d"
  by (simp_all add: audit_def)

definition new_node_row :: "node_spec \<Rightarrow> node_row" where
  "new_node_row s = \<lparr>nd_id = ns_id s, nd_name = ns_name s, nd_role = ns_role s, nd_class = ns_class s,
     nd_enabled = ns_enabled s, nd_last_seen = 0, nd_last_pin_report = 0, nd_total = 0, nd_used = 0,
     nd_stability = 0, nd_penalty = 0, nd_token = ns_token s, nd_metadata = Some s,
     nd_failure_domain = [], nd_provider = [], nd_region = [], nd_rack = []\<rparr>"

definition upsert_node_base :: "node_spec \<Rightarrow> db \<Rightarrow> db" where
  "upsert_node_base s d =
     upd_nodes (tbl_upsert (\<lambda>r. nd_id r = ns_id s) (new_node_row s)
        (\<lambda>r. r\<lparr>nd_name := ns_name s, nd_role := ns_role s, nd_class := ns_class s,
               nd_enabled := ns_enabled s,
               nd_token := (if ns_token s \<noteq> [] then ns_token s else nd_token r),
               nd_metadata := Some s\<rparr>)) d"

definition heartbeat_db :: "int \<Rightarrow> string \<Rightarrow> int \<Rightarrow> int \<Rightarrow> db \<Rightarrow> db_error + db" where
  "heartbeat_db now node tot usd d =
     (if find_node d node = None then Inl (KeyErr (''unknown node_id: '' @ node))
      else Inr (upd_nodes (tbl_update (\<lambda>r. nd_id r = node)
                  (\<lambda>r. r\<lparr>nd_last_seen := now, nd_total := max 0 tot, nd_used := max 0 usd\<rparr>)) d))"

text \<open>\<open>ORDER BY node_id\<close>: node ids compare as text.\<close>

definition text_key :: "string \<Rightarrow> nat list" where
  "text_key s = map of_char s"

fun lex_le :: "nat list \<Rightarrow> nat list \<Rightarrow> bool" where
  "lex_le [] ys = True"
| "lex_le (x # xs) [] = False"
| "lex_le (x # xs) (y # ys) = (x < y \<or> x = y \<and> lex_le xs ys)"

fun insert_by :: "('a \<Rightarrow> 'a \<Rightarrow> bool) \<Rightarrow> 'a \<Rightarrow> 'a list \<Rightarrow> 'a list" where
  "insert_by le x [] = [x]"
| "insert_by le x (y # ys) = (if le x y then x # y # ys else y # insert_by le x ys)"

definition sort_by :: "('a \<Rightarrow> 'a \<Rightarrow> bool) \<Rightarrow> 'a list \<Rightarrow> 'a list" where
  "sort_by le xs = foldr (insert_by le) xs []"

definition nodes_db :: "db \<Rightarrow> node_row list" where
  "nodes_db d = sort_by (\<lambda>a b. lex_le (text_key (nd_id a)) (text_key (nd_id b))) (db_nodes d)"

section \<open>Objects and references\<close>

definition new_obj_row :: "int \<Rightarrow> string \<Rightarrow> int \<Rightarrow> int \<Rightarrow> int \<Rightarrow> obj_row" where
  "new_obj_row now cid sz n m = \<lparr>ob_cid = cid, ob_size = sz, ob_created = now, ob_n = n, ob_m = m,
     ob_state = OPending, ob_reason = [], ob_gen = 1, ob_refcount = 1, ob_released_at = 0\<rparr>"

text \<open>One more reference to a CID: a new object, or \<open>refcount + 1\<close> and the larger policy.\<close>

definition add_reference :: "int \<Rightarrow> string \<Rightarrow> int \<Rightarrow> int \<Rightarrow> int \<Rightarrow> db \<Rightarrow> db_error + db" where
  "add_reference now cid sz n m d =
     (case find_obj d cid of
        Some ob \<Rightarrow>
          if ob_size ob \<noteq> sz then Inl (ValueError ''CID size mismatch'')
          else Inr (upd_objects (tbl_update (\<lambda>r. ob_cid r = cid)
                 (\<lambda>r. r\<lparr>ob_refcount := ob_refcount r + 1, ob_n := max (ob_n r) n, ob_m := max (ob_m r) m\<rparr>)) d)
      | None \<Rightarrow> Inr (upd_objects (\<lambda>rs. rs @ [new_obj_row now cid sz n m]) d))"

definition new_rep_row :: "int \<Rightarrow> string \<Rightarrow> string \<Rightarrow> capacity_class \<Rightarrow> int \<Rightarrow> rep_row" where
  "new_rep_row now cid node cls gen = \<lparr>rp_cid = cid, rp_node = node, rp_desired = True, rp_state = Assigned,
     rp_class = cls, rp_assigned = now, rp_confirmed = 0, rp_verified = 0, rp_failure_since = 0,
     rp_gen = gen, rp_error = []\<rparr>"

text \<open>The node that uploaded the content holds a pinned replica.\<close>

definition record_source :: "int \<Rightarrow> string \<Rightarrow> string option \<Rightarrow> db \<Rightarrow> db_error + db" where
  "record_source now cid src d =
     (case src of None \<Rightarrow> Inr d | Some s \<Rightarrow>
       if s = [] then Inr d else
       (case find_node d s of
          None \<Rightarrow> Inl (KeyErr (''unknown source node: '' @ s))
        | Some node \<Rightarrow>
            (case find_obj d cid of None \<Rightarrow> Inl (RuntimeErr ''no such object'')
             | Some ob \<Rightarrow>
               Inr (upd_replicas (tbl_upsert (\<lambda>r. rep_key r = (cid, s))
                 ((new_rep_row now cid s (nd_class node) (ob_gen ob))
                    \<lparr>rp_state := Pinned, rp_confirmed := now, rp_verified := now\<rparr>)
                 (\<lambda>r. r\<lparr>rp_desired := True, rp_state := Pinned, rp_confirmed := now, rp_verified := now,
                        rp_gen := ob_gen ob, rp_error := []\<rparr>)) d))))"

record register_result =
  rr_cid :: string
  rr_ref :: "string option"
  rr_new :: bool

definition opt_text :: "string option \<Rightarrow> string" where
  "opt_text x = (case x of None \<Rightarrow> [] | Some s \<Rightarrow> s)"

definition take_reference :: "int \<Rightarrow> string \<Rightarrow> int \<Rightarrow> int \<Rightarrow> int \<Rightarrow> string option \<Rightarrow> db \<Rightarrow> db_error + bool \<times> db" where
  "take_reference now cid sz n m rid d =
     (case rid of
        None \<Rightarrow> bind_r (add_reference now cid sz n m d) (\<lambda>d1. Inr (True, d1))
      | Some r \<Rightarrow>
          (case find_ref d r of
             Some row \<Rightarrow>
               if rf_cid row \<noteq> cid then Inl (ValueError ''reference_id already belongs to a different CID'')
               else if find_obj d cid = None then Inl (RuntimeErr ''object reference exists without object'')
               else Inr (False, d)
           | None \<Rightarrow> bind_r (add_reference now cid sz n m d) (\<lambda>d1.
               Inr (True, upd_refs (\<lambda>rs. rs @
                 [\<lparr>rf_id = r, rf_cid = cid, rf_created = now, rf_released_at = 0, rf_request = []\<rparr>]) d1))))"

definition register_object_base ::
  "int \<Rightarrow> string \<Rightarrow> int \<Rightarrow> int \<Rightarrow> int \<Rightarrow> string option \<Rightarrow> string option \<Rightarrow> db \<Rightarrow> db_error + register_result \<times> db" where
  "register_object_base now cid sz n m src ref d =
     (let rid = norm_opt ref in
      bind_r (take_reference now cid sz n m rid d) (\<lambda>(created, d1).
      bind_r (record_source now cid src d1) (\<lambda>d2.
      Inr (\<lparr>rr_cid = cid, rr_ref = rid, rr_new = created\<rparr>,
           audit now ''OBJECT_REGISTER'' cid (opt_text src)
             [(''size_bytes'', JInt sz), (''n'', JInt n), (''m'', JInt m),
              (''reference_id'', JStr (opt_text rid)), (''new_reference'', JBool created)] d2))))"

record release_result =
  rl_ok :: bool
  rl_ref :: "string option"
  rl_refcount :: int
  rl_released :: bool
  rl_final :: bool
  rl_generation :: int

text \<open>The v2.1.3 release, which deletes the reference row; v2.1.4 overrides it.\<close>

definition release_object_base :: "int \<Rightarrow> string \<Rightarrow> string option \<Rightarrow> db \<Rightarrow> db_error + release_result \<times> db" where
  "release_object_base now cid ref d =
     (let rid = norm_opt ref;
          drop = (\<lambda>ob d1. let new_ref = max 0 (ob_refcount ob - 1) in
            Inr (\<lparr>rl_ok = True, rl_ref = rid, rl_refcount = new_ref, rl_released = True, rl_final = False,
                   rl_generation = 0\<rparr>,
                 audit now ''OBJECT_RELEASE'' cid [] [(''refcount'', JInt new_ref), (''reference_id'', JStr (opt_text rid))]
                   (upd_objects (tbl_update (\<lambda>r. ob_cid r = cid) (\<lambda>r. r\<lparr>ob_refcount := new_ref\<rparr>)) d1)))
      in case find_obj d cid of
           None \<Rightarrow> Inr (\<lparr>rl_ok = False, rl_ref = None, rl_refcount = 0, rl_released = False, rl_final = False,
                           rl_generation = 0\<rparr>, d)
         | Some ob \<Rightarrow>
             (case rid of
                None \<Rightarrow> drop ob d
              | Some r \<Rightarrow>
                  (case find_ref d r of
                     None \<Rightarrow> Inr (\<lparr>rl_ok = True, rl_ref = rid, rl_refcount = ob_refcount ob,
                                     rl_released = False, rl_final = False, rl_generation = 0\<rparr>, d)
                   | Some row \<Rightarrow>
                       if rf_cid row \<noteq> cid then Inl (ValueError ''reference_id belongs to a different CID'')
                       else drop ob (upd_refs (filter (\<lambda>x. rf_id x \<noteq> r)) d))))"

definition replica_rows :: "string \<Rightarrow> db \<Rightarrow> rep_row list" where
  "replica_rows cid d = filter (\<lambda>r. rp_cid r = cid) (db_replicas d)"

text \<open>\<open>object\<close>: the row with its replicas in node order.\<close>

definition object_db :: "string \<Rightarrow> db \<Rightarrow> (obj_row \<times> rep_row list) option" where
  "object_db cid d = map_option (\<lambda>ob. (ob, sort_by (\<lambda>a b. lex_le (text_key (rp_node a)) (text_key (rp_node b)))
                                            (replica_rows cid d))) (find_obj d cid)"

definition objects_db :: "db \<Rightarrow> obj_row list" where
  "objects_db d = sort_by (\<lambda>a b. ob_created a < ob_created b \<or>
       ob_created a = ob_created b \<and> lex_le (text_key (ob_cid a)) (text_key (ob_cid b))) (db_objects d)"

section \<open>Placement load\<close>

definition counts_for_load :: "rep_row \<Rightarrow> bool" where
  "counts_for_load r \<longleftrightarrow> rp_desired r \<and> rp_state r \<in> {Assigned, Pinning, Pinned, Grace}"

definition load_rows :: "string \<Rightarrow> db \<Rightarrow> (rep_row \<times> obj_row) list" where
  "load_rows node d =
     List.map_filter (\<lambda>r. if counts_for_load r \<and> rp_node r = node
                          then map_option (Pair r) (find_obj d (rp_cid r)) else None) (db_replicas d)"

text \<open>Bytes and number of the replicas of a node; \<open>None\<close> is a node without a group.\<close>

definition load_bytes :: "db \<Rightarrow> string \<Rightarrow> int option" where
  "load_bytes d node = (case load_rows node d of [] \<Rightarrow> None
                        | rs \<Rightarrow> Some (sum_list (map (\<lambda>(r, ob). ob_size ob) rs)))"

definition load_count :: "db \<Rightarrow> string \<Rightarrow> int option" where
  "load_count d node = (case load_rows node d of [] \<Rightarrow> None | rs \<Rightarrow> Some (int (length rs)))"

definition placement_load ::
  "db \<Rightarrow> (string \<Rightarrow> int option) \<times> (string \<Rightarrow> int option) \<times> (string \<Rightarrow> int option)" where
  "placement_load d = (load_bytes d, load_count d, load_bytes d)"

section \<open>Jobs\<close>

definition new_job :: "string \<Rightarrow> string \<Rightarrow> string \<Rightarrow> job_op \<Rightarrow> int \<Rightarrow> int \<Rightarrow> int \<Rightarrow> string \<Rightarrow> job_row" where
  "new_job jid cid node op gen nxt now reason = \<lparr>jb_id = jid, jb_cid = cid, jb_node = node, jb_op = op,
     jb_gen = gen, jb_state = JPending, jb_attempts = 0, jb_next = nxt, jb_lease = 0, jb_created = now,
     jb_updated = now, jb_error = [], jb_reason = reason, jb_authorized_at = 0\<rparr>"

text \<open>\<open>INSERT INTO jobs\<close> with its primary key and its two foreign keys.\<close>

definition insert_job :: "job_row \<Rightarrow> db \<Rightarrow> db_error + db" where
  "insert_job j d =
     (if find_job d (jb_id j) \<noteq> None \<or> find_obj d (jb_cid j) = None \<or> find_node d (jb_node j) = None
      then Inl IntegrityError else Inr (upd_jobs (\<lambda>js. js @ [j]) d))"

definition create_pin_assignment ::
  "int \<Rightarrow> string \<Rightarrow> string \<Rightarrow> string \<Rightarrow> capacity_class \<Rightarrow> db \<Rightarrow> db_error + string option \<times> db" where
  "create_pin_assignment now jid cid node cls d =
     (case find_obj d cid of
        None \<Rightarrow> Inl (KeyErr cid)
      | Some ob \<Rightarrow>
          if (case find_rep d cid node of None \<Rightarrow> False
              | Some r \<Rightarrow> rp_desired r \<and> rp_state r \<in> {Assigned, Pinning, Pinned, Grace})
          then Inr (None, d)
          else if find_node d node = None then Inl IntegrityError
          else
            let d1 = upd_replicas (tbl_upsert (\<lambda>r. rep_key r = (cid, node))
                       (new_rep_row now cid node cls (ob_gen ob))
                       (\<lambda>r. r\<lparr>rp_desired := True, rp_state := Assigned, rp_class := cls,
                              rp_assigned := now, rp_gen := ob_gen ob, rp_error := []\<rparr>)) d
            in if list_ex (\<lambda>j. jb_cid j = cid \<and> jb_node j = node \<and> jb_op j = OpPin \<and>
                               jb_gen j = ob_gen ob \<and> jb_state j \<in> active_states) (db_jobs d1)
               then Inr (None, d1)
               else bind_r (insert_job (new_job jid cid node OpPin (ob_gen ob) now now []) d1) (\<lambda>d2.
                    Inr (Some jid, audit now ''PIN_ASSIGNED'' cid node [(''generation'', JInt (ob_gen ob))] d2)))"

definition create_verify_job ::
  "int \<Rightarrow> string \<Rightarrow> string \<Rightarrow> string \<Rightarrow> int \<Rightarrow> db \<Rightarrow> db_error + string option \<times> db" where
  "create_verify_job now jid cid node gen d =
     (if list_ex (\<lambda>j. jb_cid j = cid \<and> jb_node j = node \<and> jb_op j = OpVerify \<and>
                      jb_state j \<in> active_states) (db_jobs d)
      then Inr (None, d)
      else bind_r (insert_job (new_job jid cid node OpVerify gen now now []) d) (\<lambda>d1. Inr (Some jid, d1)))"

text \<open>Delivery: the due jobs of a node, oldest first, each leased for 120 seconds.\<close>

definition due :: "int \<Rightarrow> string \<Rightarrow> job_row \<Rightarrow> bool" where
  "due now node j \<longleftrightarrow> jb_node j = node \<and> jb_state j \<in> active_states \<and> jb_next j \<le> now \<and>
     (jb_lease j = 0 \<or> jb_lease j \<le> now)"

definition sql_limit :: "int \<Rightarrow> 'a list \<Rightarrow> 'a list" where
  "sql_limit n xs = (if n < 0 then xs else take (nat n) xs)"

definition due_jobs :: "int \<Rightarrow> string \<Rightarrow> int \<Rightarrow> db \<Rightarrow> job_row list" where
  "due_jobs now node lmt d =
     sql_limit lmt (sort_key jb_created
       (filter (\<lambda>j. due now node j \<and> find_obj d (jb_cid j) \<noteq> None) (db_jobs d)))"

definition set_lease :: "int \<Rightarrow> int \<Rightarrow> string \<Rightarrow> db \<Rightarrow> db" where
  "set_lease now lease jid d =
     upd_jobs (tbl_update (\<lambda>j. jb_id j = jid) (\<lambda>j. j\<lparr>jb_lease := lease, jb_updated := now\<rparr>)) d"

definition pending_jobs_base :: "int \<Rightarrow> string \<Rightarrow> int \<Rightarrow> db \<Rightarrow> job_row list \<times> db" where
  "pending_jobs_base now node lmt d =
     (let rows = due_jobs now node lmt d; lease = now + 120
      in (map (\<lambda>j. j\<lparr>jb_lease := lease\<rparr>) rows, foldl (\<lambda>e j. set_lease now lease (jb_id j) e) d rows))"

section \<open>Reports\<close>

definition retry_delays :: "int list" where
  "retry_delays = [30, 60, 120, 300, 900, 1800]"

definition retry_delay :: "int \<Rightarrow> int" where
  "retry_delay attempts = retry_delays ! nat (min (attempts - 1) (int (length retry_delays) - 1))"

definition set_job :: "string \<Rightarrow> (job_row \<Rightarrow> job_row) \<Rightarrow> db \<Rightarrow> db" where
  "set_job jid f d = upd_jobs (tbl_update (\<lambda>j. jb_id j = jid) f) d"

definition set_rep :: "string \<Rightarrow> string \<Rightarrow> (rep_row \<Rightarrow> rep_row) \<Rightarrow> db \<Rightarrow> db" where
  "set_rep cid node f d = upd_replicas (tbl_update (\<lambda>r. rep_key r = (cid, node)) f) d"

definition stale_job :: "int \<Rightarrow> string \<Rightarrow> db \<Rightarrow> db" where
  "stale_job now jid d = set_job jid (\<lambda>j. j\<lparr>jb_state := JStale, jb_updated := now\<rparr>) d"

definition done_job :: "int \<Rightarrow> string \<Rightarrow> db \<Rightarrow> db" where
  "done_job now jid d =
     set_job jid (\<lambda>j. j\<lparr>jb_state := JDone, jb_lease := 0, jb_updated := now, jb_error := []\<rparr>) d"

text \<open>\<open>int(report.get("lease_until") or 0)\<close> and the error text of a report.\<close>

definition report_lease :: "jobj \<Rightarrow> db_error + int" where
  "report_lease r = (case py_int (py_or (jget r ''lease_until'') (JInt 0)) of
                       None \<Rightarrow> Inl (ValueError ''lease_until'') | Some k \<Rightarrow> Inr k)"

definition report_error :: "jobj \<Rightarrow> string \<Rightarrow> string" where
  "report_error r def = take 500 (py_str (py_or (jget r ''error'') (JStr def)))"

definition job_of :: "db \<Rightarrow> string \<Rightarrow> string \<Rightarrow> job_row option" where
  "job_of d jid node = (case find_job d jid of None \<Rightarrow> None
                        | Some j \<Rightarrow> if jb_node j = node then Some j else None)"

text \<open>\<open>None\<close> in place of the report state says the report was not applied (an early return).\<close>

definition apply_report_base :: "int \<Rightarrow> string \<Rightarrow> jobj \<Rightarrow> db \<Rightarrow> db_error + db" where
  "apply_report_base now node r d =
     (let jid = jtext r ''job_id''; st = jtext r ''state'' in
      case job_of d jid node of
        None \<Rightarrow> Inl (KeyErr (''unknown job '' @ jid))
      | Some job \<Rightarrow>
        let cid = jb_cid job;
            done = audit now ''JOB_REPORT'' cid node [(''job_id'', JStr jid), (''state'', JStr st)]
        in
        if (case find_obj d cid of None \<Rightarrow> True | Some ob \<Rightarrow> jb_gen job \<noteq> ob_gen ob)
        then Inr (stale_job now jid d)
        else bind_r (report_lease r) (\<lambda>lease.
          if (if lease \<noteq> 0 then jb_lease job = 0 \<or> lease \<noteq> jb_lease job else jb_lease job \<noteq> 0) then Inr d
          else if st = ''failed'' \<and> lease = 0 \<and> jb_state job = JRetry \<and> jb_next job > now then Inr d
          else if jb_state job = JDone \<and> (st = ''pinned'' \<or> st = ''verified'') then Inr d
          else if st = ''pinned'' then
            Inr (done (set_rep cid node (\<lambda>x. x\<lparr>rp_state := Pinned,
                   rp_confirmed := (if rp_confirmed x = 0 then now else rp_confirmed x),
                   rp_verified := now, rp_failure_since := 0, rp_error := []\<rparr>) (done_job now jid d)))
          else if st = ''verified'' then
            Inr (done (set_rep cid node (\<lambda>x. x\<lparr>rp_state := Pinned, rp_verified := now,
                   rp_failure_since := 0, rp_error := []\<rparr>) (done_job now jid d)))
          else if st = ''failed'' then
            (let attempts = jb_attempts job + 1; err = report_error r ''pin failed'' in
             Inr (done (set_rep cid node (\<lambda>x. x\<lparr>rp_state := Failed,
                    rp_failure_since := (if rp_failure_since x = 0 then now else rp_failure_since x),
                    rp_error := err\<rparr>)
                  (set_job jid (\<lambda>j. j\<lparr>jb_state := JRetry, jb_attempts := attempts,
                      jb_next := now + retry_delay attempts, jb_lease := 0, jb_updated := now,
                      jb_error := err\<rparr>) d))))
          else Inl (ValueError (''invalid job state: '' @ st))))"

section \<open>Replica state, object health, statistics\<close>

definition mark_replica_state :: "int \<Rightarrow> string \<Rightarrow> string \<Rightarrow> replica_state \<Rightarrow> string \<Rightarrow> db \<Rightarrow> db" where
  "mark_replica_state now cid node st err d =
     set_rep cid node (\<lambda>x. x\<lparr>rp_state := st, rp_error := take 500 err,
       rp_failure_since := (if st \<in> {Missing, Failed, Grace} \<and> rp_failure_since x = 0 then now
                            else if st = Pinned then 0 else rp_failure_since x)\<rparr>) d"

definition update_object_health :: "string \<Rightarrow> object_state \<Rightarrow> string \<Rightarrow> db \<Rightarrow> db" where
  "update_object_health cid st reason d =
     upd_objects (tbl_update (\<lambda>r. ob_cid r = cid) (\<lambda>r. r\<lparr>ob_state := st, ob_reason := take 200 reason\<rparr>)) d"

record db_stats =
  ds_total :: int
  ds_healthy :: int
  ds_degraded :: int
  ds_logical :: int
  ds_committable :: int
  ds_best_effort :: int
  ds_jobs :: int
  ds_jobs_pending :: int
  ds_jobs_done :: int

definition class_bytes :: "capacity_class \<Rightarrow> db \<Rightarrow> int" where
  "class_bytes c d = sum_list (map (\<lambda>r. if rp_state r = Pinned \<and> rp_class r = c
      then (case find_obj d (rp_cid r) of None \<Rightarrow> 0 | Some ob \<Rightarrow> ob_size ob) else 0) (db_replicas d))"

text \<open>SQL's \<open>SUM\<close> over no rows is \<open>NULL\<close> for the two unguarded object sums; here it is 0.\<close>

definition stats :: "db \<Rightarrow> db_stats" where
  "stats d = (let live = filter (\<lambda>ob. ob_refcount ob > 0) (db_objects d) in
     \<lparr>ds_total = int (length live), ds_healthy = tbl_count (\<lambda>ob. ob_state ob = OHealthy) live,
      ds_degraded = tbl_count (\<lambda>ob. ob_state ob \<noteq> OHealthy) live,
      ds_logical = sum_list (map ob_size live),
      ds_committable = class_bytes Committable d, ds_best_effort = class_bytes BestEffort d,
      ds_jobs = int (length (db_jobs d)),
      ds_jobs_pending = tbl_count (\<lambda>j. jb_state j \<in> active_states) (db_jobs d),
      ds_jobs_done = tbl_count (\<lambda>j. jb_state j = JDone) (db_jobs d)\<rparr>)"

end
