(* ===== verification/Replication_V214.thy ===== *)
theory Replication_V214
  imports Replication_Db
begin

text \<open>
  The v2.1.4 lifecycle: \<open>replication/hb_replication_v214_db.py\<close> and
  \<open>replication/hb_replication_v214_recovery.py\<close>, as overrides of the functions of
  \<open>Replication_Db\<close> in the order Python resolves them. An UNPIN job is planned, leased,
  authorised just before the agent removes the pin, and reported; registration and release move
  the generation of the object, which makes older jobs stale.
\<close>

section \<open>Nodes\<close>

definition upsert_node :: "node_spec \<Rightarrow> db \<Rightarrow> db" where
  "upsert_node s d =
     (let d1 = upsert_node_base s d
      in upd_nodes (tbl_update (\<lambda>r. nd_id r = ns_id s)
             (\<lambda>r. r\<lparr>nd_failure_domain := py_strip (ns_failure_domain s), nd_provider := py_strip (ns_provider s),
                    nd_region := py_strip (ns_region s), nd_rack := py_strip (ns_rack s)\<rparr>)) d1)"

section \<open>Registration and release\<close>

definition has_authorized :: "db \<Rightarrow> string \<Rightarrow> bool" where
  "has_authorized d cid \<longleftrightarrow>
     list_ex (\<lambda>j. jb_cid j = cid \<and> jb_op j = OpUnpin \<and> jb_state j = JAuthorized) (db_jobs d)"

text \<open>Every waiting job of a CID becomes stale; \<open>operation IN (..)\<close> names all operations.\<close>

definition stale_cid_jobs :: "int \<Rightarrow> string \<Rightarrow> db \<Rightarrow> db" where
  "stale_cid_jobs now cid d =
     upd_jobs (tbl_update (\<lambda>j. jb_cid j = cid \<and> jb_state j \<in> active_states)
                 (\<lambda>j. j\<lparr>jb_state := JStale, jb_updated := now\<rparr>)) d"

definition register_guard :: "string \<Rightarrow> int \<Rightarrow> int \<Rightarrow> db \<Rightarrow> db_error option" where
  "register_guard cid n m d =
     (case find_obj d cid of
        None \<Rightarrow> None
      | Some ob \<Rightarrow>
          if \<not> has_authorized d cid then None
          else if ob_refcount ob = 0 then Some (LifecycleConflict ''CID has an authorized UNPIN in progress'')
          else if n > ob_n ob \<or> m > ob_m ob
            then Some (LifecycleConflict ''replication policy cannot change during an authorized trim'')
          else None)"

text \<open>The second transaction of \<open>register_object\<close>: a released object comes back, or its policy grew.\<close>

definition after_register :: "int \<Rightarrow> string \<Rightarrow> (int \<times> int) option \<Rightarrow> db \<Rightarrow> db" where
  "after_register now cid old d =
     (case find_obj d cid of
        None \<Rightarrow> d
      | Some ob \<Rightarrow>
          let resurrected = ob_refcount ob > 0 \<and> ob_released_at ob \<noteq> 0;
              policy_changed = (case old of None \<Rightarrow> False | Some nm \<Rightarrow> (ob_n ob, ob_m ob) \<noteq> nm)
          in if resurrected \<or> policy_changed then
               let gen = ob_gen ob + 1;
                   d1 = upd_objects (tbl_update (\<lambda>r. ob_cid r = cid)
                          (\<lambda>r. r\<lparr>ob_gen := ob_gen r + 1, ob_released_at := 0, ob_state := OPending,
                                 ob_reason := []\<rparr>)) d;
                   d2 = (if resurrected
                         then upd_replicas (tbl_update (\<lambda>r. rp_cid r = cid \<and> rp_state r \<noteq> Unpinned)
                                (\<lambda>r. r\<lparr>rp_desired := True, rp_gen := gen\<rparr>)) d1
                         else upd_replicas (tbl_update (\<lambda>r. rp_cid r = cid) (\<lambda>r. r\<lparr>rp_gen := gen\<rparr>)) d1)
               in stale_cid_jobs now cid d2
             else d)"

definition register_object ::
  "int \<Rightarrow> string \<Rightarrow> int \<Rightarrow> int \<Rightarrow> int \<Rightarrow> string option \<Rightarrow> string option \<Rightarrow> db \<Rightarrow> db_error + register_result \<times> db" where
  "register_object now cid sz n m src ref d =
     (case register_guard cid n m d of
        Some e \<Rightarrow> Inl e
      | None \<Rightarrow>
          let old = map_option (\<lambda>ob. (ob_n ob, ob_m ob)) (find_obj d cid) in
          bind_r (register_object_base now cid sz n m src ref d) (\<lambda>(res, d1).
          Inr (res, after_register now cid old d1)))"

definition not_released :: "string option \<Rightarrow> int \<Rightarrow> release_result" where
  "not_released rid k = \<lparr>rl_ok = True, rl_ref = rid, rl_refcount = k, rl_released = False,
     rl_final = (k = 0), rl_generation = 0\<rparr>"

text \<open>The last reference is gone: the object waits for its copies to be removed.\<close>

definition final_release :: "int \<Rightarrow> string \<Rightarrow> int \<Rightarrow> db \<Rightarrow> db" where
  "final_release now cid gen d =
     stale_cid_jobs now cid
       (upd_replicas (tbl_update (\<lambda>r. rp_cid r = cid) (\<lambda>r. r\<lparr>rp_desired := False, rp_gen := gen\<rparr>))
         (upd_objects (tbl_update (\<lambda>r. ob_cid r = cid)
           (\<lambda>r. r\<lparr>ob_refcount := 0, ob_released_at := now, ob_state := OReleasePending,
                  ob_reason := ''logical references released'', ob_gen := ob_gen r + 1\<rparr>)) d))"

definition drop_reference ::
  "int \<Rightarrow> string \<Rightarrow> string option \<Rightarrow> string \<Rightarrow> string \<Rightarrow> obj_row \<Rightarrow> db \<Rightarrow> db_error + release_result \<times> db" where
  "drop_reference now cid rid request actor ob d =
     (let new_ref = max 0 (ob_refcount ob - 1);
          final = (new_ref = 0);
          gen = (if final then ob_gen ob + 1 else ob_gen ob);
          finish = (\<lambda>d1. Inr (\<lparr>rl_ok = True, rl_ref = rid, rl_refcount = new_ref, rl_released = True,
                                rl_final = final, rl_generation = gen\<rparr>,
            audit now ''OBJECT_RELEASE'' cid []
              [(''reference_id'', JStr (opt_text rid)), (''request_id'', JStr request), (''actor'', JStr actor),
               (''old_refcount'', JInt (ob_refcount ob)), (''new_refcount'', JInt new_ref),
               (''final_release'', JBool final), (''generation'', JInt gen)] d1))
      in if final
         then if has_authorized d cid
              then Inl (LifecycleConflict ''CID has an authorized trim in progress'')
              else finish (final_release now cid gen d)
         else finish (upd_objects (tbl_update (\<lambda>r. ob_cid r = cid) (\<lambda>r. r\<lparr>ob_refcount := new_ref\<rparr>)) d))"

definition release_object ::
  "int \<Rightarrow> string \<Rightarrow> string \<Rightarrow> string option \<Rightarrow> string option \<Rightarrow> string option \<Rightarrow> db \<Rightarrow> db_error + release_result \<times> db" where
  "release_object now uid cid ref req act d =
     (let rid = norm_opt ref;
          request = (case norm_opt req of None \<Rightarrow> uid | Some s \<Rightarrow> s);
          actor = py_strip (opt_text act)
      in case find_obj d cid of
           None \<Rightarrow> Inr (\<lparr>rl_ok = False, rl_ref = None, rl_refcount = 0, rl_released = False,
                           rl_final = False, rl_generation = 0\<rparr>, d)
         | Some ob \<Rightarrow>
             (case rid of
                None \<Rightarrow>
                  if ob_refcount ob \<le> 0 then Inr (not_released None 0, d)
                  else drop_reference now cid rid request actor ob d
              | Some r \<Rightarrow>
                  (case find_ref d r of
                     None \<Rightarrow> Inr (not_released rid (ob_refcount ob), d)
                   | Some row \<Rightarrow>
                       if rf_cid row \<noteq> cid then Inl (ValueError ''reference_id belongs to a different CID'')
                       else if rf_released_at row \<noteq> 0 then Inr (not_released rid (ob_refcount ob), d)
                       else drop_reference now cid rid request actor ob
                              (upd_refs (tbl_update (\<lambda>x. rf_id x = r)
                                   (\<lambda>x. x\<lparr>rf_released_at := now, rf_request := request\<rparr>)) d))))"

section \<open>Removing copies\<close>

definition trim_reason :: string where
  "trim_reason = ''trim-extra-replica''"

definition is_trim :: "job_row \<Rightarrow> bool" where
  "is_trim j \<longleftrightarrow> jb_reason j = trim_reason"

definition confirmed :: "string \<Rightarrow> rep_row \<Rightarrow> bool" where
  "confirmed cid r \<longleftrightarrow> rp_cid r = cid \<and> rp_desired r \<and> rp_state r = Pinned"

definition confirmed_total :: "db \<Rightarrow> string \<Rightarrow> int" where
  "confirmed_total d cid = tbl_count (confirmed cid) (db_replicas d)"

definition confirmed_comm :: "db \<Rightarrow> string \<Rightarrow> int" where
  "confirmed_comm d cid = tbl_count (\<lambda>r. confirmed cid r \<and> rp_class r = Committable) (db_replicas d)"

text \<open>The replicas that other authorised trims are about to remove (one row per job).\<close>

definition authorized_trims :: "db \<Rightarrow> string \<Rightarrow> string \<Rightarrow> rep_row list" where
  "authorized_trims d cid node =
     List.map_filter (\<lambda>j. if jb_cid j = cid \<and> jb_op j = OpUnpin \<and> is_trim j \<and> jb_state j = JAuthorized \<and>
                             jb_node j \<noteq> node
                          then find_rep d (jb_cid j) (jb_node j) else None) (db_jobs d)"

definition trim_capacity :: "db \<Rightarrow> string \<Rightarrow> string \<Rightarrow> int \<Rightarrow> bool \<Rightarrow> bool" where
  "trim_capacity d cid node gen include_authorized =
     (case find_obj d cid of
        None \<Rightarrow> False
      | Some ob \<Rightarrow>
          if ob_refcount ob \<le> 0 \<or> ob_gen ob \<noteq> gen then False
          else case find_rep d cid node of
            None \<Rightarrow> False
          | Some target \<Rightarrow>
              if \<not> rp_desired target \<or> rp_state target \<noteq> Pinned then False
              else
                let auth = (if include_authorized then authorized_trims d cid node else []);
                    total = confirmed_total d cid - int (length auth);
                    comm = confirmed_comm d cid - tbl_count (\<lambda>r. rp_class r = Committable) auth;
                    total_after = total - 1;
                    comm_after = comm - (if rp_class target = Committable then 1 else 0)
                in ob_n ob \<le> total_after \<and> ob_m ob \<le> comm_after)"

definition unpin_states :: "job_state set" where
  "unpin_states = {JPending, JRetry, JAuthorized}"

definition active_trims :: "db \<Rightarrow> string \<Rightarrow> int" where
  "active_trims d cid =
     tbl_count (\<lambda>j. jb_cid j = cid \<and> jb_op j = OpUnpin \<and> is_trim j \<and> jb_state j \<in> unpin_states) (db_jobs d)"

definition create_unpin_job ::
  "int \<Rightarrow> string \<Rightarrow> string \<Rightarrow> string \<Rightarrow> int \<Rightarrow> string \<Rightarrow> int \<Rightarrow> db \<Rightarrow> db_error + string option \<times> db" where
  "create_unpin_job now jid cid node gen reason0 not_before d =
     (let reason = take 200 reason0 in
      case find_obj d cid of
        None \<Rightarrow> Inr (None, d)
      | Some ob \<Rightarrow>
          if ob_gen ob \<noteq> gen then Inr (None, d)
          else if (if reason = trim_reason
                   then confirmed_total d cid - active_trims d cid \<le> ob_n ob \<or>
                        \<not> trim_capacity d cid node gen False
                   else ob_refcount ob \<noteq> 0)
          then Inr (None, d)
          else if list_ex (\<lambda>j. jb_cid j = cid \<and> jb_node j = node \<and> jb_op j = OpUnpin \<and>
                               jb_gen j = gen \<and> jb_state j \<in> unpin_states) (db_jobs d)
          then Inr (None, d)
          else bind_r (insert_job (new_job jid cid node OpUnpin gen (max now not_before) now reason) d) (\<lambda>d1.
               Inr (Some jid, audit now ''UNPIN_PLANNED'' cid node
                      [(''job_id'', JStr jid), (''generation'', JInt gen), (''reason'', JStr reason)] d1)))"

datatype unpin_answer = Authorized string int | Denied string

text \<open>The just-in-time authorisation; a refused job of the node becomes stale.\<close>

definition authorize_unpin :: "int \<Rightarrow> string \<Rightarrow> string \<Rightarrow> int \<Rightarrow> db \<Rightarrow> unpin_answer \<times> db" where
  "authorize_unpin now node jid lease d =
     (case job_of d jid node of
        None \<Rightarrow> (Denied ''unknown-job'', d)
      | Some job \<Rightarrow>
          if jb_op job \<noteq> OpUnpin then (Denied ''unknown-job'', d)
          else
            let lease_ok = (jb_lease job = lease);
                state_ok = (jb_state job \<in> active_states);
                lifecycle_ok =
                  (case find_obj d (jb_cid job) of
                     None \<Rightarrow> False
                   | Some ob \<Rightarrow> ob_gen ob = jb_gen job \<and>
                       (if is_trim job then trim_capacity d (jb_cid job) node (jb_gen job) True
                        else ob_refcount ob = 0))
            in if lease_ok \<and> state_ok \<and> lifecycle_ok
               then (Authorized (jb_cid job) (jb_gen job),
                     set_job jid (\<lambda>j. j\<lparr>jb_state := JAuthorized, jb_authorized_at := now, jb_updated := now\<rparr>) d)
               else (Denied ''stale-or-policy-unsafe'', stale_job now jid d))"

definition pending_jobs :: "int \<Rightarrow> string \<Rightarrow> int \<Rightarrow> job_op list option \<Rightarrow> db \<Rightarrow> job_row list \<times> db" where
  "pending_jobs now node lmt allowed d =
     (case pending_jobs_base now node lmt d of
        (js, d1) \<Rightarrow> (case allowed of None \<Rightarrow> (js, d1) | Some ops \<Rightarrow> (filter (\<lambda>j. jb_op j \<in> set ops) js, d1)))"

definition unpinned_rep :: "string \<Rightarrow> string \<Rightarrow> db \<Rightarrow> db" where
  "unpinned_rep cid node d =
     set_rep cid node (\<lambda>x. x\<lparr>rp_state := Unpinned, rp_desired := False, rp_error := []\<rparr>) d"

definition apply_report_v214 :: "int \<Rightarrow> string \<Rightarrow> jobj \<Rightarrow> db \<Rightarrow> db_error + db" where
  "apply_report_v214 now node r d =
     (let jid = jtext r ''job_id''; st = jtext r ''state'' in
      case job_of d jid node of
        None \<Rightarrow> apply_report_base now node r d
      | Some job \<Rightarrow>
        if jb_op job \<noteq> OpUnpin then apply_report_base now node r d
        else
          let cid = jb_cid job;
              done = audit now ''UNPIN_REPORT'' cid node
                [(''job_id'', JStr jid), (''state'', JStr st), (''generation'', JInt (jb_gen job))]
          in bind_r (report_lease r) (\<lambda>lease.
             if \<not> (case find_obj d cid of None \<Rightarrow> False
                   | Some ob \<Rightarrow> ob_gen ob = jb_gen job \<and> (is_trim job \<or> ob_refcount ob = 0))
             then Inr (stale_job now jid d)
             else if jb_lease job \<noteq> lease \<or> jb_state job \<noteq> JAuthorized then Inr d
             else if st = ''unpinned'' then Inr (done (unpinned_rep cid node (done_job now jid d)))
             else if st = ''failed'' then
               (let attempts = jb_attempts job + 1; err = report_error r ''unpin failed'' in
                Inr (done (set_job jid (\<lambda>j. j\<lparr>jb_state := JRetry, jb_attempts := attempts,
                       jb_next := now + retry_delay attempts, jb_lease := 0, jb_authorized_at := 0,
                       jb_updated := now, jb_error := err\<rparr>) d)))
             else Inl (ValueError (''invalid UNPIN report state: '' @ st))))"

section \<open>Recovery\<close>

definition active_unpin_nodes :: "string \<Rightarrow> string \<Rightarrow> db \<Rightarrow> string list" where
  "active_unpin_nodes cid reason d =
     remdups (map jb_node (filter (\<lambda>j. jb_cid j = cid \<and> jb_op j = OpUnpin \<and> (reason = [] \<or> jb_reason j = reason) \<and>
                              jb_state j \<in> unpin_states) (db_jobs d)))"

text \<open>One interrupted UNPIN: it is stale, and the node is asked whether the copy is still there.\<close>

definition recover_job :: "int \<Rightarrow> string \<Rightarrow> job_row \<Rightarrow> db \<Rightarrow> db_error + db" where
  "recover_job now verify_id job d =
     (let d1 = stale_job now (jb_id job) d in
      if list_ex (\<lambda>j. jb_cid j = jb_cid job \<and> jb_node j = jb_node job \<and> jb_op j = OpUnpinVerify \<and>
                      jb_gen j = jb_gen job \<and> jb_state j \<in> active_states) (db_jobs d1)
      then Inr d1
      else insert_job (new_job verify_id (jb_cid job) (jb_node job) OpUnpinVerify (jb_gen job) 0 now
                         ''recover-authorized-unpin'') d1)"

fun recover_jobs :: "int \<Rightarrow> (nat \<Rightarrow> string) \<Rightarrow> job_row list \<Rightarrow> db \<Rightarrow> db_error + db" where
  "recover_jobs now uid [] d = Inr d"
| "recover_jobs now uid (j # js) d = bind_r (recover_job now (uid (length js)) j d) (recover_jobs now uid js)"

definition authorized_unpins :: "db \<Rightarrow> job_row list" where
  "authorized_unpins d = filter (\<lambda>j. jb_op j = OpUnpin \<and> jb_state j = JAuthorized) (db_jobs d)"

definition recover_v214 :: "int \<Rightarrow> (nat \<Rightarrow> string) \<Rightarrow> db \<Rightarrow> db_error + db" where
  "recover_v214 now uid d =
     (let rows = authorized_unpins d in
      bind_r (recover_jobs now uid rows d) (\<lambda>d1.
      Inr (if rows = [] then d1
           else audit now ''RECOVERY_UNPIN_VERIFY'' [] [] [(''count'', JInt (int (length rows)))] d1)))"

definition apply_job_report :: "int \<Rightarrow> string \<Rightarrow> jobj \<Rightarrow> db \<Rightarrow> db_error + db" where
  "apply_job_report now node r d =
     (let jid = jtext r ''job_id''; st = jtext r ''state'' in
      case job_of d jid node of
        None \<Rightarrow> apply_report_v214 now node r d
      | Some job \<Rightarrow>
        if jb_op job \<noteq> OpUnpinVerify then apply_report_v214 now node r d
        else
          let cid = jb_cid job;
              done = audit now ''UNPIN_VERIFY_REPORT'' cid node
                [(''job_id'', JStr jid), (''state'', JStr st), (''generation'', JInt (jb_gen job))]
          in bind_r (report_lease r) (\<lambda>lease.
             if (case find_obj d cid of None \<Rightarrow> True
                 | Some ob \<Rightarrow> ob_refcount ob \<noteq> 0 \<or> ob_gen ob \<noteq> jb_gen job)
             then Inr (stale_job now jid d)
             else if jb_lease job \<noteq> lease then Inr d
             else if st = ''unpinned'' then Inr (done (unpinned_rep cid node (done_job now jid d)))
             else if st = ''verified'' then
               Inr (done (set_rep cid node (\<lambda>x. x\<lparr>rp_state := Pinned, rp_desired := False,
                      rp_verified := now, rp_error := []\<rparr>) (done_job now jid d)))
             else if st = ''failed'' then
               (let attempts = jb_attempts job + 1; err = report_error r ''unpin verification failed'' in
                Inr (done (set_job jid (\<lambda>j. j\<lparr>jb_state := JRetry, jb_attempts := attempts,
                       jb_next := now + retry_delay attempts, jb_lease := 0, jb_updated := now,
                       jb_error := err\<rparr>) d)))
             else Inl (ValueError (''invalid UNPIN_VERIFY report state: '' @ st))))"

end
