(* ===== verification/Replication_Invariant.thy ===== *)
theory Replication_Invariant
  imports Replication_V214
begin

text \<open>
  The transitions of the replication store as one step relation, and its invariants: keys and
  foreign keys, and the life cycle of a CID (reference count, generation, release time, and what
  every authorised UNPIN job may rely on).
\<close>

section \<open>Steps\<close>

inductive db_step :: "db \<Rightarrow> db \<Rightarrow> bool" where
  st_node: "db_step d (upsert_node s d)"
| st_heartbeat: "heartbeat_db now node tot usd d = Inr d' \<Longrightarrow> db_step d d'"
| st_register: "0 < now \<Longrightarrow> register_object now cid sz n m src ref d = Inr (res, d') \<Longrightarrow> db_step d d'"
| st_release: "0 < now \<Longrightarrow> release_object now uid cid ref req act d = Inr (rel, d') \<Longrightarrow> db_step d d'"
| st_pin: "create_pin_assignment now jid cid node cls d = Inr (a, d') \<Longrightarrow> db_step d d'"
| st_verify: "create_verify_job now jid cid node gen d = Inr (a, d') \<Longrightarrow> db_step d d'"
| st_unpin: "create_unpin_job now jid cid node gen reason nb d = Inr (a, d') \<Longrightarrow> db_step d d'"
| st_authorize: "authorize_unpin now node jid lease d = (answer, d') \<Longrightarrow> db_step d d'"
| st_pending: "pending_jobs now node lmt ops d = (js, d') \<Longrightarrow> db_step d d'"
| st_report: "apply_job_report now node r d = Inr d' \<Longrightarrow> db_step d d'"
| st_mark: "db_step d (mark_replica_state now cid node st err d)"
| st_health: "db_step d (update_object_health cid ost reason d)"
| st_recover: "recover_v214 now uidf d = Inr d' \<Longrightarrow> db_step d d'"
| st_audit: "db_step d (audit now action cid node detail d)"

inductive db_reachable :: "db \<Rightarrow> bool" where
  reach_empty: "db_reachable empty_db"
| reach_step: "db_reachable d \<Longrightarrow> db_step d d' \<Longrightarrow> db_reachable d'"

section \<open>Keys and foreign keys\<close>

definition node_ids :: "db \<Rightarrow> string set" where
  "node_ids d = nd_id ` set (db_nodes d)"

definition cids :: "db \<Rightarrow> string set" where
  "cids d = ob_cid ` set (db_objects d)"

definition db_wf :: "db \<Rightarrow> bool" where
  "db_wf d \<longleftrightarrow>
     distinct (map nd_id (db_nodes d)) \<and> distinct (map ob_cid (db_objects d)) \<and>
     distinct (map rf_id (db_refs d)) \<and> distinct (map rep_key (db_replicas d)) \<and>
     distinct (map jb_id (db_jobs d)) \<and>
     (\<forall>r \<in> set (db_refs d). rf_cid r \<in> cids d) \<and>
     (\<forall>r \<in> set (db_replicas d). rp_cid r \<in> cids d \<and> rp_node r \<in> node_ids d) \<and>
     (\<forall>j \<in> set (db_jobs d). jb_cid j \<in> cids d \<and> jb_node j \<in> node_ids d)"

lemma find_obj_cids: "find_obj d c = None \<longleftrightarrow> c \<notin> cids d"
  by (simp add: tbl_find_None cids_def)

lemma find_node_ids: "find_node d k = None \<longleftrightarrow> k \<notin> node_ids d"
  by (simp add: tbl_find_None node_ids_def)

lemma find_obj_Some_cids: "find_obj d c = Some ob \<Longrightarrow> c \<in> cids d"
  using find_obj_cids [of c d] by auto

lemma find_node_Some_ids: "find_node d k = Some nd \<Longrightarrow> k \<in> node_ids d"
  using find_node_ids [of k d] by auto

lemma db_wf_audit [simp]: "db_wf (audit t a c n x d) = db_wf d"
  by (simp add: db_wf_def cids_def node_ids_def)

lemma image_key_tbl_update:
  "(\<And>r. sel r \<Longrightarrow> key (f r) = key r) \<Longrightarrow> key ` set (tbl_update sel f rows) = key ` set rows"
  by (metis list.set_map map_key_tbl_update)

lemma db_wf_objects:
  "(\<And>r. ob_cid (f r) = ob_cid r) \<Longrightarrow> db_wf (upd_objects (tbl_update sel f) d) = db_wf d"
  by (simp add: db_wf_def cids_def node_ids_def map_key_tbl_update image_key_tbl_update)

lemma db_wf_nodes:
  "(\<And>r. nd_id (f r) = nd_id r) \<Longrightarrow> db_wf (upd_nodes (tbl_update sel f) d) = db_wf d"
  by (simp add: db_wf_def cids_def node_ids_def map_key_tbl_update image_key_tbl_update)

lemma db_wf_refs:
  "(\<And>r. rf_id (f r) = rf_id r \<and> rf_cid (f r) = rf_cid r) \<Longrightarrow>
   db_wf (upd_refs (tbl_update sel f) d) = db_wf d"
  by (simp add: db_wf_def cids_def node_ids_def map_key_tbl_update ball_tbl_update if_distrib cong: if_cong)

lemma db_wf_replicas:
  "(\<And>r. rp_cid (f r) = rp_cid r \<and> rp_node (f r) = rp_node r) \<Longrightarrow>
   db_wf (upd_replicas (tbl_update sel f) d) = db_wf d"
  by (simp add: db_wf_def cids_def node_ids_def map_key_tbl_update ball_tbl_update if_distrib cong: if_cong)

lemma db_wf_jobs:
  "(\<And>j. jb_id (f j) = jb_id j \<and> jb_cid (f j) = jb_cid j \<and> jb_node (f j) = jb_node j) \<Longrightarrow>
   db_wf (upd_jobs (tbl_update sel f) d) = db_wf d"
  by (simp add: db_wf_def cids_def node_ids_def map_key_tbl_update ball_tbl_update if_distrib cong: if_cong)

lemmas db_wf_updates = db_wf_objects db_wf_nodes db_wf_refs db_wf_replicas db_wf_jobs

lemma db_wf_set_job:
  "(\<And>j. jb_id (f j) = jb_id j \<and> jb_cid (f j) = jb_cid j \<and> jb_node (f j) = jb_node j) \<Longrightarrow>
   db_wf (set_job k f d) = db_wf d"
  by (simp add: set_job_def db_wf_jobs)

lemma db_wf_set_rep:
  "(\<And>r. rp_cid (f r) = rp_cid r \<and> rp_node (f r) = rp_node r) \<Longrightarrow> db_wf (set_rep c n f d) = db_wf d"
  by (simp add: set_rep_def db_wf_replicas)

lemma db_wf_small [simp]:
  "db_wf (stale_job now jid d) = db_wf d" "db_wf (done_job now jid d) = db_wf d"
  "db_wf (stale_cid_jobs now cid d) = db_wf d" "db_wf (unpinned_rep cid node d) = db_wf d"
  "db_wf (mark_replica_state now cid node st err d) = db_wf d"
  "db_wf (update_object_health cid ost reason d) = db_wf d" "db_wf (set_lease now l jid d) = db_wf d"
  by (simp_all add: stale_job_def done_job_def stale_cid_jobs_def unpinned_rep_def mark_replica_state_def
      update_object_health_def set_lease_def db_wf_set_job db_wf_set_rep db_wf_updates)

lemma db_wf_insert_job: "insert_job j d = Inr d' \<Longrightarrow> db_wf d \<Longrightarrow> db_wf d'"
  by (auto simp: insert_job_def db_wf_def cids_def node_ids_def tbl_find_None split: if_splits
      dest!: tbl_find_SomeD)

lemma db_wf_upsert_replica:
  assumes "db_wf d" "cid \<in> cids d" "node \<in> node_ids d" "rep_key new = (cid, node)"
    and "\<And>r. rp_cid (f r) = rp_cid r \<and> rp_node (f r) = rp_node r"
  shows "db_wf (upd_replicas (tbl_upsert (\<lambda>r. rep_key r = (cid, node)) new f) d)"
proof -
  have "distinct (map rep_key (tbl_upsert (\<lambda>r. rep_key r = (cid, node)) new f (db_replicas d)))"
    using assms by (intro distinct_tbl_upsert [where k = "(cid, node)"]) (auto simp: db_wf_def)
  moreover have "\<forall>r \<in> set (tbl_upsert (\<lambda>r. rep_key r = (cid, node)) new f (db_replicas d)).
      rp_cid r \<in> cids d \<and> rp_node r \<in> node_ids d"
    using assms by (intro ball_tbl_upsert) (auto simp: db_wf_def)
  ultimately show ?thesis using assms(1) by (simp add: db_wf_def cids_def node_ids_def)
qed

lemma db_wf_upsert_replica':
  "db_wf d \<Longrightarrow> cid \<in> cids d \<Longrightarrow> node \<in> node_ids d \<Longrightarrow> rep_key new = (cid, node) \<Longrightarrow>
   (\<And>r. rp_cid (f r) = rp_cid r \<and> rp_node (f r) = rp_node r) \<Longrightarrow>
   db_wf (upd_replicas (tbl_upsert (\<lambda>r. rp_cid r = cid \<and> rp_node r = node) new f) d)"
  using db_wf_upsert_replica [of d cid node new f] by simp

lemma db_wf_more_nodes:
  assumes "db_wf d" "distinct (map nd_id (g (db_nodes d)))" "nd_id ` set (db_nodes d) \<subseteq> nd_id ` set (g (db_nodes d))"
  shows "db_wf (upd_nodes g d)"
proof -
  have sub: "node_ids d \<subseteq> node_ids (upd_nodes g d)" using assms(3) by (simp add: node_ids_def)
  have "cids (upd_nodes g d) = cids d" by (simp add: cids_def)
  then show ?thesis using assms(1,2) sub unfolding db_wf_def by auto
qed

lemma db_wf_upsert_node: "db_wf d \<Longrightarrow> db_wf (upsert_node s d)"
  unfolding upsert_node_def Let_def upsert_node_base_def
  by (subst db_wf_nodes, simp, rule db_wf_more_nodes, assumption,
      rule distinct_tbl_upsert [where k = "ns_id s"])
    (auto simp: db_wf_def new_node_row_def tbl_upsert_def image_key_tbl_update)

lemma db_wf_new_object:
  assumes "db_wf d" "ob_cid ob \<notin> cids d"
  shows "db_wf (upd_objects (\<lambda>rs. rs @ [ob]) d)"
  using assms by (auto simp: db_wf_def cids_def node_ids_def)

lemma db_wf_new_ref:
  assumes "db_wf d" "rf_id r \<notin> rf_id ` set (db_refs d)" "rf_cid r \<in> cids d"
  shows "db_wf (upd_refs (\<lambda>rs. rs @ [r]) d)"
  using assms by (auto simp: db_wf_def cids_def node_ids_def)

section \<open>Every operation keeps the keys\<close>

lemma add_reference_wf:
  "add_reference now cid sz n m d = Inr d' \<Longrightarrow> db_wf d \<Longrightarrow> db_wf d' \<and> cid \<in> cids d'"
  by (auto simp: add_reference_def db_wf_objects find_obj_cids new_obj_row_def
      intro!: db_wf_new_object split: option.splits if_splits dest!: find_obj_Some_cids)
    (auto simp: cids_def image_key_tbl_update)

lemma add_reference_refs: "add_reference now cid sz n m d = Inr d' \<Longrightarrow> db_refs d' = db_refs d"
  by (auto simp: add_reference_def split: option.splits if_splits)

lemma take_reference_wf:
  "take_reference now cid sz n m rid d = Inr (b, d') \<Longrightarrow> db_wf d \<Longrightarrow> db_wf d' \<and> cid \<in> cids d'"
  by (auto simp: take_reference_def bind_r_Inr tbl_find_None add_reference_refs cids_def
      split: option.splits if_splits
      intro!: db_wf_new_ref [unfolded cids_def] dest: add_reference_wf find_obj_Some_cids)

lemma record_source_wf: "record_source now cid src d = Inr d' \<Longrightarrow> db_wf d \<Longrightarrow> db_wf d'"
  by (auto simp: record_source_def new_rep_row_def split: option.splits if_splits
      intro!: db_wf_upsert_replica' dest: find_obj_Some_cids find_node_Some_ids)

lemma register_base_wf: "register_object_base now cid sz n m src ref d = Inr (res, d') \<Longrightarrow> db_wf d \<Longrightarrow> db_wf d'"
  by (auto simp: register_object_base_def Let_def bind_r_Inr split: prod.splits
      dest: take_reference_wf record_source_wf)

lemma after_register_wf [simp]: "db_wf (after_register now cid old d) = db_wf d"
  by (auto simp: after_register_def Let_def db_wf_updates split: option.splits)

lemma register_wf: "register_object now cid sz n m src ref d = Inr (res, d') \<Longrightarrow> db_wf d \<Longrightarrow> db_wf d'"
  by (auto simp: register_object_def Let_def bind_r_Inr split: option.splits prod.splits dest: register_base_wf)

lemma final_release_wf [simp]: "db_wf (final_release now cid gen d) = db_wf d"
  by (simp add: final_release_def db_wf_updates)

lemma drop_reference_wf: "drop_reference now cid rid rq act ob d = Inr (rel, d') \<Longrightarrow> db_wf d \<Longrightarrow> db_wf d'"
  by (auto simp: drop_reference_def Let_def db_wf_updates split: if_splits)

lemma release_wf: "release_object now uid cid ref rq act d = Inr (rel, d') \<Longrightarrow> db_wf d \<Longrightarrow> db_wf d'"
  by (auto simp: release_object_def Let_def db_wf_updates split: option.splits if_splits dest!: drop_reference_wf)

lemma create_pin_wf: "create_pin_assignment now jid cid node cls d = Inr (a, d') \<Longrightarrow> db_wf d \<Longrightarrow> db_wf d'"
  by (auto simp: create_pin_assignment_def Let_def bind_r_Inr new_rep_row_def find_node_ids
      split: option.splits if_splits
      intro!: db_wf_upsert_replica' dest!: db_wf_insert_job dest: find_obj_Some_cids)

lemma create_verify_wf: "create_verify_job now jid cid node gen d = Inr (a, d') \<Longrightarrow> db_wf d \<Longrightarrow> db_wf d'"
  by (auto simp: create_verify_job_def bind_r_Inr split: if_splits dest: db_wf_insert_job)

lemma create_unpin_wf:
  "create_unpin_job now jid cid node gen reason nb d = Inr (a, d') \<Longrightarrow> db_wf d \<Longrightarrow> db_wf d'"
  by (auto simp: create_unpin_job_def Let_def bind_r_Inr split: option.splits if_splits dest!: db_wf_insert_job)

lemma authorize_wf: "authorize_unpin now node jid lease d = (a, d') \<Longrightarrow> db_wf d \<Longrightarrow> db_wf d'"
  by (auto simp: authorize_unpin_def Let_def db_wf_set_job split: option.splits if_splits)

lemma set_leases_wf [simp]: "db_wf (foldl (\<lambda>e j. set_lease now l (jb_id j) e) d js) = db_wf d"
  by (induction js arbitrary: d) auto

lemma pending_wf: "pending_jobs now node lmt ops d = (js, d') \<Longrightarrow> db_wf d \<Longrightarrow> db_wf d'"
  by (auto simp: pending_jobs_def pending_jobs_base_def Let_def split: option.splits)

lemma report_base_wf: "apply_report_base now node r d = Inr d' \<Longrightarrow> db_wf d \<Longrightarrow> db_wf d'"
  unfolding apply_report_base_def Let_def
  by (auto simp: bind_r_Inr db_wf_set_job db_wf_set_rep split: option.splits if_splits)

lemma report_v214_wf: "apply_report_v214 now node r d = Inr d' \<Longrightarrow> db_wf d \<Longrightarrow> db_wf d'"
  unfolding apply_report_v214_def Let_def
  by (auto simp: bind_r_Inr db_wf_set_job split: option.splits if_splits dest: report_base_wf)

lemma report_wf: "apply_job_report now node r d = Inr d' \<Longrightarrow> db_wf d \<Longrightarrow> db_wf d'"
  unfolding apply_job_report_def Let_def
  by (auto simp: bind_r_Inr db_wf_set_job db_wf_set_rep split: option.splits if_splits dest: report_v214_wf)

lemma recover_jobs_wf: "recover_jobs now uid js d = Inr d' \<Longrightarrow> db_wf d \<Longrightarrow> db_wf d'"
  by (induction now uid js d rule: recover_jobs.induct)
    (auto simp: bind_r_Inr recover_job_def Let_def split: if_splits dest!: db_wf_insert_job)

lemma recover_wf: "recover_v214 now uid d = Inr d' \<Longrightarrow> db_wf d \<Longrightarrow> db_wf d'"
  by (auto simp: recover_v214_def Let_def bind_r_Inr split: if_splits dest: recover_jobs_wf)

lemma heartbeat_wf: "heartbeat_db now node tot usd d = Inr d' \<Longrightarrow> db_wf d \<Longrightarrow> db_wf d'"
  by (auto simp: heartbeat_db_def db_wf_nodes split: if_splits)

lemmas step_wf = heartbeat_wf register_wf release_wf create_pin_wf create_verify_wf create_unpin_wf
  authorize_wf pending_wf report_wf recover_wf db_wf_upsert_node

lemma db_step_wf: "db_step d d' \<Longrightarrow> db_wf d \<Longrightarrow> db_wf d'"
  by (induction rule: db_step.induct) (auto dest: step_wf)

lemma db_wf_empty [simp]: "db_wf empty_db"
  by (simp add: db_wf_def empty_db_def)


section \<open>The life cycle of a CID\<close>

text \<open>
  An object is released exactly when it has no reference, and an authorised UNPIN carries the
  current generation of its object: a trim of a referenced object, or a final release of an
  unreferenced one.
\<close>

definition obj_ok :: "obj_row \<Rightarrow> bool" where
  "obj_ok ob \<longleftrightarrow> 0 \<le> ob_refcount ob \<and> 1 \<le> ob_gen ob \<and> (ob_released_at ob = 0 \<longleftrightarrow> 0 < ob_refcount ob)"

definition obj_life :: "db \<Rightarrow> string \<Rightarrow> (int \<times> bool) option" where
  "obj_life d c = map_option (\<lambda>ob. (ob_gen ob, 0 < ob_refcount ob)) (find_obj d c)"

definition is_authorized :: "job_row \<Rightarrow> bool" where
  "is_authorized j \<longleftrightarrow> jb_op j = OpUnpin \<and> jb_state j = JAuthorized"

definition auth_view :: "db \<Rightarrow> (string \<times> int \<times> bool) set" where
  "auth_view d = (\<lambda>j. (jb_cid j, jb_gen j, is_trim j)) ` {j \<in> set (db_jobs d). is_authorized j}"

definition life :: "db \<Rightarrow> bool" where
  "life d \<longleftrightarrow> (\<forall>ob \<in> set (db_objects d). obj_ok ob) \<and>
     (\<forall>(c, g, t) \<in> auth_view d. obj_life d c = Some (g, t))"

lemma auth_view_frame [simp]:
  "auth_view (upd_objects fo d) = auth_view d" "auth_view (upd_refs fr d) = auth_view d"
  "auth_view (upd_replicas fp d) = auth_view d" "auth_view (upd_nodes fn d) = auth_view d"
  "auth_view (audit t a c n x d) = auth_view d" "auth_view (set_rep c n g d) = auth_view d"
  by (simp_all add: auth_view_def set_rep_def)

lemma obj_life_frame [simp]:
  "obj_life (upd_jobs fj d) c = obj_life d c" "obj_life (upd_refs fr d) c = obj_life d c"
  "obj_life (upd_replicas fp d) c = obj_life d c" "obj_life (upd_nodes fn d) c = obj_life d c"
  "obj_life (audit t a c' n x d) c = obj_life d c" "obj_life (set_rep c' n g d) c = obj_life d c"
  "obj_life (set_job k h d) c = obj_life d c"
  by (simp_all add: obj_life_def set_rep_def set_job_def)

lemma set_job_tables [simp]:
  "db_objects (set_job k f d) = db_objects d" "db_nodes (set_job k f d) = db_nodes d"
  "db_replicas (set_job k f d) = db_replicas d" "db_refs (set_job k f d) = db_refs d"
  "db_jobs (set_job k f d) = tbl_update (\<lambda>j. jb_id j = k) f (db_jobs d)"
  by (simp_all add: set_job_def)

lemma set_rep_tables [simp]:
  "db_objects (set_rep c n g d) = db_objects d" "db_nodes (set_rep c n g d) = db_nodes d"
  "db_jobs (set_rep c n g d) = db_jobs d" "db_refs (set_rep c n g d) = db_refs d"
  "db_replicas (set_rep c n g d) = tbl_update (\<lambda>r. rep_key r = (c, n)) g (db_replicas d)"
  by (simp_all add: set_rep_def)

lemma stale_cid_tables [simp]:
  "db_objects (stale_cid_jobs now c d) = db_objects d" "db_nodes (stale_cid_jobs now c d) = db_nodes d"
  "db_replicas (stale_cid_jobs now c d) = db_replicas d" "db_refs (stale_cid_jobs now c d) = db_refs d"
  by (simp_all add: stale_cid_jobs_def)

lemma life_shrink:
  assumes "life d" "db_objects d' = db_objects d" "auth_view d' \<subseteq> auth_view d"
  shows "life d'"
  using assms unfolding life_def obj_life_def by auto

lemma auth_view_jobs:
  "(\<And>j. sel j \<Longrightarrow> \<not> is_authorized (f j) \<or> is_authorized j \<and> jb_cid (f j) = jb_cid j \<and>
         jb_gen (f j) = jb_gen j \<and> jb_reason (f j) = jb_reason j) \<Longrightarrow>
   auth_view (upd_jobs (tbl_update sel f) d) \<subseteq> auth_view d"
  by (fastforce simp: auth_view_def set_tbl_update is_trim_def split: if_splits)

lemma life_set_job:
  "life d \<Longrightarrow> (\<And>j. \<not> is_authorized (f j)) \<Longrightarrow> life (set_job k f d)"
  by (rule life_shrink, assumption, simp, unfold set_job_def, rule auth_view_jobs) blast

lemma life_set_rep [simp]: "life (set_rep c n g d) = life d"
  by (simp add: life_def)

lemma life_audit [simp]: "life (audit t a c n x d) = life d"
  by (simp add: life_def)

lemma life_upd [simp]:
  "life (upd_replicas fp d) = life d" "life (upd_refs fr d) = life d" "life (upd_nodes fn d) = life d"
  by (simp_all add: life_def)

lemma life_small:
  "life d \<Longrightarrow> life (stale_job now jid d)" "life d \<Longrightarrow> life (done_job now jid d)"
  "life d \<Longrightarrow> life (unpinned_rep cid node d)" "life d \<Longrightarrow> life (mark_replica_state now cid node st err d)"
  by (auto simp: stale_job_def done_job_def unpinned_rep_def mark_replica_state_def is_authorized_def
      intro!: life_set_job)

lemma auth_view_stale_cid: "auth_view (stale_cid_jobs now cid d) \<subseteq> auth_view d"
  unfolding stale_cid_jobs_def by (rule auth_view_jobs) (simp add: is_authorized_def)

lemma life_stale_cid: "life d \<Longrightarrow> life (stale_cid_jobs now cid d)"
  by (rule life_shrink [OF _ _ auth_view_stale_cid]) simp_all

lemma life_lease: "life d \<Longrightarrow> life (set_lease now l jid d)"
  by (rule life_shrink) (auto simp: set_lease_def is_authorized_def intro!: auth_view_jobs)

lemma insert_job_life:
  assumes "insert_job j d = Inr d'" "life d" "\<not> is_authorized j"
  shows "life d'"
proof -
  have "d' = upd_jobs (\<lambda>js. js @ [j]) d" using assms(1) by (auto simp: insert_job_def split: if_splits)
  then show ?thesis using assms(2,3) by (intro life_shrink [OF assms(2)]) (auto simp: auth_view_def)
qed

lemma new_job_not_authorized [simp]: "\<not> is_authorized (new_job jid cid node op' gen nxt now reason)"
  by (simp add: is_authorized_def new_job_def)

text \<open>An object update that keeps generation and whether the object is referenced.\<close>

lemma life_objects:
  assumes "life d" "\<And>r. r \<in> set (db_objects d) \<Longrightarrow> sel r \<Longrightarrow> obj_ok (f r)"
    and "\<And>r. ob_cid (f r) = ob_cid r"
    and "\<And>r. r \<in> set (db_objects d) \<Longrightarrow> sel r \<Longrightarrow>
           (ob_gen (f r) = ob_gen r \<and> (0 < ob_refcount (f r) \<longleftrightarrow> 0 < ob_refcount r)) \<or>
           ob_cid r \<notin> fst ` auth_view d"
  shows "life (upd_objects (tbl_update sel f) d)"
proof -
  have "obj_life (upd_objects (tbl_update sel f) d) c = obj_life d c" if "c \<in> fst ` auth_view d" for c
    using assms(4) that
    by (auto simp: obj_life_def tbl_find_update assms(3) map_option_case split: option.splits
        dest!: tbl_find_SomeD)
  then have "\<forall>(c, g, t) \<in> auth_view d. obj_life (upd_objects (tbl_update sel f) d) c = Some (g, t)"
    using assms(1) unfolding life_def by fastforce
  then show ?thesis using assms(1,2) unfolding life_def by (auto simp: set_tbl_update)
qed

lemma life_new_object:
  assumes "life d" "ob_cid ob \<notin> cids d" "obj_ok ob"
  shows "life (upd_objects (\<lambda>rs. rs @ [ob]) d)"
proof -
  have "obj_life (upd_objects (\<lambda>rs. rs @ [ob]) d) c = Some (g, t)" if "obj_life d c = Some (g, t)" for c g t
    using that assms(2) by (auto simp: obj_life_def tbl_find_append split: option.splits)
  then show ?thesis using assms unfolding life_def by fastforce
qed

lemma has_authorized_view: "has_authorized d cid \<longleftrightarrow> cid \<in> fst ` auth_view d"
  by (auto simp: has_authorized_def auth_view_def list_ex_iff is_authorized_def image_iff)


section \<open>Every operation keeps the life cycle\<close>

lemma create_pin_life: "create_pin_assignment now jid cid node cls d = Inr (a, d') \<Longrightarrow> life d \<Longrightarrow> life d'"
  by (auto simp: create_pin_assignment_def Let_def bind_r_Inr split: option.splits if_splits
      dest!: insert_job_life)

lemma create_verify_life: "create_verify_job now jid cid node gen d = Inr (a, d') \<Longrightarrow> life d \<Longrightarrow> life d'"
  by (auto simp: create_verify_job_def bind_r_Inr split: if_splits dest: insert_job_life)

lemma create_unpin_life:
  "create_unpin_job now jid cid node gen reason nb d = Inr (a, d') \<Longrightarrow> life d \<Longrightarrow> life d'"
  by (auto simp: create_unpin_job_def Let_def bind_r_Inr split: option.splits if_splits dest!: insert_job_life)

lemma set_leases_life: "life d \<Longrightarrow> life (foldl (\<lambda>e j. set_lease now l (jb_id j) e) d js)"
  by (induction js arbitrary: d) (auto simp: life_lease)

lemma pending_life: "pending_jobs now node lmt ops d = (js, d') \<Longrightarrow> life d \<Longrightarrow> life d'"
  by (auto simp: pending_jobs_def pending_jobs_base_def Let_def set_leases_life split: option.splits)

lemma retry_not_authorized [simp]: "\<not> is_authorized (j\<lparr>jb_state := JRetry, jb_attempts := a, jb_next := b,
    jb_lease := c, jb_updated := e, jb_error := g\<rparr>)"
  "\<not> is_authorized (j\<lparr>jb_state := JRetry, jb_attempts := a, jb_next := b,
    jb_lease := c, jb_authorized_at := h, jb_updated := e, jb_error := g\<rparr>)"
  by (simp_all add: is_authorized_def)

lemma report_base_life: "apply_report_base now node r d = Inr d' \<Longrightarrow> life d \<Longrightarrow> life d'"
  unfolding apply_report_base_def Let_def
  by (auto simp: bind_r_Inr life_set_job life_small split: option.splits if_splits)

lemma report_v214_life: "apply_report_v214 now node r d = Inr d' \<Longrightarrow> life d \<Longrightarrow> life d'"
  unfolding apply_report_v214_def Let_def
  by (auto simp: bind_r_Inr life_set_job life_small split: option.splits if_splits dest: report_base_life)

lemma report_life: "apply_job_report now node r d = Inr d' \<Longrightarrow> life d \<Longrightarrow> life d'"
  unfolding apply_job_report_def Let_def
  by (auto simp: bind_r_Inr life_set_job life_small split: option.splits if_splits dest: report_v214_life)

lemma recover_jobs_life: "recover_jobs now uid js d = Inr d' \<Longrightarrow> life d \<Longrightarrow> life d'"
  by (induction now uid js d rule: recover_jobs.induct)
    (auto simp: bind_r_Inr recover_job_def Let_def life_small split: if_splits dest!: insert_job_life)

lemma recover_life: "recover_v214 now uid d = Inr d' \<Longrightarrow> life d \<Longrightarrow> life d'"
  by (auto simp: recover_v214_def Let_def bind_r_Inr split: if_splits dest: recover_jobs_life)

lemma heartbeat_life: "heartbeat_db now node tot usd d = Inr d' \<Longrightarrow> life d \<Longrightarrow> life d'"
  by (auto simp: heartbeat_db_def split: if_splits)

lemma upsert_node_life: "life d \<Longrightarrow> life (upsert_node s d)"
  by (simp add: upsert_node_def upsert_node_base_def Let_def)

lemma health_life: "life d \<Longrightarrow> life (update_object_health cid ost reason d)"
  unfolding update_object_health_def by (rule life_objects) (auto simp: life_def obj_ok_def)

text \<open>What a granted authorisation has checked.\<close>

lemma trim_capacity_life: "trim_capacity d cid node gen b \<Longrightarrow> obj_life d cid = Some (gen, True)"
  by (auto simp: trim_capacity_def obj_life_def split: option.splits if_splits)

lemma authorize_Authorized:
  assumes "authorize_unpin now node jid lease d = (Authorized cid gen, d')"
  obtains job ob where "job_of d jid node = Some job" "jb_op job = OpUnpin" "jb_cid job = cid" "jb_gen job = gen"
    "jb_lease job = lease" "jb_state job \<in> active_states" "find_obj d cid = Some ob" "ob_gen ob = gen"
    "if is_trim job then trim_capacity d cid node gen True else ob_refcount ob = 0"
    "d' = set_job jid (\<lambda>j. j\<lparr>jb_state := JAuthorized, jb_authorized_at := now, jb_updated := now\<rparr>) d"
  using assms by (auto simp: authorize_unpin_def Let_def split: option.splits if_splits)

lemma job_of_find: "job_of d jid node = Some j \<longleftrightarrow> find_job d jid = Some j \<and> jb_node j = node"
  by (auto simp: job_of_def split: option.splits)

lemma authorize_view:
  assumes "authorize_unpin now node jid lease d = (Authorized cid gen, d')" "db_wf d"
  shows "\<exists>job. find_job d jid = Some job \<and> jb_node job = node \<and>
           auth_view d' \<subseteq> insert (cid, gen, is_trim job) (auth_view d) \<and>
           (is_trim job \<longrightarrow> trim_capacity d cid node gen True) \<and>
           (\<not> is_trim job \<longrightarrow> obj_life d cid = Some (gen, False))"
  using assms(1)
proof (rule authorize_Authorized)
  fix job ob
  assume a: "job_of d jid node = Some job" "jb_op job = OpUnpin" "jb_cid job = cid" "jb_gen job = gen"
    "jb_lease job = lease" "jb_state job \<in> active_states" "find_obj d cid = Some ob" "ob_gen ob = gen"
    "if is_trim job then trim_capacity d cid node gen True else ob_refcount ob = 0"
    "d' = set_job jid (\<lambda>j. j\<lparr>jb_state := JAuthorized, jb_authorized_at := now, jb_updated := now\<rparr>) d"
  have f: "find_job d jid = Some job" "jb_node job = node" using a(1) by (auto simp: job_of_find)
  have "j = job" if "j \<in> set (db_jobs d)" "jb_id j = jid" for j
    using that f(1) assms(2) tbl_find_in [of jb_id "db_jobs d" j] by (auto simp: db_wf_def)
  then have "auth_view d' \<subseteq> insert (cid, gen, is_trim job) (auth_view d)"
    using a(3,4) by (fastforce simp: a(10) auth_view_def set_tbl_update is_trim_def split: if_splits)
  then show ?thesis using f a(7,8,9) by (intro exI [of _ job]) (auto simp: obj_life_def)
qed

lemma authorize_life:
  assumes "authorize_unpin now node jid lease d = (a, d')" "db_wf d" "life d"
  shows "life d'"
proof (cases a)
  case (Authorized cid gen)
  then obtain job where v: "auth_view d' \<subseteq> insert (cid, gen, is_trim job) (auth_view d)"
      "is_trim job \<longrightarrow> trim_capacity d cid node gen True"
      "\<not> is_trim job \<longrightarrow> obj_life d cid = Some (gen, False)"
    using authorize_view assms(1,2) by metis
  have "obj_life d cid = Some (gen, is_trim job)"
    using v(2,3) trim_capacity_life by (cases "is_trim job") auto
  moreover have "db_objects d' = db_objects d" "obj_life d' = obj_life d"
    using assms(1) Authorized
    by (auto simp: authorize_unpin_def Let_def obj_life_def fun_eq_iff split: option.splits if_splits)
  ultimately show ?thesis using v(1) assms(3) unfolding life_def by auto
next
  case (Denied x)
  then show ?thesis using assms
    by (auto simp: authorize_unpin_def Let_def life_small split: option.splits if_splits)
qed


text \<open>Registration: the effect of the first transaction on the objects.\<close>

lemma tbl_find_update_key:
  "(\<And>r. key (f r) = key r) \<Longrightarrow> tbl_find key c (tbl_update (\<lambda>r. key r = k) f rows) =
     (if c = k then map_option f (tbl_find key k rows) else tbl_find key c rows)"
  by (induction rows) (auto simp: tbl_update_def)

definition bumped_from :: "obj_row option \<Rightarrow> obj_row \<Rightarrow> int \<Rightarrow> int \<Rightarrow> bool" where
  "bumped_from old ob1 n m \<longleftrightarrow>
     (case old of
        None \<Rightarrow> ob_gen ob1 = 1 \<and> ob_refcount ob1 = 1 \<and> ob_released_at ob1 = 0 \<and> ob_n ob1 = n \<and> ob_m ob1 = m
      | Some ob \<Rightarrow> ob1 = ob \<or> ob1 = ob\<lparr>ob_refcount := ob_refcount ob + 1, ob_n := max (ob_n ob) n,
                                      ob_m := max (ob_m ob) m\<rparr>)"

definition bumped :: "string \<Rightarrow> int \<Rightarrow> int \<Rightarrow> db \<Rightarrow> db \<Rightarrow> bool" where
  "bumped cid n m d d1 \<longleftrightarrow> db_jobs d1 = db_jobs d \<and> (\<forall>c. c \<noteq> cid \<longrightarrow> find_obj d1 c = find_obj d c) \<and>
     (\<exists>ob1. find_obj d1 cid = Some ob1 \<and> bumped_from (find_obj d cid) ob1 n m)"

lemma add_reference_bumped: "add_reference now cid sz n m d = Inr d1 \<Longrightarrow> bumped cid n m d d1"
  by (auto simp: add_reference_def bumped_def bumped_from_def tbl_find_update_key tbl_find_append
      new_obj_row_def split: option.splits if_splits)

lemma take_reference_bumped: "take_reference now cid sz n m rid d = Inr (b, d1) \<Longrightarrow> bumped cid n m d d1"
  by (auto simp: take_reference_def bind_r_Inr split: option.splits if_splits dest!: add_reference_bumped)
    (auto simp: bumped_def bumped_from_def)

lemma record_source_objects:
  "record_source now cid src d = Inr d1 \<Longrightarrow> db_objects d1 = db_objects d \<and> db_jobs d1 = db_jobs d"
  by (auto simp: record_source_def split: option.splits if_splits)

lemma bumped_cong: "bumped cid n m d d1 \<Longrightarrow> db_objects d2 = db_objects d1 \<Longrightarrow> db_jobs d2 = db_jobs d1 \<Longrightarrow> bumped cid n m d d2"
  by (simp add: bumped_def)

lemma register_base_bumped:
  "register_object_base now cid sz n m src ref d = Inr (res, d1) \<Longrightarrow> bumped cid n m d d1"
  by (auto simp: register_object_base_def Let_def bind_r_Inr split: prod.splits
      dest!: take_reference_bumped record_source_objects intro: bumped_cong)

lemma life_find:
  assumes "distinct (map ob_cid (db_objects d))"
  shows "life d \<longleftrightarrow> (\<forall>c ob. find_obj d c = Some ob \<longrightarrow> obj_ok ob) \<and>
           (\<forall>(c, g, t) \<in> auth_view d. obj_life d c = Some (g, t))"
proof -
  have "(\<forall>ob \<in> set (db_objects d). obj_ok ob) \<longleftrightarrow> (\<forall>c ob. find_obj d c = Some ob \<longrightarrow> obj_ok ob)"
    using assms tbl_find_in tbl_find_SomeD by metis
  then show ?thesis by (simp add: life_def)
qed

lemma auth_view_cong: "db_jobs d1 = db_jobs d \<Longrightarrow> auth_view d1 = auth_view d"
  by (simp add: auth_view_def)

text \<open>The CID has no authorised job: only its own row changes, so its new row need only be in order.\<close>

lemma life_row:
  assumes "life d" "db_wf d" "db_wf d'" "auth_view d' \<subseteq> auth_view d"
    and "\<And>c. c \<noteq> cid \<Longrightarrow> find_obj d' c = find_obj d c"
    and "find_obj d' cid = Some ob'" "obj_ok ob'"
    and "cid \<notin> fst ` auth_view d \<or> obj_life d' cid = obj_life d cid"
  shows "life d'"
proof -
  have "obj_ok ob" if "find_obj d' c = Some ob" for c ob
    using that assms(1,2,5-7) life_find [of d] unfolding db_wf_def by (cases "c = cid") auto
  moreover have "obj_life d' c = Some (g, t)" if "(c, g, t) \<in> auth_view d'" for c g t
  proof -
    have i: "(c, g, t) \<in> auth_view d" using that assms(4) by blast
    then have "obj_life d c = Some (g, t)" using assms(1) unfolding life_def by auto
    moreover have "obj_life d' c = obj_life d c"
      using assms(5,8) i by (cases "c = cid") (force simp: obj_life_def)+
    ultimately show ?thesis by simp
  qed
  ultimately show ?thesis using assms(3) life_find [of d'] unfolding db_wf_def by auto
qed

lemma bumped_obj_ok:
  "bumped_from old ob1 n m \<Longrightarrow> (\<And>ob. old = Some ob \<Longrightarrow> obj_ok ob) \<Longrightarrow>
   0 \<le> ob_refcount ob1 \<and> 1 \<le> ob_gen ob1 \<and> (ob_released_at ob1 = 0 \<longrightarrow> 0 < ob_refcount ob1)"
  by (auto simp: bumped_from_def obj_ok_def split: option.splits)

lemma after_register_find:
  assumes "find_obj d cid = Some ob"
  shows "find_obj (after_register now cid old d) c = (if c = cid then Some
     (if 0 < ob_refcount ob \<and> ob_released_at ob \<noteq> 0 \<or> (case old of None \<Rightarrow> False | Some nm \<Rightarrow> (ob_n ob, ob_m ob) \<noteq> nm)
      then ob\<lparr>ob_gen := ob_gen ob + 1, ob_released_at := 0, ob_state := OPending, ob_reason := []\<rparr> else ob)
     else find_obj d c)"
  using assms by (auto simp: after_register_def Let_def tbl_find_update_key split: option.splits)

lemma after_register_view: "auth_view (after_register now cid old d) \<subseteq> auth_view d"
  unfolding after_register_def Let_def
  by (auto split: option.splits if_splits dest!: auth_view_stale_cid [THEN subsetD])


lemma auth_view_obj:
  assumes "life d" "cid \<in> fst ` auth_view d"
  obtains ob where "find_obj d cid = Some ob"
proof -
  from assms(2) obtain g t where "(cid, g, t) \<in> auth_view d" by auto
  with assms(1) have "obj_life d cid = Some (g, t)" unfolding life_def by blast
  then show thesis using that by (auto simp: obj_life_def)
qed

lemma register_life:
  assumes "register_object now cid sz n m src ref d = Inr (res, d')" "db_wf d" "life d"
  shows "life d'"
proof -
  define old where "old = map_option (\<lambda>ob. (ob_n ob, ob_m ob)) (find_obj d cid)"
  from assms(1) obtain d1 where g: "register_guard cid n m d = None"
      and b: "register_object_base now cid sz n m src ref d = Inr (res, d1)"
      and d': "d' = after_register now cid old d1"
    by (auto simp: register_object_def Let_def bind_r_Inr old_def split: option.splits)
  have bu: "bumped cid n m d d1" by (rule register_base_bumped [OF b])
  obtain ob1 where ob1: "find_obj d1 cid = Some ob1" "bumped_from (find_obj d cid) ob1 n m"
    using bu by (auto simp: bumped_def)
  define ob' where "ob' = (if 0 < ob_refcount ob1 \<and> ob_released_at ob1 \<noteq> 0 \<or>
      (case old of None \<Rightarrow> False | Some nm \<Rightarrow> (ob_n ob1, ob_m ob1) \<noteq> nm)
      then ob1\<lparr>ob_gen := ob_gen ob1 + 1, ob_released_at := 0, ob_state := OPending, ob_reason := []\<rparr> else ob1)"
  have ok: "obj_ok ob" if "find_obj d cid = Some ob" for ob
    using that assms(3) by (auto simp: life_def dest: tbl_find_SomeD)
  have wf': "db_wf d'" using register_wf assms(1,2) by blast
  have view: "auth_view d' \<subseteq> auth_view d"
    using after_register_view auth_view_cong [of d1 d] bu unfolding d' bumped_def by blast
  have fcid: "find_obj d' cid = Some ob'"
    using after_register_find [OF ob1(1), where now = now and old = old and c = cid] by (simp add: d' ob'_def)
  have fother: "find_obj d' c = find_obj d c" if "c \<noteq> cid" for c
    using after_register_find [OF ob1(1), where now = now and old = old and c = c] that bu by (simp add: d' bumped_def)
  have ok': "obj_ok ob'"
  proof (cases "find_obj d cid")
    case None
    then show ?thesis using ob1(2) by (simp add: ob'_def old_def bumped_from_def obj_ok_def)
  next
    case (Some ob)
    note o = ok [OF Some, unfolded obj_ok_def]
    from ob1(2) Some consider "ob1 = ob"
      | "ob1 = ob\<lparr>ob_refcount := ob_refcount ob + 1, ob_n := max (ob_n ob) n, ob_m := max (ob_m ob) m\<rparr>"
      by (auto simp: bumped_from_def)
    then show ?thesis
    proof cases
      case 1
      then have "ob' = ob" using o Some by (simp add: ob'_def old_def)
      then show ?thesis using ok [OF Some] by simp
    next
      case 2
      then show ?thesis using o Some by (simp add: ob'_def old_def obj_ok_def)
    qed
  qed
  have "obj_life d' cid = obj_life d cid" if "cid \<in> fst ` auth_view d"
  proof -
    have auth: "has_authorized d cid" using that has_authorized_view by blast
    obtain ob where ob: "find_obj d cid = Some ob" using auth_view_obj [OF assms(3)] \<open>cid \<in> fst ` auth_view d\<close> by blast
    have nz: "ob_refcount ob \<noteq> 0" "max (ob_n ob) n = ob_n ob" "max (ob_m ob) m = ob_m ob"
      using auth g ob by (auto simp: register_guard_def split: if_splits)
    have pos: "ob_released_at ob = 0" "0 < ob_refcount ob" using ok [OF ob] nz(1) by (auto simp: obj_ok_def)
    have o1: "ob_gen ob1 = ob_gen ob" "0 < ob_refcount ob1" "ob_released_at ob1 = 0"
        "ob_n ob1 = ob_n ob" "ob_m ob1 = ob_m ob"
      using ob1(2) ob pos nz(2,3) by (auto simp: bumped_from_def)
    have "ob' = ob1" using o1 ob by (simp add: ob'_def old_def)
    then show ?thesis using o1 pos ob by (simp add: obj_life_def fcid)
  qed
  then show ?thesis by (intro life_row [OF assms(3,2) wf' view fother fcid ok']) auto
qed

lemma life_refs_stale:
  "life (final_release now cid gen d) = life (stale_cid_jobs now cid (upd_objects (tbl_update (\<lambda>r. ob_cid r = cid)
     (\<lambda>r. r\<lparr>ob_refcount := 0, ob_released_at := now, ob_state := OReleasePending,
            ob_reason := ''logical references released'', ob_gen := ob_gen r + 1\<rparr>)) d))"
  by (simp add: final_release_def life_def obj_life_def stale_cid_jobs_def auth_view_def)

lemma final_release_life:
  assumes "life d" "\<not> has_authorized d cid" "0 < now"
  shows "life (final_release now cid gen d)"
  unfolding life_refs_stale
  by (rule life_stale_cid, rule life_objects [OF assms(1)])
    (use assms has_authorized_view in \<open>auto simp: life_def obj_ok_def\<close>)

lemma drop_reference_cases:
  assumes "drop_reference now cid rid rq act ob d = Inr (rel, d')"
  obtains x where "ob_refcount ob \<le> 1" "\<not> has_authorized d cid" "rl_final rel"
      "d' = audit now ''OBJECT_RELEASE'' cid [] x (final_release now cid (ob_gen ob + 1) d)"
  | x where "1 < ob_refcount ob" "\<not> rl_final rel" "d' = audit now ''OBJECT_RELEASE'' cid [] x (upd_objects
      (tbl_update (\<lambda>r. ob_cid r = cid) (\<lambda>r. r\<lparr>ob_refcount := ob_refcount ob - 1\<rparr>)) d)"
proof (cases "ob_refcount ob \<le> 1")
  case True
  then have "max 0 (ob_refcount ob - 1) = 0" by simp
  then show thesis using assms that(1) True by (auto simp: drop_reference_def Let_def split: if_splits)
next
  case False
  then have "max 0 (ob_refcount ob - 1) = ob_refcount ob - 1" "ob_refcount ob - 1 \<noteq> 0" by auto
  then show thesis using assms that(2) False by (auto simp: drop_reference_def Let_def)
qed

lemma drop_reference_life:
  assumes "drop_reference now cid rid rq act ob d = Inr (rel, d')" "life d" "0 < now"
    and "\<And>r. r \<in> set (db_objects d) \<Longrightarrow> ob_cid r = cid \<Longrightarrow> r = ob"
  shows "life d'"
  using assms(1)
proof (cases rule: drop_reference_cases)
  case (1 x)
  then show ?thesis using final_release_life [OF assms(2) _ assms(3)] by simp
next
  case (2 x)
  have "life (upd_objects (tbl_update (\<lambda>r. ob_cid r = cid) (\<lambda>r. r\<lparr>ob_refcount := ob_refcount ob - 1\<rparr>)) d)"
    by (rule life_objects [OF assms(2)]) (use assms(2,4) 2 in \<open>auto simp: life_def obj_ok_def\<close>)
  then show ?thesis using 2 by simp
qed

lemma wf_row_unique:
  "db_wf d \<Longrightarrow> find_obj d cid = Some ob \<Longrightarrow> r \<in> set (db_objects d) \<Longrightarrow> ob_cid r = cid \<Longrightarrow> r = ob"
  using tbl_find_in [of ob_cid "db_objects d" r] by (auto simp: db_wf_def)

lemma release_life:
  assumes "release_object now uid cid ref rq act d = Inr (rel, d')" "db_wf d" "life d" "0 < now"
  shows "life d'"
  using assms(1,3) unfolding release_object_def Let_def
  by (auto split: option.splits if_splits
      elim!: drop_reference_life [OF _ _ assms(4)] dest: wf_row_unique [OF assms(2)])

lemmas step_life = heartbeat_life release_life create_pin_life create_verify_life create_unpin_life
  authorize_life pending_life report_life recover_life

lemma db_step_life: "db_step d d' \<Longrightarrow> db_wf d \<Longrightarrow> life d \<Longrightarrow> life d'"
  by (induction rule: db_step.induct)
    (auto simp: life_small health_life upsert_node_life dest: step_life register_life)

lemma life_empty [simp]: "life empty_db"
  by (simp add: life_def empty_db_def auth_view_def)

lemma reachable_invariants: "db_reachable d \<Longrightarrow> db_wf d \<and> life d"
  by (induction rule: db_reachable.induct) (auto dest: db_step_wf db_step_life)

end
