(* ===== verification/Replication_Safety.thy ===== *)
theory Replication_Safety
  imports Replication_Invariant
begin

text \<open>
  What the replication store guarantees its callers: floors kept by authorised trims, no
  resurrection under an authorised deletion, exclusive delivery of jobs, fenced and replayed
  reports, idempotent registration, and recovery after a crash.
\<close>

section \<open>Counting confirmed replicas\<close>

lemma tbl_count_card: "distinct xs \<Longrightarrow> tbl_count P xs = int (card {x \<in> set xs. P x})"
  unfolding tbl_count_def by (simp flip: distinct_card)

lemma tbl_count_split: "tbl_count P xs = tbl_count (\<lambda>x. P x \<and> Q x) xs + tbl_count (\<lambda>x. P x \<and> \<not> Q x) xs"
  by (induction xs) auto

lemma tbl_count_mono: "(\<And>x. P x \<Longrightarrow> Q x) \<Longrightarrow> tbl_count P xs \<le> tbl_count Q xs"
  by (induction xs) auto

lemma card_Collect_le_filter: "card {x \<in> set xs. P x} \<le> length (filter P xs)"
  by (metis card_length set_filter)

text \<open>The nodes whose copy an authorised trim is about to remove.\<close>

definition trim_nodes :: "db \<Rightarrow> string \<Rightarrow> string set" where
  "trim_nodes d cid = jb_node ` {j \<in> set (db_jobs d). jb_cid j = cid \<and> is_authorized j \<and> is_trim j}"

lemma in_authorized_trims:
  assumes "db_wf d" "r \<in> set (db_replicas d)" "rp_cid r = cid" "rp_node r \<in> trim_nodes d cid" "rp_node r \<noteq> node"
  shows "r \<in> set (authorized_trims d cid node)"
proof -
  from assms(4) obtain j where j: "j \<in> set (db_jobs d)" "jb_cid j = cid" "is_authorized j" "is_trim j"
      "rp_node r = jb_node j" by (auto simp: trim_nodes_def)
  have "find_rep d cid (jb_node j) = Some r"
    using assms(1-3) j(5) tbl_find_in [of rep_key "db_replicas d" r] by (auto simp: db_wf_def)
  then show ?thesis using j assms(5)
    by (force simp: authorized_trims_def List.map_filter_def is_authorized_def image_iff)
qed

lemma removed_count:
  assumes "db_wf d" "target \<in> set (db_replicas d)" "rep_key target = (cid, node)"
  shows "tbl_count (\<lambda>r. confirmed cid r \<and> Q r) (db_replicas d)
           \<le> tbl_count (\<lambda>r. (confirmed cid r \<and> Q r) \<and> rp_node r \<notin> insert node (trim_nodes d cid)) (db_replicas d)
             + tbl_count Q (authorized_trims d cid node) + (if Q target then 1 else 0)"
proof -
  let ?gone = "insert node (trim_nodes d cid)"
  let ?rs = "db_replicas d" and ?auth = "authorized_trims d cid node"
  have dist: "distinct ?rs" and keys: "distinct (map rep_key ?rs)"
    using assms(1) by (auto simp: db_wf_def distinct_map)
  have same: "r = target" if "r \<in> set ?rs" "rp_cid r = cid" "rp_node r = node" for r
    using that assms(2,3) keys by (auto simp: distinct_map dest: inj_onD)
  let ?A = "{r \<in> set ?auth. Q r}" and ?T = "if Q target then {target} else {}"
  have sub: "{r \<in> set ?rs. (confirmed cid r \<and> Q r) \<and> rp_node r \<in> ?gone} \<subseteq> ?A \<union> ?T"
  proof
    fix r assume r: "r \<in> {r \<in> set ?rs. (confirmed cid r \<and> Q r) \<and> rp_node r \<in> ?gone}"
    show "r \<in> ?A \<union> ?T"
    proof (cases "rp_node r = node")
      case True
      then have "r = target" using r same by (auto simp: confirmed_def)
      then show ?thesis using r by auto
    next
      case False
      then have "r \<in> set ?auth"
        using r in_authorized_trims [OF assms(1)] by (auto simp: confirmed_def)
      then show ?thesis using r by auto
    qed
  qed
  have "card {r \<in> set ?rs. (confirmed cid r \<and> Q r) \<and> rp_node r \<in> ?gone} \<le> card (?A \<union> ?T)"
    by (rule card_mono [OF _ sub]) auto
  also have "\<dots> \<le> card ?A + card ?T" by (rule card_Un_le)
  also have "\<dots> \<le> length (filter Q ?auth) + (if Q target then 1 else 0)"
    using card_Collect_le_filter [of ?auth Q] by auto
  finally have "tbl_count (\<lambda>r. (confirmed cid r \<and> Q r) \<and> rp_node r \<in> ?gone) ?rs
      \<le> tbl_count Q ?auth + (if Q target then 1 else 0)"
    unfolding tbl_count_card [OF dist] by (auto simp: tbl_count_def)
  then show ?thesis
    using tbl_count_split [of "\<lambda>r. confirmed cid r \<and> Q r" ?rs "\<lambda>r. rp_node r \<in> ?gone"] by simp
qed

lemma trim_capacity_floors:
  assumes "db_wf d" "trim_capacity d cid node gen True" "find_obj d cid = Some ob"
    and "gone = insert node (trim_nodes d cid)"
  shows "ob_n ob \<le> tbl_count (\<lambda>r. confirmed cid r \<and> rp_node r \<notin> gone) (db_replicas d)"
    and "ob_m ob \<le> tbl_count (\<lambda>r. (confirmed cid r \<and> rp_class r = Committable) \<and> rp_node r \<notin> gone) (db_replicas d)"
proof -
  let ?auth = "authorized_trims d cid node"
  from assms(2,3) obtain target where t: "find_rep d cid node = Some target"
      "ob_n ob \<le> confirmed_total d cid - int (length ?auth) - 1"
      "ob_m ob \<le> confirmed_comm d cid - tbl_count (\<lambda>r. rp_class r = Committable) ?auth
                   - (if rp_class target = Committable then 1 else 0)"
    by (auto simp: trim_capacity_def Let_def split: option.splits if_splits)
  then have tgt: "target \<in> set (db_replicas d)" "rep_key target = (cid, node)"
    using tbl_find_SomeD by fastforce+
  note rc = removed_count [OF assms(1) tgt, folded assms(4)]
  show "ob_n ob \<le> tbl_count (\<lambda>r. confirmed cid r \<and> rp_node r \<notin> gone) (db_replicas d)"
    using rc [of "\<lambda>r. True"] t(2) by (simp add: confirmed_total_def tbl_count_def)
  show "ob_m ob \<le> tbl_count (\<lambda>r. (confirmed cid r \<and> rp_class r = Committable) \<and> rp_node r \<notin> gone) (db_replicas d)"
    using rc [of "\<lambda>r. rp_class r = Committable"] t(3) by (simp add: confirmed_comm_def)
qed

lemma trim_nodes_authorize:
  assumes "authorize_unpin now node jid lease d = (Authorized cid gen, d')" "find_job d jid = Some job" "db_wf d"
  shows "trim_nodes d' c \<subseteq> insert node (trim_nodes d c)" "db_replicas d' = db_replicas d"
  using assms(1)
proof (atomize(full), rule authorize_Authorized, goal_cases)
  case (1 job ob)
  have "j = job" if "j \<in> set (db_jobs d)" "jb_id j = jid" for j
    using that 1(1) assms(3) tbl_find_in [of jb_id "db_jobs d" j] by (auto simp: db_wf_def job_of_find)
  then show ?case using 1 by (auto simp: trim_nodes_def set_tbl_update job_of_find is_trim_def split: if_splits)
qed


section \<open>Leases\<close>

lemma set_leases_jobs:
  "db_jobs (foldl (\<lambda>e j. set_lease now l (jb_id j) e) d js) =
     map (\<lambda>j. if jb_id j \<in> jb_id ` set js then j\<lparr>jb_lease := l, jb_updated := now\<rparr> else j) (db_jobs d)"
proof (induction js arbitrary: d)
  case Nil
  then show ?case by simp
next
  case (Cons a js)
  have "db_jobs (set_lease now l (jb_id a) d) =
      map (\<lambda>j. if jb_id j = jb_id a then j\<lparr>jb_lease := l, jb_updated := now\<rparr> else j) (db_jobs d)"
    by (simp add: set_lease_def tbl_update_def)
  then show ?case by (simp add: Cons.IH)
qed

lemma set_leases_objects [simp]:
  "db_objects (foldl (\<lambda>e j. set_lease now l (jb_id j) e) d js) = db_objects d"
  "db_replicas (foldl (\<lambda>e j. set_lease now l (jb_id j) e) d js) = db_replicas d"
  by (induction js arbitrary: d) (auto simp: set_lease_def)

lemma set_sql_limit: "set (sql_limit n xs) \<subseteq> set xs"
  by (auto simp: sql_limit_def dest: in_set_takeD)

lemma due_jobs_due: "j \<in> set (due_jobs now node lmt d) \<Longrightarrow> j \<in> set (db_jobs d) \<and> due now node j"
  using set_sql_limit by (fastforce simp: due_jobs_def)

lemma lease_ids: "set js \<subseteq> (\<lambda>j. j\<lparr>jb_lease := l\<rparr>) ` set rows \<Longrightarrow> jb_id ` set js \<subseteq> jb_id ` set rows"
  by (auto dest!: subsetD)

text \<open>A delivered row: one that was due, with its new lease.\<close>

lemma pending_jobs_rows:
  assumes "pending_jobs now node lmt ops d = (js, d')"
  shows "db_jobs d' = map (\<lambda>j. if jb_id j \<in> jb_id ` set (due_jobs now node lmt d)
             then j\<lparr>jb_lease := now + 120, jb_updated := now\<rparr> else j) (db_jobs d)"
    and "set js \<subseteq> (\<lambda>j. j\<lparr>jb_lease := now + 120\<rparr>) ` set (due_jobs now node lmt d)"
  using assms by (auto simp: pending_jobs_def pending_jobs_base_def Let_def set_leases_jobs split: option.splits)

lemma pending_not_due:
  assumes "pending_jobs now node lmt ops d = (js, d1)" "0 < now" "now' < now + 120"
    and "j \<in> set (due_jobs now' node' lmt' d1)"
  shows "jb_id j \<notin> jb_id ` set (due_jobs now node lmt d)"
proof -
  have j: "j \<in> set (db_jobs d1)" "jb_lease j = 0 \<or> jb_lease j \<le> now'"
    using due_jobs_due [OF assms(4)] by (simp_all add: due_def)
  obtain j0 where "j = (if jb_id j0 \<in> jb_id ` set (due_jobs now node lmt d)
      then j0\<lparr>jb_lease := now + 120, jb_updated := now\<rparr> else j0)"
    using j(1) unfolding pending_jobs_rows(1) [OF assms(1)] set_map by (rule imageE)
  then show ?thesis using j(2) assms(2,3) by (auto split: if_splits)
qed

section \<open>Reports\<close>

text \<open>A report that the store must not apply: older generation, other lease, or a life cycle that moved on.\<close>

definition fenced :: "db \<Rightarrow> job_row \<Rightarrow> int \<Rightarrow> string \<Rightarrow> bool" where
  "fenced d job lease st \<longleftrightarrow>
     (case find_obj d (jb_cid job) of
        None \<Rightarrow> True
      | Some ob \<Rightarrow> ob_gen ob \<noteq> jb_gen job \<or> jb_lease job \<noteq> lease \<or>
          (jb_op job = OpUnpinVerify \<and> ob_refcount ob \<noteq> 0) \<or>
          (jb_op job \<in> {OpPin, OpVerify} \<and> jb_state job = JDone \<and> st \<in> {''pinned'', ''verified''}) \<or>
          (jb_op job = OpUnpin \<and> (jb_state job \<noteq> JAuthorized \<or> \<not> is_trim job \<and> ob_refcount ob \<noteq> 0)))"

definition same_content :: "db \<Rightarrow> db \<Rightarrow> bool" where
  "same_content d d' \<longleftrightarrow> db_nodes d' = db_nodes d \<and> db_objects d' = db_objects d \<and>
     db_refs d' = db_refs d \<and> db_replicas d' = db_replicas d"

lemma same_content_stale [simp]: "same_content d (stale_job now jid d)" "same_content d d"
  by (simp_all add: same_content_def stale_job_def)

lemma base_fenced:
  assumes "apply_report_base now node r d = Inr d'" "job_of d (jtext r ''job_id'') node = Some job"
    "report_lease r = Inr lease" "fenced d job lease (jtext r ''state'')" "jb_op job \<noteq> OpUnpin" "jb_op job \<noteq> OpUnpinVerify"
  shows "same_content d d'"
  using assms unfolding apply_report_base_def Let_def
  by (auto simp: fenced_def split: option.splits if_splits)

lemma report_fenced_lemma:
  assumes "apply_job_report now node r d = Inr d'" "job_of d (jtext r ''job_id'') node = Some job"
    "report_lease r = Inr lease" "fenced d job lease (jtext r ''state'')"
  shows "same_content d d'"
proof (cases "jb_op job")
  case OpUnpin
  then show ?thesis using assms
    unfolding apply_job_report_def apply_report_v214_def Let_def
    by (auto simp: fenced_def split: option.splits if_splits)
next
  case OpUnpinVerify
  then show ?thesis using assms
    unfolding apply_job_report_def Let_def
    by (auto simp: fenced_def split: option.splits if_splits)
qed (use assms base_fenced in \<open>auto simp: apply_job_report_def apply_report_v214_def Let_def split: if_splits\<close>)

lemma find_job_set_job:
  "(\<And>j. jb_id (f j) = jb_id j) \<Longrightarrow>
   find_job (set_job k f d) jid = (if jid = k then map_option f (find_job d k) else find_job d jid)"
  by (simp add: tbl_find_update_key)

lemma job_of_set_job:
  "(\<And>j. jb_id (f j) = jb_id j \<and> jb_node (f j) = jb_node j) \<Longrightarrow>
   job_of (set_job k f d) k node = map_option f (job_of d k node)"
  by (auto simp: job_of_def tbl_find_update_key split: option.splits)

lemma job_of_audit [simp]: "job_of (audit t a c n x d) k node = job_of d k node"
  by (simp add: job_of_def)

lemma job_of_set_rep [simp]: "job_of (set_rep c n g d) k node = job_of d k node"
  by (simp add: job_of_def)

lemma job_of_small [simp]:
  "job_of (unpinned_rep c n d) k node = job_of d k node"
  "job_of (stale_job now k d) k node = map_option (\<lambda>j. j\<lparr>jb_state := JStale, jb_updated := now\<rparr>) (job_of d k node)"
  "job_of (done_job now k d) k node =
     map_option (\<lambda>j. j\<lparr>jb_state := JDone, jb_lease := 0, jb_updated := now, jb_error := []\<rparr>) (job_of d k node)"
  by (simp_all add: unpinned_rep_def stale_job_def done_job_def job_of_set_job)

lemma objects_small [simp]:
  "db_objects (stale_job now k d) = db_objects d" "db_objects (done_job now k d) = db_objects d"
  "db_objects (unpinned_rep c n d) = db_objects d"
  by (simp_all add: unpinned_rep_def stale_job_def done_job_def)

text \<open>Once a report with a real lease was handled, the same report is fenced.\<close>

lemma handled_fenced_base:
  assumes "apply_report_base now node r d = Inr d'" "job_of d (jtext r ''job_id'') node = Some job"
    "report_lease r = Inr lease" "lease \<noteq> 0" "jb_op job \<in> {OpPin, OpVerify}"
  shows "\<exists>job'. job_of d' (jtext r ''job_id'') node = Some job' \<and> fenced d' job' lease (jtext r ''state'')"
  using assms unfolding apply_report_base_def Let_def
  by (auto simp: fenced_def job_of_set_job split: option.splits if_splits)

lemma handled_fenced:
  assumes "apply_job_report now node r d = Inr d'" "job_of d (jtext r ''job_id'') node = Some job"
    "report_lease r = Inr lease" "lease \<noteq> 0"
  shows "\<exists>job'. job_of d' (jtext r ''job_id'') node = Some job' \<and> fenced d' job' lease (jtext r ''state'')"
proof (cases "jb_op job")
  case OpUnpin
  then show ?thesis using assms
    unfolding apply_job_report_def apply_report_v214_def Let_def
    by (auto simp: fenced_def job_of_set_job split: option.splits if_splits)
next
  case OpUnpinVerify
  then show ?thesis using assms
    unfolding apply_job_report_def Let_def
    by (auto simp: fenced_def job_of_set_job split: option.splits if_splits)
qed (use assms handled_fenced_base in \<open>auto simp: apply_job_report_def apply_report_v214_def Let_def split: if_splits\<close>)

section \<open>Properties\<close>


text \<open>C1: When the store authorises a trim, the confirmed copies that are not on a node with an authorised
  trim (this one included) still number at least the object's N, and the committable ones among them
  at least its M.\<close>

theorem authorized_trim_keeps_floors:
  assumes "db_reachable d" "authorize_unpin now node jid lease d = (Authorized cid gen, d')"
    and "find_job d jid = Some job" "is_trim job" "find_obj d cid = Some ob"
  shows "ob_n ob \<le> tbl_count (\<lambda>r. confirmed cid r \<and> rp_node r \<notin> trim_nodes d' cid) (db_replicas d') \<and>
         ob_m ob \<le> tbl_count (\<lambda>r. (confirmed cid r \<and> rp_class r = Committable) \<and>
                                   rp_node r \<notin> trim_nodes d' cid) (db_replicas d')"
proof -
  have wf: "db_wf d" using reachable_invariants [OF assms(1)] by simp
  have cap: "trim_capacity d cid node gen True"
    using authorize_view [OF assms(2) wf] assms(3,4) by auto
  note tn = trim_nodes_authorize [OF assms(2,3) wf]
  have mono: "tbl_count (\<lambda>r. P r \<and> rp_node r \<notin> insert node (trim_nodes d cid)) (db_replicas d)
      \<le> tbl_count (\<lambda>r. P r \<and> rp_node r \<notin> trim_nodes d' cid) (db_replicas d')" for P
    unfolding tn(2) by (rule tbl_count_mono) (use tn(1) [of cid] in blast)
  show ?thesis
    using order_trans [OF trim_capacity_floors(1) [OF wf cap assms(5) refl] mono]
      order_trans [OF trim_capacity_floors(2) [OF wf cap assms(5) refl] mono] by blast
qed



text \<open> A report whose job has an older generation than its object, whose lease is not the job's
  current one, or whose UNPIN is not authorised, changes no object, reference, replica or node.\<close>

theorem stale_reports_are_fenced:
  assumes "apply_job_report now node r d = Inr d'" "job_of d (jtext r ''job_id'') node = Some job"
    and "report_lease r = Inr lease" "find_obj d (jb_cid job) = Some ob"
    and "jb_gen job \<noteq> ob_gen ob \<or> jb_lease job \<noteq> lease \<or> (jb_op job = OpUnpin \<and> jb_state job \<noteq> JAuthorized)"
  shows "db_replicas d' = db_replicas d \<and> db_objects d' = db_objects d \<and> db_refs d' = db_refs d \<and>
         db_nodes d' = db_nodes d"
proof -
  have "fenced d job lease (jtext r ''state'')" using assms(4,5) by (auto simp: fenced_def)
  from report_fenced_lemma [OF assms(1-3) this] show ?thesis by (simp add: same_content_def)
qed

text \<open> Handling a report a second time, at any later moment, changes nothing but the job's own row:
  a replayed report cannot confirm, fail or remove a copy twice.\<close>

theorem replayed_report_is_ignored:
  assumes "apply_job_report now node r d = Inr d1" "report_lease r = Inr lease" "lease \<noteq> 0"
    and "apply_job_report now' node r d1 = Inr d2"
  shows "db_replicas d2 = db_replicas d1 \<and> db_objects d2 = db_objects d1 \<and> db_refs d2 = db_refs d1 \<and>
         db_nodes d2 = db_nodes d1"
proof -
  obtain job where j: "job_of d (jtext r ''job_id'') node = Some job"
    using assms(1) by (cases "job_of d (jtext r ''job_id'') node")
      (auto simp: apply_job_report_def apply_report_v214_def apply_report_base_def Let_def)
  obtain job' where "job_of d1 (jtext r ''job_id'') node = Some job'" "fenced d1 job' lease (jtext r ''state'')"
    using handled_fenced [OF assms(1) j assms(2,3)] by blast
  from report_fenced_lemma [OF assms(4) this(1) assms(2) this(2)] show ?thesis by (simp add: same_content_def)
qed


section \<open>A run of the store\<close>

text \<open>
  Two committable nodes; the object is uploaded on the first, copied to the second although
  N = M = 1, the surplus copy is trimmed up to its authorisation; a second CID is released and its
  deletion authorised.
\<close>

definition node_a :: node_spec where
  "node_a = \<lparr>ns_id = ''a'', ns_name = ''a'', ns_role = [], ns_class = Committable, ns_enabled = True,
     ns_token = ''t'', ns_failure_domain = [], ns_provider = [], ns_region = [], ns_rack = []\<rparr>"

definition report_of :: "string \<Rightarrow> string \<Rightarrow> int \<Rightarrow> jobj" where
  "report_of jid st lease = [(''job_id'', JStr jid), (''state'', JStr st), (''lease_until'', JInt lease)]"

definition run1 :: db where
  "run1 = upsert_node (node_a\<lparr>ns_id := ''b''\<rparr>) (upsert_node node_a empty_db)"

definition run2 :: db where
  "run2 = snd (projr (register_object 10 ''c'' 7 1 1 (Some ''a'') (Some ''r'') run1))"

definition run3 :: db where
  "run3 = snd (projr (create_pin_assignment 11 ''p'' ''c'' ''b'' Committable run2))"

definition run4 :: db where
  "run4 = snd (pending_jobs 12 ''b'' 32 None run3)"

definition run5 :: db where
  "run5 = projr (apply_job_report 13 ''b'' (report_of ''p'' ''pinned'' 132) run4)"

definition run6 :: db where
  "run6 = snd (projr (create_unpin_job 14 ''u'' ''c'' ''b'' 1 trim_reason 0 run5))"

definition run7 :: db where
  "run7 = snd (pending_jobs 15 ''b'' 32 None run6)"

definition run8 :: db where
  "run8 = snd (authorize_unpin 16 ''b'' ''u'' 135 run7)"

lemma Inr_pair: "\<not> isl x \<Longrightarrow> x = Inr (fst (projr x), snd (projr x))"
  by (cases x) auto

lemma Inr_projr: "\<not> isl x \<Longrightarrow> x = Inr (projr x)"
  by (cases x) auto

lemma run_ok:
  "\<not> isl (register_object 10 ''c'' 7 1 1 (Some ''a'') (Some ''r'') run1)"
  "\<not> isl (create_pin_assignment 11 ''p'' ''c'' ''b'' Committable run2)"
  "\<not> isl (apply_job_report 13 ''b'' (report_of ''p'' ''pinned'' 132) run4)"
  "\<not> isl (create_unpin_job 14 ''u'' ''c'' ''b'' 1 trim_reason 0 run5)"
  by code_simp+

lemma reach_run1: "db_reachable run1"
  unfolding run1_def by (intro reach_step [OF _ st_node] reach_empty)

lemma reach_run5: "db_reachable run5"
proof -
  have "db_reachable run2" unfolding run2_def
    by (rule reach_step [OF reach_run1 st_register [OF _ Inr_pair]]) (simp_all add: run_ok)
  then have "db_reachable run3" unfolding run3_def
    by (rule reach_step [OF _ st_pin [OF Inr_pair]]) (simp add: run_ok)
  then have "db_reachable run4" unfolding run4_def
    by (rule reach_step [OF _ st_pending]) (rule prod.collapse [symmetric])
  then show ?thesis unfolding run5_def
    by (rule reach_step [OF _ st_report [OF Inr_projr]]) (simp add: run_ok)
qed


lemma reach_run8: "db_reachable run7" "authorize_unpin 16 ''b'' ''u'' 135 run7 = (Authorized ''c'' 1, run8)"
proof -
  have "db_reachable run6" unfolding run6_def
    by (rule reach_step [OF reach_run5 st_unpin [OF Inr_pair]]) (simp add: run_ok)
  then show "db_reachable run7" unfolding run7_def
    by (rule reach_step [OF _ st_pending]) (rule prod.collapse [symmetric])
  have "fst (authorize_unpin 16 ''b'' ''u'' 135 run7) = Authorized ''c'' 1" by code_simp
  then show "authorize_unpin 16 ''b'' ''u'' 135 run7 = (Authorized ''c'' 1, run8)"
    unfolding run8_def by (metis prod.collapse)
qed

definition fin1 :: db where
  "fin1 = snd (projr (release_object 20 ''q'' ''c'' (Some ''r'') None None run5))"

definition fin2 :: db where
  "fin2 = snd (projr (create_unpin_job 21 ''v'' ''c'' ''b'' 2 ''final-release'' 0 fin1))"

definition fin3 :: db where
  "fin3 = snd (pending_jobs 22 ''b'' 32 None fin2)"

definition fin4 :: db where
  "fin4 = snd (authorize_unpin 23 ''b'' ''v'' 142 fin3)"

lemma fin_ok:
  "\<not> isl (release_object 20 ''q'' ''c'' (Some ''r'') None None run5)"
  "\<not> isl (create_unpin_job 21 ''v'' ''c'' ''b'' 2 ''final-release'' 0 fin1)"
  by code_simp+

lemma reach_fin4: "db_reachable fin4"
proof -
  have "db_reachable fin1" unfolding fin1_def
    by (rule reach_step [OF reach_run5 st_release [OF _ Inr_pair]]) (simp_all add: fin_ok)
  then have "db_reachable fin2" unfolding fin2_def
    by (rule reach_step [OF _ st_unpin [OF Inr_pair]]) (simp add: fin_ok)
  then have "db_reachable fin3" unfolding fin3_def
    by (rule reach_step [OF _ st_pending]) (rule prod.collapse [symmetric])
  then show ?thesis unfolding fin4_def
    by (rule reach_step [OF _ st_authorize]) (rule prod.collapse [symmetric])
qed


theorem authorized_trim_keeps_floors_witness:
  "1 \<le> tbl_count (\<lambda>r. confirmed ''c'' r \<and> rp_node r \<notin> trim_nodes run8 ''c'') (db_replicas run8) \<and>
   ''b'' \<in> trim_nodes run8 ''c''"
proof -
  obtain job where j: "find_job run7 ''u'' = Some job" "is_trim job"
  proof -
    have "case find_job run7 ''u'' of None \<Rightarrow> False | Some job \<Rightarrow> is_trim job" by code_simp
    then show thesis using that by (auto split: option.splits)
  qed
  obtain ob where o: "find_obj run7 ''c'' = Some ob" "ob_n ob = 1"
  proof -
    have "case find_obj run7 ''c'' of None \<Rightarrow> False | Some ob \<Rightarrow> ob_n ob = 1" by code_simp
    then show thesis using that by (auto split: option.splits)
  qed
  have "\<exists>j \<in> set (db_jobs run8). jb_cid j = ''c'' \<and> is_authorized j \<and> is_trim j \<and> jb_node j = ''b''"
    by code_simp
  then have "''b'' \<in> trim_nodes run8 ''c''" unfolding trim_nodes_def by force
  then show ?thesis
    using authorized_trim_keeps_floors [OF reach_run8 j o(1)] o(2) by simp
qed



text \<open>The PIN report of the run, replayed with its old lease.\<close>

lemma replay_ok: "\<not> isl (apply_job_report 200 ''b'' (report_of ''p'' ''failed'' 132) run5)"
  "report_lease (report_of ''p'' ''failed'' 132) = Inr 132"
  "report_lease (report_of ''p'' ''pinned'' 132) = Inr 132"
  "\<not> isl (apply_job_report 200 ''b'' (report_of ''p'' ''pinned'' 132) run5)"
  by code_simp+

theorem stale_reports_are_fenced_witness:
  "db_replicas (projr (apply_job_report 200 ''b'' (report_of ''p'' ''failed'' 132) run5)) = db_replicas run5"
proof -
  have "case job_of run5 (jtext (report_of ''p'' ''failed'' 132) ''job_id'') ''b'' of None \<Rightarrow> False
        | Some job \<Rightarrow> jb_cid job = ''c'' \<and> jb_lease job = 0" by code_simp
  then obtain job where j: "job_of run5 (jtext (report_of ''p'' ''failed'' 132) ''job_id'') ''b'' = Some job"
      "jb_cid job = ''c''" "jb_lease job \<noteq> 132" by (auto split: option.splits)
  have "find_obj run5 ''c'' \<noteq> None" by code_simp
  then obtain ob where "find_obj run5 (jb_cid job) = Some ob" using j(2) by auto
  from stale_reports_are_fenced [OF Inr_projr [OF replay_ok(1)] j(1) replay_ok(2) this] j(3)
  show ?thesis by blast
qed

theorem replayed_report_is_ignored_witness:
  "db_replicas (projr (apply_job_report 200 ''b'' (report_of ''p'' ''pinned'' 132) run5)) = db_replicas run5"
proof -
  have "apply_job_report 13 ''b'' (report_of ''p'' ''pinned'' 132) run4 = Inr run5"
    unfolding run5_def by (rule Inr_projr [OF run_ok(3)])
  from replayed_report_is_ignored [OF this replay_ok(3) _ Inr_projr [OF replay_ok(4)]]
  show ?thesis by simp
qed

end
