(* ===== verification/Replication_References.thy ===== *)
theory Replication_References
  imports Replication_Safety
begin

text \<open>
  References and recovery: a retried registration changes nothing, reference counts are exact
  when every caller names its references, crash recovery leaves no authorisation behind, and the
  copy a recovered trim has removed is still counted.
\<close>

section \<open>Retried registration\<close>

lemma take_reference_ref:
  "take_reference now cid sz n m (Some r) d = Inr (b, d1) \<Longrightarrow>
   \<exists>row. find_ref d1 r = Some row \<and> rf_cid row = cid"
  by (auto simp: take_reference_def bind_r_Inr add_reference_refs tbl_find_append split: option.splits if_splits)

lemma record_source_refs: "record_source now cid src d = Inr d1 \<Longrightarrow> db_refs d1 = db_refs d"
  by (auto simp: record_source_def split: option.splits if_splits)

lemma after_register_refs [simp]: "db_refs (after_register now cid old d) = db_refs d"
  by (auto simp: after_register_def Let_def split: option.splits)

lemma register_ref:
  assumes "register_object now cid sz n m src ref d = Inr (res, d')" "norm_opt ref = Some r"
  shows "\<exists>row. find_ref d' r = Some row \<and> rf_cid row = cid"
  using assms by (auto simp: register_object_def register_object_base_def Let_def bind_r_Inr
      split: option.splits prod.splits dest!: take_reference_ref record_source_refs)

lemma register_row:
  assumes "register_object now cid sz n m src ref d = Inr (res, d')" "db_wf d" "life d"
  obtains ob where "find_obj d' cid = Some ob" "obj_ok ob"
    "has_authorized d' cid \<longrightarrow> ob_refcount ob \<noteq> 0 \<and> n \<le> ob_n ob \<and> m \<le> ob_m ob"
proof -
  define old where "old = map_option (\<lambda>ob. (ob_n ob, ob_m ob)) (find_obj d cid)"
  from assms(1) obtain d1 where g: "register_guard cid n m d = None"
      and b: "register_object_base now cid sz n m src ref d = Inr (res, d1)"
      and d': "d' = after_register now cid old d1"
    by (auto simp: register_object_def Let_def bind_r_Inr old_def split: option.splits)
  have bu: "bumped cid n m d d1" by (rule register_base_bumped [OF b])
  obtain ob1 where ob1: "find_obj d1 cid = Some ob1" "bumped_from (find_obj d cid) ob1 n m"
    using bu by (auto simp: bumped_def)
  obtain ob where ob: "find_obj d' cid = Some ob" "ob_refcount ob = ob_refcount ob1" "ob_n ob = ob_n ob1"
      "ob_m ob = ob_m ob1"
    using after_register_find [OF ob1(1), where now = now and old = old and c = cid] by (simp add: d')
  have "life d'" using register_life [OF assms] .
  then have ok: "obj_ok ob" using ob(1) by (auto simp: life_def dest: tbl_find_SomeD)
  have "ob_refcount ob \<noteq> 0 \<and> n \<le> ob_n ob \<and> m \<le> ob_m ob" if "has_authorized d' cid"
  proof -
    have "has_authorized d cid"
      using that after_register_view auth_view_cong [of d1 d] bu
      unfolding d' has_authorized_view bumped_def by blast
    moreover have "\<exists>ob0. find_obj d cid = Some ob0"
      using that \<open>has_authorized d cid\<close> assms(3) auth_view_obj [of d cid] unfolding has_authorized_view by blast
    moreover have "\<forall>ob0. find_obj d cid = Some ob0 \<longrightarrow> 0 \<le> ob_refcount ob0"
      using assms(3) by (auto simp: life_def obj_ok_def dest: tbl_find_SomeD)
    ultimately show ?thesis using g ob1(2) ob(2-4)
      by (auto simp: register_guard_def bumped_from_def split: if_splits)
  qed
  then show thesis using that ob(1) ok by blast
qed

lemma after_register_noop:
  assumes "find_obj d cid = Some ob" "obj_ok ob" "old = Some (ob_n ob, ob_m ob)"
  shows "after_register now cid old d = d"
  using assms by (simp add: after_register_def obj_ok_def)

text \<open> Registration is idempotent by reference id: repeating a successful registration with the same
  reference (as an HTTP retry does) succeeds, reports no new reference, and changes no table but the
  audit log.\<close>

theorem register_retry_is_noop:
  assumes "db_reachable d" "0 < now" "norm_opt ref = Some r"
    and "register_object now cid sz n m src ref d = Inr (res, d1)"
  shows "\<exists>res2 d2. register_object now' cid sz' n m None ref d1 = Inr (res2, d2) \<and> \<not> rr_new res2 \<and>
           db_objects d2 = db_objects d1 \<and> db_refs d2 = db_refs d1 \<and> db_replicas d2 = db_replicas d1 \<and>
           db_jobs d2 = db_jobs d1 \<and> db_nodes d2 = db_nodes d1"
proof -
  have i: "db_wf d" "life d" using reachable_invariants [OF assms(1)] by auto
  obtain ob where ob: "find_obj d1 cid = Some ob" "obj_ok ob"
      "has_authorized d1 cid \<longrightarrow> ob_refcount ob \<noteq> 0 \<and> n \<le> ob_n ob \<and> m \<le> ob_m ob"
    by (rule register_row [OF assms(4) i])
  obtain row where row: "find_ref d1 r = Some row" "rf_cid row = cid"
    using register_ref [OF assms(4,3)] by blast
  have g: "register_guard cid n m d1 = None" using ob by (auto simp: register_guard_def)
  have t: "take_reference now' cid sz' n m (Some r) d1 = Inr (False, d1)"
    using row ob(1) by (simp add: take_reference_def)
  let ?x = "[(''size_bytes'', JInt sz'), (''n'', JInt n), (''m'', JInt m),
     (''reference_id'', JStr (opt_text (Some r))), (''new_reference'', JBool False)]"
  let ?d = "audit now' ''OBJECT_REGISTER'' cid (opt_text None) ?x d1"
  have b: "register_object_base now' cid sz' n m None ref d1 =
      Inr (\<lparr>rr_cid = cid, rr_ref = Some r, rr_new = False\<rparr>, ?d)"
    by (simp add: register_object_base_def Let_def assms(3) t record_source_def)
  have "after_register now' cid (Some (ob_n ob, ob_m ob)) ?d = ?d"
    by (rule after_register_noop [of _ _ ob]) (simp_all add: ob(1,2))
  then show ?thesis by (simp add: register_object_def g b ob(1))
qed

section \<open>Exact reference counts\<close>

definition live_refs :: "db \<Rightarrow> string \<Rightarrow> int" where
  "live_refs d cid = tbl_count (\<lambda>r. rf_cid r = cid \<and> rf_released_at r = 0) (db_refs d)"

text \<open>Every step but registration and release.\<close>

inductive content_step :: "db \<Rightarrow> db \<Rightarrow> bool" where
  "content_step d (upsert_node s d)"
| "heartbeat_db now node tot usd d = Inr d' \<Longrightarrow> content_step d d'"
| "create_pin_assignment now jid cid node cls d = Inr (a, d') \<Longrightarrow> content_step d d'"
| "create_verify_job now jid cid node gen d = Inr (a, d') \<Longrightarrow> content_step d d'"
| "create_unpin_job now jid cid node gen reason nb d = Inr (a, d') \<Longrightarrow> content_step d d'"
| "authorize_unpin now node jid lease d = (answer, d') \<Longrightarrow> content_step d d'"
| "pending_jobs now node lmt ops d = (js, d') \<Longrightarrow> content_step d d'"
| "apply_job_report now node r d = Inr d' \<Longrightarrow> content_step d d'"
| "content_step d (mark_replica_state now cid node st err d)"
| "content_step d (update_object_health cid ost reason d)"
| "recover_v214 now uidf d = Inr d' \<Longrightarrow> content_step d d'"
| "content_step d (audit now action cid node detail d)"

text \<open>Runs in which every registration and release names its reference.\<close>

inductive named_reachable :: "db \<Rightarrow> bool" where
  nr_empty: "named_reachable empty_db"
| nr_register: "named_reachable d \<Longrightarrow> 0 < now \<Longrightarrow> norm_opt ref = Some r \<Longrightarrow>
    register_object now cid sz n m src ref d = Inr (res, d') \<Longrightarrow> named_reachable d'"
| nr_release: "named_reachable d \<Longrightarrow> 0 < now \<Longrightarrow> norm_opt ref = Some r \<Longrightarrow>
    release_object now uid cid ref req act d = Inr (rel, d') \<Longrightarrow> named_reachable d'"
| nr_other: "named_reachable d \<Longrightarrow> content_step d d' \<Longrightarrow> named_reachable d'"

lemma content_step_db_step: "content_step d d' \<Longrightarrow> db_step d d'"
  by (induction rule: content_step.induct) (blast intro: db_step.intros)+

lemma named_db_reachable: "named_reachable d \<Longrightarrow> db_reachable d"
proof (induction rule: named_reachable.induct)
  case nr_empty
  then show ?case by (rule reach_empty)
next
  case nr_register
  then show ?case by (blast intro: reach_step st_register)
next
  case nr_release
  then show ?case by (blast intro: reach_step st_release)
next
  case nr_other
  then show ?case by (blast intro: reach_step content_step_db_step)
qed

definition refcount_of :: "db \<Rightarrow> string \<Rightarrow> int" where
  "refcount_of d c = (case find_obj d c of None \<Rightarrow> 0 | Some ob \<Rightarrow> ob_refcount ob)"

definition same_refs :: "db \<Rightarrow> db \<Rightarrow> bool" where
  "same_refs d d' \<longleftrightarrow> db_refs d' = db_refs d \<and> refcount_of d' = refcount_of d"

lemma same_refs_objects: "db_refs d' = db_refs d \<Longrightarrow> db_objects d' = db_objects d \<Longrightarrow> same_refs d d'"
  by (simp add: same_refs_def refcount_of_def fun_eq_iff)

lemma insert_job_tables:
  "insert_job j d = Inr d' \<Longrightarrow> db_refs d' = db_refs d \<and> db_objects d' = db_objects d \<and> db_replicas d' = db_replicas d"
  by (auto simp: insert_job_def split: if_splits)

lemma set_leases_refs [simp]: "db_refs (foldl (\<lambda>e j. set_lease now l (jb_id j) e) d js) = db_refs d"
  by (induction js arbitrary: d) (auto simp: set_lease_def)

lemma refs_small [simp]:
  "db_refs (stale_job now k d) = db_refs d" "db_refs (done_job now k d) = db_refs d"
  "db_refs (unpinned_rep c n d) = db_refs d"
  by (simp_all add: unpinned_rep_def stale_job_def done_job_def)

lemma recover_jobs_tables:
  "recover_jobs now uid js d = Inr d' \<Longrightarrow> db_refs d' = db_refs d \<and> db_objects d' = db_objects d"
  by (induction now uid js d rule: recover_jobs.induct)
    (auto simp: bind_r_Inr recover_job_def Let_def split: if_splits dest!: insert_job_tables)

lemma report_base_tables:
  "apply_report_base now node r d = Inr d' \<Longrightarrow> db_refs d' = db_refs d \<and> db_objects d' = db_objects d"
  unfolding apply_report_base_def Let_def by (auto simp: bind_r_Inr split: option.splits if_splits)

lemma report_v214_tables:
  "apply_report_v214 now node r d = Inr d' \<Longrightarrow> db_refs d' = db_refs d \<and> db_objects d' = db_objects d"
  unfolding apply_report_v214_def Let_def
  by (auto simp: bind_r_Inr split: option.splits if_splits dest: report_base_tables)

lemma report_tables:
  "apply_job_report now node r d = Inr d' \<Longrightarrow> db_refs d' = db_refs d \<and> db_objects d' = db_objects d"
  unfolding apply_job_report_def Let_def
  by (auto simp: bind_r_Inr split: option.splits if_splits dest: report_v214_tables)

lemma content_step_refs: "content_step d d' \<Longrightarrow> same_refs d d'"
proof (induction rule: content_step.induct)
  case (3 now jid cid node cls d a d')
  then show ?case by (intro same_refs_objects)
    (auto simp: create_pin_assignment_def Let_def bind_r_Inr split: option.splits if_splits dest!: insert_job_tables)
next
  case (5 now jid cid node gen reason nb d a d')
  then show ?case by (intro same_refs_objects)
    (auto simp: create_unpin_job_def Let_def bind_r_Inr split: option.splits if_splits dest!: insert_job_tables)
next
  case (10 d cid ost reason)
  then show ?case
    by (auto simp: same_refs_def refcount_of_def update_object_health_def tbl_find_update_key fun_eq_iff
        split: option.splits)
qed (intro same_refs_objects;
     auto simp: upsert_node_def upsert_node_base_def Let_def heartbeat_db_def create_verify_job_def bind_r_Inr
       authorize_unpin_def pending_jobs_def pending_jobs_base_def mark_replica_state_def recover_v214_def
       split: if_splits option.splits dest!: insert_job_tables report_tables recover_jobs_tables)+

lemma tbl_count_update_key:
  "distinct (map key rows) \<Longrightarrow> tbl_find key k rows = Some row \<Longrightarrow>
   tbl_count P (tbl_update (\<lambda>r. key r = k) f rows) =
     tbl_count P rows - (if P row then 1 else 0) + (if P (f row) then 1 else 0)"
proof (induction rows)
  case Nil
  then show ?case by simp
next
  case (Cons x rows)
  show ?case
  proof (cases "key x = k")
    case True
    then have "tbl_update (\<lambda>r. key r = k) f rows = rows"
      using Cons.prems(1) by (intro tbl_update_none) (auto simp: image_iff)
    then show ?thesis using Cons.prems(2) True by (simp add: tbl_update_def)
  next
    case False
    then show ?thesis using Cons by (simp add: tbl_update_def)
  qed
qed

text \<open>Registration adds one to both sides, or to neither.\<close>

lemma add_reference_count:
  "add_reference now cid sz n m d = Inr d1 \<Longrightarrow>
   refcount_of d1 c = refcount_of d c + (if c = cid then 1 else 0) \<and> db_refs d1 = db_refs d"
  by (auto simp: add_reference_def refcount_of_def tbl_find_update_key tbl_find_append new_obj_row_def
      split: option.splits if_splits)

lemma register_counts:
  assumes "register_object now cid sz n m src ref d = Inr (res, d')" "norm_opt ref = Some r"
  shows "refcount_of d' c - refcount_of d c = live_refs d' c - live_refs d c"
proof -
  define old where "old = map_option (\<lambda>ob. (ob_n ob, ob_m ob)) (find_obj d cid)"
  from assms obtain d0 d1 b x y where t: "take_reference now cid sz n m (Some r) d = Inr (b, d0)"
      and s: "record_source now cid src d0 = Inr d1"
      and d': "d' = after_register now cid old (audit now ''OBJECT_REGISTER'' cid y x d1)"
    by (auto simp: register_object_def register_object_base_def Let_def bind_r_Inr old_def
        split: option.splits prod.splits)
  have "refcount_of d' = refcount_of d1" "db_refs d' = db_refs d1"
  proof -
    show "db_refs d' = db_refs d1" by (simp add: d')
    show "refcount_of d' = refcount_of d1"
    proof
      fix c
      let ?e = "audit now ''OBJECT_REGISTER'' cid y x d1"
      show "refcount_of d' c = refcount_of d1 c"
      proof (cases "find_obj ?e cid")
        case None
        then show ?thesis by (simp add: d' after_register_def refcount_of_def)
      next
        case (Some ob)
        show ?thesis
          using after_register_find [OF Some, where now = now and old = old and c = c] Some
          by (auto simp: d' refcount_of_def)
      qed
    qed
  qed
  moreover have "refcount_of d1 = refcount_of d0" "db_refs d1 = db_refs d0"
    using record_source_objects [OF s] record_source_refs [OF s] by (auto simp: refcount_of_def fun_eq_iff)
  moreover have "refcount_of d0 c - refcount_of d c = live_refs d0 c - live_refs d c"
    using t by (auto simp: take_reference_def bind_r_Inr live_refs_def tbl_count_append refcount_of_def
        split: option.splits if_splits dest!: add_reference_count [where c = c, unfolded refcount_of_def])
  ultimately show ?thesis by (simp add: live_refs_def)
qed


lemma release_rows:
  assumes "release_object now uid cid ref rq act d = Inr (rel, d')" "norm_opt ref = Some r"
  obtains "d' = d"
  | ob row rq' act' d0 where "find_obj d cid = Some ob" "find_ref d r = Some row" "rf_cid row = cid"
      "rf_released_at row = 0"
      "d0 = upd_refs (tbl_update (\<lambda>x. rf_id x = r) (\<lambda>x. x\<lparr>rf_released_at := now, rf_request := rq'\<rparr>)) d"
      "drop_reference now cid (Some r) rq' act' ob d0 = Inr (rel, d')"
  using assms by (auto simp: release_object_def Let_def split: option.splits if_splits)

lemma drop_reference_refs:
  assumes "drop_reference now cid rid rq act ob d = Inr (rel, d')"
  shows "db_refs d' = db_refs d"
  using assms by (cases rule: drop_reference_cases) (auto simp: final_release_def)

lemma drop_reference_refcount:
  assumes "drop_reference now cid rid rq act ob d = Inr (rel, d')" "find_obj d cid = Some ob" "1 \<le> ob_refcount ob"
  shows "refcount_of d' c = refcount_of d c - (if c = cid then 1 else 0)"
  using assms(1)
  by (cases rule: drop_reference_cases)
    (use assms(2,3) in \<open>auto simp: refcount_of_def final_release_def tbl_find_update_key split: option.splits\<close>)

lemma live_refs_pos:
  "find_ref d r = Some row \<Longrightarrow> rf_cid row = cid \<Longrightarrow> rf_released_at row = 0 \<Longrightarrow> 1 \<le> live_refs d cid"
proof -
  assume "find_ref d r = Some row" "rf_cid row = cid" "rf_released_at row = 0"
  then have "row \<in> set (filter (\<lambda>r. rf_cid r = cid \<and> rf_released_at r = 0) (db_refs d))"
    by (auto dest: tbl_find_SomeD)
  then have "filter (\<lambda>r. rf_cid r = cid \<and> rf_released_at r = 0) (db_refs d) \<noteq> []" by force
  then show ?thesis unfolding live_refs_def tbl_count_def by (simp add: Suc_leI flip: length_greater_0_conv)
qed

lemma release_counts:
  assumes "release_object now uid cid ref rq act d = Inr (rel, d')" "norm_opt ref = Some r"
    and "db_wf d" "0 < now" "refcount_of d cid = live_refs d cid"
  shows "refcount_of d' c - refcount_of d c = live_refs d' c - live_refs d c"
  using assms(1,2)
proof (cases rule: release_rows)
  case 1
  then show ?thesis by simp
next
  case (2 ob row rq' act' d0)
  have "1 \<le> ob_refcount ob"
    using assms(5) live_refs_pos [OF 2(2,3,4)] 2(1) by (simp add: refcount_of_def)
  moreover have "find_obj d0 cid = Some ob" using 2(1,5) by simp
  ultimately have rc: "refcount_of d' c = refcount_of d0 c - (if c = cid then 1 else 0)"
    using drop_reference_refcount [OF 2(6)] by blast
  have "refcount_of d0 = refcount_of d" using 2(5) by (simp add: refcount_of_def fun_eq_iff)
  moreover have "live_refs d' c = live_refs d c - (if c = cid then 1 else 0)"
    using tbl_count_update_key [of rf_id "db_refs d" r row] assms(3,4) 2(2,3,4)
    by (simp add: live_refs_def drop_reference_refs [OF 2(6)] 2(5) db_wf_def)
  ultimately show ?thesis using rc by simp
qed

lemma live_refs_none: "db_wf d \<Longrightarrow> find_obj d c = None \<Longrightarrow> live_refs d c = 0"
  by (auto simp: live_refs_def tbl_count_def db_wf_def find_obj_cids filter_empty_conv)

lemma named_counts: "named_reachable d \<Longrightarrow> refcount_of d c = live_refs d c"
proof (induction arbitrary: c rule: named_reachable.induct)
  case nr_empty
  then show ?case by (simp add: refcount_of_def live_refs_def empty_db_def)
next
  case (nr_register d now ref r cid sz n m src res d')
  then show ?case using register_counts [of now cid sz n m src ref d res d' r c] by simp
next
  case (nr_release d now ref r uid cid req act rel d')
  have "db_wf d" using nr_release(1) named_db_reachable reachable_invariants by blast
  then show ?case using release_counts [OF nr_release(4,3) _ nr_release(2)] nr_release.IH by simp
next
  case (nr_other d d')
  then show ?case using content_step_refs [of d d'] by (simp add: same_refs_def live_refs_def)
qed

text \<open>C24: When every caller names its references, the reference count of an object is exactly the number
  of its live references; so an object is marked for deletion only when none is left.\<close>

theorem reference_counts_are_exact:
  assumes "named_reachable d" "find_obj d cid = Some ob"
  shows "ob_refcount ob = live_refs d cid \<and> (ob_released_at ob \<noteq> 0 \<longleftrightarrow> live_refs d cid = 0)"
proof -
  have "ob_refcount ob = live_refs d cid"
    using named_counts [OF assms(1), of cid] assms(2) by (simp add: refcount_of_def)
  moreover have "obj_ok ob"
    using reachable_invariants [OF named_db_reachable [OF assms(1)]] assms(2)
    by (auto simp: life_def dest: tbl_find_SomeD)
  ultimately show ?thesis unfolding obj_ok_def by linarith
qed

section \<open>Recovery\<close>

definition verifies :: "db \<Rightarrow> job_row \<Rightarrow> bool" where
  "verifies d job \<longleftrightarrow> list_ex (\<lambda>j. jb_cid j = jb_cid job \<and> jb_node j = jb_node job \<and> jb_op j = OpUnpinVerify \<and>
     jb_gen j = jb_gen job \<and> jb_state j \<in> active_states) (db_jobs d)"

lemma new_job_simps [simp]:
  "jb_id (new_job jid cid node op' gen nxt now reason) = jid"
  "jb_cid (new_job jid cid node op' gen nxt now reason) = cid"
  "jb_node (new_job jid cid node op' gen nxt now reason) = node"
  "jb_op (new_job jid cid node op' gen nxt now reason) = op'"
  "jb_gen (new_job jid cid node op' gen nxt now reason) = gen"
  "jb_state (new_job jid cid node op' gen nxt now reason) = JPending"
  "jb_reason (new_job jid cid node op' gen nxt now reason) = reason"
  by (simp_all add: new_job_def)

lemma recover_job_eq:
  "recover_job now v job d =
     (if verifies (stale_job now (jb_id job) d) job then Inr (stale_job now (jb_id job) d)
      else insert_job (new_job v (jb_cid job) (jb_node job) OpUnpinVerify (jb_gen job) 0 now
             ''recover-authorized-unpin'') (stale_job now (jb_id job) d))"
  by (simp add: recover_job_def verifies_def Let_def)

lemma in_tbl_update_other: "r \<in> set rows \<Longrightarrow> \<not> sel r \<Longrightarrow> r \<in> set (tbl_update sel f rows)"
  by (auto simp: set_tbl_update intro!: image_eqI [where x = r])

lemma recover_job_result:
  assumes "recover_job now v job d = Inr d'" "jb_op job = OpUnpin" "find_job d (jb_id job) = Some job" "db_wf d"
  shows "verifies d' job" "\<And>k. verifies d k \<Longrightarrow> verifies d' k"
    "set (authorized_unpins d') \<subseteq> set (authorized_unpins d) - {job}"
    "\<And>j. find_job d j = Some k \<Longrightarrow> j \<noteq> jb_id job \<Longrightarrow> find_job d' j = Some k"
proof -
  let ?d = "stale_job now (jb_id job) d"
  have uniq: "j = job" if "j \<in> set (db_jobs d)" "jb_id j = jb_id job" for j
    using that assms(3,4) tbl_find_in [of jb_id "db_jobs d" j] by (auto simp: db_wf_def)
  have jobs: "db_jobs ?d = tbl_update (\<lambda>j. jb_id j = jb_id job) (\<lambda>j. j\<lparr>jb_state := JStale, jb_updated := now\<rparr>) (db_jobs d)"
    by (simp add: stale_job_def)
  have keep: "verifies ?d k" if "verifies d k" for k
  proof -
    from that obtain j where j: "j \<in> set (db_jobs d)" "jb_cid j = jb_cid k" "jb_node j = jb_node k"
        "jb_op j = OpUnpinVerify" "jb_gen j = jb_gen k" "jb_state j \<in> active_states"
      unfolding verifies_def list_ex_iff by blast
    have "jb_id j \<noteq> jb_id job"
    proof
      assume "jb_id j = jb_id job"
      then have "j = job" by (rule uniq [OF j(1)])
      then show False using j(4) assms(2) by simp
    qed
    then have "j \<in> set (db_jobs ?d)" unfolding jobs by (rule in_tbl_update_other [OF j(1)])
    then show ?thesis unfolding verifies_def list_ex_iff using j(2-6) by (intro bexI [of _ j]) simp_all
  qed
  let ?new = "new_job v (jb_cid job) (jb_node job) OpUnpinVerify (jb_gen job) 0 now ''recover-authorized-unpin''"
  have cases: "d' = ?d \<and> verifies ?d job \<or> d' = upd_jobs (\<lambda>js. js @ [?new]) ?d \<and> find_job ?d v = None"
    using assms(1) unfolding recover_job_eq insert_job_def by (auto split: if_splits)
  have new: "verifies (upd_jobs (\<lambda>js. js @ [?new]) ?d) job"
    by (simp add: verifies_def active_states_def)
  have more: "verifies (upd_jobs (\<lambda>js. js @ [x]) ?d) k" if "verifies ?d k" for x k
    using that by (simp add: verifies_def)
  show "verifies d' job" using cases new by blast
  show "verifies d' k" if "verifies d k" for k
    using cases keep [OF that] more by blast
  have "set (authorized_unpins ?d) \<subseteq> set (authorized_unpins d) - {job}"
  proof
    fix j assume "j \<in> set (authorized_unpins ?d)"
    then have j: "j \<in> set (db_jobs ?d)" "jb_op j = OpUnpin" "jb_state j = JAuthorized"
      by (simp_all add: authorized_unpins_def)
    from j(1) obtain j0 where j0: "j0 \<in> set (db_jobs d)"
        "j = (if jb_id j0 = jb_id job then j0\<lparr>jb_state := JStale, jb_updated := now\<rparr> else j0)"
      unfolding jobs set_tbl_update by (rule imageE)
    have "jb_id j0 \<noteq> jb_id job" using j0(2) j(3) by (cases "jb_id j0 = jb_id job") simp_all
    then have "j = j0" "j \<noteq> job" using j0(2) by auto
    then show "j \<in> set (authorized_unpins d) - {job}" using j(2,3) j0(1) by (simp add: authorized_unpins_def)
  qed
  moreover have "authorized_unpins (upd_jobs (\<lambda>js. js @ [?new]) ?d) = authorized_unpins ?d"
    by (simp add: authorized_unpins_def)
  ultimately show "set (authorized_unpins d') \<subseteq> set (authorized_unpins d) - {job}"
    using cases by metis
  show "find_job d' j = Some k" if "find_job d j = Some k" "j \<noteq> jb_id job" for j
  proof -
    have "find_job ?d j = Some k" using that by (simp add: jobs tbl_find_update_key)
    then show ?thesis using cases by (auto simp: tbl_find_append)
  qed
qed

lemma recover_job_wf: "recover_job now v job d = Inr d' \<Longrightarrow> db_wf d \<Longrightarrow> db_wf d'"
  by (auto simp: recover_job_def Let_def split: if_splits dest!: db_wf_insert_job)

lemma recover_jobs_result:
  assumes "recover_jobs now uid js d = Inr d'" "distinct (map jb_id js)" "db_wf d"
    and "\<And>j. j \<in> set js \<Longrightarrow> find_job d (jb_id j) = Some j \<and> jb_op j = OpUnpin"
  shows "(\<forall>j \<in> set js. verifies d' j) \<and> (\<forall>k. verifies d k \<longrightarrow> verifies d' k) \<and>
         set (authorized_unpins d') \<subseteq> set (authorized_unpins d) - set js"
  using assms
proof (induction now uid js d rule: recover_jobs.induct)
  case (1 now uid d)
  then show ?case by simp
next
  case (2 now uid j js d)
  from "2.prems"(1) obtain d1 where d1: "recover_job now (uid (length js)) j d = Inr d1"
      "recover_jobs now uid js d1 = Inr d'" by (auto simp: bind_r_Inr)
  have j: "jb_op j = OpUnpin" "find_job d (jb_id j) = Some j" using "2.prems"(4) [of j] by auto
  note r = recover_job_result [OF d1(1) j "2.prems"(3)]
  have "find_job d1 (jb_id k) = Some k \<and> jb_op k = OpUnpin" if "k \<in> set js" for k
    using r(4) [of "jb_id k" k] "2.prems"(2) "2.prems"(4) [of k] that by (auto simp: image_iff)
  then have ih: "(\<forall>j \<in> set js. verifies d' j) \<and> (\<forall>k. verifies d1 k \<longrightarrow> verifies d' k) \<and>
         set (authorized_unpins d') \<subseteq> set (authorized_unpins d1) - set js"
    using "2.IH" [OF d1(2) _ recover_job_wf [OF d1(1) "2.prems"(3)]] "2.prems"(2) by simp
  show ?case using ih r(1-3) by auto
qed

text \<open> After a crash recovery no UNPIN is authorised any more, and for each one that was, the node that
  held it has a waiting job to report whether the copy is still there.\<close>

theorem recovery_asks_for_every_interrupted_unpin:
  assumes "db_reachable d" "recover_v214 now uid d = Inr d'"
  shows "authorized_unpins d' = [] \<and>
    (\<forall>k \<in> set (authorized_unpins d). \<exists>j \<in> set (db_jobs d'). jb_cid j = jb_cid k \<and> jb_node j = jb_node k \<and>
       jb_op j = OpUnpinVerify \<and> jb_gen j = jb_gen k \<and> jb_state j \<in> {JPending, JRetry})"
proof -
  let ?rows = "authorized_unpins d"
  have wf: "db_wf d" using reachable_invariants [OF assms(1)] by simp
  from assms(2) obtain d1 where d1: "recover_jobs now uid ?rows d = Inr d1" "db_jobs d' = db_jobs d1"
    by (auto simp: recover_v214_def Let_def bind_r_Inr split: if_splits)
  have "distinct (map jb_id ?rows)" using wf by (simp add: authorized_unpins_def db_wf_def distinct_map_filter)
  moreover have "find_job d (jb_id j) = Some j \<and> jb_op j = OpUnpin" if "j \<in> set ?rows" for j
    using that wf tbl_find_in [of jb_id "db_jobs d" j] by (auto simp: authorized_unpins_def db_wf_def)
  ultimately have r: "(\<forall>j \<in> set ?rows. verifies d1 j) \<and> set (authorized_unpins d1) \<subseteq> set ?rows - set ?rows"
    using recover_jobs_result [OF d1(1) _ wf] by blast
  then have "authorized_unpins d' = []" using d1(2) by (simp add: authorized_unpins_def)
  moreover have "\<forall>k \<in> set ?rows. verifies d' k" using r d1(2) by (simp add: verifies_def)
  ultimately show ?thesis unfolding verifies_def list_ex_iff active_states_def by blast
qed

section \<open>A copy removed under an interrupted trim\<close>

text \<open>The run of \<open>Replication_Safety\<close> crashes after the agent of \<open>b\<close> removed its copy; after recovery
  the agent reports the copy gone, and then the copy of \<open>a\<close> is put up for trimming.\<close>

definition crash1 :: db where
  "crash1 = projr (recover_v214 200 (\<lambda>k. ''v'') run8)"

definition crash2 :: db where
  "crash2 = snd (pending_jobs 201 ''b'' 32 None crash1)"

definition crash3 :: db where
  "crash3 = projr (apply_job_report 202 ''b'' (report_of ''v'' ''unpinned'' 321) crash2)"

definition crash4 :: db where
  "crash4 = snd (projr (create_unpin_job 203 ''w'' ''c'' ''a'' 1 trim_reason 0 crash3))"

definition crash5 :: db where
  "crash5 = snd (pending_jobs 204 ''a'' 32 None crash4)"

text \<open> A trim interrupted by a crash can cost the last copy: with N = M = 1 and two copies, the node whose
  copy was removed reports it gone after recovery, the report is discarded because the object is still
  referenced, the copy keeps counting as confirmed, and the trim of the other copy is authorised.\<close>

theorem recovered_trim_still_counts_the_removed_copy:
  "apply_job_report 202 ''b'' (report_of ''v'' ''unpinned'' 321) crash2 = Inr crash3 \<and>
   map (\<lambda>r. (rp_node r, rp_desired r, rp_state r)) (db_replicas crash3) =
     [(''a'', True, Pinned), (''b'', True, Pinned)] \<and>
   map (\<lambda>ob. (ob_refcount ob, ob_n ob)) (db_objects crash5) = [(1, 1)] \<and>
   fst (authorize_unpin 205 ''a'' ''w'' 324 crash5) = Authorized ''c'' 1"
proof (intro conjI)
  have "\<not> isl (apply_job_report 202 ''b'' (report_of ''v'' ''unpinned'' 321) crash2)" by code_simp
  then show "apply_job_report 202 ''b'' (report_of ''v'' ''unpinned'' 321) crash2 = Inr crash3"
    unfolding crash3_def by (rule Inr_projr)
  show "map (\<lambda>r. (rp_node r, rp_desired r, rp_state r)) (db_replicas crash3) =
     [(''a'', True, Pinned), (''b'', True, Pinned)]" by code_simp
  show "map (\<lambda>ob. (ob_refcount ob, ob_n ob)) (db_objects crash5) = [(1, 1)]" by code_simp
  show "fst (authorize_unpin 205 ''a'' ''w'' 324 crash5) = Authorized ''c'' 1" by code_simp
qed

section \<open>Witnesses\<close>

lemma named_run1: "named_reachable run1"
  unfolding run1_def by (intro nr_other [OF _ content_step.intros(1)] nr_empty)

lemma norm_r: "norm_opt (Some ''r'') = Some ''r''"
  by code_simp

lemma run2_step: "register_object 10 ''c'' 7 1 1 (Some ''a'') (Some ''r'') run1 =
    Inr (fst (projr (register_object 10 ''c'' 7 1 1 (Some ''a'') (Some ''r'') run1)), run2)"
  unfolding run2_def by (rule Inr_pair [OF run_ok(1)])

theorem register_retry_is_noop_witness:
  "\<exists>res2 d2. register_object 99 ''c'' 7 1 1 None (Some ''r'') run2 = Inr (res2, d2) \<and> \<not> rr_new res2 \<and>
     db_objects d2 = db_objects run2"
  using register_retry_is_noop [OF reach_run1 _ norm_r run2_step, of 99 7] by auto

theorem reference_counts_are_exact_witness: "live_refs run2 ''c'' = 1"
proof -
  have n: "named_reachable run2"
    by (rule nr_register [OF named_run1 _ norm_r run2_step]) simp
  have "case find_obj run2 ''c'' of None \<Rightarrow> False | Some ob \<Rightarrow> ob_refcount ob = 1" by code_simp
  then obtain ob where "find_obj run2 ''c'' = Some ob" "ob_refcount ob = 1" by (auto split: option.splits)
  then show ?thesis using reference_counts_are_exact [OF n] by auto
qed

theorem recovery_asks_for_every_interrupted_unpin_witness:
  "authorized_unpins run8 \<noteq> [] \<and> authorized_unpins crash1 = []"
proof
  show "authorized_unpins run8 \<noteq> []" by code_simp
  have "\<not> isl (recover_v214 200 (\<lambda>k. ''v'') run8)" by code_simp
  then have "recover_v214 200 (\<lambda>k. ''v'') run8 = Inr crash1" unfolding crash1_def by (rule Inr_projr)
  moreover have "db_reachable run8"
    by (rule reach_step [OF reach_run8(1) st_authorize]) (rule reach_run8(2))
  ultimately show "authorized_unpins crash1 = []"
    using recovery_asks_for_every_interrupted_unpin by blast
qed

end
