(* ===== verification/Replication_Controller.thy ===== *)
theory Replication_Controller
  imports Replication_References
begin

text \<open>
  The replication controller, \<open>replication/hb_replication_controller.py\<close> as the v2.1.4
  subclass \<open>replication/hb_replication_controller_v214.py\<close> runs it: registry synchronisation,
  observation of replicas, placement and repair, trimming, final release, and the HTTP entry
  points. A method is a function from the store to its result and the new store; a raise keeps
  what was committed before it. The clock is read once per entry point; a value Python's
  \<open>int()\<close> rejects raises \<open>ValueError\<close>.
\<close>

section \<open>Methods that may raise\<close>

type_synonym 'a ctl = "db \<Rightarrow> (db_error + 'a) \<times> db"

definition c_ret :: "'a \<Rightarrow> 'a ctl" where
  "c_ret x d = (Inr x, d)"

definition c_fail :: "db_error \<Rightarrow> 'a ctl" where
  "c_fail e d = (Inl e, d)"

definition c_bind :: "'a ctl \<Rightarrow> ('a \<Rightarrow> 'b ctl) \<Rightarrow> 'b ctl" where
  "c_bind m f d = (case m d of (Inl e, d1) \<Rightarrow> (Inl e, d1) | (Inr x, d1) \<Rightarrow> f x d1)"

definition c_upd :: "(db \<Rightarrow> db) \<Rightarrow> unit ctl" where
  "c_upd f d = (Inr (), f d)"

definition c_read :: "(db \<Rightarrow> 'a) \<Rightarrow> 'a ctl" where
  "c_read f d = (Inr (f d), d)"

text \<open>One call of the store, which either raises and keeps its state or returns.\<close>

definition c_try :: "(db \<Rightarrow> db_error + 'a \<times> db) \<Rightarrow> 'a ctl" where
  "c_try f d = (case f d of Inl e \<Rightarrow> (Inl e, d) | Inr (x, d1) \<Rightarrow> (Inr x, d1))"

definition c_try0 :: "(db \<Rightarrow> db_error + db) \<Rightarrow> unit ctl" where
  "c_try0 f d = (case f d of Inl e \<Rightarrow> (Inl e, d) | Inr d1 \<Rightarrow> (Inr (), d1))"

definition c_of :: "db_error + 'a \<Rightarrow> 'a ctl" where
  "c_of x = (case x of Inl e \<Rightarrow> c_fail e | Inr v \<Rightarrow> c_ret v)"

fun c_each :: "('a \<Rightarrow> unit ctl) \<Rightarrow> 'a list \<Rightarrow> unit ctl" where
  "c_each f [] = c_ret ()"
| "c_each f (x # xs) = c_bind (f x) (\<lambda>u. c_each f xs)"

section \<open>Configuration\<close>

datatype ctl_mode = Observe | PinOnly | Full

record ctl_config =
  cc_mode :: ctl_mode
  cc_policy :: policy
  cc_unpin_enabled :: bool
  cc_edge_grace :: int
  cc_committable_grace :: int
  cc_node_stale :: int
  cc_verify_interval :: int
  cc_delete_grace :: int
  cc_shared_token :: string
  cc_admin_token :: string

section \<open>Registry\<close>

definition class_of_text :: "string \<Rightarrow> string \<Rightarrow> capacity_class" where
  "class_of_text cls role =
     (if cls = ''committable'' then Committable
      else if cls = ''best-effort'' then BestEffort
      else if role = ''primary'' \<or> role = ''secondary'' then Committable
      else if role = ''edge'' then BestEffort
      else UnknownClass)"

definition registry_node :: "json \<Rightarrow> node_spec option" where
  "registry_node v =
     (case v of
        JObj o' \<Rightarrow>
          if jget_def_to o' ''enabled'' (JBool True) = JBool False then None
          else
            let node_id = py_strip (py_str (py_or (py_or (jget o' ''node_id'') (jget o' ''name'')) (JStr [])));
                role = jtext_strip o' ''role''
            in if node_id = [] then None
               else Some \<lparr>ns_id = node_id, ns_name = py_str (jget_def_to o' ''name'' (JStr [])), ns_role = role,
                          ns_class = class_of_text (jtext_strip o' ''capacity_class'') role,
                          ns_enabled = truthy (jget_def_to o' ''enabled'' (JBool True)),
                          ns_token = py_str (jget_def_to o' ''replication_token'' (JStr [])),
                          ns_failure_domain = jtext o' ''failure_domain'', ns_provider = jtext o' ''provider'',
                          ns_region = jtext o' ''region'', ns_rack = jtext o' ''rack''\<rparr>
      | _ \<Rightarrow> None)"

text \<open>\<open>None\<close> is a registry file that cannot be read.\<close>

definition sync_registry :: "json list option \<Rightarrow> db \<Rightarrow> db" where
  "sync_registry reg d =
     (case reg of None \<Rightarrow> d
      | Some vs \<Rightarrow> foldl (\<lambda>e s. upsert_node s e) d (List.map_filter registry_node vs))"

definition authenticate_node :: "ctl_config \<Rightarrow> string \<Rightarrow> string \<Rightarrow> db \<Rightarrow> bool" where
  "authenticate_node cfg node token d =
     (case find_node d node of
        None \<Rightarrow> False
      | Some n \<Rightarrow> let expected = (if nd_token n \<noteq> [] then nd_token n else cc_shared_token cfg)
                   in expected \<noteq> [] \<and> expected = token)"

section \<open>Observation\<close>

definition node_online :: "ctl_config \<Rightarrow> int \<Rightarrow> node_row \<Rightarrow> bool" where
  "node_online cfg now n \<longleftrightarrow> nd_enabled n \<and> 0 < nd_last_seen n \<and> now - nd_last_seen n \<le> cc_node_stale cfg"

definition int_or :: "int \<Rightarrow> int \<Rightarrow> int" where
  "int_or x y = (if x \<noteq> 0 then x else y)"

definition offline_for :: "int \<Rightarrow> node_row \<Rightarrow> rep_row \<Rightarrow> int" where
  "offline_for now n r = now - int_or (nd_last_seen n) (int_or (rp_confirmed r) (int_or (rp_assigned r) now))"

definition classify_one :: "ctl_config \<Rightarrow> int \<Rightarrow> string \<Rightarrow> node_row option \<Rightarrow> rep_row \<Rightarrow> db \<Rightarrow> db" where
  "classify_one cfg now cid node r d =
     (case node of
        None \<Rightarrow> mark_replica_state now cid (rp_node r) Missing ''node removed from registry'' d
      | Some n \<Rightarrow>
          if node_online cfg now n then
            (if rp_state r = Grace then mark_replica_state now cid (rp_node r) Pinned [] d else d)
          else if rp_state r \<notin> {Pinned, Grace} then d
          else
            let grace = (if rp_class r = BestEffort then cc_edge_grace cfg else cc_committable_grace cfg)
            in if offline_for now n r < grace
               then mark_replica_state now cid (rp_node r) Grace ''node offline within grace'' d
               else mark_replica_state now cid (rp_node r) Missing ''node offline beyond grace'' d)"

definition classify_replicas :: "ctl_config \<Rightarrow> int \<Rightarrow> string \<Rightarrow> db \<Rightarrow> db" where
  "classify_replicas cfg now cid d =
     foldl (\<lambda>e r. classify_one cfg now cid (find_node d (rp_node r)) r e) d (replica_rows cid d)"

definition is_confirmed :: "rep_row \<Rightarrow> bool" where
  "is_confirmed r \<longleftrightarrow> rp_desired r \<and> rp_state r = Pinned"

definition confirmed_counts :: "rep_row list \<Rightarrow> int \<times> int \<times> int" where
  "confirmed_counts rs =
     (let conf = filter is_confirmed rs
      in (int (length conf), tbl_count (\<lambda>r. rp_class r = Committable) conf,
          tbl_count (\<lambda>r. rp_class r = BestEffort) conf))"

section \<open>Reconciliation\<close>

definition to_pnode :: "ctl_config \<Rightarrow> int \<Rightarrow> node_row \<Rightarrow> pnode" where
  "to_pnode cfg now n = \<lparr>pn_id = nd_id n, pn_class = nd_class n, pn_enabled = nd_enabled n,
     pn_online = node_online cfg now n, pn_total = nd_total n, pn_used = nd_used n,
     pn_stability = nd_stability n, pn_penalty = nd_penalty n, pn_failure_domain = nd_failure_domain n,
     pn_provider = nd_provider n, pn_region = nd_region n, pn_rack = nd_rack n\<rparr>"

definition object_policy :: "ctl_config \<Rightarrow> obj_row \<Rightarrow> policy" where
  "object_policy cfg ob = \<lparr>replication_n = ob_n ob, committable_m = ob_m ob,
     prefer_edge_for_extra = prefer_edge_for_extra (cc_policy cfg),
     safety_margin_bytes = safety_margin_bytes (cc_policy cfg)\<rparr>"

definition placement_for :: "ctl_config \<Rightarrow> int \<Rightarrow> string \<Rightarrow> obj_row \<Rightarrow> rep_row list \<Rightarrow> db \<Rightarrow> placement_input" where
  "placement_for cfg now cid ob reps d =
     (let (tot, comm, edge) = confirmed_counts reps;
          grace_total = tbl_count (\<lambda>r. rp_desired r \<and> rp_state r = Grace) reps;
          grace_comm = tbl_count (\<lambda>r. rp_desired r \<and> rp_state r = Grace \<and> rp_class r = Committable) reps;
          (reserved, desired, assigned) = placement_load d
      in \<lparr>pi_cid = cid, pi_size = ob_size ob, pi_nodes = map (to_pnode cfg now) (nodes_db d),
          pi_current = rp_node ` set (filter rp_desired reps),
          pi_current_comm = comm + grace_comm, pi_current_total = tot + grace_total,
          pi_reserved = reserved, pi_desired = desired, pi_assigned = assigned\<rparr>)"

definition needs_verify :: "ctl_config \<Rightarrow> int \<Rightarrow> db \<Rightarrow> rep_row \<Rightarrow> bool" where
  "needs_verify cfg now d r \<longleftrightarrow> is_confirmed r \<and>
     (case find_node d (rp_node r) of None \<Rightarrow> False | Some n \<Rightarrow> node_online cfg now n) \<and>
     cc_verify_interval cfg \<le> now - rp_verified r"

text \<open>Job ids: the \<open>uuid4\<close> drawn when the job table has that many rows.\<close>

definition c_job :: "(nat \<Rightarrow> string) \<Rightarrow> (string \<Rightarrow> db \<Rightarrow> db_error + string option \<times> db) \<Rightarrow> string option ctl" where
  "c_job uid f d = c_try (f (uid (length (db_jobs d)))) d"

definition c_drop :: "'a ctl \<Rightarrow> unit ctl" where
  "c_drop m = c_bind m (\<lambda>x. c_ret ())"

definition repair :: "ctl_config \<Rightarrow> (nat \<Rightarrow> string) \<Rightarrow> int \<Rightarrow> string \<Rightarrow> obj_row \<Rightarrow> rep_row list \<Rightarrow> pnode list \<Rightarrow> unit ctl" where
  "repair cfg uid now cid ob reps picks =
     c_bind (c_each (\<lambda>n. c_drop (c_job uid (\<lambda>j. create_pin_assignment now j cid (pn_id n) (pn_class n)))) picks) (\<lambda>u.
     c_bind (c_read (\<lambda>d. filter (needs_verify cfg now d) reps)) (\<lambda>old.
     c_each (\<lambda>r. c_drop (c_job uid (\<lambda>j. create_verify_job now j cid (rp_node r)
                                            (int_or (rp_gen r) (ob_gen ob))))) old))"

definition health :: "policy \<Rightarrow> rep_row list \<Rightarrow> object_state \<times> string" where
  "health p rs =
     (let (tot, comm, edge) = confirmed_counts rs
      in if comm < committable_m p
         then (ODegradedCommittable, ''confirmed_committable='' @ show_int comm @ '' required='' @ show_int (committable_m p))
         else if tot < replication_n p
         then (ODegradedTotal, if list_ex (\<lambda>r. rp_state r = Grace) rs then ''replica offline within grace''
                 else ''confirmed_total='' @ show_int tot @ '' target='' @ show_int (replication_n p))
         else (OHealthy, []))"

definition set_health :: "ctl_config \<Rightarrow> string \<Rightarrow> obj_row \<Rightarrow> db \<Rightarrow> db" where
  "set_health cfg cid ob d =
     (case health (object_policy cfg ob) (replica_rows cid d) of (st, reason) \<Rightarrow> update_object_health cid st reason d)"

definition reconcile_base ::
  "ctl_config \<Rightarrow> (string \<Rightarrow> string \<Rightarrow> int) \<Rightarrow> (nat \<Rightarrow> string) \<Rightarrow> int \<Rightarrow> string \<Rightarrow> unit ctl" where
  "reconcile_base cfg tb uid now cid =
     c_bind (c_read (object_db cid)) (\<lambda>obj0.
     if (case obj0 of None \<Rightarrow> True | Some (ob, rs) \<Rightarrow> ob_refcount ob \<le> 0) then c_ret ()
     else
       c_bind (c_upd (classify_replicas cfg now cid)) (\<lambda>u.
       c_bind (c_read (object_db cid)) (\<lambda>obj1.
       case obj1 of None \<Rightarrow> c_ret () | Some (ob, reps) \<Rightarrow>
         c_bind (c_read (placement_for cfg now cid ob reps)) (\<lambda>inp.
         c_bind (c_of (case choose_placements tb inp (object_policy cfg ob) of
                         Inl e \<Rightarrow> Inl (ValueError e) | Inr ns \<Rightarrow> Inr ns)) (\<lambda>picks.
         c_bind (if cc_mode cfg = PinOnly then repair cfg uid now cid ob reps picks
                 else if picks \<noteq> [] then c_upd (audit now ''PLACEMENT_OBSERVED'' cid []
                        [(''candidates'', JList (map (\<lambda>n. JStr (pn_id n)) picks))])
                 else c_ret ()) (\<lambda>v.
         c_upd (set_health cfg cid ob)))))))"

section \<open>Life cycle of v2.1.4\<close>

definition unpin_active :: "ctl_config \<Rightarrow> bool" where
  "unpin_active cfg \<longleftrightarrow> cc_mode cfg = Full \<and> cc_unpin_enabled cfg"

definition plan_final_release :: "ctl_config \<Rightarrow> (nat \<Rightarrow> string) \<Rightarrow> int \<Rightarrow> obj_row \<Rightarrow> rep_row list \<Rightarrow> unit ctl" where
  "plan_final_release cfg uid now ob reps =
     (if \<not> unpin_active cfg then c_ret ()
      else if ob_released_at ob = 0 \<or> now < ob_released_at ob + cc_delete_grace cfg then c_ret ()
      else c_each (\<lambda>r. if rp_state r = Unpinned then c_ret ()
             else c_drop (c_job uid (\<lambda>j. create_unpin_job now j (ob_cid ob) (rp_node r) (ob_gen ob)
                    ''final-release'' (ob_released_at ob + cc_delete_grace cfg)))) reps)"

definition trim_le :: "rep_row \<Rightarrow> rep_row \<Rightarrow> bool" where
  "trim_le a b =
     (let ka = (if rp_class a = BestEffort then 0 else 1 :: int); kb = (if rp_class b = BestEffort then 0 else 1)
      in ka < kb \<or> ka = kb \<and> (rp_verified a < rp_verified b \<or>
           rp_verified a = rp_verified b \<and> lex_le (text_key (rp_node a)) (text_key (rp_node b))))"

text \<open>The loop over the candidates: \<open>remove\<close> and \<open>comm_after_active\<close> are its variables.\<close>

fun trim_loop ::
  "ctl_config \<Rightarrow> (nat \<Rightarrow> string) \<Rightarrow> int \<Rightarrow> obj_row \<Rightarrow> int \<Rightarrow> int \<Rightarrow> rep_row list \<Rightarrow> unit ctl" where
  "trim_loop cfg uid now ob remove comm [] = c_ret ()"
| "trim_loop cfg uid now ob remove comm (r # rs) =
     (if remove \<le> 0 then c_ret ()
      else if rp_class r = Committable \<and> comm - 1 < ob_m ob then trim_loop cfg uid now ob remove comm rs
      else c_bind (c_job uid (\<lambda>j. create_unpin_job now j (ob_cid ob) (rp_node r) (ob_gen ob) trim_reason 0)) (\<lambda>job.
        if job \<noteq> None
        then trim_loop cfg uid now ob (remove - 1) (if rp_class r = Committable then comm - 1 else comm) rs
        else trim_loop cfg uid now ob remove comm rs))"

definition plan_trim :: "ctl_config \<Rightarrow> (nat \<Rightarrow> string) \<Rightarrow> int \<Rightarrow> obj_row \<Rightarrow> rep_row list \<Rightarrow> unit ctl" where
  "plan_trim cfg uid now ob reps =
     (if \<not> unpin_active cfg \<or> ob_refcount ob \<le> 0 then c_ret ()
      else
        let pinned = filter is_confirmed reps in
        if int (length pinned) \<le> ob_n ob then c_ret ()
        else c_bind (c_read (active_unpin_nodes (ob_cid ob) trim_reason)) (\<lambda>active.
          let remove = max 0 (int (length pinned) - ob_n ob - int (length active));
              comm = tbl_count (\<lambda>r. rp_class r = Committable) pinned;
              active_comm = tbl_count (\<lambda>r. rp_node r \<in> set active \<and> rp_class r = Committable) pinned
          in if remove \<le> 0 then c_ret ()
             else trim_loop cfg uid now ob remove (comm - active_comm)
                    (sort_by trim_le (filter (\<lambda>r. rp_node r \<notin> set active) pinned))))"

definition reconcile_cid ::
  "ctl_config \<Rightarrow> (string \<Rightarrow> string \<Rightarrow> int) \<Rightarrow> (nat \<Rightarrow> string) \<Rightarrow> int \<Rightarrow> string \<Rightarrow> unit ctl" where
  "reconcile_cid cfg tb uid now cid =
     c_bind (c_read (object_db cid)) (\<lambda>obj.
     case obj of
       None \<Rightarrow> c_ret ()
     | Some (ob, reps) \<Rightarrow>
         if ob_refcount ob \<le> 0 then plan_final_release cfg uid now ob reps
         else c_bind (reconcile_base cfg tb uid now cid) (\<lambda>u.
              c_bind (c_read (object_db cid)) (\<lambda>obj1.
              case obj1 of None \<Rightarrow> c_ret () | Some (ob1, reps1) \<Rightarrow> plan_trim cfg uid now ob1 reps1)))"

text \<open>\<open>reconcile_all\<close>: one CID's exception is logged and the next CID goes on.\<close>

definition c_catch :: "unit ctl \<Rightarrow> unit ctl" where
  "c_catch m d = (Inr (), snd (m d))"

definition reconcile_all ::
  "ctl_config \<Rightarrow> (string \<Rightarrow> string \<Rightarrow> int) \<Rightarrow> (nat \<Rightarrow> string) \<Rightarrow> int \<Rightarrow> json list option \<Rightarrow> unit ctl" where
  "reconcile_all cfg tb uid now reg =
     c_bind (c_upd (sync_registry reg)) (\<lambda>u.
     c_bind (c_read objects_db) (\<lambda>obs.
     c_each (\<lambda>ob. c_catch (reconcile_cid cfg tb uid now (ob_cid ob))) obs))"

definition maintenance_step ::
  "ctl_config \<Rightarrow> (string \<Rightarrow> string \<Rightarrow> int) \<Rightarrow> (nat \<Rightarrow> string) \<Rightarrow> (nat \<Rightarrow> string) \<Rightarrow> int \<Rightarrow> int \<Rightarrow> json list option \<Rightarrow> unit ctl" where
  "maintenance_step cfg tb uid ruid now interval reg =
     c_catch (c_bind (c_try0 (recover_v214 now ruid)) (\<lambda>u.
              c_bind (reconcile_all cfg tb uid now reg) (\<lambda>v.
              c_upd (audit now ''FULL_RECONCILE'' [] [] [(''interval_sec'', JInt interval)]))))"


section \<open>Entry points\<close>

definition json_int :: "json \<Rightarrow> db_error + int" where
  "json_int v = (case py_int v of None \<Rightarrow> Inl (ValueError ''int'') | Some k \<Rightarrow> Inr k)"

record object_status =
  os_cid :: string
  os_size :: int
  os_state :: object_state
  os_reason :: string
  os_n :: int
  os_m :: int
  os_total :: int
  os_comm :: int
  os_edge :: int
  os_refcount :: int
  os_replicas :: "rep_row list"

definition object_status :: "string \<Rightarrow> object_status ctl" where
  "object_status cid =
     c_bind (c_read (object_db cid)) (\<lambda>obj.
     case obj of
       None \<Rightarrow> c_fail (KeyErr cid)
     | Some (ob, reps) \<Rightarrow>
         (case confirmed_counts reps of (tot, comm, edge) \<Rightarrow>
           c_ret \<lparr>os_cid = cid, os_size = ob_size ob, os_state = ob_state ob, os_reason = ob_reason ob,
                  os_n = ob_n ob, os_m = ob_m ob, os_total = tot, os_comm = comm, os_edge = edge,
                  os_refcount = ob_refcount ob, os_replicas = reps\<rparr>))"

definition non_empty :: "string \<Rightarrow> string option" where
  "non_empty s = (if s = [] then None else Some s)"

definition ctl_register ::
  "ctl_config \<Rightarrow> (string \<Rightarrow> string \<Rightarrow> int) \<Rightarrow> (nat \<Rightarrow> string) \<Rightarrow> int \<Rightarrow> jobj \<Rightarrow> object_status ctl" where
  "ctl_register cfg tb uid now body =
     (let cid = jtext_strip body ''cid'';
          source = non_empty (jtext_strip body ''source_node'');
          ref = non_empty (jtext_strip body ''reference_id'') in
      c_bind (c_of (json_int (py_or (jget body ''size_bytes'') (JInt 0)))) (\<lambda>sz.
      c_bind (c_of (json_int (py_or (jget body ''replication_n'') (JInt (replication_n (cc_policy cfg)))))) (\<lambda>n.
      c_bind (c_of (json_int (if jget body ''committable_m'' \<noteq> JNull then jget body ''committable_m''
                              else JInt (committable_m (cc_policy cfg))))) (\<lambda>m.
      case policy_validate ((cc_policy cfg)\<lparr>replication_n := n, committable_m := m\<rparr>) of
        Some e \<Rightarrow> c_fail (ValueError e)
      | None \<Rightarrow>
          if cid = [] \<or> 256 < length cid then c_fail (ValueError ''invalid cid'')
          else if sz \<le> 0 then c_fail (ValueError ''size_bytes must be > 0'')
          else c_bind (c_try (register_object now cid sz n m source ref)) (\<lambda>r.
               c_bind (reconcile_cid cfg tb uid now cid) (\<lambda>u.
               object_status cid))))))"

record release_reply =
  rr_result :: release_result
  rr_cleanup_pending :: bool
  rr_not_before :: int

definition ctl_release ::
  "ctl_config \<Rightarrow> (string \<Rightarrow> string \<Rightarrow> int) \<Rightarrow> (nat \<Rightarrow> string) \<Rightarrow> int \<Rightarrow> string \<Rightarrow> jobj \<Rightarrow> release_reply ctl" where
  "ctl_release cfg tb uid now rid body =
     (let cid = jtext_strip body ''cid'' in
      if cid = [] then c_fail (ValueError ''cid required'')
      else c_bind (c_try (release_object now rid cid (non_empty (jtext_strip body ''reference_id''))
                            (non_empty (jtext_strip body ''request_id'')) (non_empty (jtext_strip body ''actor'')))) (\<lambda>res.
           c_bind (if rl_ok res then reconcile_cid cfg tb uid now cid else c_ret ()) (\<lambda>u.
           c_bind (c_read (object_db cid)) (\<lambda>obj.
           let released_at = (case obj of None \<Rightarrow> 0 | Some (ob, rs) \<Rightarrow> ob_released_at ob)
           in c_ret \<lparr>rr_result = res, rr_cleanup_pending = rl_final res,
                     rr_not_before = (if rl_final res \<and> released_at \<noteq> 0
                                      then released_at + cc_delete_grace cfg else 0)\<rparr>))))"

text \<open>\<open>for report in payload.get("jobs") or []\<close>: only dictionaries are applied.\<close>

definition report_list :: "json \<Rightarrow> db_error + jobj list" where
  "report_list v =
     (if \<not> truthy v then Inr []
      else case v of
        JList xs \<Rightarrow> Inr (List.map_filter as_obj xs)
      | JStr s \<Rightarrow> Inr []
      | JObj kvs \<Rightarrow> Inr []
      | _ \<Rightarrow> Inl (RuntimeErr ''jobs is not iterable''))"

definition ctl_heartbeat :: "int \<Rightarrow> string \<Rightarrow> jobj \<Rightarrow> unit ctl" where
  "ctl_heartbeat now node body =
     (case py_or (jget body ''repo'') (JObj []) of
        JObj repo \<Rightarrow>
          c_bind (c_of (json_int (py_or (jget repo ''total_bytes'') (JInt 0)))) (\<lambda>tot.
          c_bind (c_of (json_int (py_or (jget repo ''used_bytes'') (JInt 0)))) (\<lambda>usd.
          if tot < 0 \<or> usd < 0 \<or> (tot \<noteq> 0 \<and> (of_int usd :: py_float) > of_int tot * (11 / 10))
          then c_fail (ValueError ''invalid repo capacity'')
          else c_bind (c_try0 (heartbeat_db now node tot usd)) (\<lambda>u.
               c_bind (c_of (report_list (jget body ''jobs''))) (\<lambda>reports.
               c_each (\<lambda>r. c_try0 (apply_job_report now node r)) reports))))
      | _ \<Rightarrow> c_fail (RuntimeErr ''repo is not a dictionary''))"

definition allowed_operations :: "ctl_config \<Rightarrow> job_op list" where
  "allowed_operations cfg = [OpPin, OpVerify, OpUnpinVerify] @ (if unpin_active cfg then [OpUnpin] else [])"

definition ctl_assignments :: "ctl_config \<Rightarrow> int \<Rightarrow> string \<Rightarrow> job_row list ctl" where
  "ctl_assignments cfg now node =
     (if cc_mode cfg = Observe then c_ret []
      else (\<lambda>d. case pending_jobs now node 32 (Some (allowed_operations cfg)) d of (js, d1) \<Rightarrow> (Inr js, d1)))"

definition ctl_authorize :: "ctl_config \<Rightarrow> int \<Rightarrow> string \<Rightarrow> jobj \<Rightarrow> unpin_answer ctl" where
  "ctl_authorize cfg now node body =
     (if \<not> unpin_active cfg then c_ret (Denied ''unpin-disabled'')
      else c_bind (c_of (json_int (py_or (jget body ''lease_until'') (JInt 0)))) (\<lambda>lease.
           (\<lambda>d. case authorize_unpin now node (jtext body ''job_id'') lease d of (a, d1) \<Rightarrow> (Inr a, d1))))"

section \<open>HTTP\<close>

datatype reply =
    ReplyStatus object_status
  | ReplyRelease release_reply
  | ReplyHeartbeat ctl_mode int
  | ReplyJobs ctl_mode bool "job_row list"
  | ReplyUnpin unpin_answer
  | ReplyStats db_stats
  | ReplyHealth ctl_mode bool int
  | ReplyError db_error
  | ReplyForbidden
  | ReplyNotFound

definition error_code :: "db_error \<Rightarrow> int" where
  "error_code e = (case e of LifecycleConflict s \<Rightarrow> 409 | ValueError s \<Rightarrow> 400 | KeyErr s \<Rightarrow> 400 | _ \<Rightarrow> 500)"

definition respond :: "('a \<Rightarrow> reply) \<Rightarrow> 'a ctl \<Rightarrow> db \<Rightarrow> (int \<times> reply) \<times> db" where
  "respond f m d = (case m d of (Inl e, d1) \<Rightarrow> ((error_code e, ReplyError e), d1) | (Inr x, d1) \<Rightarrow> ((200, f x), d1))"

definition is_admin :: "ctl_config \<Rightarrow> string \<Rightarrow> bool" where
  "is_admin cfg token \<longleftrightarrow> cc_admin_token cfg \<noteq> [] \<and> cc_admin_token cfg = token"

definition strip_slash :: "string \<Rightarrow> string" where
  "strip_slash s = rev (dropWhile (\<lambda>c. c = CHR ''/'') (rev (dropWhile (\<lambda>c. c = CHR ''/'') s)))"

definition hex_val :: "char \<Rightarrow> nat option" where
  "hex_val c = (let n = (of_char c :: nat) in
     if 48 \<le> n \<and> n \<le> 57 then Some (n - 48)
     else if 65 \<le> n \<and> n \<le> 70 then Some (n - 55)
     else if 97 \<le> n \<and> n \<le> 102 then Some (n - 87) else None)"

text \<open>\<open>unquote\<close>, one byte per escape (multi-byte UTF-8 escapes stay as bytes).\<close>

fun unquote :: "string \<Rightarrow> string" where
  "unquote (c # a # b # cs) =
     (if c = CHR ''%'' then
        (case (hex_val a, hex_val b) of
           (Some x, Some y) \<Rightarrow> char_of (16 * x + y) # unquote cs
         | _ \<Rightarrow> c # unquote (a # b # cs))
      else c # unquote (a # b # cs))"
| "unquote cs = cs"

text \<open>The node id in \<open>/v1/nodes/<id>/<suffix>\<close>.\<close>

definition path_node :: "string \<Rightarrow> string \<Rightarrow> string option" where
  "path_node suffix path =
     (let prefix = ''/v1/nodes/'' in
      if starts_with prefix path \<and> starts_with (rev suffix) (rev path)
      then Some (strip_slash (unquote (drop (length prefix) (take (length path - length suffix) path))))
      else None)"

definition do_post ::
  "ctl_config \<Rightarrow> (string \<Rightarrow> string \<Rightarrow> int) \<Rightarrow> (nat \<Rightarrow> string) \<Rightarrow> string \<Rightarrow> int \<Rightarrow> string \<Rightarrow> string \<Rightarrow>
     db_error + jobj \<Rightarrow> db \<Rightarrow> (int \<times> reply) \<times> db" where
  "do_post cfg tb uid rid now path token body0 d =
     (case body0 of
        Inl e \<Rightarrow> ((error_code e, ReplyError e), d)
      | Inr body \<Rightarrow>
          if path = ''/v1/objects/register'' then
            if \<not> is_admin cfg token then ((403, ReplyForbidden), d)
            else respond ReplyStatus (ctl_register cfg tb uid now body) d
          else if path = ''/v1/objects/release'' then
            if \<not> is_admin cfg token then ((403, ReplyForbidden), d)
            else respond ReplyRelease (ctl_release cfg tb uid now rid body) d
          else if path = ''/v1/nodes/heartbeat'' then
            (let node = jtext body ''node_id'' in
             if \<not> authenticate_node cfg node token d then ((403, ReplyForbidden), d)
             else respond (\<lambda>u. ReplyHeartbeat (cc_mode cfg) now) (ctl_heartbeat now node body) d)
          else
            (case path_node ''/authorize-unpin'' path of
               Some node \<Rightarrow>
                 if \<not> authenticate_node cfg node token d then ((403, ReplyForbidden), d)
                 else respond ReplyUnpin (ctl_authorize cfg now node body) d
             | None \<Rightarrow> ((404, ReplyNotFound), d)))"

definition do_get ::
  "ctl_config \<Rightarrow> int \<Rightarrow> string \<Rightarrow> string \<Rightarrow> db \<Rightarrow> (int \<times> reply) \<times> db" where
  "do_get cfg now path token d =
     (if path = ''/v1/health'' then ((200, ReplyHealth (cc_mode cfg) (cc_unpin_enabled cfg) now), d)
      else if path = ''/v1/stats'' then
        if \<not> is_admin cfg token then ((403, ReplyForbidden), d) else ((200, ReplyStats (stats d)), d)
      else
        (case path_node ''/assignments'' path of
           Some node \<Rightarrow>
             if \<not> authenticate_node cfg node token d then ((403, ReplyForbidden), d)
             else respond (ReplyJobs (cc_mode cfg) (cc_unpin_enabled cfg)) (ctl_assignments cfg now node) d
         | None \<Rightarrow>
             if starts_with ''/v1/objects/'' path then
               if \<not> is_admin cfg token then ((403, ReplyForbidden), d)
               else (case object_status (unquote (drop (length ''/v1/objects/'') path)) d of
                       (Inl e, d1) \<Rightarrow> (((case e of KeyErr k \<Rightarrow> 404 | _ \<Rightarrow> 500), ReplyError e), d1)
                     | (Inr x, d1) \<Rightarrow> ((200, ReplyStatus x), d1))
             else ((404, ReplyNotFound), d)))"

section \<open>What the controller needs of the store\<close>

text \<open>
  A property of the store that the operations the configured mode uses keep: the controller's
  entry points then keep it too.
\<close>

definition keeps :: "(db \<Rightarrow> bool) \<Rightarrow> 'a ctl \<Rightarrow> bool" where
  "keeps P m \<longleftrightarrow> (\<forall>d. P d \<longrightarrow> P (snd (m d)))"

lemma keeps_ret [intro]: "keeps P (c_ret x)"
  by (simp add: keeps_def c_ret_def)

lemma keeps_fail [intro]: "keeps P (c_fail e)"
  by (simp add: keeps_def c_fail_def)

lemma keeps_read [intro]: "keeps P (c_read f)"
  by (simp add: keeps_def c_read_def)

lemma keeps_of [intro]: "keeps P (c_of x)"
  by (auto simp: c_of_def split: sum.split)

lemma keeps_upd [intro]: "(\<And>d. P d \<Longrightarrow> P (f d)) \<Longrightarrow> keeps P (c_upd f)"
  by (simp add: keeps_def c_upd_def)

lemma keeps_bind [intro]: "keeps P m \<Longrightarrow> (\<And>x. keeps P (f x)) \<Longrightarrow> keeps P (c_bind m f)"
  unfolding keeps_def c_bind_def by (fastforce split: prod.splits sum.splits)

lemma keeps_try [intro]: "(\<And>d x d'. P d \<Longrightarrow> f d = Inr (x, d') \<Longrightarrow> P d') \<Longrightarrow> keeps P (c_try f)"
  unfolding keeps_def c_try_def by (fastforce split: prod.splits sum.splits)

lemma keeps_try0 [intro]: "(\<And>d d'. P d \<Longrightarrow> f d = Inr d' \<Longrightarrow> P d') \<Longrightarrow> keeps P (c_try0 f)"
  unfolding keeps_def c_try0_def by (fastforce split: sum.splits)

lemma keeps_each [intro]: "(\<And>x. keeps P (f x)) \<Longrightarrow> keeps P (c_each f xs)"
  by (induction xs) auto

lemma keeps_catch [intro]: "keeps P m \<Longrightarrow> keeps P (c_catch m)"
  by (simp add: keeps_def c_catch_def)

lemma keeps_drop [intro]: "keeps P m \<Longrightarrow> keeps P (c_drop m)"
  unfolding c_drop_def by blast

lemma keeps_job [intro]:
  "(\<And>j d x d'. P d \<Longrightarrow> f j d = Inr (x, d') \<Longrightarrow> P d') \<Longrightarrow> keeps P (c_job uid f)"
  unfolding keeps_def c_job_def c_try_def by (fastforce split: prod.splits sum.splits)

lemma keeps_respond: "keeps P m \<Longrightarrow> P d \<Longrightarrow> P (snd (respond f m d))"
  unfolding keeps_def respond_def by (fastforce split: prod.splits sum.splits)

locale store_client =
  fixes cfg :: ctl_config and P :: "db \<Rightarrow> bool"
  assumes upsert: "P d \<Longrightarrow> P (upsert_node s d)"
    and mark: "P d \<Longrightarrow> P (mark_replica_state now cid node st err d)"
    and health: "P d \<Longrightarrow> P (update_object_health cid ost reason d)"
    and log: "P d \<Longrightarrow> P (audit now action cid node detail d)"
    and pin: "cc_mode cfg = PinOnly \<Longrightarrow> P d \<Longrightarrow> create_pin_assignment now jid cid node cls d = Inr (a, d') \<Longrightarrow> P d'"
    and verify: "cc_mode cfg = PinOnly \<Longrightarrow> P d \<Longrightarrow> create_verify_job now jid cid node gen d = Inr (a, d') \<Longrightarrow> P d'"
    and unpin: "unpin_active cfg \<Longrightarrow> P d \<Longrightarrow> create_unpin_job now jid cid node gen rsn nb d = Inr (a, d') \<Longrightarrow> P d'"
begin

lemma classify: "P d \<Longrightarrow> P (classify_replicas cfg now cid d)"
proof -
  have one: "P e \<Longrightarrow> P (classify_one cfg now cid n r e)" for n r e
    by (auto simp: classify_one_def mark Let_def split: option.splits)
  have "P e \<Longrightarrow> P (foldl (\<lambda>e r. classify_one cfg now cid (find_node d (rp_node r)) r e) e rs)" for rs e
    by (induction rs arbitrary: e) (auto simp: one)
  then show "P d \<Longrightarrow> P (classify_replicas cfg now cid d)" by (simp add: classify_replicas_def)
qed

lemma sync: "P d \<Longrightarrow> P (sync_registry reg d)"
proof -
  have "P e \<Longrightarrow> P (foldl (\<lambda>e s. upsert_node s e) e ss)" for ss e
    by (induction ss arbitrary: e) (auto simp: upsert)
  then show "P d \<Longrightarrow> P (sync_registry reg d)" by (auto simp: sync_registry_def split: option.splits)
qed

lemma repair: "cc_mode cfg = PinOnly \<Longrightarrow> keeps P (repair cfg uid now cid ob reps picks)"
  unfolding repair_def
  by (intro keeps_bind keeps_each keeps_drop keeps_job keeps_read) (blast intro: pin verify)+

lemma reconcile_base: "keeps P (reconcile_base cfg tb uid now cid)"
  unfolding reconcile_base_def set_health_def
  by (intro keeps_bind keeps_read keeps_upd)
    (auto intro!: keeps_bind keeps_upd keeps_ret keeps_of keeps_read repair log health classify
      split: option.splits prod.splits)

lemma final: "keeps P (plan_final_release cfg uid now ob reps)"
  unfolding plan_final_release_def
  by (auto intro!: keeps_each keeps_drop keeps_job keeps_ret intro: unpin)

lemma trim: "unpin_active cfg \<Longrightarrow> keeps P (trim_loop cfg uid now ob remove comm rs)"
  by (induction rs arbitrary: remove comm)
    (auto intro!: keeps_bind keeps_job keeps_ret intro: unpin split: if_splits)

lemma reconcile: "keeps P (reconcile_cid cfg tb uid now cid)"
  unfolding reconcile_cid_def plan_trim_def
  by (auto intro!: keeps_bind keeps_read keeps_ret reconcile_base final trim simp: Let_def
      split: option.splits prod.splits)

lemma reconcile_all: "keeps P (reconcile_all cfg tb uid now reg)"
  unfolding reconcile_all_def
  by (intro keeps_bind keeps_upd keeps_read keeps_each keeps_catch reconcile sync)

end


text \<open>The entry points that also register, release, deliver, authorise and apply reports.\<close>

locale store_server = store_client +
  assumes register: "0 < now \<Longrightarrow> P d \<Longrightarrow> register_object now cid sz n m src ref d = Inr (res, d') \<Longrightarrow> P d'"
    and release: "0 < now \<Longrightarrow> P d \<Longrightarrow> release_object now uid cid ref req act d = Inr (rel, d') \<Longrightarrow> P d'"
    and beat: "P d \<Longrightarrow> heartbeat_db now node tot usd d = Inr d' \<Longrightarrow> P d'"
    and report: "P d \<Longrightarrow> apply_job_report now node r d = Inr d' \<Longrightarrow> P d'"
    and deliver: "cc_mode cfg \<noteq> Observe \<Longrightarrow> P d \<Longrightarrow> P (snd (pending_jobs now node lmt ops d))"
    and authorize: "unpin_active cfg \<Longrightarrow> P d \<Longrightarrow> P (snd (authorize_unpin now node jid lease d))"
begin

lemma keeps_status: "keeps P (object_status cid)"
  unfolding object_status_def
  by (auto intro!: keeps_bind keeps_read keeps_fail keeps_ret split: option.splits prod.splits)

lemma keeps_register: "0 < now \<Longrightarrow> keeps P (ctl_register cfg tb uid now body)"
  unfolding ctl_register_def Let_def
  by (intro keeps_bind keeps_of)
    (auto intro!: keeps_bind keeps_fail keeps_try keeps_status reconcile intro: register split: option.splits)

lemma keeps_release: "0 < now \<Longrightarrow> keeps P (ctl_release cfg tb uid now rid body)"
  unfolding ctl_release_def Let_def
  by (auto intro!: keeps_bind keeps_fail keeps_try keeps_ret keeps_read reconcile intro: release)

lemma keeps_heartbeat: "keeps P (ctl_heartbeat now node body)"
  unfolding ctl_heartbeat_def
  by (auto intro!: keeps_bind keeps_fail keeps_try0 keeps_of keeps_each intro: beat report split: json.splits)

lemma keeps_authorize: "keeps P (ctl_authorize cfg now node body)"
proof (cases "unpin_active cfg")
  case True
  have "keeps P (\<lambda>d. case authorize_unpin now node (jtext body ''job_id'') lease d of (a, d1) \<Rightarrow> (Inr a, d1))" for lease
    using authorize [OF True] by (simp add: keeps_def case_prod_beta)
  then show ?thesis by (auto simp: ctl_authorize_def intro!: keeps_ret keeps_bind keeps_of)
next
  case False
  then show ?thesis by (auto simp: ctl_authorize_def intro!: keeps_ret)
qed

lemma keeps_assignments: "keeps P (ctl_assignments cfg now node)"
proof (cases "cc_mode cfg = Observe")
  case True
  then show ?thesis by (auto simp: ctl_assignments_def intro!: keeps_ret)
next
  case False
  show ?thesis using deliver [OF False] False
    by (simp add: ctl_assignments_def keeps_def case_prod_beta)
qed

lemma post:
  assumes "0 < now" "P d"
  shows "P (snd (do_post cfg tb uid rid now path token body d))"
proof (cases body)
  case (Inl e)
  then show ?thesis using assms(2) by (simp add: do_post_def)
next
  case (Inr b)
  have "P (snd (respond ReplyStatus (ctl_register cfg tb uid now b) d))"
    "P (snd (respond ReplyRelease (ctl_release cfg tb uid now rid b) d))"
    "P (snd (respond f (ctl_heartbeat now node b) d))"
    "P (snd (respond ReplyUnpin (ctl_authorize cfg now node b) d))" for f node
    by (rule keeps_respond [where P = P, OF _ assms(2)],
        rule keeps_register [OF assms(1)] keeps_release [OF assms(1)] keeps_heartbeat keeps_authorize)+
  then show ?thesis unfolding Inr do_post_def Let_def sum.case
    by (intro if_split [where P = "\<lambda>x. P (snd x)", THEN iffD2] conjI impI) (simp_all add: assms(2) split: option.split)
qed

lemma get: "P d \<Longrightarrow> P (snd (do_get cfg now path token d))"
proof -
  assume p: "P d"
  have st: "P d1" if "object_status k d = (x, d1)" for k x d1
    using keeps_status [of k] p that unfolding keeps_def by (metis snd_conv)
  have asg: "P (snd (respond f (ctl_assignments cfg now node) d))" for f node
    by (rule keeps_respond [OF keeps_assignments p])
  show ?thesis unfolding do_get_def
    by (auto simp: p st asg split: sum.splits option.splits prod.splits)
qed

end

end
