(* ===== verification/Controller_Safety.thy ===== *)
theory Controller_Safety
  imports Replication_Controller
begin

text \<open>
  What the controller guarantees: its entry points only take steps of the store, jobs are created
  only in the mode that allows them, writes need a credential, the health it records is the count
  of confirmed copies, and trimming is bounded by the surplus.
\<close>

section \<open>The operations that create no job\<close>

definition job_heads :: "db \<Rightarrow> (string \<times> job_op) list" where
  "job_heads d = map (\<lambda>j. (jb_id j, jb_op j)) (db_jobs d)"

lemma heads_update:
  "(\<And>j. jb_id (f j) = jb_id j \<and> jb_op (f j) = jb_op j) \<Longrightarrow> job_heads (upd_jobs (tbl_update sel f) d) = job_heads d"
  by (simp add: job_heads_def map_key_tbl_update [where key = "\<lambda>j. (jb_id j, jb_op j)"])

lemma heads_frame [simp]:
  "job_heads (upd_objects fo d) = job_heads d" "job_heads (upd_refs fr d) = job_heads d"
  "job_heads (upd_replicas fp d) = job_heads d" "job_heads (upd_nodes fn d) = job_heads d"
  "job_heads (audit t a c n x d) = job_heads d" "job_heads (set_rep c n g d) = job_heads d"
  by (simp_all add: job_heads_def)

lemma heads_set_job:
  "(\<And>j. jb_id (f j) = jb_id j \<and> jb_op (f j) = jb_op j) \<Longrightarrow> job_heads (set_job k f d) = job_heads d"
  by (simp add: set_job_def heads_update)

lemma heads_small [simp]:
  "job_heads (stale_job now k d) = job_heads d" "job_heads (done_job now k d) = job_heads d"
  "job_heads (stale_cid_jobs now c d) = job_heads d" "job_heads (unpinned_rep c n d) = job_heads d"
  "job_heads (set_lease now l k d) = job_heads d" "job_heads (mark_replica_state now c n st e d) = job_heads d"
  "job_heads (update_object_health c ost rsn d) = job_heads d"
  by (simp_all add: stale_job_def done_job_def stale_cid_jobs_def unpinned_rep_def set_lease_def
      mark_replica_state_def update_object_health_def heads_set_job heads_update)

lemma heads_cong: "db_jobs d' = db_jobs d \<Longrightarrow> job_heads d' = job_heads d"
  by (simp add: job_heads_def)

lemma heads_after_register [simp]: "job_heads (after_register now cid old d) = job_heads d"
  by (auto simp: after_register_def Let_def split: option.splits)

lemma heads_register_base: "register_object_base now cid sz n m src ref d = Inr (res, d1) \<Longrightarrow> job_heads d1 = job_heads d"
  by (rule heads_cong) (simp add: bumped_def register_base_bumped [unfolded bumped_def, THEN conjunct1])

lemma heads_register: "register_object now cid sz n m src ref d = Inr (res, d') \<Longrightarrow> job_heads d' = job_heads d"
  by (auto simp: register_object_def Let_def bind_r_Inr split: option.splits prod.splits dest: heads_register_base)

lemma heads_release: "release_object now uid cid ref rq act d = Inr (rel, d') \<Longrightarrow> job_heads d' = job_heads d"
proof -
  have drop: "job_heads d' = job_heads d" if "drop_reference now cid rid rq act ob d = Inr (rel, d')"
    for cid rid rq act ob d using that
    by (cases rule: drop_reference_cases) (auto simp: final_release_def)
  show "release_object now uid cid ref rq act d = Inr (rel, d') \<Longrightarrow> job_heads d' = job_heads d"
    by (auto simp: release_object_def Let_def split: option.splits if_splits dest!: drop)
qed

lemma heads_report_base: "apply_report_base now node r d = Inr d' \<Longrightarrow> job_heads d' = job_heads d"
  unfolding apply_report_base_def Let_def
  by (auto simp: bind_r_Inr heads_set_job split: option.splits if_splits)

lemma heads_report_v214: "apply_report_v214 now node r d = Inr d' \<Longrightarrow> job_heads d' = job_heads d"
  unfolding apply_report_v214_def Let_def
  by (auto simp: bind_r_Inr heads_set_job split: option.splits if_splits dest: heads_report_base)

lemma heads_report: "apply_job_report now node r d = Inr d' \<Longrightarrow> job_heads d' = job_heads d"
  unfolding apply_job_report_def Let_def
  by (auto simp: bind_r_Inr heads_set_job split: option.splits if_splits dest: heads_report_v214)

lemma heads_leases [simp]: "job_heads (foldl (\<lambda>e j. set_lease now l (jb_id j) e) d js) = job_heads d"
  by (induction js arbitrary: d) auto

lemma heads_pending [simp]: "job_heads (snd (pending_jobs now node lmt ops d)) = job_heads d"
  by (auto simp: pending_jobs_def pending_jobs_base_def Let_def split: option.splits)

lemma heads_authorize [simp]: "job_heads (snd (authorize_unpin now node jid lease d)) = job_heads d"
  by (auto simp: authorize_unpin_def Let_def heads_set_job split: option.splits)

lemma heads_heartbeat: "heartbeat_db now node tot usd d = Inr d' \<Longrightarrow> job_heads d' = job_heads d"
  by (auto simp: heartbeat_db_def split: if_splits)

lemma heads_upsert [simp]: "job_heads (upsert_node s d) = job_heads d"
  by (simp add: upsert_node_def upsert_node_base_def Let_def)

lemma heads_insert: "insert_job j d = Inr d' \<Longrightarrow> job_heads d' = job_heads d @ [(jb_id j, jb_op j)]"
  by (auto simp: insert_job_def job_heads_def split: if_splits)

lemma heads_pin: "create_pin_assignment now jid cid node cls d = Inr (a, d') \<Longrightarrow>
    job_heads d' = job_heads d \<or> job_heads d' = job_heads d @ [(jid, OpPin)]"
  by (auto simp: create_pin_assignment_def Let_def bind_r_Inr split: option.splits if_splits dest!: heads_insert)

lemma heads_verify: "create_verify_job now jid cid node gen d = Inr (a, d') \<Longrightarrow>
    job_heads d' = job_heads d \<or> job_heads d' = job_heads d @ [(jid, OpVerify)]"
  by (auto simp: create_verify_job_def bind_r_Inr split: if_splits dest!: heads_insert)

lemma heads_unpin: "create_unpin_job now jid cid node gen rsn nb d = Inr (a, d') \<Longrightarrow>
    job_heads d' = job_heads d \<or> job_heads d' = job_heads d @ [(jid, OpUnpin)]"
  by (auto simp: create_unpin_job_def Let_def bind_r_Inr split: option.splits if_splits dest!: heads_insert)

lemmas heads_same = heads_register heads_release heads_report heads_heartbeat

text \<open>The jobs of some operations, and the two invariants: PIN and VERIFY jobs need the pin-only mode,
  UNPIN jobs the full mode with the flag.\<close>

definition jobs_of :: "job_op set \<Rightarrow> db \<Rightarrow> (string \<times> job_op) list" where
  "jobs_of ops d = filter (\<lambda>h. snd h \<in> ops) (job_heads d)"

definition no_new_pins :: "ctl_config \<Rightarrow> (string \<times> job_op) list \<Rightarrow> db \<Rightarrow> bool" where
  "no_new_pins cfg hs d \<longleftrightarrow> (cc_mode cfg \<noteq> PinOnly \<longrightarrow> jobs_of {OpPin, OpVerify} d = hs)"

definition no_new_unpins :: "ctl_config \<Rightarrow> (string \<times> job_op) list \<Rightarrow> db \<Rightarrow> bool" where
  "no_new_unpins cfg hs d \<longleftrightarrow> (\<not> unpin_active cfg \<longrightarrow> jobs_of {OpUnpin} d = hs)"

interpretation pins: store_server cfg "no_new_pins cfg hs" for cfg hs
  by unfold_locales
    (auto simp: no_new_pins_def jobs_of_def unpin_active_def heads_same dest!: heads_unpin)

interpretation unpins: store_server cfg "no_new_unpins cfg hs" for cfg hs
  by unfold_locales
    (auto simp: no_new_unpins_def jobs_of_def heads_same dest!: heads_pin heads_verify)

lemma step_pending: "db_step d (snd (pending_jobs now node lmt ops d))"
  by (rule st_pending) (rule prod.collapse [symmetric])

lemma step_authorize: "db_step d (snd (authorize_unpin now node jid lease d))"
  by (rule st_authorize) (rule prod.collapse [symmetric])

interpretation reach: store_server cfg db_reachable for cfg
  by unfold_locales
    (blast intro: reach_step db_step.intros step_pending step_authorize)+

section \<open>Health\<close>

lemma confirmed_rows: "filter is_confirmed (replica_rows cid d) = filter (confirmed cid) (db_replicas d)"
  by (auto simp: replica_rows_def is_confirmed_def confirmed_def intro: filter_cong)

lemma confirmed_counts_rows:
  "\<exists>e. confirmed_counts (replica_rows cid d) = (confirmed_total d cid, confirmed_comm d cid, e)"
  by (simp add: confirmed_counts_def Let_def confirmed_rows confirmed_total_def confirmed_comm_def
      tbl_count_def conj_commute)

lemma health_healthy:
  "fst (health p (replica_rows cid d)) = OHealthy \<longleftrightarrow>
     committable_m p \<le> confirmed_comm d cid \<and> replication_n p \<le> confirmed_total d cid"
  using confirmed_counts_rows [of cid d] by (auto simp: health_def split: if_splits)

lemma c_bind_Inr: "c_bind m f d = (Inr y, d') \<longleftrightarrow> (\<exists>x d1. m d = (Inr x, d1) \<and> f x d1 = (Inr y, d'))"
  by (auto simp: c_bind_def split: prod.splits sum.splits)

lemma c_simps [simp]:
  "c_ret x d = (Inr x, d)" "c_fail e d = (Inl e, d)" "c_read g d = (Inr (g d), d)" "c_upd h d = (Inr (), h d)"
  by (simp_all add: c_ret_def c_fail_def c_read_def c_upd_def)


text \<open>What the reconciliation of a CID leaves unchanged in its object row.\<close>

definition same_target :: "string \<Rightarrow> db \<Rightarrow> db \<Rightarrow> bool" where
  "same_target cid d d' \<longleftrightarrow>
     map_option (\<lambda>ob. (ob_n ob, ob_m ob)) (find_obj d' cid) = map_option (\<lambda>ob. (ob_n ob, ob_m ob)) (find_obj d cid)"

lemma set_health_find:
  "find_obj d cid = Some ob \<Longrightarrow>
   \<exists>ob'. find_obj (set_health cfg cid ob0 d) cid = Some ob' \<and> ob_n ob' = ob_n ob \<and> ob_m ob' = ob_m ob \<and>
     ob_state ob' = fst (health (object_policy cfg ob0) (replica_rows cid d))"
  by (auto simp: set_health_def update_object_health_def tbl_find_update_key split: prod.splits)

lemma set_health_replicas [simp]: "db_replicas (set_health cfg cid ob d) = db_replicas d"
  by (simp add: set_health_def update_object_health_def split: prod.splits)

lemma confirmed_cong:
  "db_replicas d' = db_replicas d \<Longrightarrow> confirmed_total d' cid = confirmed_total d cid \<and> confirmed_comm d' cid = confirmed_comm d cid"
  by (simp add: confirmed_total_def confirmed_comm_def)

definition objects_inv :: "ctl_config \<Rightarrow> obj_row list \<Rightarrow> db \<Rightarrow> bool" where
  "objects_inv cfg os d \<longleftrightarrow> db_objects d = os"

lemma keeps_objects_repair: "keeps (\<lambda>d. db_objects d = os) (repair cfg uid now cid ob reps picks)"
  unfolding repair_def
  by (intro keeps_bind keeps_each keeps_drop keeps_job keeps_read)
    (auto simp: create_pin_assignment_def create_verify_job_def Let_def bind_r_Inr
      split: option.splits if_splits dest!: insert_job_tables)

lemma keeps_Inr: "keeps P m \<Longrightarrow> m d = (Inr x, d') \<Longrightarrow> P d \<Longrightarrow> P d'"
  unfolding keeps_def by (metis snd_conv)

lemma classify_objects [simp]: "db_objects (classify_replicas cfg now cid d) = db_objects d"
proof -
  have "db_objects (foldl (\<lambda>e r. classify_one cfg now cid (find_node d (rp_node r)) r e) e rs) = db_objects e" for e rs
    by (induction rs arbitrary: e) (auto simp: classify_one_def mark_replica_state_def Let_def split: option.splits)
  then show ?thesis by (simp add: classify_replicas_def)
qed

lemma c_of_Inr: "c_of x d = (Inr y, d1) \<longleftrightarrow> x = Inr y \<and> d1 = d"
  by (cases x) (auto simp: c_of_def)

text \<open>The last step of a reconciliation that did not raise.\<close>

lemma reconcile_base_Inr:
  assumes "reconcile_base cfg tb uid now cid d = (Inr (), d')"
    and "find_obj d cid = Some ob" "0 < ob_refcount ob"
  shows "\<exists>d2. db_objects d2 = db_objects d \<and> d' = set_health cfg cid ob d2"
proof -
  let ?act = "\<lambda>reps picks. if cc_mode cfg = PinOnly then repair cfg uid now cid ob reps picks
      else if picks \<noteq> [] then c_upd (audit now ''PLACEMENT_OBSERVED'' cid []
             [(''candidates'', JList (map (\<lambda>n. JStr (pn_id n)) picks))])
      else c_ret ()"
  obtain reps picks x d2 where s: "?act reps picks (classify_replicas cfg now cid d) = (Inr x, d2)"
      "d' = set_health cfg cid ob d2"
    using assms unfolding reconcile_base_def c_bind_Inr
    by (auto simp: object_db_def c_bind_Inr c_of_Inr simp del: if_split)
  have k: "keeps (\<lambda>e. db_objects e = db_objects d) (?act reps picks)"
    using keeps_objects_repair [of "db_objects d"] by (auto intro!: keeps_upd keeps_ret)
  have "db_objects (classify_replicas cfg now cid d) = db_objects d" by simp
  from keeps_Inr [OF k s(1) this] show ?thesis using s(2) by blast
qed

section \<open>Properties\<close>


text \<open> UNPIN jobs exist only by design: unless the mode is full and UNPIN is enabled, no request and no
  reconciliation creates one, none is delivered, and authorisation is denied.\<close>

theorem unpin_needs_full_mode:
  assumes "\<not> unpin_active cfg" "0 < now"
  shows "jobs_of {OpUnpin} (snd (do_post cfg tb uid rid now path token body d)) = jobs_of {OpUnpin} d \<and>
         jobs_of {OpUnpin} (snd (reconcile_all cfg tb uid now reg d)) = jobs_of {OpUnpin} d \<and>
         ctl_authorize cfg now node payload d = (Inr (Denied ''unpin-disabled''), d) \<and>
         (case fst (ctl_assignments cfg now node d) of Inl e \<Rightarrow> False | Inr js \<Rightarrow> OpUnpin \<notin> jb_op ` set js)"
proof (intro conjI)
  have p: "no_new_unpins cfg (jobs_of {OpUnpin} d) d" by (simp add: no_new_unpins_def)
  show "jobs_of {OpUnpin} (snd (do_post cfg tb uid rid now path token body d)) = jobs_of {OpUnpin} d"
    using unpins.post [OF assms(2) p] assms(1) by (simp add: no_new_unpins_def)
  show "jobs_of {OpUnpin} (snd (reconcile_all cfg tb uid now reg d)) = jobs_of {OpUnpin} d"
    using unpins.reconcile_all [unfolded keeps_def] p assms(1) by (metis no_new_unpins_def)
  show "ctl_authorize cfg now node payload d = (Inr (Denied ''unpin-disabled''), d)"
    using assms(1) by (simp add: ctl_authorize_def)
  show "case fst (ctl_assignments cfg now node d) of Inl e \<Rightarrow> False | Inr js \<Rightarrow> OpUnpin \<notin> jb_op ` set js"
    using assms(1) by (auto simp: ctl_assignments_def allowed_operations_def pending_jobs_def split: prod.splits)
qed

text \<open> The full mode never places a copy: with \<open>HB_REPL_MODE=full\<close> no request and no reconciliation
  creates a PIN or a VERIFY job, because \<open>reconcile_cid\<close> of the base class tests for the pin-only
  mode by name; degraded objects are only observed.\<close>

theorem full_mode_places_no_copy:
  assumes "cc_mode cfg = Full" "0 < now"
  shows "jobs_of {OpPin, OpVerify} (snd (do_post cfg tb uid rid now path token body d)) = jobs_of {OpPin, OpVerify} d \<and>
         jobs_of {OpPin, OpVerify} (snd (reconcile_all cfg tb uid now reg d)) = jobs_of {OpPin, OpVerify} d"
proof -
  have p: "no_new_pins cfg (jobs_of {OpPin, OpVerify} d) d" by (simp add: no_new_pins_def)
  have "no_new_pins cfg (jobs_of {OpPin, OpVerify} d) (snd (reconcile_all cfg tb uid now reg d))"
    using pins.reconcile_all [unfolded keeps_def] p by blast
  then show ?thesis
    using pins.post [OF assms(2) p, of tb uid rid path token body] assms(1) by (simp add: no_new_pins_def)
qed

text \<open> A write needs a credential: a POST that changes the store carried the configured, non-empty admin
  token, or the token of a registered node.\<close>

theorem post_needs_credential:
  assumes "snd (do_post cfg tb uid rid now path token body d) \<noteq> d"
  shows "(cc_admin_token cfg \<noteq> [] \<and> token = cc_admin_token cfg) \<or>
         (\<exists>n \<in> set (db_nodes d). token \<noteq> [] \<and> token = (if nd_token n \<noteq> [] then nd_token n else cc_shared_token cfg))"
proof (rule ccontr)
  assume no: "\<not> ?thesis"
  then have a: "\<not> is_admin cfg token" by (auto simp: is_admin_def)
  have n: "\<not> authenticate_node cfg node token d" for node
    using no by (auto simp: authenticate_node_def Let_def split: option.splits if_splits dest!: tbl_find_SomeD)
  have "snd (do_post cfg tb uid rid now path token body d) = d"
    by (simp add: do_post_def Let_def a n split: sum.split option.split)
  then show False using assms by blast
qed

text \<open> The recorded health is the truth about confirmed copies: after a successful reconciliation a referenced
  object is healthy exactly when at least M committable and N total copies are confirmed.\<close>

theorem reconciled_health_is_exact:
  assumes "reconcile_base cfg tb uid now cid d = (Inr (), d')"
    and "find_obj d cid = Some ob" "0 < ob_refcount ob"
  shows "\<exists>ob'. find_obj d' cid = Some ob' \<and>
    (ob_state ob' = OHealthy \<longleftrightarrow> ob_m ob' \<le> confirmed_comm d' cid \<and> ob_n ob' \<le> confirmed_total d' cid)"
proof -
  obtain d2 where d2: "db_objects d2 = db_objects d" "d' = set_health cfg cid ob d2"
    using reconcile_base_Inr [OF assms] by blast
  obtain ob' where ob': "find_obj d' cid = Some ob'" "ob_n ob' = ob_n ob" "ob_m ob' = ob_m ob"
      "ob_state ob' = fst (health (object_policy cfg ob) (replica_rows cid d2))"
    using set_health_find [where d = d2 and cid = cid and ob = ob and cfg = cfg and ?ob0.0 = ob] assms(2) d2 by auto
  have "confirmed_total d' cid = confirmed_total d2 cid \<and> confirmed_comm d' cid = confirmed_comm d2 cid"
    by (rule confirmed_cong) (simp add: d2(2))
  then show ?thesis using ob' health_healthy [where p = "object_policy cfg ob" and cid = cid and d = d2] by (simp add: object_policy_def)
qed

text \<open> A trim job is planned only while the confirmed copies minus the trims already planned exceed N, so the
  planned trims never exceed the surplus.\<close>

theorem planned_trims_within_surplus:
  assumes "create_unpin_job now jid cid node gen trim_reason nb d = Inr (Some j, d')" "find_obj d cid = Some ob"
  shows "active_trims d' cid = active_trims d cid + 1 \<and> active_trims d' cid \<le> confirmed_total d' cid - ob_n ob"
proof -
  have t: "take 200 trim_reason = trim_reason" by (simp add: trim_reason_def)
  from assms have g: "\<not> confirmed_total d cid - active_trims d cid \<le> ob_n ob"
    by (auto simp: create_unpin_job_def Let_def t split: if_splits)
  from assms obtain d1 x where d1: "insert_job (new_job jid cid node OpUnpin gen (max now nb) now trim_reason) d = Inr d1"
      "d' = audit now ''UNPIN_PLANNED'' cid node x d1"
    by (auto simp: create_unpin_job_def Let_def t bind_r_Inr split: if_splits)
  have jobs: "db_jobs d' = db_jobs d @ [new_job jid cid node OpUnpin gen (max now nb) now trim_reason]"
    and reps: "db_replicas d' = db_replicas d"
    using d1 by (auto simp: insert_job_def split: if_splits)
  have "active_trims d' cid = active_trims d cid + 1"
    by (simp add: active_trims_def jobs tbl_count_append is_trim_def unpin_states_def)
  then show ?thesis using g confirmed_cong [OF reps, of cid] by simp
qed


section \<open>Witnesses\<close>

definition sample_ctl :: "ctl_mode \<Rightarrow> ctl_config" where
  "sample_ctl mode = \<lparr>cc_mode = mode, cc_policy = sample_policy, cc_unpin_enabled = True, cc_edge_grace = 100,
     cc_committable_grace = 60, cc_node_stale = 90, cc_verify_interval = 900, cc_delete_grace = 900,
     cc_shared_token = ''s'', cc_admin_token = ''adm''\<rparr>"

definition no_tie :: "string \<Rightarrow> string \<Rightarrow> int" where
  "no_tie c n = 0"

definition job_name :: "nat \<Rightarrow> string" where
  "job_name k = ''j'' @ show_nat k"

definition register_body :: jobj where
  "register_body = [(''cid'', JStr ''c''), (''size_bytes'', JInt 7), (''reference_id'', JStr ''r'')]"


lemma sample_posts:
  "db_objects (snd (do_post (sample_ctl PinOnly) no_tie job_name ''q'' 20 ''/v1/objects/register'' ''adm''
     (Inr register_body) run1)) \<noteq> []"
  "db_objects run1 = []"
  by code_simp+

theorem post_needs_credential_witness:
  "''adm'' = cc_admin_token (sample_ctl PinOnly) \<or> (\<exists>n \<in> set (db_nodes run1). ''adm'' = nd_token n)"
proof -
  have "snd (do_post (sample_ctl PinOnly) no_tie job_name ''q'' 20 ''/v1/objects/register'' ''adm''
     (Inr register_body) run1) \<noteq> run1" using sample_posts by metis
  from post_needs_credential [OF this] show ?thesis by (auto simp: sample_ctl_def)
qed

theorem unpin_needs_full_mode_witness:
  "jobs_of {OpUnpin} (snd (reconcile_all (sample_ctl PinOnly) no_tie job_name 20 None run5)) = jobs_of {OpUnpin} run5"
proof -
  have "\<not> unpin_active (sample_ctl PinOnly)" by code_simp
  then show ?thesis using unpin_needs_full_mode [of "sample_ctl PinOnly" 20] by simp
qed

theorem full_mode_places_no_copy_witness:
  "jobs_of {OpPin, OpVerify} (snd (do_post (sample_ctl Full) no_tie job_name ''q'' 20 ''/v1/objects/register'' ''adm''
     (Inr register_body) run1)) = jobs_of {OpPin, OpVerify} run1"
proof -
  have "cc_mode (sample_ctl Full) = Full" by code_simp
  then show ?thesis using full_mode_places_no_copy [of "sample_ctl Full" 20] by simp
qed

definition run_live :: db where
  "run_live = projr (heartbeat_db 19 ''b'' 1000 0 (projr (heartbeat_db 19 ''a'' 1000 0 run5)))"

theorem reconciled_health_is_exact_witness:
  "map ob_state (db_objects (snd (reconcile_base (sample_ctl PinOnly) no_tie job_name 20 ''c'' run_live)))
     = [OHealthy] \<and>
   1 \<le> confirmed_comm (snd (reconcile_base (sample_ctl PinOnly) no_tie job_name 20 ''c'' run_live)) ''c''"
proof -
  let ?m = "reconcile_base (sample_ctl PinOnly) no_tie job_name 20 ''c'' run_live"
  have i: "\<not> isl (fst ?m)" by code_simp
  then have m: "?m = (Inr (), snd ?m)" by (cases ?m; cases "fst ?m") auto
  have "case find_obj run_live ''c'' of None \<Rightarrow> False | Some ob \<Rightarrow> 0 < ob_refcount ob" by code_simp
  then obtain ob where "find_obj run_live ''c'' = Some ob" "0 < ob_refcount ob" by (auto split: option.splits)
  from reconciled_health_is_exact [OF m this] obtain ob' where
    o: "find_obj (snd ?m) ''c'' = Some ob'"
      "ob_state ob' = OHealthy \<longleftrightarrow> ob_m ob' \<le> confirmed_comm (snd ?m) ''c'' \<and> ob_n ob' \<le> confirmed_total (snd ?m) ''c''"
    by blast
  have h: "map (\<lambda>ob. (ob_state ob, ob_m ob)) (db_objects (snd ?m)) = [(OHealthy, 1)]" by code_simp
  have "ob' \<in> set (db_objects (snd ?m))" using o(1) by (auto dest: tbl_find_SomeD)
  then have "(ob_state ob', ob_m ob') \<in> set (map (\<lambda>ob. (ob_state ob, ob_m ob)) (db_objects (snd ?m)))"
    unfolding set_map by (rule imageI)
  then have "ob_state ob' = OHealthy" "ob_m ob' = 1" unfolding h by auto
  moreover have "map ob_state (db_objects (snd ?m)) = map fst (map (\<lambda>ob. (ob_state ob, ob_m ob)) (db_objects (snd ?m)))"
    by simp
  ultimately show ?thesis using o(2) unfolding h by auto
qed

theorem planned_trims_within_surplus_witness:
  "active_trims run6 ''c'' = 1 \<and> active_trims run6 ''c'' \<le> confirmed_total run6 ''c'' - 1"
proof -
  have "fst (projr (create_unpin_job 14 ''u'' ''c'' ''b'' 1 trim_reason 0 run5)) = Some ''u''" by code_simp
  then have c: "create_unpin_job 14 ''u'' ''c'' ''b'' 1 trim_reason 0 run5 = Inr (Some ''u'', run6)"
    using Inr_pair [OF run_ok(4)] unfolding run6_def by simp
  have "case find_obj run5 ''c'' of None \<Rightarrow> False | Some ob \<Rightarrow> ob_n ob = 1" by code_simp
  then obtain ob where "find_obj run5 ''c'' = Some ob" "ob_n ob = 1" by (auto split: option.splits)
  moreover have "active_trims run5 ''c'' = 0" by code_simp
  ultimately show ?thesis using planned_trims_within_surplus [OF c] by auto
qed

end
