(* ===== verification/Replica_Agent.thy ===== *)
theory Replica_Agent
  imports Replication_Controller
begin

text \<open>
  The replica agent of a storage node, \<open>replication/hb_replica_agent.py\<close> with its v2.1.4
  subclass \<open>replication/hb_replica_agent_v214.py\<close>, and the calls of the local Kubo client
  \<open>hbfiles/hb_ipfs.py\<close> it makes. Kubo and the controller's HTTP answers are parameters
  (\<open>rpc\<close>, \<open>ask\<close>) over an arbitrary state of the world; exceptions carry their text.
\<close>

section \<open>Kubo calls\<close>

datatype kubo_call = PinAdd string | PinLs string | PinRm string

text \<open>\<open>Inl\<close> is the \<open>IPFSError\<close> of \<open>_post\<close>; \<open>None\<close> an answer that is not JSON.\<close>

type_synonym 'w rpc = "kubo_call \<Rightarrow> (string, 'w, json option) st"

definition ipfs_pin :: "'w rpc \<Rightarrow> string \<Rightarrow> (string, 'w, bool) st" where
  "ipfs_pin rpc cid =
     (if cid = [] then st_fail ''pin: CID vuoto''
      else st_bind (rpc (PinAdd cid)) (\<lambda>a.
        case a of
          None \<Rightarrow> st_fail ''pin/add: risposta JSON non valida''
        | Some (JObj data) \<Rightarrow>
            (case py_or (jget data ''Pins'') (JList []) of
               JList pins \<Rightarrow>
                 if pins \<noteq> [] \<and> JStr cid \<notin> set pins
                 then st_fail ''pin/add: CID richiesto non confermato dalla risposta'' else st_ret True
             | _ \<Rightarrow> st_fail ''pin/add: CID richiesto non confermato dalla risposta'')
        | Some v \<Rightarrow> st_fail ''no attribute get''))"

definition ipfs_is_pinned :: "'w rpc \<Rightarrow> string \<Rightarrow> (string, 'w, bool) st" where
  "ipfs_is_pinned rpc cid w =
     (if cid = [] then (Inr False, w)
      else case rpc (PinLs cid) w of
        (Inl e, w1) \<Rightarrow> (Inr False, w1)
      | (Inr None, w1) \<Rightarrow> (Inr False, w1)
      | (Inr (Some (JObj data)), w1) \<Rightarrow>
          (case py_or (jget data ''Keys'') (JObj []) of
             JObj keys \<Rightarrow>
               (case jget keys cid of
                  JObj entry \<Rightarrow> (Inr (entry \<noteq> [] \<and> py_lower (jtext entry ''Type'') = ''recursive''), w1)
                | v \<Rightarrow> if truthy v then (Inl ''no attribute get'', w1) else (Inr False, w1))
           | v \<Rightarrow> (Inl ''no attribute get'', w1))
      | (Inr (Some v), w1) \<Rightarrow> (Inl ''no attribute get'', w1))"

definition ipfs_unpin :: "'w rpc \<Rightarrow> string \<Rightarrow> (string, 'w, bool) st" where
  "ipfs_unpin rpc cid w =
     (case rpc (PinRm cid) w of (Inl e, w1) \<Rightarrow> (Inr False, w1) | (Inr a, w1) \<Rightarrow> (Inr True, w1))"

section \<open>Jobs\<close>

record agent_report =
  ar_job :: string
  ar_state :: string
  ar_lease :: int
  ar_error :: "string option"

definition report_ok :: "string \<Rightarrow> string \<Rightarrow> int \<Rightarrow> agent_report" where
  "report_ok jid st lease = \<lparr>ar_job = jid, ar_state = st, ar_lease = lease, ar_error = None\<rparr>"

text \<open>\<open>except Exception as e\<close>: the report of a failed job.\<close>

definition st_report :: "string \<Rightarrow> int \<Rightarrow> (string, 'w, agent_report) st \<Rightarrow> 'w \<Rightarrow> agent_report \<times> 'w" where
  "st_report jid lease m w =
     (case m w of
        (Inl e, w1) \<Rightarrow> (\<lparr>ar_job = jid, ar_state = ''failed'', ar_lease = lease, ar_error = Some (take 500 e)\<rparr>, w1)
      | (Inr r, w1) \<Rightarrow> (r, w1))"

definition execute_base ::
  "'w rpc \<Rightarrow> bool \<Rightarrow> string \<Rightarrow> string \<Rightarrow> string \<Rightarrow> int \<Rightarrow> 'w \<Rightarrow> agent_report \<times> 'w" where
  "execute_base rpc allow_unpin jid cid operation lease =
     st_report jid lease
       (if operation = ''PIN'' then
          st_bind (ipfs_pin rpc cid) (\<lambda>u. st_bind (ipfs_is_pinned rpc cid) (\<lambda>b.
            if b then st_ret (report_ok jid ''pinned'' lease)
            else st_fail ''pin/add returned but pin/ls did not confirm recursive pin''))
        else if operation = ''VERIFY'' then
          st_bind (ipfs_is_pinned rpc cid) (\<lambda>b.
            if b then st_ret (report_ok jid ''verified'' lease) else st_fail ''CID is not recursively pinned'')
        else if operation = ''UNPIN'' then
          (if \<not> allow_unpin then st_fail ''UNPIN disabled by HB_REPL_ALLOW_UNPIN=0''
           else st_bind (ipfs_unpin rpc cid) (\<lambda>b. st_ret (report_ok jid ''verified'' lease)))
        else st_fail (''unsupported operation: '' @ operation))"

text \<open>\<open>ask\<close> is the POST to \<open>/v1/nodes/<id>/authorize-unpin\<close>.\<close>

type_synonym 'w ask = "string \<Rightarrow> int \<Rightarrow> (string, 'w, jobj) st"

definition execute_job ::
  "'w rpc \<Rightarrow> 'w ask \<Rightarrow> bool \<Rightarrow> string \<Rightarrow> string \<Rightarrow> string \<Rightarrow> int \<Rightarrow> 'w \<Rightarrow> agent_report \<times> 'w" where
  "execute_job rpc ask allow_unpin jid cid operation lease =
     (if operation = ''UNPIN_VERIFY'' then
        st_report jid lease (st_bind (ipfs_is_pinned rpc cid) (\<lambda>b.
          st_ret (report_ok jid (if b then ''verified'' else ''unpinned'') lease)))
      else if operation \<noteq> ''UNPIN'' then execute_base rpc allow_unpin jid cid operation lease
      else
        st_report jid lease
          (if \<not> allow_unpin then st_fail ''UNPIN disabled by HB_REPL_ALLOW_UNPIN=0''
           else st_bind (ask jid lease) (\<lambda>auth.
             if \<not> truthy (jget auth ''authorized'')
             then st_fail (''controller denied UNPIN: '' @ py_str (py_or (jget auth ''reason'') (JStr ''denied'')))
             else if jtext auth ''cid'' \<noteq> cid then st_fail ''controller UNPIN authorization CID mismatch''
             else st_bind (ipfs_is_pinned rpc cid) (\<lambda>b.
               if \<not> b then st_ret (report_ok jid ''unpinned'' lease)
               else st_bind (ipfs_unpin rpc cid) (\<lambda>u. st_bind (ipfs_is_pinned rpc cid) (\<lambda>still.
                 if still then st_fail ''pin/rm returned but recursive pin still exists''
                 else st_ret (report_ok jid ''unpinned'' lease)))))))"

section \<open>The polling loop\<close>

text \<open>\<open>beat\<close> posts the pending reports, \<open>fetch\<close> reads the assignments; the state is the world and the
  reports not yet delivered.\<close>

definition agent_heartbeat ::
  "(agent_report list \<Rightarrow> (string, 'w, unit) st) \<Rightarrow> (string, 'w \<times> agent_report list, unit) st" where
  "agent_heartbeat beat s =
     (case beat (snd s) (fst s) of
        (Inl e, w1) \<Rightarrow> (Inl e, (w1, snd s))
      | (Inr u, w1) \<Rightarrow> (Inr (), (w1, [])))"

fun run_jobs ::
  "('j \<Rightarrow> 'w \<Rightarrow> agent_report \<times> 'w) \<Rightarrow> 'j list \<Rightarrow> 'w \<times> agent_report list \<Rightarrow> 'w \<times> agent_report list" where
  "run_jobs ex [] s = s"
| "run_jobs ex (j # js) (w, rs) = (case ex j w of (r, w1) \<Rightarrow> run_jobs ex js (w1, rs @ [r]))"

definition run_once ::
  "(agent_report list \<Rightarrow> (string, 'w, unit) st) \<Rightarrow> (string, 'w, 'j list) st \<Rightarrow>
   ('j \<Rightarrow> 'w \<Rightarrow> agent_report \<times> 'w) \<Rightarrow> (string, 'w \<times> agent_report list, unit) st" where
  "run_once beat fetch ex =
     st_bind (agent_heartbeat beat) (\<lambda>u s.
     case fetch (fst s) of
       (Inl e, w1) \<Rightarrow> (Inl e, (w1, snd s))
     | (Inr js, w1) \<Rightarrow>
         (let s2 = run_jobs ex js (w1, snd s)
          in if snd s2 \<noteq> [] then agent_heartbeat beat s2 else (Inr (), s2)))"

section \<open>Facts\<close>

lemma st_report_cases:
  "st_report jid lease m w = (r, w') \<longleftrightarrow>
     (\<exists>e. m w = (Inl e, w') \<and> r = \<lparr>ar_job = jid, ar_state = ''failed'', ar_lease = lease, ar_error = Some (take 500 e)\<rparr>) \<or>
     m w = (Inr r, w')"
  by (auto simp: st_report_def split: prod.splits sum.splits)

text \<open>The calls a job makes: a world that logs every Kubo call.\<close>

definition logged :: "'w rpc \<Rightarrow> ('w \<times> kubo_call list) rpc" where
  "logged rpc c s = (case rpc c (fst s) of (r, w1) \<Rightarrow> (r, (w1, snd s @ [c])))"

definition logged_ask :: "'w ask \<Rightarrow> ('w \<times> kubo_call list) ask" where
  "logged_ask ask jid lease s = (case ask jid lease (fst s) of (r, w1) \<Rightarrow> (r, (w1, snd s)))"

definition is_rm :: "kubo_call \<Rightarrow> bool" where
  "is_rm c = (case c of PinRm x \<Rightarrow> True | _ \<Rightarrow> False)"

lemma logged_Inr: "logged rpc c (w, l) = (r, (w', l')) \<longleftrightarrow> rpc c w = (r, w') \<and> l' = l @ [c]"
  by (auto simp: logged_def split: prod.splits)

lemma logged_ask_eq: "logged_ask ask jid lease (w, l) = (r, (w', l')) \<longleftrightarrow> ask jid lease w = (r, w') \<and> l' = l"
  by (auto simp: logged_ask_def split: prod.splits)

lemma log_is_pinned:
  "ipfs_is_pinned (logged rpc) cid (w, l) = (r, (w', l')) \<Longrightarrow> \<exists>ys. l' = l @ ys \<and> (\<forall>c \<in> set ys. \<not> is_rm c)"
  by (auto simp: ipfs_is_pinned_def logged_Inr is_rm_def split: if_splits prod.splits sum.splits option.splits json.splits)

lemma log_pin:
  "ipfs_pin (logged rpc) cid (w, l) = (r, (w', l')) \<Longrightarrow> \<exists>ys. l' = l @ ys \<and> (\<forall>c \<in> set ys. \<not> is_rm c)"
  by (auto simp: ipfs_pin_def st_bind_def logged_Inr is_rm_def split: if_splits prod.splits sum.splits option.splits json.splits)

lemma log_unpin: "ipfs_unpin (logged rpc) cid (w, l) = (r, (w', l')) \<Longrightarrow> l' = l @ [PinRm cid]"
  by (auto simp: ipfs_unpin_def logged_Inr split: prod.splits sum.splits)

text \<open>A log without removals, and how it composes.\<close>

definition no_rm :: "(string, 'w \<times> kubo_call list, 'a) st \<Rightarrow> bool" where
  "no_rm m \<longleftrightarrow> (\<forall>w l r w' l'. m (w, l) = (r, (w', l')) \<longrightarrow> (\<forall>c \<in> set l'. is_rm c \<longrightarrow> c \<in> set l))"

lemma no_rm_basic [intro]: "no_rm (st_ret x)" "no_rm (st_fail e)" "no_rm (ipfs_is_pinned (logged rpc) cid)"
    "no_rm (ipfs_pin (logged rpc) cid)" "no_rm (logged_ask ask jid lease)"
  by (auto simp: no_rm_def logged_ask_eq dest!: log_is_pinned log_pin)

lemma no_rm_bind [intro]:
  assumes "no_rm m" "\<And>x. no_rm (f x)"
  shows "no_rm (st_bind m f)"
  unfolding no_rm_def
proof (intro allI impI)
  fix w l r w' l'
  assume b: "st_bind m f (w, l) = (r, (w', l'))"
  obtain r1 w1 l1 where m: "m (w, l) = (r1, (w1, l1))" by (metis surj_pair)
  show "\<forall>c \<in> set l'. is_rm c \<longrightarrow> c \<in> set l"
  proof (cases r1)
    case (Inl e)
    then show ?thesis using b m assms(1) unfolding st_bind_def no_rm_def by fastforce
  next
    case (Inr x)
    then have "f x (w1, l1) = (r, (w', l'))" using b m by (simp add: st_bind_def)
    then show ?thesis using m assms unfolding no_rm_def by blast
  qed
qed

lemma no_rm_report: "no_rm m \<Longrightarrow> st_report jid lease m (w, l) = (r, (w', l')) \<Longrightarrow> c \<in> set l' \<Longrightarrow> is_rm c \<Longrightarrow> c \<in> set l"
  unfolding no_rm_def st_report_cases by blast

lemma no_rm_if: "no_rm a \<Longrightarrow> no_rm b \<Longrightarrow> no_rm (if x then a else b)"
  by simp

lemmas no_rm_rules = no_rm_bind no_rm_if no_rm_basic

lemma no_rm_base:
  assumes "operation \<noteq> ''UNPIN''"
    and "execute_base (logged rpc) allow jid cid operation lease (w, l) = (r, (w', l'))" "c \<in> set l'" "is_rm c"
  shows "c \<in> set l"
proof -
  have "no_rm (if operation = ''PIN'' then
          st_bind (ipfs_pin (logged rpc) cid) (\<lambda>u. st_bind (ipfs_is_pinned (logged rpc) cid) (\<lambda>b.
            if b then st_ret (report_ok jid ''pinned'' lease)
            else st_fail ''pin/add returned but pin/ls did not confirm recursive pin''))
        else if operation = ''VERIFY'' then
          st_bind (ipfs_is_pinned (logged rpc) cid) (\<lambda>b.
            if b then st_ret (report_ok jid ''verified'' lease) else st_fail ''CID is not recursively pinned'')
        else st_fail (''unsupported operation: '' @ operation))" (is "no_rm ?m")
    by (intro no_rm_rules)
  then show ?thesis
    by (rule no_rm_report [OF _ assms(2) [unfolded execute_base_def if_not_P [OF assms(1)]] assms(3,4)])
qed

lemma is_pinned_True:
  assumes "ipfs_is_pinned rpc cid w = (Inr True, w')"
  obtains data keys entry where "rpc (PinLs cid) w = (Inr (Some (JObj data)), w')"
    "py_or (jget data ''Keys'') (JObj []) = JObj keys" "jget keys cid = JObj entry"
    "py_lower (jtext entry ''Type'') = ''recursive''"
  using assms by (auto simp: ipfs_is_pinned_def split: if_splits prod.splits sum.splits option.splits json.splits)

section \<open>Properties\<close>

lemma removes_the_job_cid:
  assumes "(st_bind (ipfs_is_pinned (logged rpc) cid) (\<lambda>b.
     if \<not> b then st_ret (report_ok jid ''unpinned'' lease)
     else st_bind (ipfs_unpin (logged rpc) cid) (\<lambda>u. st_bind (ipfs_is_pinned (logged rpc) cid) (\<lambda>still.
       if still then st_fail ''pin/rm returned but recursive pin still exists''
       else st_ret (report_ok jid ''unpinned'' lease))))) (w1, []) = (r, (w2, l2))"
    and "PinRm c \<in> set l2"
  shows "c = cid"
proof -
  obtain b w3 l3 where p: "ipfs_is_pinned (logged rpc) cid (w1, []) = (b, (w3, l3))" by (metis surj_pair)
  have l3: "PinRm c \<notin> set l3" using log_is_pinned [OF p] by (auto simp: is_rm_def)
  show ?thesis
  proof (cases "b = Inr True")
    case False
    then have "l2 = l3" using assms(1) p by (cases b) (auto simp: st_bind_def split: if_splits)
    then show ?thesis using l3 assms(2) by simp
  next
    case True
    obtain u w4 l4 where q: "ipfs_unpin (logged rpc) cid (w3, l3) = (u, (w4, l4))" by (metis surj_pair)
    have l4: "l4 = l3 @ [PinRm cid]" by (rule log_unpin [OF q])
    let ?tail = "st_bind (ipfs_is_pinned (logged rpc) cid) (\<lambda>still.
      if still then st_fail ''pin/rm returned but recursive pin still exists''
      else st_ret (report_ok jid ''unpinned'' lease))"
    have "no_rm ?tail" by (intro no_rm_rules)
    moreover have "(\<exists>e. u = Inl e \<and> l2 = l4) \<or> ?tail (w4, l4) = (r, (w2, l2))"
      using assms(1) p q True by (auto simp: st_bind_def split: sum.splits)
    ultimately have "PinRm c \<in> set l4" using assms(2) unfolding no_rm_def is_rm_def by fastforce
    then show ?thesis using l4 l3 by auto
  qed
qed

lemma no_removal_without_unpin:
  assumes "execute_job (logged rpc) ask allow jid cid operation lease (w, []) = (rep, (w', lg))" "operation \<noteq> ''UNPIN''"
  shows "PinRm c \<notin> set lg"
proof
  assume rm: "PinRm c \<in> set lg"
  have "PinRm c \<in> set []"
  proof (cases "operation = ''UNPIN_VERIFY''")
    case True
    have "no_rm (st_bind (ipfs_is_pinned (logged rpc) cid) (\<lambda>b.
        st_ret (report_ok jid (if b then ''verified'' else ''unpinned'') lease)))" by (intro no_rm_rules)
    from no_rm_report [OF this, of jid lease w "[]" rep w' lg "PinRm c"] show ?thesis
      using assms True rm by (simp add: execute_job_def is_rm_def)
  next
    case False
    then have "execute_base (logged rpc) allow jid cid operation lease (w, []) = (rep, (w', lg))"
      using assms by (simp add: execute_job_def)
    from no_rm_base [OF assms(2) this rm] show ?thesis by (simp add: is_rm_def)
  qed
  then show False by simp
qed

text \<open>C8: The agent removes a pin only with both gates open: every \<open>pin/rm\<close> it sends is for the CID of an UNPIN
  job, with the local switch on and the controller's authorisation of that job lease for that CID.\<close>

theorem agent_removes_only_authorised:
  assumes "execute_job (logged rpc) (logged_ask ask) allow jid cid operation lease (w, []) = (rep, (w', lg))"
    and "PinRm c \<in> set lg"
  shows "operation = ''UNPIN'' \<and> allow \<and> c = cid \<and>
    (\<exists>auth w1. ask jid lease w = (Inr auth, w1) \<and> truthy (jget auth ''authorized'') \<and> jtext auth ''cid'' = cid)"
proof -
  let ?rest = "st_bind (ipfs_is_pinned (logged rpc) cid) (\<lambda>b.
       if \<not> b then st_ret (report_ok jid ''unpinned'' lease)
       else st_bind (ipfs_unpin (logged rpc) cid) (\<lambda>u. st_bind (ipfs_is_pinned (logged rpc) cid) (\<lambda>still.
         if still then st_fail ''pin/rm returned but recursive pin still exists''
         else st_ret (report_ok jid ''unpinned'' lease))))"
  have op: "operation = ''UNPIN''" using no_removal_without_unpin [OF assms(1)] assms(2) by blast
  have a: "allow" using assms op by (cases allow) (auto simp: execute_job_def st_report_cases)
  obtain a1 w1 l1 where ask: "logged_ask ask jid lease (w, []) = (a1, (w1, l1))" by (metis surj_pair)
  then have ask': "ask jid lease w = (a1, w1)" "l1 = []" by (auto simp: logged_ask_eq)
  have "\<exists>auth. a1 = Inr auth \<and> truthy (jget auth ''authorized'') \<and> jtext auth ''cid'' = cid \<and>
      (\<exists>r. ?rest (w1, []) = (r, (w', lg)))"
    using assms op a ask ask'(2)
    by (cases a1) (auto simp: execute_job_def st_report_cases st_bind_def [of "logged_ask ask jid lease"] split: if_splits)
  then obtain auth r where auth: "a1 = Inr auth" "truthy (jget auth ''authorized'')" "jtext auth ''cid'' = cid"
    "?rest (w1, []) = (r, (w', lg))" by blast
  have "c = cid" by (rule removes_the_job_cid [OF auth(4) assms(2)])
  then show ?thesis using op a ask'(1) auth(1-3) by blast
qed

text \<open> A copy is reported pinned only after Kubo listed it as a recursive pin: the last thing a successful PIN
  job does is to read that listing.\<close>

theorem pinned_report_is_confirmed:
  assumes "execute_job rpc ask allow jid cid ''PIN'' lease w = (rep, w')" "ar_state rep = ''pinned''"
  shows "\<exists>w1 data keys entry. rpc (PinLs cid) w1 = (Inr (Some (JObj data)), w') \<and>
     py_or (jget data ''Keys'') (JObj []) = JObj keys \<and> jget keys cid = JObj entry \<and>
     py_lower (jtext entry ''Type'') = ''recursive''"
proof -
  have "\<exists>w1. ipfs_is_pinned rpc cid w1 = (Inr True, w')"
    using assms by (auto simp: execute_job_def execute_base_def st_report_cases st_bind_Inr split: if_splits)
  then show ?thesis by (elim exE is_pinned_True) blast
qed

text \<open> An UNPIN that removes nothing is reported as done when Kubo cannot be reached: \<open>is_pinned\<close> answers
  False for every error of the RPC, so an authorised UNPIN reports \<open>unpinned\<close> without a removal.\<close>

theorem unreachable_kubo_reports_unpinned:
  assumes "\<And>c v. rpc c v = (Inl e, v)"
    and "ask jid lease w = (Inr auth, w1)" "truthy (jget auth ''authorized'')" "jtext auth ''cid'' = cid"
  shows "execute_job rpc ask True jid cid ''UNPIN'' lease w = (report_ok jid ''unpinned'' lease, w1)"
  using assms by (simp add: execute_job_def st_report_def st_bind_def ipfs_is_pinned_def)

section \<open>Witnesses\<close>

definition kubo_down :: "nat rpc" where
  "kubo_down c v = (Inl ''connection refused'', v)"

text \<open>Kubo that keeps its pins as a list of CIDs.\<close>

fun kubo_list :: "string list rpc" where
  "kubo_list (PinAdd c) ps = (Inr (Some (JObj [(''Pins'', JList [JStr c])])), c # ps)"
| "kubo_list (PinLs c) ps = (if c \<in> set ps
     then (Inr (Some (JObj [(''Keys'', JObj [(c, JObj [(''Type'', JStr ''recursive'')])])])), ps)
     else (Inl ''not pinned'', ps))"
| "kubo_list (PinRm c) ps = (Inr (Some (JObj [])), filter (\<lambda>x. x \<noteq> c) ps)"

definition grant :: "'w ask" where
  "grant jid lease w = (Inr [(''authorized'', JBool True), (''cid'', JStr ''c'')], w)"

theorem agent_removes_only_authorised_witness:
  "snd (snd (execute_job (logged kubo_list) (logged_ask grant) True ''u'' ''c'' ''UNPIN'' 9 ([''c''], [])))
     = [PinLs ''c'', PinRm ''c'', PinLs ''c''] \<and>
   (\<exists>auth w1. grant ''u'' 9 [''c''] = (Inr auth, w1 :: string list) \<and> jtext auth ''cid'' = ''c'')"
proof -
  let ?r = "execute_job (logged kubo_list) (logged_ask grant) True ''u'' ''c'' ''UNPIN'' 9 ([''c''], [])"
  have l: "snd (snd ?r) = [PinLs ''c'', PinRm ''c'', PinLs ''c'']" by code_simp
  have "?r = (fst ?r, (fst (snd ?r), snd (snd ?r)))" by simp
  from agent_removes_only_authorised [OF this, of "''c''"] l show ?thesis by auto
qed

theorem pinned_report_is_confirmed_witness:
  "\<exists>w1 data. kubo_list (PinLs ''c'') w1 = (Inr (Some (JObj data)), [''c''])"
proof -
  let ?r = "execute_job kubo_list grant True ''p'' ''c'' ''PIN'' 9 []"
  have "ar_state (fst ?r) = ''pinned''" "snd ?r = [''c'']" by code_simp+
  then show ?thesis
    using pinned_report_is_confirmed [of kubo_list grant True "''p''" "''c''" 9 "[]" "fst ?r" "snd ?r"] by force
qed

theorem unreachable_kubo_reports_unpinned_witness:
  "execute_job kubo_down grant True ''u'' ''c'' ''UNPIN'' 9 0 = (report_ok ''u'' ''unpinned'' 9, 0)"
  by (rule unreachable_kubo_reports_unpinned [of _ "''connection refused''" _ _ _ _ "[(''authorized'', JBool True), (''cid'', JStr ''c'')]"])
    (simp_all add: kubo_down_def grant_def jtext_def)

end
