(* ===== verification/Ha_Lease.thy ===== *)
theory Ha_Lease
  imports Json
begin

text \<open>
  The lease agent of a high-availability node: \<open>ha/hashburst_ha_agent.py\<close> with the overrides of
  \<open>ha/hashburst_ha_agent_v220.py\<close>. A node's engine holds its durable vote (term and candidate),
  its volatile lease, the restart guard, its own leadership and the guard file on disk.
  \<open>boot_seconds\<close> is a rational argument, read once per handler and before and after a round of RPCs;
  requests and replies are JSON objects; an \<open>HaError\<close> is its code.
\<close>

section \<open>Configuration\<close>

record ha_candidate =
  hc_id :: string
  hc_priority :: int

record ha_config =
  hf_cluster :: string
  hf_node :: string
  hf_roles :: "string list"
  hf_voters :: "string list"
  hf_candidates :: "ha_candidate list"
  hf_lease :: py_float
  hf_loop :: py_float
  hf_rpc_timeout :: py_float
  hf_armed :: bool
  hf_primary_services :: "string list"
  hf_required_services :: "string list"
  hf_health_urls :: "string list"
  hf_replication_file :: string
  hf_max_lag :: py_float
  hf_startup_grace :: py_float

definition is_voter :: "ha_config \<Rightarrow> bool" where
  "is_voter cfg \<longleftrightarrow> ''voter'' \<in> set (hf_roles cfg)"

definition is_ha_candidate :: "ha_config \<Rightarrow> bool" where
  "is_ha_candidate cfg \<longleftrightarrow> ''candidate'' \<in> set (hf_roles cfg)"

definition quorum :: "ha_config \<Rightarrow> nat" where
  "quorum cfg = length (hf_voters cfg) div 2 + 1"

definition my_priority :: "ha_config \<Rightarrow> int" where
  "my_priority cfg =
     (case find (\<lambda>c. hc_id c = hf_node cfg) (hf_candidates cfg) of
        Some c \<Rightarrow> hc_priority c | None \<Rightarrow> 2147483647)"

text \<open>\<open>int(self.config.lease_seconds * 1000)\<close>\<close>

definition lease_ms :: "ha_config \<Rightarrow> int" where
  "lease_ms cfg = py_trunc (hf_lease cfg * 1000)"

definition text_items :: "jobj \<Rightarrow> string \<Rightarrow> string + string list" where
  "text_items raw k =
     (case py_iter (jget_def_to raw k (JList [])) of
        None \<Rightarrow> Inl k
      | Some xs \<Rightarrow> Inr (filter (\<lambda>s. s \<noteq> []) (map (\<lambda>x. py_strip (py_str x)) xs)))"

definition candidate_item :: "json \<Rightarrow> string + ha_candidate option" where
  "candidate_item v =
     (case v of
        JObj o' \<Rightarrow>
          if jtext_strip o' ''node_id'' = [] then Inr None
          else (case py_int (jget_def_to o' ''priority'' (JInt 100)) of
                  None \<Rightarrow> Inl ''priority''
                | Some p \<Rightarrow> Inr (Some \<lparr>hc_id = jtext_strip o' ''node_id'', hc_priority = p\<rparr>))
      | _ \<Rightarrow> Inr None)"

fun candidate_items :: "json list \<Rightarrow> string + ha_candidate list" where
  "candidate_items [] = Inr []"
| "candidate_items (v # vs) =
     bind_r (candidate_item v) (\<lambda>c. bind_r (candidate_items vs) (\<lambda>cs.
       Inr (case c of None \<Rightarrow> cs | Some x \<Rightarrow> x # cs)))"

definition float_field :: "jobj \<Rightarrow> string \<Rightarrow> py_float \<Rightarrow> string + py_float" where
  "float_field raw k d =
     (case py_float_of (jget_def_to raw k (JFloat d [])) of None \<Rightarrow> Inl k | Some x \<Rightarrow> Inr x)"

text \<open>\<open>Config.load\<close>; \<open>loopback\<close> is the \<open>urlsplit\<close> test of a health URL.\<close>

definition load_config :: "(string \<Rightarrow> bool) \<Rightarrow> jobj \<Rightarrow> string + ha_config" where
  "load_config loopback raw =
     (let cluster = jtext_strip raw ''cluster_id'';
          node = jtext_strip raw ''node_id''
      in bind_r (text_items raw ''roles'') (\<lambda>roles.
         bind_r (text_items raw ''voters'') (\<lambda>vs.
         bind_r (case py_iter (jget_def_to raw ''candidates'' (JList [])) of
                   None \<Rightarrow> Inl ''candidates'' | Some xs \<Rightarrow> candidate_items xs) (\<lambda>cands.
         if cluster = [] \<or> node = [] then Inl ''cluster_id and node_id are required''
         else if vs = [] then Inl ''at least one voter is required''
         else if \<not> set roles \<subseteq> {''voter'', ''candidate'', ''observer''}
           then Inl ''roles may contain voter, candidate, observer only''
         else if \<not> distinct (map hc_id cands) then Inl ''candidate node_id values must be unique''
         else if ''candidate'' \<in> set roles \<and> node \<notin> hc_id ` set cands
           then Inl ''candidate node must be present in candidates''
         else bind_r (float_field raw ''lease_seconds'' 12) (\<lambda>lease.
           bind_r (float_field raw ''loop_seconds'' 2) (\<lambda>loop.
           bind_r (float_field raw ''rpc_timeout_seconds'' (5/2)) (\<lambda>timeout.
           if \<not> (6 \<le> lease \<and> lease \<le> 120) then Inl ''lease_seconds must be in 6..120''
           else if \<not> (1/2 \<le> loop \<and> loop < lease / 2) then Inl ''loop_seconds must be >= 0.5 and < lease_seconds/2''
           else if \<not> (1/2 \<le> timeout \<and> timeout \<le> 5) then Inl ''rpc_timeout_seconds must be in 0.5..5''
           else bind_r (text_items raw ''health_urls'') (\<lambda>urls.
             if \<not> list_all loopback urls then Inl ''health_urls must use loopback HTTP only''
             else bind_r (text_items raw ''primary_services'') (\<lambda>prim.
               bind_r (text_items raw ''required_services'') (\<lambda>req.
               bind_r (float_field raw ''max_replication_lag_seconds'' 30) (\<lambda>lag.
               bind_r (float_field raw ''startup_grace_seconds'' 30) (\<lambda>grace.
               if py_int (jget_def_to raw ''bind_port'' (JInt 47780)) = None then Inl ''bind_port''
               else Inr \<lparr>hf_cluster = cluster, hf_node = node, hf_roles = roles, hf_voters = dedup vs,
                  hf_candidates = cands, hf_lease = lease, hf_loop = loop, hf_rpc_timeout = timeout,
                  hf_armed = truthy (jget_def_to raw ''armed'' (JBool False)),
                  hf_primary_services = prim, hf_required_services = req, hf_health_urls = urls,
                  hf_replication_file = jtext_strip raw ''replication_state_file'',
                  hf_max_lag = lag, hf_startup_grace = grace\<rparr>))))))))))))"

section \<open>The engine\<close>

record guard_file =
  gf_cluster :: string
  gf_holder :: string
  gf_term :: int
  gf_deadline :: py_float

datatype desired_role = Standby | Primary

record engine =
  en_term :: int
  en_voted :: string
  en_holder :: string
  en_vdeadline :: py_float
  en_restart_guard :: py_float
  en_lterm :: int
  en_ldeadline :: py_float
  en_guard :: "guard_file option"
  en_desired :: desired_role
  en_eligible :: bool
  en_reasons :: "string list"
  en_view :: jobj
  en_error :: string

text \<open>\<open>PersistentVoteState.advance\<close>\<close>

definition advance :: "int \<Rightarrow> string \<Rightarrow> engine \<Rightarrow> string + engine" where
  "advance term c e = (if term < en_term e then Inl ''term regression''
                       else Inr (e\<lparr>en_term := term, en_voted := c\<rparr>))"

text \<open>A process start: what is volatile is reset; a voter that has voted guards its possible lease.\<close>

definition start_engine :: "ha_config \<Rightarrow> py_float \<Rightarrow> int \<Rightarrow> string \<Rightarrow> guard_file option \<Rightarrow> engine" where
  "start_engine cfg now term voted guard =
     \<lparr>en_term = term, en_voted = voted, en_holder = [], en_vdeadline = 0,
      en_restart_guard = (if is_voter cfg \<and> 0 < term \<and> voted \<noteq> [] then now + hf_lease cfg else 0),
      en_lterm = 0, en_ldeadline = 0, en_guard = guard, en_desired = Standby, en_eligible = False,
      en_reasons = (if is_ha_candidate cfg then [''eligibility_not_checked''] else [''not_candidate'']),
      en_view = [], en_error = []\<rparr>"

definition remaining_ms :: "py_float \<Rightarrow> py_float \<Rightarrow> int" where
  "remaining_ms deadline now = max 0 (py_trunc ((deadline - now) * 1000))"

text \<open>\<open>sorted(self.config.roles)\<close>; only these three roles load.\<close>

definition sorted_roles :: "ha_config \<Rightarrow> string list" where
  "sorted_roles cfg = filter (\<lambda>r. r \<in> set (hf_roles cfg)) [''candidate'', ''observer'', ''voter'']"

definition voter_status :: "ha_config \<Rightarrow> py_float \<Rightarrow> engine \<Rightarrow> jobj" where
  "voter_status cfg now e =
     (let live = now < en_vdeadline e in
      [(''cluster_id'', JStr (hf_cluster cfg)), (''node_id'', JStr (hf_node cfg)), (''term'', JInt (en_term e)),
       (''voted_for'', JStr (en_voted e)), (''holder'', JStr (if live then en_holder e else [])),
       (''lease_remaining_ms'', JInt (if live then remaining_ms (en_vdeadline e) now else 0)),
       (''quorum'', JInt (int (quorum cfg)))])"

definition local_status :: "ha_config \<Rightarrow> py_float \<Rightarrow> engine \<Rightarrow> jobj" where
  "local_status cfg now e =
     voter_status cfg now e @
     [(''roles'', JList (map JStr (sorted_roles cfg))),
      (''candidate_priority'', if is_ha_candidate cfg then JInt (my_priority cfg) else JNull),
      (''eligible'', JBool (en_eligible e)), (''eligibility_reasons'', JList (map JStr (en_reasons e))),
      (''armed'', JBool (hf_armed cfg)),
      (''local_role'', JStr (if now < en_ldeadline e \<or> en_desired e = Primary then ''primary'' else ''standby'')),
      (''leader_term'', JInt (en_lterm e)), (''leader_remaining_ms'', JInt (remaining_ms (en_ldeadline e) now)),
      (''cluster_view'', JObj (en_view e)), (''last_error'', JStr (en_error e))]"

section \<open>Voting\<close>

definition denied :: "int \<Rightarrow> string \<Rightarrow> jobj" where
  "denied term reason = [(''granted'', JBool False), (''term'', JInt term), (''reason'', JStr reason)]"

definition held :: "int \<Rightarrow> string \<Rightarrow> int \<Rightarrow> string \<Rightarrow> jobj" where
  "held term holder ms reason =
     [(''granted'', JBool False), (''term'', JInt term), (''holder'', JStr holder),
      (''lease_remaining_ms'', JInt ms), (''reason'', JStr reason)]"

definition granted :: "int \<Rightarrow> string \<Rightarrow> int \<Rightarrow> jobj" where
  "granted term holder ms =
     [(''granted'', JBool True), (''term'', JInt term), (''holder'', JStr holder), (''lease_ms'', JInt ms)]"

definition give_lease :: "py_float \<Rightarrow> string \<Rightarrow> int \<Rightarrow> int \<Rightarrow> engine \<Rightarrow> (string + jobj) \<times> engine" where
  "give_lease now c term ms e =
     (Inr (granted term c ms), e\<lparr>en_holder := c, en_vdeadline := now + of_int ms / 1000\<rparr>)"

definition vote_request :: "ha_config \<Rightarrow> py_float \<Rightarrow> string \<Rightarrow> string \<Rightarrow> int \<Rightarrow> int \<Rightarrow> engine \<Rightarrow> (string + jobj) \<times> engine" where
  "vote_request cfg now source candidate term ms e =
     (if candidate \<noteq> source then (Inl ''identity_mismatch'', e)
      else if ms \<le> 0 \<or> lease_ms cfg < ms then (Inl ''bad_lease'', e)
      else if now < en_vdeadline e \<and> en_holder e \<noteq> [] \<and> en_holder e \<noteq> candidate
        then (Inr (held (en_term e) (en_holder e) (remaining_ms (en_vdeadline e) now) ''active_lease''), e)
      else if term < en_term e then (Inr (denied (en_term e) ''stale_term''), e)
      else if en_term e < term then
        (case advance term candidate e of
           Inl x \<Rightarrow> (Inl x, e) | Inr e1 \<Rightarrow> give_lease now candidate term ms e1)
      else if en_voted e \<noteq> [] \<and> en_voted e \<noteq> candidate then (Inr (denied (en_term e) ''already_voted''), e)
      else if en_voted e = [] then
        (case advance term candidate e of
           Inl x \<Rightarrow> (Inl x, e) | Inr e1 \<Rightarrow> give_lease now candidate term ms e1)
      else give_lease now candidate term ms e)"

definition renew_request :: "ha_config \<Rightarrow> py_float \<Rightarrow> string \<Rightarrow> string \<Rightarrow> int \<Rightarrow> int \<Rightarrow> engine \<Rightarrow> (string + jobj) \<times> engine" where
  "renew_request cfg now source holder term ms e =
     (if holder \<noteq> source then (Inl ''identity_mismatch'', e)
      else if term \<noteq> en_term e \<or> en_voted e \<noteq> holder then (Inr (denied (en_term e) ''not_current_holder''), e)
      else if ms \<le> 0 \<or> lease_ms cfg < ms then (Inl ''bad_lease'', e)
      else give_lease now holder term ms e)"

definition with_ints :: "jobj \<Rightarrow> int \<Rightarrow> (int \<Rightarrow> int \<Rightarrow> engine \<Rightarrow> (string + jobj) \<times> engine) \<Rightarrow> engine \<Rightarrow> (string + jobj) \<times> engine" where
  "with_ints payload def f e =
     (case py_int (jget_def_to payload ''term'' (JInt (-1))) of
        None \<Rightarrow> (Inl ''internal_error'', e)
      | Some term \<Rightarrow>
          (case py_int (jget_def_to payload ''lease_ms'' (JInt def)) of
             None \<Rightarrow> (Inl ''internal_error'', e)
           | Some ms \<Rightarrow> f term ms e))"

text \<open>\<open>handle_tep\<close> of the base class, on objects.\<close>

definition handle_base :: "ha_config \<Rightarrow> py_float \<Rightarrow> jobj \<Rightarrow> jobj \<Rightarrow> engine \<Rightarrow> (string + jobj) \<times> engine" where
  "handle_base cfg now source payload e =
     (let src = jtext_strip source ''node_id''; op' = jtext_strip payload ''op'' in
      if src = [] \<or> jtext_strip source ''peer_id'' = [] then (Inl ''bad_request'', e)
      else if jtext payload ''cluster_id'' \<noteq> hf_cluster cfg then (Inl ''cluster_mismatch'', e)
      else if op' = ''status'' then (Inr (local_status cfg now e), e)
      else if \<not> is_voter cfg then (Inl ''not_voter'', e)
      else if src \<notin> hc_id ` set (hf_candidates cfg) then (Inl ''candidate_unknown'', e)
      else if op' = ''vote_request'' then
        with_ints payload (lease_ms cfg) (vote_request cfg now src (jtext payload ''candidate'')) e
      else if op' = ''renew'' then
        with_ints payload (lease_ms cfg) (renew_request cfg now src (jtext payload ''holder'')) e
      else (Inl ''unsupported_op'', e))"

text \<open>The override of v2.2.0: after a restart a voter refuses other candidates for one lease.\<close>

definition handle_tep :: "ha_config \<Rightarrow> py_float \<Rightarrow> json \<Rightarrow> json \<Rightarrow> engine \<Rightarrow> (string + jobj) \<times> engine" where
  "handle_tep cfg now source payload e =
     (case payload of
        JObj p \<Rightarrow>
          let src = (case source of JObj s \<Rightarrow> jtext_strip s ''node_id'' | _ \<Rightarrow> []) in
          if jtext p ''op'' = ''vote_request'' \<and> is_voter cfg \<and> now < en_restart_guard e \<and> en_voted e \<noteq> [] \<and>
             src \<noteq> [] \<and> src \<noteq> en_voted e
          then (Inr (held (en_term e) (en_voted e) (remaining_ms (en_restart_guard e) now) ''restart_lease_guard''), e)
          else (case source of JObj s \<Rightarrow> handle_base cfg now s p e | _ \<Rightarrow> (Inl ''bad_request'', e))
      | _ \<Rightarrow> (Inl ''bad_request'', e))"

section \<open>The view of the cluster\<close>

fun bump_count :: "int \<times> string \<Rightarrow> ((int \<times> string) \<times> nat) list \<Rightarrow> ((int \<times> string) \<times> nat) list" where
  "bump_count k [] = [(k, 1)]"
| "bump_count k ((k', n) # kns) = (if k = k' then (k', Suc n) # kns else (k', n) # bump_count k kns)"

text \<open>The first maximum by count, then term, as \<open>max\<close> over the insertion-ordered dict finds it.\<close>

fun best_count :: "((int \<times> string) \<times> nat) list \<Rightarrow> ((int \<times> string) \<times> nat) option" where
  "best_count [] = None"
| "best_count (x # xs) =
     (case best_count xs of
        None \<Rightarrow> Some x
      | Some y \<Rightarrow> Some (if snd x < snd y \<or> snd x = snd y \<and> fst (fst x) < fst (fst y) then y else x))"

text \<open>One status reply: its term, and the term and holder it counts for; \<open>Inl\<close> is a raise.\<close>

definition view_item :: "jobj \<Rightarrow> string + (int \<times> (int \<times> string) option) option" where
  "view_item s =
     (case py_int (jget_def_to s ''term'' (JInt 0)) of
        None \<Rightarrow> Inr None
      | Some term \<Rightarrow>
          (case py_int (py_or (jget_def_to s ''lease_remaining_ms'' (JInt 0)) (JInt 0)) of
             None \<Rightarrow> Inl ''lease_remaining_ms''
           | Some ms \<Rightarrow> Inr (Some (term, if jtext s ''holder'' \<noteq> [] \<and> 0 < ms then Some (term, jtext s ''holder'') else None))))"

fun view_items :: "jobj list \<Rightarrow> int \<Rightarrow> ((int \<times> string) \<times> nat) list \<Rightarrow> string + int \<times> ((int \<times> string) \<times> nat) list" where
  "view_items [] mx cs = Inr (mx, cs)"
| "view_items (s # ss) mx cs =
     bind_r (view_item s) (\<lambda>r.
       case r of
         None \<Rightarrow> view_items ss mx cs
       | Some (term, k) \<Rightarrow> view_items ss (max mx term) (case k of None \<Rightarrow> cs | Some c \<Rightarrow> bump_count c cs))"

definition majority_view :: "ha_config \<Rightarrow> jobj list \<Rightarrow> string + int \<times> string \<times> int" where
  "majority_view cfg replies =
     bind_r (view_items replies 0 []) (\<lambda>(mx, cs).
       Inr (case best_count cs of
              None \<Rightarrow> (mx, [], 0)
            | Some ((term, holder), n) \<Rightarrow> if quorum cfg \<le> n then (mx, holder, term) else (mx, [], 0)))"

end
