(* ===== verification/Ha_Engine.thy ===== *)
theory Ha_Engine
  imports Ha_Lease "HOL-Library.Char_ord" "HOL-Library.List_Lexorder" "HOL-Library.Product_Lexorder"
begin

text \<open>
  The loop of the lease agent: rounds of RPCs, renewal and campaign as
  \<open>ha/hashburst_ha_agent_v220.py\<close> overrides them, fencing, \<open>run_once\<close>, the watchdog, the
  eligibility checks and the loopback TEP client. What is outside the process (the boot clock, the TEP
  daemon, \<open>systemctl\<close>, the eligibility probes) is a record of functions on a world \<open>'w\<close>.
  An exception is the text the loop records for it.
\<close>

record 'w ha_env =
  he_clock :: "'w \<Rightarrow> py_float \<times> 'w"
  he_rpc :: "string \<Rightarrow> jobj \<Rightarrow> 'w \<Rightarrow> (string + jobj) \<times> 'w"
  he_check :: "'w \<Rightarrow> (bool \<times> string list) \<times> 'w"
  he_active :: "string \<Rightarrow> 'w \<Rightarrow> bool \<times> 'w"
  he_systemctl :: "string \<Rightarrow> string \<Rightarrow> 'w \<Rightarrow> (string + unit) \<times> 'w"

type_synonym ('w, 'a) ha_st = "(string, engine \<times> 'w, 'a) st"

definition on_world :: "('w \<Rightarrow> 'a \<times> 'w) \<Rightarrow> ('w, 'a) ha_st" where
  "on_world f s = (case f (snd s) of (x, w) \<Rightarrow> (Inr x, fst s, w))"

definition on_world_e :: "('w \<Rightarrow> (string + 'a) \<times> 'w) \<Rightarrow> ('w, 'a) ha_st" where
  "on_world_e f s = (case f (snd s) of (x, w) \<Rightarrow> (x, fst s, w))"

definition get_engine :: "('w, engine) ha_st" where
  "get_engine s = (Inr (fst s), s)"

definition upd_engine :: "(engine \<Rightarrow> engine) \<Rightarrow> ('w, unit) ha_st" where
  "upd_engine f s = (Inr (), f (fst s), snd s)"

definition boot_clock :: "'w ha_env \<Rightarrow> ('w, py_float) ha_st" where
  "boot_clock env = on_world (he_clock env)"

text \<open>\<open>try: m except Exception: h\<close>\<close>

definition try_st :: "('w, 'a) ha_st \<Rightarrow> (string \<Rightarrow> ('w, 'a) ha_st) \<Rightarrow> ('w, 'a) ha_st" where
  "try_st m h s = (case m s of (Inl x, s1) \<Rightarrow> h x s1 | (Inr v, s1) \<Rightarrow> (Inr v, s1))"

section \<open>Services\<close>

definition systemctl :: "'w ha_env \<Rightarrow> string \<Rightarrow> string \<Rightarrow> ('w, unit) ha_st" where
  "systemctl env action service s =
     (case he_systemctl env action service (snd s) of
        (Inl detail, w) \<Rightarrow>
          (Inl (''systemctl '' @ action @ '' '' @ service @ '': '' @ take 300 (py_strip detail)), fst s, w)
      | (Inr u, w) \<Rightarrow> (Inr u, fst s, w))"

fun start_services :: "'w ha_env \<Rightarrow> string list \<Rightarrow> ('w, unit) ha_st" where
  "start_services env [] = st_ret ()"
| "start_services env (x # xs) =
     st_bind (on_world (he_active env x)) (\<lambda>active.
     st_bind (if active then st_ret () else systemctl env ''start'' x) (\<lambda>_. start_services env xs))"

fun stop_services :: "'w ha_env \<Rightarrow> string list \<Rightarrow> ('w, unit) ha_st" where
  "stop_services env [] = st_ret ()"
| "stop_services env (x # xs) =
     st_bind (on_world (he_active env x)) (\<lambda>active.
     st_bind (if active then systemctl env ''stop'' x else st_ret ()) (\<lambda>_. stop_services env xs))"

definition set_primary :: "ha_config \<Rightarrow> 'w ha_env \<Rightarrow> ('w, unit) ha_st" where
  "set_primary cfg env =
     st_bind (upd_engine (\<lambda>e. e\<lparr>en_desired := Primary\<rparr>)) (\<lambda>_.
       if is_ha_candidate cfg \<and> hf_armed cfg then start_services env (hf_primary_services cfg) else st_ret ())"

definition set_standby :: "ha_config \<Rightarrow> 'w ha_env \<Rightarrow> ('w, unit) ha_st" where
  "set_standby cfg env =
     st_bind (upd_engine (\<lambda>e. e\<lparr>en_desired := Standby\<rparr>)) (\<lambda>_.
       if is_ha_candidate cfg \<and> hf_armed cfg then stop_services env (rev (hf_primary_services cfg)) else st_ret ())"

section \<open>The guard file and fencing\<close>

definition write_guard :: "ha_config \<Rightarrow> int \<Rightarrow> engine \<Rightarrow> engine" where
  "write_guard cfg term e =
     (if is_ha_candidate cfg \<and> hf_armed cfg
      then e\<lparr>en_guard := Some \<lparr>gf_cluster = hf_cluster cfg, gf_holder = hf_node cfg, gf_term = term,
                               gf_deadline = en_ldeadline e\<rparr>\<rparr>
      else e)"

definition drop_lease :: "engine \<Rightarrow> engine" where
  "drop_lease e = e\<lparr>en_ldeadline := 0, en_guard := None\<rparr>"

definition demote :: "ha_config \<Rightarrow> 'w ha_env \<Rightarrow> ('w, unit) ha_st" where
  "demote cfg env =
     st_bind (upd_engine drop_lease) (\<lambda>_.
       try_st (set_standby cfg env) (\<lambda>x. upd_engine (\<lambda>e. e\<lparr>en_error := ''fence:'' @ x\<rparr>)))"

text \<open>\<open>valid\<close> of the watchdog, and one turn of its loop: whether it fences, and the new \<open>last_fence\<close>.\<close>

definition guard_valid :: "ha_config \<Rightarrow> py_float \<Rightarrow> guard_file option \<Rightarrow> bool" where
  "guard_valid cfg now g =
     (case g of None \<Rightarrow> False
      | Some x \<Rightarrow> gf_cluster x = hf_cluster cfg \<and> gf_holder x = hf_node cfg \<and> now < gf_deadline x)"

definition watchdog_turn :: "ha_config \<Rightarrow> py_float \<Rightarrow> guard_file option \<Rightarrow> py_float \<Rightarrow> bool \<times> py_float" where
  "watchdog_turn cfg now g fenced =
     (if \<not> guard_valid cfg now g \<and> 1 \<le> now - fenced then (True, now) else (False, fenced))"

section \<open>Rounds\<close>

definition status_payload :: "ha_config \<Rightarrow> jobj" where
  "status_payload cfg = [(''op'', JStr ''status''), (''cluster_id'', JStr (hf_cluster cfg))]"

definition renew_payload :: "ha_config \<Rightarrow> int \<Rightarrow> jobj" where
  "renew_payload cfg term =
     [(''op'', JStr ''renew''), (''cluster_id'', JStr (hf_cluster cfg)), (''holder'', JStr (hf_node cfg)),
      (''term'', JInt term), (''lease_ms'', JInt (lease_ms cfg))]"

definition vote_payload :: "ha_config \<Rightarrow> int \<Rightarrow> jobj" where
  "vote_payload cfg term =
     [(''op'', JStr ''vote_request''), (''cluster_id'', JStr (hf_cluster cfg)), (''candidate'', JStr (hf_node cfg)),
      (''priority'', JInt (my_priority cfg)), (''term'', JInt term), (''lease_ms'', JInt (lease_ms cfg))]"

definition local_rpc :: "ha_config \<Rightarrow> 'w ha_env \<Rightarrow> jobj \<Rightarrow> ('w, jobj) ha_st" where
  "local_rpc cfg env payload =
     st_bind (boot_clock env) (\<lambda>now s.
       case handle_tep cfg now (JObj [(''node_id'', JStr (hf_node cfg)), (''peer_id'', JStr ''local-self'')])
              (JObj payload) (fst s) of
         (r, e) \<Rightarrow> (r, e, snd s))"

definition ha_rpc :: "ha_config \<Rightarrow> 'w ha_env \<Rightarrow> string \<Rightarrow> jobj \<Rightarrow> ('w, jobj) ha_st" where
  "ha_rpc cfg env target payload =
     (if target = hf_node cfg then local_rpc cfg env payload else on_world_e (he_rpc env target payload))"

text \<open>The loop all three rounds share: an RPC that raises is skipped.\<close>

fun ask_voters :: "ha_config \<Rightarrow> 'w ha_env \<Rightarrow> jobj \<Rightarrow> string list \<Rightarrow> ('w, jobj list) ha_st" where
  "ask_voters cfg env payload [] = st_ret []"
| "ask_voters cfg env payload (v # vs) =
     st_bind (try_st (st_bind (ha_rpc cfg env v payload) (\<lambda>r. st_ret (Some r))) (\<lambda>_. st_ret None)) (\<lambda>r.
     st_bind (ask_voters cfg env payload vs) (\<lambda>rs.
       st_ret (case r of None \<Rightarrow> rs | Some x \<Rightarrow> x # rs)))"

definition is_grant :: "int \<Rightarrow> jobj \<Rightarrow> bool" where
  "is_grant term r \<longleftrightarrow> truthy (jget_def_to r ''granted'' (JBool False)) \<and> py_int (jget_def_to r ''term'' (JInt (-1))) = Some term"

definition grants_of :: "int \<Rightarrow> jobj list \<Rightarrow> nat" where
  "grants_of term rs = length (filter (is_grant term) rs)"

definition reply_term :: "jobj \<Rightarrow> int option" where
  "reply_term r = py_int (jget_def_to r ''term'' (JInt 0))"

definition highest_term :: "int \<Rightarrow> jobj list \<Rightarrow> int" where
  "highest_term term rs = fold (\<lambda>r m. case reply_term r of None \<Rightarrow> m | Some t \<Rightarrow> max m t) rs term"

text \<open>A campaign counts a grant only when the reply's term reads as a number.\<close>

definition vote_grants :: "int \<Rightarrow> jobj list \<Rightarrow> nat" where
  "vote_grants term rs = length (filter (\<lambda>r. reply_term r \<noteq> None \<and> is_grant term r) rs)"

text \<open>
  The end of a round. The lease counts from \<open>started\<close>, read before the first RPC, and is taken only
  with a quorum of grants and while it is still running at \<open>now\<close>.
\<close>

definition take_lease :: "ha_config \<Rightarrow> py_float \<Rightarrow> py_float \<Rightarrow> nat \<Rightarrow> int \<Rightarrow> engine \<Rightarrow> engine option" where
  "take_lease cfg started now grants term e =
     (if quorum cfg \<le> grants \<and> now < started + hf_lease cfg
      then Some (write_guard cfg term (e\<lparr>en_lterm := term, en_ldeadline := started + hf_lease cfg\<rparr>))
      else None)"

definition check_eligible :: "'w ha_env \<Rightarrow> ('w, bool) ha_st" where
  "check_eligible env =
     st_bind (on_world (he_check env)) (\<lambda>(ok, reasons).
     st_bind (upd_engine (\<lambda>e. e\<lparr>en_eligible := ok, en_reasons := reasons\<rparr>)) (\<lambda>_. st_ret ok))"

definition conclude :: "ha_config \<Rightarrow> 'w ha_env \<Rightarrow> py_float \<Rightarrow> nat \<Rightarrow> int \<Rightarrow> ('w, bool) ha_st" where
  "conclude cfg env started grants term =
     st_bind (boot_clock env) (\<lambda>now.
     st_bind get_engine (\<lambda>e.
       case take_lease cfg started now grants term e of
         None \<Rightarrow> st_ret False
       | Some e1 \<Rightarrow> st_bind (upd_engine (\<lambda>_. e1)) (\<lambda>_. st_bind (set_primary cfg env) (\<lambda>_. st_ret True))))"

definition renew :: "ha_config \<Rightarrow> 'w ha_env \<Rightarrow> ('w, bool) ha_st" where
  "renew cfg env =
     st_bind (check_eligible env) (\<lambda>ok.
       if \<not> ok then st_bind (demote cfg env) (\<lambda>_. st_ret False)
       else st_bind (boot_clock env) (\<lambda>started.
         st_bind get_engine (\<lambda>e.
         st_bind (ask_voters cfg env (renew_payload cfg (en_lterm e)) (hf_voters cfg)) (\<lambda>rs.
           conclude cfg env started (grants_of (en_lterm e) rs) (en_lterm e)))))"

definition campaign :: "ha_config \<Rightarrow> 'w ha_env \<Rightarrow> int \<Rightarrow> ('w, bool) ha_st" where
  "campaign cfg env term =
     st_bind (boot_clock env) (\<lambda>started.
     st_bind (ask_voters cfg env (vote_payload cfg term) (hf_voters cfg)) (\<lambda>rs.
     st_bind (conclude cfg env started (vote_grants term rs) term) (\<lambda>won.
       if won then st_ret True
       else st_bind (upd_engine (\<lambda>e. if term < highest_term term rs then e\<lparr>en_lterm := highest_term term rs\<rparr> else e))
              (\<lambda>_. st_ret False))))"

text \<open>\<open>_higher_priority_candidate_ready\<close>\<close>

fun any_ready :: "ha_config \<Rightarrow> 'w ha_env \<Rightarrow> ha_candidate list \<Rightarrow> ('w, bool) ha_st" where
  "any_ready cfg env [] = st_ret False"
| "any_ready cfg env (c # cs) =
     (if my_priority cfg \<le> hc_priority c \<or> hc_id c = hf_node cfg then any_ready cfg env cs
      else st_bind (try_st (st_bind (ha_rpc cfg env (hc_id c) (status_payload cfg))
                       (\<lambda>r. st_ret (truthy (jget_def_to r ''eligible'' (JBool False)))))
                     (\<lambda>_. st_ret False)) (\<lambda>ready.
             if ready then st_ret True else any_ready cfg env cs))"

definition higher_priority_ready :: "ha_config \<Rightarrow> 'w ha_env \<Rightarrow> ('w, bool) ha_st" where
  "higher_priority_ready cfg env =
     (if is_ha_candidate cfg
      then any_ready cfg env (sort_key (\<lambda>c. (hc_priority c, hc_id c)) (hf_candidates cfg))
      else st_ret False)"

section \<open>The loop body\<close>

definition view_json :: "ha_config \<Rightarrow> nat \<Rightarrow> int \<Rightarrow> string \<Rightarrow> int \<Rightarrow> jobj" where
  "view_json cfg reachable mx holder hterm =
     [(''voters_reachable'', JInt (int reachable)), (''voters_total'', JInt (int (length (hf_voters cfg)))),
      (''quorum'', JInt (int (quorum cfg))), (''term'', JInt mx), (''holder'', JStr holder), (''holder_term'', JInt hterm)]"

definition demote_if_expired :: "ha_config \<Rightarrow> 'w ha_env \<Rightarrow> ('w, unit) ha_st" where
  "demote_if_expired cfg env =
     st_bind (boot_clock env) (\<lambda>now. st_bind get_engine (\<lambda>e.
       if en_ldeadline e \<le> now then demote cfg env else st_ret ()))"

text \<open>A holder of a lease that runs: step down to a higher term, or renew.\<close>

definition keep_lease :: "ha_config \<Rightarrow> 'w ha_env \<Rightarrow> int \<Rightarrow> ('w, unit) ha_st" where
  "keep_lease cfg env mx =
     st_bind get_engine (\<lambda>e.
       if en_lterm e < mx then demote cfg env
       else st_bind (renew cfg env) (\<lambda>ok. if ok then st_ret () else demote_if_expired cfg env))"

text \<open>A candidate without one: resume the lease the voters still hold for it, or campaign.\<close>

definition seek_lease :: "ha_config \<Rightarrow> 'w ha_env \<Rightarrow> nat \<Rightarrow> int \<Rightarrow> string \<Rightarrow> int \<Rightarrow> ('w, unit) ha_st" where
  "seek_lease cfg env reachable mx holder hterm =
     st_bind (check_eligible env) (\<lambda>ok.
       if \<not> ok then demote cfg env
       else if reachable < quorum cfg then demote cfg env
       else if holder = hf_node cfg \<and> 0 < hterm then
         st_bind (boot_clock env) (\<lambda>now.
         st_bind (upd_engine (\<lambda>e. e\<lparr>en_lterm := hterm, en_ldeadline := now + hf_lease cfg\<rparr>)) (\<lambda>_.
         st_bind (renew cfg env) (\<lambda>_. st_ret ())))
       else st_bind (higher_priority_ready cfg env) (\<lambda>higher.
         if higher then demote cfg env
         else st_bind (campaign cfg env (mx + 1)) (\<lambda>_. demote_if_expired cfg env)))"

definition run_body :: "ha_config \<Rightarrow> 'w ha_env \<Rightarrow> ('w, unit) ha_st" where
  "run_body cfg env =
     st_bind (ask_voters cfg env (status_payload cfg) (hf_voters cfg)) (\<lambda>rs.
       case majority_view cfg rs of
         Inl x \<Rightarrow> st_fail x
       | Inr (mx, holder, hterm) \<Rightarrow>
           st_bind (upd_engine (\<lambda>e. e\<lparr>en_view := view_json cfg (length rs) mx holder hterm\<rparr>)) (\<lambda>_.
             if holder \<noteq> [] \<and> holder \<noteq> hf_node cfg then
               st_bind (upd_engine (\<lambda>e. e\<lparr>en_lterm := max (en_lterm e) hterm\<rparr>)) (\<lambda>_. demote cfg env)
             else if \<not> is_ha_candidate cfg then st_ret ()
             else st_bind (boot_clock env) (\<lambda>now. st_bind get_engine (\<lambda>e.
               if now < en_ldeadline e then keep_lease cfg env mx
               else seek_lease cfg env (length rs) mx holder hterm))))"

definition run_loop_once :: "ha_config \<Rightarrow> 'w ha_env \<Rightarrow> ('w, unit) ha_st" where
  "run_loop_once cfg env =
     try_st (run_body cfg env) (\<lambda>x.
       st_bind (upd_engine (\<lambda>e. e\<lparr>en_error := ''loop:'' @ x\<rparr>)) (\<lambda>_. demote_if_expired cfg env))"

end
