(* ===== verification/Ha_Cluster.thy ===== *)
theory Ha_Cluster
  imports Ha_Engine
begin

text \<open>
  Many nodes running the lease agent: their engines, clocks that start at each machine's boot, the
  rounds they have open, and the steps an asynchronous network and failures allow. Two locales state the
  contracts (majorities of the voter list meet; a voter keeps a promise across requests and restarts),
  both interpreted on the engine; the cluster's safety, at most one valid guard file, rests on them.
\<close>

section \<open>Majorities\<close>

locale quorum_system =
  fixes vs :: "'v list" and q :: nat
  assumes voters_distinct: "distinct vs"
    and majority: "length vs < 2 * q"
begin

lemma quorums_meet:
  assumes "Q1 \<subseteq> set vs" "Q2 \<subseteq> set vs" "q \<le> card Q1" "q \<le> card Q2"
  shows "Q1 \<inter> Q2 \<noteq> {}"
proof
  assume "Q1 \<inter> Q2 = {}"
  moreover have "finite Q1" "finite Q2" using assms(1,2) finite_subset by blast+
  ultimately have "card (Q1 \<union> Q2) = card Q1 + card Q2" by (rule_tac card_Un_disjoint)
  moreover have "card (Q1 \<union> Q2) \<le> length vs"
    using card_mono [of "set vs" "Q1 \<union> Q2"] assms(1,2) card_length [of vs] by simp
  ultimately show False using assms(3,4) majority by linarith
qed

end

interpretation loaded: quorum_system "dedup vs" "length (dedup vs) div 2 + 1" for vs
  by unfold_locales auto

section \<open>What a voter promises\<close>

text \<open>
  \<open>committed e c D\<close>: the voter gives no other candidate a lease before \<open>D\<close>. A promise, once made, holds to
  its end whatever requests come and however often the process restarts, on a clock that may have
  been reset; a grant is a promise; a voter is promised to one candidate.
\<close>

locale lease_voter =
  fixes handle :: "py_float \<Rightarrow> 'c \<Rightarrow> 'r \<Rightarrow> 'e \<Rightarrow> 'o \<times> 'e"
    and restart :: "py_float \<Rightarrow> 'e \<Rightarrow> 'e"
    and fits :: "'c \<Rightarrow> 'r \<Rightarrow> bool"
    and who :: "'c \<Rightarrow> string"
    and is_yes :: "'r \<Rightarrow> 'o \<Rightarrow> bool"
    and sane :: "py_float \<Rightarrow> 'e \<Rightarrow> bool"
    and committed :: "'e \<Rightarrow> string \<Rightarrow> py_float \<Rightarrow> bool"
    and lease :: py_float
  assumes sane_later: "sane now e \<Longrightarrow> now \<le> now' \<Longrightarrow> sane now' e"
    and sane_handle: "sane now e \<Longrightarrow> fits c r \<Longrightarrow> sane now (snd (handle now c r e))"
    and sane_restart: "sane now e \<Longrightarrow> 0 \<le> now' \<Longrightarrow> sane now' (restart now' e)"
    and keeps: "sane now e \<Longrightarrow> fits c r \<Longrightarrow> committed e h D \<Longrightarrow> now < D \<Longrightarrow> committed (snd (handle now c r e)) h D"
    and grants: "sane now e \<Longrightarrow> fits c r \<Longrightarrow> is_yes r (fst (handle now c r e)) \<Longrightarrow>
                   committed (snd (handle now c r e)) (who c) (now + lease)"
    and restarts: "sane now e \<Longrightarrow> committed e h (now + d) \<Longrightarrow> 0 < d \<Longrightarrow> committed (restart now' e) h (now' + d)"
    and one_holder: "committed e h D \<Longrightarrow> committed e h' D' \<Longrightarrow> h = h'"
    and shorter: "committed e h D \<Longrightarrow> D' \<le> D \<Longrightarrow> committed e h D'"
begin

text \<open>A promise to one candidate refuses every other.\<close>

lemma refuses_others:
  assumes "sane now e" "fits c r" "committed e h D" "now < D" "who c \<noteq> h"
  shows "\<not> is_yes r (fst (handle now c r e))"
  using keeps [OF assms(1-4)] grants [OF assms(1,2)] one_holder assms(5) by blast

text \<open>A candidate that got a yes at \<open>now\<close> has the voter until any deadline counted from an earlier start.\<close>

lemma grant_covers:
  assumes "sane now e" "fits c r" "is_yes r (fst (handle now c r e))" "started \<le> now"
  shows "committed (snd (handle now c r e)) (who c) (started + lease)"
  using shorter [OF grants [OF assms(1-3)]] assms(4) by simp

end

section \<open>The engine keeps the contract\<close>

datatype ha_request = Vote int | Renew int

fun req_term :: "ha_request \<Rightarrow> int" where
  "req_term (Vote t) = t"
| "req_term (Renew t) = t"

fun req_payload :: "ha_config \<Rightarrow> ha_request \<Rightarrow> jobj" where
  "req_payload cfg (Vote t) = vote_payload cfg t"
| "req_payload cfg (Renew t) = renew_payload cfg t"

text \<open>The request of candidate \<open>fst c\<close>, authenticated by TEP as coming from that node with peer id \<open>snd c\<close>.\<close>

definition deliver_req :: "ha_config \<Rightarrow> py_float \<Rightarrow> ha_config \<times> string \<Rightarrow> ha_request \<Rightarrow> engine \<Rightarrow> (string + jobj) \<times> engine" where
  "deliver_req cfg now c r e =
     handle_tep cfg now
       (JObj [(''node_id'', JStr (hf_node (fst c))), (''peer_id'', JStr (snd c))])
       (JObj (req_payload (fst c) r)) e"

definition restart_engine :: "ha_config \<Rightarrow> py_float \<Rightarrow> engine \<Rightarrow> engine" where
  "restart_engine cfg now e = start_engine cfg now (en_term e) (en_voted e) (en_guard e)"

definition yes :: "ha_request \<Rightarrow> string + jobj \<Rightarrow> bool" where
  "yes r reply = (case reply of Inl _ \<Rightarrow> False | Inr o' \<Rightarrow> is_grant (req_term r) o')"

definition promised :: "ha_config \<Rightarrow> engine \<Rightarrow> string \<Rightarrow> py_float \<Rightarrow> bool" where
  "promised cfg e c D \<longleftrightarrow>
     is_voter cfg \<and> en_voted e = c \<and> c \<noteq> [] \<and> 0 < en_term e \<and>
     (en_holder e = c \<and> D \<le> en_vdeadline e \<or> D \<le> en_restart_guard e)"

definition engine_sane :: "ha_config \<Rightarrow> py_float \<Rightarrow> engine \<Rightarrow> bool" where
  "engine_sane cfg now e \<longleftrightarrow>
     0 \<le> now \<and> 0 \<le> hf_lease cfg \<and>
     en_vdeadline e \<le> now + of_int (lease_ms cfg) / 1000 \<and> en_restart_guard e \<le> now + hf_lease cfg"

definition same_lease :: "ha_config \<Rightarrow> ha_config \<times> string \<Rightarrow> ha_request \<Rightarrow> bool" where
  "same_lease cfg c r \<longleftrightarrow> hf_lease (fst c) = hf_lease cfg \<and> 1 \<le> req_term r"

lemma payload_fields [simp]:
  "jtext (vote_payload c t) ''op'' = ''vote_request''" "jtext (renew_payload c t) ''op'' = ''renew''"
  "jtext (vote_payload c t) ''cluster_id'' = hf_cluster c" "jtext (renew_payload c t) ''cluster_id'' = hf_cluster c"
  "jtext (vote_payload c t) ''candidate'' = hf_node c" "jtext (renew_payload c t) ''holder'' = hf_node c"
  "jget_def_to (vote_payload c t) ''term'' d = JInt t" "jget_def_to (renew_payload c t) ''term'' d = JInt t"
  "jget_def_to (vote_payload c t) ''lease_ms'' d = JInt (lease_ms c)"
  "jget_def_to (renew_payload c t) ''lease_ms'' d = JInt (lease_ms c)"
  by (simp_all add: vote_payload_def renew_payload_def jtext_def)

lemma op_strip [simp]:
  "py_strip ''vote_request'' = ''vote_request''" "py_strip ''renew'' = ''renew''"
  by code_simp+

text \<open>A request changes the engine only by giving its sender the lease.\<close>

definition leased :: "py_float \<Rightarrow> string \<Rightarrow> int \<Rightarrow> int \<Rightarrow> engine \<Rightarrow> engine" where
  "leased now c t ms e =
     e\<lparr>en_term := t, en_voted := c, en_holder := c, en_vdeadline := now + of_int ms / 1000\<rparr>"

lemma granted_reply [simp]: "is_grant t (granted t c ms)"
  by (simp add: is_grant_def granted_def)

lemma refused_reply [simp]: "\<not> is_grant t (denied t' x)" "\<not> is_grant t (held t' h ms x)"
  by (simp_all add: is_grant_def denied_def held_def)

lemma engine_same [simp]: "e\<lparr>en_term := en_term e\<rparr> = e" "e\<lparr>en_voted := en_voted e\<rparr> = e"
  by simp_all

definition vote_open :: "py_float \<Rightarrow> string \<Rightarrow> int \<Rightarrow> engine \<Rightarrow> bool" where
  "vote_open now c t e \<longleftrightarrow>
     \<not> (now < en_vdeadline e \<and> en_holder e \<noteq> [] \<and> en_holder e \<noteq> c) \<and> en_term e \<le> t \<and>
     (en_term e = t \<longrightarrow> en_voted e = [] \<or> en_voted e = c)"

lemma vote_request_result:
  "vote_request cfg now c c t ms e = (reply, e') \<Longrightarrow>
     e' = e \<and> \<not> yes (Vote t) reply \<or>
     0 < ms \<and> ms \<le> lease_ms cfg \<and> vote_open now c t e \<and> e' = leased now c t ms e"
  by (cases "en_term e = t"; cases "en_voted e = []"; cases "en_voted e = c")
     (auto simp: vote_request_def yes_def give_lease_def advance_def vote_open_def leased_def split: if_splits)

lemma renew_request_result:
  "renew_request cfg now c c t ms e = (reply, e') \<Longrightarrow>
     e' = e \<and> \<not> yes (Renew t) reply \<or>
     0 < ms \<and> ms \<le> lease_ms cfg \<and> t = en_term e \<and> en_voted e = c \<and> e' = leased now c t ms e"
  by (auto simp: renew_request_def yes_def give_lease_def leased_def split: if_splits)

lemma vote_source: "vote_request cfg now x c t ms e = (reply, e') \<Longrightarrow> c \<noteq> x \<Longrightarrow> e' = e \<and> reply = Inl ''identity_mismatch''"
  by (simp add: vote_request_def)

lemma renew_source: "renew_request cfg now x c t ms e = (reply, e') \<Longrightarrow> c \<noteq> x \<Longrightarrow> e' = e \<and> reply = Inl ''identity_mismatch''"
  by (simp add: renew_request_def)

lemma yes_Inl [simp]: "\<not> yes r (Inl x)"
  by (simp add: yes_def)

lemma yes_Inr [simp]: "yes r (Inr x) = is_grant (req_term r) x"
  by (simp add: yes_def)

lemma jtext_strip_node [simp]: "jtext_strip ((''node_id'', JStr n) # xs) ''node_id'' = py_strip n"
  by (simp add: jtext_strip_def jtext_def)

lemma op_strip_text [simp]:
  "jtext_strip (vote_payload c t) ''op'' = ''vote_request''" "jtext_strip (renew_payload c t) ''op'' = ''renew''"
  by (simp_all add: jtext_strip_def)

text \<open>A request from candidate \<open>c\<close> either is refused with the engine unchanged, or reaches the voting code.\<close>

definition refused :: "ha_request \<Rightarrow> engine \<Rightarrow> (string + jobj) \<times> engine \<Rightarrow> bool" where
  "refused r e res \<longleftrightarrow> snd res = e \<and> \<not> yes r (fst res)"

lemma refusedI: "\<not> yes r x \<Longrightarrow> refused r e (x, e)"
  by (simp add: refused_def)

lemma base_vote:
  "jtext_strip src ''node_id'' = n \<Longrightarrow>
     refused (Vote t) e (handle_base cfg now src (vote_payload c t) e) \<or>
     n \<noteq> [] \<and> is_voter cfg \<and>
     handle_base cfg now src (vote_payload c t) e = vote_request cfg now n (hf_node c) t (lease_ms c) e"
  by (simp add: handle_base_def Let_def with_ints_def refused_def)

lemma base_renew:
  "jtext_strip src ''node_id'' = n \<Longrightarrow>
     refused (Renew t) e (handle_base cfg now src (renew_payload c t) e) \<or>
     n \<noteq> [] \<and> is_voter cfg \<and>
     handle_base cfg now src (renew_payload c t) e = renew_request cfg now n (hf_node c) t (lease_ms c) e"
  by (simp add: handle_base_def Let_def with_ints_def refused_def)

lemma deliver_vote_base:
  "deliver_req cfg now c (Vote t) e =
     (if is_voter cfg \<and> now < en_restart_guard e \<and> en_voted e \<noteq> [] \<and>
         py_strip (hf_node (fst c)) \<noteq> [] \<and> py_strip (hf_node (fst c)) \<noteq> en_voted e
      then (Inr (held (en_term e) (en_voted e) (remaining_ms (en_restart_guard e) now) ''restart_lease_guard''), e)
      else handle_base cfg now [(''node_id'', JStr (hf_node (fst c))), (''peer_id'', JStr (snd c))] (vote_payload (fst c) t) e)"
  by (simp add: deliver_req_def handle_tep_def Let_def)

lemma deliver_renew_base:
  "deliver_req cfg now c (Renew t) e =
     handle_base cfg now [(''node_id'', JStr (hf_node (fst c))), (''peer_id'', JStr (snd c))] (renew_payload (fst c) t) e"
  by (simp add: deliver_req_def handle_tep_def Let_def)

lemma vote_request_cases:
  "refused (Vote t) e (vote_request cfg now n c t ms e) \<or>
     n = c \<and> 0 < ms \<and> ms \<le> lease_ms cfg \<and> vote_open now c t e \<and> snd (vote_request cfg now n c t ms e) = leased now c t ms e"
proof (cases "n = c")
  case True
  then show ?thesis
    using vote_request_result [of cfg now c t ms e "fst (vote_request cfg now c c t ms e)" "snd (vote_request cfg now c c t ms e)"]
    by (auto simp: refused_def)
next
  case False
  then show ?thesis by (simp add: refused_def vote_request_def)
qed

lemma renew_request_cases:
  "refused (Renew t) e (renew_request cfg now n c t ms e) \<or>
     n = c \<and> 0 < ms \<and> ms \<le> lease_ms cfg \<and> t = en_term e \<and> en_voted e = c \<and>
     snd (renew_request cfg now n c t ms e) = leased now c t ms e"
proof (cases "n = c")
  case True
  then show ?thesis
    using renew_request_result [of cfg now c t ms e "fst (renew_request cfg now c c t ms e)" "snd (renew_request cfg now c c t ms e)"]
    by (auto simp: refused_def)
next
  case False
  then show ?thesis by (simp add: refused_def renew_request_def)
qed

lemma deliver_vote:
  "refused (Vote t) e (deliver_req cfg now c (Vote t) e) \<or>
     is_voter cfg \<and> hf_node (fst c) \<noteq> [] \<and> 0 < lease_ms (fst c) \<and>
     \<not> (now < en_restart_guard e \<and> en_voted e \<noteq> [] \<and> en_voted e \<noteq> hf_node (fst c)) \<and>
     vote_open now (hf_node (fst c)) t e \<and>
     snd (deliver_req cfg now c (Vote t) e) = leased now (hf_node (fst c)) t (lease_ms (fst c)) e"
proof (cases "is_voter cfg \<and> now < en_restart_guard e \<and> en_voted e \<noteq> [] \<and>
         py_strip (hf_node (fst c)) \<noteq> [] \<and> py_strip (hf_node (fst c)) \<noteq> en_voted e")
  case True
  then show ?thesis by (simp add: deliver_vote_base refused_def)
next
  case False
  let ?src = "[(''node_id'', JStr (hf_node (fst c))), (''peer_id'', JStr (snd c))]"
  have d: "deliver_req cfg now c (Vote t) e = handle_base cfg now ?src (vote_payload (fst c) t) e"
    unfolding deliver_vote_base by (rule if_not_P [OF False])
  show ?thesis
  proof (cases "refused (Vote t) e (handle_base cfg now ?src (vote_payload (fst c) t) e)")
    case True
    then show ?thesis by (simp add: d)
  next
    case nr: False
    let ?n = "py_strip (hf_node (fst c))"
    have h: "?n \<noteq> []" "is_voter cfg"
      "handle_base cfg now ?src (vote_payload (fst c) t) e = vote_request cfg now ?n (hf_node (fst c)) t (lease_ms (fst c)) e"
      using base_vote [of ?src ?n t e cfg now "fst c"] nr by simp_all
    from vote_request_cases [of t e cfg now ?n "hf_node (fst c)" "lease_ms (fst c)"] nr
    have r: "?n = hf_node (fst c) \<and> 0 < lease_ms (fst c) \<and> vote_open now (hf_node (fst c)) t e \<and>
      snd (vote_request cfg now ?n (hf_node (fst c)) t (lease_ms (fst c)) e)
        = leased now (hf_node (fst c)) t (lease_ms (fst c)) e"
      unfolding h(3) by blast
    then have v: "snd (deliver_req cfg now c (Vote t) e) = leased now (hf_node (fst c)) t (lease_ms (fst c)) e"
      unfolding d h(3) by blast
    have "?n = hf_node (fst c)" "0 < lease_ms (fst c)" "vote_open now (hf_node (fst c)) t e"
      using r by (blast+)
    with v h False show ?thesis by auto
  qed
qed

lemma deliver_renew:
  "refused (Renew t) e (deliver_req cfg now c (Renew t) e) \<or>
     is_voter cfg \<and> hf_node (fst c) \<noteq> [] \<and> 0 < lease_ms (fst c) \<and> t = en_term e \<and> en_voted e = hf_node (fst c) \<and>
     snd (deliver_req cfg now c (Renew t) e) = leased now (hf_node (fst c)) t (lease_ms (fst c)) e"
proof -
  let ?src = "[(''node_id'', JStr (hf_node (fst c))), (''peer_id'', JStr (snd c))]"
  let ?n = "py_strip (hf_node (fst c))"
  have "refused (Renew t) e (handle_base cfg now ?src (renew_payload (fst c) t) e) \<or>
     ?n \<noteq> [] \<and> is_voter cfg \<and>
     handle_base cfg now ?src (renew_payload (fst c) t) e = renew_request cfg now ?n (hf_node (fst c)) t (lease_ms (fst c)) e"
    by (rule base_renew) simp
  then show ?thesis
    using renew_request_cases [of t e cfg now ?n "hf_node (fst c)" "lease_ms (fst c)"]
    by (auto simp: deliver_renew_base)
qed

lemma deliver_cases:
  "refused r e (deliver_req cfg now c r e) \<or>
     is_voter cfg \<and> hf_node (fst c) \<noteq> [] \<and> 0 < lease_ms (fst c) \<and>
     (en_voted e = hf_node (fst c) \<or> \<not> (now < en_restart_guard e \<and> en_voted e \<noteq> []) \<and>
        \<not> (now < en_vdeadline e \<and> en_holder e = en_voted e \<and> en_voted e \<noteq> [])) \<and>
     snd (deliver_req cfg now c r e) = leased now (hf_node (fst c)) (req_term r) (lease_ms (fst c)) e"
proof (cases r)
  case (Vote t)
  then show ?thesis using deliver_vote [of t e cfg now c] by (auto simp: vote_open_def)
next
  case (Renew t)
  then show ?thesis using deliver_renew [of t e cfg now c] by auto
qed

lemma lease_ms_same: "hf_lease a = hf_lease b \<Longrightarrow> lease_ms a = lease_ms b"
  by (simp add: lease_ms_def)

lemma lease_ms_le: "0 \<le> hf_lease cfg \<Longrightarrow> of_int (lease_ms cfg) / 1000 \<le> hf_lease cfg"
  using py_trunc_nonneg [of "hf_lease cfg * 1000"] by (simp add: lease_ms_def)

interpretation engine: lease_voter "deliver_req cfg" "restart_engine cfg" "same_lease cfg" "\<lambda>c. hf_node (fst c)"
    yes "engine_sane cfg" "promised cfg" "of_int (lease_ms cfg) / 1000" for cfg
proof unfold_locales
  fix now now' :: py_float and e :: engine and c :: "ha_config \<times> string" and r h h' D D' d
  show "engine_sane cfg now e \<Longrightarrow> now \<le> now' \<Longrightarrow> engine_sane cfg now' e"
    by (auto simp: engine_sane_def)
  show "engine_sane cfg now e \<Longrightarrow> same_lease cfg c r \<Longrightarrow> engine_sane cfg now (snd (deliver_req cfg now c r e))"
    using deliver_cases [of r e cfg now c]
    by (auto simp: engine_sane_def leased_def same_lease_def refused_def dest!: lease_ms_same)
  show "engine_sane cfg now e \<Longrightarrow> 0 \<le> now' \<Longrightarrow> engine_sane cfg now' (restart_engine cfg now' e)"
    using lease_ms_le [of cfg] py_trunc_nonneg [of "hf_lease cfg * 1000"]
    by (auto simp: engine_sane_def restart_engine_def start_engine_def lease_ms_def)
  show "engine_sane cfg now e \<Longrightarrow> same_lease cfg c r \<Longrightarrow> promised cfg e h D \<Longrightarrow> now < D \<Longrightarrow>
        promised cfg (snd (deliver_req cfg now c r e)) h D"
    using deliver_cases [of r e cfg now c]
    by (auto simp: promised_def engine_sane_def leased_def same_lease_def refused_def dest!: lease_ms_same)
  show "engine_sane cfg now e \<Longrightarrow> same_lease cfg c r \<Longrightarrow> yes r (fst (deliver_req cfg now c r e)) \<Longrightarrow>
        promised cfg (snd (deliver_req cfg now c r e)) (hf_node (fst c)) (now + of_int (lease_ms cfg) / 1000)"
    using deliver_cases [of r e cfg now c]
    by (auto simp: promised_def leased_def same_lease_def refused_def dest!: lease_ms_same)
  show "engine_sane cfg now e \<Longrightarrow> promised cfg e h (now + d) \<Longrightarrow> 0 < d \<Longrightarrow> promised cfg (restart_engine cfg now' e) h (now' + d)"
    using lease_ms_le [of cfg]
    by (auto simp: promised_def engine_sane_def restart_engine_def start_engine_def)
  show "promised cfg e h D \<Longrightarrow> promised cfg e h' D' \<Longrightarrow> h = h'"
    by (simp add: promised_def)
  show "promised cfg e h D \<Longrightarrow> D' \<le> D \<Longrightarrow> promised cfg e h D'"
    by (auto simp: promised_def)
qed

section \<open>The cluster\<close>

record ha_round =
  rd_req :: ha_request
  rd_started :: py_float
  rd_granted :: "string list"

text \<open>\<open>cl_boot n\<close> is the instant machine \<open>n\<close> booted, its \<open>boot_seconds()\<close> is the time since.\<close>

record cluster =
  cl_now :: py_float
  cl_boot :: "string \<Rightarrow> py_float"
  cl_eng :: "string \<Rightarrow> engine"
  cl_round :: "string \<Rightarrow> ha_round option"

definition local_now :: "cluster \<Rightarrow> string \<Rightarrow> py_float" where
  "local_now s n = cl_now s - cl_boot s n"

definition set_eng :: "string \<Rightarrow> engine \<Rightarrow> cluster \<Rightarrow> cluster" where
  "set_eng n e s = s\<lparr>cl_eng := (cl_eng s)(n := e)\<rparr>"

definition set_round :: "string \<Rightarrow> ha_round option \<Rightarrow> cluster \<Rightarrow> cluster" where
  "set_round n r s = s\<lparr>cl_round := (cl_round s)(n := r)\<rparr>"

text \<open>The voters of a request that count once, in the round that is open for it.\<close>

definition note_grant :: "string \<Rightarrow> string \<Rightarrow> ha_request \<Rightarrow> cluster \<Rightarrow> cluster" where
  "note_grant v c r s =
     (case cl_round s c of
        Some rd \<Rightarrow> if rd_req rd = r \<and> v \<notin> set (rd_granted rd)
                   then set_round c (Some (rd\<lparr>rd_granted := v # rd_granted rd\<rparr>)) s else s
      | None \<Rightarrow> s)"

text \<open>
  The steps. A request of candidate \<open>c\<close> reaches a voter at any time and any number of times, also
  long after its round ended; the reply may be lost (\<open>heard\<close> is false). Terms of requests are positive, as
  \<open>max_term + 1\<close> and the terms a node has led are. A round ends in \<open>take_lease\<close> or without; a node may
  drop its lease, resume the one a majority still reports for it, have its process restarted, or reboot,
  which resets its clock and empties \<open>/run\<close>, where the guard file is.
\<close>

inductive cl_step :: "(string \<Rightarrow> ha_config) \<Rightarrow> cluster \<Rightarrow> cluster \<Rightarrow> bool" for cfg where
  cl_tick: "0 \<le> d \<Longrightarrow> cl_step cfg s (s\<lparr>cl_now := cl_now s + d\<rparr>)"
| cl_open: "1 \<le> req_term r \<Longrightarrow>
    cl_step cfg s (set_round c (Some \<lparr>rd_req = r, rd_started = local_now s c, rd_granted = []\<rparr>) s)"
| cl_deliver: "1 \<le> req_term r \<Longrightarrow> v \<in> set (hf_voters (cfg c)) \<Longrightarrow>
    deliver_req (cfg v) (local_now s v) (cfg c, peer) r (cl_eng s v) = (reply, e) \<Longrightarrow>
    cl_step cfg s (if heard \<and> yes r reply then note_grant v c r (set_eng v e s) else set_eng v e s)"
| cl_conclude: "cl_round s c = Some rd \<Longrightarrow>
    take_lease (cfg c) (rd_started rd) (local_now s c) (length (rd_granted rd)) (req_term (rd_req rd)) (cl_eng s c) = Some e \<Longrightarrow>
    cl_step cfg s (set_round c None (set_eng c e s))"
| cl_give_up: "cl_step cfg s (set_round c None s)"
| cl_drop: "cl_step cfg s (set_eng c (drop_lease (cl_eng s c)) s)"
| cl_resume: "cl_step cfg s
    (set_eng c ((cl_eng s c)\<lparr>en_lterm := t, en_ldeadline := local_now s c + hf_lease (cfg c)\<rparr>) s)"
| cl_restart: "cl_step cfg s
    (set_round n None (set_eng n (restart_engine (cfg n) (local_now s n) (cl_eng s n)) s))"
| cl_reboot: "cl_step cfg s
    (set_round n None (set_eng n ((restart_engine (cfg n) 0 (cl_eng s n))\<lparr>en_guard := None\<rparr>)
       (s\<lparr>cl_boot := (cl_boot s)(n := cl_now s)\<rparr>)))"

text \<open>A fresh cluster: no votes, no guard files.\<close>

definition cl_init :: "(string \<Rightarrow> ha_config) \<Rightarrow> py_float \<Rightarrow> (string \<Rightarrow> py_float) \<Rightarrow> cluster" where
  "cl_init cfg t boot =
     \<lparr>cl_now = t, cl_boot = boot, cl_eng = (\<lambda>n. start_engine (cfg n) (t - boot n) 0 [] None), cl_round = (\<lambda>_. None)\<rparr>"

inductive cl_reach :: "(string \<Rightarrow> ha_config) \<Rightarrow> cluster \<Rightarrow> bool" for cfg where
  cl_start: "(\<And>n. boot n \<le> t) \<Longrightarrow> cl_reach cfg (cl_init cfg t boot)"
| cl_next: "cl_reach cfg s \<Longrightarrow> cl_step cfg s s' \<Longrightarrow> cl_reach cfg s'"

text \<open>
  One configuration: each node is configured under its own name, with the same voters and lease, and
  the lease is a whole number of milliseconds.
\<close>

definition one_config :: "(string \<Rightarrow> ha_config) \<Rightarrow> string list \<Rightarrow> py_float \<Rightarrow> bool" where
  "one_config cfg vs lease \<longleftrightarrow>
     distinct vs \<and> 0 < lease \<and> of_int (py_trunc (lease * 1000)) = lease * 1000 \<and>
     (\<forall>n. hf_node (cfg n) = n \<and> hf_voters (cfg n) = vs \<and> hf_lease (cfg n) = lease)"

section \<open>Its invariant\<close>

definition pledged :: "(string \<Rightarrow> ha_config) \<Rightarrow> cluster \<Rightarrow> string \<Rightarrow> string \<Rightarrow> py_float \<Rightarrow> bool" where
  "pledged cfg s v c D \<longleftrightarrow> (cl_now s < D \<longrightarrow> promised (cfg v) (cl_eng s v) c (D - cl_boot s v))"

text \<open>Every open round's grants are pledged until the lease it may take; every guard file has a quorum behind it.\<close>

definition rounds_pledged :: "(string \<Rightarrow> ha_config) \<Rightarrow> string list \<Rightarrow> py_float \<Rightarrow> cluster \<Rightarrow> bool" where
  "rounds_pledged cfg vs lease s \<longleftrightarrow>
     (\<forall>c rd. cl_round s c = Some rd \<longrightarrow>
        rd_started rd \<le> local_now s c \<and> distinct (rd_granted rd) \<and> set (rd_granted rd) \<subseteq> set vs \<and>
        (\<forall>v \<in> set (rd_granted rd). pledged cfg s v c (rd_started rd + cl_boot s c + lease)))"

definition guards_pledged :: "(string \<Rightarrow> ha_config) \<Rightarrow> string list \<Rightarrow> cluster \<Rightarrow> bool" where
  "guards_pledged cfg vs s \<longleftrightarrow>
     (\<forall>c g. en_guard (cl_eng s c) = Some g \<longrightarrow>
        (\<exists>Q \<subseteq> set vs. length vs div 2 + 1 \<le> card Q \<and> (\<forall>v \<in> Q. pledged cfg s v c (gf_deadline g + cl_boot s c))))"

definition cl_inv :: "(string \<Rightarrow> ha_config) \<Rightarrow> string list \<Rightarrow> py_float \<Rightarrow> cluster \<Rightarrow> bool" where
  "cl_inv cfg vs lease s \<longleftrightarrow>
     (\<forall>n. engine_sane (cfg n) (local_now s n) (cl_eng s n)) \<and> rounds_pledged cfg vs lease s \<and> guards_pledged cfg vs s"

text \<open>A step that keeps every pledge, every boot instant and the old rounds and guards keeps the invariant.\<close>

lemma pledges_kept:
  assumes "rounds_pledged cfg vs lease s" "guards_pledged cfg vs s"
    and "\<And>v c D. pledged cfg s v c D \<Longrightarrow> pledged cfg s' v c D"
    and "\<And>c. cl_round s' c \<noteq> None \<or> en_guard (cl_eng s' c) \<noteq> None \<Longrightarrow> cl_boot s' c = cl_boot s c"
    and "\<And>c rd. cl_round s' c = Some rd \<Longrightarrow> cl_round s c = Some rd"
    and "\<And>c g. en_guard (cl_eng s' c) = Some g \<Longrightarrow> en_guard (cl_eng s c) = Some g"
    and "cl_now s \<le> cl_now s'"
  shows "rounds_pledged cfg vs lease s' \<and> guards_pledged cfg vs s'"
proof
  show "rounds_pledged cfg vs lease s'"
    unfolding rounds_pledged_def
  proof (intro allI impI)
    fix c rd assume r: "cl_round s' c = Some rd"
    have b: "cl_boot s' c = cl_boot s c" by (rule assms(4)) (simp add: r)
    show "rd_started rd \<le> local_now s' c \<and> distinct (rd_granted rd) \<and> set (rd_granted rd) \<subseteq> set vs \<and>
        (\<forall>v \<in> set (rd_granted rd). pledged cfg s' v c (rd_started rd + cl_boot s' c + lease))"
      using assms(1) assms(5) [OF r] assms(3,7) b unfolding rounds_pledged_def local_now_def by fastforce
  qed
  show "guards_pledged cfg vs s'"
    unfolding guards_pledged_def
  proof (intro allI impI)
    fix c g assume g: "en_guard (cl_eng s' c) = Some g"
    have b: "cl_boot s' c = cl_boot s c" by (rule assms(4)) (simp add: g)
    show "\<exists>Q\<subseteq>set vs. length vs div 2 + 1 \<le> card Q \<and> (\<forall>v\<in>Q. pledged cfg s' v c (gf_deadline g + cl_boot s' c))"
      using assms(2) assms(6) [OF g] assms(3) b unfolding guards_pledged_def by metis
  qed
qed

lemma pledged_tick: "pledged cfg s v c D \<Longrightarrow> 0 \<le> d \<Longrightarrow> pledged cfg (s\<lparr>cl_now := cl_now s + d\<rparr>) v c D"
  by (simp add: pledged_def)

lemma same_leases: "one_config cfg vs lease \<Longrightarrow> 1 \<le> req_term r \<Longrightarrow> same_lease (cfg v) (cfg c, peer) r"
  by (simp add: one_config_def same_lease_def)

lemma exact_lease: "one_config cfg vs lease \<Longrightarrow> of_int (lease_ms (cfg n)) / 1000 = lease"
  by (simp add: one_config_def lease_ms_def)

lemma set_eng_simps [simp]:
  "cl_now (set_eng n e s) = cl_now s" "cl_boot (set_eng n e s) = cl_boot s" "cl_round (set_eng n e s) = cl_round s"
  "cl_eng (set_eng n e s) m = (if m = n then e else cl_eng s m)" "local_now (set_eng n e s) m = local_now s m"
  by (simp_all add: set_eng_def local_now_def)

lemma set_round_simps [simp]:
  "cl_now (set_round n r s) = cl_now s" "cl_boot (set_round n r s) = cl_boot s" "cl_eng (set_round n r s) = cl_eng s"
  "cl_round (set_round n r s) m = (if m = n then r else cl_round s m)" "local_now (set_round n r s) m = local_now s m"
  by (simp_all add: set_round_def local_now_def)

lemma pledged_set_round [simp]: "pledged cfg (set_round n r s) = pledged cfg s"
  by (intro ext) (simp add: pledged_def)

lemma pledged_deliver:
  assumes "one_config cfg vs lease" "1 \<le> req_term r" "engine_sane (cfg v) (local_now s v) (cl_eng s v)"
    and "deliver_req (cfg v) (local_now s v) (cfg c, peer) r (cl_eng s v) = (reply, e)" "pledged cfg s w h D"
  shows "pledged cfg (set_eng v e s) w h D"
proof -
  have "promised (cfg v) e h (D - cl_boot s v)"
    if "promised (cfg v) (cl_eng s v) h (D - cl_boot s v)" "cl_now s < D"
  proof -
    have "local_now s v < D - cl_boot s v" using that(2) by (simp add: local_now_def)
    then show ?thesis
      using engine.keeps [where c = "(cfg c, peer)", OF assms(3) same_leases [OF assms(1,2)] that(1)] assms(4) by simp
  qed
  then show ?thesis using assms(5) by (auto simp: pledged_def)
qed

lemma pledged_restart:
  assumes "engine_sane (cfg n) (local_now s n) (cl_eng s n)" "pledged cfg s v c D"
  shows "pledged cfg (set_eng n ((restart_engine (cfg n) now' (cl_eng s n))\<lparr>en_guard := g\<rparr>)
           (s\<lparr>cl_boot := (cl_boot s)(n := cl_now s - now')\<rparr>)) v c D"
proof (cases "v = n \<and> cl_now s < D")
  case True
  then have "promised (cfg n) (cl_eng s n) c (local_now s n + (D - cl_now s))"
    using assms(2) by (simp add: pledged_def local_now_def)
  from engine.restarts [OF assms(1) this, of now'] True
  have "promised (cfg n) (restart_engine (cfg n) now' (cl_eng s n)) c (now' + (D - cl_now s))" by simp
  then show ?thesis using True by (simp add: pledged_def promised_def algebra_simps)
next
  case False
  then show ?thesis using assms(2) by (auto simp: pledged_def)
qed

lemma restart_in_place:
  "set_eng n (restart_engine (cfg n) (local_now s n) (cl_eng s n)) s =
   set_eng n ((restart_engine (cfg n) (local_now s n) (cl_eng s n))\<lparr>en_guard := en_guard (cl_eng s n)\<rparr>)
     (s\<lparr>cl_boot := (cl_boot s)(n := cl_now s - local_now s n)\<rparr>)"
  by (simp add: local_now_def restart_engine_def start_engine_def)

lemma restart_guard_file [simp]: "en_guard (restart_engine cfg now e) = en_guard e"
  by (simp add: restart_engine_def start_engine_def)

lemma deliver_guard_file: "deliver_req cfg now c r e = (reply, e') \<Longrightarrow> en_guard e' = en_guard e"
  using deliver_cases [of r e cfg now c] by (auto simp: refused_def leased_def)

lemma take_lease_guard:
  "take_lease cfg started now n t e = Some e' \<Longrightarrow>
     quorum cfg \<le> n \<and> en_vdeadline e' = en_vdeadline e \<and> en_restart_guard e' = en_restart_guard e \<and>
     en_voted e' = en_voted e \<and> en_holder e' = en_holder e \<and> en_term e' = en_term e \<and>
     (en_guard e' = en_guard e \<or>
      en_guard e' = Some \<lparr>gf_cluster = hf_cluster cfg, gf_holder = hf_node cfg, gf_term = t,
                          gf_deadline = started + hf_lease cfg\<rparr>)"
  by (auto simp: take_lease_def write_guard_def split: if_splits)

text \<open>Changes of an engine that leave its vote alone leave its pledges alone.\<close>

definition same_vote :: "engine \<Rightarrow> engine \<Rightarrow> bool" where
  "same_vote e e' \<longleftrightarrow> en_vdeadline e' = en_vdeadline e \<and> en_restart_guard e' = en_restart_guard e \<and>
     en_voted e' = en_voted e \<and> en_holder e' = en_holder e \<and> en_term e' = en_term e"

lemma pledged_same_vote: "same_vote (cl_eng s n) e \<Longrightarrow> pledged cfg (set_eng n e s) = pledged cfg s"
  by (intro ext) (auto simp: pledged_def promised_def same_vote_def)

lemma sane_same_vote: "same_vote e e' \<Longrightarrow> engine_sane cfg now e' = engine_sane cfg now e"
  by (simp add: engine_sane_def same_vote_def)

lemma sane_all: "cl_inv cfg vs lease s \<Longrightarrow> engine_sane (cfg n) (local_now s n) (cl_eng s n)"
  by (simp add: cl_inv_def)

lemma inv_same_vote:
  assumes "cl_inv cfg vs lease s" "same_vote (cl_eng s n) e" "en_guard e = None \<or> en_guard e = en_guard (cl_eng s n)"
  shows "cl_inv cfg vs lease (set_eng n e s)"
proof -
  have "rounds_pledged cfg vs lease (set_eng n e s) \<and> guards_pledged cfg vs (set_eng n e s)"
    by (rule pledges_kept [where s = s])
      (use assms in \<open>auto simp: cl_inv_def pledged_same_vote split: if_splits\<close>)
  then show ?thesis
    using assms sane_same_vote [OF assms(2)] by (auto simp: cl_inv_def)
qed

lemma inv_close: "cl_inv cfg vs lease s \<Longrightarrow> cl_inv cfg vs lease (set_round c None s)"
  by (auto simp: cl_inv_def rounds_pledged_def guards_pledged_def)

lemma inv_tick:
  assumes "cl_inv cfg vs lease s" "0 \<le> d"
  shows "cl_inv cfg vs lease (s\<lparr>cl_now := cl_now s + d\<rparr>)"
proof -
  let ?s = "s\<lparr>cl_now := cl_now s + d\<rparr>"
  have "rounds_pledged cfg vs lease ?s \<and> guards_pledged cfg vs ?s"
    by (rule pledges_kept [where s = s]) (use assms in \<open>auto simp: cl_inv_def pledged_tick\<close>)
  moreover have "engine_sane (cfg n) (local_now ?s n) (cl_eng ?s n)" for n
    using engine.sane_later [OF sane_all [OF assms(1)], where now' = "local_now ?s n"] assms(2) by (simp add: local_now_def)
  ultimately show ?thesis by (simp add: cl_inv_def)
qed

lemma inv_open:
  assumes "cl_inv cfg vs lease s"
  shows "cl_inv cfg vs lease (set_round c (Some \<lparr>rd_req = r, rd_started = local_now s c, rd_granted = []\<rparr>) s)"
  using assms by (auto simp: cl_inv_def rounds_pledged_def guards_pledged_def)

lemma inv_deliver:
  assumes "one_config cfg vs lease" "1 \<le> req_term r" "cl_inv cfg vs lease s"
    and d: "deliver_req (cfg v) (local_now s v) (cfg c, peer) r (cl_eng s v) = (reply, e)"
  shows "cl_inv cfg vs lease (set_eng v e s)"
proof -
  note sane = sane_all [OF assms(3)]
  have "rounds_pledged cfg vs lease (set_eng v e s) \<and> guards_pledged cfg vs (set_eng v e s)"
    by (rule pledges_kept [where s = s])
      (use assms pledged_deliver [OF assms(1,2) sane d] deliver_guard_file [OF d] in \<open>auto simp: cl_inv_def split: if_splits\<close>)
  moreover have "engine_sane (cfg v) (local_now s v) e"
    using engine.sane_handle [where c = "(cfg c, peer)", OF sane same_leases [OF assms(1,2)]] d by (metis snd_conv)
  ultimately show ?thesis using sane by (simp add: cl_inv_def)
qed

lemma inv_note:
  assumes "one_config cfg vs lease" "1 \<le> req_term r" "cl_inv cfg vs lease s" "v \<in> set vs"
    and d: "deliver_req (cfg v) (local_now s v) (cfg c, peer) r (cl_eng s v) = (reply, e)" and "yes r reply"
  shows "cl_inv cfg vs lease (note_grant v c r (set_eng v e s))"
proof (cases "cl_round s c")
  case None
  then show ?thesis using inv_deliver [OF assms(1,2,3) d] by (simp add: note_grant_def)
next
  case (Some rd)
  let ?s = "set_eng v e s"
  have inv: "cl_inv cfg vs lease ?s" by (rule inv_deliver [OF assms(1,2,3) d])
  have st: "rd_started rd \<le> local_now s c" using assms(3) Some by (auto simp: cl_inv_def rounds_pledged_def)
  have "promised (cfg v) (snd (deliver_req (cfg v) (local_now s v) (cfg c, peer) r (cl_eng s v)))
          (hf_node (fst (cfg c, peer))) (local_now s v + of_int (lease_ms (cfg v)) / 1000)"
    by (rule engine.grants [OF sane_all [OF assms(3)] same_leases [OF assms(1,2)]]) (simp add: d assms(6))
  then have "promised (cfg v) e c (local_now s v + lease)"
    using assms(1) exact_lease [OF assms(1), of v] by (simp only: d snd_conv fst_conv one_config_def)
  then have "promised (cfg v) e c (rd_started rd + cl_boot s c + lease - cl_boot s v)"
    by (rule engine.shorter) (use st in \<open>simp add: local_now_def\<close>)
  then have p: "pledged cfg ?s v c (rd_started rd + cl_boot s c + lease)" by (simp add: pledged_def)
  show ?thesis
  proof (cases "rd_req rd = r \<and> v \<notin> set (rd_granted rd)")
    case True
    then show ?thesis
      using inv p st Some assms(4)
      by (auto simp: note_grant_def cl_inv_def rounds_pledged_def guards_pledged_def split: if_splits)
  next
    case False
    then show ?thesis using inv Some by (auto simp: note_grant_def)
  qed
qed

lemma inv_conclude:
  assumes "one_config cfg vs lease" "cl_inv cfg vs lease s" "cl_round s c = Some rd"
    and t: "take_lease (cfg c) (rd_started rd) (local_now s c) (length (rd_granted rd)) (req_term (rd_req rd)) (cl_eng s c) = Some e"
  shows "cl_inv cfg vs lease (set_eng c e s)"
proof -
  have sv: "same_vote (cl_eng s c) e" using take_lease_guard [OF t] by (simp add: same_vote_def)
  have r: "distinct (rd_granted rd)" "set (rd_granted rd) \<subseteq> set vs"
    "\<And>v. v \<in> set (rd_granted rd) \<Longrightarrow> pledged cfg s v c (rd_started rd + cl_boot s c + lease)"
    using assms(2,3) by (auto simp: cl_inv_def rounds_pledged_def)
  have q: "length vs div 2 + 1 \<le> card (set (rd_granted rd))"
    using take_lease_guard [OF t] assms(1) distinct_card [OF r(1)] by (simp add: one_config_def quorum_def)
  have "guards_pledged cfg vs (set_eng c e s)"
    unfolding guards_pledged_def
  proof (intro allI impI)
    fix n g assume g: "en_guard (cl_eng (set_eng c e s) n) = Some g"
    show "\<exists>Q\<subseteq>set vs. length vs div 2 + 1 \<le> card Q \<and>
       (\<forall>v\<in>Q. pledged cfg (set_eng c e s) v n (gf_deadline g + cl_boot (set_eng c e s) n))"
    proof (cases "en_guard (cl_eng s n) = Some g")
      case True
      then show ?thesis using assms(2) by (simp add: cl_inv_def guards_pledged_def pledged_same_vote [OF sv])
    next
      case False
      then have "n = c" "gf_deadline g = rd_started rd + lease"
        using g take_lease_guard [OF t] assms(1) by (auto simp: one_config_def split: if_splits)
      then show ?thesis
        by (intro exI [of _ "set (rd_granted rd)"]) (use r q in \<open>simp add: pledged_same_vote [OF sv] algebra_simps\<close>)
    qed
  qed
  moreover have "rounds_pledged cfg vs lease (set_eng c e s)"
    using assms(2) by (simp add: cl_inv_def rounds_pledged_def pledged_same_vote [OF sv])
  ultimately show ?thesis using assms(2) sane_same_vote [OF sv] by (auto simp: cl_inv_def)
qed

lemma inv_restart:
  assumes "cl_inv cfg vs lease s" "0 \<le> now'" "g = None \<or> g = en_guard (cl_eng s n) \<and> now' = local_now s n"
  shows "cl_inv cfg vs lease (set_round n None
           (set_eng n ((restart_engine (cfg n) now' (cl_eng s n))\<lparr>en_guard := g\<rparr>)
              (s\<lparr>cl_boot := (cl_boot s)(n := cl_now s - now')\<rparr>)))" (is "cl_inv _ _ _ ?s")
proof -
  have "rounds_pledged cfg vs lease ?s \<and> guards_pledged cfg vs ?s"
    by (rule pledges_kept [where s = s])
      (use assms pledged_restart [where cfg = cfg and n = n, OF sane_all [OF assms(1)]] in \<open>auto simp: cl_inv_def local_now_def split: if_splits\<close>)
  moreover have "engine_sane (cfg n) now' ((restart_engine (cfg n) now' (cl_eng s n))\<lparr>en_guard := g\<rparr>)"
    using engine.sane_restart [OF sane_all [OF assms(1)] assms(2)] by (simp add: engine_sane_def)
  ultimately show ?thesis
    using sane_all [OF assms(1)] by (simp add: cl_inv_def local_now_def)
qed

lemma local_now_nonneg: "cl_inv cfg vs lease s \<Longrightarrow> 0 \<le> local_now s n"
  using sane_all [of cfg vs lease s n] by (simp add: engine_sane_def)

lemma cl_inv_step:
  assumes "one_config cfg vs lease" "cl_step cfg s s'" "cl_inv cfg vs lease s"
  shows "cl_inv cfg vs lease s'"
  using assms(2,3)
proof cases
  case (cl_tick d)
  then show ?thesis using assms(3) inv_tick by blast
next
  case (cl_open r c)
  then show ?thesis using assms(3) inv_open by blast
next
  case (cl_deliver r v c peer reply e heard)
  then show ?thesis
    using inv_deliver [OF assms(1) _ assms(3)] inv_note [OF assms(1) _ assms(3)] assms(1)
    by (auto simp: one_config_def)
next
  case (cl_conclude c rd e)
  then show ?thesis using inv_conclude [OF assms(1,3)] inv_close by blast
next
  case (cl_give_up c)
  then show ?thesis using assms(3) inv_close by blast
next
  case (cl_drop c)
  then show ?thesis
    using inv_same_vote [OF assms(3), of c "drop_lease (cl_eng s c)"] by (simp add: same_vote_def drop_lease_def)
next
  case (cl_resume c t)
  then show ?thesis
    using inv_same_vote [OF assms(3), of c] by (simp add: same_vote_def)
next
  case (cl_restart n)
  then show ?thesis
    using inv_restart [OF assms(3) local_now_nonneg [OF assms(3)], of "en_guard (cl_eng s n)" n n]
    unfolding restart_in_place [symmetric] by simp
next
  case (cl_reboot n)
  then show ?thesis using inv_restart [OF assms(3), of 0 None n] by simp
qed

lemma cl_inv_init:
  assumes "one_config cfg vs lease" "\<And>n. boot n \<le> t"
  shows "cl_inv cfg vs lease (cl_init cfg t boot)"
proof -
  have "0 \<le> py_trunc (lease * 1000)" using assms(1) py_trunc_nonneg [of "lease * 1000"] by (simp add: one_config_def)
  then show ?thesis
    using assms
    by (auto simp: cl_inv_def rounds_pledged_def guards_pledged_def cl_init_def engine_sane_def start_engine_def
        local_now_def one_config_def lease_ms_def)
qed

lemma cl_inv_reach: "cl_reach cfg s \<Longrightarrow> one_config cfg vs lease \<Longrightarrow> cl_inv cfg vs lease s"
  by (induction rule: cl_reach.induct) (auto intro: cl_inv_init cl_inv_step)

section \<open>Safety\<close>

text \<open>C3: At most one primary. In every reachable state of a cluster of any size, after any interleaving of
  lost, late and repeated messages, failed rounds, process restarts and machine reboots, two nodes
  whose guard file is valid (the condition under which the watchdog leaves the primary-only services
  running) are the same node.
\<close>
theorem one_valid_guard:
  assumes "one_config cfg vs lease" "cl_reach cfg s"
    and "guard_valid (cfg a) (local_now s a) (en_guard (cl_eng s a))"
    and "guard_valid (cfg b) (local_now s b) (en_guard (cl_eng s b))"
  shows "a = b"
proof -
  have quorum_of: "\<exists>Q \<subseteq> set vs. length vs div 2 + 1 \<le> card Q \<and> (\<forall>v \<in> Q. \<exists>D. promised (cfg v) (cl_eng s v) n D)"
    if valid: "guard_valid (cfg n) (local_now s n) (en_guard (cl_eng s n))" for n
  proof -
    obtain g where g: "en_guard (cl_eng s n) = Some g" "local_now s n < gf_deadline g"
      using valid by (auto simp: guard_valid_def split: option.splits)
    then have "cl_now s < gf_deadline g + cl_boot s n" by (simp add: local_now_def)
    then show ?thesis
      using cl_inv_reach [OF assms(2,1)] g(1) unfolding cl_inv_def guards_pledged_def pledged_def by meson
  qed
  obtain Qa where a: "Qa \<subseteq> set vs" "length vs div 2 + 1 \<le> card Qa" "\<forall>v \<in> Qa. \<exists>D. promised (cfg v) (cl_eng s v) a D"
    using quorum_of [OF assms(3)] by blast
  obtain Qb where b: "Qb \<subseteq> set vs" "length vs div 2 + 1 \<le> card Qb" "\<forall>v \<in> Qb. \<exists>D. promised (cfg v) (cl_eng s v) b D"
    using quorum_of [OF assms(4)] by blast
  have dv: "dedup vs = vs" by (rule dedup_distinct) (use assms(1) in \<open>simp add: one_config_def\<close>)
  then have "Qa \<inter> Qb \<noteq> {}" using loaded.quorums_meet [of Qa vs Qb] a(1,2) b(1,2) by simp
  then show ?thesis using a(3) b(3) engine.one_holder by blast
qed

section \<open>A run\<close>

definition trio :: "string \<Rightarrow> ha_config" where
  "trio n = \<lparr>hf_cluster = ''hb'', hf_node = n, hf_roles = [''voter'', ''candidate''], hf_voters = [''a'', ''b'', ''c''],
     hf_candidates = [\<lparr>hc_id = ''a'', hc_priority = 1\<rparr>, \<lparr>hc_id = ''b'', hc_priority = 2\<rparr>, \<lparr>hc_id = ''c'', hc_priority = 3\<rparr>],
     hf_lease = 12, hf_loop = 2, hf_rpc_timeout = 5/2, hf_armed = True, hf_primary_services = [''db''],
     hf_required_services = [], hf_health_urls = [], hf_replication_file = [], hf_max_lag = 30, hf_startup_grace = 30\<rparr>"

definition trio_request :: "string \<Rightarrow> cluster \<Rightarrow> (string + jobj) \<times> engine" where
  "trio_request v s = deliver_req (trio v) (local_now s v) (trio ''a'', ''p'') (Vote 1) (cl_eng s v)"

definition trio_grant :: "string \<Rightarrow> cluster \<Rightarrow> cluster" where
  "trio_grant v s = note_grant v ''a'' (Vote 1) (set_eng v (snd (trio_request v s)) s)"

definition trio0 :: cluster where "trio0 = cl_init trio 100 (\<lambda>n. if n = ''a'' then 40 else 60)"
definition trio1 :: cluster where
  "trio1 = set_round ''a'' (Some \<lparr>rd_req = Vote 1, rd_started = local_now trio0 ''a'', rd_granted = []\<rparr>) trio0"
definition trio2 :: cluster where "trio2 = trio_grant ''a'' trio1"
definition trio3 :: cluster where "trio3 = trio_grant ''b'' trio2"
definition trio4 :: cluster where
  "trio4 = set_round ''a'' None
     (set_eng ''a'' (the (take_lease (trio ''a'') 60 (local_now trio3 ''a'') (Suc (Suc 0)) 1 (cl_eng trio3 ''a''))) trio3)"

lemma trio_config: "one_config trio [''a'', ''b'', ''c''] 12"
  using py_trunc_int [of 12000] by (simp add: one_config_def trio_def)

lemma trio_grant_step:
  "cl_reach trio s \<Longrightarrow> v \<in> {''a'', ''b'', ''c''} \<Longrightarrow> yes (Vote 1) (fst (trio_request v s)) \<Longrightarrow> cl_reach trio (trio_grant v s)"
  using cl_deliver [of "Vote 1" v trio "''a''" s "''p''" "fst (trio_request v s)" "snd (trio_request v s)" True]
  by (auto simp: trio_grant_def trio_request_def trio_def intro: cl_next)

lemma trio3_round: "cl_round trio3 ''a'' = Some \<lparr>rd_req = Vote 1, rd_started = 60, rd_granted = [''b'', ''a'']\<rparr>"
  by code_simp

lemma trio3_lease: "take_lease (trio ''a'') 60 (local_now trio3 ''a'') (Suc (Suc 0)) 1 (cl_eng trio3 ''a'') \<noteq> None"
  by code_simp

lemma trio_run: "cl_reach trio trio4"
proof -
  have r0: "cl_reach trio trio0" unfolding trio0_def by (rule cl_start) simp
  have r1: "cl_reach trio trio1" unfolding trio1_def by (rule cl_next [OF r0 cl_open]) simp
  have r2: "cl_reach trio trio2" unfolding trio2_def by (rule trio_grant_step [OF r1]) (simp, code_simp)
  have r3: "cl_reach trio trio3" unfolding trio3_def by (rule trio_grant_step [OF r2]) (simp, code_simp)
  show ?thesis
    unfolding trio4_def
    by (rule cl_next [OF r3 cl_conclude [OF trio3_round]]) (use trio3_lease in auto)
qed

lemma trio_guard: "guard_valid (trio ''a'') (local_now trio4 ''a'') (en_guard (cl_eng trio4 ''a''))"
  by code_simp

text \<open>Two of three nodes elect \<open>a\<close>; no other node can hold a valid guard then.\<close>
theorem one_valid_guard_witness:
  "{n. guard_valid (trio n) (local_now trio4 n) (en_guard (cl_eng trio4 n))} = {''a''}"
  using one_valid_guard [OF trio_config trio_run _ trio_guard] trio_guard by blast

end
