(* ===== verification/Ha_Loop.thy ===== *)
theory Ha_Loop
  imports Ha_Engine
begin

text \<open>
  What the agent does on its own: a voter's answers to arbitrary messages, the majority view, and the
  loop of a node that nobody answers.
\<close>

section \<open>Votes\<close>

text \<open>The part of the engine a request may not touch, and the part it only moves forward.\<close>

definition vote_step_ok :: "engine \<Rightarrow> engine \<Rightarrow> bool" where
  "vote_step_ok e e' \<longleftrightarrow>
     en_guard e' = en_guard e \<and> en_ldeadline e' = en_ldeadline e \<and> en_lterm e' = en_lterm e \<and>
     en_desired e' = en_desired e \<and> en_restart_guard e' = en_restart_guard e \<and> en_term e \<le> en_term e' \<and>
     (en_term e' = en_term e \<longrightarrow> en_voted e \<noteq> [] \<longrightarrow> en_voted e' = en_voted e)"

lemma vote_step_refl [simp]: "vote_step_ok e e"
  by (simp add: vote_step_ok_def)

lemma vote_request_step: "vote_step_ok e (snd (vote_request cfg now src c t ms e))"
  by (auto simp: vote_request_def vote_step_ok_def give_lease_def advance_def)

lemma renew_request_step: "vote_step_ok e (snd (renew_request cfg now src c t ms e))"
  by (auto simp: renew_request_def vote_step_ok_def give_lease_def)

lemma with_ints_step: "(\<And>t ms. vote_step_ok e (snd (f t ms e))) \<Longrightarrow> vote_step_ok e (snd (with_ints p d f e))"
  by (simp add: with_ints_def split: option.split)

lemma handle_base_step: "vote_step_ok e (snd (handle_base cfg now s p e))"
  by (simp add: handle_base_def Let_def with_ints_step vote_request_step renew_request_step)

lemma handle_tep_step: "vote_step_ok e (snd (handle_tep cfg now src payload e))"
  by (cases payload; cases src) (simp_all add: handle_tep_def Let_def handle_base_step)

text \<open>Requests from other nodes do not move a live lease.\<close>

lemma vote_request_blocked:
  assumes "now < en_vdeadline e" "en_holder e \<noteq> []" "src \<noteq> en_holder e"
  shows "vote_request cfg now src c t ms e = (fst (vote_request cfg now src c t ms e), e)"
  using assms by (auto simp: vote_request_def)

lemma renew_request_blocked:
  assumes "en_voted e = en_holder e" "src \<noteq> en_holder e"
  shows "renew_request cfg now src c t ms e = (fst (renew_request cfg now src c t ms e), e)"
  using assms by (auto simp: renew_request_def)

lemma with_ints_blocked:
  "(\<And>t ms. snd (f t ms e) = e) \<Longrightarrow> snd (with_ints p d f e) = e"
  by (simp add: with_ints_def split: option.split)

lemma handle_base_blocked:
  assumes "now < en_vdeadline e" "en_holder e \<noteq> []" "en_voted e = en_holder e" "jtext_strip s ''node_id'' \<noteq> en_holder e"
  shows "snd (handle_base cfg now s p e) = e"
proof -
  have v: "snd (vote_request cfg now (jtext_strip s ''node_id'') c t ms e) = e" for c t ms
    using vote_request_blocked [OF assms(1,2,4)] by (metis snd_conv)
  have r: "snd (renew_request cfg now (jtext_strip s ''node_id'') c t ms e) = e" for c t ms
    using renew_request_blocked [OF assms(3,4)] by (metis snd_conv)
  show ?thesis by (simp add: handle_base_def Let_def with_ints_blocked v r)
qed

lemma handle_tep_blocked:
  assumes "now < en_vdeadline e" "en_holder e \<noteq> []" "en_voted e = en_holder e" "jtext_strip s ''node_id'' \<noteq> en_holder e"
  shows "snd (handle_tep cfg now (JObj s) payload e) = e"
  using handle_base_blocked [OF assms] by (cases payload) (simp_all add: handle_tep_def Let_def)

section \<open>The majority view\<close>

definition backs :: "int \<Rightarrow> string \<Rightarrow> jobj \<Rightarrow> bool" where
  "backs t h r \<longleftrightarrow> view_item r = Inr (Some (t, Some (t, h)))"

definition tally_ok :: "((int \<times> string) \<times> nat) list \<Rightarrow> jobj list \<Rightarrow> bool" where
  "tally_ok cs rs \<longleftrightarrow> (\<forall>k n. (k, n) \<in> set cs \<longrightarrow> n \<le> length (filter (backs (fst k) (snd k)) rs))"

lemma bump_count_mem:
  "(k', n') \<in> set (bump_count k cs) \<Longrightarrow>
     (k', n') \<in> set cs \<or> k' = k \<and> (n' = 1 \<or> (\<exists>m. n' = Suc m \<and> (k, m) \<in> set cs))"
  by (induction k cs rule: bump_count.induct) (auto split: if_splits)

lemma backs_snoc: "length (filter (backs t h) rs) \<le> length (filter (backs t h) (rs @ [r]))"
  by simp

lemma bump_tally:
  assumes "tally_ok cs rs" "view_item r = Inr (Some (fst k, Some k))"
  shows "tally_ok (bump_count k cs) (rs @ [r])"
  unfolding tally_ok_def
proof (intro allI impI)
  fix k' n' assume m: "(k', n') \<in> set (bump_count k cs)"
  have r: "backs (fst k) (snd k) r" using assms(2) by (simp add: backs_def)
  show "n' \<le> length (filter (backs (fst k') (snd k')) (rs @ [r]))"
    using bump_count_mem [OF m]
  proof
    assume "(k', n') \<in> set cs"
    then show ?thesis using assms(1) backs_snoc order_trans unfolding tally_ok_def by blast
  next
    assume k: "k' = k \<and> (n' = 1 \<or> (\<exists>m. n' = Suc m \<and> (k, m) \<in> set cs))"
    then have "n' \<le> Suc (length (filter (backs (fst k) (snd k)) rs))"
      using assms(1) unfolding tally_ok_def by auto
    then show ?thesis using k r by simp
  qed
qed

lemma tally_mono: "tally_ok cs rs \<Longrightarrow> tally_ok cs (rs @ [r])"
  unfolding tally_ok_def by (auto intro: le_SucI)

lemma view_item_key: "view_item r = Inr (Some (t, Some k)) \<Longrightarrow> fst k = t \<and> snd k \<noteq> []"
  by (auto simp: view_item_def split: option.splits if_splits)

lemma view_items_tally:
  "view_items rs mx cs = Inr (mx', cs') \<Longrightarrow> tally_ok cs seen \<Longrightarrow> tally_ok cs' (seen @ rs)"
proof (induction rs arbitrary: mx cs seen)
  case Nil
  then show ?case by simp
next
  case (Cons r rs)
  obtain i where i: "view_item r = Inr i" using Cons.prems(1) by (cases "view_item r") auto
  show ?case
  proof (cases i)
    case None
    then show ?thesis using Cons.IH [of mx cs "seen @ [r]"] Cons.prems i tally_mono by simp
  next
    case (Some tk)
    obtain t k where tk: "tk = (t, k)" by (cases tk)
    show ?thesis
    proof (cases k)
      case None
      then show ?thesis using Cons.IH [of "max mx t" cs "seen @ [r]"] Cons.prems i Some tk tally_mono by simp
    next
      case k: (Some c)
      have "tally_ok (bump_count c cs) (seen @ [r])"
        by (rule bump_tally [OF Cons.prems(2)]) (use i Some tk k view_item_key [of r t c] in auto)
      then show ?thesis using Cons.IH [of "max mx t" "bump_count c cs" "seen @ [r]"] Cons.prems i Some tk k by simp
    qed
  qed
qed

lemma best_count_in: "best_count cs = Some x \<Longrightarrow> x \<in> set cs"
  by (induction cs arbitrary: x) (auto split: option.splits if_splits)

lemma majority_view_backed:
  assumes "majority_view cfg rs = Inr (mx, h, t)" "h \<noteq> []"
  shows "quorum cfg \<le> length (filter (backs t h) rs)"
proof -
  obtain mx0 cs where cs: "view_items rs 0 [] = Inr (mx0, cs)"
    and b: "(case best_count cs of None \<Rightarrow> (mx0, [], 0)
               | Some ((t', h'), n) \<Rightarrow> if quorum cfg \<le> n then (mx0, h', t') else (mx0, [], 0)) = (mx, h, t)"
    using assms(1) by (cases "view_items rs 0 []") (auto simp: majority_view_def)
  obtain n where n: "best_count cs = Some ((t, h), n)" "quorum cfg \<le> n"
    using b assms(2) by (auto split: option.splits if_splits)
  have "tally_ok cs ([] @ rs)" by (rule view_items_tally [OF cs]) (simp add: tally_ok_def)
  then have "n \<le> length (filter (backs t h) rs)" using best_count_in [OF n(1)] by (auto simp: tally_ok_def)
  then show ?thesis using n(2) by simp
qed

section \<open>Rules for the loop\<close>

text \<open>\<open>ha_keeps P m Q\<close>: \<open>m\<close> keeps \<open>P\<close> of the engine, also when it raises, and its result satisfies \<open>Q\<close>.\<close>

definition ha_keeps :: "(engine \<Rightarrow> bool) \<Rightarrow> ('w, 'a) ha_st \<Rightarrow> ('a \<Rightarrow> bool) \<Rightarrow> bool" where
  "ha_keeps P m Q \<longleftrightarrow>
     (\<forall>e w r e' w'. m (e, w) = (r, e', w') \<longrightarrow> P e \<longrightarrow> P e' \<and> (\<forall>x. r = Inr x \<longrightarrow> Q x))"

lemma keepsI:
  "(\<And>e w r e' w'. m (e, w) = (r, e', w') \<Longrightarrow> P e \<Longrightarrow> P e' \<and> (\<forall>x. r = Inr x \<longrightarrow> Q x)) \<Longrightarrow> ha_keeps P m Q"
  by (auto simp: ha_keeps_def)

lemma keepsD: "ha_keeps P m Q \<Longrightarrow> m (e, w) = (r, e', w') \<Longrightarrow> P e \<Longrightarrow> P e' \<and> (\<forall>x. r = Inr x \<longrightarrow> Q x)"
  unfolding ha_keeps_def by blast

named_theorems ha_rules "rules of \<open>ha_keeps\<close>"

lemma lkeeps_ret [ha_rules]: "Q x \<Longrightarrow> ha_keeps P (st_ret x) Q"
  by (auto simp: ha_keeps_def)

lemma lkeeps_fail [ha_rules]: "ha_keeps P (st_fail x) Q"
  by (auto simp: ha_keeps_def)

lemma lkeeps_bind:
  assumes "ha_keeps P m R" "\<And>x. R x \<Longrightarrow> ha_keeps P (f x) Q"
  shows "ha_keeps P (st_bind m f) Q"
proof (rule keepsI)
  fix e w r e' w' assume run: "st_bind m f (e, w) = (r, e', w')" and "P e"
  obtain r1 e1 w1 where m: "m (e, w) = (r1, e1, w1)" by (cases "m (e, w)") auto
  note k = keepsD [OF assms(1) m \<open>P e\<close>]
  show "P e' \<and> (\<forall>x. r = Inr x \<longrightarrow> Q x)"
  proof (cases r1)
    case (Inl x)
    then show ?thesis using run m k by (auto simp: st_bind_def)
  next
    case (Inr x)
    then show ?thesis using run m k keepsD [OF assms(2), of x e1 w1] by (simp add: st_bind_def)
  qed
qed

lemma lkeeps_bind_any: "ha_keeps P m (\<lambda>_. True) \<Longrightarrow> (\<And>x. ha_keeps P (f x) Q) \<Longrightarrow> ha_keeps P (st_bind m f) Q"
  by (rule lkeeps_bind) auto

lemma lkeeps_try:
  assumes "ha_keeps P m Q" "\<And>x. ha_keeps P (h x) Q"
  shows "ha_keeps P (try_st m h) Q"
proof (rule keepsI)
  fix e w r e' w' assume run: "try_st m h (e, w) = (r, e', w')" and "P e"
  obtain r1 e1 w1 where m: "m (e, w) = (r1, e1, w1)" by (cases "m (e, w)") auto
  note k = keepsD [OF assms(1) m \<open>P e\<close>]
  show "P e' \<and> (\<forall>x. r = Inr x \<longrightarrow> Q x)"
  proof (cases r1)
    case (Inl x)
    then show ?thesis using run m k keepsD [OF assms(2), of x e1 w1] by (simp add: try_st_def)
  next
    case (Inr x)
    then show ?thesis using run m k by (auto simp: try_st_def)
  qed
qed

lemma lkeeps_weaken: "ha_keeps P m R \<Longrightarrow> (\<And>x. R x \<Longrightarrow> Q x) \<Longrightarrow> ha_keeps P m Q"
  by (auto simp: ha_keeps_def)

lemma lkeeps_world [ha_rules]: "ha_keeps P (on_world f) (\<lambda>_. True)" "ha_keeps P (on_world_e g) (\<lambda>_. True)"
  by (auto simp: ha_keeps_def on_world_def on_world_e_def split: prod.splits)

lemma lkeeps_clock [ha_rules]: "ha_keeps P (boot_clock env) (\<lambda>_. True)"
  by (simp add: boot_clock_def ha_rules)

lemma lkeeps_get [ha_rules]: "ha_keeps P get_engine (\<lambda>_. True)"
  by (auto simp: ha_keeps_def get_engine_def)

lemma lkeeps_upd: "(\<And>e. P e \<Longrightarrow> P (f e)) \<Longrightarrow> ha_keeps P (upd_engine f) (\<lambda>_. True)"
  by (auto simp: ha_keeps_def upd_engine_def)

lemma lkeeps_if: "(b \<Longrightarrow> ha_keeps P m Q) \<Longrightarrow> (\<not> b \<Longrightarrow> ha_keeps P n Q) \<Longrightarrow> ha_keeps P (if b then m else n) Q"
  by simp

lemma lkeeps_systemctl [ha_rules]: "ha_keeps P (systemctl env a x) (\<lambda>_. True)"
  by (auto simp: ha_keeps_def systemctl_def split: prod.splits sum.splits)

lemma lkeeps_start [ha_rules]: "ha_keeps P (start_services env xs) (\<lambda>_. True)"
  by (induction xs) (auto simp del: st_simps intro!: lkeeps_bind_any lkeeps_ret lkeeps_world lkeeps_systemctl)

lemma lkeeps_stop [ha_rules]: "ha_keeps P (stop_services env xs) (\<lambda>_. True)"
  by (induction xs) (auto simp del: st_simps intro!: lkeeps_bind_any lkeeps_ret lkeeps_world lkeeps_systemctl)

section \<open>A node nobody answers\<close>

text \<open>Leadership has at most shrunk: the lease and guard are those of before or gone, and it is not primary anew.\<close>

definition no_gain :: "engine \<Rightarrow> engine \<Rightarrow> bool" where
  "no_gain e0 e \<longleftrightarrow>
     (en_guard e = en_guard e0 \<or> en_guard e = None) \<and> (en_ldeadline e = en_ldeadline e0 \<or> en_ldeadline e = 0) \<and>
     (en_desired e = en_desired e0 \<or> en_desired e = Standby)"

lemma no_gain_simps [simp]:
  "no_gain e0 (e\<lparr>en_desired := Standby\<rparr>) = no_gain e0 (e\<lparr>en_desired := en_desired e0\<rparr>)"
  by (simp add: no_gain_def)

lemma lkeeps_standby:
  assumes "\<And>e. P e \<Longrightarrow> P (e\<lparr>en_desired := Standby\<rparr>)"
  shows "ha_keeps P (set_standby cfg env) (\<lambda>_. True)"
  unfolding set_standby_def
  by (intro lkeeps_bind_any lkeeps_upd lkeeps_if lkeeps_stop lkeeps_ret) (simp_all add: assms)

lemma lkeeps_demote: "ha_keeps (no_gain e0) (demote cfg env) (\<lambda>_. True)"
  unfolding demote_def
  by (intro lkeeps_bind_any lkeeps_upd lkeeps_try lkeeps_standby) (auto simp: no_gain_def drop_lease_def)

lemma lkeeps_expired: "ha_keeps (no_gain e0) (demote_if_expired cfg env) (\<lambda>_. True)"
  unfolding demote_if_expired_def by (intro lkeeps_bind_any lkeeps_clock lkeeps_get lkeeps_if lkeeps_demote lkeeps_ret) simp

lemma lkeeps_eligible: "ha_keeps (no_gain e0) (check_eligible env) (\<lambda>_. True)"
  unfolding check_eligible_def
  by (intro lkeeps_bind_any lkeeps_world) (auto intro!: lkeeps_bind_any lkeeps_upd lkeeps_ret simp: no_gain_def simp del: st_simps)

lemma lkeeps_local: "ha_keeps (no_gain e0) (local_rpc cfg env p) (\<lambda>_. True)"
  unfolding local_rpc_def
proof (intro lkeeps_bind_any lkeeps_clock)
  fix now
  show "ha_keeps (no_gain e0)
     (\<lambda>s. case handle_tep cfg now (JObj [(''node_id'', JStr (hf_node cfg)), (''peer_id'', JStr ''local-self'')]) (JObj p) (fst s) of
            (r, e) \<Rightarrow> (r, e, snd s)) (\<lambda>_. True)"
  proof (rule keepsI, clarsimp split: prod.splits)
    fix e r e' assume h: "handle_tep cfg now (JObj [(''node_id'', JStr (hf_node cfg)), (''peer_id'', JStr ''local-self'')]) (JObj p) e = (r, e')"
      and g: "no_gain e0 e"
    have "vote_step_ok e e'"
      using handle_tep_step [of e cfg now "JObj [(''node_id'', JStr (hf_node cfg)), (''peer_id'', JStr ''local-self'')]" "JObj p"]
      by (simp only: h snd_conv)
    then show "no_gain e0 e'" using g by (simp add: no_gain_def vote_step_ok_def)
  qed
qed

definition unanswered :: "ha_config \<Rightarrow> 'w ha_env \<Rightarrow> bool" where
  "unanswered cfg env \<longleftrightarrow> (\<forall>target p w. target \<noteq> hf_node cfg \<longrightarrow> isl (fst (he_rpc env target p w)))"

lemma lkeeps_rpc:
  assumes "unanswered cfg env"
  shows "ha_keeps (no_gain e0) (ha_rpc cfg env v p) (\<lambda>_. v = hf_node cfg)"
proof (cases "v = hf_node cfg")
  case True
  then show ?thesis using lkeeps_local by (simp add: ha_rpc_def)
next
  case False
  then show ?thesis
    using assms by (auto simp: ha_rpc_def ha_keeps_def on_world_e_def unanswered_def split: prod.splits) (metis fst_conv sum.disc(2))
qed

lemma lkeeps_ask:
  assumes "unanswered cfg env"
  shows "ha_keeps (no_gain e0) (ask_voters cfg env p vs) (\<lambda>rs. length rs \<le> length (filter (\<lambda>v. v = hf_node cfg) vs))"
proof (induction vs)
  case Nil
  show ?case unfolding ask_voters.simps by (rule lkeeps_ret) simp
next
  case (Cons v vs)
  show ?case
    unfolding ask_voters.simps
    by (rule lkeeps_bind [where R = "\<lambda>r. r \<noteq> None \<longrightarrow> v = hf_node cfg"],
        rule lkeeps_try, rule lkeeps_bind [OF lkeeps_rpc [OF assms]], rule lkeeps_ret, simp, rule lkeeps_ret, simp,
        rule lkeeps_bind [OF Cons.IH], rule lkeeps_ret) (auto split: option.split)
qed

lemma lkeeps_ready:
  assumes "unanswered cfg env"
  shows "ha_keeps (no_gain e0) (any_ready cfg env cs) (\<lambda>_. True)"
proof (induction cs)
  case Nil
  show ?case unfolding any_ready.simps by (rule lkeeps_ret) simp
next
  case (Cons c cs)
  have rpc: "ha_keeps (no_gain e0) (ha_rpc cfg env v p) (\<lambda>_. True)" for v p
    by (rule lkeeps_weaken [OF lkeeps_rpc [OF assms]]) simp
  show ?case
    unfolding any_ready.simps
    by (intro lkeeps_if lkeeps_bind_any lkeeps_try rpc lkeeps_ret Cons.IH TrueI)
qed

lemma lkeeps_higher: "unanswered cfg env \<Longrightarrow> ha_keeps (no_gain e0) (higher_priority_ready cfg env) (\<lambda>_. True)"
  unfolding higher_priority_ready_def by (intro lkeeps_if lkeeps_ready lkeeps_ret TrueI)

lemma lkeeps_conclude:
  assumes "n < quorum cfg"
  shows "ha_keeps (no_gain e0) (conclude cfg env started n t) (\<lambda>won. \<not> won)"
proof -
  have "take_lease cfg started now n t e = None" for now e using assms by (simp add: take_lease_def)
  then show ?thesis
    unfolding conclude_def by (intro lkeeps_bind_any lkeeps_clock lkeeps_get) (simp add: lkeeps_ret del: st_simps)
qed

definition alone :: "ha_config \<Rightarrow> 'w ha_env \<Rightarrow> bool" where
  "alone cfg env \<longleftrightarrow> unanswered cfg env \<and> distinct (hf_voters cfg) \<and> 2 \<le> length (hf_voters cfg)"

lemma alone_minority:
  assumes "alone cfg env"
  shows "length (filter (\<lambda>v. v = hf_node cfg) (hf_voters cfg)) < quorum cfg"
proof -
  have "distinct (filter (\<lambda>v. v = hf_node cfg) (hf_voters cfg))" using assms by (simp add: alone_def)
  then have "length (filter (\<lambda>v. v = hf_node cfg) (hf_voters cfg)) = card (set (filter (\<lambda>v. v = hf_node cfg) (hf_voters cfg)))"
    by (simp only: distinct_card)
  also have "\<dots> \<le> card {hf_node cfg}" by (rule card_mono) auto
  finally have "length (filter (\<lambda>v. v = hf_node cfg) (hf_voters cfg)) \<le> 1" by simp
  moreover have "1 \<le> length (hf_voters cfg) div 2" using assms unfolding alone_def by linarith
  ultimately show ?thesis unfolding quorum_def by linarith
qed

lemma lkeeps_ask_minority:
  assumes "alone cfg env"
  shows "ha_keeps (no_gain e0) (ask_voters cfg env p (hf_voters cfg)) (\<lambda>rs. length rs < quorum cfg)"
  by (rule lkeeps_weaken [OF lkeeps_ask]) (use assms alone_minority [OF assms] in \<open>auto simp: alone_def\<close>)

lemma lkeeps_renew:
  assumes "alone cfg env"
  shows "ha_keeps (no_gain e0) (renew cfg env) (\<lambda>ok. \<not> ok)"
proof -
  have g: "grants_of t rs < quorum cfg" if "length rs < quorum cfg" for t rs
    using length_filter_le [of "is_grant t" rs] that by (simp only: grants_of_def)
  show ?thesis
    unfolding renew_def
    by (intro lkeeps_bind_any lkeeps_if lkeeps_eligible lkeeps_demote lkeeps_clock lkeeps_get lkeeps_ret
        lkeeps_bind [OF lkeeps_ask_minority [OF assms]] lkeeps_conclude g) simp_all
qed

lemma lkeeps_campaign:
  assumes "alone cfg env"
  shows "ha_keeps (no_gain e0) (campaign cfg env t) (\<lambda>ok. \<not> ok)"
proof -
  have g: "vote_grants t rs < quorum cfg" if "length rs < quorum cfg" for rs
    using length_filter_le [of "\<lambda>r. reply_term r \<noteq> None \<and> is_grant t r" rs] that by (simp only: vote_grants_def)
  show ?thesis
    unfolding campaign_def
    by (intro lkeeps_bind_any [OF lkeeps_clock] lkeeps_bind [OF lkeeps_ask_minority [OF assms]]
        lkeeps_bind [OF lkeeps_conclude [OF g]] lkeeps_if lkeeps_bind_any [OF lkeeps_upd] lkeeps_ret)
      (auto simp: no_gain_def)
qed

lemma lkeeps_loop_lease:
  assumes "alone cfg env"
  shows "ha_keeps (no_gain e0) (keep_lease cfg env mx) (\<lambda>_. True)"
  unfolding keep_lease_def
  by (intro lkeeps_bind_any lkeeps_get lkeeps_if lkeeps_demote lkeeps_weaken [OF lkeeps_renew [OF assms]] lkeeps_ret lkeeps_expired TrueI)

lemma lkeeps_seek:
  assumes "alone cfg env" "n < quorum cfg"
  shows "ha_keeps (no_gain e0) (seek_lease cfg env n mx holder hterm) (\<lambda>_. True)"
  unfolding seek_lease_def using assms(2)
  by (intro lkeeps_bind_any lkeeps_eligible) (simp add: lkeeps_demote)

lemma lkeeps_body:
  assumes "alone cfg env"
  shows "ha_keeps (no_gain e0) (run_body cfg env) (\<lambda>_. True)"
  unfolding run_body_def
proof (rule lkeeps_bind [OF lkeeps_ask_minority [OF assms]])
  fix rs :: "jobj list" assume n: "length rs < quorum cfg"
  obtain x mx h t where mv: "majority_view cfg rs = Inl x \<or> majority_view cfg rs = Inr (mx, h, t)"
    by (metis obj_sumE surj_pair)
  show "ha_keeps (no_gain e0)
     (case majority_view cfg rs of Inl x \<Rightarrow> st_fail x
      | Inr (mx, holder, hterm) \<Rightarrow>
          st_bind (upd_engine (\<lambda>e. e\<lparr>en_view := view_json cfg (length rs) mx holder hterm\<rparr>)) (\<lambda>_.
            if holder \<noteq> [] \<and> holder \<noteq> hf_node cfg then
              st_bind (upd_engine (\<lambda>e. e\<lparr>en_lterm := max (en_lterm e) hterm\<rparr>)) (\<lambda>_. demote cfg env)
            else if \<not> is_ha_candidate cfg then st_ret ()
            else st_bind (boot_clock env) (\<lambda>now. st_bind get_engine (\<lambda>e.
              if now < en_ldeadline e then keep_lease cfg env mx
              else seek_lease cfg env (length rs) mx holder hterm)))) (\<lambda>_. True)"
    using mv
  proof
    assume e: "majority_view cfg rs = Inl x"
    show ?thesis unfolding e sum.case by (rule lkeeps_fail)
  next
    assume e: "majority_view cfg rs = Inr (mx, h, t)"
    show ?thesis unfolding e sum.case prod.case
      by (intro lkeeps_bind_any lkeeps_upd lkeeps_if lkeeps_demote lkeeps_ret lkeeps_clock lkeeps_get
          lkeeps_loop_lease [OF assms] lkeeps_seek [OF assms n])
        (auto simp: no_gain_def)
  qed
qed

lemma lkeeps_run_loop:
  assumes "alone cfg env"
  shows "ha_keeps (no_gain e0) (run_loop_once cfg env) (\<lambda>_. True)"
  unfolding run_loop_once_def
  by (intro lkeeps_try lkeeps_body [OF assms] lkeeps_bind_any lkeeps_upd lkeeps_expired) (simp add: no_gain_def)

section \<open>Stepping down\<close>

definition ha_ends :: "(engine \<Rightarrow> bool) \<Rightarrow> ('w, 'a) ha_st \<Rightarrow> (engine \<Rightarrow> bool) \<Rightarrow> (engine \<Rightarrow> bool) \<Rightarrow> bool" where
  "ha_ends P m Q E \<longleftrightarrow>
     (\<forall>e w r e' w'. m (e, w) = (r, e', w') \<longrightarrow> P e \<longrightarrow> (if isl r then E e' else Q e'))"

lemma endsI:
  "(\<And>e w r e' w'. m (e, w) = (r, e', w') \<Longrightarrow> P e \<Longrightarrow> if isl r then E e' else Q e') \<Longrightarrow> ha_ends P m Q E"
  unfolding ha_ends_def by blast

lemma endsD: "ha_ends P m Q E \<Longrightarrow> m (e, w) = (r, e', w') \<Longrightarrow> P e \<Longrightarrow> if isl r then E e' else Q e'"
  unfolding ha_ends_def by blast

lemma ends_bind:
  assumes "ha_keeps P m R" "\<And>x. R x \<Longrightarrow> ha_ends P (f x) Q E" "\<And>e. P e \<Longrightarrow> E e"
  shows "ha_ends P (st_bind m f) Q E"
proof (rule endsI)
  fix e w r e' w' assume run: "st_bind m f (e, w) = (r, e', w')" and "P e"
  obtain r1 e1 w1 where m: "m (e, w) = (r1, e1, w1)" by (cases "m (e, w)") auto
  note k = keepsD [OF assms(1) m \<open>P e\<close>]
  show "if isl r then E e' else Q e'"
  proof (cases r1)
    case (Inl x)
    then show ?thesis using run m k assms(3) by (auto simp: st_bind_def)
  next
    case (Inr x)
    then show ?thesis using run m k endsD [OF assms(2), of x e1 w1] by (simp add: st_bind_def)
  qed
qed

lemma ends_try:
  assumes "ha_ends P m Q E" "\<And>x. ha_ends E (h x) Q Q"
  shows "ha_ends P (try_st m h) Q Q"
proof (rule endsI)
  fix e w r e' w' assume run: "try_st m h (e, w) = (r, e', w')" and "P e"
  obtain r1 e1 w1 where m: "m (e, w) = (r1, e1, w1)" by (cases "m (e, w)") auto
  note k = endsD [OF assms(1) m \<open>P e\<close>]
  show "if isl r then Q e' else Q e'"
  proof (cases r1)
    case (Inl x)
    then show ?thesis using run m k endsD [OF assms(2), of x e1 w1] by (simp add: try_st_def split: if_splits)
  next
    case (Inr x)
    then show ?thesis using run m k by (auto simp: try_st_def)
  qed
qed

lemma ends_weaken: "ha_ends P m Q E \<Longrightarrow> (\<And>e. P' e \<Longrightarrow> P e) \<Longrightarrow> (\<And>e. E e \<Longrightarrow> E' e) \<Longrightarrow> ha_ends P' m Q E'"
  unfolding ha_ends_def by (metis (full_types))

definition stepped_down :: "engine \<Rightarrow> bool" where
  "stepped_down e \<longleftrightarrow> en_guard e = None \<and> en_ldeadline e = 0 \<and> en_desired e = Standby"

lemma stepped_down_demote: "ha_ends (\<lambda>_. True) (demote cfg env) stepped_down (\<lambda>_. False)"
proof (rule endsI)
  fix e w r e' w' assume run: "demote cfg env (e, w) = (r, e', w')"
  define e1 where "e1 = (drop_lease e)\<lparr>en_desired := Standby\<rparr>"
  define m where "m = (if is_ha_candidate cfg \<and> hf_armed cfg then stop_services env (rev (hf_primary_services cfg)) else st_ret ())"
  have k: "ha_keeps (\<lambda>e. e = e1) m (\<lambda>_. True)"
    unfolding m_def by (intro lkeeps_if lkeeps_stop lkeeps_ret TrueI)
  obtain r2 e2 w2 where m: "m (e1, w) = (r2, e2, w2)" by (cases "m (e1, w)") auto
  have "e2 = e1" using keepsD [OF k m refl] by simp
  have d: "demote cfg env (e, w) =
     (case m (e1, w) of (Inl x, s1) \<Rightarrow> upd_engine (\<lambda>e. e\<lparr>en_error := ''fence:'' @ x\<rparr>) s1 | (Inr v, s1) \<Rightarrow> (Inr v, s1))"
    by (simp add: demote_def st_bind_def upd_engine_def try_st_def set_standby_def e1_def m_def del: append_Cons append.simps)
  show "if isl r then False else stepped_down e'"
    using run unfolding d m \<open>e2 = e1\<close>
    by (cases r2) (auto simp: upd_engine_def stepped_down_def e1_def drop_lease_def)
qed

lemma ends_demote: "ha_ends P (demote cfg env) stepped_down (\<lambda>_. False)"
  by (rule ends_weaken [OF stepped_down_demote]) simp_all

definition after_lease :: "'w ha_env \<Rightarrow> engine \<Rightarrow> bool" where
  "after_lease env e \<longleftrightarrow> (\<forall>w. 0 \<le> fst (he_clock env w) \<and> en_ldeadline e \<le> fst (he_clock env w))"

lemma no_gain_after: "after_lease env e0 \<Longrightarrow> no_gain e0 e \<Longrightarrow> after_lease env e"
  by (auto simp: after_lease_def no_gain_def)

lemma clock_after:
  assumes "after_lease env e0"
  shows "ha_keeps P (boot_clock env) (\<lambda>now. 0 \<le> now \<and> en_ldeadline e0 \<le> now)"
proof (rule keepsI)
  fix e w r e' w' assume r: "boot_clock env (e, w) = (r, e', w')" and P: "P e"
  show "P e' \<and> (\<forall>x. r = Inr x \<longrightarrow> 0 \<le> x \<and> en_ldeadline e0 \<le> x)"
    using r P assms [unfolded after_lease_def, rule_format, of w]
    by (cases "he_clock env w") (auto simp: boot_clock_def on_world_def)
qed

lemma ends_get:
  assumes "\<And>e. P e \<Longrightarrow> ha_ends P (f e) Q E"
  shows "ha_ends P (st_bind get_engine f) Q E"
proof (rule endsI)
  fix e w r e' w' assume "st_bind get_engine f (e, w) = (r, e', w')" and P: "P e"
  then have "f e (e, w) = (r, e', w')" by (simp add: st_bind_def get_engine_def)
  then show "if isl r then E e' else Q e'" by (rule endsD [OF assms [OF P] _ P])
qed

lemma ends_clock:
  assumes "after_lease env e0" "\<And>now. 0 \<le> now \<Longrightarrow> en_ldeadline e0 \<le> now \<Longrightarrow> ha_ends P (f now) Q E"
  shows "ha_ends P (st_bind (boot_clock env) f) Q E"
proof (rule endsI)
  fix e w r e' w' assume run: "st_bind (boot_clock env) f (e, w) = (r, e', w')" and P: "P e"
  obtain now w1 where c: "he_clock env w = (now, w1)" by (cases "he_clock env w")
  then have "f now (e, w1) = (r, e', w')" using run by (simp add: st_bind_def boot_clock_def on_world_def)
  moreover have "0 \<le> now" "en_ldeadline e0 \<le> now"
    using assms(1) [unfolded after_lease_def, rule_format, of w] c by simp_all
  ultimately show "if isl r then E e' else Q e'" using endsD [OF assms(2) _ P] by blast
qed

lemma ends_upd:
  assumes "\<And>e. P e \<Longrightarrow> P (g e)" "ha_ends P m Q E"
  shows "ha_ends P (st_bind (upd_engine g) (\<lambda>_. m)) Q E"
  using endsD [OF assms(2)] assms(1) by (intro endsI) (simp add: st_bind_def upd_engine_def)

lemma ends_expired:
  assumes "after_lease env e0"
  shows "ha_ends (no_gain e0) (demote_if_expired cfg env) stepped_down (\<lambda>_. False)"
  unfolding demote_if_expired_def
proof (rule ends_clock [OF assms], rule ends_get)
  fix now e assume n: "0 \<le> now" "en_ldeadline e0 \<le> now" and g: "no_gain e0 e"
  have "en_ldeadline e \<le> now" using n g by (auto simp: no_gain_def)
  then show "ha_ends (no_gain e0) (if en_ldeadline e \<le> now then demote cfg env else st_ret ()) stepped_down (\<lambda>_. False)"
    by (simp add: ends_demote del: st_simps)
qed

lemma ends_seek:
  assumes "n < quorum cfg"
  shows "ha_ends (no_gain e0) (seek_lease cfg env n mx h t) stepped_down (no_gain e0)"
  unfolding seek_lease_def using assms
  by (intro ends_bind [OF lkeeps_eligible]) (simp_all add: ends_weaken [OF ends_demote])

lemma ends_body:
  assumes "alone cfg env" "is_ha_candidate cfg" "after_lease env e0"
  shows "ha_ends (no_gain e0) (run_body cfg env) stepped_down (no_gain e0)"
  unfolding run_body_def
proof (rule ends_bind [OF lkeeps_ask_minority [OF assms(1)]])
  fix rs :: "jobj list" assume n: "length rs < quorum cfg"
  let ?rest = "\<lambda>mx holder hterm.
          st_bind (upd_engine (\<lambda>e. e\<lparr>en_view := view_json cfg (length rs) mx holder hterm\<rparr>)) (\<lambda>_.
            if holder \<noteq> [] \<and> holder \<noteq> hf_node cfg then
              st_bind (upd_engine (\<lambda>e. e\<lparr>en_lterm := max (en_lterm e) hterm\<rparr>)) (\<lambda>_. demote cfg env)
            else if \<not> is_ha_candidate cfg then st_ret ()
            else st_bind (boot_clock env) (\<lambda>now. st_bind get_engine (\<lambda>e.
              if now < en_ldeadline e then keep_lease cfg env mx
              else seek_lease cfg env (length rs) mx holder hterm)))"
  have view: "ha_keeps (no_gain e0) (upd_engine (\<lambda>e. e\<lparr>en_view := v\<rparr>)) (\<lambda>_. True)" for v
    by (rule lkeeps_upd) (simp add: no_gain_def)
  have lterm: "ha_keeps (no_gain e0) (upd_engine (\<lambda>e. e\<lparr>en_lterm := max (en_lterm e) k\<rparr>)) (\<lambda>_. True)" for k
    by (rule lkeeps_upd) (simp add: no_gain_def)
  have lead: "ha_ends (no_gain e0) (if now < en_ldeadline e then keep_lease cfg env mx
              else seek_lease cfg env (length rs) mx h t) stepped_down (no_gain e0)"
    if "0 \<le> now \<and> en_ldeadline e0 \<le> now" "no_gain e0 e" for now e mx h t
  proof -
    have "\<not> now < en_ldeadline e" using that by (auto simp: no_gain_def)
    then show ?thesis by (simp add: ends_seek [OF n])
  qed
  have rest: "ha_ends (no_gain e0) (?rest mx h t) stepped_down (no_gain e0)" for mx h t
  proof (rule ends_bind [OF view])
    show "ha_ends (no_gain e0)
       (if h \<noteq> [] \<and> h \<noteq> hf_node cfg then
          st_bind (upd_engine (\<lambda>e. e\<lparr>en_lterm := max (en_lterm e) t\<rparr>)) (\<lambda>_. demote cfg env)
        else if \<not> is_ha_candidate cfg then st_ret ()
        else st_bind (boot_clock env) (\<lambda>now. st_bind get_engine (\<lambda>e.
              if now < en_ldeadline e then keep_lease cfg env mx
              else seek_lease cfg env (length rs) mx h t))) stepped_down (no_gain e0)"
    proof (cases "h \<noteq> [] \<and> h \<noteq> hf_node cfg")
      case True
      then show ?thesis by (simp add: ends_bind [OF lterm] ends_weaken [OF ends_demote])
    next
      case False
      have "ha_ends (no_gain e0) (st_bind (boot_clock env) (\<lambda>now. st_bind get_engine (\<lambda>e.
              if now < en_ldeadline e then keep_lease cfg env mx
              else seek_lease cfg env (length rs) mx h t))) stepped_down (no_gain e0)"
        by (rule ends_bind [OF clock_after [OF assms(3)]], rule ends_get, rule lead)
      then show ?thesis using False assms(2) by (simp only: if_False not_True_eq_False)
    qed
  qed simp
  show "ha_ends (no_gain e0)
     (case majority_view cfg rs of Inl x \<Rightarrow> st_fail x
      | Inr (mx, holder, hterm) \<Rightarrow> ?rest mx holder hterm) stepped_down (no_gain e0)"
  proof (cases "majority_view cfg rs")
    case (Inl x)
    then show ?thesis by (simp add: ha_ends_def)
  next
    case (Inr v)
    then show ?thesis using rest by (cases v) (simp only: sum.case prod.case)
  qed
qed simp

lemma ends_run_loop:
  assumes "alone cfg env" "is_ha_candidate cfg" "after_lease env e0"
  shows "ha_ends (no_gain e0) (run_loop_once cfg env) stepped_down stepped_down"
  unfolding run_loop_once_def
proof (rule ends_try [OF ends_body [OF assms]])
  fix x
  show "ha_ends (no_gain e0) (st_bind (upd_engine (\<lambda>e. e\<lparr>en_error := ''loop:'' @ x\<rparr>)) (\<lambda>_. demote_if_expired cfg env))
          stepped_down stepped_down"
    by (rule ends_upd, simp add: no_gain_def, rule ends_weaken [OF ends_expired [OF assms(3)]]) simp_all
qed

section \<open>Properties\<close>

definition holder_ok :: "engine \<Rightarrow> bool" where
  "holder_ok e \<longleftrightarrow> en_holder e = [] \<or> en_holder e = en_voted e"

lemma give_lease_holder: "en_voted e = c \<Longrightarrow> holder_ok (snd (give_lease now c t ms e))"
  by (simp add: give_lease_def holder_ok_def)

lemma vote_request_holder: "holder_ok e \<Longrightarrow> holder_ok (snd (vote_request cfg now src c t ms e))"
  by (auto simp: vote_request_def advance_def give_lease_holder)

lemma renew_request_holder: "holder_ok e \<Longrightarrow> holder_ok (snd (renew_request cfg now src c t ms e))"
  by (auto simp: renew_request_def give_lease_holder)

lemma with_ints_holder: "holder_ok e \<Longrightarrow> (\<And>t ms. holder_ok (snd (f t ms e))) \<Longrightarrow> holder_ok (snd (with_ints p d f e))"
  by (simp add: with_ints_def split: option.split)

lemma handle_tep_holder: "holder_ok e \<Longrightarrow> holder_ok (snd (handle_tep cfg now src payload e))"
proof -
  assume ok: "holder_ok e"
  have "holder_ok (snd (handle_base cfg now s p e))" for s p
    using ok by (simp add: handle_base_def Let_def with_ints_holder vote_request_holder renew_request_holder)
  with ok show ?thesis by (cases payload; cases src) (simp_all add: handle_tep_def Let_def)
qed

text \<open> Whatever JSON a peer sends, handling it never lowers the voter's term, never changes a vote already
  cast in the current term, and never touches the node's own leadership: its lease, its guard file and
  whether it wants to be primary.
\<close>
theorem votes_never_regress:
  assumes "handle_tep cfg now source payload e = (reply, e')"
  shows "en_term e \<le> en_term e' \<and>
    (en_term e' = en_term e \<and> en_voted e \<noteq> [] \<longrightarrow> en_voted e' = en_voted e) \<and>
    (holder_ok e \<longrightarrow> holder_ok e') \<and>
    en_guard e' = en_guard e \<and> en_ldeadline e' = en_ldeadline e \<and> en_desired e' = en_desired e"
  using handle_tep_step [of e cfg now source payload] handle_tep_holder [of e cfg now source payload] assms
  by (simp add: vote_step_ok_def)

text \<open>C23: A live lease is exclusive: while a voter's lease runs, no message from a node other than its holder,
  whatever its operation, term or lease, changes anything in the voter.
\<close>
theorem live_lease_is_exclusive:
  assumes "holder_ok e" "now < en_vdeadline e" "en_holder e \<noteq> []" "jtext_strip source ''node_id'' \<noteq> en_holder e"
  shows "snd (handle_tep cfg now (JObj source) payload e) = e"
  using handle_tep_blocked [of now e source cfg payload] assms by (auto simp: holder_ok_def)

text \<open> The majority view names a holder only on the word of a quorum: at least \<open>quorum\<close> of the status
  replies report that holder, in that term, with a lease that still runs.
\<close>
theorem majority_view_needs_quorum:
  assumes "majority_view cfg replies = Inr (mx, holder, term')" "holder \<noteq> []"
  shows "quorum cfg \<le> length (filter (backs term' holder) replies)"
  using assms by (rule majority_view_backed)

text \<open> A node that reaches no other node gains nothing: with at least two voters, one turn of its loop,
  under any clock, probe and \<open>systemctl\<close> outcomes, ends without a new lease, without a new guard file and
  without turning to primary.
\<close>
theorem isolated_node_gains_no_lease:
  assumes "unanswered cfg env" "distinct (hf_voters cfg)" "2 \<le> length (hf_voters cfg)"
    and "run_loop_once cfg env (e, w) = (reply, e', w')"
  shows "(en_guard e' = en_guard e \<or> en_guard e' = None) \<and>
    (en_ldeadline e' = en_ldeadline e \<or> en_ldeadline e' = 0) \<and>
    (en_desired e' = en_desired e \<or> en_desired e' = Standby)"
proof -
  have "alone cfg env" using assms(1-3) by (simp add: alone_def)
  from keepsD [OF lkeeps_run_loop [OF this] assms(4), of e] show ?thesis by (simp add: no_gain_def)
qed

text \<open>C31: A partitioned primary steps down: once its lease is over, one turn of the loop of a candidate that
  reaches no other node removes its guard file, clears its lease and leaves it standby.
\<close>
theorem isolated_primary_steps_down:
  assumes "unanswered cfg env" "distinct (hf_voters cfg)" "2 \<le> length (hf_voters cfg)" "is_ha_candidate cfg"
    and "\<And>w. 0 \<le> fst (he_clock env w) \<and> en_ldeadline e \<le> fst (he_clock env w)"
    and "run_loop_once cfg env (e, w) = (reply, e', w')"
  shows "en_guard e' = None \<and> en_ldeadline e' = 0 \<and> en_desired e' = Standby"
proof -
  have "alone cfg env" "after_lease env e" using assms(1-3,5) by (simp_all add: alone_def after_lease_def)
  from endsD [OF ends_run_loop [OF this(1) assms(4) this(2)] assms(6)] show ?thesis
    by (simp add: no_gain_def stepped_down_def split: if_splits)
qed

section \<open>Examples\<close>

definition cfg_a :: ha_config where
  "cfg_a = \<lparr>hf_cluster = ''hb'', hf_node = ''a'', hf_roles = [''voter'', ''candidate''], hf_voters = [''a'', ''b'', ''c''],
     hf_candidates = [\<lparr>hc_id = ''a'', hc_priority = 1\<rparr>, \<lparr>hc_id = ''b'', hc_priority = 2\<rparr>],
     hf_lease = 12, hf_loop = 2, hf_rpc_timeout = 5/2, hf_armed = True, hf_primary_services = [''db''],
     hf_required_services = [], hf_health_urls = [], hf_replication_file = [], hf_max_lag = 30, hf_startup_grace = 30\<rparr>"

definition from_node :: "string \<Rightarrow> jobj" where
  "from_node n = [(''node_id'', JStr n), (''peer_id'', JStr ''p'')]"

definition cfg_b :: ha_config where "cfg_b = cfg_a\<lparr>hf_node := ''b''\<rparr>"

text \<open>Voter \<open>b\<close> after granting node \<open>a\<close> term 1 at time 50.\<close>

definition voted_b :: "(string + jobj) \<times> engine" where
  "voted_b = handle_tep cfg_b 50 (JObj (from_node ''a'')) (JObj (vote_payload cfg_a 1)) (start_engine cfg_b 40 0 [] None)"

text \<open>The outside of a node: a clock that stands at 100, probes and services that work, peers that answer \<open>f\<close>.\<close>

definition still :: "(string \<Rightarrow> jobj \<Rightarrow> string + jobj) \<Rightarrow> unit ha_env" where
  "still f = \<lparr>he_clock = (\<lambda>w. (100, w)), he_rpc = (\<lambda>n p w. (f n p, w)), he_check = (\<lambda>w. ((True, []), w)),
              he_active = (\<lambda>x w. (True, w)), he_systemctl = (\<lambda>a x w. (Inr (), w))\<rparr>"

definition silent :: "unit ha_env" where "silent = still (\<lambda>n p. Inl ''tep_unavailable'')"

text \<open>Node \<open>a\<close> leading term 1 until 90, with its guard file.\<close>

definition leading :: engine where
  "leading = (start_engine cfg_a 70 1 ''a'' (Some \<lparr>gf_cluster = ''hb'', gf_holder = ''a'', gf_term = 1, gf_deadline = 90\<rparr>))
     \<lparr>en_lterm := 1, en_ldeadline := 90, en_desired := Primary\<rparr>"

lemma silent_unanswered: "unanswered cfg silent"
  by (simp add: unanswered_def silent_def still_def)

theorem votes_never_regress_witness:
  "en_term (snd voted_b) = 1 \<and> en_voted (snd voted_b) = ''a'' \<and> en_guard (snd voted_b) = None \<and> holder_ok (snd voted_b)"
proof -
  have r: "handle_tep cfg_b 50 (JObj (from_node ''a'')) (JObj (vote_payload cfg_a 1)) (start_engine cfg_b 40 0 [] None)
    = (fst voted_b, snd voted_b)" by (simp add: voted_b_def)
  have "en_term (snd voted_b) = 1 \<and> en_voted (snd voted_b) = ''a''" by code_simp
  then show ?thesis using votes_never_regress [OF r] by (simp add: start_engine_def holder_ok_def)
qed

theorem live_lease_is_exclusive_witness:
  "snd (handle_tep cfg_b 55 (JObj (from_node ''c'')) (JObj (vote_payload (cfg_a\<lparr>hf_node := ''c''\<rparr>) 7)) (snd voted_b)) = snd voted_b \<and>
   55 < en_vdeadline (snd voted_b)"
proof -
  have d: "55 < en_vdeadline (snd voted_b)" by code_simp
  have "holder_ok (snd voted_b)" "en_holder (snd voted_b) \<noteq> []"
    "jtext_strip (from_node ''c'') ''node_id'' \<noteq> en_holder (snd voted_b)" by code_simp+
  from live_lease_is_exclusive [OF this(1) d this(2,3)] d show ?thesis by simp
qed

definition two_reports :: "jobj list" where
  "two_reports = [voter_status cfg_b 55 (snd voted_b), voter_status cfg_b 56 (snd voted_b), voter_status cfg_a 55 leading]"

theorem majority_view_needs_quorum_witness:
  "majority_view cfg_a two_reports = Inr (1, ''a'', 1) \<and> quorum cfg_a \<le> length (filter (backs 1 ''a'') two_reports)"
proof -
  have "majority_view cfg_a two_reports = Inr (1, ''a'', 1)" by code_simp
  from majority_view_needs_quorum [OF this] this show ?thesis by simp
qed

lemma unit_world: "p = (fst p, fst (snd p), ())"
  by (simp add: prod_eq_iff)

lemma cfg_a_voters: "distinct (hf_voters cfg_a)" "2 \<le> length (hf_voters cfg_a)" "is_ha_candidate cfg_a"
  by (simp_all add: cfg_a_def is_ha_candidate_def)

theorem isolated_node_gains_no_lease_witness:
  "en_guard (fst (snd (run_loop_once cfg_a silent (leading, ())))) \<in> {en_guard leading, None} \<and>
   en_ldeadline (fst (snd (run_loop_once cfg_a silent (leading, ())))) \<in> {90, 0}"
  using isolated_node_gains_no_lease [OF silent_unanswered cfg_a_voters(1,2) unit_world, of leading "()"]
  by (simp add: leading_def)

theorem isolated_primary_steps_down_witness:
  "guard_valid cfg_a 80 (en_guard leading) \<and> stepped_down (fst (snd (run_loop_once cfg_a silent (leading, ()))))"
proof -
  have "0 \<le> fst (he_clock silent w) \<and> en_ldeadline leading \<le> fst (he_clock silent w)" for w
    by (simp add: silent_def still_def leading_def)
  then have "stepped_down (fst (snd (run_loop_once cfg_a silent (leading, ()))))"
    using isolated_primary_steps_down [OF silent_unanswered cfg_a_voters _ unit_world, of leading "()"]
    by (simp add: stepped_down_def)
  then show ?thesis by (simp add: guard_valid_def leading_def start_engine_def cfg_a_def)
qed

text \<open>Peers that still report the lease of node \<open>a\<close> and then answer no renewal.\<close>

definition fading :: "unit ha_env" where
  "fading = still (\<lambda>n p. if jtext p ''op'' = ''status'' then Inr (voter_status cfg_b 55 (snd voted_b)) else Inl ''tep_unavailable'')"

text \<open> A node that finds its own name in the majority view takes the lease before anyone grants it: when
  the renewal that follows gets no grant from the other voters, \<open>local_status\<close> reports the role primary for a
  whole lease although no guard file was written and the primary-only services were not started.
\<close>
theorem resumed_lease_without_grants:
  "let e = fst (snd (run_loop_once cfg_a fading (start_engine cfg_a 95 1 ''a'' None, ()))) in
     en_guard e = None \<and> en_desired e = Standby \<and> en_ldeadline e = 112 \<and>
     jget (local_status cfg_a 105 e) ''local_role'' = JStr ''primary''"
  by code_simp

end
