(* ===== verification/Json_Text.thy ===== *)
theory Json_Text
  imports Json "HOL-Library.Char_ord" "HOL-Library.List_Lexorder"
begin

text \<open>
  \<open>json.dumps(.., sort_keys=True, separators=(",", ":"), ensure_ascii=False)\<close>, \<open>json.loads\<close> and the
  UTF-8 codec, as the TEP messages use them. Texts are limited to code points below 256: a \<open>\u\<close> escape or
  UTF-8 sequence beyond is refused here. The integer digit limit of the interpreter (4300) is kept because
  its \<open>ValueError\<close> is not a \<open>JSONDecodeError\<close>. \<open>NaN\<close> and \<open>Infinity\<close> are left out; a parsed
  float keeps the text of its literal.
\<close>

datatype json_error = Bad_json | Digit_limit | Out_of_fuel

section \<open>UTF-8\<close>

definition utf8_char :: "char \<Rightarrow> string" where
  "utf8_char c =
     (let n = (of_char c :: nat) in if n < 128 then [c] else [char_of (192 + n div 64), char_of (128 + n mod 64)])"

definition utf8_encode :: "string \<Rightarrow> string" where
  "utf8_encode s = concat (map utf8_char s)"

fun utf8_decode :: "string \<Rightarrow> string option" where
  "utf8_decode [] = Some []"
| "utf8_decode (b # bs) =
     (let n = (of_char b :: nat)
      in if n < 128 then map_option ((#) b) (utf8_decode bs)
         else if n = 194 \<or> n = 195 then
           (case bs of
              [] \<Rightarrow> None
            | c # cs \<Rightarrow>
                if 128 \<le> (of_char c :: nat) \<and> (of_char c :: nat) < 192
                then map_option ((#) (char_of ((n - 192) * 64 + ((of_char c :: nat) - 128)))) (utf8_decode cs)
                else None)
         else None)"

section \<open>Writing\<close>

definition esc_char :: "char \<Rightarrow> string" where
  "esc_char c =
     (let n = (of_char c :: nat); bs = CHR 0x5C
      in if n = 34 \<or> n = 92 then [bs, c]
         else if n = 10 then [bs, CHR ''n'']
         else if n = 13 then [bs, CHR ''r'']
         else if n = 9 then [bs, CHR ''t'']
         else if n = 12 then [bs, CHR ''f'']
         else if n = 8 then [bs, CHR ''b'']
         else if n < 32 then [bs, CHR ''u'', CHR ''0'', CHR ''0'', hex_digit (n div 16), hex_digit (n mod 16)]
         else [c])"

definition json_string :: "string \<Rightarrow> string" where
  "json_string s = CHR 0x22 # concat (map esc_char s) @ [CHR 0x22]"

text \<open>\<open>json.dumps\<close> of a text, in ASCII.\<close>

definition ascii_json_char :: "char \<Rightarrow> string" where
  "ascii_json_char c =
     (let n = (of_char c :: nat)
      in if 127 \<le> n then [CHR 0x5C, CHR ''u'', CHR ''0'', CHR ''0'', hex_digit (n div 16), hex_digit (n mod 16)] else esc_char c)"

definition ascii_json :: "string \<Rightarrow> string" where
  "ascii_json s = [CHR 0x22] @ concat (map ascii_json_char s) @ [CHR 0x22]"

fun dump :: "json \<Rightarrow> string" where
  "dump JNull = ''null''"
| "dump (JBool b) = (if b then ''true'' else ''false'')"
| "dump (JInt k) = show_int k"
| "dump (JFloat x t) = t"
| "dump (JStr s) = json_string s"
| "dump (JList xs) = CHR ''['' # join '','' (map dump xs) @ '']''"
| "dump (JObj kvs) = CHR ''{'' # join '','' (map (\<lambda>kv. json_string (fst kv) @ CHR '':'' # dump (snd kv)) kvs) @ ''}''"

text \<open>\<open>json.dumps(v, separators=(",", ":"))\<close>: ASCII output, keys in the order of the dictionary.\<close>

fun dump_ascii :: "json \<Rightarrow> string" where
  "dump_ascii (JStr s) = ascii_json s"
| "dump_ascii (JList xs) = CHR ''['' # join '','' (map dump_ascii xs) @ '']''"
| "dump_ascii (JObj kvs) = CHR ''{'' # join '','' (map (\<lambda>kv. ascii_json (fst kv) @ CHR '':'' # dump_ascii (snd kv)) kvs) @ ''}''"
| "dump_ascii v = dump v"

text \<open>\<open>sort_keys=True\<close> at every level.\<close>

fun sort_keys :: "json \<Rightarrow> json" where
  "sort_keys (JList xs) = JList (map sort_keys xs)"
| "sort_keys (JObj kvs) = JObj (sort_key fst (map (\<lambda>kv. (fst kv, sort_keys (snd kv))) kvs))"
| "sort_keys v = v"

definition int_digits :: "int \<Rightarrow> nat" where
  "int_digits k = length (show_nat (nat \<bar>k\<bar>))"

fun ints_short :: "json \<Rightarrow> bool" where
  "ints_short (JInt k) = (int_digits k \<le> 4300)"
| "ints_short (JList xs) = (\<forall>x \<in> set xs. ints_short x)"
| "ints_short (JObj kvs) = (\<forall>kv \<in> set kvs. ints_short (snd kv))"
| "ints_short v = True"

definition json_dumps :: "json \<Rightarrow> json_error + string" where
  "json_dumps v = (if ints_short v then Inr (dump (sort_keys v)) else Inl Digit_limit)"

section \<open>Reading\<close>

definition json_space :: "char \<Rightarrow> bool" where
  "json_space c \<longleftrightarrow> (of_char c :: nat) \<in> {32, 9, 10, 13}"

definition skip_ws :: "string \<Rightarrow> string" where
  "skip_ws s = dropWhile json_space s"

definition hex_val :: "char \<Rightarrow> nat option" where
  "hex_val c =
     (let n = (of_char c :: nat)
      in if 48 \<le> n \<and> n \<le> 57 then Some (n - 48)
         else if 97 \<le> n \<and> n \<le> 102 then Some (n - 87)
         else if 65 \<le> n \<and> n \<le> 70 then Some (n - 55)
         else None)"

text \<open>The four digits of a \<open>\u\<close> escape; only code points below 256 are kept.\<close>

definition hex4 :: "char \<Rightarrow> char \<Rightarrow> char \<Rightarrow> char \<Rightarrow> char option" where
  "hex4 a b c d =
     (case (hex_val a, hex_val b, hex_val c, hex_val d) of
        (Some w, Some x, Some y, Some z) \<Rightarrow> if w = 0 \<and> x = 0 then Some (char_of (y * 16 + z)) else None
      | _ \<Rightarrow> None)"

definition esc_val :: "char \<Rightarrow> char option" where
  "esc_val e =
     (let n = (of_char e :: nat)
      in if n = 34 \<or> n = 92 \<or> n = 47 then Some e
         else if e = CHR ''n'' then Some (char_of (10 :: nat))
         else if e = CHR ''r'' then Some (char_of (13 :: nat))
         else if e = CHR ''t'' then Some (char_of (9 :: nat))
         else if e = CHR ''f'' then Some (char_of (12 :: nat))
         else if e = CHR ''b'' then Some (char_of (8 :: nat))
         else None)"

definition cons_to :: "char \<Rightarrow> json_error + string \<times> string \<Rightarrow> json_error + string \<times> string" where
  "cons_to c r = bind_r r (\<lambda>(s, rest). Inr (c # s, rest))"

text \<open>The rest of a string literal, after its opening quote.\<close>

fun read_chars :: "string \<Rightarrow> json_error + string \<times> string" where
  "read_chars [] = Inl Bad_json"
| "read_chars (c # cs) =
     (if c = CHR 0x22 then Inr ([], cs)
      else if (of_char c :: nat) < 32 then Inl Bad_json
      else if c = CHR 0x5C then
        (case cs of
           [] \<Rightarrow> Inl Bad_json
         | e # es \<Rightarrow>
             if e = CHR ''u'' then
               (case es of
                  x1 # x2 # x3 # x4 # rest \<Rightarrow>
                    (case hex4 x1 x2 x3 x4 of None \<Rightarrow> Inl Bad_json | Some y \<Rightarrow> cons_to y (read_chars rest))
                | _ \<Rightarrow> Inl Bad_json)
             else (case esc_val e of None \<Rightarrow> Inl Bad_json | Some y \<Rightarrow> cons_to y (read_chars es)))
      else cons_to c (read_chars cs))"

section \<open>Numbers\<close>

definition digits_val :: "string \<Rightarrow> int" where
  "digits_val ds = foldl (\<lambda>a c. 10 * a + digit_val c) 0 ds"

text \<open>\<open>0\<close> or a digit sequence that does not start with \<open>0\<close>.\<close>

definition int_part :: "string \<Rightarrow> string" where
  "int_part s = (case s of [] \<Rightarrow> [] | c # cs \<Rightarrow> if c = CHR ''0'' then [c] else takeWhile is_digit s)"

definition frac_part :: "string \<Rightarrow> string" where
  "frac_part s = (case s of [] \<Rightarrow> [] | c # cs \<Rightarrow> if c = CHR ''.'' then takeWhile is_digit cs else [])"

definition exp_sign :: "string \<Rightarrow> string" where
  "exp_sign s = (case s of [] \<Rightarrow> [] | c # cs \<Rightarrow> if c = CHR ''+'' \<or> c = CHR ''-'' then [c] else [])"

definition exp_part :: "string \<Rightarrow> string" where
  "exp_part s =
     (case s of
        [] \<Rightarrow> []
      | c # cs \<Rightarrow>
          if c = CHR ''e'' \<or> c = CHR ''E'' then
            (let sg = exp_sign cs; ds = takeWhile is_digit (drop (length sg) cs)
             in if ds = [] then [] else c # sg @ ds)
          else [])"

definition exp_val :: "string \<Rightarrow> int" where
  "exp_val t = (let ds = drop (1 + length (exp_sign (drop 1 t))) t
                in if exp_sign (drop 1 t) = ''-'' then - digits_val ds else digits_val ds)"

definition float_val :: "bool \<Rightarrow> string \<Rightarrow> string \<Rightarrow> string \<Rightarrow> py_float" where
  "float_val neg ds fs es =
     (let m = (if neg then - 1 else 1) * of_int (digits_val (ds @ fs));
          p = (if es = [] then 0 else exp_val es) - int (length fs)
      in if 0 \<le> p then m * 10 ^ nat p else m / 10 ^ nat (- p))"

definition read_number :: "string \<Rightarrow> json_error + json \<times> string" where
  "read_number s =
     (let neg = (s \<noteq> [] \<and> hd s = CHR ''-''); s1 = (if neg then drop 1 s else s);
          ds = int_part s1; s2 = drop (length ds) s1;
          fs = frac_part s2; s3 = (if fs = [] then s2 else drop (1 + length fs) s2);
          es = exp_part s3; s4 = drop (length es) s3;
          t = take (length s - length s4) s
      in if ds = [] then Inl Bad_json
         else if fs = [] \<and> es = [] then
           (if 4300 < length ds then Inl Digit_limit
            else Inr (JInt (if neg then - digits_val ds else digits_val ds), s2))
         else Inr (JFloat (float_val neg ds fs es) t, s4))"

section \<open>Values\<close>

definition literal :: "string \<Rightarrow> json \<Rightarrow> string \<Rightarrow> json_error + json \<times> string" where
  "literal w v s = (if starts_with w s then Inr (v, drop (length w) s) else Inl Bad_json)"

definition next_char :: "string \<Rightarrow> json_error + char \<times> string" where
  "next_char s = (case s of [] \<Rightarrow> Inl Bad_json | c # cs \<Rightarrow> Inr (c, cs))"

definition expect :: "char \<Rightarrow> string \<Rightarrow> json_error + string" where
  "expect c s = bind_r (next_char s) (\<lambda>(d, rest). if d = c then Inr rest else Inl Bad_json)"

text \<open>
  The recursive descent of the scanner: a value; the rest of an array after \<open>[\<close> or a comma; the rest
  of an object. Fuel bounds the recursion.
\<close>

fun read_value :: "nat \<Rightarrow> string \<Rightarrow> json_error + json \<times> string"
  and read_items :: "nat \<Rightarrow> string \<Rightarrow> json_error + json list \<times> string"
  and read_members :: "nat \<Rightarrow> jobj \<Rightarrow> string \<Rightarrow> json_error + jobj \<times> string" where
  "read_value 0 s = Inl Out_of_fuel"
| "read_value (Suc n) [] = Inl Bad_json"
| "read_value (Suc n) (c # cs) =
     (if c = CHR 0x22 then bind_r (read_chars cs) (\<lambda>(t, rest). Inr (JStr t, rest))
      else if c = CHR ''{'' then
        (let s = skip_ws cs
         in if s \<noteq> [] \<and> hd s = CHR ''}'' then Inr (JObj [], tl s)
            else bind_r (read_members n [] s) (\<lambda>(kvs, rest). Inr (JObj kvs, rest)))
      else if c = CHR ''['' then
        (let s = skip_ws cs
         in if s \<noteq> [] \<and> hd s = CHR '']'' then Inr (JList [], tl s)
            else bind_r (read_items n s) (\<lambda>(xs, rest). Inr (JList xs, rest)))
      else if c = CHR ''n'' then literal ''null'' JNull (c # cs)
      else if c = CHR ''t'' then literal ''true'' (JBool True) (c # cs)
      else if c = CHR ''f'' then literal ''false'' (JBool False) (c # cs)
      else read_number (c # cs))"
| "read_items 0 s = Inl Out_of_fuel"
| "read_items (Suc n) s =
     bind_r (read_value n s) (\<lambda>(x, r1).
     bind_r (next_char (skip_ws r1)) (\<lambda>(d, r2).
       if d = CHR '']'' then Inr ([x], r2)
       else if d = CHR '','' then bind_r (read_items n (skip_ws r2)) (\<lambda>(xs, r3). Inr (x # xs, r3))
       else Inl Bad_json))"
| "read_members 0 acc s = Inl Out_of_fuel"
| "read_members (Suc n) acc s =
     bind_r (expect (CHR 0x22) s) (\<lambda>r0.
     bind_r (read_chars r0) (\<lambda>(k, r1).
     bind_r (expect (CHR '':'') (skip_ws r1)) (\<lambda>r2.
     bind_r (read_value n (skip_ws r2)) (\<lambda>(v, r3).
     bind_r (next_char (skip_ws r3)) (\<lambda>(d, r4).
       if d = CHR ''}'' then Inr (put_key k v acc, r4)
       else if d = CHR '','' then read_members n (put_key k v acc) (skip_ws r4)
       else Inl Bad_json)))))"

definition json_loads :: "string \<Rightarrow> json_error + json" where
  "json_loads s =
     bind_r (read_value (2 * length s + 2) (skip_ws s)) (\<lambda>(v, rest).
       if skip_ws rest = [] then Inr v else Inl Bad_json)"


text \<open>\<open>json.loads(raw.decode("utf-8"))\<close>\<close>

definition loads_bytes :: "string \<Rightarrow> json_error + json" where
  "loads_bytes raw = (case utf8_decode raw of None \<Rightarrow> Inl Bad_json | Some t \<Rightarrow> json_loads t)"

section \<open>Round trips\<close>

lemma next_char_simps [simp]: "next_char [] = Inl Bad_json" "next_char (c # cs) = Inr (c, cs)"
  by (simp_all add: next_char_def)

lemma next_char_Inr: "next_char s = Inr (d, ds) \<longleftrightarrow> s = d # ds"
  by (cases s) auto

lemma expect_simps [simp]: "expect c (c # cs) = Inr cs"
  by (simp add: expect_def)

lemma expect_Inr: "expect c s = Inr r \<longleftrightarrow> s = c # r"
  by (cases s) (auto simp: expect_def)

lemma expect_fuel [simp]: "expect c s \<noteq> Inl Out_of_fuel" "next_char s \<noteq> Inl Out_of_fuel"
  by (cases s; simp add: expect_def)+

lemma of_char_less: "(of_char c :: nat) < 256"
  by simp

lemma utf8_char_split:
  assumes "128 \<le> (of_char c :: nat)"
  shows "192 + (of_char c :: nat) div 64 \<in> {194, 195}" "128 + (of_char c :: nat) mod 64 < 192"
    "(of_char c :: nat) div 64 * 64 + of_char c mod 64 = of_char c"
proof -
  have "2 \<le> (of_char c :: nat) div 64" using assms by simp
  moreover have "(of_char c :: nat) div 64 < 4" using of_char_less [of c] by linarith
  ultimately show "192 + (of_char c :: nat) div 64 \<in> {194, 195}" by auto
qed simp_all

lemma utf8_decode_char: "utf8_decode (utf8_char c @ s) = map_option ((#) c) (utf8_decode s)"
proof (cases "(of_char c :: nat) < 128")
  case True
  then show ?thesis by (simp add: utf8_char_def)
next
  case False
  note sp = utf8_char_split [of c]
  have d: "(192 + (of_char c :: nat) div 64 - 192) * 64 + (128 + of_char c mod 64 - 128) = of_char c"
    using False sp by simp
  have m: "(192 + (of_char c :: nat) div 64) mod 256 = 192 + of_char c div 64" "(128 + (of_char c :: nat) mod 64) mod 256 = 128 + of_char c mod 64"
    using sp False by auto
  show ?thesis using False sp(1,2) d by (auto simp: utf8_char_def Let_def m)
qed

lemma utf8_round_trip: "utf8_decode (utf8_encode s) = Some s"
  by (induction s) (simp_all add: utf8_encode_def utf8_decode_char)

lemma hex_val_digit: "d < 16 \<Longrightarrow> hex_val (hex_digit d) = Some d"
  by (auto simp: hex_val_def hex_digit_def Let_def)

lemma char_eqI: "(of_char c :: nat) = of_char d \<Longrightarrow> c = d"
  by simp

lemma hex4_code: "hex4 (CHR ''0'') (CHR ''0'') (hex_digit (of_char c div 16)) (hex_digit (of_char c mod 16)) = Some c"
proof -
  have "hex_val (CHR ''0'') = Some 0" by (simp add: hex_val_def)
  moreover have "hex_val (hex_digit ((of_char c :: nat) div 16)) = Some (of_char c div 16)"
    using of_char_less [of c] by (intro hex_val_digit less_mult_imp_div_less) simp
  moreover have "hex_val (hex_digit ((of_char c :: nat) mod 16)) = Some (of_char c mod 16)"
    by (intro hex_val_digit) simp
  moreover have "(of_char c :: nat) div 16 * 16 + of_char c mod 16 = of_char c" by simp
  ultimately show ?thesis by (simp add: hex4_def)
qed

lemma char_of_nat_eq: "(of_char c :: nat) = k \<Longrightarrow> c = char_of k"
  by auto

declare read_chars.simps [simp del]

lemma read_chars_quote [simp]: "read_chars (CHR 0x22 # cs) = Inr ([], cs)"
  by (simp add: read_chars.simps)

lemma read_chars_plain:
  "32 \<le> (of_char c :: nat) \<Longrightarrow> c \<noteq> CHR 0x22 \<Longrightarrow> c \<noteq> CHR 0x5C \<Longrightarrow> read_chars (c # cs) = cons_to c (read_chars cs)"
  by (subst read_chars.simps) simp

lemma read_chars_escape: "e \<noteq> CHR ''u'' \<Longrightarrow> esc_val e = Some y \<Longrightarrow> read_chars (CHR 0x5C # e # es) = cons_to y (read_chars es)"
  by (subst read_chars.simps) simp

lemma read_chars_hex: "hex4 a b c d = Some y \<Longrightarrow> read_chars (CHR 0x5C # CHR ''u'' # a # b # c # d # es) = cons_to y (read_chars es)"
  by (subst read_chars.simps) simp

lemma read_chars_esc: "read_chars (esc_char c @ s) = cons_to c (read_chars s)"
proof -
  let ?n = "of_char c :: nat"
  have small: "c \<noteq> CHR 0x22 \<and> c \<noteq> CHR 0x5C" if "?n \<noteq> 34" "?n \<noteq> 92" using that by auto
  have u: "?n = 117" if "c = CHR ''u''" using that by simp
  consider "?n = 34" | "?n = 92" | "?n = 10" | "?n = 13" | "?n = 9" | "?n = 12" | "?n = 8"
    | "?n < 32" "?n \<notin> {10, 13, 9, 12, 8}" | "32 \<le> ?n" "?n \<noteq> 34" "?n \<noteq> 92"
    by fastforce
  then show ?thesis
  proof cases
    case 8
    then have "esc_char c = [CHR 0x5C, CHR ''u'', CHR ''0'', CHR ''0'', hex_digit (?n div 16), hex_digit (?n mod 16)]"
      by (simp add: esc_char_def Let_def)
    then show ?thesis using read_chars_hex [OF hex4_code [of c]] by simp
  next
    case 9
    then show ?thesis using small by (simp add: esc_char_def read_chars_plain)
  next
    case 1
    with u have "c \<noteq> CHR ''u''" by auto
    with 1 show ?thesis by (auto simp: esc_char_def esc_val_def Let_def intro!: read_chars_escape)
  next
    case 2
    with u have "c \<noteq> CHR ''u''" by auto
    with 2 show ?thesis by (auto simp: esc_char_def esc_val_def Let_def intro!: read_chars_escape)
  qed (use char_of_nat_eq [of c] in \<open>auto simp: esc_char_def esc_val_def Let_def intro!: read_chars_escape\<close>)
qed

lemma read_chars_string: "read_chars (concat (map esc_char t) @ CHR 0x22 # s) = Inr (t, s)"
  by (induction t) (simp_all add: read_chars_esc cons_to_def)

lemma read_chars_ascii: "read_chars (concat (map ascii_json_char t) @ CHR 0x22 # s) = Inr (t, s)"
proof (induction t)
  case (Cons c t)
  have "read_chars (ascii_json_char c @ s') = cons_to c (read_chars s')" for s'
    using read_chars_hex [OF hex4_code] read_chars_esc by (simp add: ascii_json_char_def Let_def)
  then show ?case using Cons by (simp add: cons_to_def)
qed simp

lemma is_digit_digit_char [simp]: "d < 10 \<Longrightarrow> is_digit (digit_char d)"
  by (simp add: is_digit_def digit_char_def Let_def)

lemma digit_val_digit_char [simp]: "d < 10 \<Longrightarrow> digit_val (digit_char d) = int d"
  by (simp add: digit_val_def digit_char_def)

lemma digits_val_snoc: "digits_val (ds @ [c]) = 10 * digits_val ds + digit_val c"
  by (simp add: digits_val_def)

lemma show_nat_digits: "show_nat n \<noteq> [] \<and> (\<forall>c \<in> set (show_nat n). is_digit c) \<and> digits_val (show_nat n) = int n"
proof (induction n rule: show_nat.induct)
  case (1 n)
  show ?case
  proof (cases "n < 10")
    case True
    then show ?thesis by (subst (1 2 3) show_nat.simps) (simp add: digits_val_def)
  next
    case False
    then have "show_nat n = show_nat (n div 10) @ [digit_char (n mod 10)]" by (subst show_nat.simps) simp
    moreover have "10 * int (n div 10) + int (n mod 10) = int n" by presburger
    ultimately show ?thesis using 1 [OF False] by (simp add: digits_val_snoc)
  qed
qed

lemma digit_char_0: "d < 10 \<Longrightarrow> digit_char d = CHR ''0'' \<longleftrightarrow> d = 0"
proof
  assume d: "d < 10" "digit_char d = CHR ''0''"
  then have "(of_char (digit_char d) :: nat) = 48" by simp
  then show "d = 0" using d(1) by (simp add: digit_char_def)
next
  assume "d = 0"
  moreover have "digit_char 0 = CHR ''0''" by code_simp
  ultimately show "digit_char d = CHR ''0''" by simp
qed

lemma show_nat_head: "n \<noteq> 0 \<Longrightarrow> hd (show_nat n) \<noteq> CHR ''0''"
proof (induction n rule: show_nat.induct)
  case (1 n)
  show ?case
  proof (cases "n < 10")
    case True
    then show ?thesis using 1(2) by (subst show_nat.simps) (simp add: digit_char_0)
  next
    case False
    then have "n div 10 \<noteq> 0" by simp
    with False show ?thesis using 1(1) [OF False] show_nat_digits [of "n div 10"] by (subst show_nat.simps) simp
  qed
qed

lemma show_nat_0: "show_nat 0 = ''0''"
  by code_simp

text \<open>What may follow a value.\<close>

definition ends :: "string \<Rightarrow> bool" where
  "ends rest \<longleftrightarrow> rest = [] \<or> hd rest \<in> {CHR '','', CHR '']'', CHR ''}''}"

lemma ends_simps [simp]: "ends []" "ends (CHR '','' # s)" "ends (CHR '']'' # s)" "ends (CHR ''}'' # s)"
  by (simp_all add: ends_def)

lemma ends_not_digit: "ends rest \<Longrightarrow> takeWhile is_digit rest = []"
  by (cases rest) (auto simp: ends_def is_digit_def)

lemma ends_no_frac: "ends rest \<Longrightarrow> frac_part rest = [] \<and> exp_part rest = []"
  by (cases rest) (auto simp: ends_def frac_part_def exp_part_def)

lemma int_part_show: "ends rest \<Longrightarrow> int_part (show_nat n @ rest) = show_nat n"
proof (cases "n = 0")
  case False
  assume e: "ends rest"
  obtain c cs where c: "show_nat n = c # cs" using show_nat_digits [of n] by (cases "show_nat n") auto
  have "takeWhile is_digit (show_nat n @ rest) = show_nat n"
    using show_nat_digits [of n] ends_not_digit [OF e] by (simp add: takeWhile_append2)
  then show ?thesis using show_nat_head [OF False] by (simp add: int_part_def c)
qed (simp add: int_part_def show_nat_0)

lemma show_nat_not_minus: "hd (show_nat n @ s) \<noteq> CHR ''-''"
  using show_nat_digits [of n] by (cases "show_nat n") (auto simp: is_digit_def)

lemma read_number_show:
  assumes "ends rest" "int_digits k \<le> 4300"
  shows "read_number (show_int k @ rest) = Inr (JInt k, rest)"
proof (cases "k < 0")
  case True
  then show ?thesis
    using assms show_nat_digits [of "nat (- k)"] ends_no_frac [OF assms(1)]
    by (simp add: read_number_def show_int_def int_part_show int_digits_def Let_def)
next
  case False
  then show ?thesis
    using assms show_nat_digits [of "nat k"] ends_no_frac [OF assms(1)] show_nat_not_minus [of "nat k" rest]
    by (simp add: read_number_def show_int_def int_part_show int_digits_def Let_def)
qed


section \<open>Values\<close>

text \<open>Values whose text reads back exactly: no floats, keys distinct, integers within the digit limit.\<close>

fun plain :: "json \<Rightarrow> bool" where
  "plain (JFloat x t) = False"
| "plain (JInt k) = (int_digits k \<le> 4300)"
| "plain (JList xs) = (\<forall>x \<in> set xs. plain x)"
| "plain (JObj kvs) = (distinct (map fst kvs) \<and> (\<forall>kv \<in> set kvs. plain (snd kv)))"
| "plain v = True"

definition starts_value :: "char \<Rightarrow> bool" where
  "starts_value c \<longleftrightarrow> \<not> json_space c \<and> c \<notin> {CHR '']'', CHR ''}'', CHR '','', CHR '':''}"

lemma is_digit_starts: "is_digit c \<Longrightarrow> starts_value c \<and> c \<notin> {CHR 0x22, CHR ''{'', CHR ''['', CHR ''n'', CHR ''t'', CHR ''f'', CHR ''-''}"
  by (auto simp: is_digit_def starts_value_def json_space_def Let_def)

lemma show_int_head:
  "\<exists>c cs. show_int k = c # cs \<and> starts_value c \<and> c \<notin> {CHR 0x22, CHR ''{'', CHR ''['', CHR ''n'', CHR ''t'', CHR ''f''}"
proof (cases "k < 0")
  case True
  then show ?thesis by (simp add: show_int_def starts_value_def json_space_def)
next
  case False
  obtain c cs where "show_nat (nat k) = c # cs" using show_nat_digits [of "nat k"] by (cases "show_nat (nat k)") auto
  then show ?thesis using False show_nat_digits [of "nat k"] is_digit_starts [of c] by (auto simp: show_int_def)
qed

lemma dump_head: "plain v \<Longrightarrow> \<exists>c cs. dump v = c # cs \<and> starts_value c"
  using show_int_head by (cases v) (fastforce simp: json_string_def starts_value_def json_space_def)+

lemma skip_ws_starts: "starts_value c \<Longrightarrow> skip_ws (c # cs) = c # cs"
  by (simp add: skip_ws_def starts_value_def)

lemma skip_ws_ends: "ends s \<Longrightarrow> skip_ws s = s"
  by (cases s) (auto simp: skip_ws_def ends_def json_space_def)

lemma skip_ws_dump: "plain v \<Longrightarrow> skip_ws (dump v @ s) = dump v @ s"
  using dump_head [of v] by (auto simp: skip_ws_starts)

lemma join_Cons: "join sep (x # xs) = x @ (if xs = [] then [] else sep @ join sep xs)"
  by (cases xs) auto

text \<open>What the induction on values provides for each member.\<close>

definition reads_back :: "json \<Rightarrow> bool" where
  "reads_back v \<longleftrightarrow>
     (\<forall>n rest. ends rest \<longrightarrow> 2 * length (dump v) < n \<longrightarrow> read_value n (dump v @ rest) = Inr (v, rest))"

lemma reads_backD: "reads_back v \<Longrightarrow> ends rest \<Longrightarrow> 2 * length (dump v) < n \<Longrightarrow> read_value n (dump v @ rest) = Inr (v, rest)"
  by (simp add: reads_back_def)

lemma read_items_join:
  assumes "xs \<noteq> []" "\<forall>x \<in> set xs. plain x \<and> reads_back x" "2 * length (join '','' (map dump xs)) + 1 < n"
  shows "read_items n (join '','' (map dump xs) @ CHR '']'' # rest) = Inr (xs, rest)"
  using assms
proof (induction xs arbitrary: n)
  case (Cons x xs)
  obtain m where m: "n = Suc m" using Cons.prems(3) by (cases n) auto
  let ?tail = "(if xs = [] then [] else '','' @ join '','' (map dump xs)) @ CHR '']'' # rest"
  have v: "read_value m (dump x @ ?tail) = Inr (x, ?tail)"
    using Cons.prems m by (intro reads_backD) (auto simp: join_Cons)
  have e: "join '','' (map dump (x # xs)) @ CHR '']'' # rest = dump x @ ?tail" by (simp add: join_Cons)
  show ?case
  proof (cases "xs = []")
    case True
    then show ?thesis using v unfolding e m by (simp add: skip_ws_ends)
  next
    case False
    have j: "skip_ws (join '','' (map dump xs) @ CHR '']'' # rest) = join '','' (map dump xs) @ CHR '']'' # rest"
      using False Cons.prems(2) skip_ws_dump by (cases xs) (auto simp: join_Cons)
    have "read_items m (join '','' (map dump xs) @ CHR '']'' # rest) = Inr (xs, rest)"
      using Cons.prems(2,3) m False by (intro Cons.IH) (auto simp: join_Cons)
    then show ?thesis using v False j unfolding e m by (simp add: skip_ws_ends)
  qed
qed simp

definition dump_member :: "string \<times> json \<Rightarrow> string" where
  "dump_member kv = json_string (fst kv) @ CHR '':'' # dump (snd kv)"

lemma dump_obj: "dump (JObj kvs) = CHR ''{'' # join '','' (map dump_member kvs) @ ''}''"
  by (simp add: dump_member_def [abs_def])

lemma skip_ws_member: "skip_ws (dump_member kv @ s) = dump_member kv @ s"
  by (simp add: dump_member_def json_string_def skip_ws_starts starts_value_def json_space_def)

lemma read_members_join:
  assumes "kvs \<noteq> []" "\<forall>kv \<in> set kvs. plain (snd kv) \<and> reads_back (snd kv)" "distinct (map fst (acc @ kvs))"
    and "2 * length (join '','' (map dump_member kvs)) < n"
  shows "read_members n acc (join '','' (map dump_member kvs) @ CHR ''}'' # rest) = Inr (acc @ kvs, rest)"
  using assms
proof (induction kvs arbitrary: n acc)
  case (Cons kv kvs)
  obtain m where m: "n = Suc m" using Cons.prems(4) by (cases n) auto
  obtain k v where kv: "kv = (k, v)" by fastforce
  let ?tail = "(if kvs = [] then [] else '','' @ join '','' (map dump_member kvs)) @ CHR ''}'' # rest"
  have v: "read_value m (dump v @ ?tail) = Inr (v, ?tail)"
    using Cons.prems m by (intro reads_backD) (auto simp: join_Cons kv dump_member_def json_string_def)
  have sv: "skip_ws (dump v @ ?tail) = dump v @ ?tail"
    by (rule skip_ws_dump) (use Cons.prems(2) kv in auto)
  have e: "join '','' (map dump_member (kv # kvs)) @ CHR ''}'' # rest =
      CHR 0x22 # concat (map esc_char k) @ CHR 0x22 # CHR '':'' # dump v @ ?tail"
    by (simp add: join_Cons kv dump_member_def json_string_def)
  have p: "put_key k v acc = acc @ [kv]" using Cons.prems(3) by (auto simp: kv intro!: put_key_new)
  have c: "skip_ws (CHR '':'' # s) = CHR '':'' # s" for s by (simp add: skip_ws_def json_space_def)
  show ?case
  proof (cases "kvs = []")
    case True
    then show ?thesis using v sv unfolding e m by (simp add: read_chars_string c p skip_ws_ends)
  next
    case False
    have j: "skip_ws (join '','' (map dump_member kvs) @ CHR ''}'' # rest) = join '','' (map dump_member kvs) @ CHR ''}'' # rest"
      using False skip_ws_member by (cases kvs) (auto simp: join_Cons)
    have "read_members m (acc @ [kv]) (join '','' (map dump_member kvs) @ CHR ''}'' # rest) = Inr ((acc @ [kv]) @ kvs, rest)"
      using Cons.prems(2,3,4) m False by (intro Cons.IH) (auto simp: join_Cons)
    then show ?thesis using v sv False j unfolding e m by (simp add: read_chars_string c p skip_ws_ends)
  qed
qed simp

lemma reads_backI:
  assumes "\<And>m rest. ends rest \<Longrightarrow> 2 * length (dump v) \<le> m \<Longrightarrow> read_value (Suc m) (dump v @ rest) = Inr (v, rest)"
  shows "reads_back v"
  unfolding reads_back_def
proof (intro allI impI)
  fix n rest assume "ends rest" "2 * length (dump v) < n"
  then show "read_value n (dump v @ rest) = Inr (v, rest)" using assms [of rest "n - 1"] by (cases n) auto
qed

lemma read_value_list:
  assumes "\<forall>x \<in> set xs. plain x \<and> reads_back x"
  shows "reads_back (JList xs)"
proof (rule reads_backI)
  fix m rest assume n: "2 * length (dump (JList xs)) \<le> m"
  show "read_value (Suc m) (dump (JList xs) @ rest) = Inr (JList xs, rest)"
  proof (cases xs)
    case Nil
    then show ?thesis by (simp add: skip_ws_ends)
  next
    case (Cons x ys)
    have "skip_ws (join '','' (map dump xs) @ CHR '']'' # rest) = join '','' (map dump xs) @ CHR '']'' # rest"
      using assms skip_ws_dump Cons by (auto simp: join_Cons)
    moreover have "join '','' (map dump xs) @ CHR '']'' # rest \<noteq> []" "hd (join '','' (map dump xs) @ CHR '']'' # rest) \<noteq> CHR '']''"
      using assms dump_head [of x] Cons by (auto simp: join_Cons starts_value_def)
    moreover have "read_items m (join '','' (map dump xs) @ CHR '']'' # rest) = Inr (xs, rest)"
      by (rule read_items_join) (use assms n Cons in auto)
    ultimately show ?thesis by simp
  qed
qed

lemma read_value_obj:
  assumes "\<forall>kv \<in> set kvs. plain (snd kv) \<and> reads_back (snd kv)" "distinct (map fst kvs)"
  shows "reads_back (JObj kvs)"
proof (rule reads_backI)
  fix m rest assume n: "2 * length (dump (JObj kvs)) \<le> m"
  show "read_value (Suc m) (dump (JObj kvs) @ rest) = Inr (JObj kvs, rest)"
  proof (cases kvs)
    case Nil
    then show ?thesis by (simp add: skip_ws_ends)
  next
    case (Cons kv ys)
    have "skip_ws (join '','' (map dump_member kvs) @ CHR ''}'' # rest) = join '','' (map dump_member kvs) @ CHR ''}'' # rest"
      using skip_ws_member Cons by (auto simp: join_Cons)
    moreover have "join '','' (map dump_member kvs) @ CHR ''}'' # rest \<noteq> []" "hd (join '','' (map dump_member kvs) @ CHR ''}'' # rest) \<noteq> CHR ''}''"
      using Cons by (auto simp: join_Cons dump_member_def json_string_def)
    moreover have "read_members m [] (join '','' (map dump_member kvs) @ CHR ''}'' # rest) = Inr ([] @ kvs, rest)"
      by (rule read_members_join) (use assms n Cons in \<open>auto simp: dump_obj simp del: dump.simps\<close>)
    ultimately show ?thesis by (simp add: dump_obj del: dump.simps)
  qed
qed

lemma reads_back_scalar: "reads_back JNull" "reads_back (JBool b)" "reads_back (JStr t)"
  by (rule reads_backI, simp add: literal_def json_string_def read_chars_string)+

lemma reads_back: "plain v \<Longrightarrow> reads_back v"
proof (induction v)
  case (JInt k)
  show ?case
  proof (rule reads_backI)
    fix m rest assume "ends rest"
    then show "read_value (Suc m) (dump (JInt k) @ rest) = Inr (JInt k, rest)"
      using show_int_head [of k] read_number_show [of rest k] JInt by auto
  qed
next
  case (JList xs)
  then show ?case by (intro read_value_list) auto
next
  case (JObj kvs)
  then show ?case by (intro read_value_obj) (auto simp: snds.simps)
qed (simp_all add: reads_back_scalar)

lemma loads_dump: "plain v \<Longrightarrow> json_loads (dump v) = Inr v"
proof -
  assume v: "plain v"
  have "read_value (2 * length (dump v) + 2) (dump v @ []) = Inr (v, [])"
    by (rule reads_backD [OF reads_back [OF v]]) auto
  then show ?thesis using skip_ws_dump [OF v, of "[]"] by (simp add: json_loads_def skip_ws_def)
qed

section \<open>Sorted keys\<close>

lemma plain_ints_short: "plain v \<Longrightarrow> ints_short v"
  by (induction v) (auto simp: snds.simps)

lemma plain_sort_keys: "plain v \<Longrightarrow> plain (sort_keys v)"
proof (induction v)
  case (JObj kvs)
  have "map fst (map (\<lambda>kv. (fst kv, sort_keys (snd kv))) kvs) = map fst kvs" by simp
  then show ?case using JObj by (auto simp: snds.simps distinct_map inj_on_def)
qed auto

lemma loads_dumps: "plain v \<Longrightarrow> json_dumps v = Inr t \<Longrightarrow> json_loads t = Inr (sort_keys v)"
  using loads_dump [OF plain_sort_keys] by (auto simp: json_dumps_def plain_ints_short)

lemma map_of_sort_key:
  "distinct (map fst kvs) \<Longrightarrow> map_of (sort_key fst kvs) = map_of kvs"
proof -
  assume d: "distinct (map fst kvs)"
  have "distinct (map fst (sort_key fst kvs))"
    using d by (simp add: distinct_map)
  then show ?thesis using d by (intro map_of_eqI) (auto simp: image_iff)
qed

lemma map_of_map_snd: "map_of (map (\<lambda>kv. (fst kv, f (snd kv))) kvs) k = map_option f (map_of kvs k)"
  by (induction kvs) auto

lemma jget_sort_keys:
  assumes "distinct (map fst kvs)"
  obtains o' where "sort_keys (JObj kvs) = JObj o'" "\<And>k. jget o' k = sort_keys (jget kvs k)"
    "fst ` set o' = fst ` set kvs"
proof
  let ?g = "map (\<lambda>kv. (fst kv, sort_keys (snd kv))) kvs"
  show "sort_keys (JObj kvs) = JObj (sort_key fst ?g)" by simp
  show "fst ` set (sort_key fst ?g) = fst ` set kvs" by (simp add: image_image)
  fix k
  have "map_of (sort_key fst ?g) k = map_option sort_keys (map_of kvs k)"
  proof -
    have "distinct (map fst ?g)" using assms by (simp add: comp_def)
    then show ?thesis by (simp add: map_of_sort_key map_of_map_snd)
  qed
  then show "jget (sort_key fst ?g) k = sort_keys (jget kvs k)"
    by (simp add: jget_def split: option.split)
qed

section \<open>The parser never runs out of fuel\<close>

lemma length_skip_ws: "length (skip_ws s) \<le> length s"
  by (simp add: skip_ws_def length_dropWhile_le)

lemma cons_to_Inr: "cons_to c r = Inr (t, rest) \<longleftrightarrow> (\<exists>t'. r = Inr (t', rest) \<and> t = c # t')"
  by (cases r) (auto simp: cons_to_def)

lemma cons_to_fuel [simp]: "cons_to c r = Inl e \<longleftrightarrow> r = Inl e"
  by (cases r) (auto simp: cons_to_def split: prod.split)

lemma read_chars_progress: "read_chars s = Inr (t, rest) \<Longrightarrow> length rest < length s"
proof (induction "length s" arbitrary: s t rule: less_induct)
  case less
  have step: "length rest < length s" if "read_chars s' = Inr (t', rest)" "length s' < length s" for s' t'
    using less.hyps [OF that(2) that(1)] that(2) by simp
  show ?case
  proof (cases s)
    case (Cons c cs)
    then show ?thesis using less.prems
      by (auto simp: read_chars.simps(2) cons_to_Inr split: if_split_asm list.splits option.splits dest!: step)
  qed (use less.prems in \<open>simp add: read_chars.simps\<close>)
qed

lemma read_chars_fuel: "read_chars s \<noteq> Inl Out_of_fuel"
proof (induction s rule: read_chars.induct)
  case (2 c cs)
  then show ?case by (subst read_chars.simps) (auto split: list.split option.split)
qed (simp add: read_chars.simps)

lemma int_part_length: "length (int_part s) \<le> length s"
  by (auto simp: int_part_def length_takeWhile_le split: list.split)

lemma read_number_progress: "read_number s = Inr (v, rest) \<Longrightarrow> length rest < length s"
  using int_part_length [of s] int_part_length [of "drop 1 s"]
  by (cases s) (auto simp: read_number_def Let_def int_part_def [of "[]"] split: if_split_asm)

lemma read_number_fuel: "read_number s \<noteq> Inl Out_of_fuel"
  by (simp add: read_number_def Let_def)

lemma literal_facts: "literal w v s \<noteq> Inl Out_of_fuel" "w \<noteq> [] \<Longrightarrow> s \<noteq> [] \<Longrightarrow> literal w v s = Inr (x, rest) \<Longrightarrow> length rest < length s"
  by (auto simp: literal_def split: if_splits)

lemma skip_ws_Cons: "skip_ws s = d # ds \<Longrightarrow> length ds < length s"
  using length_skip_ws [of s] by simp

lemma read_progress:
  "read_value n s = Inr (v, rest) \<Longrightarrow> length rest < length s"
  "read_items n s = Inr (xs, rest) \<Longrightarrow> length rest < length s"
  "read_members n acc s = Inr (kvs, rest) \<Longrightarrow> length rest < length s"
proof (induction n s and n s and n acc s arbitrary: v rest and xs rest and kvs rest
    rule: read_value_read_items_read_members.induct)
  case (3 n c cs)
  have "length (tl (skip_ws cs)) \<le> length cs" using length_skip_ws [of cs] by simp
  with 3 show ?case using length_skip_ws [of cs]
    by (fastforce simp: bind_r_Inr Let_def split: if_split_asm dest: read_chars_progress read_number_progress
        literal_facts(2) [rotated 2])
next
  case (5 n s)
  obtain x r d ds where r: "read_value n s = Inr (x, r)" "skip_ws r = d # ds"
    using 5(3) by (auto simp: bind_r_Inr next_char_Inr)
  have "length ds < length s" using 5(1) [OF r(1)] skip_ws_Cons [OF r(2)] by simp
  moreover have "rest = ds \<or> (\<exists>xs. read_items n (skip_ws ds) = Inr (xs, rest))"
    using 5(3) r by (auto simp: bind_r_Inr next_char_Inr split: if_split_asm)
  ultimately show ?case using 5(2) length_skip_ws [of ds] by fastforce
next
  case (7 n acc s)
  obtain qs k r1 r2 v r3 d ds where r: "s = CHR 0x22 # qs" "read_chars qs = Inr (k, r1)" "skip_ws r1 = CHR '':'' # r2"
    "read_value n (skip_ws r2) = Inr (v, r3)" "skip_ws r3 = d # ds"
    using 7(3) by (auto simp: bind_r_Inr next_char_Inr expect_Inr)
  have "length ds < length s"
    using 7(1) [OF r(4)] skip_ws_Cons [OF r(5)] skip_ws_Cons [OF r(3)] read_chars_progress [OF r(2)]
      length_skip_ws [of r2] r(1) by simp
  moreover have "rest = ds \<or> (\<exists>kvs. read_members n (put_key k v acc) (skip_ws ds) = Inr (kvs, rest))"
    using 7(3) r by (auto simp: bind_r_Inr split: if_split_asm)
  ultimately show ?case using 7(2) length_skip_ws [of ds] by fastforce
qed simp_all

lemma read_fuel:
  "2 * length s < n \<Longrightarrow> read_value n s \<noteq> Inl Out_of_fuel"
  "2 * length s + 1 < n \<Longrightarrow> read_items n s \<noteq> Inl Out_of_fuel"
  "2 * length s < n \<Longrightarrow> read_members n acc s \<noteq> Inl Out_of_fuel"
proof (induction n s and n s and n acc s rule: read_value_read_items_read_members.induct)
  case (3 n c cs)
  have l: "2 * length (skip_ws cs) < n" "2 * length (skip_ws cs) + 1 < n"
    using 3(3) length_skip_ws [of cs] by auto
  then show ?case
    using 3(1) [OF _ _ refl] 3(2) [OF _ _ _ refl] read_chars_fuel [of cs] read_number_fuel [of "c # cs"] literal_facts(1)
    by (auto simp: bind_r_Inl Let_def)
next
  case (5 n s)
  have "read_items n (skip_ws ds) \<noteq> Inl Out_of_fuel" if "read_value n s = Inr (x, r)" "skip_ws r = d # ds" for x r d ds
    using read_progress(1) [OF that(1)] skip_ws_Cons [OF that(2)] length_skip_ws [of ds] 5(3) by (intro 5(2)) auto
  moreover have "read_value n s \<noteq> Inl Out_of_fuel" using 5(3) by (intro 5(1)) simp
  ultimately show ?case by (fastforce simp: bind_r_Inl next_char_Inr split: if_split_asm)
next
  case (7 n acc s)
  have v: "read_value n (skip_ws r2) \<noteq> Inl Out_of_fuel"
    if "s = CHR 0x22 # qs" "read_chars qs = Inr (k, r1)" "skip_ws r1 = CHR '':'' # r2" for qs k r1 r2
    using read_chars_progress [OF that(2)] skip_ws_Cons [OF that(3)] length_skip_ws [of r2] that(1) 7(3) by (intro 7(1)) simp
  have m: "read_members n (put_key k v acc) (skip_ws ds) \<noteq> Inl Out_of_fuel"
    if "s = CHR 0x22 # qs" "read_chars qs = Inr (k, r1)" "skip_ws r1 = CHR '':'' # r2" "read_value n (skip_ws r2) = Inr (v, r3)"
      "skip_ws r3 = d # ds" for qs k r1 r2 v r3 d ds
    using read_chars_progress [OF that(2)] skip_ws_Cons [OF that(3)] length_skip_ws [of r2] that(1) 7(3)
      read_progress(1) [OF that(4)] skip_ws_Cons [OF that(5)] length_skip_ws [of ds]
    by (intro 7(2) [OF _ refl]) auto
  show ?case using v m read_chars_fuel
    by (fastforce simp: bind_r_Inl next_char_Inr expect_Inr split: if_split_asm)
qed simp_all


definition printable :: "string \<Rightarrow> bool" where "printable s \<longleftrightarrow> (\<forall>c \<in> set s. (of_char c :: nat) < 127)"

lemma ascii_json_printable: "printable s \<Longrightarrow> ascii_json s = json_string s"
proof -
  assume "printable s"
  then have "map ascii_json_char s = map esc_char s" by (auto simp: printable_def ascii_json_char_def Let_def)
  then show ?thesis unfolding ascii_json_def json_string_def by (simp only: append_Cons append_Nil)
qed

end
