(* ===== verification/Ha_Vote.thy ===== *)
theory Ha_Vote
  imports Ha_Loop Ha_Cluster Json_Text
begin

text \<open>
  The vote on disk: \<open>atomic_json_write\<close> and \<open>PersistentVoteState\<close> of \<open>ha/hashburst_ha_agent.py\<close>. A save is a sequence of
  file operations that may stop after any prefix, because the process is killed or because an operation fails; a start reads
  what is there. The locale \<open>vote_store\<close> is what the voter needs of its file. A file operation that completed is durable: a
  power failure that loses completed writes is not modelled.
\<close>

section \<open>The file\<close>

record vote_files =
  vf_state :: "string option"
  vf_temp :: "string option"

datatype file_op = Open_temp | Write_temp char | Chmod_temp | Replace_state

fun file_step :: "file_op \<Rightarrow> vote_files \<Rightarrow> vote_files" where
  "file_step Open_temp d = d\<lparr>vf_temp := Some []\<rparr>"
| "file_step (Write_temp c) d = d\<lparr>vf_temp := map_option (\<lambda>s. s @ [c]) (vf_temp d)\<rparr>"
| "file_step Chmod_temp d = d"
| "file_step Replace_state d = (case vf_temp d of None \<Rightarrow> d | Some s \<Rightarrow> d\<lparr>vf_state := Some s, vf_temp := None\<rparr>)"

definition atomic_write :: "string \<Rightarrow> file_op list" where
  "atomic_write s = [Open_temp] @ map Write_temp s @ [Chmod_temp, Replace_state]"

text \<open>\<open>json.dumps({"term": .., "voted_for": ..}, sort_keys=True, ..) + "\n"\<close>\<close>

definition vote_text :: "int \<Rightarrow> string \<Rightarrow> json_error + string" where
  "vote_text term c =
     (let v = JObj [(''term'', JInt term), (''voted_for'', JStr c)]
      in if ints_short v then Inr (dump_ascii (sort_keys v) @ [CHR 0x0A]) else Inl Digit_limit)"

text \<open>A save whose first \<open>k\<close> file operations succeed, and whether that is all of them.\<close>

definition save_vote :: "nat \<Rightarrow> int \<times> string \<Rightarrow> vote_files \<Rightarrow> bool \<times> vote_files" where
  "save_vote k v d =
     (case vote_text (fst v) (snd v) of
        Inl _ \<Rightarrow> (False, d)
      | Inr s \<Rightarrow> (length (atomic_write s) \<le> k, fold file_step (take k (atomic_write s)) d))"

text \<open>\<open>_load\<close>; \<open>None\<close> is the \<open>RuntimeError\<close> that stops the agent.\<close>

definition load_vote :: "vote_files \<Rightarrow> (int \<times> string) option" where
  "load_vote d =
     (case vf_state d of
        None \<Rightarrow> Some (0, [])
      | Some s \<Rightarrow>
          (case json_loads s of
             Inr (JObj data) \<Rightarrow>
               map_option (\<lambda>t. (max 0 t, jtext data ''voted_for'')) (py_int (jget_def_to data ''term'' (JInt 0)))
           | _ \<Rightarrow> None))"

section \<open>What a voter needs of its file\<close>

text \<open>A save that stops leaves the old vote or the new one; a save that completes leaves the new one.\<close>

locale vote_store =
  fixes save :: "nat \<Rightarrow> 'v \<Rightarrow> 'd \<Rightarrow> bool \<times> 'd"
    and load :: "'d \<Rightarrow> 'v option"
    and fits :: "'v \<Rightarrow> bool"
  assumes torn: "load d = Some v \<Longrightarrow> fits w \<Longrightarrow> load (snd (save k w d)) = Some v \<or> load (snd (save k w d)) = Some w"
    and whole: "fits w \<Longrightarrow> fst (save k w d) \<Longrightarrow> load (snd (save k w d)) = Some w"
begin

text \<open>Whatever saves were interrupted, one of the votes is read back.\<close>

lemma interrupted_saves:
  assumes "load d = Some v" "\<forall>kw \<in> set kws. fits (snd kw)"
  shows "\<exists>w \<in> insert v (snd ` set kws). load (fold (\<lambda>kw d. snd (save (fst kw) (snd kw) d)) kws d) = Some w"
  using assms
proof (induction kws arbitrary: v d)
  case (Cons kw kws)
  from torn [OF Cons.prems(1), of "snd kw" "fst kw"] Cons.prems(2)
  obtain u where u: "load (snd (save (fst kw) (snd kw) d)) = Some u" "u \<in> {v, snd kw}" by auto
  with Cons.IH [OF u(1)] Cons.prems(2) show ?case by auto
qed auto

end

lemma file_step_writes: "vf_temp d = Some t \<Longrightarrow> fold file_step (map Write_temp s) d = d\<lparr>vf_temp := Some (t @ s)\<rparr>"
  by (induction s arbitrary: d t) auto

lemma atomic_write_done: "length (atomic_write s) \<le> k \<Longrightarrow> fold file_step (take k (atomic_write s)) d = d\<lparr>vf_state := Some s, vf_temp := None\<rparr>"
  by (simp add: atomic_write_def file_step_writes [where t = "[]"])

lemma before_replace: "Replace_state \<notin> set ops \<Longrightarrow> vf_state (fold file_step ops d) = vf_state d"
proof (induction ops arbitrary: d)
  case (Cons x ops)
  then show ?case by (cases x) auto
qed simp

lemma atomic_write_torn:
  assumes "k < length (atomic_write s)"
  shows "vf_state (fold file_step (take k (atomic_write s)) d) = vf_state d"
proof (rule before_replace)
  have "k \<le> length (Open_temp # map Write_temp s @ [Chmod_temp])" using assms by (simp add: atomic_write_def)
  moreover have "atomic_write s = (Open_temp # map Write_temp s @ [Chmod_temp]) @ [Replace_state]" by (simp add: atomic_write_def)
  ultimately have "take k (atomic_write s) = take k (Open_temp # map Write_temp s @ [Chmod_temp])" by (simp del: append.simps)
  then have "set (take k (atomic_write s)) \<subseteq> set (Open_temp # map Write_temp s @ [Chmod_temp])" using set_take_subset by metis
  then show "Replace_state \<notin> set (take k (atomic_write s))" by auto
qed

section \<open>The text is read back\<close>

lemma vote_text_Inr: "vote_text t c = Inr s \<longleftrightarrow> int_digits t \<le> 4300 \<and>
    s = ''{\"term\":'' @ show_int t @ '',\"voted_for\":'' @ ascii_json c @ [CHR ''}'', CHR 0x0A]"
  by (auto simp: vote_text_def Let_def join_Cons ascii_json_def ascii_json_char_def esc_char_def)


lemma ends_newline: "skip_ws [CHR 0x0A] = []"
  by (simp add: skip_ws_def json_space_def)

lemma skip_ws_quote: "skip_ws (CHR 0x22 # cs) = CHR 0x22 # cs" "skip_ws (CHR '':'' # cs) = CHR '':'' # cs"
  by (simp_all add: skip_ws_def json_space_def)

lemma skip_ws_show: "skip_ws (show_int t @ cs) = show_int t @ cs"
  using skip_ws_dump [of "JInt 0" cs] show_int_head [of t] skip_ws_starts by (metis append_Cons)

lemma read_term:
  assumes "int_digits t \<le> 4300" "ends rest"
  shows "read_value (Suc n) (show_int t @ rest) = Inr (JInt t, rest)"
  using show_int_head [of t] read_number_show [OF assms(2,1)] by auto

lemma read_name: "read_value (Suc n) (ascii_json c @ rest) = Inr (JStr c, rest)"
  by (simp add: ascii_json_def read_chars_ascii)

lemma skip_ws_name: "skip_ws (ascii_json c @ rest) = ascii_json c @ rest"
  by (simp add: ascii_json_def skip_ws_quote)

lemma read_members_ascii:
  assumes "read_value n (skip_ws r) = Inr (v, d # r')" "skip_ws (d # r') = d # r'"
  shows "read_members (Suc n) acc (ascii_json k @ CHR '':'' # r) =
    (if d = CHR ''}'' then Inr (put_key k v acc, r')
     else if d = CHR '','' then read_members n (put_key k v acc) (skip_ws r')
     else Inl Bad_json)"
  using assms by (simp add: ascii_json_def read_chars_ascii skip_ws_quote)

lemma read_vote:
  assumes "int_digits t \<le> 4300"
  shows "read_members (Suc (Suc (Suc n))) [] (ascii_json ''term'' @ CHR '':'' # show_int t @ CHR '','' #
      ascii_json ''voted_for'' @ CHR '':'' # ascii_json c @ CHR ''}'' # r) = Inr ([(''term'', JInt t), (''voted_for'', JStr c)], r)"
proof -
  let ?tail = "ascii_json ''voted_for'' @ CHR '':'' # ascii_json c @ CHR ''}'' # r"
  have "read_members (Suc (Suc n)) [(''term'', JInt t)] ?tail = Inr ([(''term'', JInt t), (''voted_for'', JStr c)], r)"
    by (subst read_members_ascii [where v = "JStr c" and d = "CHR ''}''" and r' = r])
       (simp_all only: skip_ws_name read_name, simp_all add: skip_ws_ends)
  then show ?thesis
    by (subst read_members_ascii [where v = "JInt t" and d = "CHR '',''" and r' = ?tail])
       (simp_all only: skip_ws_show read_term [OF assms ends_simps(2)], simp_all add: skip_ws_ends skip_ws_name)
qed

lemma vote_text_reads:
  assumes "vote_text t c = Inr s"
  shows "json_loads s = Inr (JObj [(''term'', JInt t), (''voted_for'', JStr c)])"
proof -
  let ?body = "ascii_json ''term'' @ CHR '':'' # show_int t @ CHR '','' # ascii_json ''voted_for'' @ CHR '':'' # ascii_json c @ [CHR ''}'', CHR 0x0A]"
  have d: "int_digits t \<le> 4300" and s: "s = CHR ''{'' # ?body"
    using assms by (auto simp: vote_text_Inr ascii_json_def ascii_json_char_def esc_char_def)
  have fuel: "2 * length s + 2 = Suc (Suc (Suc (Suc (2 * length s - 2))))" by (simp add: s)
  have "read_members (Suc (Suc (Suc n))) [] ?body = Inr ([(''term'', JInt t), (''voted_for'', JStr c)], [CHR 0x0A])" for n
    by (rule read_vote [OF d])
  moreover have "?body \<noteq> []" "hd ?body \<noteq> CHR ''}''" by (simp_all add: ascii_json_def)
  ultimately have "read_value (Suc (Suc (Suc (Suc n)))) s = Inr (JObj [(''term'', JInt t), (''voted_for'', JStr c)], [CHR 0x0A])" for n
    unfolding s by (simp add: skip_ws_name Let_def del: read_members.simps)
  moreover have "skip_ws s = s" unfolding s by (simp add: skip_ws_def json_space_def)
  ultimately show ?thesis unfolding json_loads_def fuel by (simp add: ends_newline)
qed

lemma load_saved:
  assumes "vf_state d = Some s" "vote_text t c = Inr s" "0 \<le> t"
  shows "load_vote d = Some (t, c)"
  using vote_text_reads [OF assms(2)] assms by (simp add: load_vote_def jtext_def py_or_def)

lemma load_same_state: "vf_state d' = vf_state d \<Longrightarrow> load_vote d' = load_vote d"
  by (simp add: load_vote_def)

definition storable :: "int \<times> string \<Rightarrow> bool" where
  "storable v \<longleftrightarrow> 0 \<le> fst v \<and> int_digits (fst v) \<le> 4300"

lemma storable_text: "storable v \<Longrightarrow> \<exists>s. vote_text (fst v) (snd v) = Inr s"
  by (simp add: storable_def vote_text_Inr)

interpretation vote_file: vote_store save_vote load_vote storable
proof unfold_locales
  fix d v w k
  assume w: "storable w"
  obtain s where s: "vote_text (fst w) (snd w) = Inr s" using storable_text [OF w] by auto
  have completed: "load_vote (snd (save_vote k w d)) = Some w" if "length (atomic_write s) \<le> k"
  proof -
    have "vf_state (snd (save_vote k w d)) = Some s" using atomic_write_done [OF that, of d] s by (simp add: save_vote_def)
    from load_saved [OF this s] w show ?thesis by (simp add: storable_def)
  qed
  have torn: "load_vote (snd (save_vote k w d)) = load_vote d" if "k < length (atomic_write s)"
    using atomic_write_torn [OF that, of d] s by (intro load_same_state) (simp add: save_vote_def)
  show "load_vote (snd (save_vote k w d)) = Some v \<or> load_vote (snd (save_vote k w d)) = Some w" if "load_vote d = Some v"
    using completed torn that by (cases "k < length (atomic_write s)") auto
  show "load_vote (snd (save_vote k w d)) = Some w" if "fst (save_vote k w d)"
    using completed that s by (simp add: save_vote_def)
qed

lemma save_completes: "storable v \<Longrightarrow> \<exists>n. \<forall>k \<ge> n. fst (save_vote k v d)"
  using storable_text [of v] by (auto simp: save_vote_def)

section \<open>The voter and its file\<close>

record voter =
  vo_engine :: engine
  vo_files :: vote_files

definition vote_of :: "engine \<Rightarrow> int \<times> string" where
  "vote_of e = (en_term e, en_voted e)"

text \<open>
  A request whose save may fail after \<open>k\<close> file operations. \<open>advance\<close> saves whenever it changes the vote; it sets the
  fields of the process before it writes, so a failed save leaves them changed, and the rest of the handler does not run.
\<close>

definition handle_saving :: "ha_config \<Rightarrow> nat \<Rightarrow> py_float \<Rightarrow> json \<Rightarrow> json \<Rightarrow> voter \<Rightarrow> (string + jobj) \<times> voter" where
  "handle_saving cfg k now source payload v =
     (case handle_tep cfg now source payload (vo_engine v) of
        (reply, e) \<Rightarrow>
          if vote_of e = vote_of (vo_engine v) then (reply, v\<lparr>vo_engine := e\<rparr>)
          else (case save_vote k (vote_of e) (vo_files v) of
                  (True, d) \<Rightarrow> (reply, \<lparr>vo_engine = e, vo_files = d\<rparr>)
                | (False, d) \<Rightarrow>
                    (Inl ''internal_error'', \<lparr>vo_engine = (vo_engine v)\<lparr>en_term := en_term e, en_voted := en_voted e\<rparr>, vo_files = d\<rparr>)))"

text \<open>The start of the process on the files it finds; the guard file is another file.\<close>

definition start_voter :: "ha_config \<Rightarrow> py_float \<Rightarrow> guard_file option \<Rightarrow> vote_files \<Rightarrow> voter option" where
  "start_voter cfg now g d =
     map_option (\<lambda>v. \<lparr>vo_engine = start_engine cfg now (fst v) (snd v) g, vo_files = d\<rparr>) (load_vote d)"

text \<open>
  What happens to the process: it handles a request and answers; it is killed while it handles one, after \<open>k\<close> file
  operations, and started again later; it is killed between requests; a save fails and the process goes on.
\<close>

datatype voter_event =
    Handled py_float json json
  | Killed py_float json json nat py_float
  | Restarted py_float
  | Save_failed py_float json json nat

definition grant_of :: "string + jobj \<Rightarrow> (int \<times> string) list" where
  "grant_of reply =
     (case reply of
        Inl _ \<Rightarrow> []
      | Inr r \<Rightarrow> if truthy (jget r ''granted'') then [(the (py_int (jget_def_to r ''term'' (JInt (- 1)))), jtext r ''holder'')] else [])"

definition all_steps :: "engine \<Rightarrow> nat" where
  "all_steps e = (case vote_text (en_term e) (en_voted e) of Inl _ \<Rightarrow> 0 | Inr s \<Rightarrow> length (atomic_write s))"

fun voter_step :: "ha_config \<Rightarrow> voter_event \<Rightarrow> voter \<times> (int \<times> string) list \<Rightarrow> (voter \<times> (int \<times> string) list) option" where
  "voter_step cfg (Handled now src p) (v, gs) =
     (case handle_saving cfg (all_steps (snd (handle_tep cfg now src p (vo_engine v)))) now src p v of
        (reply, v1) \<Rightarrow> Some (v1, gs @ grant_of reply))"
| "voter_step cfg (Killed now src p k later) (v, gs) =
     map_option (\<lambda>v1. (v1, gs)) (start_voter cfg later (en_guard (vo_engine v)) (vo_files (snd (handle_saving cfg k now src p v))))"
| "voter_step cfg (Restarted later) (v, gs) =
     map_option (\<lambda>v1. (v1, gs)) (start_voter cfg later (en_guard (vo_engine v)) (vo_files v))"
| "voter_step cfg (Save_failed now src p k) (v, gs) =
     (case handle_saving cfg k now src p v of (reply, v1) \<Rightarrow> Some (v1, gs @ grant_of reply))"

fun voter_run :: "ha_config \<Rightarrow> voter_event list \<Rightarrow> voter \<times> (int \<times> string) list \<Rightarrow> (voter \<times> (int \<times> string) list) option" where
  "voter_run cfg [] s = Some s"
| "voter_run cfg (x # xs) s = Option.bind (voter_step cfg x s) (voter_run cfg xs)"

text \<open>Events without a failed save; terms of more digits than \<open>json.dumps\<close> writes would make one.\<close>

definition short_term :: "json \<Rightarrow> bool" where
  "short_term p =
     (case p of
        JObj o' \<Rightarrow> (case py_int (jget_def_to o' ''term'' (JInt (- 1))) of None \<Rightarrow> True | Some t \<Rightarrow> int_digits t \<le> 4300)
      | _ \<Rightarrow> True)"

fun no_failed_save :: "voter_event \<Rightarrow> bool" where
  "no_failed_save (Handled now src p) = short_term p"
| "no_failed_save (Killed now src p k later) = True"
| "no_failed_save (Restarted later) = True"
| "no_failed_save (Save_failed now src p k) = False"

section \<open>One candidate in a term\<close>

text \<open>A request leaves the vote and grants at most its holder, or it moves the vote forward and grants that.\<close>

definition vote_moves :: "engine \<Rightarrow> (string + jobj) \<times> engine \<Rightarrow> bool" where
  "vote_moves e res \<longleftrightarrow>
     vote_of (snd res) = vote_of e \<and> (grant_of (fst res) = [] \<or> grant_of (fst res) = [vote_of e] \<and> en_voted e \<noteq> []) \<or>
     (en_term e < en_term (snd res) \<or> en_term (snd res) = en_term e \<and> en_voted e = []) \<and>
     grant_of (fst res) = [vote_of (snd res)] \<and> en_voted (snd res) \<noteq> []"

lemma grant_of_simps [simp]:
  "grant_of (Inl x) = []" "grant_of (Inr (denied t r)) = []" "grant_of (Inr (held t h ms r)) = []"
  "grant_of (Inr (granted t h ms)) = [(t, h)]" "grant_of (Inr (local_status cfg now e)) = []"
  by (simp_all add: grant_of_def denied_def held_def granted_def jtext_def py_or_def local_status_def voter_status_def Let_def)

lemma vote_moves_same: "grant_of reply = [] \<Longrightarrow> vote_moves e (reply, e)"
  by (simp add: vote_moves_def)

lemma vote_request_moves: "src \<noteq> [] \<Longrightarrow> vote_moves e (vote_request cfg now src c t ms e)"
  by (auto simp: vote_request_def vote_moves_def advance_def give_lease_def vote_of_def)

lemma renew_request_moves: "src \<noteq> [] \<Longrightarrow> vote_moves e (renew_request cfg now src c t ms e)"
  by (auto simp: renew_request_def vote_moves_def give_lease_def vote_of_def)

lemma with_ints_moves: "(\<And>t ms. vote_moves e (f t ms e)) \<Longrightarrow> vote_moves e (with_ints p d f e)"
  by (simp add: with_ints_def vote_moves_same split: option.split)

lemma handle_base_moves: "vote_moves e (handle_base cfg now s p e)"
  by (simp add: handle_base_def Let_def vote_moves_same with_ints_moves vote_request_moves renew_request_moves)

lemma handle_tep_moves: "vote_moves e (handle_tep cfg now src payload e)"
  by (cases payload; cases src) (simp_all add: handle_tep_def Let_def vote_moves_same handle_base_moves)

text \<open>A new vote carries the term of the request.\<close>

lemma with_ints_term:
  assumes "vote_of (snd (with_ints p d f e)) \<noteq> vote_of e" "\<And>t ms. vote_of (snd (f t ms e)) \<noteq> vote_of e \<Longrightarrow> en_term (snd (f t ms e)) = t"
  shows "py_int (jget_def_to p ''term'' (JInt (- 1))) = Some (en_term (snd (with_ints p d f e)))"
  using assms by (auto simp: with_ints_def split: option.splits)

lemma vote_request_term: "vote_of (snd (vote_request cfg now src c t ms e)) \<noteq> vote_of e \<Longrightarrow> en_term (snd (vote_request cfg now src c t ms e)) = t"
  by (auto simp: vote_request_def advance_def give_lease_def vote_of_def split: if_splits)

lemma renew_request_term: "vote_of (snd (renew_request cfg now src c t ms e)) = vote_of e"
  by (simp add: renew_request_def give_lease_def vote_of_def)

lemma handle_base_term:
  "vote_of (snd (handle_base cfg now s p e)) \<noteq> vote_of e \<Longrightarrow> py_int (jget_def_to p ''term'' (JInt (- 1))) = Some (en_term (snd (handle_base cfg now s p e)))"
  using with_ints_term [of p "lease_ms cfg" "vote_request cfg now (jtext_strip s ''node_id'') (jtext p ''candidate'')" e]
    with_ints_term [of p "lease_ms cfg" "renew_request cfg now (jtext_strip s ''node_id'') (jtext p ''holder'')" e]
  by (simp add: handle_base_def Let_def vote_request_term renew_request_term split: if_splits)

lemma handle_tep_term:
  "vote_of (snd (handle_tep cfg now src payload e)) \<noteq> vote_of e \<Longrightarrow> short_term payload \<Longrightarrow> int_digits (en_term (snd (handle_tep cfg now src payload e))) \<le> 4300"
  by (cases payload; cases src)
     (auto simp: handle_tep_def Let_def short_term_def dest: handle_base_term split: if_splits)

definition follows :: "int \<times> string \<Rightarrow> int \<times> string \<Rightarrow> bool" where
  "follows v w \<longleftrightarrow> w = v \<or> fst v < fst w \<or> fst w = fst v \<and> snd v = []"

definition grants_ok :: "int \<times> string \<Rightarrow> (int \<times> string) list \<Rightarrow> bool" where
  "grants_ok v gs \<longleftrightarrow>
     (\<forall>g \<in> set gs. snd g \<noteq> [] \<and> (fst g < fst v \<or> g = v)) \<and> (\<forall>g \<in> set gs. \<forall>h \<in> set gs. fst g = fst h \<longrightarrow> g = h)"

lemma grants_follow: "grants_ok v gs \<Longrightarrow> follows v w \<Longrightarrow> grants_ok w gs"
  by (fastforce simp: grants_ok_def follows_def)

lemma grants_add: "grants_ok v gs \<Longrightarrow> snd v \<noteq> [] \<Longrightarrow> grants_ok v (gs @ [v])"
  by (fastforce simp: grants_ok_def)

lemma moves_follow: "vote_moves e res \<Longrightarrow> follows (vote_of e) (vote_of (snd res))"
  by (auto simp: vote_moves_def follows_def vote_of_def)

lemma moves_grants: "vote_moves e res \<Longrightarrow> grants_ok (vote_of e) gs \<Longrightarrow> grants_ok (vote_of (snd res)) (gs @ grant_of (fst res))"
  using grants_follow [of "vote_of e" gs "vote_of (snd res)"] moves_follow [of e res] grants_add [of "vote_of (snd res)" gs]
  by (auto simp: vote_moves_def vote_of_def)

definition voter_ok :: "voter \<times> (int \<times> string) list \<Rightarrow> bool" where
  "voter_ok s \<longleftrightarrow> load_vote (vo_files (fst s)) = Some (vote_of (vo_engine (fst s))) \<and> 0 \<le> en_term (vo_engine (fst s)) \<and>
     grants_ok (vote_of (vo_engine (fst s))) (snd s)"

lemma handled_vote_term: "0 \<le> en_term e \<Longrightarrow> 0 \<le> en_term (snd (handle_tep cfg now src p e))"
  using moves_follow [OF handle_tep_moves, of e cfg now src p] by (auto simp: follows_def vote_of_def)

lemma start_voter_vote: "load_vote d = Some v \<Longrightarrow> start_voter cfg now g d = Some \<lparr>vo_engine = start_engine cfg now (fst v) (snd v) g, vo_files = d\<rparr>"
  by (simp add: start_voter_def)

lemma start_engine_vote [simp]: "vote_of (start_engine cfg now t c g) = (t, c)" "en_term (start_engine cfg now t c g) = t" "en_voted (start_engine cfg now t c g) = c"
  by (simp_all add: start_engine_def vote_of_def)

text \<open>The files after a request, however far its save came: the old vote or the new one.\<close>

lemma files_after:
  assumes "load_vote (vo_files v) = Some (vote_of (vo_engine v))" "0 \<le> en_term (vo_engine v)"
  shows "\<exists>w. load_vote (vo_files (snd (handle_saving cfg k now src p v))) = Some w \<and> follows (vote_of (vo_engine v)) w \<and> 0 \<le> fst w"
proof -
  let ?e = "snd (handle_tep cfg now src p (vo_engine v))"
  let ?d = "vo_files (snd (handle_saving cfg k now src p v))"
  have d: "?d = vo_files v \<or> ?d = snd (save_vote k (vote_of ?e) (vo_files v))"
    by (simp add: handle_saving_def split: prod.split bool.split)
  have t: "0 \<le> fst (vote_of ?e)" using handled_vote_term [OF assms(2)] by (simp add: vote_of_def)
  have "load_vote ?d = Some (vote_of (vo_engine v)) \<or> load_vote ?d = Some (vote_of ?e)"
  proof (cases "storable (vote_of ?e)")
    case True
    then show ?thesis using d vote_file.torn [OF assms(1) True, of k] assms(1) by auto
  next
    case False
    then have "snd (save_vote k (vote_of ?e) (vo_files v)) = vo_files v"
      using t by (simp add: save_vote_def storable_def vote_text_def Let_def)
    then show ?thesis using d assms(1) by auto
  qed
  then show ?thesis
    using moves_follow [OF handle_tep_moves, of "vo_engine v" cfg now src p] t assms(2) by (auto simp: follows_def vote_of_def)
qed

lemma handled_ok:
  assumes "voter_ok (v, gs)" "short_term p"
  shows "\<exists>s. voter_step cfg (Handled now src p) (v, gs) = Some s \<and> voter_ok s"
proof -
  obtain reply e where h: "handle_tep cfg now src p (vo_engine v) = (reply, e)" by fastforce
  have m: "grants_ok (vote_of e) (gs @ grant_of reply)"
    using moves_grants [OF handle_tep_moves [of "vo_engine v" cfg now src p], of gs] assms(1) h by (simp add: voter_ok_def)
  have t: "0 \<le> en_term e" using handled_vote_term [of "vo_engine v" cfg now src p] assms(1) h by (simp add: voter_ok_def)
  show ?thesis
  proof (cases "vote_of e = vote_of (vo_engine v)")
    case True
    then show ?thesis using m t assms(1) by (simp add: handle_saving_def voter_ok_def h)
  next
    case False
    have st: "storable (vote_of e)"
      using handle_tep_term [of cfg now src p "vo_engine v"] False assms(2) t h by (simp add: storable_def vote_of_def)
    obtain s where s: "vote_text (en_term e) (en_voted e) = Inr s"
      using storable_text [OF st] by (auto simp: vote_of_def)
    obtain d where d: "save_vote (all_steps e) (vote_of e) (vo_files v) = (True, d)"
      by (simp add: save_vote_def all_steps_def s vote_of_def)
    have "load_vote d = Some (vote_of e)" using vote_file.whole [OF st, of "all_steps e" "vo_files v"] d by simp
    then show ?thesis using False m t by (simp add: handle_saving_def voter_ok_def h d)
  qed
qed

lemma voter_step_ok:
  assumes "voter_ok s" "no_failed_save x"
  shows "\<exists>s'. voter_step cfg x s = Some s' \<and> voter_ok s'"
proof (cases x)
  case (Handled now src p)
  then show ?thesis using handled_ok assms by (cases s) auto
next
  case (Killed now src p k later)
  from assms(1) obtain v gs where s: "s = (v, gs)" "voter_ok (v, gs)" by (cases s) auto
  then obtain w where w: "load_vote (vo_files (snd (handle_saving cfg k now src p v))) = Some w"
    "follows (vote_of (vo_engine v)) w" "0 \<le> fst w"
    using files_after [of v cfg k now src p] by (auto simp: voter_ok_def)
  have "grants_ok w gs" using s grants_follow [OF _ w(2)] by (auto simp: voter_ok_def)
  then show ?thesis using Killed s w by (simp add: voter_ok_def start_voter_vote)
next
  case (Restarted later)
  then show ?thesis using assms(1) by (cases s) (auto simp: voter_ok_def start_voter_vote vote_of_def)
qed (use assms(2) in auto)

lemma voter_run_ok: "voter_ok s \<Longrightarrow> list_all no_failed_save xs \<Longrightarrow> \<exists>s'. voter_run cfg xs s = Some s' \<and> voter_ok s'"
proof (induction xs arbitrary: s)
  case (Cons x xs)
  then show ?case using voter_step_ok [OF Cons.prems(1), of x cfg] by fastforce
qed simp

lemma started_voter_ok: "start_voter cfg now g d = Some v \<Longrightarrow> voter_ok (v, [])"
  by (auto simp: start_voter_def load_vote_def voter_ok_def grants_ok_def split: option.splits sum.splits json.splits)

section \<open>Properties\<close>

text \<open>C11: A voter keeps its word across deaths of its process. From any vote file that loads, whatever requests come and wherever
  the process is killed, between requests or after any number of file operations of a save, it starts again each time, all the
  grants it ever answers in one term go to one candidate, and a next start has the term and vote of the running process.
\<close>
theorem restarted_voter_votes_once:
  assumes "start_voter cfg now g d = Some v0" "list_all no_failed_save xs"
  shows "\<exists>v gs. voter_run cfg xs (v0, []) = Some (v, gs) \<and>
    (\<forall>t c c'. (t, c) \<in> set gs \<and> (t, c') \<in> set gs \<longrightarrow> c = c') \<and>
    start_voter cfg later (en_guard (vo_engine v)) (vo_files v) = Some (v\<lparr>vo_engine := restart_engine cfg later (vo_engine v)\<rparr>)"
proof -
  obtain v gs where r: "voter_run cfg xs (v0, []) = Some (v, gs)" "voter_ok (v, gs)"
    using voter_run_ok [OF started_voter_ok [OF assms(1)] assms(2), of cfg] by auto
  then have "\<forall>g \<in> set gs. \<forall>h \<in> set gs. fst g = fst h \<longrightarrow> g = h" by (simp add: voter_ok_def grants_ok_def)
  then have "\<forall>t c c'. (t, c) \<in> set gs \<and> (t, c') \<in> set gs \<longrightarrow> c = c'" by fastforce
  with r show ?thesis by (auto simp: voter_ok_def start_voter_vote restart_engine_def vote_of_def)
qed

section \<open>Examples\<close>

definition cfg_c :: ha_config where "cfg_c = cfg_a\<lparr>hf_node := ''c''\<rparr>"

definition no_files :: vote_files where "no_files = \<lparr>vf_state = None, vf_temp = None\<rparr>"

definition ask_vote :: "ha_config \<Rightarrow> int \<Rightarrow> json \<times> json" where
  "ask_vote c t = (JObj (from_node (hf_node c)), JObj (vote_payload c t))"

definition ask_renew :: "ha_config \<Rightarrow> int \<Rightarrow> json \<times> json" where
  "ask_renew c t = (JObj (from_node (hf_node c)), JObj (renew_payload c t))"

definition handled :: "py_float \<Rightarrow> json \<times> json \<Rightarrow> voter_event" where "handled now r = Handled now (fst r) (snd r)"

text \<open>Voter \<open>c\<close> is killed while it saves the vote for \<open>b\<close>; the vote for \<open>a\<close> is still there, and guards its lease for 12 seconds.\<close>

definition killed_while_saving :: "voter_event list" where
  "killed_while_saving =
     [handled 50 (ask_vote cfg_a 1), Killed 70 (fst (ask_vote cfg_b 2)) (snd (ask_vote cfg_b 2)) 12 80, handled 85 (ask_vote cfg_b 2),
      handled 100 (ask_vote cfg_b 2), handled 110 (ask_vote cfg_a 2)]"

definition voter_c :: voter where "voter_c = \<lparr>vo_engine = start_engine cfg_c 40 0 [] None, vo_files = no_files\<rparr>"

lemma killed_grants: "map_option snd (voter_run cfg_c killed_while_saving (voter_c, [])) = Some [(1, ''a''), (2, ''b'')]"
  by code_simp

theorem restarted_voter_votes_once_witness:
  "\<exists>v. voter_run cfg_c killed_while_saving (voter_c, []) = Some (v, [(1, ''a''), (2, ''b'')]) \<and>
     start_voter cfg_c 200 (en_guard (vo_engine v)) (vo_files v) = Some (v\<lparr>vo_engine := restart_engine cfg_c 200 (vo_engine v)\<rparr>)"
proof -
  have "start_voter cfg_c 40 None no_files = Some voter_c" by (simp add: start_voter_def load_vote_def no_files_def voter_c_def)
  moreover have "list_all no_failed_save killed_while_saving" by code_simp
  ultimately show ?thesis using restarted_voter_votes_once [of cfg_c 40 None no_files voter_c killed_while_saving 200] killed_grants by auto
qed

text \<open>
  \<open>advance\<close> sets the vote of the process before it saves it. After a save that fails, the vote for \<open>a\<close> in term 2 is in no
  file, the renewal of \<open>a\<close> is granted without another save, and after a restart \<open>b\<close> gets a lease in the same term while the one
  of \<open>a\<close> runs.
\<close>

lemma failed_save_votes_twice:
  "map_option snd (voter_run cfg_c
     [handled 50 (ask_vote cfg_b 1), Save_failed 100 (fst (ask_vote cfg_a 2)) (snd (ask_vote cfg_a 2)) 5, handled 101 (ask_renew cfg_a 2),
      Restarted 102, handled 103 (ask_vote cfg_b 2)] (voter_c, [])) = Some [(1, ''b''), (2, ''a''), (2, ''b'')]"
  by code_simp

end
