(* ===== verification/Ha_Checks.thy ===== *)
theory Ha_Checks
  imports Ha_Loop
begin

text \<open>
  The rest of the agent: the eligibility checks of v2.2.0, the loopback client of the TEP daemon, the
  start-up check of its identity, the agent's own HTTP handler, and \<open>Config.load\<close>'s guarantees. What the
  probes read (service states, HTTP answers, the replication state file, the wall clock) are arguments;
  an HTTP answer that raises is \<open>None\<close>.
\<close>

section \<open>Text of a number\<close>

definition round_even :: "py_float \<Rightarrow> int" where
  "round_even x =
     (let f = \<lfloor>x\<rfloor>; d = x - of_int f
      in if d < 1/2 then f else if 1/2 < d then f + 1 else if even f then f else f + 1)"

definition pad3 :: "nat \<Rightarrow> string" where
  "pad3 n = (if n < 10 then ''00'' else if n < 100 then ''0'' else []) @ show_nat n"

text \<open>\<open>f"{x:.3f}"\<close>\<close>

definition fmt3 :: "py_float \<Rightarrow> string" where
  "fmt3 x =
     (let k = nat (round_even (\<bar>x\<bar> * 1000))
      in (if x < 0 then ''-'' else []) @ show_nat (k div 1000) @ ''.'' @ pad3 (k mod 1000))"

section \<open>Eligibility\<close>

record probes =
  pr_active :: "string \<Rightarrow> bool"
  pr_loopback :: "string \<Rightarrow> bool"
  pr_http :: "string \<Rightarrow> int option"
  pr_monero :: "jobj \<Rightarrow> json option"
  pr_replication :: "json option"
  pr_time :: py_float

definition check_services :: "probes \<Rightarrow> ha_config \<Rightarrow> string list" where
  "check_services pr cfg =
     map (\<lambda>x. ''service_inactive:'' @ x) (filter (\<lambda>x. \<not> pr_active pr x) (hf_required_services cfg))"

definition check_url :: "probes \<Rightarrow> string \<Rightarrow> string list" where
  "check_url pr url =
     (if \<not> pr_loopback pr url then [''health_bad_url:'' @ url]
      else (case pr_http pr url of
              None \<Rightarrow> [''health_unreachable:'' @ url]
            | Some code \<Rightarrow> if code div 100 \<noteq> 2 then [''health_http:'' @ url] else []))"

definition reason_if :: "bool \<Rightarrow> string \<Rightarrow> string list" where
  "reason_if b x = (if b then [x] else [])"

definition text_or :: "string \<Rightarrow> string \<Rightarrow> string" where
  "text_or s d = (if s = [] then d else s)"

text \<open>
  One Monero check. Reasons found before a conversion raises stay, and \<open>monero_unreachable\<close> follows them;
  \<open>float(timeout_seconds)\<close> is read before the request is made.
\<close>

definition monero_result :: "string \<Rightarrow> string \<Rightarrow> jobj \<Rightarrow> jobj \<Rightarrow> string list" where
  "monero_result name expected item result =
     (let nettype = jtext_strip result ''nettype''
      in reason_if (expected \<noteq> [] \<and> nettype \<noteq> expected)
           (''monero_nettype:'' @ name @ '':'' @ text_or nettype ''missing'') @
         reason_if (jget result ''synchronized'' \<noteq> JBool True) (''monero_not_synchronized:'' @ name) @
         reason_if (jget result ''busy_syncing'' = JBool True) (''monero_busy_syncing:'' @ name) @
         reason_if (jget result ''offline'' = JBool True) (''monero_offline:'' @ name) @
         (case (py_int (py_or (jget result ''height'') (JInt 0)), py_int (py_or (jget result ''target_height'') (JInt 0)),
                py_int (jget_def_to item ''max_height_lag'' (JInt 2))) of
            (Some height, Some target, Some lag) \<Rightarrow>
              reason_if (0 < target \<and> height + max 0 lag < target)
                (''monero_height_lag:'' @ name @ '':'' @ show_int (target - height))
          | _ \<Rightarrow> [''monero_unreachable:'' @ name]))"

definition check_monero_item :: "probes \<Rightarrow> jobj \<Rightarrow> string list" where
  "check_monero_item pr item =
     (let name = py_strip (py_str (py_or (jget item ''name'') (JStr ''monero'')));
          url = jtext_strip item ''url'';
          expected = jtext_strip item ''nettype''
      in if \<not> pr_loopback pr url then [''monero_bad_url:'' @ name]
         else if py_float_of (jget_def_to item ''timeout_seconds'' (JInt 2)) = None then [''monero_unreachable:'' @ name]
         else (case pr_monero pr item of
                 Some (JObj data) \<Rightarrow>
                   (case jget data ''result'' of
                      JObj result \<Rightarrow> monero_result name expected item result
                    | _ \<Rightarrow> [''monero_unreachable:'' @ name])
               | _ \<Rightarrow> [''monero_unreachable:'' @ name]))"

definition monero_items :: "jobj \<Rightarrow> jobj list" where
  "monero_items raw =
     (case jget_def_to raw ''monero_checks'' (JList []) of
        JList xs \<Rightarrow> List.map_filter as_obj xs
      | _ \<Rightarrow> [])"

text \<open>\<open>_check_replication\<close> on the parsed state file; an unreadable file is \<open>None\<close>.\<close>

definition lag_reasons :: "ha_config \<Rightarrow> jobj \<Rightarrow> string list" where
  "lag_reasons cfg d =
     (let mode = py_lower (py_strip (py_str (py_or (jget d ''mode'') (JStr ''continuous''))))
      in if mode = ''continuous'' then
           (case py_float_of (jget_def_to d ''lag_seconds'' (JInt (10 ^ 9))) of
              None \<Rightarrow> [''replication_state_unavailable'']
            | Some lag \<Rightarrow> reason_if (hf_max_lag cfg < lag) (''replication_lag:'' @ fmt3 lag))
         else reason_if (mode \<noteq> ''reconstructable'') (''replication_mode_invalid:'' @ text_or mode ''missing''))"

definition check_replication :: "probes \<Rightarrow> ha_config \<Rightarrow> string list" where
  "check_replication pr cfg =
     (if hf_replication_file cfg = [] then []
      else (case pr_replication pr of
              Some (JObj d) \<Rightarrow>
                (case py_float_of (jget_def_to d ''updated_at'' (JInt 0)) of
                   None \<Rightarrow> [''replication_state_unavailable'']
                 | Some updated \<Rightarrow>
                     (let age = max 0 (pr_time pr - updated)
                      in reason_if (\<not> truthy (jget_def_to d ''ready'' (JBool False))) ''replication_not_ready'' @
                         reason_if (updated \<le> 0 \<or> max (hf_max_lag cfg * 2) 30 < age) (''replication_state_stale:'' @ fmt3 age) @
                         lag_reasons cfg d))
            | _ \<Rightarrow> [''replication_state_unavailable'']))"

definition eligibility :: "probes \<Rightarrow> jobj \<Rightarrow> ha_config \<Rightarrow> bool \<times> string list" where
  "eligibility pr raw cfg =
     (if \<not> is_ha_candidate cfg then (False, [''not_candidate''])
      else let reasons = check_services pr cfg @ concat (map (check_url pr) (hf_health_urls cfg)) @
                         concat (map (check_monero_item pr) (monero_items raw)) @ check_replication pr cfg
           in (reasons = [], reasons))"

section \<open>The TEP client\<close>

text \<open>What \<open>urlopen\<close> gives: a body, an HTTP error with its body, or no connection.\<close>

datatype http_answer = Body nat "json option" | Http_error "json option" | No_connection

definition json_answer :: "http_answer \<Rightarrow> string + jobj" where
  "json_answer a =
     (case a of
        No_connection \<Rightarrow> Inl ''tep_unavailable''
      | Http_error b \<Rightarrow>
          Inl (case b of
                 Some (JObj d) \<Rightarrow>
                   (case py_or (jget d ''error'') (JObj []) of
                      JObj err \<Rightarrow> py_str (py_or (jget err ''code'') (JStr ''tep_http_error''))
                    | _ \<Rightarrow> ''tep_http_error'')
               | _ \<Rightarrow> ''tep_http_error'')
      | Body n b \<Rightarrow>
          if 65536 < n then Inl ''tep_response_too_large''
          else (case b of Some (JObj d) \<Rightarrow> Inr d | _ \<Rightarrow> Inl ''tep_bad_response''))"

fun peer_in :: "string \<Rightarrow> json list \<Rightarrow> string + string" where
  "peer_in node [] = Inl ''tep_peer_unknown''"
| "peer_in node (p # ps) =
     (case p of
        JObj o' \<Rightarrow>
          if jtext o' ''id'' = node then
            (if jtext_strip o' ''peer_id'' = [] then Inl ''tep_identity_missing'' else Inr (jtext_strip o' ''peer_id''))
          else peer_in node ps
      | _ \<Rightarrow> peer_in node ps)"

text \<open>
  \<open>resolve\<close> on the daemon's status; \<open>env_peer\<close> is \<open>HB_TEP_PEER_ID\<close>. An \<open>identity\<close> or \<open>peers\<close> of another
  type raises: \<open>internal_error\<close>.
\<close>

definition resolve :: "ha_config \<Rightarrow> string \<Rightarrow> jobj \<Rightarrow> string \<Rightarrow> string + string \<times> string" where
  "resolve cfg env_peer status node =
     (if node = hf_node cfg then
        (case (if truthy (jget status ''peer_id'') then Some (jget status ''peer_id'')
               else (case jget_def_to status ''identity'' (JObj []) of
                       JObj i \<Rightarrow> Some (py_or (jget i ''peer_id'') (JStr [])) | _ \<Rightarrow> None)) of
           None \<Rightarrow> Inl ''internal_error''
         | Some v \<Rightarrow>
             (let p = py_strip (py_str v); q = (if p = [] then py_strip env_peer else p)
              in if q = [] then Inl ''tep_identity_missing'' else Inr (node, q)))
      else (case py_iter (py_or (jget status ''peers'') (JList [])) of
              None \<Rightarrow> Inl ''internal_error''
            | Some ps \<Rightarrow> bind_r (peer_in node ps) (\<lambda>p. Inr (node, p))))"

definition rpc_result :: "jobj \<Rightarrow> string + jobj" where
  "rpc_result response =
     (if \<not> truthy (jget_def_to response ''ok'' (JBool False)) then
        (case py_or (jget response ''error'') (JObj []) of
           JObj err \<Rightarrow> Inl (py_str (py_or (jget err ''code'') (JStr ''tep_rpc_failed'')))
         | _ \<Rightarrow> Inl ''internal_error'')
      else (case jget response ''result'' of JObj r \<Rightarrow> Inr r | _ \<Rightarrow> Inl ''tep_bad_response''))"

text \<open>\<open>rpc\<close>: \<open>get\<close> and \<open>post\<close> are the two requests to the daemon.\<close>

definition tep_rpc :: "ha_config \<Rightarrow> string \<Rightarrow> http_answer \<Rightarrow> (jobj \<Rightarrow> http_answer) \<Rightarrow> string \<Rightarrow> jobj \<Rightarrow> string + jobj" where
  "tep_rpc cfg env_peer get post node payload =
     bind_r (json_answer get) (\<lambda>status.
     bind_r (resolve cfg env_peer status node) (\<lambda>(dest, peer).
     bind_r (json_answer (post [(''node_id'', JStr dest), (''peer_id'', JStr peer), (''payload'', JObj payload)])) rpc_result))"

definition validate_identity :: "ha_config \<Rightarrow> jobj \<Rightarrow> string + unit" where
  "validate_identity cfg status =
     (let actual = jtext_strip status ''node_id''
      in if actual \<noteq> [] \<and> actual \<noteq> hf_node cfg then Inl ''node_id mismatch''
         else if \<not> truthy (jget_def_to status ''app_ready'' (JBool False)) then Inl ''not ready''
         else (case py_iter (py_or (jget status ''services'') (JList [])) of
                 None \<Rightarrow> Inl ''services''
               | Some xs \<Rightarrow> if JStr ''ha.lease'' \<in> set xs then Inr () else Inl ''no ha.lease''))"

section \<open>The HTTP handler\<close>

definition media_type :: "string \<Rightarrow> string" where
  "media_type s = py_lower (py_strip (takeWhile (\<lambda>c. c \<noteq> CHR '';'') s))"

definition content_length :: "string \<Rightarrow> int" where
  "content_length s = (case py_int_text (if s = [] then ''0'' else s) of None \<Rightarrow> 0 | Some n \<Rightarrow> n)"

text \<open>\<open>do_POST\<close>: the status and error code or result; \<open>body\<close> is the parsed body, \<open>None\<close> when it does not parse.\<close>

definition ha_post :: "ha_config \<Rightarrow> py_float \<Rightarrow> string \<Rightarrow> string \<Rightarrow> string \<Rightarrow> json option \<Rightarrow> engine \<Rightarrow> (nat \<times> (string + jobj)) \<times> engine" where
  "ha_post cfg now path ctype clen body e =
     (if path \<noteq> ''/v1/tep'' then ((404, Inl ''not_found''), e)
      else if media_type ctype \<noteq> ''application/json'' then ((415, Inl ''unsupported_media_type''), e)
      else if content_length clen \<le> 0 \<or> 16384 < content_length clen then ((413, Inl ''request_too_large''), e)
      else (case body of
              Some (JObj d) \<Rightarrow>
                (case (jget d ''source'', jget d ''payload'') of
                   (JObj s, JObj p) \<Rightarrow>
                     (case handle_tep cfg now (JObj s) (JObj p) e of
                        (Inr r, e') \<Rightarrow> ((200, Inr r), e')
                      | (Inl code, e') \<Rightarrow> ((if code = ''internal_error'' then 500 else 400, Inl code), e'))
                 | _ \<Rightarrow> ((400, Inl ''bad_request''), e))
            | _ \<Rightarrow> ((500, Inl ''internal_error''), e)))"

definition ha_get :: "ha_config \<Rightarrow> py_float \<Rightarrow> string \<Rightarrow> engine \<Rightarrow> nat \<times> (string + jobj)" where
  "ha_get cfg now path e = (if path \<noteq> ''/v1/status'' then (404, Inl ''not_found'') else (200, Inr (local_status cfg now e)))"

section \<open>Properties\<close>

lemma reason_if_Nil [simp]: "reason_if b x = [] \<longleftrightarrow> \<not> b"
  by (simp add: reason_if_def)

lemma check_services_ok: "check_services pr cfg = [] \<longleftrightarrow> (\<forall>x \<in> set (hf_required_services cfg). pr_active pr x)"
  by (auto simp: check_services_def filter_empty_conv)

lemma check_url_ok: "check_url pr u = [] \<longleftrightarrow> pr_loopback pr u \<and> (\<exists>code. pr_http pr u = Some code \<and> code div 100 = 2)"
  by (auto simp: check_url_def split: option.splits)

text \<open>What a passing Monero check has seen.\<close>

definition monero_healthy :: "probes \<Rightarrow> jobj \<Rightarrow> bool" where
  "monero_healthy pr item \<longleftrightarrow>
     pr_loopback pr (jtext_strip item ''url'') \<and>
     (\<exists>d r h t m. pr_monero pr item = Some (JObj d) \<and> jget d ''result'' = JObj r \<and>
        jget r ''synchronized'' = JBool True \<and> jget r ''offline'' \<noteq> JBool True \<and> jget r ''busy_syncing'' \<noteq> JBool True \<and>
        (jtext_strip item ''nettype'' \<noteq> [] \<longrightarrow> jtext_strip r ''nettype'' = jtext_strip item ''nettype'') \<and>
        py_int (py_or (jget r ''height'') (JInt 0)) = Some h \<and> py_int (py_or (jget r ''target_height'') (JInt 0)) = Some t \<and>
        py_int (jget_def_to item ''max_height_lag'' (JInt 2)) = Some m \<and> (0 < t \<longrightarrow> t \<le> h + max 0 m))"

lemma monero_result_ok:
  "monero_result name expected item r = [] \<Longrightarrow>
     jget r ''synchronized'' = JBool True \<and> jget r ''offline'' \<noteq> JBool True \<and> jget r ''busy_syncing'' \<noteq> JBool True \<and>
     (expected \<noteq> [] \<longrightarrow> jtext_strip r ''nettype'' = expected) \<and>
     (\<exists>h t m. py_int (py_or (jget r ''height'') (JInt 0)) = Some h \<and> py_int (py_or (jget r ''target_height'') (JInt 0)) = Some t \<and>
        py_int (jget_def_to item ''max_height_lag'' (JInt 2)) = Some m \<and> (0 < t \<longrightarrow> t \<le> h + max 0 m))"
  by (auto simp: monero_result_def Let_def split: option.splits)

lemma check_monero_ok: "check_monero_item pr item = [] \<Longrightarrow> monero_healthy pr item"
  using monero_result_ok
  by (fastforce simp: check_monero_item_def monero_healthy_def Let_def split: if_splits option.splits json.splits)

definition replication_fresh :: "probes \<Rightarrow> ha_config \<Rightarrow> bool" where
  "replication_fresh pr cfg \<longleftrightarrow>
     (\<exists>d u. pr_replication pr = Some (JObj d) \<and> truthy (jget_def_to d ''ready'' (JBool False)) \<and>
        py_float_of (jget_def_to d ''updated_at'' (JInt 0)) = Some u \<and> 0 < u \<and>
        pr_time pr - u \<le> max (hf_max_lag cfg * 2) 30 \<and> lag_reasons cfg d = [])"

lemma check_replication_ok: "check_replication pr cfg = [] \<Longrightarrow> hf_replication_file cfg \<noteq> [] \<Longrightarrow> replication_fresh pr cfg"
  by (auto simp: check_replication_def replication_fresh_def Let_def split: option.splits json.splits if_splits)

text \<open> A node the checker calls eligible has passed every check: each required service is active, each health
  URL is a loopback one that answered 2xx, each Monero daemon is synchronised, online, on the expected
  network and within its height lag, and the replication state is ready, recent and within the lag bound;
  and the verdict is the absence of reasons.
\<close>
theorem eligible_node_is_healthy:
  assumes "eligibility pr raw cfg = (True, reasons)"
  shows "reasons = [] \<and> is_ha_candidate cfg \<and>
    (\<forall>x \<in> set (hf_required_services cfg). pr_active pr x) \<and>
    (\<forall>u \<in> set (hf_health_urls cfg). pr_loopback pr u \<and> (\<exists>code. pr_http pr u = Some code \<and> code div 100 = 2)) \<and>
    (\<forall>item \<in> set (monero_items raw). monero_healthy pr item) \<and>
    (hf_replication_file cfg \<noteq> [] \<longrightarrow> replication_fresh pr cfg)"
proof -
  have r: "is_ha_candidate cfg" "reasons = []" "check_services pr cfg = []"
    "concat (map (check_url pr) (hf_health_urls cfg)) = []" "concat (map (check_monero_item pr) (monero_items raw)) = []"
    "check_replication pr cfg = []"
    using assms by (auto simp: eligibility_def Let_def split: if_splits)
  then show ?thesis
    using check_services_ok check_url_ok check_monero_ok check_replication_ok by (auto simp: concat_eq_Nil_conv)
qed

definition well_raw :: jobj where
  "well_raw = [(''monero_checks'', JList [JObj [(''name'', JStr ''main''), (''url'', JStr ''http://127.0.0.1:1''), (''nettype'', JStr ''mainnet'')]])]"

definition well :: probes where
  "well = \<lparr>pr_active = (\<lambda>x. True), pr_loopback = (\<lambda>x. True), pr_http = (\<lambda>x. Some 204),
     pr_monero = (\<lambda>x. Some (JObj [(''result'', JObj [(''nettype'', JStr ''mainnet''), (''synchronized'', JBool True),
                                    (''height'', JInt 99), (''target_height'', JInt 101)])])),
     pr_replication = Some (JObj [(''ready'', JBool True), (''updated_at'', JInt 990), (''mode'', JStr ''reconstructable'')]), pr_time = 1000\<rparr>"

definition well_cfg :: ha_config where
  "well_cfg = cfg_a\<lparr>hf_required_services := [''db''], hf_health_urls := [''http://localhost/''], hf_replication_file := ''r.json''\<rparr>"

theorem eligible_node_is_healthy_witness:
  "eligibility well well_raw well_cfg = (True, []) \<and> replication_fresh well well_cfg \<and>
   filter (\<lambda>item. \<not> monero_healthy well item) (monero_items well_raw) = []"
proof -
  have e: "eligibility well well_raw well_cfg = (True, [])" by code_simp
  have "hf_replication_file well_cfg \<noteq> []" by code_simp
  then show ?thesis using eligible_node_is_healthy [OF e] e by (simp add: filter_empty_conv)
qed

definition error_same :: "engine \<Rightarrow> (string + jobj) \<times> engine \<Rightarrow> bool" where
  "error_same e res \<longleftrightarrow> (isl (fst res) \<longrightarrow> snd res = e)"

lemma error_same_simps [simp]: "error_same e (x, e)" "error_same e (Inr y, e')"
  by (simp_all add: error_same_def)

lemma vote_request_error: "error_same e (vote_request cfg now src c t ms e)"
  by (simp add: vote_request_def advance_def give_lease_def)

lemma renew_request_error: "error_same e (renew_request cfg now src c t ms e)"
  by (simp add: renew_request_def give_lease_def)

lemma with_ints_error: "(\<And>t ms. error_same e (f t ms e)) \<Longrightarrow> error_same e (with_ints p d f e)"
  by (simp add: with_ints_def split: option.split)

lemma handle_base_error: "error_same e (handle_base cfg now s p e)"
  by (simp add: handle_base_def Let_def with_ints_error vote_request_error renew_request_error)

lemma handle_tep_error: "handle_tep cfg now src payload e = (Inl x, e') \<Longrightarrow> e' = e"
proof -
  have "error_same e (handle_tep cfg now src payload e)"
    by (cases payload; cases src) (simp_all add: handle_tep_def Let_def handle_base_error)
  then show "handle_tep cfg now src payload e = (Inl x, e') \<Longrightarrow> e' = e" by (simp add: error_same_def)
qed

text \<open> A request to the agent's HTTP port that is answered with an error has no effect: whatever the path,
  media type, declared length and body, the engine is the one of before unless the answer is 200; and only
  bodies declared between 1 and 16384 bytes on the TEP path are ever handled.
\<close>
theorem refused_post_changes_nothing:
  assumes "ha_post cfg now path ctype clen body e = ((code, answer), e')"
  shows "(isl answer \<longrightarrow> e' = e) \<and> (code = 200 \<longleftrightarrow> \<not> isl answer) \<and>
    (code = 200 \<longrightarrow> path = ''/v1/tep'' \<and> media_type ctype = ''application/json'' \<and>
       1 \<le> content_length clen \<and> content_length clen \<le> 16384)"
  using assms
  by (auto simp: ha_post_def dest: handle_tep_error split: if_splits option.splits json.splits prod.splits sum.splits)

theorem refused_post_changes_nothing_witness:
  "fst (fst (ha_post cfg_b 55 ''/v1/tep'' ''application/json; charset=utf-8'' ''200''
     (Some (JObj [(''source'', JObj (from_node ''z'')), (''payload'', JObj (vote_payload cfg_a 4))])) (snd voted_b))) = 400 \<and>
   snd (ha_post cfg_b 55 ''/v1/tep'' ''application/json; charset=utf-8'' ''200''
     (Some (JObj [(''source'', JObj (from_node ''z'')), (''payload'', JObj (vote_payload cfg_a 4))])) (snd voted_b)) = snd voted_b"
proof -
  define r where "r = ha_post cfg_b 55 ''/v1/tep'' ''application/json; charset=utf-8'' ''200''
     (Some (JObj [(''source'', JObj (from_node ''z'')), (''payload'', JObj (vote_payload cfg_a 4))])) (snd voted_b)"
  have "fst (fst r) = 400" "isl (snd (fst r))" unfolding r_def by code_simp+
  then show ?thesis
    using refused_post_changes_nothing [of cfg_b 55 _ _ _ _ "snd voted_b" "fst (fst r)" "snd (fst r)" "snd r"]
    unfolding r_def by (metis prod.collapse)
qed

section \<open>The configuration\<close>

text \<open> A configuration that loads is one the lease protocol can run on: voters are distinct and any two
  quorums of them overlap, a candidate is listed with its priority, candidate names are unique, the
  lease is 6 to 120 seconds with at least two loop periods in it, and health probes stay on the loopback.
\<close>
theorem loaded_config_is_sound:
  assumes "load_config loopback raw = Inr cfg"
  shows "distinct (hf_voters cfg) \<and> hf_voters cfg \<noteq> [] \<and> length (hf_voters cfg) < 2 * quorum cfg \<and>
    quorum cfg \<le> length (hf_voters cfg) \<and>
    (is_ha_candidate cfg \<longrightarrow> hf_node cfg \<in> hc_id ` set (hf_candidates cfg)) \<and> distinct (map hc_id (hf_candidates cfg)) \<and>
    6 \<le> hf_lease cfg \<and> hf_lease cfg \<le> 120 \<and> 2 * hf_loop cfg < hf_lease cfg \<and> 6000 \<le> lease_ms cfg \<and>
    list_all loopback (hf_health_urls cfg)"
proof -
  have ms: "6000 \<le> py_trunc (x * 1000)" if "6 \<le> x" for x :: py_float
    using that by (simp add: py_trunc_def le_floor_iff)
  have half: "xs \<noteq> [] \<Longrightarrow> length xs < Suc (Suc (2 * (length xs div 2))) \<and> Suc (length xs div 2) \<le> length xs" for xs :: "string list"
    by (cases xs) auto
  show ?thesis
    using assms
    by (clarsimp simp: half load_config_def Let_def bind_r_Inr quorum_def is_ha_candidate_def lease_ms_def ms split: if_split_asm)
qed

definition sample_raw :: jobj where
  "sample_raw = [(''cluster_id'', JStr ''hb''), (''node_id'', JStr '' a ''), (''roles'', JList [JStr ''voter'', JStr ''candidate'']),
     (''voters'', JList [JStr ''a'', JStr ''b'', JStr ''a'', JStr ''c'']),
     (''candidates'', JList [JObj [(''node_id'', JStr ''a''), (''priority'', JInt 1)], JObj [(''node_id'', JStr ''b'')]])]"

theorem loaded_config_is_sound_witness:
  "\<exists>cfg. load_config (\<lambda>u. True) sample_raw = Inr cfg \<and> hf_voters cfg = [''a'', ''b'', ''c''] \<and> quorum cfg = 2 \<and>
     6000 \<le> lease_ms cfg \<and> length (hf_voters cfg) < 2 * quorum cfg"
proof -
  define cfg where "cfg = projr (load_config (\<lambda>u. True) sample_raw)"
  have c: "load_config (\<lambda>u. True) sample_raw = Inr cfg" unfolding cfg_def by code_simp
  have "hf_voters cfg = [''a'', ''b'', ''c''] \<and> quorum cfg = 2" unfolding cfg_def by code_simp
  then show ?thesis using c loaded_config_is_sound [OF c] by blast
qed

end
