(* ===== verification/Ha_Readiness.thy ===== *)
theory Ha_Readiness
  imports Ha_Checks
begin

text \<open>
  The producer of the replication state file the eligibility check reads:
  \<open>ha/hashburst_ha_readiness.py\<close>. Files, HTTP probes, the sources' state files and the clock are arguments; a
  probe that raises is \<open>Inl\<close> of the exception's type name. The text Python prints for computed floats is
  not modelled (it is left empty in the rows).
\<close>

section \<open>Probes and results\<close>

datatype file_kind = Missing | Not_file | Regular int string

record ready_env =
  re_file :: "string \<Rightarrow> file_kind"
  re_path :: "string \<Rightarrow> string"
  re_loopback :: "string \<Rightarrow> bool"
  re_get :: "string \<Rightarrow> string + json"
  re_monero :: "jobj \<Rightarrow> string + json"
  re_state :: "string \<Rightarrow> string + json"
  re_time :: py_float

text \<open>One check: the key and row it stores in \<open>checks\<close>, and the errors it appends.\<close>

type_synonym ready_check = "(string \<times> json) \<times> string list"

definition ready_row :: "string \<Rightarrow> jobj \<Rightarrow> string list \<Rightarrow> ready_check" where
  "ready_row key row errs = ((key, JObj row), errs)"

definition conv_error :: "json \<Rightarrow> string" where
  "conv_error v = (case v of JStr s \<Rightarrow> ''ValueError'' | _ \<Rightarrow> ''TypeError'')"

definition conv_int :: "json \<Rightarrow> string + int" where
  "conv_int v = (case py_int v of None \<Rightarrow> Inl (conv_error v) | Some n \<Rightarrow> Inr n)"

definition conv_float :: "json \<Rightarrow> string + py_float" where
  "conv_float v = (case py_float_of v of None \<Rightarrow> Inl (conv_error v) | Some x \<Rightarrow> Inr x)"

definition json_items :: "jobj \<Rightarrow> string \<Rightarrow> string + json list" where
  "json_items config k =
     (case py_iter (jget_def_to config k (JList [])) of None \<Rightarrow> Inl ''TypeError'' | Some xs \<Rightarrow> Inr xs)"

definition objects_of :: "json list \<Rightarrow> jobj list" where
  "objects_of xs = List.map_filter as_obj xs"

section \<open>The four groups of checks\<close>

definition file_check :: "ready_env \<Rightarrow> jobj \<Rightarrow> ready_check option" where
  "file_check env item =
     (let path = jtext_strip item ''path'';
          name = py_str (py_or (jget item ''name'') (JStr path));
          row = [(''path'', JStr path), (''exists'', JBool (re_file env path \<noteq> Missing))]
      in if path = [] then None
         else Some (case re_file env path of
             Missing \<Rightarrow> ready_row (''file:'' @ name) row [''file_missing:'' @ name]
           | Not_file \<Rightarrow> ready_row (''file:'' @ name) row []
           | Regular n sha \<Rightarrow>
               ready_row (''file:'' @ name)
                 (row @ [(''size'', JInt n)] @
                  (if truthy (jget_def_to item ''sha256'' (JBool False)) then [(''sha256'', JStr sha)] else [])) []))"

definition file_item :: "json \<Rightarrow> jobj option" where
  "file_item v = (case v of JStr p \<Rightarrow> Some [(''path'', JStr p)] | JObj o' \<Rightarrow> Some o' | _ \<Rightarrow> None)"

definition file_checks :: "ready_env \<Rightarrow> json list \<Rightarrow> ready_check list" where
  "file_checks env items = List.map_filter (file_check env) (List.map_filter file_item items)"

definition health_check :: "ready_env \<Rightarrow> string \<Rightarrow> ready_check" where
  "health_check env url =
     (if \<not> re_loopback env url then
        ready_row (''http:'' @ url) [(''ok'', JBool False), (''error'', JStr ''non_loopback_url'')] [''health_bad_url:'' @ url]
      else (case re_get env url of
              Inr data \<Rightarrow> ready_row (''http:'' @ url) [(''ok'', JBool True), (''response'', data)] []
            | Inl e \<Rightarrow> ready_row (''http:'' @ url) [(''ok'', JBool False), (''error'', JStr e)] [''health_unreachable:'' @ url]))"

definition health_checks :: "ready_env \<Rightarrow> json list \<Rightarrow> ready_check list" where
  "health_checks env urls = map (health_check env) (filter (\<lambda>u. u \<noteq> []) (map (\<lambda>v. py_strip (py_str v)) urls))"

record monero_reading =
  mo_nettype :: string
  mo_height :: int
  mo_target :: int
  mo_sync :: bool
  mo_busy :: bool
  mo_offline :: bool
  mo_lag :: int

definition monero_reading :: "ready_env \<Rightarrow> jobj \<Rightarrow> string + monero_reading" where
  "monero_reading env item =
     bind_r (conv_float (jget_def_to item ''timeout_seconds'' (JInt 2))) (\<lambda>timeout.
     bind_r (re_monero env item) (\<lambda>data.
       case (case data of JObj d \<Rightarrow> jget d ''result'' | _ \<Rightarrow> JNull) of
         JObj r \<Rightarrow>
           bind_r (conv_int (py_or (jget r ''height'') (JInt 0))) (\<lambda>height.
           bind_r (conv_int (py_or (jget r ''target_height'') (JInt 0))) (\<lambda>target.
           bind_r (conv_int (jget_def_to item ''max_height_lag'' (JInt 2))) (\<lambda>lag.
             Inr \<lparr>mo_nettype = jtext r ''nettype'', mo_height = height, mo_target = target,
                  mo_sync = (jget r ''synchronized'' = JBool True), mo_busy = (jget r ''busy_syncing'' = JBool True),
                  mo_offline = (jget r ''offline'' = JBool True), mo_lag = max 0 lag\<rparr>)))
       | _ \<Rightarrow> Inl ''ValueError''))"

definition monero_ok :: "string \<Rightarrow> monero_reading \<Rightarrow> bool" where
  "monero_ok expected m \<longleftrightarrow>
     (expected = [] \<or> mo_nettype m = expected) \<and> mo_sync m \<and> \<not> mo_busy m \<and> \<not> mo_offline m \<and>
     (mo_target m \<le> 0 \<or> mo_target m \<le> mo_height m + mo_lag m)"

definition monero_check :: "ready_env \<Rightarrow> jobj \<Rightarrow> ready_check" where
  "monero_check env item =
     (let name = py_strip (py_str (py_or (jget item ''name'') (JStr ''monero'')));
          url = jtext_strip item ''url''; expected = jtext_strip item ''nettype'';
          row = [(''url'', JStr url), (''expected_nettype'', JStr expected)]
      in if \<not> re_loopback env url then
           ready_row (''monero:'' @ name) (row @ [(''ok'', JBool False), (''error'', JStr ''non_loopback_url'')])
             [''monero_bad_url:'' @ name]
         else (case monero_reading env item of
             Inl e \<Rightarrow> ready_row (''monero:'' @ name) (row @ [(''ok'', JBool False), (''error'', JStr e)])
                        [''monero_unreachable:'' @ name]
           | Inr m \<Rightarrow>
               ready_row (''monero:'' @ name)
                 (row @ [(''ok'', JBool (monero_ok expected m)), (''nettype'', JStr (mo_nettype m)), (''height'', JInt (mo_height m)),
                         (''target_height'', JInt (mo_target m)), (''synchronized'', JBool (mo_sync m)),
                         (''busy_syncing'', JBool (mo_busy m)), (''offline'', JBool (mo_offline m))])
                 (reason_if (\<not> monero_ok expected m) (''monero_not_ready:'' @ name))))"

record source_reading =
  so_ready :: bool
  so_updated :: py_float
  so_lag :: py_float

definition source_reading :: "ready_env \<Rightarrow> string \<Rightarrow> string + source_reading" where
  "source_reading env path =
     bind_r (re_state env path) (\<lambda>data.
       case data of
         JObj d \<Rightarrow>
           bind_r (conv_float (jget_def_to d ''updated_at'' (JInt 0))) (\<lambda>updated.
           bind_r (if jget d ''lag_seconds'' = JNull then Inr (max 0 (re_time env - updated)) else conv_float (jget d ''lag_seconds'')) (\<lambda>lag.
             Inr \<lparr>so_ready = truthy (jget_def_to d ''ready'' (JBool False)), so_updated = updated, so_lag = lag\<rparr>))
       | _ \<Rightarrow> Inl ''ValueError'')"

definition source_allowed :: "jobj \<Rightarrow> jobj \<Rightarrow> string + py_float" where
  "source_allowed config item =
     conv_float (jget_def_to item ''max_lag_seconds'' (jget_def_to config ''max_replication_lag_seconds'' (JInt 30)))"

text \<open>One source: its row and errors, and the lag it adds to the maximum; \<open>float(max_lag_seconds)\<close> may raise.\<close>

definition source_check :: "ready_env \<Rightarrow> jobj \<Rightarrow> jobj \<Rightarrow> string + ready_check \<times> py_float" where
  "source_check env config item =
     (let name = py_str (py_or (jget item ''name'') (JStr ''source''));
          path = re_path env (jtext item ''state_file'')
      in bind_r (source_allowed config item) (\<lambda>allowed.
           let row = [(''state_file'', JStr path), (''max_lag_seconds'', JFloat allowed [])]
           in Inr (case source_reading env path of
             Inl e \<Rightarrow> (ready_row (''replication:'' @ name) (row @ [(''ready'', JBool False), (''error'', JStr e)])
                        [''source_unavailable:'' @ name], 0)
           | Inr s \<Rightarrow>
               (ready_row (''replication:'' @ name)
                  (row @ [(''ready'', JBool (so_ready s)), (''updated_at'', JFloat (so_updated s) []), (''lag_seconds'', JFloat (so_lag s) [])])
                  (reason_if (\<not> so_ready s) (''source_not_ready:'' @ name) @
                   reason_if (so_updated s \<le> 0 \<or> allowed < so_lag s) (''source_lag:'' @ name @ '':'' @ fmt3 (so_lag s))),
                so_lag s))))"

fun source_checks :: "ready_env \<Rightarrow> jobj \<Rightarrow> jobj list \<Rightarrow> string + ready_check list \<times> py_float" where
  "source_checks env config [] = Inr ([], 0)"
| "source_checks env config (x # xs) =
     bind_r (source_check env config x) (\<lambda>(c, lag).
     bind_r (source_checks env config xs) (\<lambda>(cs, mx). Inr (c # cs, max lag mx)))"

section \<open>The state\<close>

definition state_of :: "string \<Rightarrow> py_float \<Rightarrow> ready_check list \<Rightarrow> py_float option \<Rightarrow> jobj" where
  "state_of mode now cs lag =
     (let errors = concat (map snd cs) in
      [(''version'', JInt 1), (''mode'', JStr mode), (''ready'', JBool (errors = [])), (''updated_at'', JFloat now []),
       (''checks'', JObj (fold (\<lambda>c o'. put_key (fst (fst c)) (snd (fst c)) o') cs [])), (''errors'', JList (map JStr errors))] @
      (case lag of None \<Rightarrow> [] | Some x \<Rightarrow> [(''lag_seconds'', JFloat x [])]))"

definition build_state :: "ready_env \<Rightarrow> jobj \<Rightarrow> string + jobj" where
  "build_state env config =
     bind_r (json_items config ''readiness_files'') (\<lambda>files.
     bind_r (json_items config ''health_urls'') (\<lambda>urls.
     bind_r (json_items config ''monero_checks'') (\<lambda>moneros.
     bind_r (json_items config ''replication_sources'') (\<lambda>srcs.
       let cs = file_checks env files @ health_checks env urls @ map (monero_check env) (objects_of moneros);
           sources = objects_of srcs
       in if sources = [] then Inr (state_of ''reconstructable'' (re_time env) cs None)
          else bind_r (source_checks env config sources) (\<lambda>(ss, lag).
            Inr (state_of ''continuous'' (re_time env) (cs @ ss) (Some lag)))))))"

text \<open>One turn of \<open>main\<close>: what it writes to the output file.\<close>

definition producer_turn :: "ready_env \<Rightarrow> string + json \<Rightarrow> jobj" where
  "producer_turn env config =
     (case bind_r config (\<lambda>c. case c of JObj o' \<Rightarrow> build_state env o' | _ \<Rightarrow> Inl ''ValueError'') of
        Inr s \<Rightarrow> s
      | Inl e \<Rightarrow>
          [(''version'', JInt 1), (''mode'', JStr ''reconstructable''), (''ready'', JBool False), (''updated_at'', JFloat (re_time env) []),
           (''checks'', JObj []), (''errors'', JList [JStr (''producer_error:'' @ e)])])"

section \<open>What a ready state promises\<close>

lemma snd_ready_row [simp]: "snd (ready_row k r es) = es"
  by (simp add: ready_row_def)

text \<open>A ready node's Monero daemons, probes and files were all well.\<close>

lemma monero_check_ok:
  "snd (monero_check env item) = [] \<longleftrightarrow>
     re_loopback env (jtext_strip item ''url'') \<and>
     (\<exists>m. monero_reading env item = Inr m \<and> monero_ok (jtext_strip item ''nettype'') m)"
  by (auto simp: monero_check_def Let_def split: sum.split)

lemma health_check_ok:
  "snd (health_check env u) = [] \<longleftrightarrow> re_loopback env u \<and> (\<exists>d. re_get env u = Inr d)"
  by (auto simp: health_check_def split: sum.split)

text \<open>The lag of a source without errors is within what its configuration allows.\<close>

lemma source_check_lag:
  assumes "source_check env config item = Inr (c, lag)" "snd c = []" "source_allowed config item = Inr a"
  shows "lag \<le> a"
  using assms by (auto simp: source_check_def Let_def split: sum.splits)

lemma source_checks_lag:
  assumes "source_checks env config xs = Inr (cs, mx)" "concat (map snd cs) = []" "0 \<le> bound"
    and "\<And>x a. x \<in> set xs \<Longrightarrow> source_allowed config x = Inr a \<Longrightarrow> a \<le> bound"
  shows "mx \<le> bound"
  using assms
proof (induction xs arbitrary: cs mx)
  case (Cons x xs)
  obtain c lag cs' mx' where c: "source_check env config x = Inr (c, lag)" "source_checks env config xs = Inr (cs', mx')"
    "cs = c # cs'" "mx = max lag mx'"
    using Cons.prems(1) by (auto simp: bind_r_Inr)
  obtain a where a: "source_allowed config x = Inr a"
    using c(1) by (cases "source_allowed config x") (simp_all add: source_check_def Let_def)
  have "lag \<le> a" using source_check_lag [OF c(1) _ a] Cons.prems(2) c(3) by simp
  moreover have "a \<le> bound" using Cons.prems(4) [of x a] a by simp
  moreover have "mx' \<le> bound"
    by (rule Cons.IH [OF c(2) _ Cons.prems(3)]) (use Cons.prems(2,4) c(3) in auto)
  ultimately show ?case using c(4) by simp
qed simp

lemma state_of_fields:
  "jget_def_to (state_of mode now cs lag) ''ready'' d = JBool (concat (map snd cs) = [])"
  "jget (state_of mode now cs lag) ''ready'' = JBool (concat (map snd cs) = [])"
  "jget_def_to (state_of mode now cs lag) ''updated_at'' d = JFloat now []"
  "jget (state_of mode now cs lag) ''mode'' = JStr mode"
  "jget_def_to (state_of mode now cs (Some x)) ''lag_seconds'' d = JFloat x []"
  by (simp_all add: state_of_def Let_def)

lemma mode_texts: "py_lower (py_strip ''reconstructable'') = ''reconstructable''" "py_lower (py_strip ''continuous'') = ''continuous''"
  by code_simp+

lemma lag_reasons_state:
  "lag_reasons cfg (state_of ''reconstructable'' now cs lag) = []"
  "lag_reasons cfg (state_of ''continuous'' now cs (Some x)) = reason_if (hf_max_lag cfg < x) (''replication_lag:'' @ fmt3 x)"
  by (simp_all add: lag_reasons_def Let_def py_or_def state_of_fields mode_texts)

text \<open> Producer and consumer agree: when the readiness producer writes a ready state, the lease agent's
  replication check accepts that file for as long as it is fresh (twice the maximal lag, at least 30
  seconds), in both modes, provided no source is allowed more lag than the agent's own bound.
\<close>
theorem ready_state_is_accepted:
  assumes "build_state env config = Inr st" "jget st ''ready'' = JBool True" "pr_replication pr = Some (JObj st)"
    and "0 < re_time env" "pr_time pr - re_time env \<le> max (hf_max_lag cfg * 2) 30" "0 \<le> hf_max_lag cfg"
    and "\<And>srcs x a. json_items config ''replication_sources'' = Inr srcs \<Longrightarrow> x \<in> set (objects_of srcs) \<Longrightarrow>
           source_allowed config x = Inr a \<Longrightarrow> a \<le> hf_max_lag cfg"
  shows "check_replication pr cfg = []"
proof -
  obtain mode cs lag where st: "st = state_of mode (re_time env) cs lag"
    and m: "mode = ''reconstructable'' \<or> mode = ''continuous'' \<and>
      (\<exists>srcs ss x pre. json_items config ''replication_sources'' = Inr srcs \<and> lag = Some x \<and> cs = pre @ ss \<and>
         source_checks env config (objects_of srcs) = Inr (ss, x))"
    using assms(1) by (auto simp: build_state_def bind_r_Inr Let_def split: if_split_asm)
  have ready: "concat (map snd cs) = []" using assms(2) by (simp add: st state_of_fields)
  have "lag_reasons cfg st = []"
    using m
  proof
    assume "mode = ''reconstructable''"
    then show ?thesis by (simp add: st lag_reasons_state)
  next
    assume "mode = ''continuous'' \<and>
      (\<exists>srcs ss x pre. json_items config ''replication_sources'' = Inr srcs \<and> lag = Some x \<and> cs = pre @ ss \<and>
         source_checks env config (objects_of srcs) = Inr (ss, x))"
    then obtain srcs ss x pre where c: "mode = ''continuous''" "json_items config ''replication_sources'' = Inr srcs" "lag = Some x"
      "cs = pre @ ss" "source_checks env config (objects_of srcs) = Inr (ss, x)" by blast
    have "x \<le> hf_max_lag cfg"
      by (rule source_checks_lag [OF c(5) _ assms(6)]) (use ready c(4) assms(7) [OF c(2)] in auto)
    then show ?thesis by (simp add: st c(1,3) lag_reasons_state)
  qed
  moreover have "\<not> max (hf_max_lag cfg * 2) 30 < max 0 (pr_time pr - re_time env)"
    using assms(5) by (auto simp: max_def)
  ultimately show ?thesis
    using assms(3,4) ready by (simp add: check_replication_def st state_of_fields Let_def)
qed

definition ready_world :: ready_env where
  "ready_world = \<lparr>re_file = (\<lambda>p. Regular 10 ''ab''), re_path = (\<lambda>p. p), re_loopback = (\<lambda>u. True), re_get = (\<lambda>u. Inr JNull),
     re_monero = (\<lambda>x. Inl ''URLError''), re_state = (\<lambda>p. Inr (JObj [(''ready'', JBool True), (''updated_at'', JInt 990)])), re_time = 1000\<rparr>"

definition ready_config :: jobj where
  "ready_config = [(''readiness_files'', JList [JStr ''/x'']), (''health_urls'', JList [JStr ''http://localhost/'']),
     (''replication_sources'', JList [JObj [(''name'', JStr ''db''), (''state_file'', JStr ''/s'')]])]"

definition ready_agent :: ha_config where "ready_agent = cfg_a\<lparr>hf_replication_file := ''/r''\<rparr>"

lemma ready_world_checks:
  "file_item (JStr p) = Some [(''path'', JStr p)]"
  "file_check ready_world [(''path'', JStr ''/x'')] =
     Some (ready_row (''file:'' @ ''/x'') [(''path'', JStr ''/x''), (''exists'', JBool True), (''size'', JInt 10)] [])"
  "snd (health_check ready_world u) = []"
    apply (simp add: file_item_def)
   apply code_simp
  apply (simp add: health_check_def ready_world_def)
  done

lemma ready_world_state: "\<exists>st. build_state ready_world ready_config = Inr st \<and> jget st ''ready'' = JBool True"
proof -
  have "source_checks ready_world ready_config [[(''name'', JStr ''db''), (''state_file'', JStr ''/s'')]] =
      Inr ([ready_row ''replication:db'' [(''state_file'', JStr ''/s''), (''max_lag_seconds'', JFloat 30 []), (''ready'', JBool True),
              (''updated_at'', JFloat 990 []), (''lag_seconds'', JFloat 10 [])] []], 10)"
    by (simp add: source_check_def source_allowed_def conv_float_def source_reading_def ready_world_def ready_config_def
        Let_def reason_if_def jtext_def py_or_def)
  then show ?thesis
    by (simp add: build_state_def ready_config_def json_items_def objects_of_def file_checks_def health_checks_def
        ready_world_checks List.map_filter_simps state_of_fields)
qed

theorem ready_state_is_accepted_witness:
  "\<exists>st. build_state ready_world ready_config = Inr st \<and>
     check_replication (well\<lparr>pr_replication := Some (JObj st), pr_time := 1050\<rparr>) ready_agent = []"
proof -
  have lag: "hf_max_lag ready_agent = 30" by (simp add: ready_agent_def cfg_a_def)
  obtain st where st: "build_state ready_world ready_config = Inr st" "jget st ''ready'' = JBool True"
    using ready_world_state by blast
  have "check_replication (well\<lparr>pr_replication := Some (JObj st), pr_time := 1050\<rparr>) ready_agent = []"
    by (rule ready_state_is_accepted [OF st])
      (auto simp: lag ready_world_def ready_config_def json_items_def objects_of_def source_allowed_def conv_float_def List.map_filter_simps)
  with st show ?thesis by blast
qed

text \<open>
  The two programs bound lag differently: a source configured with its own, larger
  \<open>max_lag_seconds\<close> leaves the producer's state ready with a lag the lease agent then refuses.
\<close>

definition lagging_config :: jobj where
  "lagging_config = [(''replication_sources'', JList [JObj [(''max_lag_seconds'', JInt 300), (''state_file'', JStr ''/s'')]])]"

lemma ready_state_may_be_refused:
  "\<exists>st. build_state (ready_world\<lparr>re_time := 1050\<rparr>) lagging_config = Inr st \<and> jget st ''ready'' = JBool True \<and>
     check_replication (well\<lparr>pr_replication := Some (JObj st), pr_time := 1050\<rparr>) ready_agent \<noteq> []"
proof -
  have "build_state (ready_world\<lparr>re_time := 1050\<rparr>) lagging_config =
      Inr (state_of ''continuous'' 1050
        [ready_row ''replication:source'' [(''state_file'', JStr ''/s''), (''max_lag_seconds'', JFloat 300 []), (''ready'', JBool True),
           (''updated_at'', JFloat 990 []), (''lag_seconds'', JFloat 60 [])] []] (Some 60))"
    by (simp add: build_state_def lagging_config_def json_items_def objects_of_def file_checks_def health_checks_def
        source_check_def source_allowed_def conv_float_def source_reading_def ready_world_def Let_def reason_if_def
        jtext_def List.map_filter_simps)
  moreover have "hf_replication_file ready_agent \<noteq> []" "hf_max_lag ready_agent = 30"
    by (simp_all add: ready_agent_def cfg_a_def)
  ultimately show ?thesis
    by (simp add: check_replication_def state_of_fields lag_reasons_state Let_def reason_if_def)
qed

end
