(* ===== verification/Master_Ingress.thy ===== *)
theory Master_Ingress
  imports Ha_Checks
begin

text \<open>
  The loopback HTTP front end that finds the current master:
  \<open>ha/hashburst_master_ingress.py\<close>. The three local upstreams (the lease agent's status, the TEP daemon's
  status, the TEP master-status RPC) are arguments, as what \<open>urlopen\<close> returned; an \<open>IngressError\<close> is a record.
\<close>

section \<open>Upstreams\<close>

record ingress_error =
  ig_code :: string
  ig_message :: string
  ig_status :: int

definition ingress_error :: "string \<Rightarrow> string \<Rightarrow> ingress_error + 'a" where
  "ingress_error code message = Inl \<lparr>ig_code = code, ig_message = message, ig_status = 503\<rparr>"

definition gateway_error :: "string \<Rightarrow> string \<Rightarrow> ingress_error + 'a" where
  "gateway_error code message = Inl \<lparr>ig_code = code, ig_message = message, ig_status = 502\<rparr>"

text \<open>\<open>Up_body\<close>: the status, the number of bytes and, if the bytes are JSON, the value.\<close>

datatype upstream = Up_rejected | Up_unreachable | Up_body int nat "json option"

definition request_json :: "upstream \<Rightarrow> ingress_error + jobj" where
  "request_json u =
     (case u of
        Up_rejected \<Rightarrow> ingress_error ''upstream_rejected'' ''local upstream rejected the request''
      | Up_unreachable \<Rightarrow> ingress_error ''upstream_unavailable'' ''local upstream is unavailable''
      | Up_body status n body \<Rightarrow>
          if status div 100 \<noteq> 2 then
            ingress_error ''upstream_unavailable'' (''local upstream returned HTTP '' @ show_int status)
          else if 131072 < n then
            gateway_error ''response_too_large'' ''local upstream response exceeds limit''
          else (case body of
                  None \<Rightarrow> gateway_error ''invalid_upstream_response'' ''local upstream returned invalid JSON''
                | Some (JObj data) \<Rightarrow> Inr data
                | Some _ \<Rightarrow> gateway_error ''invalid_upstream_response'' ''local upstream response is not an object''))"

definition ha_status :: "upstream \<Rightarrow> ingress_error + jobj" where
  "ha_status ha =
     bind_r (request_json ha) (\<lambda>data.
       case jget data ''status'' of
         JObj s \<Rightarrow> Inr s
       | _ \<Rightarrow> ingress_error ''ha_status_invalid'' ''HA status is unavailable'')"

definition tep_status :: "upstream \<Rightarrow> ingress_error + jobj" where
  "tep_status tep =
     bind_r (request_json tep) (\<lambda>data.
       if jget data ''app_ready'' \<noteq> JBool True
       then ingress_error ''tep_not_ready'' ''TEP application transport is not ready''
       else Inr data)"

section \<open>Resolving the master\<close>

record ha_view =
  hv_holder :: string
  hv_term :: int
  hv_lease_ms :: int
  hv_voters :: int
  hv_quorum :: int

record master_route =
  mr_node :: string
  mr_peer :: string
  mr_host :: string
  mr_port :: int
  mr_term :: int
  mr_lease_ms :: int
  mr_voters :: int
  mr_quorum :: int

definition int_field :: "jobj \<Rightarrow> string \<Rightarrow> int option" where
  "int_field o' k = py_int (py_or (jget o' k) (JInt 0))"

definition view_int :: "jobj \<Rightarrow> string \<Rightarrow> ingress_error + int" where
  "view_int o' k =
     (case int_field o' k of
        None \<Rightarrow> ingress_error ''ha_view_invalid'' ''HA cluster view contains invalid values''
      | Some n \<Rightarrow> Inr n)"

text \<open>The first half of \<open>resolve\<close>: what the lease agent must report.\<close>

definition check_view :: "jobj \<Rightarrow> ingress_error + ha_view" where
  "check_view status =
     (case jget status ''cluster_view'' of
        JObj view \<Rightarrow>
          let holder = jtext_strip status ''holder''
          in if holder = [] then ingress_error ''master_unavailable'' ''HA has no current master''
             else if jtext_strip view ''holder'' \<noteq> holder
               then ingress_error ''ha_holder_mismatch'' ''local and cluster HA holder disagree''
             else
               bind_r (view_int status ''term'') (\<lambda>term.
               bind_r (view_int view ''holder_term'') (\<lambda>holder_term.
               bind_r (view_int status ''lease_remaining_ms'') (\<lambda>ms.
               bind_r (view_int view ''voters_reachable'') (\<lambda>voters.
               bind_r (view_int view ''quorum'') (\<lambda>q.
                 if term < 1 \<or> holder_term \<noteq> term
                   then ingress_error ''ha_term_invalid'' ''HA holder term is not current''
                 else if q < 1 \<or> voters < q
                   then ingress_error ''ha_no_quorum'' ''HA quorum is not available''
                 else if ms < 1000
                   then ingress_error ''ha_lease_expiring'' ''HA master lease is expiring''
                 else Inr \<lparr>hv_holder = holder, hv_term = term, hv_lease_ms = ms, hv_voters = voters, hv_quorum = q\<rparr>)))))
      | _ \<Rightarrow> ingress_error ''ha_view_invalid'' ''HA cluster view is unavailable'')"

text \<open>The second half: the holder's entry in the TEP registry; the first with its id counts.\<close>

definition registry_peer :: "string \<Rightarrow> json list \<Rightarrow> jobj option" where
  "registry_peer holder peers =
     map_option (\<lambda>p. case p of JObj o' \<Rightarrow> o' | _ \<Rightarrow> [])
       (find (\<lambda>p. case p of JObj o' \<Rightarrow> jget o' ''id'' = JStr holder | _ \<Rightarrow> False) peers)"

definition check_peer :: "jobj \<Rightarrow> string \<Rightarrow> ingress_error + string \<times> string" where
  "check_peer tep holder =
     (case jget tep ''peers'' of
        JList peers \<Rightarrow>
          (case registry_peer holder peers of
             None \<Rightarrow> ingress_error ''master_not_registered'' ''HA master is absent from TEP registry''
           | Some peer \<Rightarrow>
               if jget peer ''online'' \<noteq> JBool True
                 then ingress_error ''master_offline'' ''HA master is offline in TEP''
               else if jtext_strip peer ''peer_id'' = [] \<or> jtext_strip peer ''ip'' = []
                 then ingress_error ''master_identity_incomplete'' ''HA master TEP identity is incomplete''
               else Inr (jtext_strip peer ''peer_id'', jtext_strip peer ''ip''))
      | _ \<Rightarrow> ingress_error ''tep_registry_invalid'' ''TEP peer registry is unavailable'')"

definition resolve_master :: "upstream \<Rightarrow> upstream \<Rightarrow> ingress_error + master_route" where
  "resolve_master ha tep =
     bind_r (ha_status ha) (\<lambda>status.
     bind_r (check_view status) (\<lambda>v.
     bind_r (tep_status tep) (\<lambda>t.
     bind_r (check_peer t (hv_holder v)) (\<lambda>(peer, host).
       Inr \<lparr>mr_node = hv_holder v, mr_peer = peer, mr_host = host, mr_port = 8765, mr_term = hv_term v,
            mr_lease_ms = hv_lease_ms v, mr_voters = hv_voters v, mr_quorum = hv_quorum v\<rparr>))))"

definition discovery :: "upstream \<Rightarrow> upstream \<Rightarrow> ingress_error + jobj" where
  "discovery ha tep =
     bind_r (resolve_master ha tep) (\<lambda>r.
       Inr [(''available'', JBool True),
            (''master'', JObj [(''node_id'', JStr (mr_node r)), (''tep_host'', JStr (mr_host r)), (''tep_port'', JInt (mr_port r)),
                               (''term'', JInt (mr_term r)), (''lease_remaining_ms'', JInt (mr_lease_ms r))]),
            (''ha'', JObj [(''voters_reachable'', JInt (mr_voters r)), (''quorum'', JInt (mr_quorum r))])])"

text \<open>\<open>post\<close> is the daemon's master-status RPC; the reply names the path it took and the relay, if any.\<close>

definition master_status ::
  "upstream \<Rightarrow> upstream \<Rightarrow> (jobj \<Rightarrow> upstream) \<Rightarrow> ingress_error + jobj \<times> master_route \<times> string \<times> string" where
  "master_status ha tep post =
     bind_r (resolve_master ha tep) (\<lambda>r.
     bind_r (request_json (post [(''node_id'', JStr (mr_node r)), (''peer_id'', JStr (mr_peer r))])) (\<lambda>response.
       if jget response ''ok'' \<noteq> JBool True
         then ingress_error ''tep_master_request_failed'' ''TEP master request failed''
       else (case jget response ''result'' of
               JObj result \<Rightarrow>
                 if jget result ''master_live'' \<noteq> JBool True
                   then ingress_error ''master_not_live'' ''HashBurst master is not live''
                 else if jtext response ''path'' \<notin> {''direct'', ''relay''}
                   then gateway_error ''invalid_transport_path'' ''TEP returned an invalid transport path''
                 else Inr (result, r, jtext response ''path'',
                           if truthy (jget response ''relay_peer_id'') then py_str (jget response ''relay_peer_id'') else [])
             | _ \<Rightarrow> gateway_error ''invalid_master_response'' ''master status is not an object'')))"

section \<open>The handler\<close>

text \<open>An answer: status, JSON body, and the routing headers of a master status.\<close>

type_synonym ingress_reply = "int \<times> jobj \<times> (string \<times> string) list"

definition error_reply :: "ingress_error \<Rightarrow> ingress_reply" where
  "error_reply e =
     (ig_status e, [(''available'', JBool False),
                    (''error'', JObj [(''code'', JStr (ig_code e)), (''message'', JStr (ig_message e))])], [])"

definition reply_of :: "ingress_error + jobj \<Rightarrow> ingress_reply" where
  "reply_of r = (case r of Inl e \<Rightarrow> error_reply e | Inr body \<Rightarrow> (200, body, []))"

definition request_path :: "string \<Rightarrow> string" where
  "request_path p = rev (dropWhile (\<lambda>c. c = CHR ''/'') (rev (takeWhile (\<lambda>c. c \<noteq> CHR ''?'') p)))"

definition ingress_get :: "upstream \<Rightarrow> upstream \<Rightarrow> (jobj \<Rightarrow> upstream) \<Rightarrow> string \<Rightarrow> ingress_reply" where
  "ingress_get ha tep post p =
     (let path = request_path p in
      if path = ''/health'' then
        (200, [(''ok'', JBool True), (''service'', JStr ''hashburst-master-ingress'')], [])
      else if path = ''/api/hashburst/ha/status'' then
        reply_of (bind_r (ha_status ha) (\<lambda>s. Inr [(''available'', JBool True), (''status'', JObj s)]))
      else if path = ''/api/hashburst/master/discovery'' then reply_of (discovery ha tep)
      else if path = ''/api/hashburst/master/status'' then
        (case master_status ha tep post of
           Inl e \<Rightarrow> error_reply e
         | Inr (result, r, transport, relay) \<Rightarrow>
             (200, result, [(''X-HashBurst-Master'', mr_node r), (''X-HashBurst-Transport'', transport),
                            (''X-HashBurst-Term'', show_int (mr_term r)), (''X-HashBurst-Relay'', relay)]))
      else (404, [(''available'', JBool False), (''error'', JObj [(''code'', JStr ''not_found'')])], []))"

definition ingress_post :: ingress_reply where
  "ingress_post = (405, [(''available'', JBool False), (''error'', JObj [(''code'', JStr ''method_not_allowed'')])], [])"

section \<open>Facts\<close>

lemma ingress_error_Inr [simp]: "ingress_error c m \<noteq> Inr x" "gateway_error c m \<noteq> Inr x"
  by (simp_all add: ingress_error_def gateway_error_def)

lemma request_json_Inr:
  "request_json u = Inr d \<longleftrightarrow> (\<exists>status n. u = Up_body status n (Some (JObj d)) \<and> status div 100 = 2 \<and> n \<le> 131072)"
  by (auto simp: request_json_def split: upstream.splits option.splits json.splits if_splits)

lemma ha_status_Inr: "ha_status ha = Inr s \<longleftrightarrow> (\<exists>d. request_json ha = Inr d \<and> jget d ''status'' = JObj s)"
proof (cases "request_json ha")
  case (Inr d)
  then show ?thesis by (cases "jget d ''status''") (auto simp: ha_status_def)
qed (simp add: ha_status_def)

lemma tep_status_Inr: "tep_status tep = Inr t \<longleftrightarrow> request_json tep = Inr t \<and> jget t ''app_ready'' = JBool True"
  by (auto simp: tep_status_def bind_r_Inr split: if_splits)

text \<open>Every failure is a 502 or 503.\<close>

definition fails_ok :: "ingress_error + 'a \<Rightarrow> bool" where
  "fails_ok m \<longleftrightarrow> (\<forall>e. m = Inl e \<longrightarrow> ig_status e \<in> {502, 503})"

lemma fails_simps [simp]: "fails_ok (Inr x)" "fails_ok (ingress_error c msg)" "fails_ok (gateway_error c msg)"
  by (simp_all add: fails_ok_def ingress_error_def gateway_error_def)

lemma fails_bind: "fails_ok m \<Longrightarrow> (\<And>x. m = Inr x \<Longrightarrow> fails_ok (f x)) \<Longrightarrow> fails_ok (bind_r m f)"
  by (cases m) (auto simp: fails_ok_def)

lemma request_json_fails [simp]: "fails_ok (request_json u)"
  by (simp add: request_json_def split: upstream.split option.split json.split)

text \<open>What the status of the lease agent says when a view passes.\<close>

definition view_says :: "jobj \<Rightarrow> ha_view \<Rightarrow> bool" where
  "view_says status v \<longleftrightarrow>
     (\<exists>view. jget status ''cluster_view'' = JObj view \<and> hv_holder v \<noteq> [] \<and>
        jtext_strip status ''holder'' = hv_holder v \<and> jtext_strip view ''holder'' = hv_holder v \<and>
        int_field status ''term'' = Some (hv_term v) \<and> int_field view ''holder_term'' = Some (hv_term v) \<and> 1 \<le> hv_term v \<and>
        int_field status ''lease_remaining_ms'' = Some (hv_lease_ms v) \<and> 1000 \<le> hv_lease_ms v \<and>
        int_field view ''voters_reachable'' = Some (hv_voters v) \<and> int_field view ''quorum'' = Some (hv_quorum v) \<and>
        1 \<le> hv_quorum v \<and> hv_quorum v \<le> hv_voters v)"

lemma view_int_Inr: "view_int o' k = Inr n \<longleftrightarrow> int_field o' k = Some n"
  by (simp add: view_int_def split: option.split)

lemma view_int_fails [simp]: "fails_ok (view_int o' k)"
  by (simp add: view_int_def split: option.split)

lemma check_view_fails [simp]: "fails_ok (check_view s)"
  unfolding check_view_def Let_def by (auto intro!: fails_bind split: json.split)

lemma check_view_Inr:
  assumes "check_view status = Inr v"
  shows "view_says status v"
proof -
  obtain view where view: "jget status ''cluster_view'' = JObj view"
    using assms by (cases "jget status ''cluster_view''") (simp_all add: check_view_def)
  show ?thesis
    using assms
    by (clarsimp simp: check_view_def view Let_def bind_r_Inr view_int_Inr view_says_def split: if_split_asm)
qed

lemma check_peer_fails [simp]: "fails_ok (check_peer t h)"
  by (simp add: check_peer_def split: json.split option.split)

lemma resolve_master_fails: "fails_ok (resolve_master ha tep)"
  unfolding resolve_master_def ha_status_def tep_status_def
  by (intro fails_bind) (auto intro!: fails_bind split: json.split prod.split)

lemma master_status_fails: "fails_ok (master_status ha tep post)"
  unfolding master_status_def
  by (intro fails_bind resolve_master_fails) (auto split: json.split)

definition peer_says :: "jobj \<Rightarrow> string \<Rightarrow> string \<Rightarrow> string \<Rightarrow> bool" where
  "peer_says tep node peer host \<longleftrightarrow>
     peer \<noteq> [] \<and> host \<noteq> [] \<and>
     (\<exists>peers o'. jget tep ''peers'' = JList peers \<and> JObj o' \<in> set peers \<and> jget o' ''id'' = JStr node \<and>
        jget o' ''online'' = JBool True \<and> jtext_strip o' ''peer_id'' = peer \<and> jtext_strip o' ''ip'' = host)"

lemma registry_peer_Some:
  "registry_peer holder peers = Some o' \<Longrightarrow> JObj o' \<in> set peers \<and> jget o' ''id'' = JStr holder"
proof (induction peers)
  case (Cons p ps)
  then show ?case by (cases p) (auto simp: registry_peer_def split: if_splits)
qed (simp add: registry_peer_def)

lemma check_peer_Inr:
  assumes "check_peer tep holder = Inr (peer, host)"
  shows "peer_says tep holder peer host"
proof -
  obtain ps where ps: "jget tep ''peers'' = JList ps"
    using assms by (cases "jget tep ''peers''") (simp_all add: check_peer_def)
  obtain o' where o': "registry_peer holder ps = Some o'"
    using assms ps by (cases "registry_peer holder ps") (simp_all add: check_peer_def)
  show ?thesis
    using assms ps registry_peer_Some [OF o'] by (auto simp: check_peer_def o' peer_says_def split: if_split_asm)
qed

lemma resolve_master_Inr:
  assumes "resolve_master ha tep = Inr r"
  obtains status v t where "ha_status ha = Inr status" "check_view status = Inr v" "tep_status tep = Inr t"
    "check_peer t (mr_node r) = Inr (mr_peer r, mr_host r)" "mr_node r = hv_holder v" "mr_term r = hv_term v"
    "mr_lease_ms r = hv_lease_ms v" "mr_voters r = hv_voters v" "mr_quorum r = hv_quorum v" "mr_port r = 8765"
  using assms by (auto simp: resolve_master_def bind_r_Inr)

text \<open>C7: A route to the master is only ever given on consistent evidence: the lease agent and its majority
  view name the same holder in the same term, which is at least 1, with at least one second of lease left
  and a quorum of voters reached; and the TEP registry lists that node online with the peer id and address
  the route carries.
\<close>
theorem route_is_backed:
  assumes "resolve_master ha tep = Inr r"
  shows "\<exists>status v t. ha_status ha = Inr status \<and> view_says status v \<and> tep_status tep = Inr t \<and>
    peer_says t (mr_node r) (mr_peer r) (mr_host r) \<and> mr_node r = hv_holder v \<and> mr_term r = hv_term v \<and>
    mr_lease_ms r = hv_lease_ms v \<and> mr_voters r = hv_voters v \<and> mr_quorum r = hv_quorum v \<and> mr_port r = 8765"
  using assms by (rule resolve_master_Inr) (blast dest: check_view_Inr check_peer_Inr)

text \<open> The master-status page answers 200 only with the status of a live master that was asked over the
  resolved route: the daemon accepted the request for exactly that node and peer, its result says the
  master is live, and the transport it reports is direct or relay; the headers repeat the route.
\<close>
theorem served_master_is_live:
  assumes "ingress_get ha tep post ''/api/hashburst/master/status'' = (200, body, headers)"
  shows "\<exists>r d. resolve_master ha tep = Inr r \<and>
    request_json (post [(''node_id'', JStr (mr_node r)), (''peer_id'', JStr (mr_peer r))]) = Inr d \<and>
    jget d ''ok'' = JBool True \<and> jget d ''result'' = JObj body \<and> jget body ''master_live'' = JBool True \<and>
    jtext d ''path'' \<in> {''direct'', ''relay''} \<and>
    map_of headers ''X-HashBurst-Master'' = Some (mr_node r) \<and> map_of headers ''X-HashBurst-Transport'' = Some (jtext d ''path'')"
proof -
  have path: "request_path ''/api/hashburst/master/status'' = ''/api/hashburst/master/status''" by code_simp
  have err: "error_reply e \<noteq> (200, body, headers)" if "master_status ha tep post = Inl e" for e
    using master_status_fails [of ha tep post] that by (auto simp: fails_ok_def error_reply_def)
  obtain r transport relay where m: "master_status ha tep post = Inr (body, r, transport, relay)"
    and h: "headers = [(''X-HashBurst-Master'', mr_node r), (''X-HashBurst-Transport'', transport),
              (''X-HashBurst-Term'', show_int (mr_term r)), (''X-HashBurst-Relay'', relay)]"
    using assms err by (cases "master_status ha tep post") (auto simp: ingress_get_def path Let_def)
  have "resolve_master ha tep = Inr r \<and> (\<exists>d. request_json (post [(''node_id'', JStr (mr_node r)), (''peer_id'', JStr (mr_peer r))]) = Inr d \<and>
    jget d ''ok'' = JBool True \<and> jget d ''result'' = JObj body \<and> jget body ''master_live'' = JBool True \<and>
    transport = jtext d ''path'' \<and> jtext d ''path'' \<in> {''direct'', ''relay''})"
  proof -
    obtain r0 d where d: "resolve_master ha tep = Inr r0"
      "request_json (post [(''node_id'', JStr (mr_node r0)), (''peer_id'', JStr (mr_peer r0))]) = Inr d"
      using m unfolding master_status_def bind_r_Inr by blast
    then show ?thesis
      using m by (cases "jget d ''result''") (auto simp: master_status_def split: if_splits)
  qed
  then show ?thesis using h by auto
qed

section \<open>Examples\<close>

text \<open>Voter \<open>b\<close>, five seconds after granting \<open>a\<close> its lease, with the view of the cluster its loop recorded.\<close>

definition agent_b :: engine where
  "agent_b = (snd voted_b)\<lparr>en_view := view_json cfg_b 3 1 ''a'' 1\<rparr>"

definition ha_up :: upstream where
  "ha_up = Up_body 200 900 (Some (JObj [(''ok'', JBool True), (''status'', JObj (local_status cfg_b 55 agent_b))]))"

definition tep_up :: upstream where
  "tep_up = Up_body 200 400 (Some (JObj [(''app_ready'', JBool True),
     (''peers'', JList [JObj [(''id'', JStr ''c''), (''online'', JBool True)],
                        JObj [(''id'', JStr ''a''), (''online'', JBool True), (''peer_id'', JStr ''pa''), (''ip'', JStr ''10.0.0.1'')]])]))"

definition master_up :: "jobj \<Rightarrow> upstream" where
  "master_up req = (if jtext req ''peer_id'' = ''pa''
     then Up_body 200 90 (Some (JObj [(''ok'', JBool True), (''path'', JStr ''direct''), (''result'', JObj [(''master_live'', JBool True)])]))
     else Up_rejected)"

lemma ha_up_status: "ha_status ha_up = Inr (local_status cfg_b 55 agent_b)"
  by (simp add: ha_status_def ha_up_def request_json_def)

definition route_a :: master_route where
  "route_a = \<lparr>mr_node = ''a'', mr_peer = ''pa'', mr_host = ''10.0.0.1'', mr_port = 8765, mr_term = 1, mr_lease_ms = 7000,
              mr_voters = 3, mr_quorum = 2\<rparr>"

lemma view_b:
  "check_view (local_status cfg_b 55 agent_b) =
     Inr \<lparr>hv_holder = ''a'', hv_term = 1, hv_lease_ms = 7000, hv_voters = 3, hv_quorum = 2\<rparr>"
  by code_simp

lemma tep_up_peer: "\<exists>t. tep_status tep_up = Inr t \<and> check_peer t ''a'' = Inr (''pa'', ''10.0.0.1'')"
proof -
  have s: "py_strip ''pa'' = ''pa''" "py_strip ''10.0.0.1'' = ''10.0.0.1''" by code_simp+
  show ?thesis
    by (simp add: tep_status_def tep_up_def request_json_def check_peer_def registry_peer_def jtext_strip_def jtext_def s)
qed

lemma route_a: "resolve_master ha_up tep_up = Inr route_a"
  using tep_up_peer by (auto simp: resolve_master_def ha_up_status view_b route_a_def)

theorem route_is_backed_witness:
  "resolve_master ha_up tep_up = Inr route_a \<and> (\<exists>t. tep_status tep_up = Inr t \<and> peer_says t ''a'' ''pa'' ''10.0.0.1'')"
  using route_is_backed [OF route_a] route_a by (auto simp: route_a_def)

lemma master_a:
  "master_status ha_up tep_up master_up = Inr ([(''master_live'', JBool True)], route_a, ''direct'', [])"
  by (simp add: master_status_def route_a) (simp add: master_up_def route_a_def request_json_def jtext_def)

theorem served_master_is_live_witness:
  "\<exists>body headers. ingress_get ha_up tep_up master_up ''/api/hashburst/master/status'' = (200, body, headers) \<and>
     map_of headers ''X-HashBurst-Master'' = Some ''a'' \<and> jget body ''master_live'' = JBool True"
proof -
  have "request_path ''/api/hashburst/master/status'' = ''/api/hashburst/master/status''" by code_simp
  then obtain headers where
    e: "ingress_get ha_up tep_up master_up ''/api/hashburst/master/status'' = (200, [(''master_live'', JBool True)], headers)"
    by (simp add: ingress_get_def master_a)
  from served_master_is_live [OF e] e show ?thesis by (auto simp: route_a route_a_def)
qed

end
