(* ===== verification/Tep_App.thy ===== *)
theory Tep_App
  imports Json_Text
begin

text \<open>
  The application protocol of the TEP transport, HB-TEP-APP/1: \<open>tep/hb_tep_app.py\<close>. Bytes are strings of
  characters below 256; an exception is a constructor of \<open>tep_exn\<close>, with the code and message the
  program's own exceptions carry. Random identifiers and the clock are arguments.
\<close>

section \<open>Exceptions\<close>

datatype tep_exn =
    Protocol_error string string
  | Client_error string string
  | Relay_error string string
  | Service_error string string
  | Wire_error string string
  | Timeout_error
  | Os_error
  | Value_error
  | Other_error

definition bad_request :: "string \<Rightarrow> tep_exn + 'a" where
  "bad_request m = Inl (Protocol_error ''bad_request'' m)"

definition require :: "bool \<Rightarrow> tep_exn + unit \<Rightarrow> tep_exn + unit" where
  "require b e = (if b then Inr () else e)"

section \<open>Fields\<close>

definition max_request_bytes :: nat where "max_request_bytes = 8192"
definition max_response_bytes :: nat where "max_response_bytes = 32768"
definition max_generic_bytes :: nat where "max_generic_bytes = 65536"
definition max_ttl_ms :: int where "max_ttl_ms = 5000"
definition past_skew_ms :: int where "past_skew_ms = 30000"
definition future_skew_ms :: int where "future_skew_ms = 10000"

record identity =
  id_node :: string
  id_peer :: string

definition identity_json :: "identity \<Rightarrow> json" where
  "identity_json i = JObj [(''node_id'', JStr (id_node i)), (''peer_id'', JStr (id_peer i))]"

text \<open>\<open>bytes.fromhex\<close> succeeds: digit pairs, with ASCII white space before any of them.\<close>

definition ascii_space :: "char \<Rightarrow> bool" where
  "ascii_space c \<longleftrightarrow> (of_char c :: nat) \<in> {32, 9, 10, 11, 12, 13}"

fun fromhex_ok :: "string \<Rightarrow> bool" where
  "fromhex_ok [] = True"
| "fromhex_ok (c # cs) =
     (if ascii_space c then fromhex_ok cs
      else (case cs of [] \<Rightarrow> False | d # ds \<Rightarrow> hex_val c \<noteq> None \<and> hex_val d \<noteq> None \<and> fromhex_ok ds))"

definition is_hex :: "string \<Rightarrow> nat \<Rightarrow> bool" where
  "is_hex s n \<longleftrightarrow> length s = n \<and> fromhex_ok s \<and> py_lower s = s"

definition require_dict :: "json \<Rightarrow> string \<Rightarrow> tep_exn + jobj" where
  "require_dict v field = (case v of JObj o' \<Rightarrow> Inr o' | _ \<Rightarrow> bad_request (field @ '' must be an object''))"

definition require_text :: "jobj \<Rightarrow> string \<Rightarrow> nat \<Rightarrow> tep_exn + string" where
  "require_text o' field n =
     (case jget o' field of
        JStr s \<Rightarrow>
          (let t = py_strip s
           in if t = [] then bad_request (field @ '' must not be empty'')
              else if n < length t then bad_request (field @ '' is too long'')
              else Inr t)
      | _ \<Rightarrow> bad_request (field @ '' must be a string''))"

definition validate_peer :: "json \<Rightarrow> string \<Rightarrow> tep_exn + identity" where
  "validate_peer v field =
     bind_r (require_dict v field) (\<lambda>o'.
     bind_r (require_text o' ''node_id'' 128) (\<lambda>node.
     bind_r (require_text o' ''peer_id'' 256) (\<lambda>peer.
       Inr \<lparr>id_node = node, id_peer = peer\<rparr>)))"

definition max_size :: "string \<Rightarrow> nat" where
  "max_size t =
     (if t \<in> {''req'', ''relay_req''} then max_request_bytes
      else if t \<in> {''res'', ''err'', ''relay_res''} then max_response_bytes
      else max_generic_bytes)"

section \<open>Envelopes\<close>

record envelope =
  ev_raw :: jobj
  ev_version :: int
  ev_type :: string
  ev_request :: string
  ev_source :: identity
  ev_dest :: identity
  ev_service :: "string option"
  ev_time :: int
  ev_nonce :: string
  ev_ttl :: "int option"

definition supported_types :: "string list" where
  "supported_types = [''req'', ''res'', ''err'', ''relay_req'', ''relay_res'']"

definition hex_field :: "jobj \<Rightarrow> string \<Rightarrow> tep_exn + string" where
  "hex_field o' field =
     (case jget o' field of
        JStr s \<Rightarrow> if is_hex s 32 then Inr s else bad_request (field @ '' must be 128-bit lowercase hex'')
      | _ \<Rightarrow> bad_request (field @ '' must be 128-bit lowercase hex''))"

definition check_version :: "jobj \<Rightarrow> tep_exn + int" where
  "check_version o' =
     (case as_int (jget o' ''v'') of
        None \<Rightarrow> bad_request ''v must be integer 1''
      | Some v \<Rightarrow> if v \<noteq> 1 then Inl (Protocol_error ''unsupported_version'' (''unsupported protocol version '' @ show_int v))
                 else Inr v)"

definition check_type :: "jobj \<Rightarrow> tep_exn + string" where
  "check_type o' =
     (case jget o' ''type'' of
        JStr t \<Rightarrow> if t \<in> set supported_types then Inr t
                 else Inl (Protocol_error ''unsupported_type'' (''unsupported type '' @ t))
      | _ \<Rightarrow> bad_request ''type must be a string'')"

text \<open>\<open>now\<close> is \<open>None\<close> when \<open>check_time\<close> is off.\<close>

definition check_timestamp :: "int option \<Rightarrow> jobj \<Rightarrow> tep_exn + int" where
  "check_timestamp now o' =
     (case as_int (jget o' ''timestamp_ms'') of
        None \<Rightarrow> bad_request ''timestamp_ms must be a non-negative integer''
      | Some t \<Rightarrow>
          if t < 0 then bad_request ''timestamp_ms must be a non-negative integer''
          else (case now of
                  None \<Rightarrow> Inr t
                | Some current \<Rightarrow>
                    if t < current - past_skew_ms
                      then Inl (Protocol_error ''request_expired'' ''timestamp is outside past acceptance window'')
                    else if current + future_skew_ms < t
                      then Inl (Protocol_error ''request_expired'' ''timestamp is outside future acceptance window'')
                    else Inr t))"

definition check_service :: "string list \<Rightarrow> string \<Rightarrow> jobj \<Rightarrow> tep_exn + string option" where
  "check_service supported t o' =
     (if t \<in> {''req'', ''res'', ''err''} then
        bind_r (require_text o' ''service'' 128) (\<lambda>s.
          if s \<notin> set supported then Inl (Protocol_error ''unsupported_service'' (''unsupported service '' @ s))
          else Inr (Some s))
      else Inr None)"

definition check_ttl :: "string \<Rightarrow> jobj \<Rightarrow> tep_exn + int option" where
  "check_ttl t o' =
     (if t \<in> {''req'', ''relay_req''} then
        (case as_int (jget o' ''ttl_ms'') of
           None \<Rightarrow> bad_request ''ttl_ms must be an integer''
         | Some n \<Rightarrow> if n \<le> 0 \<or> max_ttl_ms < n then bad_request ''ttl_ms must be between 1 and 5000'' else Inr (Some n))
      else Inr None)"

definition check_payload :: "string \<Rightarrow> jobj \<Rightarrow> tep_exn + unit" where
  "check_payload t o' =
     (if t \<in> {''req'', ''res''} then
        (case jget o' ''payload'' of JObj p \<Rightarrow> Inr () | _ \<Rightarrow> bad_request ''payload must be an object'')
      else Inr ())"

definition error_text_ok :: "json \<Rightarrow> bool" where
  "error_text_ok v = (case v of JNull \<Rightarrow> True | JStr s \<Rightarrow> length s \<le> 512 | _ \<Rightarrow> False)"

definition status_in :: "jobj \<Rightarrow> int \<Rightarrow> int \<Rightarrow> string \<Rightarrow> tep_exn + unit" where
  "status_in o' lo hi m =
     (case as_int (jget o' ''status'') of
        None \<Rightarrow> bad_request m
      | Some n \<Rightarrow> if lo \<le> n \<and> n \<le> hi then Inr () else bad_request m)"

definition check_error :: "string \<Rightarrow> jobj \<Rightarrow> tep_exn + unit" where
  "check_error t o' =
     (if t = ''err'' then
        bind_r (status_in o' 400 599 ''error status must be 400..599'') (\<lambda>_.
        bind_r (require_dict (jget o' ''error'') ''error'') (\<lambda>e.
        bind_r (require_text e ''code'' 128) (\<lambda>_.
          require (error_text_ok (jget e ''message'')) (bad_request ''error.message must be a string up to 512 chars''))))
      else Inr ())"

definition check_status :: "string \<Rightarrow> jobj \<Rightarrow> tep_exn + unit" where
  "check_status t o' =
     (if t = ''res'' then status_in o' 200 399 ''response status must be 200..399'' else Inr ())"

definition check_relay :: "string \<Rightarrow> jobj \<Rightarrow> tep_exn + unit" where
  "check_relay t o' =
     (if t \<in> {''relay_req'', ''relay_res''} then
        bind_r (require_dict (jget o' ''relay_target'') ''relay_target'') (\<lambda>target.
        bind_r (require_text target ''peer_id'' 256) (\<lambda>_.
          case jget o' ''payload'' of
            JObj p \<Rightarrow>
              if ''inner'' \<notin> fst ` set p then bad_request ''relay payload must contain inner''
              else (case jget p ''inner'' of
                      JStr s \<Rightarrow> require (s \<noteq> []) (bad_request ''relay inner must be a non-empty string'')
                    | _ \<Rightarrow> bad_request ''relay inner must be a non-empty string'')
          | _ \<Rightarrow> bad_request ''relay payload must contain inner''))
      else Inr ())"

definition validate_envelope :: "string list \<Rightarrow> int option \<Rightarrow> jobj \<Rightarrow> tep_exn + envelope" where
  "validate_envelope supported now o' =
     bind_r (check_version o') (\<lambda>version.
     bind_r (check_type o') (\<lambda>t.
     bind_r (hex_field o' ''request_id'') (\<lambda>request.
     bind_r (validate_peer (jget o' ''source'') ''source'') (\<lambda>source.
     bind_r (validate_peer (jget o' ''destination'') ''destination'') (\<lambda>dest.
     bind_r (hex_field o' ''nonce'') (\<lambda>nonce.
     bind_r (check_timestamp now o') (\<lambda>time.
     bind_r (check_service supported t o') (\<lambda>service.
     bind_r (check_ttl t o') (\<lambda>ttl.
     bind_r (check_payload t o') (\<lambda>_.
     bind_r (check_error t o') (\<lambda>_.
     bind_r (check_status t o') (\<lambda>_.
     bind_r (check_relay t o') (\<lambda>_.
       Inr \<lparr>ev_raw = o', ev_version = version, ev_type = t, ev_request = request, ev_source = source, ev_dest = dest,
            ev_service = service, ev_time = time, ev_nonce = nonce, ev_ttl = ttl\<rparr>)))))))))))))"

section \<open>Messages\<close>

definition encode_message :: "string list \<Rightarrow> jobj \<Rightarrow> tep_exn + string" where
  "encode_message supported o' =
     bind_r (validate_envelope supported None o') (\<lambda>_.
       case json_dumps (JObj o') of
         Inl e \<Rightarrow> bad_request ''message is not JSON serializable''
       | Inr t \<Rightarrow>
           (let raw = utf8_encode t
            in if max_size (py_str (jget o' ''type'')) < length raw
               then bad_request ''encoded message exceeds size limit'' else Inr raw))"

text \<open>\<open>json.loads\<close> raises \<open>JSONDecodeError\<close>, or \<open>ValueError\<close> for an integer beyond the digit limit.\<close>

definition decode_message :: "string list \<Rightarrow> int option \<Rightarrow> string \<Rightarrow> tep_exn + envelope" where
  "decode_message supported now raw =
     (if raw = [] then bad_request ''empty message''
      else if max_generic_bytes < length raw then bad_request ''message exceeds absolute size limit''
      else (case utf8_decode raw of
              None \<Rightarrow> bad_request ''message is not valid UTF-8''
            | Some t \<Rightarrow>
                (case json_loads t of
                   Inl Digit_limit \<Rightarrow> Inl Value_error
                 | Inl _ \<Rightarrow> bad_request ''message is not valid JSON''
                 | Inr (JObj o') \<Rightarrow>
                     (case jget o' ''type'' of
                        JStr ty \<Rightarrow>
                          if max_size ty < length raw then bad_request ''message exceeds type-specific size limit''
                          else validate_envelope supported now o'
                      | _ \<Rightarrow> validate_envelope supported now o')
                 | Inr _ \<Rightarrow> bad_request ''message root must be an object'')))"

text \<open>Builders; \<open>rid\<close> and \<open>nonce\<close> stand for \<open>secrets.token_hex(16)\<close>.\<close>

definition checked :: "string list \<Rightarrow> jobj \<Rightarrow> tep_exn + jobj" where
  "checked supported m = bind_r (validate_envelope supported None m) (\<lambda>_. Inr m)"

definition new_request ::
  "string list \<Rightarrow> string \<Rightarrow> string \<Rightarrow> int \<Rightarrow> identity \<Rightarrow> identity \<Rightarrow> string \<Rightarrow> jobj \<Rightarrow> int \<Rightarrow> tep_exn + jobj" where
  "new_request supported rid nonce now source dest service payload ttl =
     checked supported
       [(''v'', JInt 1), (''type'', JStr ''req''), (''request_id'', JStr rid), (''source'', identity_json source),
        (''destination'', identity_json dest), (''service'', JStr service), (''timestamp_ms'', JInt now),
        (''nonce'', JStr nonce), (''ttl_ms'', JInt ttl), (''payload'', JObj payload)]"

definition new_response ::
  "string list \<Rightarrow> string \<Rightarrow> int \<Rightarrow> jobj \<Rightarrow> identity \<Rightarrow> identity \<Rightarrow> jobj \<Rightarrow> tep_exn + jobj" where
  "new_response supported nonce now request source dest payload =
     checked supported
       [(''v'', JInt 1), (''type'', JStr ''res''), (''request_id'', jget request ''request_id''), (''source'', identity_json source),
        (''destination'', identity_json dest), (''service'', jget request ''service''), (''timestamp_ms'', JInt now),
        (''nonce'', JStr nonce), (''status'', JInt 200), (''payload'', JObj payload)]"

definition new_error ::
  "string list \<Rightarrow> string \<Rightarrow> int \<Rightarrow> jobj \<Rightarrow> identity \<Rightarrow> identity \<Rightarrow> string \<Rightarrow> string \<Rightarrow> int \<Rightarrow> tep_exn + jobj" where
  "new_error supported nonce now request source dest code message status =
     checked supported
       [(''v'', JInt 1), (''type'', JStr ''err''), (''request_id'', jget request ''request_id''), (''source'', identity_json source),
        (''destination'', identity_json dest), (''service'', jget request ''service''), (''timestamp_ms'', JInt now),
        (''nonce'', JStr nonce), (''status'', JInt status),
        (''error'', JObj [(''code'', JStr code), (''message'', JStr message)])]"

section \<open>What an accepted envelope is\<close>

lemma require_Inr [simp]: "require b (bad_request m) = Inr u \<longleftrightarrow> b"
  by (simp add: require_def bad_request_def)

lemma bad_request_Inr [simp]: "bad_request m \<noteq> Inr x"
  by (simp add: bad_request_def)

definition identity_ok :: "identity \<Rightarrow> bool" where
  "identity_ok i \<longleftrightarrow>
     id_node i \<noteq> [] \<and> py_strip (id_node i) = id_node i \<and> length (id_node i) \<le> 128 \<and>
     id_peer i \<noteq> [] \<and> py_strip (id_peer i) = id_peer i \<and> length (id_peer i) \<le> 256"

definition in_window :: "int option \<Rightarrow> int \<Rightarrow> bool" where
  "in_window now t \<longleftrightarrow> (\<forall>c. now = Some c \<longrightarrow> c - past_skew_ms \<le> t \<and> t \<le> c + future_skew_ms)"

text \<open>The type of an envelope: which fields each kind of message carries.\<close>

definition envelope_ok :: "string list \<Rightarrow> envelope \<Rightarrow> bool" where
  "envelope_ok supported e \<longleftrightarrow>
     ev_version e = 1 \<and> ev_type e \<in> set supported_types \<and> is_hex (ev_request e) 32 \<and> is_hex (ev_nonce e) 32 \<and>
     identity_ok (ev_source e) \<and> identity_ok (ev_dest e) \<and> 0 \<le> ev_time e \<and>
     (if ev_type e \<in> {''req'', ''res'', ''err''} then \<exists>s \<in> set supported. ev_service e = Some s else ev_service e = None) \<and>
     (if ev_type e \<in> {''req'', ''relay_req''} then \<exists>n. ev_ttl e = Some n \<and> 1 \<le> n \<and> n \<le> max_ttl_ms else ev_ttl e = None) \<and>
     (ev_type e \<in> {''req'', ''res'', ''relay_req'', ''relay_res''} \<longrightarrow> (\<exists>p. jget (ev_raw e) ''payload'' = JObj p)) \<and>
     (ev_type e = ''res'' \<longrightarrow> (\<exists>n. jget (ev_raw e) ''status'' = JInt n \<and> 200 \<le> n \<and> n \<le> 399)) \<and>
     (ev_type e = ''err'' \<longrightarrow> (\<exists>n x. jget (ev_raw e) ''status'' = JInt n \<and> 400 \<le> n \<and> n \<le> 599 \<and> jget (ev_raw e) ''error'' = JObj x)) \<and>
     (ev_type e \<in> {''relay_req'', ''relay_res''} \<longrightarrow>
        (\<exists>p s. jget (ev_raw e) ''payload'' = JObj p \<and> jget p ''inner'' = JStr s \<and> s \<noteq> []))"

lemma require_text_Inr:
  "require_text o' field n = Inr t \<longleftrightarrow>
     (\<exists>s. jget o' field = JStr s \<and> t = py_strip s \<and> t \<noteq> [] \<and> length t \<le> n)"
  by (auto simp: require_text_def Let_def split: json.split)

lemma require_dict_Inr: "require_dict v field = Inr o' \<longleftrightarrow> v = JObj o'"
  by (auto simp: require_dict_def split: json.split)

lemma validate_peer_ok: "validate_peer v field = Inr i \<Longrightarrow> identity_ok i"
  by (auto simp: validate_peer_def bind_r_Inr require_text_Inr identity_ok_def)

lemma hex_field_Inr: "hex_field o' field = Inr s \<longleftrightarrow> jget o' field = JStr s \<and> is_hex s 32"
  by (auto simp: hex_field_def split: json.split)

lemma check_version_Inr: "check_version o' = Inr v \<longleftrightarrow> jget o' ''v'' = JInt 1 \<and> v = 1"
  by (auto simp: check_version_def split: option.split)

lemma check_type_Inr: "check_type o' = Inr t \<longleftrightarrow> jget o' ''type'' = JStr t \<and> t \<in> set supported_types"
  by (auto simp: check_type_def split: json.split)

lemma check_timestamp_Inr: "check_timestamp now o' = Inr t \<longleftrightarrow> jget o' ''timestamp_ms'' = JInt t \<and> 0 \<le> t \<and> in_window now t"
  by (cases "jget o' ''timestamp_ms''"; cases now) (auto simp: check_timestamp_def in_window_def)

lemma check_service_Inr:
  "check_service supported t o' = Inr sv \<longleftrightarrow>
     (if t \<in> {''req'', ''res'', ''err''} then \<exists>s. require_text o' ''service'' 128 = Inr s \<and> s \<in> set supported \<and> sv = Some s else sv = None)"
  by (auto simp: check_service_def bind_r_Inr)

lemma check_ttl_Inr:
  "check_ttl t o' = Inr ttl \<longleftrightarrow>
     (if t \<in> {''req'', ''relay_req''} then \<exists>n. jget o' ''ttl_ms'' = JInt n \<and> 1 \<le> n \<and> n \<le> max_ttl_ms \<and> ttl = Some n else ttl = None)"
  by (auto simp: check_ttl_def split: option.split)

lemma check_payload_Inr: "check_payload t o' = Inr u \<longleftrightarrow> (t \<in> {''req'', ''res''} \<longrightarrow> (\<exists>p. jget o' ''payload'' = JObj p))"
  by (auto simp: check_payload_def split: json.split)

lemma status_in_Inr: "status_in o' lo hi m = Inr u \<longleftrightarrow> (\<exists>n. jget o' ''status'' = JInt n \<and> lo \<le> n \<and> n \<le> hi)"
  by (auto simp: status_in_def split: option.split)

lemma check_error_Inr:
  "check_error t o' = Inr u \<longleftrightarrow>
     (t = ''err'' \<longrightarrow> (\<exists>n x c. jget o' ''status'' = JInt n \<and> 400 \<le> n \<and> n \<le> 599 \<and> jget o' ''error'' = JObj x \<and>
        require_text x ''code'' 128 = Inr c \<and> error_text_ok (jget x ''message'')))"
  by (auto simp: check_error_def bind_r_Inr status_in_Inr require_dict_Inr)

lemma check_status_Inr:
  "check_status t o' = Inr u \<longleftrightarrow> (t = ''res'' \<longrightarrow> (\<exists>n. jget o' ''status'' = JInt n \<and> 200 \<le> n \<and> n \<le> 399))"
  by (auto simp: check_status_def status_in_Inr)

lemma check_relay_Inr:
  "check_relay t o' = Inr u \<longleftrightarrow>
     (t \<in> {''relay_req'', ''relay_res''} \<longrightarrow>
        (\<exists>target q p s. jget o' ''relay_target'' = JObj target \<and> require_text target ''peer_id'' 256 = Inr q \<and>
           jget o' ''payload'' = JObj p \<and> ''inner'' \<in> fst ` set p \<and> jget p ''inner'' = JStr s \<and> s \<noteq> []))"
  by (cases "jget o' ''payload''")
    (auto simp: check_relay_def bind_r_Inr require_dict_Inr split: if_split_asm json.split_asm)

lemmas check_Inr = check_version_Inr check_type_Inr hex_field_Inr check_timestamp_Inr check_service_Inr check_ttl_Inr
  check_payload_Inr check_error_Inr check_status_Inr check_relay_Inr

lemma validate_envelope_Inr:
  "validate_envelope supported now o' = Inr e \<longleftrightarrow>
     ev_raw e = o' \<and> check_version o' = Inr (ev_version e) \<and> check_type o' = Inr (ev_type e) \<and>
     hex_field o' ''request_id'' = Inr (ev_request e) \<and> validate_peer (jget o' ''source'') ''source'' = Inr (ev_source e) \<and>
     validate_peer (jget o' ''destination'') ''destination'' = Inr (ev_dest e) \<and> hex_field o' ''nonce'' = Inr (ev_nonce e) \<and>
     check_timestamp now o' = Inr (ev_time e) \<and> check_service supported (ev_type e) o' = Inr (ev_service e) \<and>
     check_ttl (ev_type e) o' = Inr (ev_ttl e) \<and> check_payload (ev_type e) o' = Inr () \<and>
     check_error (ev_type e) o' = Inr () \<and> check_status (ev_type e) o' = Inr () \<and> check_relay (ev_type e) o' = Inr ()"
  unfolding validate_envelope_def bind_r_Inr by (cases e) auto

lemma validate_envelope_ok:
  assumes "validate_envelope supported now o' = Inr e"
  shows "envelope_ok supported e" "in_window now (ev_time e)" "ev_raw e = o'"
proof -
  note v = assms [unfolded validate_envelope_Inr]
  show "in_window now (ev_time e)" and raw: "ev_raw e = o'" using v by (simp_all add: check_timestamp_Inr)
  have "ev_version e = 1" "ev_type e \<in> set supported_types" using v by (simp_all add: check_version_Inr check_type_Inr)
  moreover have "is_hex (ev_request e) 32" "is_hex (ev_nonce e) 32" "0 \<le> ev_time e"
    using v by (simp_all add: hex_field_Inr check_timestamp_Inr)
  moreover have "identity_ok (ev_source e)" "identity_ok (ev_dest e)" using v validate_peer_ok by blast+
  moreover have "if ev_type e \<in> {''req'', ''res'', ''err''} then \<exists>s \<in> set supported. ev_service e = Some s else ev_service e = None"
    using v unfolding check_service_Inr by (metis (no_types, lifting))
  moreover have "if ev_type e \<in> {''req'', ''relay_req''} then \<exists>n. ev_ttl e = Some n \<and> 1 \<le> n \<and> n \<le> max_ttl_ms else ev_ttl e = None"
    using v unfolding check_ttl_Inr by (metis (no_types, lifting))
  moreover have "ev_type e \<in> {''req'', ''res'', ''relay_req'', ''relay_res''} \<longrightarrow> (\<exists>p. jget (ev_raw e) ''payload'' = JObj p)"
    using v unfolding check_payload_Inr check_relay_Inr by blast
  moreover have "ev_type e = ''res'' \<longrightarrow> (\<exists>n. jget (ev_raw e) ''status'' = JInt n \<and> 200 \<le> n \<and> n \<le> 399)"
    using v unfolding check_status_Inr by blast
  moreover have "ev_type e = ''err'' \<longrightarrow> (\<exists>n x. jget (ev_raw e) ''status'' = JInt n \<and> 400 \<le> n \<and> n \<le> 599 \<and> jget (ev_raw e) ''error'' = JObj x)"
    using v unfolding check_error_Inr by blast
  moreover have "ev_type e \<in> {''relay_req'', ''relay_res''} \<longrightarrow>
      (\<exists>p s. jget (ev_raw e) ''payload'' = JObj p \<and> jget p ''inner'' = JStr s \<and> s \<noteq> [])"
    using v unfolding check_relay_Inr by blast
  ultimately show "envelope_ok supported e" unfolding envelope_ok_def by (intro conjI)
qed

end
