(* ===== verification/Tep_Messages.thy ===== *)
theory Tep_Messages
  imports Tep_App
begin

text \<open>
  What the message layer of \<open>tep/hb_tep_app.py\<close> promises: every decoded envelope is well typed, and a
  message that encodes reads back as the same envelope.
\<close>

section \<open>Sorting keys changes no field\<close>

lemma bind_bad_request [simp]: "bind_r (bad_request m) f = bad_request m"
  by (simp add: bad_request_def)

lemma plain_jget: "plain (JObj o') \<Longrightarrow> plain (jget o' k)"
  by (auto simp: jget_def split: option.split dest!: map_of_SomeD)

lemma sort_keys_simps [simp]:
  "as_int (sort_keys v) = as_int v" "sort_keys v = JStr s \<longleftrightarrow> v = JStr s" "sort_keys v = JNull \<longleftrightarrow> v = JNull"
  by (cases v; simp)+

text \<open>\<open>b\<close> is \<open>a\<close> with the keys sorted at every level.\<close>

definition sorted_of :: "jobj \<Rightarrow> jobj \<Rightarrow> bool" where
  "sorted_of a b \<longleftrightarrow> (\<forall>k. jget b k = sort_keys (jget a k)) \<and> fst ` set b = fst ` set a"

lemma sorted_ofD: "sorted_of a b \<Longrightarrow> jget b k = sort_keys (jget a k)"
  by (simp add: sorted_of_def)

lemma sort_keys_obj: "plain (JObj a) \<Longrightarrow> \<exists>b. sort_keys (JObj a) = JObj b \<and> sorted_of a b"
proof -
  assume "plain (JObj a)"
  then have d: "distinct (map fst a)" by simp
  show ?thesis by (rule jget_sort_keys [OF d]) (simp add: sorted_of_def del: sort_keys.simps, blast?)
qed

lemma require_text_sorted: "sorted_of a b \<Longrightarrow> require_text b field n = require_text a field n"
  by (cases "jget a field") (simp_all add: require_text_def sorted_ofD)

lemma validate_peer_sorted:
  assumes "plain v"
  shows "validate_peer (sort_keys v) field = validate_peer v field"
proof (cases v)
  case (JObj a)
  obtain b where "sort_keys (JObj a) = JObj b" "sorted_of a b" using sort_keys_obj assms JObj by blast
  then show ?thesis by (simp add: JObj validate_peer_def require_dict_def require_text_sorted del: sort_keys.simps)
qed (simp_all add: validate_peer_def require_dict_def)

lemma hex_field_sorted: "sorted_of a b \<Longrightarrow> hex_field b field = hex_field a field"
  by (cases "jget a field") (simp_all add: hex_field_def sorted_ofD)

lemma check_scalars_sorted:
  assumes "sorted_of a b"
  shows "check_version b = check_version a" "check_type b = check_type a" "check_timestamp now b = check_timestamp now a"
    "check_service supported t b = check_service supported t a" "check_ttl t b = check_ttl t a" "check_status t b = check_status t a"
    "check_payload t b = check_payload t a"
proof -
  note s = sorted_ofD [OF assms]
  show "check_version b = check_version a" "check_timestamp now b = check_timestamp now a" "check_ttl t b = check_ttl t a"
    "check_status t b = check_status t a"
    by (simp_all add: check_version_def check_timestamp_def check_ttl_def check_status_def status_in_def s)
  show "check_service supported t b = check_service supported t a"
    by (simp add: check_service_def require_text_sorted [OF assms])
  show "check_type b = check_type a" by (cases "jget a ''type''") (simp_all add: check_type_def s)
  show "check_payload t b = check_payload t a" by (cases "jget a ''payload''") (simp_all add: check_payload_def s)
qed

lemma error_text_ok_sorted [simp]: "error_text_ok (sort_keys v) = error_text_ok v"
  by (cases v) (simp_all add: error_text_ok_def)

lemma check_error_sorted:
  assumes "sorted_of a b" "plain (JObj a)"
  shows "check_error t b = check_error t a"
proof (cases "jget a ''error''")
  case (JObj x)
  obtain y where "sort_keys (JObj x) = JObj y" "sorted_of x y"
    using sort_keys_obj plain_jget [OF assms(2), of "''error''"] JObj by auto
  then show ?thesis
    by (simp add: check_error_def status_in_def sorted_ofD [OF assms(1)] JObj require_dict_def require_text_sorted
        sorted_ofD [of x y] del: sort_keys.simps)
qed (simp_all add: check_error_def status_in_def sorted_ofD [OF assms(1)] require_dict_def)

lemma check_relay_sorted:
  assumes "sorted_of a b" "plain (JObj a)"
  shows "check_relay t b = check_relay t a"
proof -
  note s = sorted_ofD [OF assms(1)]
  have payload: "(case sort_keys (jget a ''payload'') of
          JObj p \<Rightarrow> if ''inner'' \<notin> fst ` set p then bad_request ''relay payload must contain inner''
             else (case jget p ''inner'' of JStr i \<Rightarrow> require (i \<noteq> []) (bad_request ''relay inner must be a non-empty string'')
                    | _ \<Rightarrow> bad_request ''relay inner must be a non-empty string'')
        | _ \<Rightarrow> bad_request ''relay payload must contain inner'') =
      (case jget a ''payload'' of
          JObj p \<Rightarrow> if ''inner'' \<notin> fst ` set p then bad_request ''relay payload must contain inner''
             else (case jget p ''inner'' of JStr i \<Rightarrow> require (i \<noteq> []) (bad_request ''relay inner must be a non-empty string'')
                    | _ \<Rightarrow> bad_request ''relay inner must be a non-empty string'')
        | _ \<Rightarrow> bad_request ''relay payload must contain inner'')"
  proof (cases "jget a ''payload''")
    case (JObj p)
    obtain q where q: "sort_keys (JObj p) = JObj q" "sorted_of p q"
      using sort_keys_obj plain_jget [OF assms(2), of "''payload''"] JObj by auto
    then have "fst ` set q = fst ` set p" by (simp add: sorted_of_def)
    then show ?thesis
      by (cases "jget p ''inner''"; simp add: JObj q(1) sorted_ofD [OF q(2)] del: sort_keys.simps(2); simp?)
  qed simp_all
  show ?thesis
  proof (cases "jget a ''relay_target''")
    case (JObj x)
    obtain y where "sort_keys (JObj x) = JObj y" "sorted_of x y"
      using sort_keys_obj plain_jget [OF assms(2), of "''relay_target''"] JObj by auto
    then show ?thesis
      by (simp add: check_relay_def s JObj payload require_dict_def require_text_sorted del: sort_keys.simps)
  qed (simp_all add: check_relay_def s require_dict_def)
qed

lemma validate_sorted:
  assumes "sorted_of a b" "plain (JObj a)" "validate_envelope supported now a = Inr e"
  shows "validate_envelope supported now b = Inr (e\<lparr>ev_raw := b\<rparr>)"
  using assms(3)
  unfolding validate_envelope_Inr
  by (simp add: check_scalars_sorted [OF assms(1)] check_error_sorted [OF assms(1,2)] check_relay_sorted [OF assms(1,2)]
      hex_field_sorted [OF assms(1)] sorted_ofD [OF assms(1)] validate_peer_sorted plain_jget [OF assms(2)])

section \<open>Encoding and decoding\<close>

lemma validate_now:
  assumes "validate_envelope supported None m = Inr e" "\<forall>t. jget m ''timestamp_ms'' = JInt t \<longrightarrow> in_window now t"
  shows "validate_envelope supported now m = Inr e"
  using assms unfolding validate_envelope_Inr by (simp add: check_timestamp_Inr)

lemma max_size_le: "max_size t \<le> max_generic_bytes"
  by (simp add: max_size_def max_generic_bytes_def max_request_bytes_def max_response_bytes_def)

lemma utf8_encode_Nil [simp]: "utf8_encode s = [] \<longleftrightarrow> s = []"
  by (cases s) (auto simp: utf8_encode_def utf8_char_def Let_def)

lemma dump_obj_nonempty: "dump (JObj b) \<noteq> []"
  by simp

lemma encode_message_Inr:
  "encode_message supported m = Inr raw \<longleftrightarrow>
     (\<exists>e t. validate_envelope supported None m = Inr e \<and> json_dumps (JObj m) = Inr t \<and> raw = utf8_encode t \<and>
        length raw \<le> max_size (py_str (jget m ''type'')))"
  by (auto simp: encode_message_def bind_r_Inr Let_def split: sum.splits)

lemma decode_message_object:
  assumes "utf8_decode raw = Some t" "json_loads t = Inr (JObj b)" "jget b ''type'' = JStr ty"
    and "raw \<noteq> []" "length raw \<le> max_size ty"
  shows "decode_message supported now raw = validate_envelope supported now b"
  using assms max_size_le [of ty] by (simp add: decode_message_def)

lemma message_reads_back:
  assumes "encode_message supported m = Inr raw" "plain (JObj m)"
    and "\<forall>t. jget m ''timestamp_ms'' = JInt t \<longrightarrow> in_window now t"
  shows "\<exists>e b. validate_envelope supported None m = Inr e \<and> sorted_of m b \<and>
    decode_message supported now raw = Inr (e\<lparr>ev_raw := b\<rparr>)"
proof -
  obtain e t where e: "validate_envelope supported None m = Inr e" "json_dumps (JObj m) = Inr t" "raw = utf8_encode t"
    "length raw \<le> max_size (py_str (jget m ''type''))"
    using assms(1) unfolding encode_message_Inr by blast
  obtain b where b: "sort_keys (JObj m) = JObj b" "sorted_of m b" using sort_keys_obj [OF assms(2)] by blast
  have ty: "jget m ''type'' = JStr (ev_type e)" using e(1) by (simp add: validate_envelope_Inr check_type_Inr)
  have "json_loads t = Inr (JObj b)" using loads_dumps [OF assms(2) e(2)] b(1) by simp
  moreover have "t \<noteq> []" using e(2) b(1) dump_obj_nonempty [of b] by (auto simp: json_dumps_def split: if_splits)
  ultimately have "decode_message supported now raw = validate_envelope supported now b"
    using e(3,4) ty sorted_ofD [OF b(2), of "''type''"]
    by (intro decode_message_object [where t = t and ty = "ev_type e"]) (simp_all add: utf8_round_trip)
  moreover have "validate_envelope supported now b = Inr (e\<lparr>ev_raw := b\<rparr>)"
    by (rule validate_sorted [OF b(2) assms(2) validate_now [OF e(1) assms(3)]])
  ultimately show ?thesis using e(1) b(2) by auto
qed


definition alice :: identity where "alice = \<lparr>id_node = ''a'', id_peer = ''pa''\<rparr>"
definition bob :: identity where "bob = \<lparr>id_node = ''b'', id_peer = ''pb''\<rparr>"

definition summary_request :: jobj where
  "summary_request =
     [(''v'', JInt 1), (''type'', JStr ''req''), (''request_id'', JStr ''0123456789abcdef0123456789abcdef''),
      (''source'', identity_json alice), (''destination'', identity_json bob), (''service'', JStr ''storage.summary''),
      (''timestamp_ms'', JInt 70000), (''nonce'', JStr ''ffffffffffffffffffffffffffffffff''), (''ttl_ms'', JInt 3000),
      (''payload'', JObj [])]"

definition sorted_request :: jobj where
  "sorted_request =
     [(''destination'', JObj [(''node_id'', JStr ''b''), (''peer_id'', JStr ''pb'')]), (''nonce'', JStr ''ffffffffffffffffffffffffffffffff''),
      (''payload'', JObj []), (''request_id'', JStr ''0123456789abcdef0123456789abcdef''), (''service'', JStr ''storage.summary''),
      (''source'', JObj [(''node_id'', JStr ''a''), (''peer_id'', JStr ''pa'')]), (''timestamp_ms'', JInt 70000), (''ttl_ms'', JInt 3000),
      (''type'', JStr ''req''), (''v'', JInt 1)]"

lemma plain_request: "plain (JObj summary_request)"
  by (simp add: summary_request_def identity_json_def int_digits_def show_nat.simps)

lemma summary_request_encodes: "\<exists>raw. encode_message [''storage.summary''] summary_request = Inr raw"
proof -
  have "\<not> isl (validate_envelope [''storage.summary''] None summary_request)" by code_simp
  then obtain e where "validate_envelope [''storage.summary''] None summary_request = Inr e"
    by (cases "validate_envelope [''storage.summary''] None summary_request") auto
  moreover have "sort_keys (JObj summary_request) = JObj sorted_request" by code_simp
  then have "json_dumps (JObj summary_request) = Inr (dump (JObj sorted_request))"
    using plain_ints_short [OF plain_request] by (simp add: json_dumps_def)
  moreover have "length (utf8_encode (dump (JObj sorted_request))) \<le> 1000"
    by (simp add: sorted_request_def json_string_def esc_char_def utf8_encode_def utf8_char_def show_int_def show_nat.simps Let_def)
  ultimately show ?thesis
    unfolding encode_message_Inr by (auto simp: summary_request_def max_size_def max_request_bytes_def simp del: dump.simps)
qed

lemma request_in_window: "\<forall>t. jget summary_request ''timestamp_ms'' = JInt t \<longrightarrow> in_window (Some 72000) t"
  by (simp add: summary_request_def in_window_def past_skew_ms_def future_skew_ms_def)


lemma decode_message_InrE:
  assumes "decode_message supported now raw = Inr e"
  obtains b where "validate_envelope supported now b = Inr e" "\<And>now'. decode_message supported now' raw = validate_envelope supported now' b"
    "raw \<noteq> []" "\<And>ty. jget b ''type'' = JStr ty \<Longrightarrow> length raw \<le> max_size ty"
proof -
  obtain t b where b: "utf8_decode raw = Some t" "json_loads t = Inr (JObj b)" "raw \<noteq> []"
    using assms by (auto simp: decode_message_def split: if_splits option.splits sum.splits json_error.splits json.splits)
  have l: "length raw \<le> max_size ty" if "jget b ''type'' = JStr ty" for ty
    using assms b that by (auto simp: decode_message_def split: if_splits)
  have d: "decode_message supported now' raw = validate_envelope supported now' b" for now'
    using assms b l by (auto simp: decode_message_def split: if_splits json.split)
  show thesis by (rule that [OF _ d b(3) l]) (use assms d in auto)
qed

lemma decode_message_ok:
  assumes "decode_message supported now raw = Inr e"
  shows "envelope_ok supported e" "in_window now (ev_time e)"
  using validate_envelope_ok by (meson assms decode_message_InrE)+



text \<open>
  The identifiers are checked with \<open>bytes.fromhex\<close>, which skips white space: 32 blanks pass as a
  128-bit hexadecimal request id.
\<close>

lemma blank_request_id: "is_hex (replicate 32 (CHR '' '')) 32"
  by code_simp

end
