(* ===== verification/Tep_Replay.thy ===== *)
theory Tep_Replay
  imports Tep_Messages
begin

text \<open>
  The bounded replay cache of \<open>tep/hb_tep_app.py\<close> (\<open>ReplayCache\<close>): an \<open>OrderedDict\<close> from (peer, request)
  to the time it was first seen, oldest entry first. The monotonic clock is an argument.
\<close>

section \<open>The cache\<close>

type_synonym replay_key = "string \<times> string"
type_synonym replay_entries = "(replay_key \<times> py_float) list"

record replay_cache =
  rc_window :: py_float
  rc_max :: int
  rc_entries :: replay_entries

definition replay_cache :: "py_float \<Rightarrow> int \<Rightarrow> tep_exn + replay_cache" where
  "replay_cache window n =
     (if window \<le> 0 \<or> n \<le> 0 then Inl Value_error else Inr \<lparr>rc_window = window, rc_max = n, rc_entries = []\<rparr>)"

text \<open>\<open>_evict_expired_locked\<close>: the loop pops the oldest entry until one is younger than the cutoff.\<close>

fun evict_loop :: "py_float \<Rightarrow> replay_entries \<Rightarrow> replay_entries" where
  "evict_loop cutoff [] = []"
| "evict_loop cutoff ((k, seen) # es) = (if cutoff < seen then (k, seen) # es else evict_loop cutoff es)"

definition evict_expired :: "py_float \<Rightarrow> replay_cache \<Rightarrow> replay_cache" where
  "evict_expired now c = c\<lparr>rc_entries := evict_loop (now - rc_window c) (rc_entries c)\<rparr>"

text \<open>\<open>while len(self._entries) > self.max_entries\<close>\<close>

function drop_oldest :: "int \<Rightarrow> replay_entries \<Rightarrow> replay_entries" where
  "drop_oldest n es = (if n < int (length es) \<and> es \<noteq> [] then drop_oldest n (tl es) else es)"
  by pat_completeness auto
termination by (relation "measure (\<lambda>(n, es). length es)") auto

declare drop_oldest.simps [simp del]

definition check_and_add :: "replay_cache \<Rightarrow> py_float \<Rightarrow> string \<Rightarrow> string \<Rightarrow> (tep_exn + unit) \<times> replay_cache" where
  "check_and_add c now peer rid =
     (if py_strip peer = [] \<or> \<not> is_hex rid 32 then (Inl Value_error, c)
      else let c1 = evict_expired now c
           in if (peer, rid) \<in> fst ` set (rc_entries c1)
              then (Inl (Protocol_error ''replay_detected'' ''request_id already seen for source peer''), c1)
              else (Inr (), c1\<lparr>rc_entries := drop_oldest (rc_max c1) (rc_entries c1 @ [((peer, rid), now)])\<rparr>))"

definition cache_size :: "replay_cache \<Rightarrow> py_float \<Rightarrow> nat \<times> replay_cache" where
  "cache_size c now = (let c1 = evict_expired now c in (length (rc_entries c1), c1))"

definition cache_clear :: "replay_cache \<Rightarrow> replay_cache" where
  "cache_clear c = c\<lparr>rc_entries := []\<rparr>"

section \<open>The loops\<close>

definition cache_ok :: "replay_cache \<Rightarrow> py_float \<Rightarrow> bool" where
  "cache_ok c now \<longleftrightarrow>
     0 < rc_window c \<and> 0 < rc_max c \<and> int (length (rc_entries c)) \<le> rc_max c \<and> distinct (map fst (rc_entries c)) \<and>
     sorted (map snd (rc_entries c)) \<and> (\<forall>e \<in> set (rc_entries c). snd e \<le> now)"

lemma evict_loop_sorted: "sorted (map snd es) \<Longrightarrow> evict_loop cutoff es = filter (\<lambda>e. cutoff < snd e) es"
proof (induction cutoff es rule: evict_loop.induct)
  case (2 cutoff k seen es)
  have "filter (\<lambda>e. cutoff < snd e) es = es" if "cutoff < seen"
    using 2(2) that by (fastforce simp: filter_id_conv)
  then show ?case using 2 by simp
qed simp

lemma drop_oldest_eq: "0 \<le> n \<Longrightarrow> drop_oldest n es = drop (length es - nat n) es"
proof (induction n es rule: drop_oldest.induct)
  case (1 n es)
  show ?case
  proof (cases "n < int (length es) \<and> es \<noteq> []")
    case True
    then have "drop_oldest n (tl es) = drop (length (tl es) - nat n) (tl es)" using 1 by simp
    moreover have "length es - nat n = Suc (length (tl es) - nat n)" using True 1(2) by (cases es) auto
    ultimately show ?thesis using True by (subst drop_oldest.simps) (simp add: drop_Suc)
  next
    case False
    then show ?thesis using 1(2) by (subst drop_oldest.simps) auto
  qed
qed

lemma length_drop_le: "0 \<le> n \<Longrightarrow> int (length (drop (length es - nat n) es)) \<le> n"
  by simp

lemma sorted_snoc_le: "sorted (map snd es) \<Longrightarrow> (\<forall>e \<in> set es. snd e \<le> now) \<Longrightarrow> sorted (map snd (es @ [(k, now)]))"
  by (auto simp: sorted_append)

lemma sorted_filter_snd: "sorted (map snd es) \<Longrightarrow> sorted (map snd (filter P es))"
  by (rule sorted_filter)

lemma distinct_filter_fst: "distinct (map fst es) \<Longrightarrow> distinct (map fst (filter P es))"
  by (rule distinct_map_filter)

lemma evict_expired_ok:
  assumes "cache_ok c t" "t \<le> now"
  shows "cache_ok (evict_expired now c) now"
    "rc_entries (evict_expired now c) = filter (\<lambda>e. now - rc_window c < snd e) (rc_entries c)"
  using assms
  by (auto simp: cache_ok_def evict_expired_def evict_loop_sorted sorted_filter_snd distinct_filter_fst
      intro: order_trans [OF of_nat_mono [OF length_filter_le]])

text \<open> The eviction loop, which only ever looks at the oldest entry, removes exactly the expired entries: on a
  cache kept in order of time it equals the filter that keeps the entries younger than the window, and the
  overflow loop equals keeping the newest \<open>max_entries\<close>.
\<close>
theorem eviction_is_filtering:
  assumes "sorted (map snd (rc_entries c))" "0 \<le> n"
  shows "rc_entries (evict_expired now c) = filter (\<lambda>e. now - rc_window c < snd e) (rc_entries c) \<and>
    drop_oldest n es = drop (length es - nat n) es"
  using assms by (simp add: evict_expired_def evict_loop_sorted drop_oldest_eq)

theorem eviction_is_filtering_witness:
  "rc_entries (evict_expired 200 \<lparr>rc_window = 120, rc_max = 1, rc_entries = [((''pa'', ''r''), 70), ((''pb'', ''r''), 100)]\<rparr>) =
     [((''pb'', ''r''), 100)] \<and>
   drop_oldest 1 [((''pa'', ''r''), 70), ((''pb'', ''r''), 100)] = [((''pb'', ''r''), 100)]"
  using eviction_is_filtering
    [of "\<lparr>rc_window = 120, rc_max = 1, rc_entries = [((''pa'', ''r''), 70), ((''pb'', ''r''), 100)]\<rparr>" 1 200
      "[((''pa'', ''r''), 70), ((''pb'', ''r''), 100)]"]
  by simp

lemma drop_entries_ok:
  assumes "distinct (map fst es)" "sorted (map snd es)" "\<forall>e \<in> set es. snd e \<le> (now :: py_float)"
  shows "distinct (map fst (drop m es)) \<and> sorted (map snd (drop m es)) \<and> (\<forall>e \<in> set (drop m es). snd e \<le> now)"
  using assms by (auto simp: drop_map [symmetric] sorted_wrt_drop dest: in_set_dropD)

text \<open>Every call keeps the invariant.\<close>

lemma add_entry_ok:
  assumes ok: "cache_ok c now" and new: "k \<notin> fst ` set (rc_entries c)"
  shows "cache_ok (c\<lparr>rc_entries := drop_oldest (rc_max c) (rc_entries c @ [(k, now)])\<rparr>) now"
proof -
  let ?es = "rc_entries c @ [(k, now)]"
  define ds where "ds = drop (length ?es - nat (rc_max c)) ?es"
  have n: "0 \<le> rc_max c" using ok by (simp add: cache_ok_def)
  have "distinct (map fst ?es)" "sorted (map snd ?es)" "\<forall>e \<in> set ?es. snd e \<le> now"
    using ok new sorted_snoc_le by (auto simp: cache_ok_def)
  from drop_entries_ok [OF this] have "distinct (map fst ds)" "sorted (map snd ds)" "\<forall>e \<in> set ds. snd e \<le> now"
    unfolding ds_def by blast+
  moreover have "int (length ds) \<le> rc_max c" unfolding ds_def by (rule length_drop_le [OF n])
  moreover have "drop_oldest (rc_max c) ?es = ds" unfolding ds_def by (rule drop_oldest_eq [OF n])
  ultimately show ?thesis using ok by (simp add: cache_ok_def)
qed

lemma check_and_add_ok:
  assumes "cache_ok c t" "t \<le> now"
  shows "cache_ok (snd (check_and_add c now peer rid)) now"
proof -
  have "cache_ok c now" using assms by (auto simp: cache_ok_def)
  then show ?thesis
    using add_entry_ok [OF evict_expired_ok(1) [OF assms]] evict_expired_ok(1) [OF assms]
    by (simp add: check_and_add_def Let_def)
qed

section \<open>Refinement of the replay specification\<close>

text \<open>
  The specification keeps the whole history of accepted requests: a request is accepted unless the same key was
  accepted less than a window ago. \<open>quiet\<close> says that fewer than \<open>n\<close> requests arrived in the window before
  each of the given ones.
\<close>

definition recent :: "py_float \<Rightarrow> py_float \<Rightarrow> ('a \<times> py_float) list \<Rightarrow> ('a \<times> py_float) list" where
  "recent w now hist = filter (\<lambda>e. now - w < snd e) hist"

definition spec_accepts :: "py_float \<Rightarrow> replay_entries \<Rightarrow> replay_key \<Rightarrow> py_float \<Rightarrow> bool" where
  "spec_accepts w hist k now \<longleftrightarrow> k \<notin> fst ` set (recent w now hist)"

fun spec_run :: "py_float \<Rightarrow> replay_entries \<Rightarrow> replay_entries \<Rightarrow> bool list" where
  "spec_run w hist [] = []"
| "spec_run w hist ((k, now) # calls) =
     (if spec_accepts w hist k now then True # spec_run w (hist @ [(k, now)]) calls else False # spec_run w hist calls)"

fun cache_run :: "replay_cache \<Rightarrow> replay_entries \<Rightarrow> bool list" where
  "cache_run c [] = []"
| "cache_run c ((k, now) # calls) =
     (let r = check_and_add c now (fst k) (snd k) in (fst r = Inr ()) # cache_run (snd r) calls)"

fun quiet :: "int \<Rightarrow> py_float \<Rightarrow> ('a \<times> py_float) list \<Rightarrow> ('a \<times> py_float) list \<Rightarrow> bool" where
  "quiet n w seen [] = True"
| "quiet n w seen (x # xs) = (int (length (recent w (snd x) seen)) < n \<and> quiet n w (seen @ [x]) xs)"

definition valid_key :: "replay_key \<Rightarrow> bool" where
  "valid_key k \<longleftrightarrow> py_strip (fst k) \<noteq> [] \<and> is_hex (snd k) 32"

text \<open>The abstraction: the cache holds the recent part of the history.\<close>

definition refines :: "replay_cache \<Rightarrow> replay_entries \<Rightarrow> py_float \<Rightarrow> bool" where
  "refines c hist now \<longleftrightarrow> cache_ok c now \<and> rc_entries c = recent (rc_window c) now hist \<and> (\<forall>e \<in> set hist. snd e \<le> now)"

lemma recent_recent: "t \<le> now \<Longrightarrow> recent w now (recent w t hist) = recent w now hist"
  by (simp add: recent_def) (rule filter_cong; auto)

lemma recent_snoc: "0 < w \<Longrightarrow> recent w now (hist @ [(k, now)]) = recent w now hist @ [(k, now)]"
  by (simp add: recent_def)

lemma check_and_add_refines:
  assumes r: "refines c hist t" and now: "t \<le> now" and k: "valid_key k"
    and room: "int (length (recent (rc_window c) now hist)) < rc_max c"
  shows "fst (check_and_add c now (fst k) (snd k)) = Inr () \<longleftrightarrow> spec_accepts (rc_window c) hist k now"
    and "refines (snd (check_and_add c now (fst k) (snd k)))
           (if spec_accepts (rc_window c) hist k now then hist @ [(k, now)] else hist) now"
    and "rc_window (snd (check_and_add c now (fst k) (snd k))) = rc_window c"
    and "rc_max (snd (check_and_add c now (fst k) (snd k))) = rc_max c"
proof -
  let ?c = "evict_expired now c" and ?w = "rc_window c"
  have ok: "cache_ok c t" using r by (simp add: refines_def)
  have e: "rc_entries ?c = recent ?w now hist"
    using evict_expired_ok(2) [OF ok now] r recent_recent [OF now] by (simp add: refines_def recent_def [symmetric])
  have p: "rc_window ?c = ?w" "rc_max ?c = rc_max c" by (simp_all add: evict_expired_def)
  have w: "0 < ?w" "0 \<le> rc_max c" using ok by (auto simp: cache_ok_def)
  have d: "drop_oldest (rc_max c) (recent ?w now hist @ [(k, now)]) = recent ?w now (hist @ [(k, now)])"
    using room w by (simp add: drop_oldest_eq recent_snoc nat_less_iff [symmetric]) (simp add: nat_le_iff)?
  note step = check_and_add_def Let_def e p
  show "fst (check_and_add c now (fst k) (snd k)) = Inr () \<longleftrightarrow> spec_accepts ?w hist k now"
    using k by (simp add: step valid_key_def spec_accepts_def)
  show "rc_window (snd (check_and_add c now (fst k) (snd k))) = rc_window c"
    "rc_max (snd (check_and_add c now (fst k) (snd k))) = rc_max c" by (simp_all add: step)
  have "rc_entries (snd (check_and_add c now (fst k) (snd k))) =
      recent ?w now (if spec_accepts ?w hist k now then hist @ [(k, now)] else hist)"
    using k d by (simp add: step valid_key_def spec_accepts_def)
  moreover have "\<forall>x \<in> set hist. snd x \<le> now" using r now by (auto simp: refines_def)
  ultimately show "refines (snd (check_and_add c now (fst k) (snd k)))
      (if spec_accepts ?w hist k now then hist @ [(k, now)] else hist) now"
    using check_and_add_ok [OF ok now, of "fst k" "snd k"] by (simp add: refines_def step)
qed

lemma recent_append: "recent w now (xs @ ys) = recent w now xs @ recent w now ys"
  by (simp add: recent_def)

text \<open>No more requests were accepted than arrived.\<close>

definition fewer :: "py_float \<Rightarrow> replay_entries \<Rightarrow> ('a \<times> py_float) list \<Rightarrow> bool" where
  "fewer w hist seen \<longleftrightarrow> (\<forall>now. length (recent w now hist) \<le> length (recent w now seen))"

lemma fewer_step: "fewer w hist seen \<Longrightarrow> fewer w (hist @ [(k, t)]) (seen @ [(x, t)])"
  by (auto simp: fewer_def recent_append) (auto simp: recent_def)

lemma fewer_skip: "fewer w hist seen \<Longrightarrow> fewer w hist (seen @ [x])"
  by (auto simp: fewer_def recent_append intro: trans_le_add1)

lemma fewer_room: "fewer w hist seen \<Longrightarrow> int (length (recent w now seen)) < n \<Longrightarrow> int (length (recent w now hist)) < n"
  by (auto simp: fewer_def dest!: spec [of _ now])

lemma cache_run_spec:
  assumes "refines c hist t" "sorted (t # map snd calls)" "\<forall>x \<in> set calls. valid_key (fst x)"
    and "fewer (rc_window c) hist seen" "quiet (rc_max c) (rc_window c) seen calls"
  shows "cache_run c calls = spec_run (rc_window c) hist calls"
  using assms
proof (induction calls arbitrary: c hist t seen)
  case (Cons x calls)
  obtain k now where x: "x = (k, now)" by fastforce
  let ?r = "check_and_add c now (fst k) (snd k)"
  let ?h = "if spec_accepts (rc_window c) hist k now then hist @ [(k, now)] else hist"
  have pre: "t \<le> now" "valid_key k" "int (length (recent (rc_window c) now hist)) < rc_max c"
    using Cons.prems fewer_room by (auto simp: x)
  note step = check_and_add_refines [OF Cons.prems(1) pre]
  have "cache_run (snd ?r) calls = spec_run (rc_window (snd ?r)) ?h calls"
  proof (rule Cons.IH [OF step(2)])
    show "sorted (now # map snd calls)" "\<forall>y \<in> set calls. valid_key (fst y)" using Cons.prems by (auto simp: x)
    show "fewer (rc_window (snd ?r)) ?h (seen @ [x])"
      using Cons.prems(4) by (simp add: step(3) x fewer_step fewer_skip)
    show "quiet (rc_max (snd ?r)) (rc_window (snd ?r)) (seen @ [x]) calls" using Cons.prems(5) by (simp add: step x)
  qed
  then show ?case using step(1) by (simp add: x Let_def step(3))
qed simp

lemma new_cache_refines: "replay_cache w n = Inr c \<Longrightarrow> refines c [] t \<and> rc_window c = w \<and> rc_max c = n"
  by (auto simp: replay_cache_def refines_def cache_ok_def recent_def split: if_splits)

lemma fewer_Nil: "fewer w [] []"
  by (simp add: fewer_def recent_def)

text \<open>C26: The bounded cache implements the unbounded specification: for any sequence of requests in order of time,
  as long as fewer than \<open>max_entries\<close> arrive within a window, the cache accepts exactly the requests whose
  key was not accepted less than a window before, although it forgets everything older.
\<close>
theorem replay_cache_refines_window:
  assumes "replay_cache w n = Inr c" "sorted (map snd calls)" "\<forall>x \<in> set calls. valid_key (fst x)" "quiet n w [] calls"
  shows "cache_run c calls = spec_run w [] calls"
proof (cases calls)
  case (Cons x xs)
  have "cache_run c calls = spec_run (rc_window c) [] calls"
    using assms new_cache_refines [OF assms(1), of "snd x"] fewer_Nil
    by (intro cache_run_spec [where t = "snd x" and seen = "[]"]) (auto simp: Cons)
  then show ?thesis using new_cache_refines [OF assms(1)] by simp
qed simp

definition some_request :: string where "some_request = ''0123456789abcdef0123456789abcdef''"

theorem replay_cache_refines_window_witness:
  "cache_run \<lparr>rc_window = 120, rc_max = 2, rc_entries = []\<rparr>
     [((''pa'', some_request), 0), ((''pa'', some_request), 100), ((''pb'', some_request), 200)] = [True, False, True]"
proof -
  let ?calls = "[((''pa'', some_request), 0), ((''pa'', some_request), 100), ((''pb'', some_request), 200)]"
  have k: "py_strip ''pa'' = ''pa''" "py_strip ''pb'' = ''pb''" "is_hex some_request 32" by code_simp+
  have "cache_run \<lparr>rc_window = 120, rc_max = 2, rc_entries = []\<rparr> ?calls = spec_run 120 [] ?calls"
    by (rule replay_cache_refines_window [where n = 2])
      (simp_all add: replay_cache_def valid_key_def k recent_def)
  then show ?thesis by (simp add: spec_accepts_def recent_def)
qed

section \<open>No message is served twice\<close>

text \<open>
  The path of a request to its service: it is decoded at wall-clock time \<open>now\<close> (milliseconds) and checked
  against the cache at the same time of the monotonic clock. \<open>True\<close> means that the service is called.
\<close>

definition secs :: "int \<Rightarrow> py_float" where
  "secs ms = of_int ms / 1000"

fun deliver :: "string list \<Rightarrow> replay_cache \<Rightarrow> (string \<times> int) list \<Rightarrow> bool list" where
  "deliver supported c [] = []"
| "deliver supported c ((raw, now) # ds) =
     (case decode_message supported (Some now) raw of
        Inl _ \<Rightarrow> False # deliver supported c ds
      | Inr e \<Rightarrow>
          let r = check_and_add c (secs now) (id_peer (ev_source e)) (ev_request e)
          in (fst r = Inr ()) # deliver supported (snd r) ds)"

definition at_secs :: "(string \<times> int) list \<Rightarrow> (string \<times> py_float) list" where
  "at_secs ds = map (\<lambda>d. (fst d, secs (snd d))) ds"

definition envelope_key :: "envelope \<Rightarrow> replay_key" where
  "envelope_key e = (id_peer (ev_source e), ev_request e)"

lemma decode_any_time:
  assumes "decode_message supported now raw = Inr e"
  shows "decode_message supported None raw = Inr e \<and> in_window now (ev_time e)"
proof -
  obtain b where b: "validate_envelope supported now b = Inr e"
    "\<And>now'. decode_message supported now' raw = validate_envelope supported now' b"
    using decode_message_InrE [OF assms] by metis
  have "validate_envelope supported None b = Inr e"
    using b(1) unfolding validate_envelope_Inr by (simp add: check_timestamp_Inr in_window_def)
  then show ?thesis using b validate_envelope_ok(2) [OF b(1)] by simp
qed

lemma decoded_key_valid: "decode_message supported now raw = Inr e \<Longrightarrow> valid_key (envelope_key e)"
  by (erule decode_message_InrE)
    (auto dest!: validate_envelope_ok(1) simp: envelope_ok_def identity_ok_def valid_key_def envelope_key_def)

lemma decode_twice:
  assumes "decode_message supported (Some n1) raw = Inr e1" "decode_message supported (Some n2) raw = Inr e2"
  shows "e1 = e2" "n2 - n1 \<le> past_skew_ms + future_skew_ms"
  using decode_any_time [OF assms(1)] decode_any_time [OF assms(2)] by (auto simp: in_window_def)

lemma deliver_blocked:
  assumes "refines c hist t" "sorted (t # map snd (at_secs ds))" "fewer (rc_window c) hist seen"
    and "quiet (rc_max c) (rc_window c) seen (at_secs ds)" "(envelope_key e, t0) \<in> set hist"
    and "j < length ds" "ds ! j = (raw, now)" "decode_message supported (Some now) raw = Inr e" "secs now - rc_window c < t0"
  shows "\<not> deliver supported c ds ! j"
  using assms
proof (induction ds arbitrary: c hist t seen j)
  case (Cons d ds)
  obtain raw' now' where d: "d = (raw', now')" by fastforce
  have srt: "t \<le> secs now'" "sorted (secs now' # map snd (at_secs ds))" "sorted (t # map snd (at_secs ds))"
    using Cons.prems(2) by (auto simp: at_secs_def d)
  have q: "quiet (rc_max c) (rc_window c) (seen @ [(raw', secs now')]) (at_secs ds)"
    "int (length (recent (rc_window c) (secs now') hist)) < rc_max c"
    using Cons.prems(3,4) fewer_room by (auto simp: at_secs_def d)
  show ?case
  proof (cases "decode_message supported (Some now') raw'")
    case (Inl x)
    have "0 < j" using Inl Cons.prems(7,8) by (cases j) (auto simp: d)
    then have "\<not> deliver supported c ds ! (j - 1)"
      using Cons.prems q srt
      by (intro Cons.IH [OF Cons.prems(1) srt(3) fewer_skip [OF Cons.prems(3)] q(1)]) (auto simp: nth_Cons')
    then show ?thesis using \<open>0 < j\<close> by (simp add: d Inl nth_Cons')
  next
    case (Inr e')
    have k: "valid_key (envelope_key e')" by (rule decoded_key_valid [OF Inr])
    let ?r = "check_and_add c (secs now') (id_peer (ev_source e')) (ev_request e')"
    let ?ok = "spec_accepts (rc_window c) hist (envelope_key e') (secs now')"
    note step = check_and_add_refines [OF Cons.prems(1) srt(1) k q(2), unfolded envelope_key_def fst_conv snd_conv, folded envelope_key_def]
    show ?thesis
    proof (cases j)
      case 0
      have "e' = e" "now' = now" using 0 Cons.prems(7,8) Inr by (auto simp: d)
      then have "\<not> ?ok" using Cons.prems(5,9) by (force simp: spec_accepts_def recent_def)
      then show ?thesis using step(1) by (simp add: d Inr 0 Let_def)
    next
      case (Suc i)
      have "\<not> deliver supported (snd ?r) ds ! i"
      proof (rule Cons.IH [OF step(2) srt(2)])
        show "fewer (rc_window (snd ?r)) (if ?ok then hist @ [(envelope_key e', secs now')] else hist) (seen @ [(raw', secs now')])"
          using Cons.prems(3) by (simp add: step(3) fewer_step fewer_skip)
      qed (use Cons.prems q Suc in \<open>auto simp: step(3,4)\<close>)
      then show ?thesis by (simp add: d Inr Suc Let_def)
    qed
  qed
qed simp

lemma deliver_undecodable:
  "j < length ds \<Longrightarrow> ds ! j = (raw, now) \<Longrightarrow> decode_message supported (Some now) raw = Inl x \<Longrightarrow> \<not> deliver supported c ds ! j"
proof (induction ds arbitrary: j c)
  case (Cons d ds)
  obtain raw' now' where "d = (raw', now')" by fastforce
  with Cons show ?case by (cases j) (auto simp: Let_def split: sum.split)
qed simp

lemma skew_within_window:
  assumes "n2 - n1 \<le> past_skew_ms + future_skew_ms" "40 < w"
  shows "secs n2 - w < secs n1"
proof -
  have "(of_int (n2 - n1) :: py_float) \<le> of_int 40000"
    using assms(1) by (simp only: of_int_le_iff) (simp add: past_skew_ms_def future_skew_ms_def)
  then show ?thesis using assms(2) by (simp add: secs_def field_simps)
qed

lemma deliver_once:
  assumes "refines c hist t" "sorted (t # map snd (at_secs ds))" "fewer (rc_window c) hist seen"
    and "quiet (rc_max c) (rc_window c) seen (at_secs ds)" "40 < rc_window c"
    and "i < j" "j < length ds" "ds ! i = (raw, n1)" "ds ! j = (raw, n2)" "deliver supported c ds ! i"
  shows "\<not> deliver supported c ds ! j"
  using assms
proof (induction ds arbitrary: c hist t seen i j)
  case (Cons d ds)
  obtain raw' now' where d: "d = (raw', now')" by fastforce
  obtain j' where j: "j = Suc j'" using Cons.prems(6) by (cases j) auto
  have srt: "t \<le> secs now'" "sorted (secs now' # map snd (at_secs ds))" "sorted (t # map snd (at_secs ds))"
    using Cons.prems(2) by (auto simp: at_secs_def d)
  have q: "quiet (rc_max c) (rc_window c) (seen @ [(raw', secs now')]) (at_secs ds)"
    "int (length (recent (rc_window c) (secs now') hist)) < rc_max c"
    using Cons.prems(3,4) fewer_room by (auto simp: at_secs_def d)
  show ?case
  proof (cases "decode_message supported (Some now') raw'")
    case (Inl x)
    then obtain i' where i: "i = Suc i'" using Cons.prems(8,10) by (cases i) (auto simp: d)
    have "\<not> deliver supported c ds ! j'"
      by (rule Cons.IH [OF Cons.prems(1) srt(3) fewer_skip [OF Cons.prems(3)] q(1) Cons.prems(5)])
        (use Cons.prems i j Inl in \<open>auto simp: d\<close>)
    then show ?thesis by (simp add: d Inl j)
  next
    case (Inr e)
    let ?r = "check_and_add c (secs now') (id_peer (ev_source e)) (ev_request e)"
    let ?ok = "spec_accepts (rc_window c) hist (envelope_key e) (secs now')"
    let ?h = "if ?ok then hist @ [(envelope_key e, secs now')] else hist"
    note step = check_and_add_refines [OF Cons.prems(1) srt(1) decoded_key_valid [OF Inr] q(2), unfolded envelope_key_def fst_conv snd_conv, folded envelope_key_def]
    have f: "fewer (rc_window (snd ?r)) ?h (seen @ [(raw', secs now')])"
      using Cons.prems(3) by (simp add: step(3) fewer_step fewer_skip)
    have q': "quiet (rc_max (snd ?r)) (rc_window (snd ?r)) (seen @ [(raw', secs now')]) (at_secs ds)" using q(1) by (simp add: step(3,4))
    have "\<not> deliver supported (snd ?r) ds ! j'"
    proof (cases i)
      case 0
      then have eq: "raw' = raw" "now' = n1" "?ok" using Cons.prems(8,10) Inr step(1) by (auto simp: d Let_def)
      show ?thesis
      proof (cases "decode_message supported (Some n2) raw")
        case (Inr e2)
        have e2: "e2 = e" "n2 - n1 \<le> past_skew_ms + future_skew_ms"
          using decode_twice [OF \<open>decode_message supported (Some now') raw' = Inr e\<close> [unfolded eq] Inr] by auto
        show ?thesis
        proof (rule deliver_blocked [OF step(2) srt(2) f q'])
          show "(envelope_key e2, secs now') \<in> set ?h" using eq e2 by simp
          show "secs n2 - rc_window (snd ?r) < secs now'"
            unfolding step(3) using skew_within_window [OF e2(2) Cons.prems(5)] eq(2) by simp
        qed (use Cons.prems j Inr in auto)
      qed (rule deliver_undecodable [where now = n2 and raw = raw], use Cons.prems j in auto)
    next
      case (Suc i')
      show ?thesis
        by (rule Cons.IH [OF step(2) srt(2) f q', where i = i'])
          (use Cons.prems Suc j Inr in \<open>auto simp: d Let_def step(3)\<close>)
    qed
    then show ?thesis by (simp add: d Inr j Let_def)
  qed
qed simp


lemma fresh_cache_accepts:
  assumes "replay_cache w n = Inr c" "decode_message supported (Some now) raw = Inr e"
  shows "deliver supported c ((raw, now) # ds) ! 0"
proof -
  have c: "refines c [] (secs now)" "int (length (recent (rc_window c) (secs now) ([] :: replay_entries))) < rc_max c"
    using new_cache_refines [OF assms(1), of "secs now"] by (auto simp: refines_def cache_ok_def recent_def)
  have "fst (check_and_add c (secs now) (id_peer (ev_source e)) (ev_request e)) = Inr ()"
    using check_and_add_refines(1) [OF c(1) order_refl decoded_key_valid [OF assms(2)] c(2)]
    by (simp add: envelope_key_def spec_accepts_def recent_def)
  then show ?thesis by (simp add: assms(2) Let_def)
qed


end
