(* ===== verification/Tep_Services.thy ===== *)
theory Tep_Services
  imports Tep_Messages
begin

text \<open>
  The application services: the registry and the storage summary (\<open>tep/hb_tep_services.py\<close>), the bridge to the
  local lease agent (\<open>tep/hb_tep_ha_service.py\<close>) and the master status (\<open>tep/hb_tep_master_service.py\<close>). The result
  of \<open>urlsplit\<close> and what the opener returned are arguments.
\<close>

section \<open>Configuration\<close>

text \<open>The fields of \<open>urlsplit\<close> the constructors look at.\<close>

record url_parts =
  up_scheme :: string
  up_host :: "string option"
  up_path :: string
  up_query :: string
  up_fragment :: string
  up_user :: "string option"
  up_password :: "string option"
  up_port :: "int option"

definition loopback_hosts :: "string list" where "loopback_hosts = [''127.0.0.1'', ''::1'']"

definition url_ok :: "string \<Rightarrow> url_parts \<Rightarrow> bool" where
  "url_ok path u \<longleftrightarrow>
     up_scheme u = ''http'' \<and> up_host u \<in> Some ` set loopback_hosts \<and> up_path u = path \<and> up_query u = [] \<and> up_fragment u = [] \<and>
     up_user u = None \<and> up_password u = None \<and> (\<exists>p. up_port u = Some p \<and> 1 \<le> p \<and> p \<le> 65535)"

definition storage_config :: "url_parts \<Rightarrow> py_float \<Rightarrow> int \<Rightarrow> tep_exn + unit" where
  "storage_config u timeout n =
     (if url_ok ''/api/public/storage-summary'' u \<and> 0 < timeout \<and> timeout \<le> 5 \<and> 0 < n \<and> n \<le> 32768 then Inr () else Inl Value_error)"

definition ha_lease_config :: "url_parts \<Rightarrow> py_float \<Rightarrow> int \<Rightarrow> tep_exn + unit" where
  "ha_lease_config u timeout n =
     (if url_ok ''/v1/tep'' u \<and> 0 < timeout \<and> timeout \<le> 5 \<and> 0 < n \<and> n \<le> 32768 then Inr () else Inl Value_error)"

definition master_config :: "url_parts \<Rightarrow> py_float \<Rightarrow> int \<Rightarrow> tep_exn + unit" where
  "master_config u timeout n =
     (if url_ok ''/api/status'' u \<and> 0 < timeout \<and> timeout \<le> 5 \<and> 0 < n \<and> n \<le> 65536 then Inr () else Inl Value_error)"

section \<open>The registry\<close>

type_synonym service_handler = "jobj \<Rightarrow> tep_exn + jobj"
type_synonym service_registry = "(string \<times> service_handler) list"

definition register_service :: "string \<Rightarrow> service_handler \<Rightarrow> service_registry \<Rightarrow> tep_exn + service_registry" where
  "register_service name h reg =
     (let s = py_strip name
      in if s = [] \<or> s \<in> fst ` set reg then Inl Value_error else Inr (reg @ [(s, h)]))"

definition supports :: "string \<Rightarrow> service_registry \<Rightarrow> bool" where
  "supports s reg \<longleftrightarrow> s \<in> fst ` set reg"

definition services :: "service_registry \<Rightarrow> string list" where
  "services reg = sort (map fst reg)"

definition unsupported_service :: "string \<Rightarrow> tep_exn + 'a" where
  "unsupported_service s = Inl (Protocol_error ''unsupported_service'' (''unsupported service '' @ s))"

definition dispatch :: "service_registry \<Rightarrow> envelope \<Rightarrow> tep_exn + jobj" where
  "dispatch reg env =
     (if ev_type env \<noteq> ''req'' then Inl (Protocol_error ''unsupported_type'' ''service dispatch accepts request messages only'')
      else (case ev_service env of
              None \<Rightarrow> unsupported_service ''<missing>''
            | Some s \<Rightarrow>
                if s = [] then unsupported_service ''<missing>''
                else (case map_of reg s of
                        None \<Rightarrow> unsupported_service s
                      | Some h \<Rightarrow>
                          (case jget (ev_raw env) ''payload'' of
                             JObj p \<Rightarrow> h p
                           | _ \<Rightarrow> bad_request ''payload must be an object''))))"

section \<open>Read-only handlers\<close>

text \<open>
  What the opener did: an \<open>HTTPError\<close> with its body, another \<open>URLError\<close>, time-out or \<open>OSError\<close>, some other
  exception, or a response with a status (if it has one) and the bytes read, at most one more than the limit.
\<close>

datatype local_answer = Http_error string | Unreachable | Broken | Answer "int option" string

definition service_error :: "string \<Rightarrow> string \<Rightarrow> tep_exn + 'a" where
  "service_error c m = Inl (Service_error c m)"

text \<open>\<open>json.loads(raw.decode())\<close>: \<open>None\<close> is a \<open>UnicodeDecodeError\<close> or \<open>JSONDecodeError\<close>.\<close>

definition forbidden_keys :: "string list" where
  "forbidden_keys = [''url'', ''uri'', ''host'', ''hostname'', ''port'', ''path'', ''method'', ''headers'', ''header'', ''scheme'', ''query'',
     ''target'', ''endpoint'', ''command'']"

definition empty_payload :: "string \<Rightarrow> string list \<Rightarrow> jobj \<Rightarrow> tep_exn + unit" where
  "empty_payload service forbidden p =
     (if p = [] then Inr ()
      else if \<exists>kv \<in> set p. py_lower (py_strip (fst kv)) \<in> set forbidden
        then bad_request (service @ '' does not accept caller-controlled routing or HTTP parameters'')
      else bad_request (service @ '' payload must be empty''))"

text \<open>\<open>who\<close> and \<open>what\<close> name the service in the messages, \<open>limit\<close> is \<open>max_response_bytes\<close>.\<close>

definition fetch_object :: "string \<Rightarrow> string \<Rightarrow> nat \<Rightarrow> local_answer \<Rightarrow> tep_exn + jobj" where
  "fetch_object who what limit a =
     (case a of
        Http_error b \<Rightarrow> service_error ''local_service_unavailable'' (who @ '' endpoint unavailable'')
      | Unreachable \<Rightarrow> service_error ''local_service_unavailable'' (who @ '' endpoint unavailable'')
      | Broken \<Rightarrow> service_error ''local_service_unavailable'' (who @ '' request failed'')
      | Answer status raw \<Rightarrow>
          if \<exists>s. status = Some s \<and> \<not> (200 \<le> s \<and> s \<le> 299)
            then service_error ''local_service_unavailable'' (what @ '' HTTP '' @ show_int (the status))
          else if limit < length raw then service_error ''response_too_large'' (what @ '' response exceeds size limit'')
          else (case loads_bytes raw of
                  Inl Digit_limit \<Rightarrow> Inl Value_error
                | Inl _ \<Rightarrow> service_error ''local_service_unavailable'' (what @ '' response is invalid JSON'')
                | Inr (JObj o') \<Rightarrow> Inr o'
                | Inr _ \<Rightarrow> service_error ''local_service_unavailable'' (what @ '' response must be an object'')))"

definition storage_summary :: "local_answer \<Rightarrow> service_handler" where
  "storage_summary a p =
     bind_r (empty_payload ''storage.summary'' (''admin'' # forbidden_keys) p) (\<lambda>_. fetch_object ''storage summary'' ''storage summary'' 32768 a)"

definition master_service :: "local_answer \<Rightarrow> service_handler" where
  "master_service a p =
     bind_r (empty_payload ''master.status'' forbidden_keys p) (\<lambda>_.
     bind_r (fetch_object ''HashBurst master status'' ''master status'' 65536 a) (\<lambda>result.
       if jget result ''master_live'' \<noteq> JBool True then service_error ''master_not_live'' ''HashBurst master is not live''
       else Inr result))"

section \<open>The lease service\<close>

definition op_keys :: "string \<Rightarrow> string list option" where
  "op_keys op =
     (if op = ''status'' then Some [''op'', ''cluster_id'']
      else if op = ''vote_request'' then Some [''op'', ''cluster_id'', ''candidate'', ''priority'', ''term'', ''lease_ms'']
      else if op = ''renew'' then Some [''op'', ''cluster_id'', ''holder'', ''term'', ''lease_ms'']
      else None)"

definition name_ok :: "string \<Rightarrow> bool" where
  "name_ok s \<longleftrightarrow> s \<noteq> [] \<and> length s \<le> 128"

definition int_or_bad :: "jobj \<Rightarrow> string \<Rightarrow> string \<Rightarrow> tep_exn + int" where
  "int_or_bad p k m = (case py_int (jget p k) of None \<Rightarrow> bad_request m | Some n \<Rightarrow> Inr n)"

definition check_vote :: "jobj \<Rightarrow> tep_exn + unit" where
  "check_vote p =
     (if \<not> name_ok (jtext_strip p ''candidate'') then bad_request ''invalid candidate''
      else
        bind_r (int_or_bad p ''priority'' ''invalid vote_request numeric fields'') (\<lambda>priority.
        bind_r (int_or_bad p ''term'' ''invalid vote_request numeric fields'') (\<lambda>term.
        bind_r (int_or_bad p ''lease_ms'' ''invalid vote_request numeric fields'') (\<lambda>ms.
          if priority < 0 \<or> term < 1 \<or> \<not> (1000 \<le> ms \<and> ms \<le> 120000) then bad_request ''vote_request fields out of range'' else Inr ()))))"

definition check_renew :: "jobj \<Rightarrow> tep_exn + unit" where
  "check_renew p =
     (if \<not> name_ok (jtext_strip p ''holder'') then bad_request ''invalid holder''
      else
        bind_r (int_or_bad p ''term'' ''invalid renew numeric fields'') (\<lambda>term.
        bind_r (int_or_bad p ''lease_ms'' ''invalid renew numeric fields'') (\<lambda>ms.
          if term < 1 \<or> \<not> (1000 \<le> ms \<and> ms \<le> 120000) then bad_request ''renew fields out of range'' else Inr ())))"

definition validate_payload :: "jobj \<Rightarrow> tep_exn + jobj" where
  "validate_payload p =
     (let op = jtext_strip p ''op''
      in case op_keys op of
           None \<Rightarrow> Inl (Protocol_error ''unsupported_op''
                         (''unsupported ha.lease operation '' @ (if op = [] then ''<missing>'' else op)))
         | Some allowed \<Rightarrow>
             if fst ` set p \<noteq> set allowed then bad_request ''ha.lease payload contains missing or unexpected fields''
             else if \<not> name_ok (jtext_strip p ''cluster_id'') then bad_request ''invalid cluster_id''
             else bind_r (if op = ''vote_request'' then check_vote p else Inr ()) (\<lambda>_.
                  bind_r (if op = ''renew'' then check_renew p else Inr ()) (\<lambda>_. Inr p)))"

text \<open>The code of an error body: \<open>str((data.get("error") or \{\}).get("code") or "ha_agent_rejected")\<close>.\<close>

definition lease_error_code :: "jobj \<Rightarrow> string option" where
  "lease_error_code d =
     (case py_or (jget d ''error'') (JObj []) of
        JObj e \<Rightarrow> Some (py_str (py_or (jget e ''code'') (JStr ''ha_agent_rejected'')))
      | _ \<Rightarrow> None)"

definition agent_result :: "local_answer \<Rightarrow> tep_exn + jobj" where
  "agent_result a =
     (case a of
        Http_error b \<Rightarrow>
          service_error (case loads_bytes b of Inr (JObj d) \<Rightarrow> (case lease_error_code d of None \<Rightarrow> ''ha_agent_rejected'' | Some c \<Rightarrow> c)
                           | _ \<Rightarrow> ''ha_agent_rejected'') ''local HA agent rejected request''
      | Unreachable \<Rightarrow> service_error ''ha_agent_unavailable'' ''local HA agent unavailable''
      | Broken \<Rightarrow> service_error ''ha_agent_unavailable'' ''local HA agent request failed''
      | Answer status raw \<Rightarrow>
          let code = (case status of None \<Rightarrow> 200 | Some s \<Rightarrow> s)
          in if code div 100 \<noteq> 2 then service_error ''ha_agent_unavailable'' (''local HA agent HTTP '' @ show_int code)
             else if 16384 < length raw then service_error ''response_too_large'' ''HA agent response exceeds size limit''
             else (case loads_bytes raw of
                     Inr (JObj d) \<Rightarrow>
                       if \<not> truthy (jget_def_to d ''ok'' (JBool False)) then
                         (case lease_error_code d of None \<Rightarrow> Inl Other_error | Some c \<Rightarrow> service_error c ''local HA agent rejected request'')
                       else (case jget d ''result'' of
                               JObj r \<Rightarrow> Inr r
                             | _ \<Rightarrow> service_error ''ha_agent_bad_response'' ''local HA agent result must be an object'')
                   | Inr _ \<Rightarrow> service_error ''ha_agent_bad_response'' ''local HA agent response must be an object''
                   | Inl _ \<Rightarrow> service_error ''ha_agent_bad_response'' ''local HA agent returned invalid JSON''))"

text \<open>The request forwarded to the agent, and \<open>dispatch_envelope\<close> with the agent as an argument.\<close>

definition forwarded :: "envelope \<Rightarrow> jobj \<Rightarrow> jobj" where
  "forwarded env payload = [(''source'', identity_json (ev_source env)), (''payload'', JObj payload)]"

definition lease_payload :: "envelope \<Rightarrow> tep_exn + jobj" where
  "lease_payload env =
     (case py_or (jget (ev_raw env) ''payload'') (JObj []) of
        JObj p \<Rightarrow> validate_payload p
      | _ \<Rightarrow> bad_request ''ha.lease payload must be an object'')"

definition dispatch_lease :: "(jobj \<Rightarrow> local_answer) \<Rightarrow> envelope \<Rightarrow> tep_exn + jobj" where
  "dispatch_lease agent env =
     (if ev_type env \<noteq> ''req'' \<or> ev_service env \<noteq> Some ''ha.lease'' then bad_request ''invalid ha.lease envelope''
      else bind_r (lease_payload env) (\<lambda>p. agent_result (agent (forwarded env p))))"

definition lease_handler :: service_handler where
  "lease_handler p = service_error ''identity_context_required'' ''ha.lease requires authenticated envelope context''"

text \<open>The registry of the HA runtime.\<close>

definition runtime_registry :: "local_answer \<Rightarrow> local_answer \<Rightarrow> tep_exn + service_registry" where
  "runtime_registry storage master =
     bind_r (register_service ''storage.summary'' (storage_summary storage) []) (\<lambda>r1.
     bind_r (register_service ''ha.lease'' lease_handler r1) (\<lambda>r2.
       register_service ''master.status'' (master_service master) r2))"

end
