(* ===== verification/Tep_Ha.thy ===== *)
theory Tep_Ha
  imports Tep_Services Ha_Checks Ha_Cluster
begin

text \<open>
  The lease protocol over the transport: what the lease agents of \<open>ha/\<close> send passes the gateway of
  \<open>tep/hb_tep_ha_service.py\<close> and reaches the engine of the agent on the other side.
\<close>

lemma jtext_strip_JStr: "jget p k = JStr s \<Longrightarrow> jtext_strip p k = py_strip s"
  by (simp add: jtext_strip_def jtext_def)

lemma config_names_stripped:
  assumes "load_config loopback raw = Inr cfg"
  shows "py_strip (hf_cluster cfg) = hf_cluster cfg" "py_strip (hf_node cfg) = hf_node cfg" "hf_cluster cfg \<noteq> []" "hf_node cfg \<noteq> []"
    "1000 \<le> lease_ms cfg" "lease_ms cfg \<le> 120000"
proof -
  obtain lease where l: "6 \<le> lease" "lease \<le> (120 :: py_float)" "hf_lease cfg = lease"
    "hf_cluster cfg = jtext_strip raw ''cluster_id''" "hf_node cfg = jtext_strip raw ''node_id''"
    "jtext_strip raw ''cluster_id'' \<noteq> []" "jtext_strip raw ''node_id'' \<noteq> []"
    using assms by (clarsimp simp: load_config_def Let_def bind_r_Inr split: if_split_asm)
  then show "py_strip (hf_cluster cfg) = hf_cluster cfg" "py_strip (hf_node cfg) = hf_node cfg" "hf_cluster cfg \<noteq> []" "hf_node cfg \<noteq> []"
    by (simp_all add: jtext_strip_def)
  show "1000 \<le> lease_ms cfg" "lease_ms cfg \<le> 120000"
    using l(1-3) by (simp_all add: lease_ms_def py_trunc_def le_floor_iff floor_le_iff)
qed

lemma lease_op_strip: "py_strip ''status'' = ''status''" "py_strip ''renew'' = ''renew''" "py_strip ''vote_request'' = ''vote_request''"
  by code_simp+

text \<open> The agents' own requests pass the gateway unchanged: for any configuration that loads, with names of at most
  128 characters and a candidate priority that is not negative, the status, renewal and vote payloads an agent
  sends in any term satisfy the field, range and size checks of the remote gateway.
\<close>
theorem agent_requests_pass_the_gateway:
  assumes "load_config loopback raw = Inr cfg" "length (hf_cluster cfg) \<le> 128" "length (hf_node cfg) \<le> 128"
    and "0 \<le> my_priority cfg" "1 \<le> tm"
  shows "validate_payload (status_payload cfg) = Inr (status_payload cfg) \<and>
    validate_payload (renew_payload cfg tm) = Inr (renew_payload cfg tm) \<and>
    validate_payload (vote_payload cfg tm) = Inr (vote_payload cfg tm)"
proof -
  note c = config_names_stripped [OF assms(1)]
  have "validate_payload (status_payload cfg) = Inr (status_payload cfg)"
    using c assms by (simp add: validate_payload_def status_payload_def jtext_strip_JStr lease_op_strip op_keys_def name_ok_def insert_commute)
  moreover have "validate_payload (renew_payload cfg tm) = Inr (renew_payload cfg tm)"
    using c assms
    by (simp add: validate_payload_def renew_payload_def jtext_strip_JStr lease_op_strip op_keys_def name_ok_def check_renew_def int_or_bad_def)
  moreover have "validate_payload (vote_payload cfg tm) = Inr (vote_payload cfg tm)"
    using c assms
    by (simp add: validate_payload_def vote_payload_def jtext_strip_JStr lease_op_strip op_keys_def name_ok_def check_vote_def int_or_bad_def)
  ultimately show ?thesis by blast
qed

theorem agent_requests_pass_the_gateway_witness:
  "\<exists>cfg. load_config (\<lambda>u. True) sample_raw = Inr cfg \<and> validate_payload (vote_payload cfg 7) = Inr (vote_payload cfg 7)"
proof -
  define cfg where "cfg = projr (load_config (\<lambda>u. True) sample_raw)"
  have c: "load_config (\<lambda>u. True) sample_raw = Inr cfg" unfolding cfg_def by code_simp
  have "hf_cluster cfg = ''hb'' \<and> hf_node cfg = ''a'' \<and> my_priority cfg = 1" unfolding cfg_def by code_simp
  then show ?thesis using c agent_requests_pass_the_gateway [OF c, where tm = 7] by auto
qed

text \<open>\<open>Config.load\<close> accepts a negative priority; the gateway refuses every vote request that carries one.\<close>

lemma negative_priority_is_refused:
  assumes "load_config loopback raw = Inr cfg" "length (hf_cluster cfg) \<le> 128" "length (hf_node cfg) \<le> 128" "my_priority cfg < 0"
  shows "validate_payload (vote_payload cfg tm) = bad_request ''vote_request fields out of range''"
  using assms config_names_stripped [OF assms(1)]
  by (simp add: validate_payload_def vote_payload_def jtext_strip_JStr lease_op_strip op_keys_def name_ok_def check_vote_def int_or_bad_def
      bad_request_def)

lemma validate_payload_Inr:
  assumes "validate_payload p = Inr q"
  shows "q = p" "p \<noteq> []"
proof -
  obtain allowed where a: "op_keys (jtext_strip p ''op'') = Some allowed"
    using assms by (auto simp: validate_payload_def Let_def split: option.splits)
  then show "q = p"
    using assms by (auto simp: validate_payload_def Let_def bind_r_Inr bad_request_def split: if_split_asm)
  have "allowed \<noteq> []" using a by (auto simp: op_keys_def split: if_split_asm)
  moreover have "fst ` set p = set allowed"
    using a assms by (auto simp: validate_payload_def Let_def bad_request_def split: if_split_asm)
  ultimately show "p \<noteq> []" by auto
qed

lemma lease_payload_Inr:
  assumes "lease_payload env = Inr p"
  shows "jget (ev_raw env) ''payload'' = JObj p"
proof -
  obtain q where q: "py_or (jget (ev_raw env) ''payload'') (JObj []) = JObj q" "validate_payload q = Inr p"
    using assms by (auto simp: lease_payload_def bad_request_def split: json.splits)
  have "p = q" "q \<noteq> []" using validate_payload_Inr [OF q(2)] by simp_all
  then show ?thesis using q(1) by (auto simp: py_or_def split: if_split_asm)
qed

lemma vote_request_self: "vote_request cfg now x c t ms e = (reply, e') \<Longrightarrow> e' \<noteq> e \<Longrightarrow> c = x"
  by (auto simp: vote_request_def split: if_split_asm)

lemma renew_request_self: "renew_request cfg now x c t ms e = (reply, e') \<Longrightarrow> e' \<noteq> e \<Longrightarrow> c = x"
  by (auto simp: renew_request_def split: if_split_asm)

text \<open>What a request that changed the voter must have been.\<close>

definition sender_claims :: "ha_config \<Rightarrow> string \<Rightarrow> jobj \<Rightarrow> bool" where
  "sender_claims cfg n p \<longleftrightarrow>
     is_voter cfg \<and> n \<in> hc_id ` set (hf_candidates cfg) \<and> jtext p ''cluster_id'' = hf_cluster cfg \<and>
     (jtext_strip p ''op'' = ''vote_request'' \<and> jtext p ''candidate'' = n \<or> jtext_strip p ''op'' = ''renew'' \<and> jtext p ''holder'' = n)"

lemma with_ints_changes:
  assumes "with_ints p d f e = (reply, e')" "e' \<noteq> e"
  shows "\<exists>t ms. f t ms e = (reply, e')"
  using assms by (auto simp: with_ints_def split: option.split_asm)

lemma handle_base_changes:
  assumes "handle_base cfg now source p e = (reply, e')" "e' \<noteq> e"
  shows "sender_claims cfg (jtext_strip source ''node_id'') p"
  using assms
  by (auto simp: handle_base_def Let_def sender_claims_def split: if_split_asm
      dest!: with_ints_changes dest: vote_request_self renew_request_self)

lemma handle_tep_changes:
  assumes "handle_tep cfg now (JObj source) (JObj p) e = (reply, e')" "e' \<noteq> e"
  shows "sender_claims cfg (jtext_strip source ''node_id'') p"
  using assms by (auto simp: handle_tep_def Let_def split: if_split_asm intro: handle_base_changes)

lemma ha_post_forwarded:
  assumes "0 < content_length clen" "content_length clen \<le> 16384"
  shows "ha_post cfg now ''/v1/tep'' ''application/json'' clen (Some (JObj (forwarded env p))) e =
    (case handle_tep cfg now (identity_json (ev_source env)) (JObj p) e of
       (Inr r, e') \<Rightarrow> ((200, Inr r), e')
     | (Inl code, e') \<Rightarrow> ((if code = ''internal_error'' then 500 else 400, Inl code), e'))"
proof -
  have "media_type ''application/json'' = ''application/json''" by code_simp
  then show ?thesis using assms by (simp add: ha_post_def forwarded_def identity_json_def)
qed

text \<open>C30: Nobody votes in another's name: when a request that the gateway forwards to the agent's HTTP handler changes
  the state of the voter, it is a vote request or a renewal, of the voter's own cluster, whose candidate or holder is
  the authenticated sender of the envelope, and that sender is a configured candidate. The payload the handler ran is
  exactly that of the envelope.
\<close>
theorem gateway_binds_the_sender:
  assumes "lease_payload env = Inr p" "0 < content_length clen" "content_length clen \<le> 16384"
    and "ha_post cfg now ''/v1/tep'' ''application/json'' clen (Some (JObj (forwarded env p))) e = (reply, e')" "e' \<noteq> e"
  shows "jget (ev_raw env) ''payload'' = JObj p \<and> sender_claims cfg (py_strip (id_node (ev_source env))) p"
proof
  show "jget (ev_raw env) ''payload'' = JObj p" using assms(1) by (rule lease_payload_Inr)
  obtain r where r: "handle_tep cfg now (identity_json (ev_source env)) (JObj p) e = (r, e')"
    using assms(4) unfolding ha_post_forwarded [OF assms(2,3)] by (auto split: prod.split_asm sum.split_asm)
  have "jtext_strip [(''node_id'', JStr (id_node (ev_source env))), (''peer_id'', JStr (id_peer (ev_source env)))] ''node_id'' =
      py_strip (id_node (ev_source env))"
    by (simp add: jtext_strip_JStr)
  then show "sender_claims cfg (py_strip (id_node (ev_source env))) p"
    using handle_tep_changes [OF r [unfolded identity_json_def] assms(5)] by simp
qed

definition lease_request :: "identity \<Rightarrow> string \<Rightarrow> int \<Rightarrow> jobj" where
  "lease_request i op' tm =
     [(''op'', JStr op'), (''cluster_id'', JStr ''hb''), (''candidate'', JStr (id_node i)), (''priority'', JInt 1), (''term'', JInt tm),
      (''lease_ms'', JInt 12000)]"

definition lease_envelope :: "identity \<Rightarrow> string \<Rightarrow> int \<Rightarrow> envelope" where
  "lease_envelope i op' tm =
     \<lparr>ev_raw = [(''payload'', JObj (lease_request i op' tm))], ev_version = 1, ev_type = ''req'', ev_request = [], ev_source = i,
      ev_dest = bob, ev_service = Some ''ha.lease'', ev_time = 0, ev_nonce = [], ev_ttl = Some 3000\<rparr>"

definition lease_post :: "py_float \<Rightarrow> envelope \<Rightarrow> engine \<Rightarrow> (nat \<times> (string + jobj)) \<times> engine" where
  "lease_post now env e =
     ha_post (trio ''c'') now ''/v1/tep'' ''application/json'' ''200'' (Some (JObj (forwarded env (projr (lease_payload env))))) e"

lemma content_200: "0 < content_length ''200''" "content_length ''200'' \<le> 16384"
  by code_simp+

lemma lease_payload_ok:
  "lease_payload (lease_envelope alice ''vote_request'' 1) = Inr (lease_request alice ''vote_request'' 1)"
  "lease_payload (lease_envelope bob '' vote_request '' 2) = Inr (lease_request bob '' vote_request '' 2)"
  by code_simp+

theorem gateway_binds_the_sender_witness:
  "en_voted (snd (lease_post 5 (lease_envelope alice ''vote_request'' 1) (start_engine (trio ''c'') 0 0 [] None))) = ''a'' \<and>
   sender_claims (trio ''c'') (py_strip ''a'') (lease_request alice ''vote_request'' 1)"
proof
  let ?e = "start_engine (trio ''c'') 0 0 [] None" and ?env = "lease_envelope alice ''vote_request'' 1"
  show v: "en_voted (snd (lease_post 5 ?env ?e)) = ''a''" by code_simp
  obtain reply e' where r: "lease_post 5 ?env ?e = (reply, e')" by fastforce
  have "en_voted ?e = []" by (simp add: start_engine_def)
  then have "e' \<noteq> ?e" using v r by auto
  then show "sender_claims (trio ''c'') (py_strip ''a'') (lease_request alice ''vote_request'' 1)"
    using gateway_binds_the_sender [OF lease_payload_ok(1) content_200 r [unfolded lease_post_def lease_payload_ok sum.sel]]
    by (simp add: lease_envelope_def alice_def)
qed

text \<open>
  The override of v2.2.0 compares \<open>op\<close> as sent, the base class and the gateway strip it: a vote request whose \<open>op\<close> has a
  blank around it passes the gateway and is not held back by the restart guard. Here voter \<open>c\<close>, restarted at 5 with
  its vote given to \<open>a\<close>, refuses \<open>b\<close> at 6 but grants the same request with blanks.
\<close>

lemma padded_op_passes_the_restart_guard:
  "fst (fst (lease_post 6 (lease_envelope bob ''vote_request'' 2) (start_engine (trio ''c'') 5 1 ''a'' None))) = 200"
  "snd (lease_post 6 (lease_envelope bob ''vote_request'' 2) (start_engine (trio ''c'') 5 1 ''a'' None)) = start_engine (trio ''c'') 5 1 ''a'' None"
  "lease_payload (lease_envelope bob '' vote_request '' 2) = Inr (lease_request bob '' vote_request '' 2)"
  "fst (lease_post 6 (lease_envelope bob '' vote_request '' 2) (start_engine (trio ''c'') 5 1 ''a'' None)) = (200, Inr (granted 2 ''b'' 12000))"
  by code_simp+

end
