(* ===== verification/Tep_Wire.thy ===== *)
theory Tep_Wire
  imports Tep_Messages
begin

text \<open>
  Framing: the packet types of \<open>tep/hb_tep_wire.py\<close>, the packet header of \<open>tep/hb_tep.py\<close>
  (\<open>_build_packet\<close>, \<open>_parse_packet\<close>) and URL-safe base64 as \<open>tep/hb_tep_relay.py\<close> uses it. The cipher
  is an argument (the \<open>cryptography\<close> package); a byte that does not decode as ASCII becomes character 255,
  which no ASCII identifier contains (Python uses U+FFFD).
\<close>

section \<open>Packet types\<close>

record packet_types =
  pt_request :: int
  pt_response :: int
  pt_error :: int
  pt_relay_request :: int
  pt_relay_response :: int

definition type_values :: "packet_types \<Rightarrow> int list" where
  "type_values pt = [pt_request pt, pt_response pt, pt_error pt, pt_relay_request pt, pt_relay_response pt]"

definition as_dict :: "packet_types \<Rightarrow> (string \<times> int) list" where
  "as_dict pt =
     zip [''PKT_APP_REQUEST'', ''PKT_APP_RESPONSE'', ''PKT_APP_ERROR'', ''PKT_RELAY_REQUEST'', ''PKT_RELAY_RESPONSE''] (type_values pt)"

definition type_for_message :: "packet_types \<Rightarrow> string \<Rightarrow> tep_exn + int" where
  "type_for_message pt t =
     (case map_of (zip supported_types (type_values pt)) t of
        None \<Rightarrow> Inl (Wire_error ''unsupported_type'' (''unsupported message type '' @ t))
      | Some v \<Rightarrow> Inr v)"

text \<open>A dictionary display: of equal keys the last one counts.\<close>

definition message_for_type :: "packet_types \<Rightarrow> int \<Rightarrow> tep_exn + string" where
  "message_for_type pt v =
     (case map_of (rev (zip (type_values pt) supported_types)) v of
        None \<Rightarrow> Inl (Wire_error ''unknown_packet_type'' (''unknown APP packet type '' @ show_int v))
      | Some t \<Rightarrow> Inr t)"

fun allocate_loop :: "int list \<Rightarrow> int list \<Rightarrow> int list \<Rightarrow> tep_exn + int list" where
  "allocate_loop used available [] = Inr available"
| "allocate_loop used available (v # vs) =
     (if v < 0 \<or> 255 < v then Inl (Wire_error ''invalid_packet_type'' ''packet type must fit one byte'')
      else if v \<in> set used \<or> v \<in> set available then allocate_loop used available vs
      else let available' = available @ [v]
           in if length available' = 5 then Inr available' else allocate_loop used available' vs)"

definition allocate_packet_types :: "int list \<Rightarrow> int list \<Rightarrow> tep_exn + packet_types" where
  "allocate_packet_types occupied candidates =
     bind_r (allocate_loop occupied [] candidates) (\<lambda>available.
       case available of
         [a, b, c, d, e] \<Rightarrow> Inr \<lparr>pt_request = a, pt_response = b, pt_error = c, pt_relay_request = d, pt_relay_response = e\<rparr>
       | _ \<Rightarrow> Inl (Wire_error ''packet_type_exhausted'' ''five collision-free APP packet types are required''))"

definition validate_frozen_packet_types :: "packet_types \<Rightarrow> int list \<Rightarrow> tep_exn + unit" where
  "validate_frozen_packet_types pt occupied =
     (if \<not> distinct (type_values pt)
      then Inl (Wire_error ''packet_type_collision'' ''APP packet types collide with each other'')
      else if \<exists>v \<in> set (type_values pt). v \<in> set occupied
      then Inl (Wire_error ''packet_type_collision'' ''APP packet types collide with daemon values'')
      else Inr ())"

definition merge_status_capabilities :: "jobj \<Rightarrow> bool \<Rightarrow> packet_types option \<Rightarrow> jobj" where
  "merge_status_capabilities status relay pt =
     (let out = put_key ''relay'' (JBool relay)
                  (put_key ''services'' (JList [JStr ''storage.summary''])
                    (put_key ''app_protocols'' (JList [JStr ''HB-TEP-APP/1'']) status))
      in case pt of None \<Rightarrow> out
         | Some p \<Rightarrow> put_key ''app_packet_types'' (JObj (map (\<lambda>(k, v). (k, JInt v)) (as_dict p))) out)"

text \<open>The codec is an argument: \<open>send_message\<close> and \<open>recv_message\<close> of the staging endpoint.\<close>

definition send_message :: "string list \<Rightarrow> packet_types \<Rightarrow> (int \<Rightarrow> string \<Rightarrow> string) \<Rightarrow> jobj \<Rightarrow> tep_exn + string" where
  "send_message supported pt encode m =
     bind_r (encode_message supported m) (\<lambda>raw.
     bind_r (type_for_message pt (py_str (jget m ''type''))) (\<lambda>v. Inr (encode v raw)))"

definition recv_message ::
  "string list \<Rightarrow> packet_types \<Rightarrow> (string \<Rightarrow> tep_exn + int \<times> string) \<Rightarrow> int option \<Rightarrow> string \<Rightarrow> tep_exn + jobj" where
  "recv_message supported pt decode now datagram =
     bind_r (decode datagram) (\<lambda>(v, plaintext).
     bind_r (message_for_type pt v) (\<lambda>expected.
     bind_r (decode_message supported now plaintext) (\<lambda>env.
       if ev_type env \<noteq> expected
       then Inl (Wire_error ''packet_envelope_mismatch'' ''packet type does not match APP envelope type'')
       else Inr (ev_raw env))))"

section \<open>The packet header\<close>

fun be_bytes :: "nat \<Rightarrow> nat \<Rightarrow> string" where
  "be_bytes 0 k = []"
| "be_bytes (Suc n) k = be_bytes n (k div 256) @ [char_of (k mod 256)]"

definition be_val :: "string \<Rightarrow> nat" where
  "be_val s = foldl (\<lambda>a c. 256 * a + of_char c) 0 s"

text \<open>\<open>struct.pack\<close> of an unsigned big-endian field; a value that does not fit is a \<open>struct.error\<close>.\<close>

definition pack_be :: "nat \<Rightarrow> nat \<Rightarrow> tep_exn + string" where
  "pack_be n k = (if k < 256 ^ n then Inr (be_bytes n k) else Inl Other_error)"

definition ascii_replace :: "string \<Rightarrow> string" where
  "ascii_replace s = map (\<lambda>c. if (of_char c :: nat) < 128 then c else CHR ''?'') s"

definition ascii_decode :: "string \<Rightarrow> string" where
  "ascii_decode s = map (\<lambda>c. if (of_char c :: nat) < 128 then c else CHR 0xFF) s"

definition wire_node :: "string \<Rightarrow> string" where
  "wire_node node = take 16 (ascii_replace node)"

definition ljust :: "nat \<Rightarrow> string \<Rightarrow> string" where
  "ljust n s = s @ replicate (n - length s) (CHR 0x00)"

definition rstrip_nul :: "string \<Rightarrow> string" where
  "rstrip_nul s = rev (dropWhile (\<lambda>c. c = CHR 0x00) (rev s))"

definition tep_magic :: string where "tep_magic = [CHR ''H'', CHR ''B'', CHR ''T'', CHR 0x02]"

text \<open>The nonce: the time in seconds, then the packet counter.\<close>

definition packet_nonce :: "nat \<Rightarrow> nat \<Rightarrow> tep_exn + string" where
  "packet_nonce time counter =
     bind_r (pack_be 8 time) (\<lambda>t. bind_r (pack_be 4 (counter mod 2 ^ 32)) (\<lambda>c. Inr (t @ c)))"

type_synonym cipher = "string \<Rightarrow> string \<Rightarrow> string \<Rightarrow> string"

definition build_packet :: "cipher \<Rightarrow> string \<Rightarrow> nat \<Rightarrow> string \<Rightarrow> string \<Rightarrow> nat \<Rightarrow> nat \<Rightarrow> tep_exn + string" where
  "build_packet encrypt node ptype payload key time counter =
     bind_r (packet_nonce time counter) (\<lambda>nonce.
     if 255 < ptype then Inl Value_error
     else let encrypted = encrypt payload key nonce
          in bind_r (pack_be 2 (length encrypted)) (\<lambda>len.
            Inr (tep_magic @ [char_of (2 :: nat), char_of ptype] @ ljust 16 (wire_node node) @ nonce @ len @ encrypted)))"

record packet =
  pk_version :: nat
  pk_type :: nat
  pk_node :: string
  pk_nonce :: string
  pk_payload :: string

definition slice :: "nat \<Rightarrow> nat \<Rightarrow> string \<Rightarrow> string" where
  "slice a b s = take (b - a) (drop a s)"

definition parse_packet :: "string \<Rightarrow> packet option" where
  "parse_packet data =
     (if length data < 36 \<or> take 4 data \<noteq> tep_magic then None
      else let plen = be_val (slice 34 36 data)
           in Some \<lparr>pk_version = of_char (data ! 4), pk_type = of_char (data ! 5),
                    pk_node = ascii_decode (rstrip_nul (slice 6 22 data)), pk_nonce = slice 22 34 data,
                    pk_payload = slice 36 (36 + plen) data\<rparr>)"

section \<open>Base64\<close>

definition b64_char :: "nat \<Rightarrow> char" where
  "b64_char n =
     (if n < 26 then char_of (65 + n) else if n < 52 then char_of (71 + n) else if n < 62 then char_of (n - 4)
      else if n = 62 then CHR ''-'' else CHR ''_'')"

definition b64_val :: "char \<Rightarrow> nat option" where
  "b64_val c =
     (let n = (of_char c :: nat)
      in if 65 \<le> n \<and> n \<le> 90 then Some (n - 65)
         else if 97 \<le> n \<and> n \<le> 122 then Some (n - 71)
         else if 48 \<le> n \<and> n \<le> 57 then Some (n + 4)
         else if c = CHR ''-'' \<or> c = CHR ''+'' then Some 62
         else if c = CHR ''_'' \<or> c = CHR ''/'' then Some 63
         else None)"

fun b64_encode :: "string \<Rightarrow> string" where
  "b64_encode [] = []"
| "b64_encode [a] =
     (let x = (of_char a :: nat) in [b64_char (x div 4), b64_char (x mod 4 * 16), CHR ''='', CHR ''=''])"
| "b64_encode [a, b] =
     (let x = (of_char a :: nat); y = of_char b
      in [b64_char (x div 4), b64_char (x mod 4 * 16 + y div 16), b64_char (y mod 16 * 4), CHR ''=''])"
| "b64_encode (a # b # c # cs) =
     (let x = (of_char a :: nat); y = of_char b; z = of_char c
      in [b64_char (x div 4), b64_char (x mod 4 * 16 + y div 16), b64_char (y mod 16 * 4 + z div 64), b64_char (z mod 64)] @
         b64_encode cs)"

text \<open>Strict decoding (\<open>validate=True\<close>): whole groups of four, padding only at the end.\<close>

fun b64_strict :: "string \<Rightarrow> string option" where
  "b64_strict [] = Some []"
| "b64_strict (w # x # y # z # rest) =
     (case (b64_val w, b64_val x) of
        (Some p, Some q) \<Rightarrow>
          (let c1 = char_of (p * 4 + q div 16)
           in if rest = [] \<and> y = CHR ''='' \<and> z = CHR ''='' then Some [c1]
              else (case b64_val y of
                      None \<Rightarrow> None
                    | Some r \<Rightarrow>
                        (let c2 = char_of (q mod 16 * 16 + r div 4)
                         in if rest = [] \<and> z = CHR ''='' then Some [c1, c2]
                            else (case b64_val z of
                                    None \<Rightarrow> None
                                  | Some s \<Rightarrow> map_option (\<lambda>t. c1 # c2 # char_of (r mod 4 * 64 + s) # t) (b64_strict rest)))))
      | _ \<Rightarrow> None)"
| "b64_strict s = None"

definition max_inner_bytes :: nat where "max_inner_bytes = 32768"

definition b64_decode :: "string \<Rightarrow> tep_exn + string" where
  "b64_decode text =
     (if \<exists>c \<in> set text. 128 \<le> (of_char c :: nat) then Inl (Relay_error ''bad_request'' ''relay inner is not valid base64'')
      else (case b64_strict text of
              None \<Rightarrow> Inl (Relay_error ''bad_request'' ''relay inner is not valid base64'')
            | Some raw \<Rightarrow>
                if max_inner_bytes < length raw then Inl (Relay_error ''bad_request'' ''relay inner exceeds size limit'')
                else Inr raw))"

section \<open>Packet types round trip\<close>

definition types_ok :: "int list \<Rightarrow> int list \<Rightarrow> bool" where
  "types_ok used vs \<longleftrightarrow> distinct vs \<and> (\<forall>v \<in> set vs. 0 \<le> v \<and> v \<le> 255 \<and> v \<notin> set used)"

lemma allocate_loop_ok:
  "allocate_loop used av vs = Inr av' \<Longrightarrow> types_ok used av \<Longrightarrow> types_ok used av'"
proof (induction used av vs rule: allocate_loop.induct)
  case (2 used av v vs)
  have "types_ok used (av @ [v])" if "0 \<le> v" "v \<le> 255" "v \<notin> set used" "v \<notin> set av"
    using that 2(4) by (auto simp: types_ok_def)
  with 2 show ?case by (auto simp: Let_def split: if_split_asm)
qed simp

lemma type_message_inverse:
  assumes "distinct (type_values pt)" "t \<in> set supported_types"
  shows "\<exists>v \<in> set (type_values pt). type_for_message pt t = Inr v \<and> message_for_type pt v = Inr t"
  using assms by (auto simp: type_values_def supported_types_def type_for_message_def message_for_type_def)

text \<open> Packet types cannot be confused: an allocation that succeeds gives five different one-byte types, none of
  them occupied by the daemon (so the frozen-type check passes), and every message type is recovered from its packet
  type.
\<close>
theorem packet_types_round_trip:
  assumes "allocate_packet_types occupied candidates = Inr pt"
  shows "types_ok occupied (type_values pt) \<and> validate_frozen_packet_types pt occupied = Inr () \<and>
    (\<forall>t \<in> set supported_types. \<exists>v \<in> set (type_values pt). type_for_message pt t = Inr v \<and> message_for_type pt v = Inr t)"
proof -
  obtain av where av: "allocate_loop occupied [] candidates = Inr av"
    using assms by (auto simp: allocate_packet_types_def bind_r_Inr)
  then have "type_values pt = av"
    using assms by (auto simp: allocate_packet_types_def type_values_def split: list.split_asm)
  have ok: "types_ok occupied (type_values pt)"
    using allocate_loop_ok [OF av] \<open>type_values pt = av\<close> by (simp add: types_ok_def)
  then have "validate_frozen_packet_types pt occupied = Inr ()"
    by (auto simp: validate_frozen_packet_types_def types_ok_def)
  moreover have "distinct (type_values pt)" using ok by (simp add: types_ok_def)
  ultimately show ?thesis using ok type_message_inverse by blast
qed

theorem packet_types_round_trip_witness:
  "\<exists>pt. allocate_packet_types [1, 33] [32..63] = Inr pt \<and> type_values pt = [32, 34, 35, 36, 37] \<and>
     (\<exists>v. type_for_message pt ''relay_req'' = Inr v \<and> message_for_type pt v = Inr ''relay_req'')"
proof -
  let ?pt = "\<lparr>pt_request = 32, pt_response = 34, pt_error = 35, pt_relay_request = 36, pt_relay_response = 37\<rparr>"
  have a: "allocate_packet_types [1, 33] [32..63] = Inr ?pt"
    by (simp add: allocate_packet_types_def upto.simps)
  from packet_types_round_trip [OF a] have "\<exists>v. type_for_message ?pt ''relay_req'' = Inr v \<and> message_for_type ?pt v = Inr ''relay_req''"
    by (auto simp: supported_types_def)
  with a show ?thesis by (auto simp: type_values_def)
qed

section \<open>Packets round trip\<close>

lemma length_be_bytes [simp]: "length (be_bytes n k) = n"
  by (induction n arbitrary: k) auto

lemma be_val_snoc: "be_val (s @ [c]) = 256 * be_val s + of_char c"
  by (simp add: be_val_def)

lemma be_val_bytes: "k < 256 ^ n \<Longrightarrow> be_val (be_bytes n k) = k"
proof (induction n arbitrary: k)
  case (Suc n)
  then have "be_val (be_bytes n (k div 256)) = k div 256" by (intro Suc.IH) (simp add: less_mult_imp_div_less mult.commute)
  then show ?case by (simp add: be_val_snoc)
qed (simp add: be_val_def)

lemma length_wire_node: "length (wire_node node) \<le> 16"
  by (simp add: wire_node_def)

lemma wire_node_ascii: "\<forall>c \<in> set (wire_node node). (of_char c :: nat) < 128"
  by (auto simp: wire_node_def ascii_replace_def dest!: in_set_takeD)

lemma wire_node_nul: "\<forall>c \<in> set node. c \<noteq> CHR 0x00 \<Longrightarrow> \<forall>c \<in> set (wire_node node). c \<noteq> CHR 0x00"
proof
  fix c assume n: "\<forall>c \<in> set node. c \<noteq> CHR 0x00" and c: "c \<in> set (wire_node node)"
  then obtain d where "d \<in> set node" "c = d \<or> c = CHR ''?''"
    unfolding wire_node_def ascii_replace_def by (auto dest!: in_set_takeD)
  then show "c \<noteq> CHR 0x00" using n by auto
qed

lemma rstrip_ljust: "\<forall>c \<in> set s. c \<noteq> CHR 0x00 \<Longrightarrow> rstrip_nul (ljust n s) = s"
proof -
  assume s: "\<forall>c \<in> set s. c \<noteq> CHR 0x00"
  have r: "dropWhile (\<lambda>c. c = CHR 0x00) (replicate m (CHR 0x00) @ rev s) = dropWhile (\<lambda>c. c = CHR 0x00) (rev s)" for m
    by (induction m) simp_all
  have "dropWhile (\<lambda>c. c = CHR 0x00) (rev s) = rev s"
    by (rule dropWhile_fix) (use s hd_in_set [of "rev s"] in auto)
  with r show ?thesis by (simp add: rstrip_nul_def ljust_def)
qed

lemma ascii_decode_id: "\<forall>c \<in> set s. (of_char c :: nat) < 128 \<Longrightarrow> ascii_decode s = s"
  by (induction s) (auto simp: ascii_decode_def)

lemma packet_nonce_Inr:
  "packet_nonce time counter = Inr nonce \<longleftrightarrow> time < 256 ^ 8 \<and> nonce = be_bytes 8 time @ be_bytes 4 (counter mod 2 ^ 32)"
proof -
  have "counter mod 2 ^ 32 < 256 ^ 4" by simp
  then show ?thesis by (auto simp: packet_nonce_def pack_be_def)
qed

lemma parse_framed:
  assumes "length node = 16" "length nonce = 12" "length len = 2" "be_val len = length enc"
  shows "parse_packet (tep_magic @ [v, t] @ node @ nonce @ len @ enc @ extra) =
    Some \<lparr>pk_version = of_char v, pk_type = of_char t, pk_node = ascii_decode (rstrip_nul node), pk_nonce = nonce, pk_payload = enc\<rparr>"
proof -
  let ?data = "tep_magic @ [v, t] @ node @ nonce @ len @ enc @ extra"
  have "slice 6 22 ?data = node" "slice 22 34 ?data = nonce" "slice 34 36 ?data = len"
    "slice 36 (36 + length enc) ?data = enc" "take 4 ?data = tep_magic" "?data ! 4 = v" "?data ! 5 = t" "\<not> length ?data < 36"
    using assms by (simp_all add: slice_def tep_magic_def)
  then show ?thesis using assms(4) by (simp only: parse_packet_def Let_def simp_thms if_False de_Morgan_disj not_False_eq_True)
qed

lemma parse_built_packet:
  assumes "build_packet encrypt node ptype payload key time counter = Inr data" "\<forall>c \<in> set node. c \<noteq> CHR 0x00"
  shows "\<exists>nonce. packet_nonce time counter = Inr nonce \<and> parse_packet (data @ extra) =
    Some \<lparr>pk_version = 2, pk_type = ptype, pk_node = wire_node node, pk_nonce = nonce, pk_payload = encrypt payload key nonce\<rparr>"
proof -
  obtain nonce where n: "packet_nonce time counter = Inr nonce"
    using assms(1) unfolding build_packet_def bind_r_Inr by blast
  let ?enc = "encrypt payload key nonce"
  have t: "\<not> 255 < ptype"
  proof
    assume "255 < ptype"
    then show False using assms(1) unfolding build_packet_def n by simp
  qed
  obtain len where len: "pack_be 2 (length ?enc) = Inr len"
    "data = tep_magic @ [char_of (2 :: nat), char_of ptype] @ ljust 16 (wire_node node) @ nonce @ len @ ?enc"
    using assms(1) unfolding build_packet_def n bind_r_simps if_not_P [OF t] Let_def bind_r_Inr by blast
  have b: "length ?enc < 256 ^ 2" "len = be_bytes 2 (length ?enc)"
    using len(1) unfolding pack_be_def by (auto split: if_split_asm)
  have "length (ljust 16 (wire_node node)) = 16" using length_wire_node [of node] by (simp add: ljust_def)
  moreover have "length nonce = 12" using n unfolding packet_nonce_Inr by simp
  moreover have "be_val (be_bytes 2 (length ?enc)) = length ?enc" using b(1) by (rule be_val_bytes)
  ultimately have p: "parse_packet (data @ extra) =
      Some \<lparr>pk_version = 2, pk_type = ptype, pk_node = ascii_decode (rstrip_nul (ljust 16 (wire_node node))),
            pk_nonce = nonce, pk_payload = ?enc\<rparr>"
    using parse_framed [of "ljust 16 (wire_node node)" nonce "be_bytes 2 (length ?enc)" ?enc "char_of (2 :: nat)" "char_of ptype" extra] t
    by (simp add: len(2) b(2))
  have "\<forall>c \<in> set (wire_node node). c \<noteq> CHR 0x00" by (rule wire_node_nul [OF assms(2)])
  then have "ascii_decode (rstrip_nul (ljust 16 (wire_node node))) = wire_node node"
    by (simp add: rstrip_ljust ascii_decode_id wire_node_ascii)
  then show ?thesis unfolding p using n by simp
qed

text \<open> What is sealed is what is opened: a packet that \<open>_build_packet\<close> makes is parsed, whatever bytes follow it
  in the datagram, into the same version, type, nonce and node id (up to the 16 ASCII bytes the header has room
  for), and decrypting its payload under the same key gives back the plaintext.
\<close>
theorem packet_round_trip:
  assumes "build_packet encrypt node ptype payload key time counter = Inr data"
    and "\<And>p k n. decrypt (encrypt p k n) k n = Some p" "\<forall>c \<in> set node. c \<noteq> CHR 0x00"
  shows "\<exists>p. parse_packet (data @ extra) = Some p \<and> pk_version p = 2 \<and> pk_type p = ptype \<and> pk_node p = wire_node node \<and>
    packet_nonce time counter = Inr (pk_nonce p) \<and> decrypt (pk_payload p) key (pk_nonce p) = Some payload"
  using parse_built_packet [OF assms(1,3), of extra] assms(2) by auto

text \<open>A cipher that keeps the text (the program's AES-GCM is an argument of the model).\<close>

theorem packet_round_trip_witness:
  "\<exists>data p. build_packet (\<lambda>p k n. k @ p) ''hb-node-with-a-long-name'' 32 ''hello'' ''key'' 1000 7 = Inr data \<and>
     parse_packet (data @ ''x'') = Some p \<and> pk_node p = ''hb-node-with-a-l'' \<and> pk_type p = 32"
proof -
  obtain data where d: "build_packet (\<lambda>p k n. k @ p) ''hb-node-with-a-long-name'' 32 ''hello'' ''key'' 1000 7 = Inr data"
    by (simp add: build_packet_def pack_be_def packet_nonce_def)
  have w: "wire_node ''hb-node-with-a-long-name'' = ''hb-node-with-a-l''" by (simp add: wire_node_def ascii_replace_def)
  have "\<forall>c \<in> set ''hb-node-with-a-long-name''. c \<noteq> CHR 0x00" by simp
  from packet_round_trip [where decrypt = "\<lambda>c k n. Some (drop (length k) c)", OF d _ this, of "''x''"] d w
  show ?thesis by auto
qed

text \<open>
  The nonce depends on the second and the packet counter of the sender only, while both directions of a
  session use one key: two peers whose counters are equal in the same second use the same nonce under the same key.
\<close>

lemma directions_share_nonces:
  assumes "shared priv_a pub_b = shared priv_b pub_a"
    and "build_packet encrypt ''a'' 1 m1 (shared priv_a pub_b) time n = Inr d1"
    and "build_packet encrypt ''b'' 1 m2 (shared priv_b pub_a) time n = Inr d2"
  shows "\<exists>p1 p2. parse_packet d1 = Some p1 \<and> parse_packet d2 = Some p2 \<and> pk_nonce p1 = pk_nonce p2"
  using parse_built_packet [OF assms(2), of "[]"] parse_built_packet [OF assms(3), of "[]"] by auto

section \<open>Base64 round trip\<close>

lemma b64_val_char: "n < 64 \<Longrightarrow> b64_val (b64_char n) = Some n"
proof -
  assume n: "n < 64"
  then consider "n < 26" | "26 \<le> n" "n < 52" | "52 \<le> n" "n < 62" | "n = 62" | "n = 63" by linarith
  then show ?thesis
    by cases (auto simp: b64_val_def b64_char_def Let_def)
qed

lemma b64_char_not_pad: "n < 64 \<Longrightarrow> b64_char n \<noteq> CHR ''=''"
  using b64_val_char [of n] by (auto simp: b64_val_def)

lemma byte_less: "(of_char c :: nat) < 256"
  by simp

lemma digit_split: "(b :: nat) < m \<Longrightarrow> (a * m + b) div m = a" "(b :: nat) < m \<Longrightarrow> (a * m + b) mod m = b"
  by auto

lemma digit_bound: "(a :: nat) < k \<Longrightarrow> b < m \<Longrightarrow> a * m + b < k * m"
  using mult_le_mono1 [of "Suc a" k m] by simp

lemma b64_digits:
  fixes x y z :: nat
  assumes "x < 256" "y < 256" "z < 256"
  shows "x div 4 < 64" "x mod 4 * 16 + y div 16 < 64" "x mod 4 * 16 < 64" "y mod 16 * 4 + z div 64 < 64" "y mod 16 * 4 < 64" "z mod 64 < 64"
    "x div 4 * 4 + (x mod 4 * 16 + y div 16) div 16 = x" "x div 4 * 4 + x mod 4 * 16 div 16 = x"
    "(x mod 4 * 16 + y div 16) mod 16 * 16 + (y mod 16 * 4 + z div 64) div 4 = y"
    "(x mod 4 * 16 + y div 16) mod 16 * 16 + y mod 16 * 4 div 4 = y"
    "(y mod 16 * 4 + z div 64) mod 4 * 64 + z mod 64 = z"
proof -
  have q: "x div 4 < 64" "y div 16 < 16" "z div 64 < 4" using assms by (simp_all add: less_mult_imp_div_less)
  note b1 = digit_bound [of "x mod 4" 4 "y div 16" 16] and b2 = digit_bound [of "y mod 16" 16 "z div 64" 4]
  show "x div 4 < 64" "x mod 4 * 16 + y div 16 < 64" "x mod 4 * 16 < 64" "y mod 16 * 4 + z div 64 < 64" "y mod 16 * 4 < 64" "z mod 64 < 64"
    using q b1 b2 by simp_all
  show "x div 4 * 4 + (x mod 4 * 16 + y div 16) div 16 = x" "x div 4 * 4 + x mod 4 * 16 div 16 = x"
    using digit_split(1) [OF q(2), of "x mod 4"] by simp_all
  show "(x mod 4 * 16 + y div 16) mod 16 * 16 + (y mod 16 * 4 + z div 64) div 4 = y"
    using digit_split(2) [OF q(2), of "x mod 4"] digit_split(1) [OF q(3), of "y mod 16"] by simp
  show "(x mod 4 * 16 + y div 16) mod 16 * 16 + y mod 16 * 4 div 4 = y"
    using digit_split(2) [OF q(2), of "x mod 4"] by simp
  show "(y mod 16 * 4 + z div 64) mod 4 * 64 + z mod 64 = z"
    using digit_split(2) [OF q(3), of "y mod 16"] by simp
qed

lemma b64_round_trip: "b64_strict (b64_encode s) = Some s"
proof (induction s rule: b64_encode.induct)
  case (2 a)
  show ?case using b64_digits [of "of_char a" 0 0]
    by (simp add: Let_def b64_val_char)
next
  case (3 a b)
  show ?case using b64_digits [of "of_char a" "of_char b" 0]
    by (simp add: Let_def b64_val_char b64_char_not_pad)
next
  case (4 a b c cs)
  then show ?case using b64_digits [of "of_char a" "of_char b" "of_char c"]
    by (simp add: Let_def b64_val_char b64_char_not_pad)
qed simp

lemma b64_char_ascii: "n < 64 \<Longrightarrow> (of_char (b64_char n) :: nat) < 128"
  by (auto simp: b64_char_def)

lemma b64_encode_ascii: "\<forall>c \<in> set (b64_encode s). (of_char c :: nat) < 128"
proof (induction s rule: b64_encode.induct)
  case (2 a)
  show ?case using b64_digits [of "of_char a" 0 0] by (simp add: Let_def b64_char_ascii)
next
  case (3 a b)
  show ?case using b64_digits [of "of_char a" "of_char b" 0] by (simp add: Let_def b64_char_ascii)
next
  case (4 a b c cs)
  then show ?case using b64_digits [of "of_char a" "of_char b" "of_char c"] by (simp add: Let_def b64_char_ascii)
qed simp

lemma b64_decode_encode: "length s \<le> max_inner_bytes \<Longrightarrow> b64_decode (b64_encode s) = Inr s"
  using b64_encode_ascii [of s] by (auto simp: b64_decode_def b64_round_trip)

end
