(* ===== verification/Tep_Peers.thy ===== *)
theory Tep_Peers
  imports Tep_Wire
begin

text \<open>
  The peer table of the TEP daemon: \<open>PeerManager\<close> of \<open>tep/hb_tep.py\<close> with the registry reconciliation and the
  identity enrichment of \<open>tep/hb_tep_runtime.py\<close>. The table is the list of its peers in insertion order, keyed by
  \<open>pr_id\<close>; what the two registry requests returned and the clocks are arguments.
\<close>

section \<open>The table\<close>

record peer =
  pr_id :: string
  pr_ip :: string
  pr_port :: int
  pr_seen :: py_float
  pr_latency :: "py_float option"
  pr_online :: bool
  pr_pubkey :: "string option"
  pr_peer :: "string option"

record peer_manager =
  pm_peers :: "peer list"
  pm_source :: string

definition listen_port :: int where "listen_port = 47777"
definition online_ttl :: py_float where "online_ttl = 30"

text \<open>A missing or empty optional field is falsy.\<close>

definition filled :: "string option \<Rightarrow> bool" where
  "filled x \<longleftrightarrow> x \<noteq> None \<and> x \<noteq> Some []"

definition find_peer :: "string \<Rightarrow> peer list \<Rightarrow> peer option" where
  "find_peer node t = tbl_find pr_id node t"

definition update_peer :: "string \<Rightarrow> (peer \<Rightarrow> peer) \<Rightarrow> peer list \<Rightarrow> peer list" where
  "update_peer node f t = tbl_update (\<lambda>p. pr_id p = node) f t"

definition mark_seen :: "py_float \<Rightarrow> string \<Rightarrow> py_float \<Rightarrow> string \<Rightarrow> peer list \<Rightarrow> peer list" where
  "mark_seen now node latency pubkey t =
     update_peer node (\<lambda>p. p\<lparr>pr_seen := now, pr_latency := Some latency, pr_online := True,
                            pr_pubkey := (if pubkey = [] then pr_pubkey p else Some pubkey)\<rparr>) t"

definition mark_offline :: "string \<Rightarrow> peer list \<Rightarrow> peer list" where
  "mark_offline node t = update_peer node (\<lambda>p. p\<lparr>pr_online := False\<rparr>) t"

definition add_peer :: "string \<Rightarrow> string \<Rightarrow> int \<Rightarrow> string \<Rightarrow> peer list \<Rightarrow> peer list" where
  "add_peer node ip port pubkey t =
     (if find_peer node t \<noteq> None then t
      else t @ [\<lparr>pr_id = node, pr_ip = ip, pr_port = port, pr_seen = 0, pr_latency = None, pr_online = False,
                 pr_pubkey = Some pubkey, pr_peer = None\<rparr>])"

text \<open>The header carries 16 bytes of the ASCII node id: the match must be unique.\<close>

definition find_by_wire :: "string \<Rightarrow> peer list \<Rightarrow> peer option" where
  "find_by_wire wire t =
     (case filter (\<lambda>p. wire_node (pr_id p) = wire) t of [p] \<Rightarrow> Some p | _ \<Rightarrow> None)"

definition find_by_peer_id :: "string \<Rightarrow> peer list \<Rightarrow> peer option" where
  "find_by_peer_id pid t = find (\<lambda>p. pr_peer p = Some pid) t"

definition update_endpoint :: "string \<Rightarrow> string \<Rightarrow> int \<Rightarrow> peer list \<Rightarrow> bool \<times> peer list" where
  "update_endpoint node ip port t =
     (find_peer node t \<noteq> None, update_peer node (\<lambda>p. p\<lparr>pr_ip := ip, pr_port := port\<rparr>) t)"

definition peer_is_fresh :: "py_float \<Rightarrow> peer \<Rightarrow> bool" where
  "peer_is_fresh now p \<longleftrightarrow> pr_online p \<and> 0 < pr_seen p \<and> 0 \<le> now - pr_seen p \<and> now - pr_seen p \<le> online_ttl"

definition expire_stale :: "py_float \<Rightarrow> peer list \<Rightarrow> peer list" where
  "expire_stale now t = tbl_update (\<lambda>p. pr_online p \<and> \<not> peer_is_fresh now p) (\<lambda>p. p\<lparr>pr_online := False\<rparr>) t"

definition online_count :: "py_float \<Rightarrow> peer list \<Rightarrow> nat \<times> peer list" where
  "online_count now t = (let t1 = expire_stale now t in (length (filter pr_online t1), t1))"

section \<open>Registry records\<close>

definition authoritative_nodes :: "json \<Rightarrow> jobj list option" where
  "authoritative_nodes v =
     (case v of JList xs \<Rightarrow> Some (List.map_filter as_obj xs) | _ \<Rightarrow> None)"

definition tep_snapshot :: "json \<Rightarrow> jobj list option" where
  "tep_snapshot v =
     (case v of
        JObj d \<Rightarrow> (case jget_def_to d ''peers'' (JList []) of JList xs \<Rightarrow> Some (List.map_filter as_obj xs) | _ \<Rightarrow> None)
      | _ \<Rightarrow> None)"

definition checked_identity :: "string \<Rightarrow> string \<Rightarrow> (string \<times> string) option" where
  "checked_identity pid pubkey =
     (if pid = [] \<or> length pubkey \<noteq> 64 \<or> \<not> fromhex_ok pubkey then None else Some (pid, pubkey))"

definition identity_from_record :: "jobj \<Rightarrow> (string \<times> string) option" where
  "identity_from_record item =
     checked_identity (jtext_strip item ''peer_id'') (py_lower (jtext_strip item ''tep_pubkey''))"

definition identity_from_tep_record :: "jobj \<Rightarrow> (string \<times> string) option" where
  "identity_from_tep_record item =
     checked_identity (jtext_strip item ''peer_id'')
       (py_lower (py_strip (py_str (py_or (jget item ''pubkey'') (py_or (jget item ''tep_pubkey'') (JStr []))))))"

definition addr_host :: "json \<Rightarrow> string option" where
  "addr_host addr =
     (case split_on (CHR ''/'') (py_str addr) of
        a # kind # host # rest \<Rightarrow> if kind \<in> {''ip4'', ''ip6''} \<and> host \<noteq> [] then Some host else None
      | _ \<Rightarrow> None)"

text \<open>\<open>None\<close> is the \<open>TypeError\<close> of a \<open>multiaddrs\<close> that cannot be iterated.\<close>

definition bootstrap_ip :: "jobj \<Rightarrow> string option" where
  "bootstrap_ip item =
     (if jtext_strip item ''external_ip'' \<noteq> [] then Some (jtext_strip item ''external_ip'')
      else (case py_iter (py_or (jget item ''multiaddrs'') (JList [])) of
              None \<Rightarrow> None
            | Some addrs \<Rightarrow> Some (case List.map_filter addr_host addrs of [] \<Rightarrow> [] | h # hs \<Rightarrow> h)))"

definition authoritative_identity :: "string \<Rightarrow> jobj list \<Rightarrow> (string \<times> string) option" where
  "authoritative_identity node items =
     (case find (\<lambda>item. jtext item ''node_id'' = node) items of None \<Rightarrow> None | Some item \<Rightarrow> identity_from_record item)"

section \<open>Reconciliation\<close>

definition or_empty :: "jobj option \<Rightarrow> jobj" where
  "or_empty x = (case x of None \<Rightarrow> [] | Some d \<Rightarrow> d)"

definition opt_strip :: "string option \<Rightarrow> string" where
  "opt_strip x = (case x of None \<Rightarrow> [] | Some s \<Rightarrow> py_strip s)"

definition non_empty :: "string \<Rightarrow> string option" where
  "non_empty s = (if s = [] then None else Some s)"

text \<open>The coordinates: those observed, or those of the registries.\<close>

definition observed :: "peer option \<Rightarrow> bool" where
  "observed previous \<longleftrightarrow> (case previous of None \<Rightarrow> False | Some p \<Rightarrow> 0 < pr_seen p)"

definition registry_ip :: "jobj option \<Rightarrow> jobj option \<Rightarrow> string option" where
  "registry_ip tep node =
     (let ip = jtext_strip (or_empty tep) ''ip''
      in if ip = [] then (case node of None \<Rightarrow> Some [] | Some n \<Rightarrow> bootstrap_ip n) else Some ip)"

definition registry_port :: "jobj option \<Rightarrow> jobj option \<Rightarrow> int" where
  "registry_port tep node =
     (case py_int (py_or (jget (or_empty tep) ''port'') (py_or (jget (or_empty node) ''tep_port'') (JInt listen_port))) of
        None \<Rightarrow> listen_port | Some n \<Rightarrow> n)"

definition endpoint_of :: "jobj option \<Rightarrow> jobj option \<Rightarrow> peer option \<Rightarrow> (string \<times> int) option" where
  "endpoint_of tep node previous =
     (if observed previous then Some (py_strip (pr_ip (the previous)), pr_port (the previous))
      else (case registry_ip tep node of None \<Rightarrow> None | Some ip \<Rightarrow> Some (ip, registry_port tep node)))"

definition stable_identity :: "jobj option \<Rightarrow> jobj option \<Rightarrow> peer option \<Rightarrow> string \<times> string" where
  "stable_identity tep node previous =
     (case identity_from_record (or_empty node) of
        Some i \<Rightarrow> i
      | None \<Rightarrow>
          (case identity_from_tep_record (or_empty tep) of
             Some i \<Rightarrow> i
           | None \<Rightarrow> (case previous of None \<Rightarrow> ([], []) | Some p \<Rightarrow> (opt_strip (pr_peer p), opt_strip (pr_pubkey p)))))"

definition peer_from_registry :: "string \<Rightarrow> jobj option \<Rightarrow> jobj option \<Rightarrow> peer option \<Rightarrow> tep_exn + peer option" where
  "peer_from_registry node_id tep node previous =
     (case endpoint_of tep node previous of
        None \<Rightarrow> Inl Other_error
      | Some (ip, port) \<Rightarrow>
          if ip = [] then Inr None
          else Inr (Some \<lparr>pr_id = node_id, pr_ip = ip, pr_port = port,
                 pr_seen = (case previous of None \<Rightarrow> 0 | Some p \<Rightarrow> pr_seen p),
                 pr_latency = (case previous of None \<Rightarrow> None | Some p \<Rightarrow> pr_latency p),
                 pr_online = (case previous of None \<Rightarrow> False | Some p \<Rightarrow> pr_online p),
                 pr_pubkey = non_empty (snd (stable_identity tep node previous)),
                 pr_peer = non_empty (fst (stable_identity tep node previous))\<rparr>))"

text \<open>A dict comprehension keyed by a text: the last record with the key; empty keys are left out.\<close>

definition last_with :: "string \<Rightarrow> string \<Rightarrow> jobj list \<Rightarrow> jobj option" where
  "last_with field k items = tbl_find (\<lambda>item. jtext_strip item field) k (rev items)"

definition record_ids :: "string \<Rightarrow> jobj list \<Rightarrow> string list" where
  "record_ids field items = filter (\<lambda>k. k \<noteq> []) (map (\<lambda>item. jtext_strip item field) items)"

definition candidate_ids :: "string \<Rightarrow> jobj list \<Rightarrow> jobj list \<Rightarrow> string list" where
  "candidate_ids self tep nodes =
     sort (filter (\<lambda>k. k \<noteq> self) (dedup (record_ids ''id'' tep @ record_ids ''node_id'' nodes)))"

fun fresh_peers :: "jobj list \<Rightarrow> jobj list \<Rightarrow> peer list \<Rightarrow> string list \<Rightarrow> tep_exn + peer list" where
  "fresh_peers tep nodes previous [] = Inr []"
| "fresh_peers tep nodes previous (k # ks) =
     bind_r (peer_from_registry k (last_with ''id'' k tep) (last_with ''node_id'' k nodes) (find_peer k previous)) (\<lambda>p.
     bind_r (fresh_peers tep nodes previous ks) (\<lambda>ps.
       Inr (case p of None \<Rightarrow> ps | Some q \<Rightarrow> q # ps)))"

text \<open>\<open>reconciled_sync\<close>; \<open>None\<close> for a registry is a failed read.\<close>

definition reconcile :: "string \<Rightarrow> jobj list option \<Rightarrow> jobj list option \<Rightarrow> peer_manager \<Rightarrow> (tep_exn + bool) \<times> peer_manager" where
  "reconcile self tep nodes m =
     (if tep = None \<and> nodes = None then (Inr False, m\<lparr>pm_source := ''static''\<rparr>)
      else let t = (case tep of None \<Rightarrow> [] | Some xs \<Rightarrow> xs); n = (case nodes of None \<Rightarrow> [] | Some xs \<Rightarrow> xs)
           in (case fresh_peers t n (pm_peers m) (candidate_ids self t n) of
                 Inl e \<Rightarrow> (Inl e, m)
               | Inr fresh \<Rightarrow> (Inr True, m\<lparr>pm_peers := fresh, pm_source := ''blockchain''\<rparr>)))"

section \<open>Identity enrichment\<close>

definition identity_refresh :: py_float where "identity_refresh = 30"

definition complete_identity :: "peer \<Rightarrow> bool" where
  "complete_identity p \<longleftrightarrow> filled (pr_peer p) \<and> filled (pr_pubkey p)"

text \<open>\<open>_ensure_peer_identity\<close>: the answer, the peer and the times of the last refreshes.\<close>

definition ensure_identity ::
  "py_float \<Rightarrow> jobj list option \<Rightarrow> peer \<Rightarrow> (string \<rightharpoonup> py_float) \<Rightarrow> bool \<times> peer \<times> (string \<rightharpoonup> py_float)" where
  "ensure_identity now nodes p refreshed =
     (if complete_identity p then (True, p, refreshed)
      else if now - (case refreshed (pr_id p) of None \<Rightarrow> 0 | Some x \<Rightarrow> x) < identity_refresh then (False, p, refreshed)
      else let refreshed1 = refreshed(pr_id p \<mapsto> now)
           in (case nodes of
                 None \<Rightarrow> (False, p, refreshed1)
               | Some items \<Rightarrow>
                   (case authoritative_identity (pr_id p) items of
                      None \<Rightarrow> (False, p, refreshed1)
                    | Some (pid, pubkey) \<Rightarrow> (True, p\<lparr>pr_peer := Some pid, pr_pubkey := Some pubkey\<rparr>, refreshed1))))"

section \<open>The table after a reconciliation\<close>

lemma peer_from_registry_id:
  assumes "peer_from_registry k tep node previous = Inr (Some q)"
  shows "pr_id q = k" "pr_ip q \<noteq> []"
  using assms by (auto simp: peer_from_registry_def split: option.split_asm if_split_asm)

text \<open>The ids of the new table are candidates, in their order.\<close>

lemma fresh_peers_ids:
  assumes "fresh_peers tep nodes previous ks = Inr ps"
  shows "set (map pr_id ps) \<subseteq> set ks \<and> (distinct ks \<longrightarrow> distinct (map pr_id ps)) \<and> (sorted ks \<longrightarrow> sorted (map pr_id ps)) \<and>
    (\<forall>q \<in> set ps. pr_ip q \<noteq> [])"
  using assms
proof (induction ks arbitrary: ps)
  case (Cons k ks)
  obtain x qs where x: "peer_from_registry k (last_with ''id'' k tep) (last_with ''node_id'' k nodes) (find_peer k previous) = Inr x"
    "fresh_peers tep nodes previous ks = Inr qs" "ps = (case x of None \<Rightarrow> qs | Some q \<Rightarrow> q # qs)"
    using Cons.prems by (auto simp: bind_r_Inr)
  note rest = Cons.IH [OF x(2)]
  show ?case
  proof (cases x)
    case None
    then show ?thesis using rest x(3) by auto
  next
    case (Some q)
    have "pr_id q = k" "pr_ip q \<noteq> []" using peer_from_registry_id x(1) Some by blast+
    then show ?thesis using rest x(3) Some by (auto simp: image_subset_iff)
  qed
qed simp

lemma fresh_peers_find:
  assumes "fresh_peers tep nodes previous ks = Inr ps" "distinct ks" "k \<in> set ks"
  shows "peer_from_registry k (last_with ''id'' k tep) (last_with ''node_id'' k nodes) (find_peer k previous) = Inr (find_peer k ps)"
  using assms
proof (induction ks arbitrary: ps)
  case (Cons a ks)
  obtain x qs where x: "peer_from_registry a (last_with ''id'' a tep) (last_with ''node_id'' a nodes) (find_peer a previous) = Inr x"
    "fresh_peers tep nodes previous ks = Inr qs" "ps = (case x of None \<Rightarrow> qs | Some q \<Rightarrow> q # qs)"
    using Cons.prems by (auto simp: bind_r_Inr)
  show ?case
  proof (cases "k = a")
    case True
    have "find_peer a qs = None"
      using fresh_peers_ids [OF x(2)] Cons.prems(2) by (auto simp: find_peer_def tbl_find_None)
    then show ?thesis using x True peer_from_registry_id [of a] by (cases x) (auto simp: find_peer_def)
  next
    case False
    then have "find_peer k ps = find_peer k qs"
      using x peer_from_registry_id [of a] by (cases x) (auto simp: find_peer_def)
    then show ?thesis using Cons.IH [OF x(2)] Cons.prems False by simp
  qed
qed simp

lemma candidate_ids_facts:
  "sorted (candidate_ids self t n)" "distinct (candidate_ids self t n)" "self \<notin> set (candidate_ids self t n)"
  by (simp_all add: candidate_ids_def)

definition registered :: "string \<Rightarrow> jobj list option \<Rightarrow> jobj list option \<Rightarrow> string list" where
  "registered self tep nodes =
     candidate_ids self (case tep of None \<Rightarrow> [] | Some xs \<Rightarrow> xs) (case nodes of None \<Rightarrow> [] | Some xs \<Rightarrow> xs)"

lemma reconcile_True:
  assumes "reconcile self tep nodes m = (Inr True, m')"
  shows "fresh_peers (case tep of None \<Rightarrow> [] | Some xs \<Rightarrow> xs) (case nodes of None \<Rightarrow> [] | Some xs \<Rightarrow> xs) (pm_peers m)
      (registered self tep nodes) = Inr (pm_peers m')"
  using assms by (auto simp: reconcile_def registered_def Let_def split: if_split_asm sum.split_asm)

text \<open> After a reconciliation the table is sorted by id without duplicates, holds only peers one of the registries
  names, never the node itself, and every peer has an address.
\<close>
theorem reconciled_table_shape:
  assumes "reconcile self tep nodes m = (Inr True, m')"
  shows "sorted (map pr_id (pm_peers m')) \<and> distinct (map pr_id (pm_peers m')) \<and>
    pr_id ` set (pm_peers m') \<subseteq> set (registered self tep nodes) - {self} \<and> (\<forall>q \<in> set (pm_peers m'). pr_ip q \<noteq> [])"
  using fresh_peers_ids [OF reconcile_True [OF assms]] candidate_ids_facts unfolding registered_def by fastforce

text \<open>The records of a peer in the two registries.\<close>

definition record_of :: "string \<Rightarrow> string \<Rightarrow> jobj list option \<Rightarrow> jobj option" where
  "record_of field k items = last_with field k (case items of None \<Rightarrow> [] | Some xs \<Rightarrow> xs)"

lemma peer_from_observed:
  assumes "0 < pr_seen p" "py_strip (pr_ip p) \<noteq> []"
  shows "peer_from_registry k t n (Some p) =
    Inr (Some \<lparr>pr_id = k, pr_ip = py_strip (pr_ip p), pr_port = pr_port p, pr_seen = pr_seen p, pr_latency = pr_latency p,
      pr_online = pr_online p, pr_pubkey = non_empty (snd (stable_identity t n (Some p))),
      pr_peer = non_empty (fst (stable_identity t n (Some p)))\<rparr>)"
  using assms by (simp add: peer_from_registry_def endpoint_of_def observed_def)

lemma reconciled_peer:
  assumes "reconcile self tep nodes m = (Inr True, m')" "k \<in> set (registered self tep nodes)"
  shows "peer_from_registry k (record_of ''id'' k tep) (record_of ''node_id'' k nodes) (find_peer k (pm_peers m)) =
    Inr (find_peer k (pm_peers m'))"
  unfolding record_of_def
  by (rule fresh_peers_find [OF reconcile_True [OF assms(1)] _ assms(2)]) (simp add: registered_def candidate_ids_facts)

text \<open> A reconciliation never moves a peer that has been heard: its observed address, port, time, latency and state
  survive as long as one registry names it, and its identity is the node registry's, else the transport registry's,
  else the one it had.
\<close>
theorem reconciliation_keeps_observed:
  assumes "reconcile self tep nodes m = (Inr True, m')" "find_peer k (pm_peers m) = Some p" "0 < pr_seen p"
    and "py_strip (pr_ip p) \<noteq> []" "k \<in> set (registered self tep nodes)"
  shows "find_peer k (pm_peers m') =
    Some \<lparr>pr_id = k, pr_ip = py_strip (pr_ip p), pr_port = pr_port p, pr_seen = pr_seen p, pr_latency = pr_latency p,
      pr_online = pr_online p,
      pr_pubkey = non_empty (snd (stable_identity (record_of ''id'' k tep) (record_of ''node_id'' k nodes) (Some p))),
      pr_peer = non_empty (fst (stable_identity (record_of ''id'' k tep) (record_of ''node_id'' k nodes) (Some p)))\<rparr>"
  using reconciled_peer [OF assms(1,5)] peer_from_observed [OF assms(3,4)] by (simp add: assms(2))

text \<open>The number of online peers counts exactly the fresh ones, and no stale peer stays online.\<close>

lemma online_count_exact:
  "online_count now t = (length (filter (peer_is_fresh now) t), map (\<lambda>p. p\<lparr>pr_online := peer_is_fresh now p\<rparr>) t)"
proof -
  have "expire_stale now t = map (\<lambda>p. p\<lparr>pr_online := peer_is_fresh now p\<rparr>) t"
    by (auto simp: expire_stale_def tbl_update_def peer_is_fresh_def)
  then show ?thesis by (simp add: online_count_def Let_def filter_map o_def)
qed

section \<open>An example\<close>

definition key_a :: string where "key_a = replicate 64 (CHR ''a'')"

definition heard_peer :: peer where
  "heard_peer = \<lparr>pr_id = ''n1'', pr_ip = ''10.0.0.9'', pr_port = 40001, pr_seen = 500, pr_latency = Some 0, pr_online = True,
     pr_pubkey = Some key_a, pr_peer = Some ''p1''\<rparr>"

definition some_manager :: peer_manager where
  "some_manager = \<lparr>pm_peers = [heard_peer], pm_source = ''static''\<rparr>"

definition tep_items :: "jobj list" where
  "tep_items = [[(''id'', JStr ''n1''), (''ip'', JStr ''203.0.113.5''), (''port'', JInt 47)], [(''id'', JStr ''me''), (''ip'', JStr ''127.0.0.1'')],
     [(''id'', JStr ''n2''), (''port'', JStr ''nine'')]]"

definition node_items :: "jobj list" where
  "node_items = [[(''node_id'', JStr ''n2''), (''peer_id'', JStr ''p2''), (''tep_pubkey'', JStr key_a),
     (''multiaddrs'', JList [JStr ''/dns/x'', JStr ''/ip4/198.51.100.7/tcp/1''])]]"

definition reconciled :: peer_manager where
  "reconciled = snd (reconcile ''me'' (Some tep_items) (Some node_items) some_manager)"

lemma reconcile_example: "reconcile ''me'' (Some tep_items) (Some node_items) some_manager = (Inr True, reconciled)"
proof -
  have "fst (reconcile ''me'' (Some tep_items) (Some node_items) some_manager) = Inr True" by code_simp
  then show ?thesis unfolding reconciled_def by (metis prod.collapse)
qed

theorem reconciled_table_shape_witness:
  "map pr_id (pm_peers reconciled) = [''n1'', ''n2''] \<and> ''me'' \<notin> pr_id ` set (pm_peers reconciled)"
proof
  show "map pr_id (pm_peers reconciled) = [''n1'', ''n2'']" by code_simp
  show "''me'' \<notin> pr_id ` set (pm_peers reconciled)" using reconciled_table_shape [OF reconcile_example] by blast
qed

theorem reconciliation_keeps_observed_witness:
  "map_option (\<lambda>q. (pr_ip q, pr_seen q)) (find_peer ''n1'' (pm_peers reconciled)) = Some (''10.0.0.9'', 500)"
proof -
  have f: "find_peer ''n1'' (pm_peers some_manager) = Some heard_peer" by code_simp
  have k: "''n1'' \<in> set (registered ''me'' (Some tep_items) (Some node_items))" by code_simp
  have ip: "py_strip (pr_ip heard_peer) = ''10.0.0.9''" by code_simp
  show ?thesis
    using reconciliation_keeps_observed [OF reconcile_example f _ _ k] ip by (simp add: heard_peer_def)
qed

text \<open>
  A failed read of one registry is taken for an empty registry: a peer that only \<open>/api/nodes\<close> names is dropped, with
  its observed endpoint, when \<open>/api/nodes\<close> cannot be read for once and \<open>/api/tep/peers\<close> can.
\<close>

lemma failed_registry_drops_peers:
  "pm_peers (snd (reconcile ''me'' (Some []) None some_manager)) = [] \<and>
   map pr_id (pm_peers (snd (reconcile ''me'' (Some []) (Some [[(''node_id'', JStr ''n1'')]]) some_manager))) = [''n1'']"
  by code_simp

text \<open>A node record whose \<open>multiaddrs\<close> is a number raises out of the reconciliation, which the sync loop does not catch.\<close>

lemma bad_multiaddrs_escape:
  "fst (reconcile ''me'' None (Some [[(''node_id'', JStr ''n1''), (''multiaddrs'', JInt 1)]]) \<lparr>pm_peers = [], pm_source = []\<rparr>) = Inl Other_error"
  by code_simp

end
