(* ===== verification/Tep_Client.thy ===== *)
theory Tep_Client
  imports Tep_Messages
begin

text \<open>
  The synchronous RPC client: \<open>tep/hb_tep_client.py\<close>. The table of pending requests is a dictionary in insertion
  order; clocks are arguments, and so is the transport, as the outcome of calling it.
\<close>

section \<open>Pending requests\<close>

record pending_request =
  pq_id :: string
  pq_peer :: string
  pq_service :: string
  pq_created :: py_float
  pq_deadline :: py_float

record pending_table =
  pn_max :: int
  pn_items :: "pending_request list"

definition pending_table :: "int \<Rightarrow> tep_exn + pending_table" where
  "pending_table n = (if n \<le> 0 then Inl Value_error else Inr \<lparr>pn_max = n, pn_items = []\<rparr>)"

definition discard :: "string \<Rightarrow> pending_table \<Rightarrow> pending_table" where
  "discard rid t = t\<lparr>pn_items := filter (\<lambda>q. pq_id q \<noteq> rid) (pn_items t)\<rparr>"

text \<open>\<open>_expire_locked\<close>: first the expired ids are collected, then each is popped.\<close>

definition expire_locked :: "py_float \<Rightarrow> pending_table \<Rightarrow> pending_table" where
  "expire_locked now t = fold discard (map pq_id (filter (\<lambda>q. pq_deadline q < now) (pn_items t))) t"

definition add_pending ::
  "py_float \<Rightarrow> string \<Rightarrow> string \<Rightarrow> string \<Rightarrow> py_float \<Rightarrow> pending_table \<Rightarrow> (tep_exn + pending_request) \<times> pending_table" where
  "add_pending now rid peer service timeout t =
     (if timeout \<le> 0 \<or> 30 < timeout then (Inl Value_error, t)
      else let t1 = expire_locked now t
           in if pn_max t1 \<le> int (length (pn_items t1))
                then (Inl (Client_error ''client_overloaded'' ''too many pending TEP RPC requests''), t1)
              else if rid \<in> pq_id ` set (pn_items t1)
                then (Inl (Client_error ''duplicate_request_id'' ''request_id already pending''), t1)
              else let item = \<lparr>pq_id = rid, pq_peer = peer, pq_service = service, pq_created = now, pq_deadline = now + timeout\<rparr>
                   in (Inr item, t1\<lparr>pn_items := pn_items t1 @ [item]\<rparr>))"

definition correlate :: "py_float \<Rightarrow> envelope \<Rightarrow> pending_table \<Rightarrow> (tep_exn + pending_request) \<times> pending_table" where
  "correlate now env t =
     (let t1 = expire_locked now t
      in case find (\<lambda>q. pq_id q = ev_request env) (pn_items t1) of
           None \<Rightarrow> (Inl (Client_error ''unknown_response'' ''response does not match a pending request''), t1)
         | Some item \<Rightarrow>
             if id_peer (ev_source env) \<noteq> pq_peer item
               then (Inl (Client_error ''response_peer_mismatch'' ''response source peer does not match request''), t1)
             else if ev_service env \<noteq> Some (pq_service item)
               then (Inl (Client_error ''response_service_mismatch'' ''response service does not match request''), t1)
             else if pq_deadline item < now
               then (Inl (Client_error ''request_timeout'' ''response arrived after request deadline''), discard (ev_request env) t1)
             else (Inr item, discard (ev_request env) t1))"

definition expire :: "py_float \<Rightarrow> pending_table \<Rightarrow> nat \<times> pending_table" where
  "expire now t = (length (pn_items t) - length (pn_items (expire_locked now t)), expire_locked now t)"

section \<open>The request\<close>

text \<open>What the transport returned.\<close>

datatype tep_reply = Raw_reply string | Mapping_reply jobj

definition read_reply :: "string list \<Rightarrow> int \<Rightarrow> tep_reply \<Rightarrow> tep_exn + envelope" where
  "read_reply supported wall r =
     (case r of Mapping_reply m \<Rightarrow> validate_envelope supported (Some wall) m | Raw_reply raw \<Rightarrow> decode_message supported (Some wall) raw)"

definition request_ttl :: "py_float \<Rightarrow> int" where
  "request_ttl timeout = min (max 1 (py_trunc (timeout * 1000))) 5000"

text \<open>Exceptions other than the two of the protocol are wrapped.\<close>

definition wrap_exn :: "tep_exn \<Rightarrow> tep_exn" where
  "wrap_exn e =
     (case e of
        Protocol_error c m \<Rightarrow> e
      | Client_error c m \<Rightarrow> e
      | Timeout_error \<Rightarrow> Client_error ''request_timeout'' ''TEP RPC request timed out''
      | _ \<Rightarrow> Client_error ''transport_error'' ''TEP RPC transport failed'')"

definition remote_error :: "json \<Rightarrow> tep_exn" where
  "remote_error v =
     (case py_or v (JObj []) of
        JObj e \<Rightarrow> Client_error (py_str (py_or (jget e ''code'') (JStr ''remote_error'')))
                              (py_str (py_or (jget e ''message'') (JStr ''remote TEP service error'')))
      | _ \<Rightarrow> Other_error)"

text \<open>The checks on a reply before it is correlated, and what is made of it afterwards.\<close>

definition check_reply :: "identity \<Rightarrow> envelope \<Rightarrow> tep_exn + unit" where
  "check_reply local env =
     (if ev_type env \<notin> {''res'', ''err''}
        then Inl (Client_error ''unexpected_response_type'' ''TEP RPC response must be res or err'')
      else if id_peer (ev_dest env) \<noteq> id_peer local
        then Inl (Client_error ''response_destination_mismatch'' ''response is addressed to another peer'')
      else Inr ())"

definition reply_payload :: "envelope \<Rightarrow> tep_exn + jobj" where
  "reply_payload env =
     (if ev_type env = ''err'' then Inl (remote_error (jget (ev_raw env) ''error''))
      else (case jget (ev_raw env) ''payload'' of
              JObj p \<Rightarrow> Inr p
            | _ \<Rightarrow> Inl (Client_error ''bad_response'' ''response payload must be an object'')))"

text \<open>
  The body of the \<open>try\<close> block: \<open>wall\<close> is the wall clock (ms) when the reply is validated, \<open>now\<close> the
  monotonic clock when it is correlated.
\<close>

definition request_body ::
  "string list \<Rightarrow> identity \<Rightarrow> int \<Rightarrow> py_float \<Rightarrow> (string \<Rightarrow> string \<Rightarrow> py_float \<Rightarrow> tep_exn + tep_reply) \<Rightarrow>
   string \<Rightarrow> py_float \<Rightarrow> jobj \<Rightarrow> pending_table \<Rightarrow> (tep_exn + jobj) \<times> pending_table" where
  "request_body supported local wall now transport peer timeout req t =
     (case bind_r (encode_message supported req) (\<lambda>raw.
           bind_r (transport peer raw timeout) (\<lambda>reply.
           bind_r (read_reply supported wall reply) (\<lambda>env.
           bind_r (check_reply local env) (\<lambda>_. Inr env)))) of
        Inl e \<Rightarrow> (Inl (wrap_exn e), t)
      | Inr env \<Rightarrow>
          (case correlate now env t of
             (Inl e, t1) \<Rightarrow> (Inl (wrap_exn e), t1)
           | (Inr _, t1) \<Rightarrow> (case reply_payload env of Inl e \<Rightarrow> (Inl (wrap_exn e), t1) | Inr p \<Rightarrow> (Inr p, t1))))"

text \<open>\<open>request\<close>: \<open>rid\<close> and \<open>nonce\<close> are the random ones, \<open>sent\<close> and \<open>start\<close> the clocks at the beginning.\<close>

definition client_request ::
  "string list \<Rightarrow> identity \<Rightarrow> string \<Rightarrow> string \<Rightarrow> int \<Rightarrow> py_float \<Rightarrow> int \<Rightarrow> py_float \<Rightarrow>
   (string \<Rightarrow> string \<Rightarrow> py_float \<Rightarrow> tep_exn + tep_reply) \<Rightarrow> identity \<Rightarrow> string \<Rightarrow> jobj \<Rightarrow> py_float \<Rightarrow> pending_table \<Rightarrow>
   (tep_exn + jobj) \<times> pending_table" where
  "client_request supported local rid nonce sent start wall now transport dest service payload timeout t =
     (case new_request supported rid nonce sent local dest service payload (request_ttl timeout) of
        Inl e \<Rightarrow> (Inl e, t)
      | Inr req \<Rightarrow>
          (case add_pending start rid (id_peer dest) service timeout t of
             (Inl e, t1) \<Rightarrow> (Inl e, t1)
           | (Inr _, t1) \<Rightarrow>
               (case request_body supported local wall now transport (id_peer dest) timeout req t1 of
                  (r, t2) \<Rightarrow> (r, discard rid t2))))"

section \<open>The table\<close>

definition pending_ok :: "pending_table \<Rightarrow> bool" where
  "pending_ok t \<longleftrightarrow> 0 < pn_max t \<and> int (length (pn_items t)) \<le> pn_max t \<and> distinct (map pq_id (pn_items t))"

lemma fold_discard: "pn_items (fold discard ids t) = filter (\<lambda>q. pq_id q \<notin> set ids) (pn_items t) \<and> pn_max (fold discard ids t) = pn_max t"
  by (induction ids arbitrary: t) (auto simp: discard_def intro: filter_cong)

text \<open>Popping the collected ids keeps exactly the requests whose deadline has not passed.\<close>

lemma expire_locked_items:
  assumes "distinct (map pq_id (pn_items t))"
  shows "pn_items (expire_locked now t) = filter (\<lambda>q. now \<le> pq_deadline q) (pn_items t)" "pn_max (expire_locked now t) = pn_max t"
proof -
  have "pq_id q \<in> pq_id ` {q \<in> set (pn_items t). pq_deadline q < now} \<longleftrightarrow> pq_deadline q < now" if "q \<in> set (pn_items t)" for q
    using assms that by (auto simp: distinct_map inj_on_def)
  then show "pn_items (expire_locked now t) = filter (\<lambda>q. now \<le> pq_deadline q) (pn_items t)"
    by (simp add: expire_locked_def fold_discard) (rule filter_cong; auto simp: not_less)
qed (simp add: expire_locked_def fold_discard)

lemma filter_pending_ok: "pending_ok t \<Longrightarrow> pending_ok (t\<lparr>pn_items := filter P (pn_items t)\<rparr>)"
  by (auto simp: pending_ok_def distinct_map_filter intro: order_trans [OF of_nat_mono [OF length_filter_le]])

lemma expire_locked_ok: "pending_ok t \<Longrightarrow> pending_ok (expire_locked now t)"
proof -
  assume t: "pending_ok t"
  then have "distinct (map pq_id (pn_items t))" by (simp add: pending_ok_def)
  note e = expire_locked_items [OF this]
  have "pending_ok (t\<lparr>pn_items := filter (\<lambda>q. now \<le> pq_deadline q) (pn_items t)\<rparr>)" by (rule filter_pending_ok [OF t])
  then show ?thesis by (simp add: pending_ok_def e)
qed

lemma discard_ok: "pending_ok t \<Longrightarrow> pending_ok (discard rid t)"
  unfolding discard_def by (rule filter_pending_ok)

lemma add_pending_ok: "pending_ok t \<Longrightarrow> pending_ok (snd (add_pending now rid peer service timeout t))"
  using expire_locked_ok [of t now] by (auto simp: add_pending_def Let_def pending_ok_def)

lemma correlate_ok: "pending_ok t \<Longrightarrow> pending_ok (snd (correlate now env t))"
  using expire_locked_ok [of t now] by (auto simp: correlate_def Let_def discard_ok split: option.split)

lemma request_body_ok: "pending_ok t \<Longrightarrow> pending_ok (snd (request_body supported local wall now transport peer timeout req t))"
  using correlate_ok [of t now] by (auto simp: request_body_def split: sum.split prod.split) (metis snd_conv)+

lemma client_request_ok:
  assumes "pending_ok t"
  shows "pending_ok (snd (client_request supported local rid nonce sent start wall now transport dest service payload timeout t))"
proof (cases "new_request supported rid nonce sent local dest service payload (request_ttl timeout)")
  case (Inr req)
  obtain r t1 where a: "add_pending start rid (id_peer dest) service timeout t = (r, t1)" by fastforce
  then have t1: "pending_ok t1" using add_pending_ok [OF assms] by (metis snd_conv)
  obtain r2 t2 where b: "request_body supported local wall now transport (id_peer dest) timeout req t1 = (r2, t2)" by fastforce
  then have "pending_ok t2" using request_body_ok [OF t1] by (metis snd_conv)
  then show ?thesis using t1 by (simp add: client_request_def Inr a b discard_ok split: sum.split)
qed (simp add: client_request_def assms)

section \<open>A genuine answer\<close>

lemma correlate_Inr:
  "correlate now env t = (Inr item, t') \<Longrightarrow>
     item \<in> set (pn_items (expire_locked now t)) \<and> pq_id item = ev_request env \<and> pq_peer item = id_peer (ev_source env) \<and>
     ev_service env = Some (pq_service item) \<and> now \<le> pq_deadline item \<and> t' = discard (ev_request env) (expire_locked now t)"
  by (auto simp: correlate_def Let_def find_Some_iff split: option.splits if_splits)

lemma request_body_Inr:
  assumes "request_body supported local wall now transport peer timeout req t = (Inr p, t')"
  obtains raw reply env item where "encode_message supported req = Inr raw" "transport peer raw timeout = Inr reply"
    "read_reply supported wall reply = Inr env" "check_reply local env = Inr ()" "correlate now env t = (Inr item, t')"
    "reply_payload env = Inr p"
proof -
  obtain env where e: "bind_r (encode_message supported req) (\<lambda>raw. bind_r (transport peer raw timeout) (\<lambda>reply.
      bind_r (read_reply supported wall reply) (\<lambda>env. bind_r (check_reply local env) (\<lambda>_. Inr env)))) = Inr env"
    using assms by (cases "bind_r (encode_message supported req) (\<lambda>raw. bind_r (transport peer raw timeout) (\<lambda>reply.
      bind_r (read_reply supported wall reply) (\<lambda>env. bind_r (check_reply local env) (\<lambda>_. Inr env))))") (simp_all add: request_body_def)
  obtain item t1 where c: "correlate now env t = (Inr item, t1)"
    using assms unfolding request_body_def e by (cases "correlate now env t"; cases "fst (correlate now env t)") auto
  have "reply_payload env = Inr p" "t1 = t'"
    using assms unfolding request_body_def e by (auto simp: c split: sum.splits)
  moreover obtain raw reply where "encode_message supported req = Inr raw" "transport peer raw timeout = Inr reply"
    "read_reply supported wall reply = Inr env" "check_reply local env = Inr ()"
    using e unfolding bind_r_Inr by auto
  ultimately show thesis using c that by blast
qed


definition summary_reply :: jobj where
  "summary_reply =
     [(''v'', JInt 1), (''type'', JStr ''res''), (''request_id'', JStr ''0123456789abcdef0123456789abcdef''),
      (''source'', identity_json bob), (''destination'', identity_json alice), (''service'', JStr ''storage.summary''),
      (''timestamp_ms'', JInt 71000), (''nonce'', JStr ''eeeeeeeeeeeeeeeeeeeeeeeeeeeeeeee''), (''status'', JInt 200),
      (''payload'', JObj [(''free'', JInt 5)])]"

definition reply_envelope :: envelope where
  "reply_envelope = \<lparr>ev_raw = summary_reply, ev_version = 1, ev_type = ''res'', ev_request = ''0123456789abcdef0123456789abcdef'',
     ev_source = bob, ev_dest = alice, ev_service = Some ''storage.summary'', ev_time = 71000,
     ev_nonce = ''eeeeeeeeeeeeeeeeeeeeeeeeeeeeeeee'', ev_ttl = None\<rparr>"

lemma summary_reply_valid: "validate_envelope [''storage.summary''] (Some 72000) summary_reply = Inr reply_envelope"
  by code_simp

lemma new_summary_request:
  "new_request [''storage.summary''] ''0123456789abcdef0123456789abcdef'' ''ffffffffffffffffffffffffffffffff'' 70000 alice bob
     ''storage.summary'' [] 3000 = Inr summary_request"
proof -
  obtain raw where "encode_message [''storage.summary''] summary_request = Inr raw" using summary_request_encodes by blast
  then obtain e where "validate_envelope [''storage.summary''] None summary_request = Inr e"
    unfolding encode_message_Inr by blast
  then show ?thesis by (simp add: new_request_def checked_def summary_request_def)
qed

lemma request_body_answer:
  assumes "pn_items t = items @ [\<lparr>pq_id = ''0123456789abcdef0123456789abcdef'', pq_peer = ''pb'', pq_service = ''storage.summary'', pq_created = 5, pq_deadline = 8\<rparr>]"
    and "\<forall>q \<in> set items. pq_id q \<noteq> ''0123456789abcdef0123456789abcdef'' \<and> 6 \<le> pq_deadline q"
    and "encode_message [''storage.summary''] req = Inr raw" "transport ''pb'' raw 3 = Inr reply"
    and "read_reply [''storage.summary''] 72000 reply = Inr (reply_envelope\<lparr>ev_raw := d\<rparr>)" "jget d ''payload'' = JObj p"
  shows "request_body [''storage.summary''] alice 72000 6 transport ''pb'' 3 req t =
    (Inr p, discard ''0123456789abcdef0123456789abcdef'' t)"
proof -
  have "filter (\<lambda>q. pq_deadline q < 6) (pn_items t) = []" using assms(1,2) by (auto simp: filter_empty_conv)
  then have "expire_locked 6 t = t" by (simp add: expire_locked_def)
  moreover have "find (\<lambda>q. pq_id q = ''0123456789abcdef0123456789abcdef'') (pn_items t) = Some
      \<lparr>pq_id = ''0123456789abcdef0123456789abcdef'', pq_peer = ''pb'', pq_service = ''storage.summary'', pq_created = 5, pq_deadline = 8\<rparr>"
    unfolding assms(1) using assms(2) by (induction items) auto
  ultimately have "correlate 6 (reply_envelope\<lparr>ev_raw := d\<rparr>) t = (Inr \<lparr>pq_id = ''0123456789abcdef0123456789abcdef'', pq_peer = ''pb'',
      pq_service = ''storage.summary'', pq_created = 5, pq_deadline = 8\<rparr>, discard ''0123456789abcdef0123456789abcdef'' t)"
    by (simp add: correlate_def reply_envelope_def bob_def)
  moreover have "check_reply alice (reply_envelope\<lparr>ev_raw := d\<rparr>) = Inr ()" "reply_payload (reply_envelope\<lparr>ev_raw := d\<rparr>) = Inr p"
    using assms(6) by (simp_all add: reply_envelope_def check_reply_def reply_payload_def)
  ultimately show ?thesis by (simp add: request_body_def assms(3-5))
qed

lemma request_body_summary:
  assumes "pn_items t = items @ [\<lparr>pq_id = ''0123456789abcdef0123456789abcdef'', pq_peer = ''pb'', pq_service = ''storage.summary'', pq_created = 5, pq_deadline = 8\<rparr>]"
    and "\<forall>q \<in> set items. pq_id q \<noteq> ''0123456789abcdef0123456789abcdef'' \<and> 6 \<le> pq_deadline q"
    and "encode_message [''storage.summary''] req = Inr raw"
  shows "request_body [''storage.summary''] alice 72000 6 (\<lambda>p raw s. Inr (Mapping_reply summary_reply)) ''pb'' 3 req t =
    (Inr [(''free'', JInt 5)], discard ''0123456789abcdef0123456789abcdef'' t)"
proof (rule request_body_answer [where transport = "\<lambda>p raw s. Inr (Mapping_reply summary_reply)" and d = summary_reply, OF assms])
  show "read_reply [''storage.summary''] 72000 (Mapping_reply summary_reply) = Inr (reply_envelope\<lparr>ev_raw := summary_reply\<rparr>)"
    by (simp add: read_reply_def summary_reply_valid reply_envelope_def)
qed (simp_all add: summary_reply_def)

lemma client_request_answer:
  assumes "encode_message [''storage.summary''] summary_request = Inr raw" "transport ''pb'' raw 3 = Inr reply"
    and "read_reply [''storage.summary''] 72000 reply = Inr (reply_envelope\<lparr>ev_raw := d\<rparr>)" "jget d ''payload'' = JObj p"
  shows "fst (client_request [''storage.summary''] alice ''0123456789abcdef0123456789abcdef'' ''ffffffffffffffffffffffffffffffff'' 70000 5
    72000 6 transport bob ''storage.summary'' [] 3 \<lparr>pn_max = 256, pn_items = []\<rparr>) = Inr p"
proof -
  have ttl: "request_ttl 3 = 3000" by (simp add: request_ttl_def py_trunc_def)
  have b: "id_peer bob = ''pb''" by (simp add: bob_def)
  show ?thesis
    by (simp add: client_request_def ttl new_summary_request add_pending_def expire_locked_def b Let_def
        request_body_answer [where items = "[]" and transport = transport, OF _ _ assms])
qed


text \<open>
  The client does not compare the correlated request with its own: with another request of a shared client
  pending, an answer to that one is returned as the answer to this one.
\<close>

lemma answer_of_another_request:
  assumes "encode_message [''storage.summary''] req = Inr raw" "jget req ''request_id'' = JStr other" "other \<noteq> ev_request reply_envelope"
  shows "\<exists>t. other \<in> pq_id ` set (pn_items t) \<and>
    request_body [''storage.summary''] alice 72000 6 (\<lambda>p raw s. Inr (Mapping_reply summary_reply)) ''pb'' 3 req t =
      (Inr [(''free'', JInt 5)], discard (ev_request reply_envelope) t)"
proof -
  let ?own = "\<lparr>pq_id = other, pq_peer = ''pb'', pq_service = ''storage.summary'', pq_created = 5, pq_deadline = 8\<rparr>"
  let ?t = "\<lparr>pn_max = 256, pn_items = [?own, ?own\<lparr>pq_id := ev_request reply_envelope\<rparr>]\<rparr>"
  have "request_body [''storage.summary''] alice 72000 6 (\<lambda>p raw s. Inr (Mapping_reply summary_reply)) ''pb'' 3 req ?t =
      (Inr [(''free'', JInt 5)], discard ''0123456789abcdef0123456789abcdef'' ?t)"
    by (rule request_body_summary [where items = "[?own]", OF _ _ assms(1)])
      (use assms(3) in \<open>simp_all add: reply_envelope_def\<close>)
  moreover have "other \<in> pq_id ` set (pn_items ?t)" by simp
  ultimately show ?thesis by (intro exI [of _ ?t]) (simp add: reply_envelope_def)
qed

end
