(* ===== verification/Tep_Relay.thy ===== *)
theory Tep_Relay
  imports Tep_Client Tep_Wire "HOL-Library.AList"
begin

text \<open>
  Relay primitives: \<open>tep/hb_tep_relay.py\<close> (observed endpoints, relay policy with bounded in-flight accounting, the
  one-hop dispatcher, direct-then-relay failover). Clocks, random identifiers and the injected callables are arguments.
\<close>

section \<open>Observed endpoints\<close>

record endpoint =
  oe_peer :: string
  oe_ip :: string
  oe_port :: int
  oe_seen :: py_float
  oe_pubkey :: string

type_synonym relay_table = "string \<rightharpoonup> endpoint"

definition observe :: "py_float \<Rightarrow> string \<Rightarrow> string \<Rightarrow> int \<Rightarrow> string \<Rightarrow> bool \<Rightarrow> relay_table \<Rightarrow> tep_exn + endpoint \<times> relay_table" where
  "observe now peer ip port pubkey authenticated table =
     (if \<not> authenticated
        then Inl (Relay_error ''authentication_failed'' ''unauthenticated endpoint observation rejected'')
      else if py_strip peer = [] \<or> py_strip ip = [] then Inl (Relay_error ''bad_route'' ''peer_id and ip are required'')
      else if \<not> (1 \<le> port \<and> port \<le> 65535) then Inl (Relay_error ''bad_route'' ''invalid UDP port'')
      else let route = \<lparr>oe_peer = py_strip peer, oe_ip = py_strip ip, oe_port = port, oe_seen = now, oe_pubkey = pubkey\<rparr>
           in Inr (route, table(py_strip peer \<mapsto> route)))"

definition route_get :: "py_float \<Rightarrow> py_float \<Rightarrow> string \<Rightarrow> relay_table \<Rightarrow> tep_exn + endpoint" where
  "route_get now max_age peer table =
     (if max_age \<le> 0 then Inl Value_error
      else (case table peer of
              None \<Rightarrow> Inl (Relay_error ''destination_unknown'' ''relay target has no observed endpoint'')
            | Some route \<Rightarrow>
                if max_age < now - oe_seen route then Inl (Relay_error ''peer_offline'' ''relay target endpoint is stale'')
                else Inr route))"

definition route_discard :: "string \<Rightarrow> relay_table \<Rightarrow> relay_table" where
  "route_discard peer table = table(peer := None)"

definition route_freshness :: py_float where "route_freshness = 30"

section \<open>Policy\<close>

record relay_policy =
  rp_trusted :: "string list"
  rp_targets :: "string list"
  rp_services :: "string list"
  rp_max :: int
  rp_max_source :: int
  rp_total :: int
  rp_by :: "(string \<times> int) list"

definition allowed_relay_services :: "string list" where
  "allowed_relay_services = [''storage.summary'', ''master.status'']"

definition relay_policy :: "string list \<Rightarrow> string list \<Rightarrow> string list \<Rightarrow> int \<Rightarrow> int \<Rightarrow> tep_exn + relay_policy" where
  "relay_policy trusted targets services n per_source =
     (if n \<le> 0 \<or> per_source \<le> 0 then Inl Value_error
      else Inr \<lparr>rp_trusted = trusted, rp_targets = targets, rp_services = services, rp_max = n, rp_max_source = per_source,
                rp_total = 0, rp_by = []\<rparr>)"

definition authorize :: "relay_policy \<Rightarrow> string \<Rightarrow> string \<Rightarrow> string \<Rightarrow> tep_exn + unit" where
  "authorize p source target service =
     (if source \<notin> set (rp_trusted p) then Inl (Relay_error ''relay_unauthorized'' ''source peer is not authorized to use relay'')
      else if target \<notin> set (rp_targets p) then Inl (Relay_error ''destination_unknown'' ''relay target is not registered'')
      else if service \<notin> set (rp_services p) then Inl (Relay_error ''unsupported_service'' ''service is not allowed through relay'')
      else Inr ())"

definition in_flight :: "relay_policy \<Rightarrow> string \<Rightarrow> int" where
  "in_flight p source = (case map_of (rp_by p) source of None \<Rightarrow> 0 | Some n \<Rightarrow> n)"

definition acquire :: "string \<Rightarrow> relay_policy \<Rightarrow> tep_exn + relay_policy" where
  "acquire source p =
     (let per_source = in_flight p source
      in if rp_max p \<le> rp_total p \<or> rp_max_source p \<le> per_source
         then Inl (Relay_error ''relay_overloaded'' ''relay pending request limit reached'')
         else Inr (p\<lparr>rp_total := rp_total p + 1, rp_by := AList.update source (per_source + 1) (rp_by p)\<rparr>))"

definition release :: "string \<Rightarrow> relay_policy \<Rightarrow> relay_policy" where
  "release source p =
     (let current = in_flight p source;
          by = (if 1 < current then AList.update source (current - 1) (rp_by p)
                else if current = 1 then AList.delete source (rp_by p) else rp_by p)
      in p\<lparr>rp_by := by, rp_total := (if 0 < rp_total p then rp_total p - 1 else rp_total p)\<rparr>)"

section \<open>Relay messages\<close>

definition new_relay_request ::
  "string \<Rightarrow> string \<Rightarrow> int \<Rightarrow> identity \<Rightarrow> identity \<Rightarrow> string \<Rightarrow> string \<Rightarrow> int \<Rightarrow> tep_exn + jobj" where
  "new_relay_request rid nonce now source rendezvous target inner ttl =
     (if max_inner_bytes < length inner then Inl (Relay_error ''bad_request'' ''relay inner exceeds size limit'')
      else checked []
        [(''v'', JInt 1), (''type'', JStr ''relay_req''), (''request_id'', JStr rid), (''source'', identity_json source),
         (''destination'', identity_json rendezvous), (''relay_target'', JObj [(''peer_id'', JStr target)]),
         (''timestamp_ms'', JInt now), (''nonce'', JStr nonce), (''ttl_ms'', JInt ttl),
         (''payload'', JObj [(''inner'', JStr (b64_encode inner))])])"

definition new_relay_response ::
  "string \<Rightarrow> int \<Rightarrow> jobj \<Rightarrow> identity \<Rightarrow> identity \<Rightarrow> string \<Rightarrow> string \<Rightarrow> tep_exn + jobj" where
  "new_relay_response nonce now request source dest target inner =
     (if max_inner_bytes < length inner then Inl (Relay_error ''bad_response'' ''relay response exceeds size limit'')
      else checked []
        [(''v'', JInt 1), (''type'', JStr ''relay_res''), (''request_id'', jget request ''request_id''), (''source'', identity_json source),
         (''destination'', identity_json dest), (''relay_target'', JObj [(''peer_id'', JStr target)]),
         (''timestamp_ms'', JInt now), (''nonce'', JStr nonce), (''payload'', JObj [(''inner'', JStr (b64_encode inner))])])"

section \<open>The dispatcher\<close>

text \<open>\<open>except ProtocolError as exc: raise RelayError(exc.code, exc.message)\<close>\<close>

definition as_relay :: "tep_exn + 'a \<Rightarrow> tep_exn + 'a" where
  "as_relay r = (case r of Inl (Protocol_error c m) \<Rightarrow> Inl (Relay_error c m) | _ \<Rightarrow> r)"

record relay_hop =
  rh_env :: envelope
  rh_inner :: envelope
  rh_raw :: string
  rh_target :: string
  rh_route :: endpoint
  rh_budget :: py_float

definition relay_field :: "jobj \<Rightarrow> string \<Rightarrow> string \<Rightarrow> string" where
  "relay_field m k f = (case jget m k of JObj o' \<Rightarrow> py_str (jget o' f) | _ \<Rightarrow> [])"

text \<open>Everything \<open>handle\<close> checks before it takes a slot.\<close>

definition relay_checks ::
  "string list \<Rightarrow> identity \<Rightarrow> relay_table \<Rightarrow> relay_policy \<Rightarrow> py_float \<Rightarrow> int \<Rightarrow> py_float \<Rightarrow> tep_reply \<Rightarrow> py_float \<Rightarrow> tep_exn + relay_hop" where
  "relay_checks supported local table policy freshness wall now raw timeout =
     bind_r (as_relay (read_reply supported wall raw)) (\<lambda>env.
     if ev_type env \<noteq> ''relay_req'' then Inl (Relay_error ''unsupported_type'' ''relay dispatcher accepts relay_req only'')
     else if id_peer (ev_dest env) \<noteq> id_peer local
       then Inl (Relay_error ''relay_wrong_destination'' ''relay request is addressed to another rendezvous'')
     else let target = relay_field (ev_raw env) ''relay_target'' ''peer_id''
          in bind_r (b64_decode (relay_field (ev_raw env) ''payload'' ''inner'')) (\<lambda>inner_raw.
             bind_r (as_relay (decode_message supported (Some wall) inner_raw)) (\<lambda>inner.
             if ev_type inner \<noteq> ''req'' then Inl (Relay_error ''unsupported_type'' ''relay inner must be an application request'')
             else if id_peer (ev_dest inner) \<noteq> target
               then Inl (Relay_error ''identity_mismatch'' ''relay target does not match inner destination'')
             else bind_r (authorize policy (id_peer (ev_source env)) target (case ev_service inner of None \<Rightarrow> [] | Some s \<Rightarrow> s)) (\<lambda>_.
               bind_r (route_get now freshness target table) (\<lambda>route.
               if timeout \<le> 0 then Inl (Relay_error ''relay_ttl_expired'' ''relay timeout budget exhausted'')
               else let ttl = of_int (case ev_ttl env of None \<Rightarrow> 0 | Some n \<Rightarrow> n) / 1000; budget = min timeout ttl
                    in if budget \<le> 0 then Inl (Relay_error ''relay_ttl_expired'' ''relay TTL exhausted'')
                       else Inr \<lparr>rh_env = env, rh_inner = inner, rh_raw = inner_raw, rh_target = target, rh_route = route, rh_budget = budget\<rparr>)))))"

text \<open>The forwarding itself and the checks on what the target answers.\<close>

definition relay_answer ::
  "string list \<Rightarrow> identity \<Rightarrow> int \<Rightarrow> string \<Rightarrow> (endpoint \<Rightarrow> string \<Rightarrow> py_float \<Rightarrow> tep_exn + tep_reply) \<Rightarrow> relay_hop \<Rightarrow> tep_exn + jobj" where
  "relay_answer supported local wall nonce forward hop =
     bind_r (case forward (rh_route hop) (rh_raw hop) (rh_budget hop) of
               Inr r \<Rightarrow> Inr r
             | Inl Timeout_error \<Rightarrow> Inl (Relay_error ''relay_timeout'' ''relay target did not respond in time'')
             | Inl (Relay_error c m) \<Rightarrow> Inl (Relay_error c m)
             | Inl _ \<Rightarrow> Inl (Relay_error ''relay_unavailable'' ''relay target transport failed'')) (\<lambda>r.
     bind_r (case r of Mapping_reply m \<Rightarrow> encode_message supported m | Raw_reply b \<Rightarrow> Inr b) (\<lambda>bytes.
     bind_r (case decode_message supported (Some wall) bytes of
               Inl (Protocol_error c m) \<Rightarrow> Inl (Relay_error ''bad_response'' ''relay target returned invalid application response'')
             | d \<Rightarrow> d) (\<lambda>res.
     if ev_type res \<notin> {''res'', ''err''} then Inl (Relay_error ''bad_response'' ''relay target response must be res or err'')
     else if ev_request res \<noteq> ev_request (rh_inner hop)
       then Inl (Relay_error ''bad_response'' ''relay target response request_id mismatch'')
     else if id_peer (ev_source res) \<noteq> rh_target hop
       then Inl (Relay_error ''bad_response'' ''relay target response source mismatch'')
     else new_relay_response nonce wall (ev_raw (rh_env hop)) local (ev_source (rh_env hop)) (rh_target hop) bytes)))"

definition relay_handle ::
  "string list \<Rightarrow> identity \<Rightarrow> relay_table \<Rightarrow> py_float \<Rightarrow> int \<Rightarrow> py_float \<Rightarrow> int \<Rightarrow> string \<Rightarrow>
   (endpoint \<Rightarrow> string \<Rightarrow> py_float \<Rightarrow> tep_exn + tep_reply) \<Rightarrow> tep_reply \<Rightarrow> py_float \<Rightarrow> relay_policy \<Rightarrow> (tep_exn + jobj) \<times> relay_policy" where
  "relay_handle supported local table freshness wall now wall2 nonce forward raw timeout p =
     (case relay_checks supported local table p freshness wall now raw timeout of
        Inl e \<Rightarrow> (Inl e, p)
      | Inr hop \<Rightarrow>
          (let source = id_peer (ev_source (rh_env hop))
           in case acquire source p of
                Inl e \<Rightarrow> (Inl e, p)
              | Inr p1 \<Rightarrow> (relay_answer supported local wall2 nonce forward hop, release source p1)))"

section \<open>Failover\<close>

text \<open>\<open>except (TimeoutError, RelayError, OSError)\<close>\<close>

definition retryable :: "tep_exn \<Rightarrow> bool" where
  "retryable e = (case e of Timeout_error \<Rightarrow> True | Relay_error c m \<Rightarrow> True | Os_error \<Rightarrow> True | _ \<Rightarrow> False)"

text \<open>The loop over the relays; \<open>clock k\<close> is the clock when attempt \<open>k\<close> is considered.\<close>

fun relay_loop ::
  "(string \<Rightarrow> py_float \<Rightarrow> tep_exn + string) \<Rightarrow> (nat \<Rightarrow> py_float) \<Rightarrow> py_float \<Rightarrow> py_float \<Rightarrow> nat \<Rightarrow> nat \<Rightarrow> string list \<Rightarrow> tep_exn + string \<times> string" where
  "relay_loop relay clock started timeout limit attempted [] = Inl Timeout_error"
| "relay_loop relay clock started timeout limit attempted (p # ps) =
     (if limit \<le> attempted then Inl Timeout_error
      else let remaining = timeout - max 0 (clock attempted - started)
           in if remaining \<le> 0 then Inl Timeout_error
              else (case relay p remaining of
                      Inr response \<Rightarrow> Inr (response, p)
                    | Inl e \<Rightarrow> if retryable e then relay_loop relay clock started timeout limit (Suc attempted) ps else Inl e))"

record failover =
  fo_result :: "tep_exn + string"
  fo_path :: "string option"
  fo_relay :: "string option"

definition relay_candidates :: "string list \<Rightarrow> string list" where
  "relay_candidates ids = dedup (filter (\<lambda>x. x \<noteq> []) ids)"

definition failover_call ::
  "(py_float \<Rightarrow> tep_exn + string) \<Rightarrow> (string \<Rightarrow> py_float \<Rightarrow> tep_exn + string) \<Rightarrow> string list \<Rightarrow> py_float \<Rightarrow> nat \<Rightarrow>
   py_float \<Rightarrow> (nat \<Rightarrow> py_float) \<Rightarrow> py_float \<Rightarrow> failover \<Rightarrow> failover" where
  "failover_call direct relay peers direct_timeout limit started clock timeout prev =
     (if timeout \<le> 0 then prev\<lparr>fo_result := Inl Timeout_error\<rparr>
      else (case direct (min direct_timeout timeout) of
              Inr response \<Rightarrow> \<lparr>fo_result = Inr response, fo_path = Some ''direct'', fo_relay = None\<rparr>
            | Inl e \<Rightarrow>
                if \<not> retryable e then prev\<lparr>fo_result := Inl e\<rparr>
                else (case relay_loop relay clock started timeout limit 0 peers of
                        Inr (response, p) \<Rightarrow> \<lparr>fo_result = Inr response, fo_path = Some ''relay'', fo_relay = Some p\<rparr>
                      | Inl Timeout_error \<Rightarrow> \<lparr>fo_result = Inl Timeout_error, fo_path = Some ''failed'', fo_relay = None\<rparr>
                      | Inl x \<Rightarrow> prev\<lparr>fo_result := Inl x\<rparr>)))"

section \<open>Slots\<close>

definition policy_ok :: "relay_policy \<Rightarrow> bool" where
  "policy_ok p \<longleftrightarrow>
     distinct (map fst (rp_by p)) \<and> (\<forall>x \<in> set (rp_by p). 1 \<le> snd x \<and> snd x \<le> rp_max_source p) \<and>
     rp_total p = sum_list (map snd (rp_by p)) \<and> rp_total p \<le> rp_max p"

lemma sum_list_nonneg_snd: "\<forall>x \<in> set xs. 1 \<le> snd x \<Longrightarrow> 0 \<le> sum_list (map snd (xs :: (string \<times> int) list))"
  by (induction xs) auto

lemma update_facts:
  fixes xs :: "(string \<times> int) list"
  assumes "distinct (map fst xs)"
  shows "sum_list (map snd (AList.update k v xs)) = sum_list (map snd xs) + v - (case map_of xs k of None \<Rightarrow> 0 | Some n \<Rightarrow> n)"
    and "\<forall>x \<in> set (AList.update k v xs). x \<in> set xs \<or> x = (k, v)"
    and "AList.update k w (AList.update k v xs) = AList.update k w xs"
  using assms by (induction xs) auto

lemma delete_update_new: "k \<notin> fst ` set xs \<Longrightarrow> AList.delete k (AList.update k v xs) = (xs :: (string \<times> int) list)"
  by (induction xs) (auto simp: AList.delete_eq)

lemma update_same: "map_of xs k = Some v \<Longrightarrow> AList.update k v xs = (xs :: (string \<times> int) list)"
  by (induction xs) (auto split: if_splits)

lemma map_of_update: "map_of (AList.update k v xs) k = Some v"
  by (simp add: AList.update_conv')

lemma in_flight_bound:
  assumes "policy_ok p" "map_of (rp_by p) s = Some n"
  shows "1 \<le> n \<and> n \<le> rp_max_source p"
  using assms map_of_SomeD [OF assms(2)] by (auto simp: policy_ok_def)

lemma acquire_ok:
  assumes "policy_ok p" "acquire s p = Inr q"
  shows "policy_ok q" "in_flight q s = in_flight p s + 1" "rp_total q = rp_total p + 1"
proof -
  have q: "q = p\<lparr>rp_total := rp_total p + 1, rp_by := AList.update s (in_flight p s + 1) (rp_by p)\<rparr>"
    and room: "rp_total p < rp_max p" "in_flight p s < rp_max_source p"
    using assms(2) by (auto simp: acquire_def Let_def split: if_splits)
  have d: "distinct (map fst (rp_by p))" using assms(1) by (simp add: policy_ok_def)
  have n: "0 \<le> in_flight p s"
    using in_flight_bound [OF assms(1)] by (force simp: in_flight_def split: option.split)
  note u = update_facts [OF d, where k = s and v = "in_flight p s + 1"]
  have "\<forall>x \<in> set (rp_by q). 1 \<le> snd x \<and> snd x \<le> rp_max_source q"
    using u(2) room(2) n assms(1) by (fastforce simp: q policy_ok_def)
  moreover have "rp_total q = sum_list (map snd (rp_by q))"
    using u(1) assms(1) by (simp add: q policy_ok_def in_flight_def)
  ultimately show "policy_ok q" using d room(1) by (simp add: policy_ok_def q AList.distinct_update)
  show "in_flight q s = in_flight p s + 1" "rp_total q = rp_total p + 1"
    by (simp_all add: q in_flight_def map_of_update)
qed

lemma release_acquire:
  assumes "policy_ok p" "acquire s p = Inr q"
  shows "release s q = p"
proof -
  have q: "q = p\<lparr>rp_total := rp_total p + 1, rp_by := AList.update s (in_flight p s + 1) (rp_by p)\<rparr>"
    using assms(2) by (auto simp: acquire_def Let_def split: if_splits)
  have d: "distinct (map fst (rp_by p))" using assms(1) by (simp add: policy_ok_def)
  have t: "0 \<le> rp_total p"
    using assms(1) sum_list_nonneg_snd [of "rp_by p"] by (simp add: policy_ok_def)
  note c = acquire_ok(2) [OF assms]
  have "(if 1 < in_flight p s + 1 then AList.update s (in_flight p s + 1 - 1) (rp_by q)
     else if in_flight p s + 1 = 1 then AList.delete s (rp_by q) else rp_by q) = rp_by p"
  proof (cases "map_of (rp_by p) s")
    case None
    then have "s \<notin> fst ` set (rp_by p)" by (simp add: map_of_eq_None_iff)
    then show ?thesis using None by (simp add: q in_flight_def delete_update_new)
  next
    case (Some n)
    then show ?thesis
      using in_flight_bound [OF assms(1) Some] update_facts(3) [OF d] update_same [OF Some] by (simp add: q in_flight_def)
  qed
  then have "release s q = q\<lparr>rp_by := rp_by p, rp_total := rp_total p\<rparr>"
    using t unfolding release_def c Let_def by (simp add: q)
  then show ?thesis by (simp add: q)
qed

text \<open>C22: The relay's in-flight accounting is exact: whatever a request and its target do (invalid messages, refused
  routes, timeouts, malformed answers, success), handling it returns every slot it took, and while it is being forwarded
  the total stays the sum of the sources' counts, at most \<open>max_pending\<close>, with at most \<open>max_pending_per_source\<close> for one source.
\<close>
theorem relay_slots_are_returned:
  assumes "policy_ok p"
  shows "snd (relay_handle supported local table freshness wall now wall2 nonce forward raw timeout p) = p \<and>
    (\<forall>s q. acquire s p = Inr q \<longrightarrow> policy_ok q)"
proof -
  have "release s q = p" if "acquire s p = Inr q" for s q by (rule release_acquire [OF assms that])
  then show ?thesis using acquire_ok(1) [OF assms] by (auto simp: relay_handle_def Let_def split: sum.split)
qed

theorem relay_slots_are_returned_witness:
  "\<exists>p. acquire ''pa'' \<lparr>rp_trusted = [''pa''], rp_targets = [''pb''], rp_services = allowed_relay_services, rp_max = 2, rp_max_source = 1,
        rp_total = 0, rp_by = []\<rparr> = Inr p \<and> policy_ok p \<and>
     snd (relay_handle [''storage.summary''] bob (\<lambda>x. None) 30 5 5 5 [] (\<lambda>r b t. Inl Timeout_error) (Raw_reply []) 1 p) = p"
proof -
  let ?p = "\<lparr>rp_trusted = [''pa''], rp_targets = [''pb''], rp_services = allowed_relay_services, rp_max = 2, rp_max_source = 1,
        rp_total = 1, rp_by = [(''pa'', 1)]\<rparr>"
  have ok: "policy_ok ?p" by (simp add: policy_ok_def)
  have "acquire ''pa'' \<lparr>rp_trusted = [''pa''], rp_targets = [''pb''], rp_services = allowed_relay_services, rp_max = 2, rp_max_source = 1,
        rp_total = 0, rp_by = []\<rparr> = Inr ?p" by (simp add: acquire_def in_flight_def)
  with ok show ?thesis using relay_slots_are_returned [OF ok] by blast
qed

text \<open>
  What is forwarded: the request of a trusted source for an allowed service of a registered target with a fresh
  authenticated route, addressed to that target, within both time budgets.
\<close>

lemma bind_if_Inr: "(if b then Inl e else m) = Inr x \<longleftrightarrow> \<not> b \<and> m = Inr x"
  by auto

lemma authorize_Inr [simp]:
  "authorize p source target service = Inr u \<longleftrightarrow>
     source \<in> set (rp_trusted p) \<and> target \<in> set (rp_targets p) \<and> service \<in> set (rp_services p)"
  by (auto simp: authorize_def)

lemma route_get_Inr: "route_get now age peer table = Inr r \<longleftrightarrow> 0 < age \<and> table peer = Some r \<and> now - oe_seen r \<le> age"
  by (auto simp: route_get_def not_le split: option.split)

lemma relay_checks_Inr:
  assumes "relay_checks supported local table p freshness wall now raw timeout = Inr hop"
  shows "ev_type (rh_env hop) = ''relay_req'' \<and> id_peer (ev_dest (rh_env hop)) = id_peer local \<and>
    ev_type (rh_inner hop) = ''req'' \<and> id_peer (ev_dest (rh_inner hop)) = rh_target hop \<and>
    id_peer (ev_source (rh_env hop)) \<in> set (rp_trusted p) \<and> rh_target hop \<in> set (rp_targets p) \<and>
    (case ev_service (rh_inner hop) of None \<Rightarrow> [] | Some s \<Rightarrow> s) \<in> set (rp_services p) \<and>
    table (rh_target hop) = Some (rh_route hop) \<and> now - oe_seen (rh_route hop) \<le> freshness \<and>
    0 < rh_budget hop \<and> rh_budget hop \<le> timeout"
  using assms
  unfolding relay_checks_def Let_def bind_r_Inr bind_if_Inr authorize_Inr route_get_Inr sum.inject
  by (elim exE conjE, hypsubst, simp)

section \<open>Failover promises\<close>

lemma relay_loop_take:
  "relay_loop relay clock started timeout limit k (take (limit - k) ps) = relay_loop relay clock started timeout limit k ps"
proof (induction ps arbitrary: k)
  case (Cons q ps)
  show ?case
  proof (cases "limit \<le> k")
    case False
    then have "limit - k = Suc (limit - Suc k)" by simp
    then show ?thesis using Cons.IH [of "Suc k"] by (simp add: Let_def split: sum.split)
  qed (cases ps; simp)
qed simp

lemma relay_loop_answer:
  "relay_loop relay clock started timeout limit k ps = Inr (answer, p) \<Longrightarrow>
     p \<in> set ps \<and> (\<exists>left. 0 < left \<and> left \<le> timeout \<and> relay p left = Inr answer)"
proof (induction ps arbitrary: k)
  case (Cons q ps)
  show ?case
  proof (cases "relay q (timeout - max 0 (clock k - started))")
    case (Inl e)
    then show ?thesis using Cons by (auto simp: Let_def split: if_splits)
  next
    case (Inr y)
    then show ?thesis using Cons.prems
      by (auto simp: Let_def not_le split: if_splits intro!: exI [of _ "timeout - max 0 (clock k - started)"])
  qed
qed simp

text \<open> Failover is bounded and truthful: an answer is the direct answer, reported as such, or, only after a retryable
  failure of the direct path, the answer of the relay it names, asked within the time that was left and
  one of the first \<open>max_relay_attempts\<close> configured; relays beyond those cannot influence the call.
\<close>
theorem failover_is_bounded:
  assumes "fo_result (failover_call direct relay peers direct_timeout limit started clock timeout prev) = Inr answer"
  shows "failover_call direct relay (take limit peers) direct_timeout limit started clock timeout prev =
      failover_call direct relay peers direct_timeout limit started clock timeout prev \<and>
    (let c = failover_call direct relay peers direct_timeout limit started clock timeout prev
     in fo_path c = Some ''direct'' \<and> fo_relay c = None \<and> direct (min direct_timeout timeout) = Inr answer \<or>
        fo_path c = Some ''relay'' \<and>
        (\<exists>p \<in> set (take limit peers). fo_relay c = Some p \<and> (\<exists>left. 0 < left \<and> left \<le> timeout \<and> relay p left = Inr answer)) \<and>
        (\<exists>e. direct (min direct_timeout timeout) = Inl e \<and> retryable e))"
proof -
  have cut: "relay_loop relay clock started timeout limit 0 (take limit peers) = relay_loop relay clock started timeout limit 0 peers"
    using relay_loop_take [of relay clock started timeout limit 0 peers] by simp
  show ?thesis
  proof (cases "direct (min direct_timeout timeout)")
    case (Inr y)
    then show ?thesis using assms by (auto simp: failover_call_def split: if_splits)
  next
    case (Inl e)
    have e: "0 < timeout" "retryable e" using assms Inl by (auto simp: failover_call_def split: if_splits)
    then obtain y q where "relay_loop relay clock started timeout limit 0 peers = Inr (y, q)"
      using assms Inl by (auto simp: failover_call_def split: if_splits sum.splits tep_exn.splits)
    then show ?thesis
      using assms e Inl cut relay_loop_answer [of relay clock started timeout limit 0 "take limit peers" y q]
      by (auto simp: failover_call_def)
  qed
qed

theorem failover_is_bounded_witness:
  "fo_result (failover_call (\<lambda>t. Inl Timeout_error) (\<lambda>p t. if p = ''r2'' then Inr ''pong'' else Inl Os_error) [''r1'', ''r2'', ''r3''] (6/5) 2 10
      (\<lambda>k. 11 + of_nat k) 3 \<lparr>fo_result = Inl Os_error, fo_path = None, fo_relay = None\<rparr>) = Inr ''pong'' \<and>
   fo_relay (failover_call (\<lambda>t. Inl Timeout_error) (\<lambda>p t. if p = ''r2'' then Inr ''pong'' else Inl Os_error) [''r1'', ''r2'', ''r3''] (6/5) 2 10
      (\<lambda>k. 11 + of_nat k) 3 \<lparr>fo_result = Inl Os_error, fo_path = None, fo_relay = None\<rparr>) = Some ''r2''"
proof -
  let ?c = "failover_call (\<lambda>t. Inl Timeout_error) (\<lambda>p t. if p = ''r2'' then Inr ''pong'' else Inl Os_error) [''r1'', ''r2'', ''r3''] (6/5) 2 10
      (\<lambda>k. 11 + of_nat k) 3 \<lparr>fo_result = Inl Os_error, fo_path = None, fo_relay = None\<rparr>"
  have a: "fo_result ?c = Inr ''pong''" by (simp add: failover_call_def retryable_def Let_def)
  from failover_is_bounded [OF a] a show ?thesis by (auto simp: Let_def split: if_splits)
qed

text \<open>
  A \<open>ProtocolError\<close> is not retried: when the first rendezvous is not registered, the call fails although the
  second relay would have answered (and an unregistered destination is never tried through a relay).
\<close>

lemma protocol_error_ends_failover:
  assumes "0 < timeout" "direct (min direct_timeout timeout) = Inl Timeout_error" "0 < limit"
    and "\<And>t. relay p1 t = Inl (Protocol_error c m)" "\<And>t. relay p2 t = Inr answer" "clock 0 = started"
  shows "fo_result (failover_call direct relay [p1, p2] direct_timeout limit started clock timeout prev) = Inl (Protocol_error c m)"
  using assms by (simp add: failover_call_def retryable_def Let_def)

end
