(* ===== verification/Tep_Daemon.thy ===== *)
theory Tep_Daemon
  imports Tep_Peers Tep_Replay Tep_Relay Tep_Services
begin

text \<open>
  The TEP daemon: \<open>TepEngine\<close> of \<open>tep/hb_tep.py\<close> with the overrides of \<open>tep/hb_tep_runtime.py\<close> and
  \<open>tep/hb_tep_runtime_ha.py\<close>. The cryptography, the clocks, the random values, the network and what the registries and
  local services answer are arguments. A handler the receive loop starts in a thread is a task of the state; a
  handler that waits for an answer takes it as an argument, so one handler is one step.
\<close>

section \<open>State\<close>

text \<open>\<open>cy_derive\<close> is \<open>derive_shared_key\<close> (\<open>None\<close>: it raises), \<open>cy_decrypt\<close> takes ciphertext, key and nonce.\<close>

record tep_crypto =
  cy_have :: bool
  cy_pubkey :: string
  cy_derive :: "string \<Rightarrow> string option"
  cy_encrypt :: cipher
  cy_decrypt :: "string \<Rightarrow> string \<Rightarrow> string \<Rightarrow> string option"

record tep_config =
  tc_node :: string
  tc_peer :: string
  tc_crypto :: tep_crypto
  tc_supported :: "string list"
  tc_relay_enabled :: bool
  tc_clients :: "string list"
  tc_trusted :: "string list"
  tc_rendezvous :: "string list"

type_synonym address = "string \<times> int"

text \<open>What a step reads: clocks, random values, the registry, the network, the answer waited for, the local services.\<close>

record surroundings =
  sr_wall :: py_float
  sr_mono :: py_float
  sr_rid :: string
  sr_nonce :: string
  sr_nodes :: "jobj list option"
  sr_send :: "string \<Rightarrow> address \<Rightarrow> bool"
  sr_reply :: "string option"
  sr_storage :: local_answer
  sr_master :: local_answer
  sr_agent :: "jobj \<Rightarrow> local_answer"

record tep_stats =
  st_sent :: nat
  st_recv :: nat
  st_dropped :: nat
  st_online :: nat
  st_requests :: nat
  st_responses :: nat
  st_errors :: nat
  st_auth :: nat
  st_replay :: nat
  st_relay :: nat

datatype task = App_task envelope peer address | Relay_task envelope peer address

record sent_packet =
  sp_type :: nat
  sp_peer :: string
  sp_plain :: string
  sp_addr :: address
  sp_bytes :: string

record daemon =
  dm_peers :: peer_manager
  dm_refreshed :: "string \<rightharpoonup> py_float"
  dm_routes :: relay_table
  dm_replay :: replay_cache
  dm_pending :: "(string \<times> string option) list"
  dm_counter :: nat
  dm_stats :: tep_stats
  dm_tasks :: "task list"
  dm_sent :: "sent_packet list"

type_synonym 'a action = "(tep_exn, daemon, 'a) st"

definition of_r :: "tep_exn + 'a \<Rightarrow> 'a action" where "of_r r d = (r, d)"
definition get_d :: "(daemon \<Rightarrow> 'a) \<Rightarrow> 'a action" where "get_d f d = (Inr (f d), d)"
definition upd_d :: "(daemon \<Rightarrow> daemon) \<Rightarrow> unit action" where "upd_d f d = (Inr (), f d)"
definition raise :: "tep_exn \<Rightarrow> 'a action" where "raise e d = (Inl e, d)"

text \<open>\<open>try: m finally: f\<close> and \<open>except\<close> clauses as a function of the exception.\<close>

definition finally_d :: "'a action \<Rightarrow> (daemon \<Rightarrow> daemon) \<Rightarrow> 'a action" where
  "finally_d m f d = (case m d of (r, d1) \<Rightarrow> (r, f d1))"

definition catch_d :: "'a action \<Rightarrow> (tep_exn \<Rightarrow> 'a action) \<Rightarrow> 'a action" where
  "catch_d m h d = (case m d of (Inl e, d1) \<Rightarrow> h e d1 | (Inr x, d1) \<Rightarrow> (Inr x, d1))"

definition upd_stats :: "(tep_stats \<Rightarrow> tep_stats) \<Rightarrow> daemon \<Rightarrow> daemon" where
  "upd_stats f d = d\<lparr>dm_stats := f (dm_stats d)\<rparr>"

definition upd_table :: "(peer list \<Rightarrow> peer list) \<Rightarrow> daemon \<Rightarrow> daemon" where
  "upd_table f d = d\<lparr>dm_peers := (dm_peers d)\<lparr>pm_peers := f (pm_peers (dm_peers d))\<rparr>\<rparr>"

definition table :: "daemon \<Rightarrow> peer list" where "table d = pm_peers (dm_peers d)"

definition bump_sent :: "tep_stats \<Rightarrow> tep_stats" where "bump_sent s = s\<lparr>st_sent := Suc (st_sent s)\<rparr>"
definition bump_recv :: "tep_stats \<Rightarrow> tep_stats" where "bump_recv s = s\<lparr>st_recv := Suc (st_recv s)\<rparr>"
definition bump_dropped :: "tep_stats \<Rightarrow> tep_stats" where "bump_dropped s = s\<lparr>st_dropped := Suc (st_dropped s)\<rparr>"
definition bump_auth :: "tep_stats \<Rightarrow> tep_stats" where "bump_auth s = s\<lparr>st_auth := Suc (st_auth s)\<rparr>"
definition bump_errors :: "tep_stats \<Rightarrow> tep_stats" where "bump_errors s = s\<lparr>st_errors := Suc (st_errors s)\<rparr>"
definition bump_replay :: "tep_stats \<Rightarrow> tep_stats" where "bump_replay s = s\<lparr>st_replay := Suc (st_replay s)\<rparr>"
definition bump_relay :: "tep_stats \<Rightarrow> tep_stats" where "bump_relay s = s\<lparr>st_relay := Suc (st_relay s)\<rparr>"
definition bump_served :: "tep_stats \<Rightarrow> tep_stats" where
  "bump_served s = s\<lparr>st_requests := Suc (st_requests s), st_responses := Suc (st_responses s)\<rparr>"

definition dropped :: "unit action" where "dropped = upd_d (upd_stats bump_dropped)"
definition rejected :: "unit action" where "rejected = upd_d (upd_stats (bump_auth \<circ> bump_dropped))"

section \<open>Identity and sending\<close>

definition app_ready :: "tep_config \<Rightarrow> bool" where
  "app_ready cfg \<longleftrightarrow> cy_have (tc_crypto cfg) \<and> tc_peer cfg \<noteq> [] \<and> cy_pubkey (tc_crypto cfg) \<noteq> []"

definition local_identity :: "tep_config \<Rightarrow> identity" where
  "local_identity cfg = \<lparr>id_node = tc_node cfg, id_peer = tc_peer cfg\<rparr>"

definition peer_identity :: "peer \<Rightarrow> identity" where
  "peer_identity p = \<lparr>id_node = pr_id p, id_peer = (case pr_peer p of None \<Rightarrow> [] | Some x \<Rightarrow> x)\<rparr>"

definition now_ms :: "surroundings \<Rightarrow> int" where "now_ms sr = py_trunc (sr_wall sr * 1000)"
definition now_secs :: "surroundings \<Rightarrow> nat" where "now_secs sr = nat (py_trunc (sr_wall sr))"

definition app_packet_types :: "nat list" where "app_packet_types = [0x20, 0x21, 0x22, 0x23, 0x24]"

definition expected_type :: "nat \<Rightarrow> string option" where
  "expected_type t =
     map_of [(0x20, ''req''), (0x21, ''res''), (0x22, ''err''), (0x23, ''relay_req''), (0x24, ''relay_res'')] t"

text \<open>\<open>sendto\<close>: a port beyond 16 bits is an \<open>OverflowError\<close>, not an \<open>OSError\<close>.\<close>

definition send_to :: "surroundings \<Rightarrow> string \<Rightarrow> address \<Rightarrow> tep_exn + unit" where
  "send_to sr pkt addr =
     (if snd addr < 0 \<or> 65535 < snd addr then Inl Other_error
      else if sr_send sr pkt addr then Inr () else Inl Os_error)"

text \<open>\<open>_build_packet\<close> with the next counter, then \<open>sendto\<close>.\<close>

definition transmit :: "tep_config \<Rightarrow> surroundings \<Rightarrow> string \<Rightarrow> nat \<Rightarrow> string \<Rightarrow> string \<Rightarrow> address \<Rightarrow> unit action" where
  "transmit cfg sr node ptype body key addr =
     st_bind (upd_d (\<lambda>d. d\<lparr>dm_counter := Suc (dm_counter d)\<rparr>)) (\<lambda>_.
     st_bind (get_d dm_counter) (\<lambda>counter.
     st_bind (of_r (build_packet (cy_encrypt (tc_crypto cfg)) (tc_node cfg) ptype body key (now_secs sr) counter)) (\<lambda>pkt.
     st_bind (of_r (send_to sr pkt addr)) (\<lambda>_.
       upd_d (\<lambda>d. upd_stats bump_sent
         (d\<lparr>dm_sent := dm_sent d @ [\<lparr>sp_type = ptype, sp_peer = node, sp_plain = body, sp_addr = addr, sp_bytes = pkt\<rparr>]\<rparr>))))))"

definition send_plain :: "tep_config \<Rightarrow> surroundings \<Rightarrow> peer \<Rightarrow> nat \<Rightarrow> string \<Rightarrow> address option \<Rightarrow> unit action" where
  "send_plain cfg sr peer ptype body addr =
     (if \<not> filled (pr_pubkey peer) \<or> \<not> cy_have (tc_crypto cfg)
        then raise (Protocol_error ''authentication_failed'' ''APP transport requires registered X25519 peer key'')
      else (case cy_derive (tc_crypto cfg) (the (pr_pubkey peer)) of
              None \<Rightarrow> raise Value_error
            | Some key \<Rightarrow>
                transmit cfg sr (pr_id peer) ptype body key (case addr of None \<Rightarrow> (pr_ip peer, pr_port peer) | Some a \<Rightarrow> a)))"

section \<open>Pending requests\<close>

definition max_pending :: nat where "max_pending = 256"

definition pending_create :: "string \<Rightarrow> unit action" where
  "pending_create rid d =
     (if rid \<in> fst ` set (dm_pending d) then (Inl (Protocol_error ''duplicate_request_id'' ''request already pending''), d)
      else if max_pending \<le> length (dm_pending d)
        then (Inl (Protocol_error ''client_overloaded'' ''too many pending APP requests''), d)
      else (Inr (), d\<lparr>dm_pending := dm_pending d @ [(rid, None)]\<rparr>))"

definition pending_complete :: "string \<Rightarrow> string \<Rightarrow> bool action" where
  "pending_complete rid raw d =
     (if rid \<in> fst ` set (dm_pending d)
        then (Inr True, d\<lparr>dm_pending := tbl_update (\<lambda>x. fst x = rid) (\<lambda>x. (fst x, Some raw)) (dm_pending d)\<rparr>)
      else (Inr False, d))"

definition pending_remove :: "string \<Rightarrow> daemon \<Rightarrow> daemon" where
  "pending_remove rid d = d\<lparr>dm_pending := filter (\<lambda>x. fst x \<noteq> rid) (dm_pending d)\<rparr>"

text \<open>Register, send, wait for the answer \<open>sr_reply\<close>, remove.\<close>

definition roundtrip :: "string \<Rightarrow> unit action \<Rightarrow> (string \<Rightarrow> tep_exn + 'a) \<Rightarrow> surroundings \<Rightarrow> 'a action" where
  "roundtrip rid send read sr =
     st_bind (pending_create rid) (\<lambda>_.
       finally_d
         (st_bind send (\<lambda>_. of_r (case sr_reply sr of None \<Rightarrow> Inl Timeout_error | Some raw \<Rightarrow> read raw)))
         (pending_remove rid))"

section \<open>Transports\<close>

definition protocol :: "string \<Rightarrow> string \<Rightarrow> tep_exn + 'a" where
  "protocol c m = Inl (Protocol_error c m)"

definition not_ready :: "tep_exn + 'a" where
  "not_ready = protocol ''app_unavailable'' ''HB-TEP-APP/1 is not ready''"

definition is_self :: "tep_config \<Rightarrow> identity \<Rightarrow> bool" where
  "is_self cfg i \<longleftrightarrow> id_node i = tc_node cfg \<and> id_peer i = tc_peer cfg"

definition known_peer :: "string \<Rightarrow> tep_exn \<Rightarrow> daemon \<Rightarrow> tep_exn + peer" where
  "known_peer pid e d =
     (case find_by_peer_id pid (table d) of
        None \<Rightarrow> Inl e
      | Some p \<Rightarrow> if filled (pr_pubkey p) then Inr p else Inl e)"

definition unknown_destination :: "string \<Rightarrow> tep_exn" where
  "unknown_destination m = Protocol_error ''destination_unknown'' m"

definition app_transport :: "tep_config \<Rightarrow> surroundings \<Rightarrow> string \<Rightarrow> string \<Rightarrow> address option \<Rightarrow> string action" where
  "app_transport cfg sr dest raw override =
     (if \<not> app_ready cfg then of_r not_ready
      else st_bind (of_r (decode_message (tc_supported cfg) (Some (now_ms sr)) raw)) (\<lambda>env.
        if ev_type env \<noteq> ''req'' then of_r (protocol ''unsupported_type'' ''app_transport accepts req only'')
        else if \<not> is_self cfg (ev_source env) then of_r (protocol ''identity_mismatch'' ''local request source identity mismatch'')
        else if id_peer (ev_dest env) \<noteq> dest then of_r (protocol ''identity_mismatch'' ''destination peer mismatch'')
        else st_bind (\<lambda>d. (known_peer dest (unknown_destination ''destination peer is not registered for APP'') d, d)) (\<lambda>peer.
          roundtrip (ev_request env) (send_plain cfg sr peer 0x20 raw override) Inr sr)))"

text \<open>
  \<open>base64.urlsafe_b64decode\<close>: characters outside the alphabet are skipped and decoding stops at the padding that
  completes a group. \<open>q\<close> is the position in the group, \<open>left\<close> the bits not yet used, \<open>pads\<close> the padding seen.
\<close>

fun b64_lenient :: "nat \<Rightarrow> nat \<Rightarrow> nat \<Rightarrow> string \<Rightarrow> string option" where
  "b64_lenient q left pads [] = (if q = 0 then Some [] else None)"
| "b64_lenient q left pads (c # cs) =
     (if c = CHR ''='' then
        (if 2 \<le> q \<and> 4 \<le> q + Suc pads then Some [] else b64_lenient q left (if 2 \<le> q then Suc pads else pads) cs)
      else (case b64_val c of
              None \<Rightarrow> b64_lenient q left pads cs
            | Some v \<Rightarrow>
                if q = 0 then b64_lenient 1 v 0 cs
                else if q = 1 then map_option ((#) (char_of (left * 4 + v div 16))) (b64_lenient 2 (v mod 16) 0 cs)
                else if q = 2 then map_option ((#) (char_of (left * 16 + v div 4))) (b64_lenient 3 (v mod 4) 0 cs)
                else map_option ((#) (char_of (left * 64 + v))) (b64_lenient 0 0 0 cs)))"

definition inner_of :: "jobj \<Rightarrow> json" where
  "inner_of m = (case jget_def_to m ''payload'' (JObj []) of JObj p \<Rightarrow> jget_def_to p ''inner'' (JStr []) | _ \<Rightarrow> JNull)"

text \<open>\<open>base64.urlsafe_b64decode(str(inner).encode("ascii"))\<close>; \<open>None\<close> is whatever it raises.\<close>

definition ascii_b64 :: "string \<Rightarrow> string option" where
  "ascii_b64 text = (if \<exists>c \<in> set text. 128 \<le> (of_char c :: nat) then None else b64_lenient 0 0 0 text)"

definition inner_bytes :: "jobj \<Rightarrow> string option" where
  "inner_bytes m = ascii_b64 (py_str (inner_of m))"

text \<open>The base transport leaves out the \<open>str\<close>: an \<open>inner\<close> that is not a text raises.\<close>

definition inner_text_bytes :: "jobj \<Rightarrow> string option" where
  "inner_text_bytes m = (case inner_of m of JStr text \<Rightarrow> ascii_b64 text | _ \<Rightarrow> None)"

definition relay_ttl :: "py_float \<Rightarrow> int" where
  "relay_ttl timeout = min 5000 (max 1 (py_trunc (timeout * 1000)))"

text \<open>What comes back through a rendezvous: a \<open>relay_res\<close> with the inner answer.\<close>

definition read_relayed ::
  "tep_config \<Rightarrow> surroundings \<Rightarrow> (jobj \<Rightarrow> string option) \<Rightarrow> (string \<Rightarrow> string \<Rightarrow> tep_exn) \<Rightarrow> string \<Rightarrow> string \<Rightarrow> string \<Rightarrow> tep_exn + string" where
  "read_relayed cfg sr inner err wrong invalid raw =
     bind_r (decode_message (tc_supported cfg) (Some (now_ms sr)) raw) (\<lambda>env.
       if ev_type env \<noteq> ''relay_res'' then Inl (err ''bad_response'' wrong)
       else (case inner (ev_raw env) of None \<Rightarrow> Inl (err ''bad_response'' invalid) | Some b \<Rightarrow> Inr b))"

definition relay_transport_base :: "tep_config \<Rightarrow> surroundings \<Rightarrow> string \<Rightarrow> string \<Rightarrow> string \<Rightarrow> py_float \<Rightarrow> string action" where
  "relay_transport_base cfg sr rendezvous target raw timeout =
     (if \<not> app_ready cfg then of_r not_ready
      else st_bind (\<lambda>d. (known_peer rendezvous (unknown_destination ''rendezvous peer is not registered'') d, d)) (\<lambda>rp.
        st_bind (of_r (new_relay_request (sr_rid sr) (sr_nonce sr) (now_ms sr) (local_identity cfg) (peer_identity rp) target raw
                   (relay_ttl timeout))) (\<lambda>msg.
        st_bind (of_r (encode_message (tc_supported cfg) msg)) (\<lambda>encoded.
          roundtrip (sr_rid sr) (send_plain cfg sr rp 0x23 encoded None)
            (read_relayed cfg sr inner_text_bytes Protocol_error ''rendezvous did not return relay_res'' ''invalid relay response payload'') sr))))"

definition relay_forward :: "tep_config \<Rightarrow> surroundings \<Rightarrow> string \<Rightarrow> string \<Rightarrow> py_float \<Rightarrow> endpoint \<Rightarrow> string action" where
  "relay_forward cfg sr target inner timeout route =
     st_bind (\<lambda>d. (known_peer target (Relay_error ''destination_unknown'' ''relay target is not registered'') d, d)) (\<lambda>tp.
     st_bind (of_r (new_relay_request (sr_rid sr) (sr_nonce sr) (now_ms sr) (local_identity cfg) (peer_identity tp) target inner
                (relay_ttl timeout))) (\<lambda>msg.
     st_bind (of_r (encode_message (tc_supported cfg) msg)) (\<lambda>encoded.
       roundtrip (sr_rid sr) (send_plain cfg sr tp 0x23 encoded (Some (oe_ip route, oe_port route)))
         (read_relayed cfg sr inner_bytes Relay_error ''relay target did not return relay_res'' ''relay target returned invalid inner response'') sr)))"

text \<open>The override: the node may be its own rendezvous.\<close>

definition own_rendezvous_check :: "tep_config \<Rightarrow> string \<Rightarrow> envelope \<Rightarrow> tep_exn + unit" where
  "own_rendezvous_check cfg target env =
     (if ev_type env \<noteq> ''req'' then protocol ''unsupported_type'' ''local rendezvous accepts req only''
      else if \<not> is_self cfg (ev_source env) then protocol ''identity_mismatch'' ''local relay source identity mismatch''
      else if id_peer (ev_dest env) \<noteq> target then protocol ''identity_mismatch'' ''local relay target identity mismatch''
      else if ev_service env \<notin> Some ` set allowed_relay_services
        then protocol ''unsupported_service'' ''local relay permits approved read-only services only''
      else Inr ())"

definition from_relay :: "tep_exn \<Rightarrow> tep_exn" where
  "from_relay e = (case e of Relay_error c m \<Rightarrow> Protocol_error c m | _ \<Rightarrow> e)"

definition relay_transport :: "tep_config \<Rightarrow> surroundings \<Rightarrow> string \<Rightarrow> string \<Rightarrow> string \<Rightarrow> py_float \<Rightarrow> string action" where
  "relay_transport cfg sr rendezvous target raw timeout =
     (if rendezvous \<noteq> tc_peer cfg then relay_transport_base cfg sr rendezvous target raw timeout
      else if \<not> app_ready cfg then of_r not_ready
      else if \<not> tc_relay_enabled cfg then of_r (protocol ''relay_unauthorized'' ''local rendezvous relay is disabled'')
      else st_bind (of_r (bind_r (decode_message (tc_supported cfg) (Some (now_ms sr)) raw) (own_rendezvous_check cfg target))) (\<lambda>_.
        st_bind (\<lambda>d. (known_peer target (unknown_destination ''relay target is not registered'') d, d)) (\<lambda>tp.
          catch_d
            (st_bind (\<lambda>d. (route_get (sr_mono sr) route_freshness target (dm_routes d), d)) (relay_forward cfg sr target raw timeout))
            (\<lambda>e. raise (from_relay e)))))"

section \<open>Serving requests\<close>

definition send_app_error :: "tep_config \<Rightarrow> surroundings \<Rightarrow> envelope \<Rightarrow> peer \<Rightarrow> address \<Rightarrow> string \<Rightarrow> string \<Rightarrow> int \<Rightarrow> unit action" where
  "send_app_error cfg sr env peer addr code message status =
     catch_d
       (st_bind (of_r (bind_r (new_error (tc_supported cfg) (sr_nonce sr) (now_ms sr) (ev_raw env) (local_identity cfg) (ev_source env)
                                code (take 160 message) status)
                        (encode_message (tc_supported cfg)))) (\<lambda>raw.
        st_bind (send_plain cfg sr peer 0x22 raw (Some addr)) (\<lambda>_.
          upd_d (upd_stats bump_errors))))
       (\<lambda>e. dropped)"

text \<open>The \<open>except\<close> clauses of the request handlers; \<open>failed\<close> is the message of the last one.\<close>

definition request_failed :: "tep_config \<Rightarrow> surroundings \<Rightarrow> envelope \<Rightarrow> peer \<Rightarrow> address \<Rightarrow> string \<Rightarrow> tep_exn \<Rightarrow> unit action" where
  "request_failed cfg sr env peer addr failed e =
     (case e of
        Protocol_error c m \<Rightarrow>
          st_bind (upd_d (if c = ''replay_detected'' then upd_stats bump_replay else (\<lambda>d. d))) (\<lambda>_.
            send_app_error cfg sr env peer addr c m 400)
      | Service_error c m \<Rightarrow> send_app_error cfg sr env peer addr c m 503
      | _ \<Rightarrow> send_app_error cfg sr env peer addr ''internal_error'' failed 500)"

definition check_replay :: "surroundings \<Rightarrow> identity \<Rightarrow> string \<Rightarrow> unit action" where
  "check_replay sr source rid d =
     (case check_and_add (dm_replay d) (sr_mono sr) (id_peer source) rid of (r, c) \<Rightarrow> (r, d\<lparr>dm_replay := c\<rparr>))"

definition local_registry :: "surroundings \<Rightarrow> service_registry" where
  "local_registry sr =
     (case runtime_registry (sr_storage sr) (sr_master sr) of Inl e \<Rightarrow> [] | Inr reg \<Rightarrow> reg)"

text \<open>The response to a request, as bytes.\<close>

definition response_bytes :: "tep_config \<Rightarrow> surroundings \<Rightarrow> envelope \<Rightarrow> jobj \<Rightarrow> tep_exn + string" where
  "response_bytes cfg sr env result =
     bind_r (new_response (tc_supported cfg) (sr_nonce sr) (now_ms sr) (ev_raw env) (local_identity cfg) (ev_source env) result)
       (encode_message (tc_supported cfg))"

definition run_service :: "surroundings \<Rightarrow> envelope \<Rightarrow> tep_exn + jobj" where
  "run_service sr env =
     (if ev_service env = Some ''ha.lease'' then dispatch_lease (sr_agent sr) env else dispatch (local_registry sr) env)"

definition service_failed :: "envelope \<Rightarrow> string" where
  "service_failed env = (if ev_service env = Some ''ha.lease'' then ''ha.lease service failed'' else ''application service failed'')"

definition handle_app_request :: "tep_config \<Rightarrow> surroundings \<Rightarrow> envelope \<Rightarrow> peer \<Rightarrow> address \<Rightarrow> unit action" where
  "handle_app_request cfg sr env peer addr =
     catch_d
       (st_bind (check_replay sr (ev_source env) (ev_request env)) (\<lambda>_.
        st_bind (of_r (bind_r (run_service sr env) (response_bytes cfg sr env))) (\<lambda>raw.
        st_bind (send_plain cfg sr peer 0x21 raw (Some addr)) (\<lambda>_.
          upd_d (upd_stats bump_served)))))
       (request_failed cfg sr env peer addr (service_failed env))"

section \<open>Relaying\<close>

definition decode_inner :: "tep_config \<Rightarrow> surroundings \<Rightarrow> envelope \<Rightarrow> tep_exn + string \<times> envelope" where
  "decode_inner cfg sr env =
     (case inner_bytes (ev_raw env) of
        None \<Rightarrow> Inl Value_error
      | Some raw \<Rightarrow> bind_r (decode_message (tc_supported cfg) (Some (now_ms sr)) raw) (\<lambda>inner. Inr (raw, inner)))"

definition relay_reply :: "tep_config \<Rightarrow> surroundings \<Rightarrow> envelope \<Rightarrow> string \<Rightarrow> string \<Rightarrow> tep_exn + string" where
  "relay_reply cfg sr env target inner =
     bind_r (new_relay_response (sr_nonce sr) (now_ms sr) (ev_raw env) (local_identity cfg) (ev_source env) target inner)
       (encode_message (tc_supported cfg))"

text \<open>The second hop: the request of a trusted rendezvous is served here.\<close>

definition inner_request_check :: "tep_config \<Rightarrow> envelope \<Rightarrow> tep_exn + unit" where
  "inner_request_check cfg inner =
     (if ev_type inner \<noteq> ''req'' then protocol ''unsupported_type'' ''relay inner must be req''
      else if \<not> is_self cfg (ev_dest inner) then protocol ''identity_mismatch'' ''relay inner destination mismatch''
      else Inr ())"

definition handle_relay_delivery :: "tep_config \<Rightarrow> surroundings \<Rightarrow> envelope \<Rightarrow> peer \<Rightarrow> address \<Rightarrow> unit action" where
  "handle_relay_delivery cfg sr env peer addr =
     (if id_peer (ev_source env) \<notin> set (tc_trusted cfg) then dropped
      else catch_d
        (st_bind (of_r (decode_inner cfg sr env)) (\<lambda>(raw, inner).
         st_bind (of_r (inner_request_check cfg inner)) (\<lambda>_.
         st_bind (check_replay sr (ev_source inner) (ev_request inner)) (\<lambda>_.
         st_bind (of_r (bind_r (dispatch (local_registry sr) inner) (\<lambda>result.
                        bind_r (response_bytes cfg sr inner result) (relay_reply cfg sr env (tc_peer cfg))))) (\<lambda>reply.
         st_bind (send_plain cfg sr peer 0x24 reply (Some addr)) (\<lambda>_.
           upd_d (upd_stats (bump_served \<circ> bump_relay))))))))
        (\<lambda>e. dropped))"

definition relay_target :: "envelope \<Rightarrow> string" where
  "relay_target env =
     (case jget_def_to (ev_raw env) ''relay_target'' (JObj []) of JObj t \<Rightarrow> py_str (jget_def_to t ''peer_id'' (JStr [])) | _ \<Rightarrow> [])"

definition relay_targets :: "peer list \<Rightarrow> string list" where
  "relay_targets t = map (the \<circ> pr_peer) (filter complete_identity t)"

text \<open>The first hop: an authorised client's request is forwarded to a registered target.\<close>

definition relay_permit :: "tep_config \<Rightarrow> surroundings \<Rightarrow> envelope \<Rightarrow> peer list \<Rightarrow> tep_exn + string" where
  "relay_permit cfg sr env t =
     bind_r (relay_policy (tc_clients cfg) (relay_targets t) allowed_relay_services 256 32) (\<lambda>policy.
     bind_r (decode_inner cfg sr env) (\<lambda>(raw, inner).
       if ev_type inner \<noteq> ''req'' \<or> id_peer (ev_dest inner) \<noteq> relay_target env
         then Inl (Relay_error ''identity_mismatch'' ''relay inner destination mismatch'')
       else bind_r (authorize policy (id_peer (ev_source env)) (relay_target env)
                      (case ev_service inner of None \<Rightarrow> [] | Some x \<Rightarrow> x)) (\<lambda>_. Inr raw)))"

definition relay_budget :: "envelope \<Rightarrow> py_float" where
  "relay_budget env = min 5 (max (1 / 1000) (of_int (case ev_ttl env of None \<Rightarrow> 1 | Some n \<Rightarrow> if n = 0 then 1 else n) / 1000))"

definition handle_relay_request :: "tep_config \<Rightarrow> surroundings \<Rightarrow> envelope \<Rightarrow> peer \<Rightarrow> address \<Rightarrow> unit action" where
  "handle_relay_request cfg sr env peer addr =
     (if relay_target env = tc_peer cfg then handle_relay_delivery cfg sr env peer addr
      else if \<not> tc_relay_enabled cfg \<or> id_peer (ev_source env) \<notin> set (tc_clients cfg) then dropped
      else
        st_bind (get_d (\<lambda>d. table d)) (\<lambda>t.
        catch_d
          (st_bind (check_replay sr (ev_source env) (ev_request env)) (\<lambda>_.
           st_bind (of_r (relay_permit cfg sr env t)) (\<lambda>inner_raw.
           st_bind (\<lambda>d. (route_get (sr_mono sr) route_freshness (relay_target env) (dm_routes d), d)) (\<lambda>route.
           st_bind (relay_forward cfg sr (relay_target env) inner_raw (relay_budget env) route) (\<lambda>answer.
           st_bind (of_r (relay_reply cfg sr env (relay_target env) answer)) (\<lambda>reply.
           st_bind (send_plain cfg sr peer 0x24 reply (Some addr)) (\<lambda>_.
             upd_d (upd_stats bump_relay))))))))
          (\<lambda>e. dropped)))"

definition run_task :: "tep_config \<Rightarrow> surroundings \<Rightarrow> task \<Rightarrow> unit action" where
  "run_task cfg sr t =
     (case t of
        App_task env peer addr \<Rightarrow> handle_app_request cfg sr env peer addr
      | Relay_task env peer addr \<Rightarrow> handle_relay_request cfg sr env peer addr)"

section \<open>Receiving\<close>

definition validate_app_identity :: "tep_config \<Rightarrow> envelope \<Rightarrow> peer \<Rightarrow> tep_exn + unit" where
  "validate_app_identity cfg env peer =
     (if id_node (ev_source env) \<noteq> pr_id peer \<or> Some (id_peer (ev_source env)) \<noteq> pr_peer peer
        then protocol ''identity_mismatch'' ''application source does not match authenticated TEP peer''
      else if \<not> is_self cfg (ev_dest env)
        then protocol ''identity_mismatch'' ''application destination does not match local TEP identity''
      else Inr ())"

definition app_peer_for_packet :: "tep_config \<Rightarrow> packet \<Rightarrow> peer list \<Rightarrow> peer option" where
  "app_peer_for_packet cfg pk t =
     (case find_by_wire (pk_node pk) t of
        None \<Rightarrow> None
      | Some p \<Rightarrow> if complete_identity p \<and> cy_have (tc_crypto cfg) then Some p else None)"

text \<open>The checks on a decrypted application packet.\<close>

definition admit_packet :: "tep_config \<Rightarrow> surroundings \<Rightarrow> packet \<Rightarrow> peer \<Rightarrow> string \<Rightarrow> tep_exn + envelope" where
  "admit_packet cfg sr pk peer body =
     (if pk_version pk \<noteq> 2 then protocol ''unsupported_version'' ''unsupported TEP transport version''
      else bind_r (decode_message (tc_supported cfg) (Some (now_ms sr)) body) (\<lambda>env.
           bind_r (validate_app_identity cfg env peer) (\<lambda>_.
             if Some (ev_type env) \<noteq> expected_type (pk_type pk)
             then protocol ''packet_envelope_mismatch'' ''TEP packet type does not match APP envelope''
             else Inr env)))"

text \<open>What an authenticated packet does to the table and the routes.\<close>

definition record_contact :: "surroundings \<Rightarrow> peer \<Rightarrow> address \<Rightarrow> unit action" where
  "record_contact sr peer addr =
     st_bind (upd_d (upd_table (\<lambda>t. snd (update_endpoint (pr_id peer) (fst addr) (snd addr) t)))) (\<lambda>_.
     st_bind (\<lambda>d. (observe (sr_mono sr) (the (pr_peer peer)) (fst addr) (snd addr) (the (pr_pubkey peer)) True (dm_routes d), d)) (\<lambda>(route, routes).
     st_bind (upd_d (\<lambda>d. d\<lparr>dm_routes := routes\<rparr>)) (\<lambda>_.
       upd_d (upd_table (mark_seen (sr_wall sr) (pr_id peer) 0 [])))))"

definition packet_rejected :: "tep_exn \<Rightarrow> unit action" where
  "packet_rejected e =
     (case e of
        Protocol_error c m \<Rightarrow> if c \<in> {''identity_mismatch'', ''authentication_failed''} then rejected else dropped
      | _ \<Rightarrow> raise e)"

definition handle_app_packet :: "tep_config \<Rightarrow> surroundings \<Rightarrow> packet \<Rightarrow> peer \<Rightarrow> string \<Rightarrow> address \<Rightarrow> unit action" where
  "handle_app_packet cfg sr pk peer body addr =
     catch_d
       (st_bind (of_r (admit_packet cfg sr pk peer body)) (\<lambda>env.
        st_bind (record_contact sr peer addr) (\<lambda>_.
          if ev_type env = ''req'' then upd_d (\<lambda>d. d\<lparr>dm_tasks := dm_tasks d @ [App_task env peer addr]\<rparr>)
          else if ev_type env = ''relay_req'' then upd_d (\<lambda>d. d\<lparr>dm_tasks := dm_tasks d @ [Relay_task env peer addr]\<rparr>)
          else st_bind (pending_complete (ev_request env) body) (\<lambda>known. if known then st_ret () else dropped))))
       packet_rejected"

definition receive_app :: "tep_config \<Rightarrow> surroundings \<Rightarrow> packet \<Rightarrow> address \<Rightarrow> unit action" where
  "receive_app cfg sr pk addr =
     (if \<not> app_ready cfg then dropped
      else st_bind (get_d (\<lambda>d. app_peer_for_packet cfg pk (table d))) (\<lambda>peer.
        case peer of
          None \<Rightarrow> rejected
        | Some p \<Rightarrow>
            (case cy_derive (tc_crypto cfg) (the (pr_pubkey p)) of
               None \<Rightarrow> rejected
             | Some key \<Rightarrow>
                 (case cy_decrypt (tc_crypto cfg) (pk_payload pk) key (pk_nonce pk) of
                    None \<Rightarrow> rejected
                  | Some body \<Rightarrow> handle_app_packet cfg sr pk p body addr))))"

text \<open>\<open>_ensure_peer_identity\<close> on the peer object of the table.\<close>

definition ensure_peer :: "surroundings \<Rightarrow> peer \<Rightarrow> (bool \<times> peer) action" where
  "ensure_peer sr peer d =
     (case ensure_identity (sr_mono sr) (sr_nodes sr) peer (dm_refreshed d) of
        (ok, peer1, refreshed) \<Rightarrow> (Inr (ok, peer1), 
          upd_table (update_peer (pr_id peer) (\<lambda>p. p\<lparr>pr_peer := pr_peer peer1, pr_pubkey := pr_pubkey peer1\<rparr>))
            (d\<lparr>dm_refreshed := refreshed\<rparr>)))"

definition heartbeat_check :: "peer \<Rightarrow> json \<Rightarrow> tep_exn + unit" where
  "heartbeat_check peer msg =
     (case msg of
        JObj m \<Rightarrow>
          if jget m ''type'' \<noteq> JStr ''heartbeat'' then protocol ''bad_heartbeat'' ''invalid heartbeat payload''
          else if jtext m ''node'' \<noteq> pr_id peer then protocol ''identity_mismatch'' ''heartbeat node identity mismatch''
          else if \<not> complete_identity peer then protocol ''authentication_failed'' ''heartbeat peer identity is incomplete''
          else if Some (jtext m ''pubkey'') \<noteq> pr_pubkey peer
            then protocol ''identity_mismatch'' ''heartbeat TEP public key mismatch''
          else Inr ()
      | _ \<Rightarrow> protocol ''bad_heartbeat'' ''invalid heartbeat payload'')"

definition loads_value :: "string \<Rightarrow> tep_exn + json" where
  "loads_value body = (case loads_bytes body of Inl e \<Rightarrow> Inl Value_error | Inr v \<Rightarrow> Inr v)"

text \<open>\<open>except (ValueError, UnicodeDecodeError, ProtocolError)\<close>; a \<open>RelayError\<close> is neither.\<close>

definition heartbeat_rejected :: "tep_exn \<Rightarrow> unit action" where
  "heartbeat_rejected e = (case e of Protocol_error c m \<Rightarrow> dropped | Value_error \<Rightarrow> dropped | _ \<Rightarrow> raise e)"

definition record_heartbeat :: "surroundings \<Rightarrow> peer \<Rightarrow> json \<Rightarrow> address \<Rightarrow> unit action" where
  "record_heartbeat sr peer msg addr = st_bind (of_r (heartbeat_check peer msg)) (\<lambda>_. record_contact sr peer addr)"

definition heartbeat_peer :: "packet \<Rightarrow> address \<Rightarrow> peer list \<Rightarrow> peer option" where
  "heartbeat_peer pk addr t =
     (case find_by_wire (pk_node pk) t of None \<Rightarrow> find (\<lambda>p. pr_ip p = fst addr) t | Some p \<Rightarrow> Some p)"

definition receive_heartbeat :: "tep_config \<Rightarrow> surroundings \<Rightarrow> packet \<Rightarrow> address \<Rightarrow> unit action" where
  "receive_heartbeat cfg sr pk addr =
     st_bind (get_d (\<lambda>d. heartbeat_peer pk addr (table d))) (\<lambda>found.
     case found of
       None \<Rightarrow> dropped
     | Some p0 \<Rightarrow>
         st_bind (ensure_peer sr p0) (\<lambda>(ok, p).
         if \<not> ok then dropped
         else (case cy_derive (tc_crypto cfg) (the (pr_pubkey p)) of
                 None \<Rightarrow> dropped
               | Some key \<Rightarrow>
                   (case cy_decrypt (tc_crypto cfg) (pk_payload pk) key (pk_nonce pk) of
                      None \<Rightarrow> dropped
                    | Some body \<Rightarrow>
                        catch_d (st_bind (of_r (loads_value body)) (\<lambda>msg. record_heartbeat sr p msg addr)) heartbeat_rejected))))"

text \<open>One turn of \<open>_recv_loop\<close> on a datagram; an \<open>Inl\<close> leaves the loop, and the daemon stops receiving.\<close>

definition receive :: "tep_config \<Rightarrow> surroundings \<Rightarrow> address \<Rightarrow> string \<Rightarrow> unit action" where
  "receive cfg sr addr datagram =
     st_bind (upd_d (upd_stats bump_recv)) (\<lambda>_.
       case parse_packet datagram of
         None \<Rightarrow> dropped
       | Some pk \<Rightarrow> if pk_type pk \<in> set app_packet_types then receive_app cfg sr pk addr else receive_heartbeat cfg sr pk addr)"

section \<open>Heartbeats and registries\<close>

definition ascii_esc :: "char \<Rightarrow> string" where
  "ascii_esc c =
     (let n = (of_char c :: nat)
      in if 127 \<le> n then [CHR 0x5C, CHR ''u'', CHR ''0'', CHR ''0'', hex_digit (n div 16), hex_digit (n mod 16)] else esc_char c)"

text \<open>\<open>json.dumps\<close> with its default separators and ASCII output.\<close>

definition ascii_text :: "string \<Rightarrow> string" where
  "ascii_text s = [CHR 0x22] @ concat (map ascii_esc s) @ [CHR 0x22]"

definition heartbeat_payload :: "tep_config \<Rightarrow> surroundings \<Rightarrow> string" where
  "heartbeat_payload cfg sr =
     ''{'' @ ascii_text ''type'' @ '': '' @ ascii_text ''heartbeat'' @ '', '' @ ascii_text ''ts'' @ '': '' @ show_nat (now_secs sr) @ '', '' @
     ascii_text ''node'' @ '': '' @ ascii_text (tc_node cfg) @ '', '' @ ascii_text ''pubkey'' @ '': '' @
     ascii_text (cy_pubkey (tc_crypto cfg)) @ ''}''"

definition peer_key :: "tep_config \<Rightarrow> surroundings \<Rightarrow> peer \<Rightarrow> string action" where
  "peer_key cfg sr peer =
     st_bind (ensure_peer sr peer) (\<lambda>(ok, p).
       of_r (if \<not> ok then protocol ''authentication_failed'' ''registered peer identity is incomplete''
             else (case cy_derive (tc_crypto cfg) (the (pr_pubkey p)) of
                     None \<Rightarrow> protocol ''authentication_failed'' ''X25519 shared-key derivation failed''
                   | Some key \<Rightarrow> Inr key)))"

definition gone_offline :: "peer \<Rightarrow> unit action" where
  "gone_offline peer = st_bind (upd_d (upd_table (mark_offline (pr_id peer)))) (\<lambda>_. dropped)"

definition heartbeat_to :: "tep_config \<Rightarrow> surroundings \<Rightarrow> peer \<Rightarrow> unit action" where
  "heartbeat_to cfg sr peer d =
     (case peer_key cfg sr peer d of
        (Inl (Protocol_error c m), d1) \<Rightarrow> gone_offline peer d1
      | (Inl e, d1) \<Rightarrow> (Inl e, d1)
      | (Inr key, d1) \<Rightarrow>
          catch_d (transmit cfg sr (pr_id peer) 1 (heartbeat_payload cfg sr) key (pr_ip peer, pr_port peer))
            (\<lambda>e. case e of Os_error \<Rightarrow> gone_offline peer | _ \<Rightarrow> raise e) d1)"

fun heartbeats_to :: "tep_config \<Rightarrow> surroundings \<Rightarrow> peer list \<Rightarrow> unit action" where
  "heartbeats_to cfg sr [] = st_ret ()"
| "heartbeats_to cfg sr (p # ps) = st_bind (heartbeat_to cfg sr p) (\<lambda>_. heartbeats_to cfg sr ps)"

text \<open>One turn of \<open>_heartbeat_loop\<close>; an \<open>Inl\<close> leaves the loop.\<close>

definition count_online :: "surroundings \<Rightarrow> unit action" where
  "count_online sr =
     upd_d (\<lambda>d. case online_count (sr_wall sr) (table d) of
       (n, t) \<Rightarrow> upd_stats (\<lambda>s. s\<lparr>st_online := n\<rparr>) (upd_table (\<lambda>_. t) d))"

definition heartbeat_round :: "tep_config \<Rightarrow> surroundings \<Rightarrow> unit action" where
  "heartbeat_round cfg sr =
     st_bind (get_d table) (\<lambda>ps. st_bind (heartbeats_to cfg sr ps) (\<lambda>_. count_online sr))"

definition daemon_sync :: "tep_config \<Rightarrow> jobj list option \<Rightarrow> jobj list option \<Rightarrow> bool action" where
  "daemon_sync cfg tep nodes d =
     (case reconcile (tc_node cfg) tep nodes (dm_peers d) of (r, m) \<Rightarrow> (r, d\<lparr>dm_peers := m\<rparr>))"

end
