(* ===== verification/Tep_Safety.thy ===== *)
theory Tep_Safety
  imports Tep_Daemon
begin

text \<open>
  The running daemon as a transition system: its threads (receive loop, heartbeat loop, registry loop, the request
  threads, local callers) interleave step by step, and a loop that raised is gone. What every step keeps is proved once
  for any invariant that the primitive state changes keep.
\<close>

section \<open>Actions that keep a predicate\<close>

definition always :: "(daemon \<Rightarrow> bool) \<Rightarrow> 'a action \<Rightarrow> bool" where
  "always P m \<longleftrightarrow> (\<forall>d. P d \<longrightarrow> P (snd (m d)))"

lemma alwaysD: "always P m \<Longrightarrow> P d \<Longrightarrow> m d = (r, d') \<Longrightarrow> P d'"
  by (fastforce simp: always_def)

lemma always_basic [intro, simp]:
  "always P (of_r r)" "always P (get_d f)" "always P (raise e)" "always P (st_ret x)" "always P (\<lambda>d. (g d, d))"
  by (simp_all add: always_def of_r_def get_d_def raise_def)

lemma always_upd: "(\<And>d. P d \<Longrightarrow> P (f d)) \<Longrightarrow> always P (upd_d f)"
  by (simp add: always_def upd_d_def)

lemma always_bind: "always P m \<Longrightarrow> (\<And>x. always P (f x)) \<Longrightarrow> always P (st_bind m f)"
  unfolding always_def st_bind_def by (auto split: prod.split sum.split)

lemma always_catch: "always P m \<Longrightarrow> (\<And>e. always P (h e)) \<Longrightarrow> always P (catch_d m h)"
  unfolding always_def catch_d_def by (auto split: prod.split sum.split)

lemma always_finally: "always P m \<Longrightarrow> (\<And>d. P d \<Longrightarrow> P (f d)) \<Longrightarrow> always P (finally_d m f)"
  unfolding always_def finally_d_def by (auto split: prod.split)

lemma always_if: "(c \<Longrightarrow> always P a) \<Longrightarrow> (\<not> c \<Longrightarrow> always P b) \<Longrightarrow> always P (if c then a else b)"
  by simp

lemma always_bind_of: "(\<And>x. r = Inr x \<Longrightarrow> always P (f x)) \<Longrightarrow> always P (st_bind (of_r r) f)"
  by (cases r) (simp_all add: always_def st_bind_def of_r_def)

lemma always_bind_get: "(\<And>d. always P (f (g d))) \<Longrightarrow> always P (st_bind (get_d g) f)"
  by (simp add: always_def st_bind_def get_d_def)

lemmas always_rules = always_bind always_catch always_finally always_if always_basic

section \<open>Steps\<close>

text \<open>The daemon and which of its three loops still run.\<close>

record live =
  lv_daemon :: daemon
  lv_receiving :: bool
  lv_beating :: bool
  lv_syncing :: bool

definition take_task :: "nat \<Rightarrow> daemon \<Rightarrow> daemon" where
  "take_task i d = d\<lparr>dm_tasks := take i (dm_tasks d) @ drop (Suc i) (dm_tasks d)\<rparr>"

inductive tep_step :: "tep_config \<Rightarrow> live \<Rightarrow> live \<Rightarrow> bool" for cfg where
  Datagram: "lv_receiving s \<Longrightarrow> receive cfg sr addr datagram (lv_daemon s) = (r, d) \<Longrightarrow>
    tep_step cfg s (s\<lparr>lv_daemon := d, lv_receiving := \<not> isl r\<rparr>)"
| Request: "i < length (dm_tasks (lv_daemon s)) \<Longrightarrow>
    run_task cfg sr (dm_tasks (lv_daemon s) ! i) (take_task i (lv_daemon s)) = (r, d) \<Longrightarrow> tep_step cfg s (s\<lparr>lv_daemon := d\<rparr>)"
| Heartbeats: "lv_beating s \<Longrightarrow> heartbeat_round cfg sr (lv_daemon s) = (r, d) \<Longrightarrow>
    tep_step cfg s (s\<lparr>lv_daemon := d, lv_beating := \<not> isl r\<rparr>)"
| Registry: "lv_syncing s \<Longrightarrow> daemon_sync cfg tep nodes (lv_daemon s) = (r, d) \<Longrightarrow>
    tep_step cfg s (s\<lparr>lv_daemon := d, lv_syncing := \<not> isl r\<rparr>)"
| Direct_call: "app_transport cfg sr dest raw None (lv_daemon s) = (r, d) \<Longrightarrow> tep_step cfg s (s\<lparr>lv_daemon := d\<rparr>)"
| Relayed_call: "relay_transport cfg sr rendezvous target raw timeout (lv_daemon s) = (r, d) \<Longrightarrow> tep_step cfg s (s\<lparr>lv_daemon := d\<rparr>)"
| Status: "count_online sr (lv_daemon s) = (r, d) \<Longrightarrow> tep_step cfg s (s\<lparr>lv_daemon := d\<rparr>)"

definition start_daemon :: "peer_manager \<Rightarrow> daemon" where
  "start_daemon m =
     \<lparr>dm_peers = m, dm_refreshed = Map.empty, dm_routes = Map.empty, dm_replay = \<lparr>rc_window = 120, rc_max = 10000, rc_entries = []\<rparr>,
      dm_pending = [], dm_counter = 0,
      dm_stats = \<lparr>st_sent = 0, st_recv = 0, st_dropped = 0, st_online = 0, st_requests = 0, st_responses = 0, st_errors = 0,
                  st_auth = 0, st_replay = 0, st_relay = 0\<rparr>,
      dm_tasks = [], dm_sent = []\<rparr>"

inductive tep_reach :: "tep_config \<Rightarrow> live \<Rightarrow> bool" for cfg where
  tep_start: "tep_reach cfg \<lparr>lv_daemon = start_daemon m, lv_receiving = True, lv_beating = True, lv_syncing = True\<rparr>"
| tep_next: "tep_reach cfg s \<Longrightarrow> tep_step cfg s s' \<Longrightarrow> tep_reach cfg s'"

section \<open>What a daemon invariant has to keep\<close>

text \<open>A task that the receive loop may start: a validated request of an identified peer to this node.\<close>

definition request_ok :: "tep_config \<Rightarrow> string \<Rightarrow> envelope \<Rightarrow> peer \<Rightarrow> bool" where
  "request_ok cfg ty env p \<longleftrightarrow>
     envelope_ok (tc_supported cfg) env \<and> ev_type env = ty \<and> ev_source env = peer_identity p \<and> complete_identity p \<and>
     is_self cfg (ev_dest env)"

definition task_ok :: "tep_config \<Rightarrow> task \<Rightarrow> bool" where
  "task_ok cfg t =
     (case t of App_task env p a \<Rightarrow> request_ok cfg ''req'' env p | Relay_task env p a \<Rightarrow> request_ok cfg ''relay_req'' env p)"

lemma admit_packet_ok:
  assumes "admit_packet cfg sr pk p body = Inr env" "complete_identity p"
  shows "request_ok cfg (ev_type env) env p"
proof -
  have env: "decode_message (tc_supported cfg) (Some (now_ms sr)) body = Inr env" "validate_app_identity cfg env p = Inr ()"
    using assms(1) by (auto simp: admit_packet_def bind_r_Inr protocol_def split: if_split_asm)
  have "ev_source env = peer_identity p"
    using env(2) by (auto simp: validate_app_identity_def peer_identity_def protocol_def split: if_split_asm option.split)
  moreover have "is_self cfg (ev_dest env)"
    using env(2) by (auto simp: validate_app_identity_def protocol_def split: if_split_asm)
  ultimately show ?thesis using decode_message_ok(1) [OF env(1)] assms(2) by (simp add: request_ok_def)
qed

lemma app_peer_complete: "app_peer_for_packet cfg pk t = Some p \<Longrightarrow> complete_identity p"
  by (auto simp: app_peer_for_packet_def split: option.split_asm if_split_asm)

locale daemon_invariant =
  fixes cfg :: tep_config and inv :: "daemon \<Rightarrow> bool"
  assumes stats: "inv d \<Longrightarrow> inv (upd_stats f d)"
    and peers: "inv d \<Longrightarrow> inv (d\<lparr>dm_peers := m\<rparr>)"
    and refreshed: "inv d \<Longrightarrow> inv (d\<lparr>dm_refreshed := r\<rparr>)"
    and routes: "inv d \<Longrightarrow> inv (d\<lparr>dm_routes := rt\<rparr>)"
    and replay: "inv d \<Longrightarrow> inv (d\<lparr>dm_replay := c\<rparr>)"
    and create: "inv d \<Longrightarrow> inv (snd (pending_create rid d))"
    and complete: "inv d \<Longrightarrow> inv (snd (pending_complete rid raw d))"
    and remove: "inv d \<Longrightarrow> inv (pending_remove rid d)"
    and sending: "inv d \<Longrightarrow> inv (snd (transmit cfg sr node ptype body key addr d))"
    and starting: "inv d \<Longrightarrow> task_ok cfg t \<Longrightarrow> inv (d\<lparr>dm_tasks := dm_tasks d @ [t]\<rparr>)"
    and taking: "inv d \<Longrightarrow> inv (d\<lparr>dm_tasks := take i (dm_tasks d) @ drop (Suc i) (dm_tasks d)\<rparr>)"
begin

lemma primitive_always [intro]:
  "always inv dropped" "always inv rejected" "always inv (upd_d (upd_stats f))" "always inv (upd_d (upd_table g))"
  "always inv (upd_d (\<lambda>d. d\<lparr>dm_routes := rt\<rparr>))" "always inv (check_replay sr i rid)" "always inv (pending_create rid)"
  "always inv (pending_complete rid raw)" "always inv (transmit cfg sr node ptype body key addr)" "always inv (ensure_peer sr p)"
  "always inv (daemon_sync cfg tep nodes)" "always inv (count_online sr)"
  using stats peers refreshed routes replay create complete sending
  by (auto simp: always_def dropped_def rejected_def upd_d_def upd_table_def check_replay_def ensure_peer_def daemon_sync_def
      count_online_def split: prod.split)

lemma send_plain_always [intro]: "always inv (send_plain cfg sr p ptype body addr)"
  unfolding send_plain_def by (auto intro: always_rules split: option.split)

lemma roundtrip_always [intro]: "always inv send \<Longrightarrow> always inv (roundtrip rid send read sr)"
  unfolding roundtrip_def by (intro always_rules primitive_always remove) auto

lemma request_always [intro]:
  "always inv (app_transport cfg sr dest raw override)" "always inv (relay_forward cfg sr target inner timeout route)"
  "always inv (relay_transport_base cfg sr rendezvous target raw timeout)"
  unfolding app_transport_def relay_forward_def relay_transport_base_def
  by (intro always_rules send_plain_always roundtrip_always; simp)+

lemma relay_transport_always [intro]: "always inv (relay_transport cfg sr rendezvous target raw timeout)"
  unfolding relay_transport_def by (intro always_rules request_always; simp)

lemma app_error_always [intro]: "always inv (send_app_error cfg sr env p addr code message status)"
  unfolding send_app_error_def by (intro always_rules send_plain_always primitive_always)

lemma request_failed_always [intro]: "always inv (request_failed cfg sr env p addr failed e)"
  unfolding request_failed_def
  by (cases e) (auto intro!: always_bind app_error_always always_upd stats)

lemma handler_always [intro]:
  "always inv (handle_app_request cfg sr env p addr)" "always inv (handle_relay_delivery cfg sr env p addr)"
  unfolding handle_app_request_def handle_relay_delivery_def case_prod_beta
  by (intro always_rules send_plain_always primitive_always request_failed_always)+

lemma relay_request_always [intro]: "always inv (handle_relay_request cfg sr env p addr)"
  unfolding handle_relay_request_def
  by (intro always_rules send_plain_always primitive_always request_always handler_always)

lemma run_task_always [intro]: "always inv (run_task cfg sr t)"
  unfolding run_task_def by (cases t) auto

lemma record_contact_always [intro]: "always inv (record_contact sr p addr)"
  unfolding record_contact_def case_prod_beta by (intro always_rules primitive_always)

lemma start_always: "task_ok cfg t \<Longrightarrow> always inv (upd_d (\<lambda>d. d\<lparr>dm_tasks := dm_tasks d @ [t]\<rparr>))"
  by (rule always_upd) (rule starting)

lemma app_packet_always:
  assumes "complete_identity p"
  shows "always inv (handle_app_packet cfg sr pk p body addr)"
proof -
  have ok: "task_ok cfg (if ev_type env = ''req'' then App_task env p addr else Relay_task env p addr)"
    if "admit_packet cfg sr pk p body = Inr env" "ev_type env \<in> {''req'', ''relay_req''}" for env
    using admit_packet_ok [OF that(1) assms] that(2) by (auto simp: task_ok_def)
  have "always inv (packet_rejected e)" for e
    unfolding packet_rejected_def by (cases e) (auto intro!: always_if)
  then show ?thesis
    unfolding handle_app_packet_def
    by (intro always_catch always_bind_of always_bind always_if record_contact_always primitive_always always_basic start_always)
      (use ok in \<open>auto split: if_split_asm\<close>)
qed

lemma receive_app_always [intro]: "always inv (receive_app cfg sr pk addr)"
  unfolding receive_app_def
  by (rule always_if, rule primitive_always, rule always_bind_get)
    (auto split: option.split intro: primitive_always app_packet_always app_peer_complete)

lemma receive_heartbeat_always [intro]: "always inv (receive_heartbeat cfg sr pk addr)"
proof -
  have "always inv (heartbeat_rejected e)" for e by (cases e) (auto simp: heartbeat_rejected_def)
  moreover have "always inv (record_heartbeat sr p msg addr)" for p msg
    unfolding record_heartbeat_def by (intro always_bind always_basic record_contact_always)
  ultimately have hb: "always inv (catch_d (st_bind (of_r (loads_value body)) (\<lambda>msg. record_heartbeat sr p msg addr)) heartbeat_rejected)"
    for p body by (intro always_catch always_bind always_basic)
  have body: "always inv (if \<not> ok then dropped
      else case cy_derive (tc_crypto cfg) (the (pr_pubkey p)) of None \<Rightarrow> dropped
        | Some key \<Rightarrow> (case cy_decrypt (tc_crypto cfg) (pk_payload pk) key (pk_nonce pk) of None \<Rightarrow> dropped
            | Some body \<Rightarrow> catch_d (st_bind (of_r (loads_value body)) (\<lambda>msg. record_heartbeat sr p msg addr)) heartbeat_rejected))" for ok p
    by (auto split: option.split intro: hb primitive_always)
  show ?thesis
    unfolding receive_heartbeat_def case_prod_beta
    by (rule always_bind_get) (auto split: option.split intro!: always_bind body)
qed

lemma receive_always [intro]: "always inv (receive cfg sr addr datagram)"
  unfolding receive_def by (auto split: option.split intro!: always_bind always_if)

lemma heartbeat_to_always [intro]: "always inv (heartbeat_to cfg sr p)"
proof -
  have key: "always inv (peer_key cfg sr p)"
    unfolding peer_key_def case_prod_beta by (intro always_bind always_basic primitive_always)
  have off: "always inv (gone_offline p)" unfolding gone_offline_def by (intro always_bind primitive_always)
  have send: "always inv (catch_d (transmit cfg sr n 1 b k a) (\<lambda>e. case e of Os_error \<Rightarrow> gone_offline p | _ \<Rightarrow> raise e))" for n b k a
    by (rule always_catch) (auto split: tep_exn.split intro: off)
  show ?thesis
    unfolding always_def
  proof (intro allI impI)
    fix d
    assume d: "inv d"
    obtain r d1 where k: "peer_key cfg sr p d = (r, d1)" by fastforce
    have "inv d1" by (rule alwaysD [OF key d k])
    then show "inv (snd (heartbeat_to cfg sr p d))"
      using off send unfolding always_def heartbeat_to_def k by (auto split: sum.split tep_exn.split)
  qed
qed

lemma heartbeat_round_always [intro]: "always inv (heartbeat_round cfg sr)"
proof -
  have "always inv (heartbeats_to cfg sr ps)" for ps by (induction ps) (auto intro: always_bind)
  then show ?thesis unfolding heartbeat_round_def by (intro always_bind always_basic primitive_always)
qed

lemma step_keeps: "tep_step cfg s s' \<Longrightarrow> inv (lv_daemon s) \<Longrightarrow> inv (lv_daemon s')"
proof (induction rule: tep_step.induct)
  case (Datagram s sr addr datagram r d)
  then show ?case using alwaysD [OF receive_always] by simp
next
  case (Request i s sr r d)
  have "inv (take_task i (lv_daemon s))" unfolding take_task_def by (rule taking) (rule Request.prems)
  then show ?case using alwaysD [OF run_task_always] Request.hyps(2) by simp
next
  case (Heartbeats s sr r d)
  then show ?case using alwaysD [OF heartbeat_round_always] by simp
next
  case (Registry s tep nodes r d)
  then show ?case using alwaysD [OF primitive_always(11)] by simp
next
  case (Direct_call sr dest raw s r d)
  then show ?case using alwaysD [OF request_always(1)] by simp
next
  case (Relayed_call sr rendezvous target raw timeout s r d)
  then show ?case using alwaysD [OF relay_transport_always] by simp
next
  case (Status sr s r d)
  then show ?case using alwaysD [OF primitive_always(12)] by simp
qed

lemma reach_keeps:
  assumes "tep_reach cfg s" "\<And>m. inv (start_daemon m)"
  shows "inv (lv_daemon s)"
  using assms(1) by induction (simp_all add: assms(2) step_keeps)

end

section \<open>Three invariants\<close>

definition tasks_authentic :: "tep_config \<Rightarrow> daemon \<Rightarrow> bool" where
  "tasks_authentic cfg d \<longleftrightarrow> (\<forall>t \<in> set (dm_tasks d). task_ok cfg t)"

definition pending_bounded :: "daemon \<Rightarrow> bool" where
  "pending_bounded d \<longleftrightarrow> distinct (map fst (dm_pending d)) \<and> length (dm_pending d) \<le> max_pending"

text \<open>Every packet sent was built with a counter of its own.\<close>

definition built_with :: "tep_config \<Rightarrow> sent_packet \<Rightarrow> nat \<Rightarrow> bool" where
  "built_with cfg p counter \<longleftrightarrow>
     (\<exists>key time. build_packet (cy_encrypt (tc_crypto cfg)) (tc_node cfg) (sp_type p) (sp_plain p) key time counter = Inr (sp_bytes p))"

definition log_counted :: "tep_config \<Rightarrow> daemon \<Rightarrow> bool" where
  "log_counted cfg d \<longleftrightarrow>
     (\<exists>cs. list_all2 (built_with cfg) (dm_sent d) cs \<and> distinct cs \<and> (\<forall>c \<in> set cs. c \<le> dm_counter d))"

lemma transmit_cases:
  "snd (transmit cfg sr node ptype body key addr d) = d\<lparr>dm_counter := Suc (dm_counter d)\<rparr> \<or>
   (\<exists>pkt. build_packet (cy_encrypt (tc_crypto cfg)) (tc_node cfg) ptype body key (now_secs sr) (Suc (dm_counter d)) = Inr pkt \<and>
      snd (transmit cfg sr node ptype body key addr d) =
        upd_stats bump_sent (d\<lparr>dm_counter := Suc (dm_counter d),
          dm_sent := dm_sent d @ [\<lparr>sp_type = ptype, sp_peer = node, sp_plain = body, sp_addr = addr, sp_bytes = pkt\<rparr>]\<rparr>))"
  by (auto simp: transmit_def st_bind_def upd_d_def get_d_def of_r_def split: sum.split)

interpretation authentic: daemon_invariant cfg "tasks_authentic cfg" for cfg
proof
  show "tasks_authentic cfg (snd (transmit cfg sr node ptype body key addr d))" if "tasks_authentic cfg d"
    for sr node ptype body key addr d
    using that transmit_cases [of cfg sr node ptype body key addr d] by (auto simp: tasks_authentic_def upd_stats_def)
qed (auto simp: tasks_authentic_def upd_stats_def pending_create_def pending_complete_def pending_remove_def
    dest: in_set_takeD in_set_dropD)

interpretation bounded: daemon_invariant cfg pending_bounded for cfg
proof
  show "pending_bounded (snd (transmit cfg sr node ptype body key addr d))" if "pending_bounded d" for sr node ptype body key addr d
    using that transmit_cases [of cfg sr node ptype body key addr d] by (auto simp: pending_bounded_def upd_stats_def)
  show "pending_bounded (snd (pending_complete rid raw d))" if "pending_bounded d" for rid raw d
    using that map_key_tbl_update [where key = fst and sel = "\<lambda>x. fst x = rid" and f = "\<lambda>x. (fst x, Some raw)" and rows = "dm_pending d"]
    by (simp add: pending_bounded_def pending_complete_def)
  show "pending_bounded (pending_remove rid d)" if "pending_bounded d" for rid d
    using that order_trans [OF length_filter_le, of "dm_pending d"]
    by (auto simp: pending_bounded_def pending_remove_def distinct_map_filter)
qed (auto simp: pending_bounded_def upd_stats_def pending_create_def)

lemma log_counted_cong:
  "log_counted cfg d \<Longrightarrow> dm_sent d' = dm_sent d \<Longrightarrow> dm_counter d \<le> dm_counter d' \<Longrightarrow> log_counted cfg d'"
  unfolding log_counted_def by (metis order_trans)

lemma log_counted_transmit:
  assumes "log_counted cfg d"
  shows "log_counted cfg (snd (transmit cfg sr node ptype body key addr d))"
  using transmit_cases [of cfg sr node ptype body key addr d]
proof (elim disjE exE conjE)
  assume "snd (transmit cfg sr node ptype body key addr d) = d\<lparr>dm_counter := Suc (dm_counter d)\<rparr>"
  then show ?thesis using log_counted_cong [OF assms] by simp
next
  fix pkt
  assume b: "build_packet (cy_encrypt (tc_crypto cfg)) (tc_node cfg) ptype body key (now_secs sr) (Suc (dm_counter d)) = Inr pkt"
    and t: "snd (transmit cfg sr node ptype body key addr d) =
        upd_stats bump_sent (d\<lparr>dm_counter := Suc (dm_counter d),
          dm_sent := dm_sent d @ [\<lparr>sp_type = ptype, sp_peer = node, sp_plain = body, sp_addr = addr, sp_bytes = pkt\<rparr>]\<rparr>)"
  obtain cs where cs: "list_all2 (built_with cfg) (dm_sent d) cs" "distinct cs" "\<forall>c \<in> set cs. c \<le> dm_counter d"
    using assms by (auto simp: log_counted_def)
  have "list_all2 (built_with cfg)
      (dm_sent d @ [\<lparr>sp_type = ptype, sp_peer = node, sp_plain = body, sp_addr = addr, sp_bytes = pkt\<rparr>]) (cs @ [Suc (dm_counter d)])"
    using cs(1) b unfolding built_with_def by (intro list_all2_appendI) (simp_all, blast)
  moreover have "distinct (cs @ [Suc (dm_counter d)])" using cs(2,3) by auto
  moreover have "\<forall>c \<in> set (cs @ [Suc (dm_counter d)]). c \<le> Suc (dm_counter d)" using cs(3) by auto
  ultimately have "log_counted cfg (d\<lparr>dm_counter := Suc (dm_counter d),
      dm_sent := dm_sent d @ [\<lparr>sp_type = ptype, sp_peer = node, sp_plain = body, sp_addr = addr, sp_bytes = pkt\<rparr>]\<rparr>)"
    unfolding log_counted_def by (intro exI [of _ "cs @ [Suc (dm_counter d)]"]) simp
  then show ?thesis unfolding t upd_stats_def by (rule log_counted_cong) simp_all
qed

interpretation counted: daemon_invariant cfg "log_counted cfg" for cfg
  by unfold_locales
    (auto simp: log_counted_transmit upd_stats_def pending_create_def pending_complete_def pending_remove_def elim: log_counted_cong)

end
