(* ===== verification/Tep_Guarantees.thy ===== *)
theory Tep_Guarantees
  imports Tep_Safety
begin

text \<open>What the TEP daemon guarantees, and three ways in which one of its threads stops.\<close>

section \<open>Reachable states\<close>


definition sent_nonce :: "sent_packet \<Rightarrow> string" where
  "sent_nonce p = (case parse_packet (sp_bytes p) of None \<Rightarrow> [] | Some pk \<Rightarrow> pk_nonce pk)"

lemma built_nonce:
  assumes "built_with cfg p c" "c < 2 ^ 32" "\<forall>x \<in> set (tc_node cfg). x \<noteq> CHR 0x00"
  shows "be_val (drop 8 (sent_nonce p)) = c"
proof -
  obtain key time where b: "build_packet (cy_encrypt (tc_crypto cfg)) (tc_node cfg) (sp_type p) (sp_plain p) key time c = Inr (sp_bytes p)"
    using assms(1) by (auto simp: built_with_def)
  obtain nonce where n: "packet_nonce time c = Inr nonce" "sent_nonce p = nonce"
    using parse_built_packet [OF b assms(3), of "[]"] by (auto simp: sent_nonce_def)
  then show ?thesis using assms(2) by (simp add: packet_nonce_Inr length_be_bytes be_val_bytes)
qed


section \<open>Unauthenticated datagrams\<close>

definition without_identity :: "peer \<Rightarrow> peer" where
  "without_identity p = p\<lparr>pr_peer := None, pr_pubkey := None\<rparr>"

text \<open>Everything but the counters, the registry cache and the identity fields filled from the registry.\<close>

definition same_effects :: "daemon \<Rightarrow> daemon \<Rightarrow> bool" where
  "same_effects d d' \<longleftrightarrow>
     dm_tasks d' = dm_tasks d \<and> dm_pending d' = dm_pending d \<and> dm_routes d' = dm_routes d \<and> dm_replay d' = dm_replay d \<and>
     dm_sent d' = dm_sent d \<and> dm_counter d' = dm_counter d \<and> map without_identity (table d') = map without_identity (table d)"

lemma same_effects_stats [simp]: "same_effects d (upd_stats f d)" "same_effects d (upd_stats f d') = same_effects d d'"
  "same_effects (upd_stats f d) d' = same_effects d d'"
  by (simp_all add: same_effects_def upd_stats_def table_def)

lemma drop_actions:
  "dropped d = (Inr (), upd_stats bump_dropped d)" "rejected d = (Inr (), upd_stats (bump_auth \<circ> bump_dropped) d)"
  by (simp_all add: dropped_def rejected_def upd_d_def)

lemma same_effects_ensure:
  assumes "ensure_peer sr p d = (r, d')"
  shows "same_effects d d' \<and> (\<exists>x. r = Inr x)"
  using assms
  by (auto simp: ensure_peer_def same_effects_def upd_table_def table_def update_peer_def tbl_update_def without_identity_def
      split: prod.split_asm)

definition unsealed :: "tep_config \<Rightarrow> string \<Rightarrow> bool" where
  "unsealed cfg datagram \<longleftrightarrow>
     (case parse_packet datagram of
        None \<Rightarrow> True
      | Some pk \<Rightarrow> (\<forall>key. cy_decrypt (tc_crypto cfg) (pk_payload pk) key (pk_nonce pk) = None))"


section \<open>Serving a request\<close>

text \<open>What may be sent back for a request.\<close>

definition answers :: "tep_config \<Rightarrow> envelope \<Rightarrow> peer \<Rightarrow> address \<Rightarrow> sent_packet \<Rightarrow> bool" where
  "answers cfg env peer addr p \<longleftrightarrow>
     sp_peer p = pr_id peer \<and> sp_addr p = addr \<and>
     (\<exists>m. encode_message (tc_supported cfg) m = Inr (sp_plain p) \<and> jget m ''request_id'' = jget (ev_raw env) ''request_id'' \<and>
        jget m ''destination'' = identity_json (ev_source env) \<and> jget m ''source'' = identity_json (local_identity cfg) \<and>
        (sp_type p = 0x21 \<and> jget m ''type'' = JStr ''res'' \<or> sp_type p = 0x22 \<and> jget m ''type'' = JStr ''err''))"

definition sends_only :: "(sent_packet \<Rightarrow> bool) \<Rightarrow> daemon \<Rightarrow> daemon \<Rightarrow> bool" where
  "sends_only P d d' \<longleftrightarrow> (\<exists>p. P p \<and> dm_sent d' = dm_sent d @ [p])"

lemma transmit_result:
  "transmit cfg sr node ptype body key addr d =
     (let d1 = d\<lparr>dm_counter := Suc (dm_counter d)\<rparr>
      in case bind_r (build_packet (cy_encrypt (tc_crypto cfg)) (tc_node cfg) ptype body key (now_secs sr) (Suc (dm_counter d)))
               (\<lambda>pkt. bind_r (send_to sr pkt addr) (\<lambda>_. Inr pkt)) of
           Inl e \<Rightarrow> (Inl e, d1)
         | Inr pkt \<Rightarrow> (Inr (), upd_stats bump_sent
             (d1\<lparr>dm_sent := dm_sent d @ [\<lparr>sp_type = ptype, sp_peer = node, sp_plain = body, sp_addr = addr, sp_bytes = pkt\<rparr>]\<rparr>)))"
  by (simp add: transmit_def st_bind_def upd_d_def get_d_def of_r_def Let_def bind_r_def split: sum.split)

lemma send_plain_cases:
  assumes "send_plain cfg sr peer ptype body (Some addr) d = (r, d')"
  shows "(\<exists>e. r = Inl e) \<and> dm_sent d' = dm_sent d \<and> dm_stats d' = dm_stats d \<or>
    r = Inr () \<and> dm_stats d' = bump_sent (dm_stats d) \<and>
    sends_only (\<lambda>p. sp_type p = ptype \<and> sp_peer p = pr_id peer \<and> sp_plain p = body \<and> sp_addr p = addr) d d'"
  using assms
  by (auto simp: send_plain_def raise_def transmit_result Let_def upd_stats_def sends_only_def
      split: if_split_asm option.split_asm sum.split_asm)

lemma checked_Inr: "checked supported m = Inr m' \<Longrightarrow> m' = m"
  by (auto simp: checked_def bind_r_Inr)

lemma error_fields:
  assumes "new_error supported nonce now request source dest code message status = Inr m"
  shows "jget m ''type'' = JStr ''err''" "jget m ''request_id'' = jget request ''request_id''"
    "jget m ''source'' = identity_json source" "jget m ''destination'' = identity_json dest"
  using checked_Inr [OF assms [unfolded new_error_def]] by simp_all

lemma response_fields:
  assumes "new_response supported nonce now request source dest payload = Inr m"
  shows "jget m ''type'' = JStr ''res''" "jget m ''request_id'' = jget request ''request_id''"
    "jget m ''source'' = identity_json source" "jget m ''destination'' = identity_json dest"
  using checked_Inr [OF assms [unfolded new_response_def]] by simp_all

text \<open>An error answer is sent, or the packet is counted as dropped.\<close>

lemma send_app_error_result:
  assumes "send_app_error cfg sr env peer addr code message status d = (r, d')"
  shows "r = Inr () \<and> (dm_sent d' = dm_sent d \<and> st_dropped (dm_stats d') = Suc (st_dropped (dm_stats d)) \<or>
    sends_only (\<lambda>p. answers cfg env peer addr p \<and> sp_type p = 0x22) d d')"
proof (cases "bind_r (new_error (tc_supported cfg) (sr_nonce sr) (now_ms sr) (ev_raw env) (local_identity cfg) (ev_source env)
    code (take 160 message) status) (encode_message (tc_supported cfg))")
  case (Inl e)
  then show ?thesis using assms
    by (simp add: send_app_error_def catch_d_def st_bind_def of_r_def drop_actions upd_stats_def bump_dropped_def) auto
next
  case (Inr raw)
  then obtain m where m: "new_error (tc_supported cfg) (sr_nonce sr) (now_ms sr) (ev_raw env) (local_identity cfg) (ev_source env)
    code (take 160 message) status = Inr m" "encode_message (tc_supported cfg) m = Inr raw" by (auto simp: bind_r_Inr)
  obtain r1 d1 where s: "send_plain cfg sr peer 0x22 raw (Some addr) d = (r1, d1)" by fastforce
  show ?thesis
  proof (cases r1)
    case (Inl e)
    then have "r = Inr ()" "d' = upd_stats bump_dropped d1"
      using assms Inr s by (simp_all add: send_app_error_def catch_d_def st_bind_def of_r_def drop_actions)
    then show ?thesis using send_plain_cases [OF s] Inl by (simp add: upd_stats_def bump_dropped_def)
  next
    case ok: (Inr u)
    then have "r = Inr ()" "d' = upd_stats bump_errors d1"
      using assms Inr s by (simp_all add: send_app_error_def catch_d_def st_bind_def of_r_def upd_d_def)
    moreover obtain p where "dm_sent d1 = dm_sent d @ [p]" "sp_type p = 0x22" "sp_peer p = pr_id peer" "sp_plain p = raw" "sp_addr p = addr"
      using send_plain_cases [OF s] ok by (auto simp: sends_only_def)
    moreover from this have "answers cfg env peer addr p"
      unfolding answers_def using m(2) error_fields [OF m(1)] by auto
    ultimately show ?thesis by (auto simp: sends_only_def upd_stats_def)
  qed
qed

lemma request_failed_result:
  assumes "request_failed cfg sr env peer addr failed e d = (r, d')"
  shows "r = Inr () \<and> (dm_sent d' = dm_sent d \<and> st_dropped (dm_stats d') = Suc (st_dropped (dm_stats d)) \<or>
    sends_only (\<lambda>p. answers cfg env peer addr p \<and> sp_type p = 0x22) d d')"
proof -
  obtain d1 code message status where
    s: "send_app_error cfg sr env peer addr code message status d1 = (r, d')" "d1 = d \<or> d1 = upd_stats bump_replay d"
    using assms by (cases e) (auto simp: request_failed_def st_bind_def upd_d_def split: if_split_asm)
  then show ?thesis using send_app_error_result [OF s(1)] by (auto simp: upd_stats_def bump_replay_def sends_only_def)
qed

definition served :: "surroundings \<Rightarrow> envelope \<Rightarrow> daemon \<Rightarrow> bool" where
  "served sr env d \<longleftrightarrow>
     fst (check_and_add (dm_replay d) (sr_mono sr) (id_peer (ev_source env)) (ev_request env)) = Inr () \<and>
     (\<exists>result. run_service sr env = Inr result)"

lemma failed_request_answer:
  assumes "request_failed cfg sr env peer addr (service_failed env) e d1 = (r, d')" "dm_sent d1 = dm_sent d" "dm_stats d1 = dm_stats d"
  shows "r = Inr () \<and> (dm_sent d' = dm_sent d \<and> st_dropped (dm_stats d') = Suc (st_dropped (dm_stats d)) \<or>
    sends_only (\<lambda>p. answers cfg env peer addr p \<and> (sp_type p = 0x21 \<longrightarrow> served sr env d)) d d')"
  using request_failed_result [OF assms(1)] assms(2,3) by (auto simp: sends_only_def)


section \<open>Authenticated heartbeats\<close>

lemma ensure_complete:
  "complete_identity p \<Longrightarrow> ensure_peer sr p d =
     (Inr (True, p), upd_table (update_peer (pr_id p) (\<lambda>q. q\<lparr>pr_peer := pr_peer p, pr_pubkey := pr_pubkey p\<rparr>)) d)"
  by (simp add: ensure_peer_def ensure_identity_def upd_table_def)

text \<open>A datagram that the receive loop accepts as a heartbeat of \<open>p\<close>: nothing here looks at a clock.\<close>

definition heartbeat_of :: "tep_config \<Rightarrow> peer list \<Rightarrow> address \<Rightarrow> string \<Rightarrow> peer \<Rightarrow> bool" where
  "heartbeat_of cfg t addr datagram p \<longleftrightarrow>
     (\<exists>pk key body msg. parse_packet datagram = Some pk \<and> pk_type pk \<notin> set app_packet_types \<and> heartbeat_peer pk addr t = Some p \<and>
        complete_identity p \<and> cy_derive (tc_crypto cfg) (the (pr_pubkey p)) = Some key \<and>
        cy_decrypt (tc_crypto cfg) (pk_payload pk) key (pk_nonce pk) = Some body \<and> loads_value body = Inr msg \<and>
        heartbeat_check p msg = Inr ())"

lemma receive_heartbeat_of:
  assumes "heartbeat_of cfg (table d) addr datagram p"
  shows "receive cfg sr addr datagram d =
    catch_d (record_contact sr p addr) heartbeat_rejected
      (upd_table (update_peer (pr_id p) (\<lambda>q. q\<lparr>pr_peer := pr_peer p, pr_pubkey := pr_pubkey p\<rparr>)) (upd_stats bump_recv d))"
proof -
  have t: "table (upd_stats bump_recv d) = table d" by (simp add: table_def upd_stats_def)
  show ?thesis
    using assms unfolding heartbeat_of_def
    by (auto simp: receive_def receive_heartbeat_def st_bind_def upd_d_def get_d_def t ensure_complete catch_d_def of_r_def
        record_heartbeat_def)
qed

text \<open>What an accepted packet of \<open>p\<close> from a possible address does.\<close>

definition possible_address :: "peer \<Rightarrow> address \<Rightarrow> bool" where
  "possible_address p addr \<longleftrightarrow> 1 \<le> snd addr \<and> snd addr \<le> 65535 \<and> py_strip (fst addr) \<noteq> [] \<and> opt_strip (pr_peer p) \<noteq> []"

lemma record_contact_ok:
  assumes "possible_address p addr" "complete_identity p"
  shows "\<exists>d'. record_contact sr p addr d = (Inr (), d') \<and>
    table d' = update_peer (pr_id p) (\<lambda>q. q\<lparr>pr_ip := fst addr, pr_port := snd addr, pr_seen := sr_wall sr, pr_latency := Some 0, pr_online := True\<rparr>) (table d) \<and>
    (\<exists>e. dm_routes d' (opt_strip (pr_peer p)) = Some e \<and> oe_ip e = py_strip (fst addr) \<and> oe_port e = snd addr \<and> oe_seen e = sr_mono sr) \<and>
    dm_tasks d' = dm_tasks d \<and> dm_pending d' = dm_pending d \<and> dm_sent d' = dm_sent d"
proof -
  obtain pid where pid: "pr_peer p = Some pid" "py_strip pid \<noteq> []"
    using assms by (auto simp: possible_address_def complete_identity_def filled_def opt_strip_def)
  show ?thesis
    using assms(1) pid
    by (auto simp: record_contact_def st_bind_def upd_d_def observe_def possible_address_def opt_strip_def Let_def table_def upd_table_def
        update_endpoint_def mark_seen_def update_peer_def tbl_update_def intro!: exI)
qed

lemma heartbeat_peer_in: "heartbeat_peer pk addr t = Some p \<Longrightarrow> p \<in> set t"
proof -
  have "p \<in> set t" if "filter P t = [p]" for P
    using that by (metis filter_is_subset list.set_intros(1) subsetD)
  then show "heartbeat_peer pk addr t = Some p \<Longrightarrow> p \<in> set t"
    by (auto simp: heartbeat_peer_def find_by_wire_def find_Some_iff split: option.split_asm list.split_asm)
qed

definition heard :: "surroundings \<Rightarrow> address \<Rightarrow> peer \<Rightarrow> peer" where
  "heard sr addr p = p\<lparr>pr_ip := fst addr, pr_port := snd addr, pr_seen := sr_wall sr, pr_latency := Some 0, pr_online := True\<rparr>"

lemma find_heard:
  assumes "p \<in> set t"
  shows "find_peer (pr_id p) (update_peer (pr_id p) (heard sr addr)
    (update_peer (pr_id p) (\<lambda>q. q\<lparr>pr_peer := pr_peer p, pr_pubkey := pr_pubkey p\<rparr>) t)) = Some (heard sr addr p)"
  using assms by (induction t) (auto simp: find_peer_def update_peer_def tbl_update_def heard_def)

text \<open> An accepted heartbeat makes the address it came from the peer's endpoint and relay route and marks the peer as
  seen now; nothing else changes. Whether it is accepted does not depend on any clock.
\<close>
theorem heartbeat_moves_the_peer:
  assumes "heartbeat_of cfg (table d) addr datagram p" "possible_address p addr"
  shows "\<exists>d'. receive cfg sr addr datagram d = (Inr (), d') \<and> find_peer (pr_id p) (table d') = Some (heard sr addr p) \<and>
    (\<exists>e. dm_routes d' (opt_strip (pr_peer p)) = Some e \<and> oe_ip e = py_strip (fst addr) \<and> oe_port e = snd addr) \<and>
    dm_tasks d' = dm_tasks d \<and> dm_pending d' = dm_pending d \<and> dm_sent d' = dm_sent d"
proof -
  let ?enriched = "upd_table (update_peer (pr_id p) (\<lambda>q. q\<lparr>pr_peer := pr_peer p, pr_pubkey := pr_pubkey p\<rparr>)) (upd_stats bump_recv d)"
  have p: "complete_identity p" "p \<in> set (table d)"
    using assms(1) by (auto simp: heartbeat_of_def intro: heartbeat_peer_in [of _ addr])
  obtain d' where d': "record_contact sr p addr ?enriched = (Inr (), d')" "table d' = update_peer (pr_id p) (heard sr addr) (table ?enriched)"
    "\<exists>e. dm_routes d' (opt_strip (pr_peer p)) = Some e \<and> oe_ip e = py_strip (fst addr) \<and> oe_port e = snd addr \<and> oe_seen e = sr_mono sr"
    "dm_tasks d' = dm_tasks ?enriched" "dm_pending d' = dm_pending ?enriched" "dm_sent d' = dm_sent ?enriched"
    using record_contact_ok [OF assms(2) p(1)] unfolding heard_def by blast
  have "receive cfg sr addr datagram d = (Inr (), d')"
    using d'(1) unfolding receive_heartbeat_of [OF assms(1)] by (simp add: catch_d_def)
  moreover have "find_peer (pr_id p) (table d') = Some (heard sr addr p)"
    using find_heard [OF p(2)] d'(2) by (simp add: table_def upd_table_def upd_stats_def)
  ultimately show ?thesis using d'(3-6) by (auto simp: upd_table_def upd_stats_def)
qed

section \<open>Examples\<close>

definition plain_cipher :: tep_crypto where
  "plain_cipher = \<lparr>cy_have = True, cy_pubkey = ''k'', cy_derive = Some, cy_encrypt = (\<lambda>p k n. p), cy_decrypt = (\<lambda>c k n. Some c)\<rparr>"

definition lab :: tep_config where
  "lab = \<lparr>tc_node = ''b'', tc_peer = ''pb'', tc_crypto = plain_cipher, tc_supported = [''storage.summary''], tc_relay_enabled = False,
     tc_clients = [], tc_trusted = [], tc_rendezvous = []\<rparr>"

definition quiet_now :: surroundings where
  "quiet_now = \<lparr>sr_wall = 72, sr_mono = 50, sr_rid = [], sr_nonce = ''ffffffffffffffffffffffffffffffff'', sr_nodes = None,
     sr_send = (\<lambda>p a. True), sr_reply = None, sr_storage = Unreachable, sr_master = Unreachable, sr_agent = (\<lambda>x. Unreachable)\<rparr>"

definition peer_a :: peer where
  "peer_a = \<lparr>pr_id = ''a'', pr_ip = ''10.0.0.1'', pr_port = 47777, pr_seen = 0, pr_latency = None, pr_online = False,
     pr_pubkey = Some ''k'', pr_peer = Some ''pa''\<rparr>"

definition lab_start :: daemon where "lab_start = start_daemon \<lparr>pm_peers = [peer_a], pm_source = ''static''\<rparr>"

definition lab_live :: live where
  "lab_live = \<lparr>lv_daemon = lab_start, lv_receiving = True, lv_beating = True, lv_syncing = True\<rparr>"

lemma lab_reach: "tep_reach lab lab_live"
  unfolding lab_live_def lab_start_def by (rule tep_start)

lemma lab_packet:
  assumes "length body < 65536"
  shows "\<exists>pkt. build_packet (cy_encrypt plain_cipher) node 1 body key 72 c = Inr pkt"
    "\<exists>pkt. build_packet (cy_encrypt plain_cipher) node 0x20 body key 72 c = Inr pkt"
  using assms by (simp_all add: build_packet_def packet_nonce_def pack_be_def plain_cipher_def)

lemma quiet_secs: "now_secs quiet_now = 72" "now_ms quiet_now = 72000"
  using py_trunc_int [of 72] py_trunc_int [of 72000] by (simp_all add: now_secs_def now_ms_def quiet_now_def)

lemma lab_fields:
  "tc_node lab = ''b''" "tc_peer lab = ''pb''" "tc_crypto lab = plain_cipher" "tc_supported lab = [''storage.summary'']" "cy_have plain_cipher"
  "cy_derive plain_cipher k = Some k" "cy_decrypt plain_cipher c k n = Some c" "cy_pubkey plain_cipher = ''k''"
  "sr_send quiet_now pkt a" "sr_wall quiet_now = 72" "sr_mono quiet_now = 50"
  "pr_id peer_a = ''a''" "pr_ip peer_a = ''10.0.0.1''" "pr_port peer_a = 47777" "pr_pubkey peer_a = Some ''k''" "pr_peer peer_a = Some ''pa''"
  "complete_identity peer_a"
  by (simp_all add: lab_def plain_cipher_def quiet_now_def peer_a_def complete_identity_def filled_def)

lemma peer_a_kept:
  "update_peer ''a'' (\<lambda>q. q\<lparr>pr_peer := Some ''pa'', pr_pubkey := Some ''k''\<rparr>) [peer_a] = [peer_a]" "expire_stale t [peer_a] = [peer_a]"
  by (simp_all add: update_peer_def tbl_update_def expire_stale_def peer_a_def)

lemma lab_beat:
  assumes "table d = [peer_a]"
  shows "fst (heartbeat_round lab quiet_now d) = Inr () \<and> table (snd (heartbeat_round lab quiet_now d)) = [peer_a] \<and>
    length (dm_sent (snd (heartbeat_round lab quiet_now d))) = Suc (length (dm_sent d)) \<and>
    dm_counter (snd (heartbeat_round lab quiet_now d)) = Suc (dm_counter d)"
proof -
  have "length (heartbeat_payload lab quiet_now) < 65536"
    by (simp add: heartbeat_payload_def quiet_secs show_nat.simps ascii_text_def lab_fields ascii_esc_def esc_char_def Let_def)
  then obtain pkt where pkt: "build_packet (cy_encrypt plain_cipher) ''b'' 1 (heartbeat_payload lab quiet_now) ''k'' 72 (Suc (dm_counter d)) = Inr pkt"
    using lab_packet(1) by blast
  define d0 where "d0 = upd_table (update_peer ''a'' (\<lambda>q. q\<lparr>pr_peer := Some ''pa'', pr_pubkey := Some ''k''\<rparr>)) d"
  have d0: "table d0 = [peer_a]" "dm_sent d0 = dm_sent d" "dm_counter d0 = dm_counter d"
    using assms peer_a_kept(1) by (simp_all add: d0_def table_def upd_table_def)
  have key: "peer_key lab quiet_now peer_a d = (Inr ''k'', d0)"
    by (simp add: peer_key_def st_bind_def ensure_complete lab_fields of_r_def d0_def)
  obtain d1 where "heartbeat_to lab quiet_now peer_a d = (Inr (), d1)" "table d1 = [peer_a]" "length (dm_sent d1) = Suc (length (dm_sent d))"
    "dm_counter d1 = Suc (dm_counter d)"
    using pkt d0 by (simp add: heartbeat_to_def key catch_d_def transmit_result Let_def lab_fields quiet_secs send_to_def table_def upd_stats_def)
  then show ?thesis
    using assms
    by (simp add: heartbeat_round_def st_bind_def get_d_def count_online_def upd_d_def online_count_def Let_def peer_a_kept table_def
        upd_table_def upd_stats_def)
qed

lemma lab_beat_reach:
  assumes "tep_reach lab s" "lv_beating s" "table (lv_daemon s) = [peer_a]"
  shows "\<exists>s'. tep_reach lab s' \<and> lv_beating s' \<and> table (lv_daemon s') = [peer_a] \<and>
    length (dm_sent (lv_daemon s')) = Suc (length (dm_sent (lv_daemon s))) \<and> dm_counter (lv_daemon s') = Suc (dm_counter (lv_daemon s))"
proof -
  obtain r d where rd: "heartbeat_round lab quiet_now (lv_daemon s) = (r, d)" by fastforce
  have "tep_reach lab (s\<lparr>lv_daemon := d, lv_beating := \<not> isl r\<rparr>)"
    by (rule tep_next [OF assms(1) Heartbeats [OF assms(2) rd]])
  then show ?thesis using lab_beat [OF assms(3)] unfolding rd by (intro exI conjI) auto
qed



text \<open>A request of peer \<open>a\<close>, received and served.\<close>

lemma lab_request:
  "\<exists>raw e. decode_message [''storage.summary''] (Some 72000) raw = Inr e \<and> length raw \<le> 8192 \<and> ev_type e = ''req'' \<and>
     ev_source e = alice \<and> ev_dest e = bob"
proof -
  obtain raw where raw: "encode_message [''storage.summary''] summary_request = Inr raw" using summary_request_encodes by blast
  obtain e b where e: "validate_envelope [''storage.summary''] None summary_request = Inr e"
    "decode_message [''storage.summary''] (Some 72000) raw = Inr (e\<lparr>ev_raw := b\<rparr>)"
    using message_reads_back [OF raw plain_request request_in_window] by blast
  have "map_sum id (\<lambda>e. (ev_type e, ev_source e, ev_dest e)) (validate_envelope [''storage.summary''] None summary_request) =
      Inr (''req'', alice, bob)" by code_simp
  then have "ev_type e = ''req'' \<and> ev_source e = alice \<and> ev_dest e = bob" using e(1) by simp
  moreover have "length raw \<le> 8192"
    using raw unfolding encode_message_Inr by (auto simp: summary_request_def max_size_def max_request_bytes_def simp del: dump.simps)
  ultimately show ?thesis using e(2) by (intro exI conjI) auto
qed

lemma lab_wire: "find_by_wire ''a'' [peer_a] = Some peer_a" "wire_node ''a'' = ''a''"
  by code_simp+

lemma lab_datagram:
  assumes "length body < 65536"
  shows "\<exists>data n. parse_packet data = Some \<lparr>pk_version = 2, pk_type = 0x20, pk_node = ''a'', pk_nonce = n, pk_payload = body\<rparr>"
    "\<exists>data n. parse_packet data = Some \<lparr>pk_version = 2, pk_type = 1, pk_node = ''a'', pk_nonce = n, pk_payload = body\<rparr>"
proof -
  obtain d1 d2 where d: "build_packet (cy_encrypt plain_cipher) ''a'' 0x20 body ''k'' 72 1 = Inr d1"
    "build_packet (cy_encrypt plain_cipher) ''a'' 1 body ''k'' 72 1 = Inr d2" using lab_packet [OF assms] by meson
  show "\<exists>data n. parse_packet data = Some \<lparr>pk_version = 2, pk_type = 0x20, pk_node = ''a'', pk_nonce = n, pk_payload = body\<rparr>"
    using parse_built_packet [OF d(1), of "[]"] lab_wire(2) by (auto simp: plain_cipher_def)
  show "\<exists>data n. parse_packet data = Some \<lparr>pk_version = 2, pk_type = 1, pk_node = ''a'', pk_nonce = n, pk_payload = body\<rparr>"
    using parse_built_packet [OF d(2), of "[]"] lab_wire(2) by (auto simp: plain_cipher_def)
qed



definition beat_message :: json where
  "beat_message = JObj [(''node'', JStr ''a''), (''pubkey'', JStr ''k''), (''type'', JStr ''heartbeat'')]"

lemma lab_heartbeat: "\<exists>data. heartbeat_of lab [peer_a] addr data peer_a"
proof -
  have "sort_keys beat_message = beat_message" "plain beat_message" "heartbeat_check peer_a beat_message = Inr ()" by code_simp+
  then have l: "loads_value (utf8_encode (dump beat_message)) = Inr beat_message"
    using loads_dump [of beat_message] by (simp add: loads_value_def loads_bytes_def utf8_round_trip)
  have "length (utf8_encode (dump beat_message)) < 65536"
    by (simp add: beat_message_def json_string_def esc_char_def utf8_encode_def utf8_char_def Let_def)
  then obtain data n where data:
    "parse_packet data = Some \<lparr>pk_version = 2, pk_type = 1, pk_node = ''a'', pk_nonce = n, pk_payload = utf8_encode (dump beat_message)\<rparr>"
    using lab_datagram(2) by blast
  have "heartbeat_of lab [peer_a] addr data peer_a"
    unfolding heartbeat_of_def using data l \<open>heartbeat_check peer_a beat_message = Inr ()\<close>
    by (auto simp: app_packet_types_def heartbeat_peer_def lab_wire lab_fields)
  then show ?thesis by blast
qed

theorem heartbeat_moves_the_peer_witness:
  "\<exists>data d. receive lab quiet_now (''203.0.113.9'', 4000) data lab_start = (Inr (), d) \<and>
     map_option (\<lambda>p. (pr_ip p, pr_port p, pr_seen p, pr_online p)) (find_peer ''a'' (table d)) = Some (''203.0.113.9'', 4000, 72, True)"
proof -
  obtain data where h: "heartbeat_of lab (table lab_start) (''203.0.113.9'', 4000) data peer_a"
    using lab_heartbeat by (auto simp: lab_start_def start_daemon_def table_def)
  have "possible_address peer_a (''203.0.113.9'', 4000)" by code_simp
  from heartbeat_moves_the_peer [OF h this, of quiet_now] obtain d where
    "receive lab quiet_now (''203.0.113.9'', 4000) data lab_start = (Inr (), d)"
    "find_peer ''a'' (table d) = Some (heard quiet_now (''203.0.113.9'', 4000) peer_a)" by (auto simp: lab_fields)
  then show ?thesis by (intro exI [of _ data] exI [of _ d]) (simp add: heard_def lab_fields)
qed

section \<open>Threads that stop\<close>

text \<open>
  The heartbeat's \<open>ts\<close> is never compared with a clock and its nonce is not remembered: a datagram captured from a peer
  is accepted again at any time and from any address, and moves the peer's endpoint there.
\<close>

lemma replayed_heartbeat_is_accepted:
  assumes "heartbeat_of cfg t a datagram p" "find_by_wire (wire_node (pr_id p)) t = Some p"
    and "\<And>pk. parse_packet datagram = Some pk \<Longrightarrow> pk_node pk = wire_node (pr_id p)"
  shows "heartbeat_of cfg t b datagram p"
  using assms unfolding heartbeat_of_def by (auto simp: heartbeat_peer_def)

text \<open>A \<open>RelayError\<close> is no \<open>ValueError\<close>: an accepted heartbeat whose UDP source port is 0 ends the receive loop.\<close>

lemma source_port_zero_stops_the_receiver:
  assumes "heartbeat_of cfg (table d) (ip, 0) datagram p" "py_strip ip \<noteq> []" "opt_strip (pr_peer p) \<noteq> []"
  shows "fst (receive cfg sr (ip, 0) datagram d) = Inl (Relay_error ''bad_route'' ''invalid UDP port'')"
proof -
  obtain pid where "pr_peer p = Some pid" "py_strip pid \<noteq> []"
    using assms(3) by (auto simp: opt_strip_def split: option.split_asm)
  then show ?thesis
    using assms(2) unfolding receive_heartbeat_of [OF assms(1)]
    by (simp add: catch_d_def record_contact_def st_bind_def upd_d_def observe_def heartbeat_rejected_def raise_def)
qed

text \<open>An integer of more than 4300 digits is a plain \<open>ValueError\<close>, which the application path does not catch.\<close>

lemma long_number: "4300 < n \<Longrightarrow> json_loads (replicate n (CHR ''1'')) = Inl Digit_limit"
proof -
  assume n: "4300 < n"
  then obtain m where m: "n = Suc m" by (cases n) auto
  have one: "is_digit (CHR ''1'')" by code_simp
  have "int_part (replicate n (CHR ''1'')) = replicate n (CHR ''1'')" using one by (simp add: m int_part_def)
  then have "read_number (replicate n (CHR ''1'')) = Inl Digit_limit"
    using n by (simp add: read_number_def Let_def frac_part_def exp_part_def m)
  moreover have "skip_ws (replicate n (CHR ''1'')) = replicate n (CHR ''1'')" by (simp add: m skip_ws_def json_space_def)
  ultimately show ?thesis by (simp add: json_loads_def m)
qed

lemma long_number_stops_the_receiver:
  assumes "parse_packet datagram = Some pk" "pk_type pk \<in> set app_packet_types" "pk_version pk = 2" "app_ready cfg"
    and "app_peer_for_packet cfg pk (table d) = Some p" "cy_derive (tc_crypto cfg) (the (pr_pubkey p)) = Some key"
    and "cy_decrypt (tc_crypto cfg) (pk_payload pk) key (pk_nonce pk) = Some body"
    and "decode_message (tc_supported cfg) (Some (now_ms sr)) body = Inl Value_error"
  shows "fst (receive cfg sr addr datagram d) = Inl Value_error"
proof -
  have "table (upd_stats bump_recv d) = table d" by (simp add: table_def upd_stats_def)
  then show ?thesis
    using assms
    by (simp add: receive_def receive_app_def st_bind_def upd_d_def get_d_def handle_app_packet_def catch_d_def admit_packet_def of_r_def
        packet_rejected_def raise_def)
qed

text \<open>\<open>sendto\<close> with a port beyond 65535, which a registry record can carry, is an \<open>OverflowError\<close>: the heartbeat loop ends.\<close>

lemma registry_port_stops_heartbeats:
  assumes "table d = p # ps" "complete_identity p" "65535 < pr_port p" "cy_derive (tc_crypto cfg) (the (pr_pubkey p)) = Some key"
    and "\<And>c. \<exists>pkt. build_packet (cy_encrypt (tc_crypto cfg)) (tc_node cfg) 1 (heartbeat_payload cfg sr) key (now_secs sr) c = Inr pkt"
  shows "fst (heartbeat_round cfg sr d) = Inl Other_error"
proof -
  let ?d = "upd_table (update_peer (pr_id p) (\<lambda>q. q\<lparr>pr_peer := pr_peer p, pr_pubkey := pr_pubkey p\<rparr>)) d"
  have key: "peer_key cfg sr p d = (Inr key, ?d)"
    using assms(2,4) by (simp add: peer_key_def st_bind_def ensure_complete of_r_def)
  obtain pkt where "build_packet (cy_encrypt (tc_crypto cfg)) (tc_node cfg) 1 (heartbeat_payload cfg sr) key (now_secs sr) (Suc (dm_counter ?d)) = Inr pkt"
    using assms(5) by blast
  then have "fst (heartbeat_to cfg sr p d) = Inl Other_error"
    using assms(3) by (simp add: heartbeat_to_def key catch_d_def transmit_result Let_def send_to_def raise_def)
  then obtain d1 where "heartbeat_to cfg sr p d = (Inl Other_error, d1)" by (metis prod.collapse)
  then show ?thesis by (simp add: heartbeat_round_def st_bind_def get_d_def assms(1))
qed

end
