(* ===== verification/Tep_Ipc.thy ===== *)
theory Tep_Ipc
  imports Tep_Daemon
begin

text \<open>
  The local side of the TEP daemon: the three remote calls (\<open>storage_summary_rpc\<close> of \<open>tep/hb_tep.py\<close>, \<open>ha_lease_rpc\<close> and
  \<open>master_status_rpc\<close> of \<open>tep/hb_tep_runtime_ha.py\<close>) and the HTTP handlers in front of them. The two transports of a call
  are arguments, as are the body read and the call's outcome for the handlers; what \<open>http.server\<close> does is left out.
\<close>

section \<open>Remote calls\<close>

definition name_arg :: "json \<Rightarrow> string" where
  "name_arg v = py_strip (py_str (py_or v (JStr [])))"

definition check_args :: "string \<Rightarrow> string \<Rightarrow> tep_exn + unit" where
  "check_args node peer =
     (if node = [] \<or> 128 < length node then protocol ''bad_request'' ''invalid node_id''
      else if peer = [] \<or> 256 < length peer then protocol ''bad_request'' ''invalid peer_id''
      else Inr ())"

definition check_names :: "tep_config \<Rightarrow> string \<Rightarrow> string \<Rightarrow> tep_exn + unit" where
  "check_names cfg node peer = bind_r (check_args node peer) (\<lambda>_. if \<not> app_ready cfg then not_ready else Inr ())"

record call =
  ca_service :: string
  ca_payload :: jobj
  ca_timeout :: py_float

definition storage_call :: call where "storage_call = \<lparr>ca_service = ''storage.summary'', ca_payload = [], ca_timeout = 3\<rparr>"
definition lease_call :: "jobj \<Rightarrow> call" where "lease_call p = \<lparr>ca_service = ''ha.lease'', ca_payload = p, ca_timeout = 5 / 2\<rparr>"
definition master_call :: call where "master_call = \<lparr>ca_service = ''master.status'', ca_payload = [], ca_timeout = 5 / 2\<rparr>"

text \<open>The clocks and the outcomes of the transports during one call.\<close>

record call_env =
  ce_rid :: string
  ce_nonce :: string
  ce_sent :: int
  ce_start :: py_float
  ce_clock :: "nat \<Rightarrow> py_float"
  ce_wall :: int
  ce_now :: py_float
  ce_direct :: "string \<Rightarrow> string \<Rightarrow> py_float \<Rightarrow> tep_exn + string"
  ce_relay :: "string \<Rightarrow> string \<Rightarrow> string \<Rightarrow> py_float \<Rightarrow> tep_exn + string"

definition attempt :: "tep_config \<Rightarrow> call_env \<Rightarrow> string \<Rightarrow> string \<Rightarrow> py_float \<Rightarrow> failover" where
  "attempt cfg ce dest raw timeout =
     failover_call (ce_direct ce dest raw) (\<lambda>rp left. ce_relay ce rp dest raw left) (relay_candidates (tc_rendezvous cfg)) (12 / 10) 2
       (ce_start ce) (ce_clock ce) timeout \<lparr>fo_result = Inl Timeout_error, fo_path = None, fo_relay = None\<rparr>"

record call_result =
  cr_result :: jobj
  cr_path :: "string option"
  cr_relay :: "string option"

definition remote_call :: "tep_config \<Rightarrow> call_env \<Rightarrow> call \<Rightarrow> json \<Rightarrow> json \<Rightarrow> tep_exn + call_result" where
  "remote_call cfg ce c node_arg peer_arg =
     (let dest = \<lparr>id_node = name_arg node_arg, id_peer = name_arg peer_arg\<rparr>; self = local_identity cfg
      in bind_r (check_names cfg (id_node dest) (id_peer dest)) (\<lambda>_.
         bind_r (pending_table 256) (\<lambda>t.
         bind_r (fst (client_request (tc_supported cfg) self (ce_rid ce) (ce_nonce ce) (ce_sent ce) (ce_start ce) (ce_wall ce) (ce_now ce)
                        (\<lambda>d raw left. map_sum id Raw_reply (fo_result (attempt cfg ce d raw left)))
                        dest (ca_service c) (ca_payload c) (ca_timeout c) t)) (\<lambda>result.
         bind_r (bind_r (new_request (tc_supported cfg) (ce_rid ce) (ce_nonce ce) (ce_sent ce) self dest (ca_service c) (ca_payload c)
                           (request_ttl (ca_timeout c))) (encode_message (tc_supported cfg))) (\<lambda>raw.
           let f = attempt cfg ce (id_peer dest) raw (ca_timeout c)
           in Inr \<lparr>cr_result = result, cr_path = fo_path f, cr_relay = fo_relay f\<rparr>)))))"

definition storage_summary_rpc :: "tep_config \<Rightarrow> call_env \<Rightarrow> json \<Rightarrow> json \<Rightarrow> tep_exn + call_result" where
  "storage_summary_rpc cfg ce node_arg peer_arg = remote_call cfg ce storage_call node_arg peer_arg"

definition ha_lease_rpc :: "tep_config \<Rightarrow> call_env \<Rightarrow> json \<Rightarrow> json \<Rightarrow> json \<Rightarrow> tep_exn + call_result" where
  "ha_lease_rpc cfg ce node_arg peer_arg payload =
     (case payload of
        JObj p \<Rightarrow> remote_call cfg ce (lease_call p) node_arg peer_arg
      | _ \<Rightarrow> bind_r (check_args (name_arg node_arg) (name_arg peer_arg)) (\<lambda>_. protocol ''bad_request'' ''payload must be an object''))"

definition master_status_rpc :: "tep_config \<Rightarrow> call_env \<Rightarrow> json \<Rightarrow> json \<Rightarrow> tep_exn + call_result" where
  "master_status_rpc cfg ce node_arg peer_arg = remote_call cfg ce master_call node_arg peer_arg"

section \<open>The HTTP handlers\<close>

text \<open>An answer is a status and an error code or a result; \<open>None\<close> is an exception the handler does not catch.\<close>

type_synonym ipc_answer = "nat \<times> (string + call_result)"

definition ipc_error :: "nat \<Rightarrow> string \<Rightarrow> ipc_answer" where "ipc_error status code = (status, Inl code)"

definition call_outcome :: "tep_exn + call_result \<Rightarrow> ipc_answer" where
  "call_outcome r =
     (case r of
        Inr x \<Rightarrow> (200, Inr x)
      | Inl (Client_error c m) \<Rightarrow> ipc_error (if c = ''request_timeout'' then 504 else 503) c
      | Inl (Protocol_error c m) \<Rightarrow> ipc_error 503 c
      | Inl _ \<Rightarrow> ipc_error 500 ''internal_error'')"

text \<open>\<open>_send_json\<close>: \<open>too_large\<close> says that the encoded body exceeds the limit.\<close>

definition ipc_send :: "bool \<Rightarrow> ipc_answer \<Rightarrow> ipc_answer" where
  "ipc_send too_large a = (if too_large then (502, Inl ''response_too_large'') else a)"

definition content_kind :: "string option \<Rightarrow> string" where
  "content_kind h = py_lower (py_strip (hd (split_on (CHR '';'') (case h of None \<Rightarrow> [] | Some s \<Rightarrow> s))))"

definition exact_keys :: "string list \<Rightarrow> jobj \<Rightarrow> bool" where
  "exact_keys ks d \<longleftrightarrow> fst ` set d = set ks"

definition core_post ::
  "tep_config \<Rightarrow> call_env \<Rightarrow> string \<Rightarrow> string option \<Rightarrow> string option \<Rightarrow> string \<Rightarrow> ipc_answer option" where
  "core_post cfg ce path ctype clen body =
     (if path \<noteq> ''/app/storage-summary'' then Some (ipc_error 404 ''not_found'')
      else if content_kind ctype \<noteq> ''application/json'' then Some (ipc_error 415 ''unsupported_media_type'')
      else (case clen of
              None \<Rightarrow> Some (ipc_error 411 ''length_required'')
            | Some l \<Rightarrow>
                (case py_int_text l of
                   None \<Rightarrow> Some (ipc_error 400 ''bad_content_length'')
                 | Some n \<Rightarrow>
                     if n \<le> 0 \<or> 8192 < n then Some (ipc_error 413 ''request_too_large'')
                     else (case loads_bytes body of
                             Inl Digit_limit \<Rightarrow> None
                           | Inl _ \<Rightarrow> Some (ipc_error 400 ''invalid_json'')
                           | Inr (JObj d) \<Rightarrow>
                               if exact_keys [''node_id'', ''peer_id''] d
                               then Some (call_outcome (storage_summary_rpc cfg ce (jget d ''node_id'') (jget d ''peer_id'')))
                               else Some (ipc_error 400 ''bad_request'')
                           | Inr _ \<Rightarrow> Some (ipc_error 400 ''bad_request'')))))"

definition core_get :: "string \<Rightarrow> nat" where
  "core_get path = (if path = ''/favicon.ico'' then 204 else if starts_with ''/app/'' path then 405 else 200)"

definition ha_length :: "string option \<Rightarrow> int" where
  "ha_length clen =
     (case py_int_text (case clen of None \<Rightarrow> ''0'' | Some s \<Rightarrow> if s = [] then ''0'' else s) of None \<Rightarrow> 0 | Some n \<Rightarrow> n)"

definition ha_ipc_post ::
  "tep_config \<Rightarrow> call_env \<Rightarrow> string \<Rightarrow> string option \<Rightarrow> string option \<Rightarrow> string \<Rightarrow> ipc_answer" where
  "ha_ipc_post cfg ce path ctype clen body =
     (if path \<notin> {''/app/ha-lease'', ''/app/master-status''} then ipc_error 404 ''not_found''
      else if content_kind ctype \<noteq> ''application/json'' then ipc_error 415 ''unsupported_media_type''
      else if ha_length clen \<le> 0 \<or> 16384 < ha_length clen then ipc_error 413 ''request_too_large''
      else (case loads_bytes body of
              Inl e \<Rightarrow> ipc_error 400 ''invalid_json''
            | Inr (JObj d) \<Rightarrow>
                if path = ''/app/ha-lease'' then
                  (if \<not> exact_keys [''node_id'', ''peer_id'', ''payload''] d then ipc_error 400 ''bad_request''
                   else (case jget d ''payload'' of
                           JObj p \<Rightarrow> call_outcome (ha_lease_rpc cfg ce (jget d ''node_id'') (jget d ''peer_id'') (JObj p))
                         | _ \<Rightarrow> ipc_error 400 ''bad_request''))
                else if \<not> exact_keys [''node_id'', ''peer_id''] d then ipc_error 400 ''bad_request''
                else call_outcome (master_status_rpc cfg ce (jget d ''node_id'') (jget d ''peer_id''))
            | Inr _ \<Rightarrow> ipc_error 400 ''bad_request''))"

section \<open>Properties\<close>

lemma attempt_path:
  assumes "fo_result (attempt cfg ce dest raw timeout) = Inr answer"
  shows "fo_path (attempt cfg ce dest raw timeout) = Some ''direct'' \<and> fo_relay (attempt cfg ce dest raw timeout) = None \<or>
    fo_path (attempt cfg ce dest raw timeout) = Some ''relay'' \<and>
    (\<exists>p \<in> set (tc_rendezvous cfg). fo_relay (attempt cfg ce dest raw timeout) = Some p)"
  using assms
  by (auto simp: attempt_def failover_call_def relay_candidates_def split: if_split_asm sum.split_asm prod.split_asm tep_exn.split_asm
      dest!: relay_loop_answer)

text \<open>What a successful request of the client did.\<close>

lemma client_request_Inr:
  assumes "fst (client_request supported local rid nonce sent start wall now transport dest service payload timeout t) = Inr p"
  obtains req raw reply env where "new_request supported rid nonce sent local dest service payload (request_ttl timeout) = Inr req"
    "encode_message supported req = Inr raw" "transport (id_peer dest) raw timeout = Inr reply" "read_reply supported wall reply = Inr env"
    "check_reply local env = Inr ()" "reply_payload env = Inr p"
proof -
  obtain req where req: "new_request supported rid nonce sent local dest service payload (request_ttl timeout) = Inr req"
    using assms
    by (cases "new_request supported rid nonce sent local dest service payload (request_ttl timeout)") (simp_all add: client_request_def)
  obtain q t1 where a: "add_pending start rid (id_peer dest) service timeout t = (Inr q, t1)"
    using assms req
    by (cases "add_pending start rid (id_peer dest) service timeout t"; cases "fst (add_pending start rid (id_peer dest) service timeout t)")
      (simp_all add: client_request_def)
  obtain r t2 where b: "request_body supported local wall now transport (id_peer dest) timeout req t1 = (r, t2)" by fastforce
  then have r: "r = Inr p" using assms req a by (simp add: client_request_def)
  then show thesis using request_body_Inr [OF b [unfolded r]] that [OF req] by metis
qed

lemma reply_payload_Inr: "reply_payload env = Inr p \<Longrightarrow> check_reply local env = Inr () \<Longrightarrow>
    ev_type env = ''res'' \<and> id_peer (ev_dest env) = id_peer local \<and> jget (ev_raw env) ''payload'' = JObj p"
  by (auto simp: reply_payload_def check_reply_def split: if_split_asm json.split_asm)

text \<open> A call that reaches the network and succeeds went directly to its destination or through a configured rendezvous, and
  its payload came from the peer that was named: an authenticated \<open>res\<close> envelope for this call's request id and service.
  The names were within bounds and the daemon had its identity.
\<close>
theorem remote_call_succeeds_honestly:
  assumes "remote_call cfg ce c node_arg peer_arg = Inr r"
  shows "app_ready cfg \<and> name_arg node_arg \<noteq> [] \<and> length (name_arg node_arg) \<le> 128 \<and> name_arg peer_arg \<noteq> [] \<and>
    length (name_arg peer_arg) \<le> 256 \<and>
    (cr_path r = Some ''direct'' \<and> cr_relay r = None \<or>
     cr_path r = Some ''relay'' \<and> (\<exists>p \<in> set (tc_rendezvous cfg). cr_relay r = Some p)) \<and>
    (\<exists>raw answer env. fo_result (attempt cfg ce (name_arg peer_arg) raw (ca_timeout c)) = Inr answer \<and>
       decode_message (tc_supported cfg) (Some (ce_wall ce)) answer = Inr env \<and> ev_type env = ''res'' \<and>
       id_peer (ev_dest env) = tc_peer cfg \<and> jget (ev_raw env) ''payload'' = JObj (cr_result r))"
proof -
  let ?dest = "\<lparr>id_node = name_arg node_arg, id_peer = name_arg peer_arg\<rparr>"
  obtain t raw req where c: "check_names cfg (name_arg node_arg) (name_arg peer_arg) = Inr ()"
    "fst (client_request (tc_supported cfg) (local_identity cfg) (ce_rid ce) (ce_nonce ce) (ce_sent ce) (ce_start ce) (ce_wall ce) (ce_now ce)
       (\<lambda>d raw left. map_sum id Raw_reply (fo_result (attempt cfg ce d raw left))) ?dest (ca_service c) (ca_payload c) (ca_timeout c) t) =
     Inr (cr_result r)"
    "new_request (tc_supported cfg) (ce_rid ce) (ce_nonce ce) (ce_sent ce) (local_identity cfg) ?dest (ca_service c) (ca_payload c)
       (request_ttl (ca_timeout c)) = Inr req" "encode_message (tc_supported cfg) req = Inr raw"
    "cr_path r = fo_path (attempt cfg ce (name_arg peer_arg) raw (ca_timeout c))"
    "cr_relay r = fo_relay (attempt cfg ce (name_arg peer_arg) raw (ca_timeout c))"
    using assms by (auto simp: remote_call_def Let_def bind_r_Inr)
  obtain reply env where e: "map_sum id Raw_reply (fo_result (attempt cfg ce (name_arg peer_arg) raw (ca_timeout c))) = Inr reply"
    "read_reply (tc_supported cfg) (ce_wall ce) reply = Inr env" "check_reply (local_identity cfg) env = Inr ()"
    "reply_payload env = Inr (cr_result r)"
    by (rule client_request_Inr [OF c(2)]) (use c(3,4) in auto)
  obtain answer where answer: "fo_result (attempt cfg ce (name_arg peer_arg) raw (ca_timeout c)) = Inr answer" "reply = Raw_reply answer"
    using e(1) by (cases "fo_result (attempt cfg ce (name_arg peer_arg) raw (ca_timeout c))") auto
  have "decode_message (tc_supported cfg) (Some (ce_wall ce)) answer = Inr env" using e(2) answer(2) by (simp add: read_reply_def)
  moreover have "ev_type env = ''res'' \<and> id_peer (ev_dest env) = tc_peer cfg \<and> jget (ev_raw env) ''payload'' = JObj (cr_result r)"
    using reply_payload_Inr [OF e(4,3)] by (simp add: local_identity_def)
  moreover have "app_ready cfg" "name_arg node_arg \<noteq> []" "length (name_arg node_arg) \<le> 128" "name_arg peer_arg \<noteq> []"
    "length (name_arg peer_arg) \<le> 256"
    using c(1) by (auto simp: check_names_def check_args_def bind_r_Inr protocol_def not_ready_def split: if_split_asm)
  ultimately show ?thesis using attempt_path [OF answer(1)] answer(1) c(5,6) by auto
qed

text \<open>The loopback endpoint answers 200 only for a well-formed request whose call succeeded.\<close>

lemma call_outcome_200: "call_outcome r = (200, Inr x) \<longleftrightarrow> r = Inr x"
  by (auto simp: call_outcome_def ipc_error_def split: sum.splits tep_exn.splits)

lemma ha_ipc_post_200:
  assumes "ha_ipc_post cfg ce path ctype clen body = (200, Inr x)"
  obtains d where "loads_bytes body = Inr (JObj d)" "content_kind ctype = ''application/json''" "0 < ha_length clen"
    "ha_length clen \<le> 16384"
    "path = ''/app/ha-lease'' \<and> fst ` set d = {''node_id'', ''peer_id'', ''payload''} \<and>
       ha_lease_rpc cfg ce (jget d ''node_id'') (jget d ''peer_id'') (jget d ''payload'') = Inr x \<or>
     path = ''/app/master-status'' \<and> fst ` set d = {''node_id'', ''peer_id''} \<and>
       master_status_rpc cfg ce (jget d ''node_id'') (jget d ''peer_id'') = Inr x"
  using assms
  by (auto simp: ha_ipc_post_def ipc_error_def call_outcome_200 exact_keys_def split: if_split_asm sum.split_asm json.split_asm)

section \<open>A call\<close>

definition sorted_reply :: jobj where
  "sorted_reply =
     [(''destination'', identity_json alice), (''nonce'', JStr ''eeeeeeeeeeeeeeeeeeeeeeeeeeeeeeee''), (''payload'', JObj [(''free'', JInt 5)]),
      (''request_id'', JStr ''0123456789abcdef0123456789abcdef''), (''service'', JStr ''storage.summary''), (''source'', identity_json bob),
      (''status'', JInt 200), (''timestamp_ms'', JInt 71000), (''type'', JStr ''res''), (''v'', JInt 1)]"

lemma plain_reply: "plain (JObj summary_reply)"
  by (simp add: summary_reply_def identity_json_def int_digits_def show_nat.simps)

lemma reply_bytes:
  "\<exists>rr b. decode_message [''storage.summary''] (Some 72000) rr = Inr (reply_envelope\<lparr>ev_raw := b\<rparr>) \<and>
     jget b ''payload'' = JObj [(''free'', JInt 5)]"
proof -
  have v: "validate_envelope [''storage.summary''] None summary_reply = Inr reply_envelope" by code_simp
  have "sort_keys (JObj summary_reply) = JObj sorted_reply" by code_simp
  then have "json_dumps (JObj summary_reply) = Inr (dump (JObj sorted_reply))"
    using plain_ints_short [OF plain_reply] by (simp add: json_dumps_def)
  moreover have "length (utf8_encode (dump (JObj sorted_reply))) \<le> 1000"
    by (simp add: sorted_reply_def json_string_def esc_char_def utf8_encode_def utf8_char_def show_int_def show_nat.simps Let_def
        identity_json_def alice_def bob_def)
  ultimately obtain rr where rr: "encode_message [''storage.summary''] summary_reply = Inr rr"
    using v unfolding encode_message_Inr by (auto simp: summary_reply_def max_size_def max_response_bytes_def simp del: dump.simps)
  have "\<forall>t. jget summary_reply ''timestamp_ms'' = JInt t \<longrightarrow> in_window (Some 72000) t"
    by (simp add: summary_reply_def in_window_def past_skew_ms_def future_skew_ms_def)
  then obtain b where b: "sorted_of summary_reply b" "decode_message [''storage.summary''] (Some 72000) rr = Inr (reply_envelope\<lparr>ev_raw := b\<rparr>)"
    using message_reads_back [OF rr plain_reply] v by auto
  have "jget b ''payload'' = JObj [(''free'', JInt 5)]"
    using sorted_ofD [OF b(1), of "''payload''"] by (simp add: summary_reply_def)
  then show ?thesis using b(2) by blast
qed

definition caller :: tep_config where
  "caller = \<lparr>tc_node = ''a'', tc_peer = ''pa'', tc_crypto = \<lparr>cy_have = True, cy_pubkey = ''k'', cy_derive = Some,
     cy_encrypt = (\<lambda>p k n. p), cy_decrypt = (\<lambda>c k n. Some c)\<rparr>, tc_supported = [''storage.summary''], tc_relay_enabled = False,
     tc_clients = [], tc_trusted = [], tc_rendezvous = [''pr'']\<rparr>"

definition call_now :: "(string \<Rightarrow> string \<Rightarrow> py_float \<Rightarrow> tep_exn + string) \<Rightarrow> call_env" where
  "call_now direct = \<lparr>ce_rid = ''0123456789abcdef0123456789abcdef'', ce_nonce = ''ffffffffffffffffffffffffffffffff'', ce_sent = 70000,
     ce_start = 5, ce_clock = (\<lambda>k. 5), ce_wall = 72000, ce_now = 6, ce_direct = direct, ce_relay = (\<lambda>rp d raw left. Inl Timeout_error)\<rparr>"

theorem remote_call_succeeds_honestly_witness:
  "\<exists>direct r. remote_call caller (call_now direct) storage_call (JStr '' b '') (JStr ''pb'') = Inr r \<and>
     cr_result r = [(''free'', JInt 5)] \<and> cr_path r = Some ''direct'' \<and> app_ready caller"
proof -
  obtain rr b where rr: "decode_message [''storage.summary''] (Some 72000) rr = Inr (reply_envelope\<lparr>ev_raw := b\<rparr>)"
    "jget b ''payload'' = JObj [(''free'', JInt 5)]" using reply_bytes by blast
  obtain raw where raw: "encode_message [''storage.summary''] summary_request = Inr raw" using summary_request_encodes by blast
  let ?ce = "call_now (\<lambda>d m t. Inr rr)" and ?r = "\<lparr>cr_result = [(''free'', JInt 5)], cr_path = Some ''direct'', cr_relay = None\<rparr>"
  have names: "name_arg (JStr '' b '') = ''b''" "name_arg (JStr ''pb'') = ''pb''" by code_simp+
  have a: "attempt caller ?ce d m 3 = \<lparr>fo_result = Inr rr, fo_path = Some ''direct'', fo_relay = None\<rparr>" for d m
    by (simp add: attempt_def failover_call_def call_now_def)
  have self: "local_identity caller = alice" "\<lparr>id_node = ''b'', id_peer = ''pb''\<rparr> = bob" "id_peer bob = ''pb''" "id_node bob = ''b''"
    by (simp_all add: local_identity_def caller_def alice_def bob_def)
  have read: "read_reply [''storage.summary''] 72000 (Raw_reply rr) = Inr (reply_envelope\<lparr>ev_raw := b\<rparr>)" using rr(1) by (simp add: read_reply_def)
  have request: "fst (client_request [''storage.summary''] alice ''0123456789abcdef0123456789abcdef'' ''ffffffffffffffffffffffffffffffff''
      70000 5 72000 6 (\<lambda>d m left. map_sum id Raw_reply (fo_result (attempt caller ?ce d m left))) bob ''storage.summary'' [] 3
      \<lparr>pn_max = 256, pn_items = []\<rparr>) = Inr [(''free'', JInt 5)]"
    by (rule client_request_answer [OF raw _ read rr(2)]) (simp add: a)
  have fields: "tc_supported caller = [''storage.summary'']" "app_ready caller" "ce_rid ?ce = ''0123456789abcdef0123456789abcdef''"
    "ce_nonce ?ce = ''ffffffffffffffffffffffffffffffff''" "ce_sent ?ce = 70000" "ce_start ?ce = 5" "ce_wall ?ce = 72000" "ce_now ?ce = 6"
    by (simp_all add: caller_def call_now_def app_ready_def)
  have call: "ca_service storage_call = ''storage.summary''" "ca_payload storage_call = []" "ca_timeout storage_call = 3" "request_ttl 3 = 3000"
    by (simp_all add: storage_call_def request_ttl_def py_trunc_def)
  have checks: "check_names caller ''b'' ''pb'' = Inr ()" using fields(2) by (simp add: check_names_def check_args_def)
  have r: "remote_call caller ?ce storage_call (JStr '' b '') (JStr ''pb'') = Inr ?r"
    unfolding remote_call_def Let_def
    by (simp only: names self call fields checks identity.simps pending_table_def new_summary_request raw a)
      (simp add: a request raw)
  from remote_call_succeeds_honestly [OF r] show ?thesis using r by (intro exI [of _ "\<lambda>d m t. Inr rr"] exI [of _ ?r]) simp
qed

end
