(* ===== verification/Aggregator.thy ===== *)
theory Aggregator
  imports Tep_Services
begin

text \<open>
  The storage network aggregator: \<open>aggregator/hb_aggregator.py\<close> with its loopback adapter to the TEP daemon,
  \<open>aggregator/hb_tep_adapter.py\<close>, and the cache of \<open>aggregator/hb_aggregator_server.py\<close>. What the nodes and the
  daemon answer, the parsed node list and the clock are arguments; the results of the thread pool come in the order
  of the nodes. Floats are exact rationals, and \<open>round\<close> rounds them half to even.
\<close>

section \<open>Values\<close>

text \<open>\<open>ValueError\<close> with its text, \<open>TepAdapterError\<close>, and whatever the interpreter raises.\<close>

datatype agg_exn = Bad_value string | Adapter_error string string | Python_error

record agg_config =
  ag_timeout :: py_float
  ag_stale :: int
  ag_max_response :: nat
  ag_port :: string

section \<open>Configured nodes\<close>

definition node_transport :: "jobj \<Rightarrow> string" where
  "node_transport node =
     (let raw = jget node ''transport''
      in if raw = JNull \<or> py_strip (py_str raw) = [] then ''direct'' else py_lower (py_strip (py_str raw)))"

definition node_config_valid :: "jobj \<Rightarrow> bool" where
  "node_config_valid node =
     (if node_transport node = ''direct'' then jtext_strip node ''url'' \<noteq> []
      else if node_transport node = ''tep'' then jtext_strip node ''tep_peer_id'' \<noteq> []
      else False)"

text \<open>\<open>None\<close> is a file that cannot be read or parsed.\<close>

definition discover_nodes :: "json option \<Rightarrow> jobj list" where
  "discover_nodes file =
     (case file of
        Some (JObj d) \<Rightarrow>
          (case py_iter (jget_def_to d ''nodes'' (JList [])) of
             None \<Rightarrow> []
           | Some xs \<Rightarrow> filter (\<lambda>n. jget n ''enabled'' \<noteq> JBool False \<and> node_config_valid n) (List.map_filter as_obj xs))
      | _ \<Rightarrow> [])"

section \<open>The adapter\<close>

datatype ipc_reply = Ipc_body string | Ipc_http string | Ipc_down

definition ipc_max_response :: nat where "ipc_max_response = 32768"

definition ipc_port :: "string \<Rightarrow> agg_exn + int" where
  "ipc_port raw =
     (case py_int_text (py_strip raw) of
        None \<Rightarrow> Inl (Adapter_error ''bad_config'' ''HB_TEP_IPC_PORT must be an integer'')
      | Some p \<Rightarrow>
          if p < 1 \<or> 65535 < p then Inl (Adapter_error ''bad_config'' ''HB_TEP_IPC_PORT must be in [1, 65535]'') else Inr p)"

definition decode_response :: "string \<Rightarrow> agg_exn + jobj" where
  "decode_response raw =
     (if ipc_max_response < length raw then Inl (Adapter_error ''bad_response'' ''TEP IPC response too large'')
      else (case loads_bytes raw of
              Inl e \<Rightarrow> Inl (Adapter_error ''bad_response'' ''TEP IPC returned invalid JSON'')
            | Inr (JObj d) \<Rightarrow> Inr d
            | Inr _ \<Rightarrow> Inl (Adapter_error ''bad_response'' ''TEP IPC response must be an object'')))"

definition raise_ipc_error :: "string \<Rightarrow> jobj \<Rightarrow> agg_exn + 'a" where
  "raise_ipc_error fallback body =
     (case jget body ''error'' of
        JObj e \<Rightarrow> Inl (Adapter_error (take 64 (py_str (py_or (jget e ''code'') (JStr fallback))))
                                    (take 160 (py_str (py_or (jget e ''message'') (JStr ''TEP IPC request failed'')))))
      | _ \<Rightarrow> Inl (Adapter_error fallback ''TEP IPC request failed''))"

definition bad_config :: "string \<Rightarrow> agg_exn + 'a" where "bad_config m = Inl (Adapter_error ''bad_config'' m)"
definition bad_response :: "string \<Rightarrow> agg_exn + 'a" where "bad_response m = Inl (Adapter_error ''bad_response'' m)"

definition routing_ids :: "py_float \<Rightarrow> jobj \<Rightarrow> agg_exn + string \<times> string" where
  "routing_ids timeout node =
     (let peer = jtext_strip node ''tep_peer_id'';
          nid = py_strip (py_str (py_or (jget node ''tep_node_id'') (py_or (jget node ''name'') (JStr []))))
      in if peer = [] then bad_config ''TEP node requires tep_peer_id''
         else if nid = [] then bad_config ''TEP node requires a stable node identifier''
         else if timeout \<le> 0 \<or> 5 < timeout then bad_config ''timeout must be in (0, 5]''
         else Inr (nid, peer))"

definition summary_payload :: "string \<Rightarrow> string \<Rightarrow> string" where
  "summary_payload nid peer =
     utf8_encode (''{'' @ ascii_json ''node_id'' @ '':'' @ ascii_json nid @ '','' @ ascii_json ''peer_id'' @ '':'' @ ascii_json peer @ ''}'')"

definition summary_body :: "ipc_reply \<Rightarrow> agg_exn + jobj" where
  "summary_body reply =
     bind_r
       (case reply of
          Ipc_body raw \<Rightarrow> decode_response raw
        | Ipc_http raw \<Rightarrow>
            (case decode_response raw of
               Inl e \<Rightarrow> Inl (Adapter_error ''tep_unavailable'' ''TEP IPC request failed'')
             | Inr body \<Rightarrow> raise_ipc_error ''tep_unavailable'' body)
        | Ipc_down \<Rightarrow> Inl (Adapter_error ''tep_unavailable'' ''TEP IPC is unavailable''))
       (\<lambda>body. if jget body ''ok'' = JBool True then Inr body else raise_ipc_error ''bad_response'' body)"

text \<open>The transport metadata come from the daemon only.\<close>

definition relay_metadata :: "jobj \<Rightarrow> jobj \<Rightarrow> agg_exn + jobj" where
  "relay_metadata body out =
     (let path = jtext_strip body ''path''; relay = jget body ''relay_peer_id''; out1 = put_key ''_tep_transport_path'' (JStr path) out
      in if path \<notin> {''direct'', ''relay''} then bad_response ''TEP IPC returned invalid transport path''
         else if path = ''relay'' then
           (case relay of
              JStr r \<Rightarrow>
                if py_strip r = [] then bad_response ''TEP relay response is missing relay peer identity''
                else Inr (put_key ''_tep_relay_peer_id'' (JStr (py_strip r)) out1)
            | _ \<Rightarrow> bad_response ''TEP relay response is missing relay peer identity'')
         else if relay \<noteq> JNull \<and> relay \<noteq> JStr [] then bad_response ''direct TEP response cannot name a relay peer''
         else Inr out1)"

text \<open>\<open>float(rtt)\<close> of an integer is written for values below 1e16.\<close>

definition rtt_metadata :: "jobj \<Rightarrow> jobj \<Rightarrow> agg_exn + jobj" where
  "rtt_metadata body out =
     (case jget body ''rtt_ms'' of
        JNull \<Rightarrow> Inr out
      | JInt k \<Rightarrow>
          if k < 0 then bad_response ''TEP IPC returned invalid RTT''
          else Inr (put_key ''_tep_rtt_ms'' (JFloat (of_int k) (show_int k @ ''.0'')) out)
      | JFloat x t \<Rightarrow>
          if x < 0 then bad_response ''TEP IPC returned invalid RTT'' else Inr (put_key ''_tep_rtt_ms'' (JFloat x t) out)
      | _ \<Rightarrow> bad_response ''TEP IPC returned invalid RTT'')"

definition fetch_summary :: "agg_config \<Rightarrow> (string \<Rightarrow> ipc_reply) \<Rightarrow> jobj \<Rightarrow> agg_exn + jobj" where
  "fetch_summary cfg ipc node =
     bind_r (routing_ids (ag_timeout cfg) node) (\<lambda>(nid, peer).
     bind_r (ipc_port (ag_port cfg)) (\<lambda>port.
     bind_r (summary_body (ipc (summary_payload nid peer))) (\<lambda>body.
       case jget body ''summary'' of
         JObj summary \<Rightarrow>
           bind_r (relay_metadata body (filter (\<lambda>kv. \<not> starts_with ''_tep_'' (fst kv)) summary)) (rtt_metadata body)
       | _ \<Rightarrow> bad_response ''TEP IPC summary must be an object'')))"

section \<open>Summaries\<close>

definition check_capacity :: "jobj \<Rightarrow> agg_exn + unit" where
  "check_capacity s =
     (case (py_float_of (jget s ''capacity_total_gb''), py_float_of (py_or (jget s ''used_gb'') (JInt 0))) of
        (Some cap, Some used) \<Rightarrow>
          if cap < 0 \<or> used < 0 \<or> cap * (105 / 100) < used then Inl (Bad_value ''invalid capacity values'') else Inr ()
      | _ \<Rightarrow> Inl Python_error)"

definition check_age :: "agg_config \<Rightarrow> int \<Rightarrow> jobj \<Rightarrow> agg_exn + unit" where
  "check_age cfg now s =
     (case py_int (py_or (jget s ''timestamp'') (JInt 0)) of
        None \<Rightarrow> Inl Python_error
      | Some ts \<Rightarrow> if ts \<noteq> 0 \<and> ag_stale cfg < \<bar>now - ts\<bar> then Inl (Bad_value ''stale summary'') else Inr ())"

definition node_roles :: "string list" where "node_roles = [''primary'', ''secondary'', ''edge'']"

definition validate_summary :: "agg_config \<Rightarrow> int \<Rightarrow> json \<Rightarrow> agg_exn + jobj" where
  "validate_summary cfg now v =
     (case v of
        JObj s \<Rightarrow>
          if jget s ''available'' = JBool False then Inl (Bad_value ''node summary unavailable'')
          else if jtext_strip s ''node_id'' = [] \<or> jtext_strip s ''role'' \<notin> set node_roles
            then Inl (Bad_value ''invalid node_id/role'')
          else bind_r (check_capacity s) (\<lambda>_. bind_r (check_age cfg now s) (\<lambda>_. Inr s))
      | _ \<Rightarrow> Inl (Bad_value ''summary must be an object''))"

record node_result =
  nr_fields :: jobj
  nr_error :: "agg_exn option"

definition base_result :: "jobj \<Rightarrow> jobj" where
  "base_result node =
     [(''name'', jget_def_to node ''name'' (JStr ''?'')), (''url'', jget node ''url''), (''online'', JBool False),
      (''configured_class'', jget node ''capacity_class''), (''configured_role'', jget node ''role''),
      (''transport'', JStr (node_transport node)),
      (''tep_peer_id'', if node_transport node = ''tep'' then jget node ''tep_peer_id'' else JNull)]"

definition failed_result :: "jobj \<Rightarrow> agg_exn \<Rightarrow> node_result" where
  "failed_result node e = \<lparr>nr_fields = base_result node, nr_error = Some e\<rparr>"

text \<open>What the public summary page of a node answers; \<open>None\<close> is any failure of the request.\<close>

definition read_direct :: "agg_config \<Rightarrow> string option \<Rightarrow> agg_exn + json" where
  "read_direct cfg answer =
     (case answer of
        None \<Rightarrow> Inl Python_error
      | Some raw \<Rightarrow>
          if ag_max_response cfg < length raw then Inl (Bad_value ''summary too large'')
          else (case loads_bytes raw of Inl e \<Rightarrow> Inl Python_error | Inr v \<Rightarrow> Inr v))"

definition rstrip_slash :: "string \<Rightarrow> string" where
  "rstrip_slash s = rev (dropWhile (\<lambda>c. c = CHR ''/'') (rev s))"

definition fetch_direct :: "agg_config \<Rightarrow> int \<Rightarrow> (string \<Rightarrow> string option) \<Rightarrow> jobj \<Rightarrow> node_result" where
  "fetch_direct cfg now web node =
     (case bind_r (read_direct cfg (web (rstrip_slash (py_str (jget node ''url'')) @ ''/api/public/storage-summary''))) (validate_summary cfg now) of
        Inl e \<Rightarrow> failed_result node e
      | Inr s \<Rightarrow>
          \<lparr>nr_fields = put_key ''transport_path'' (JStr ''direct'') (put_key ''online'' (JBool True) (update_from (base_result node) s)),
           nr_error = None\<rparr>)"

definition configured_summary_id :: "jobj \<Rightarrow> string" where
  "configured_summary_id node =
     py_strip (py_str (py_or (jget node ''summary_node_id'')
       (py_or (jget node ''tep_node_id'') (py_or (jget node ''name'') (JStr [])))))"

definition check_configured :: "jobj \<Rightarrow> jobj \<Rightarrow> agg_exn + unit" where
  "check_configured node s =
     (if jtext_strip node ''role'' \<noteq> [] \<and> jtext_strip s ''role'' \<noteq> jtext_strip node ''role''
        then Inl (Bad_value ''TEP summary role does not match configured role'')
      else if configured_summary_id node \<noteq> [] \<and> jtext_strip s ''node_id'' \<noteq> configured_summary_id node
        then Inl (Bad_value ''TEP summary node_id does not match configured summary identity'')
      else Inr ())"

definition tep_fields :: "jobj \<Rightarrow> jobj \<Rightarrow> jobj" where
  "tep_fields node s =
     (let o1 = put_key ''transport_path'' (JStr (py_str (py_or (jget s ''_tep_transport_path'') (JStr ''direct''))))
                 (put_key ''transport'' (JStr ''tep'') (put_key ''online'' (JBool True) (update_from (base_result node) s)));
          o2 = (if truthy (jget s ''_tep_relay_peer_id'') then put_key ''relay_peer_id'' (jget s ''_tep_relay_peer_id'') o1 else o1)
      in if jget s ''_tep_rtt_ms'' \<noteq> JNull then put_key ''rtt_ms'' (jget s ''_tep_rtt_ms'') o2 else o2)"

definition fetch_tep :: "agg_config \<Rightarrow> int \<Rightarrow> (string \<Rightarrow> ipc_reply) \<Rightarrow> jobj \<Rightarrow> node_result" where
  "fetch_tep cfg now ipc node =
     (case bind_r (fetch_summary cfg ipc node) (\<lambda>s. bind_r (validate_summary cfg now (JObj s)) (\<lambda>_.
             bind_r (check_configured node s) (\<lambda>_. Inr s))) of
        Inl e \<Rightarrow> failed_result node e
      | Inr s \<Rightarrow> \<lparr>nr_fields = tep_fields node s, nr_error = None\<rparr>)"

definition fetch_node :: "agg_config \<Rightarrow> int \<Rightarrow> (string \<Rightarrow> string option) \<Rightarrow> (string \<Rightarrow> ipc_reply) \<Rightarrow> jobj \<Rightarrow> node_result" where
  "fetch_node cfg now web ipc node =
     (if node_transport node = ''direct'' then fetch_direct cfg now web node
      else if node_transport node = ''tep'' then fetch_tep cfg now ipc node
      else failed_result node (Bad_value (''unsupported transport: '' @ node_transport node)))"

section \<open>Accounting\<close>

definition is_online :: "node_result \<Rightarrow> bool" where "is_online r \<longleftrightarrow> truthy (jget (nr_fields r) ''online'')"
definition has_role :: "string \<Rightarrow> node_result \<Rightarrow> bool" where "has_role role r \<longleftrightarrow> jget (nr_fields r) ''role'' = JStr role"
definition is_committable :: "node_result \<Rightarrow> bool" where
  "is_committable r \<longleftrightarrow> has_role ''primary'' r \<or> has_role ''secondary'' r"

definition mark_duplicate :: "node_result \<Rightarrow> node_result" where
  "mark_duplicate r =
     \<lparr>nr_fields = put_key ''online'' (JBool False) (put_key ''duplicate'' (JBool True) (nr_fields r)),
      nr_error = Some (Bad_value ''duplicate node_id'')\<rparr>"

text \<open>The loop over the results: all of them with the duplicates marked, and those that count.\<close>

fun count_nodes :: "json list \<Rightarrow> node_result list \<Rightarrow> agg_exn + node_result list \<times> node_result list" where
  "count_nodes seen [] = Inr ([], [])"
| "count_nodes seen (r # rs) =
     (if \<not> is_online r then bind_r (count_nodes seen rs) (\<lambda>(marked, counted). Inr (r # marked, counted))
      else let nid = jget (nr_fields r) ''node_id''
           in if \<not> hashable nid then Inl Python_error
              else if list_ex (py_same nid) seen
                then bind_r (count_nodes seen rs) (\<lambda>(marked, counted). Inr (mark_duplicate r # marked, counted))
              else bind_r (count_nodes (nid # seen) rs) (\<lambda>(marked, counted). Inr (r # marked, r # counted)))"

definition gb_field :: "string \<Rightarrow> node_result \<Rightarrow> agg_exn + py_float" where
  "gb_field k r = (case py_float_of (py_or (jget (nr_fields r) k) (JInt 0)) of None \<Rightarrow> Inl Python_error | Some x \<Rightarrow> Inr x)"

fun gb_sum :: "string \<Rightarrow> node_result list \<Rightarrow> agg_exn + py_float" where
  "gb_sum k [] = Inr 0"
| "gb_sum k (r # rs) = bind_r (gb_field k r) (\<lambda>x. bind_r (gb_sum k rs) (\<lambda>y. Inr (x + y)))"

record accounting =
  ac_status :: string
  ac_comm_total :: py_float
  ac_comm_used :: py_float
  ac_edge_total :: py_float
  ac_edge_used :: py_float
  ac_reserved :: "py_float option"
  ac_sold :: "py_float option"
  ac_stakeholders :: "int option"
  ac_sellable :: "py_float option"
  ac_over :: "bool option"

definition account_primary :: "py_float \<Rightarrow> py_float \<Rightarrow> py_float \<Rightarrow> py_float \<Rightarrow> node_result list \<Rightarrow> agg_exn + accounting" where
  "account_primary ct cu et eu primaries =
     (case primaries of
        [p] \<Rightarrow>
          bind_r (gb_field ''reserved_stakeholders_gb'' p) (\<lambda>reserved.
          bind_r (gb_field ''sold_active_gb'' p) (\<lambda>sold.
          case py_int (py_or (jget (nr_fields p) ''stakeholders'') (JInt 0)) of
            None \<Rightarrow> Inl Python_error
          | Some n \<Rightarrow>
              let headroom = ct - reserved - sold; physical = ct - cu
              in Inr \<lparr>ac_status = ''ok'', ac_comm_total = ct, ac_comm_used = cu, ac_edge_total = et, ac_edge_used = eu,
                      ac_reserved = Some reserved, ac_sold = Some sold, ac_stakeholders = Some n,
                      ac_sellable = Some (max 0 (min headroom physical)), ac_over = Some (headroom < 0 \<or> physical < 0)\<rparr>))
      | _ \<Rightarrow>
          Inr \<lparr>ac_status = (if primaries = [] then ''primary-unavailable'' else ''multiple-primary''), ac_comm_total = ct,
               ac_comm_used = cu, ac_edge_total = et, ac_edge_used = eu, ac_reserved = None, ac_sold = None,
               ac_stakeholders = None, ac_sellable = None, ac_over = None\<rparr>)"

definition account :: "node_result list \<Rightarrow> agg_exn + accounting" where
  "account counted =
     (let comm = filter is_committable counted; edge = filter (has_role ''edge'') counted
      in bind_r (gb_sum ''capacity_total_gb'' comm) (\<lambda>ct. bind_r (gb_sum ''used_gb'' comm) (\<lambda>cu.
         bind_r (gb_sum ''capacity_total_gb'' edge) (\<lambda>et. bind_r (gb_sum ''used_gb'' edge) (\<lambda>eu.
           account_primary ct cu et eu (filter (has_role ''primary'') counted))))))"

section \<open>The report\<close>

definition in_texts :: "json \<Rightarrow> string list \<Rightarrow> bool" where "in_texts v ts \<longleftrightarrow> (\<exists>t \<in> set ts. v = JStr t)"

definition role_class :: "json \<Rightarrow> string" where
  "role_class role =
     (if in_texts role [''primary'', ''secondary''] then ''committable''
      else if role = JStr ''edge'' then ''best-effort'' else ''unknown'')"

definition capacity_class_of :: "node_result \<Rightarrow> string" where
  "capacity_class_of r =
     (let f = nr_fields r
      in if is_online r then role_class (jget f ''role'')
         else if jget f ''configured_class'' = JStr ''committable'' then ''committable''
         else if jget f ''configured_class'' = JStr ''best-effort'' then ''best-effort''
         else role_class (jget f ''configured_role''))"

text \<open>The set lookups raise \<open>TypeError\<close> on an unhashable value.\<close>

definition unclassifiable :: "node_result \<Rightarrow> bool" where
  "unclassifiable r =
     (let f = nr_fields r
      in if is_online r then \<not> hashable (jget f ''role'')
         else \<not> hashable (jget f ''configured_class'') \<or>
              \<not> in_texts (jget f ''configured_class'') [''committable'', ''best-effort''] \<and> \<not> hashable (jget f ''configured_role''))"

record node_line =
  nl_name :: json
  nl_node :: json
  nl_role :: json
  nl_class :: string
  nl_online :: json
  nl_capacity :: json
  nl_used :: json
  nl_source :: json
  nl_error :: "agg_exn + json"
  nl_transport :: json
  nl_path :: json
  nl_peer :: json
  nl_relay :: json
  nl_rtt :: json

definition node_line :: "node_result \<Rightarrow> node_line" where
  "node_line r =
     (let f = nr_fields r
      in \<lparr>nl_name = jget f ''name'', nl_node = jget f ''node_id'',
          nl_role = jget_def_to f ''role'' (py_or (jget f ''configured_role'') (JStr ''?'')), nl_class = capacity_class_of r,
          nl_online = jget_def_to f ''online'' (JBool False), nl_capacity = jget f ''capacity_total_gb'', nl_used = jget f ''used_gb'',
          nl_source = jget f ''capacity_source'',
          nl_error = (case nr_error r of Some e \<Rightarrow> Inl e | None \<Rightarrow> Inr (jget f ''error'')),
          nl_transport = jget f ''transport'', nl_path = jget f ''transport_path'', nl_peer = jget f ''tep_peer_id'',
          nl_relay = jget f ''relay_peer_id'', nl_rtt = jget f ''rtt_ms''\<rparr>)"

record network_report =
  nt_available :: bool
  nt_status :: string
  nt_time :: int
  nt_total :: nat
  nt_online :: nat
  nt_offline :: int
  nt_committable :: nat
  nt_edge :: nat
  nt_comm_gb :: py_float
  nt_comm_tb :: py_float
  nt_comm_used :: py_float
  nt_edge_gb :: py_float
  nt_edge_tb :: py_float
  nt_edge_used :: py_float
  nt_reserved :: "py_float option"
  nt_sold :: "py_float option"
  nt_sellable :: "py_float option"
  nt_stakeholders :: "int option"
  nt_over :: "bool option"
  nt_nodes :: "node_line list"

definition network_report :: "int \<Rightarrow> node_result list \<Rightarrow> node_result list \<Rightarrow> accounting \<Rightarrow> network_report" where
  "network_report now results counted a =
     (let online = length (filter is_online results)
      in \<lparr>nt_available = (ac_status a = ''ok''), nt_status = ac_status a, nt_time = now, nt_total = length results, nt_online = online,
          nt_offline = int (length results) - int online, nt_committable = length (filter is_committable counted),
          nt_edge = length (filter (has_role ''edge'') counted), nt_comm_gb = py_round 2 (ac_comm_total a),
          nt_comm_tb = py_round 3 (ac_comm_total a / 1024), nt_comm_used = py_round 2 (ac_comm_used a),
          nt_edge_gb = py_round 2 (ac_edge_total a), nt_edge_tb = py_round 3 (ac_edge_total a / 1024),
          nt_edge_used = py_round 2 (ac_edge_used a), nt_reserved = map_option (py_round 2) (ac_reserved a),
          nt_sold = map_option (py_round 2) (ac_sold a), nt_sellable = map_option (py_round 2) (ac_sellable a),
          nt_stakeholders = ac_stakeholders a, nt_over = ac_over a, nt_nodes = map node_line results\<rparr>)"

text \<open>\<open>None\<close> is the short report of a node list without usable nodes.\<close>

definition aggregate ::
  "agg_config \<Rightarrow> int \<Rightarrow> (string \<Rightarrow> string option) \<Rightarrow> (string \<Rightarrow> ipc_reply) \<Rightarrow> json option \<Rightarrow> agg_exn + network_report option" where
  "aggregate cfg now web ipc file =
     (let nodes = discover_nodes file
      in if nodes = [] then Inr None
         else bind_r (count_nodes [] (map (fetch_node cfg now web ipc) nodes)) (\<lambda>(results, counted).
              bind_r (account counted) (\<lambda>a.
                if list_ex unclassifiable results then Inl Python_error else Inr (Some (network_report now results counted a)))))"

section \<open>The server\<close>

record 'a agg_cache =
  ch_time :: py_float
  ch_data :: "'a option"

definition cache_sec :: py_float where "cache_sec = 30"

text \<open>One request: status and data, and the cache afterwards; an \<open>Inl\<close> leaves the handler and the cache as they were.\<close>

definition agg_get :: "py_float \<Rightarrow> (agg_exn + 'a) \<Rightarrow> string \<Rightarrow> 'a agg_cache \<Rightarrow> (agg_exn + (nat \<times> 'a option)) \<times> 'a agg_cache" where
  "agg_get now fresh path c =
     (if rstrip_slash path \<noteq> ''/api/network/storage'' then (Inr (404, None), c)
      else if ch_data c = None \<or> cache_sec < now - ch_time c then
        (case fresh of
           Inl e \<Rightarrow> (Inl e, c)
         | Inr d \<Rightarrow> (Inr (200, Some d), \<lparr>ch_time = now, ch_data = Some d\<rparr>))
      else (Inr (200, ch_data c), c))"

end
