(* ===== verification/Aggregator_Safety.thy ===== *)
theory Aggregator_Safety
  imports Aggregator
begin

text \<open>
  What the aggregator guarantees: the lines it shows online are validated and counted once, edge nodes never add to
  the sellable capacity, and the transport metadata of a summary come from the local daemon.
\<close>

section \<open>Objects that were parsed\<close>

lemma distinct_put_key: "distinct (map fst o') \<Longrightarrow> distinct (map fst (put_key k v o'))"
  by (induction k v o' rule: put_key.induct) (auto simp: fst_put_key image_iff dest: fst_put_key [THEN equalityD1, THEN subsetD, rotated])

fun dicts_ok :: "json \<Rightarrow> bool" where
  "dicts_ok (JObj d) = (distinct (map fst d) \<and> (\<forall>kv \<in> set d. dicts_ok (snd kv)))"
| "dicts_ok (JList xs) = (\<forall>x \<in> set xs. dicts_ok x)"
| "dicts_ok v = True"

lemma dicts_ok_put: "dicts_ok (JObj d) \<Longrightarrow> dicts_ok v \<Longrightarrow> dicts_ok (JObj (put_key k v d))"
  using distinct_put_key [of d k v] by (induction k v d rule: put_key.induct) (auto simp: fst_put_key distinct_put_key)

lemma dicts_ok_number: "read_number s = Inr (v, rest) \<Longrightarrow> dicts_ok v"
  by (auto simp: read_number_def Let_def split: if_split_asm)

lemma dicts_ok_literal: "literal w v s = Inr (v', rest) \<Longrightarrow> dicts_ok v \<Longrightarrow> dicts_ok v'"
  by (auto simp: literal_def split: if_split_asm)

lemma read_dicts_ok:
  shows "read_value n s = Inr (v, rest) \<Longrightarrow> dicts_ok v"
    and "read_items n s = Inr (xs, rest) \<Longrightarrow> dicts_ok (JList xs)"
    and "read_members n acc s = Inr (d, rest) \<Longrightarrow> dicts_ok (JObj acc) \<Longrightarrow> dicts_ok (JObj d)"
proof (induction n arbitrary: s v rest xs acc d)
  case (Suc n)
  { case 1
    then show ?case
      using Suc(1) [of _ v rest] Suc(2) Suc(3) [of "[]"]
      by (cases s) (auto simp: bind_r_Inr Let_def dest: dicts_ok_number dicts_ok_literal split: if_split_asm) }
  { case 2
    then show ?case using Suc(1,2) by (fastforce simp: bind_r_Inr split: if_split_asm) }
  { case 3
    then show ?case using Suc(1) Suc(3) dicts_ok_put by (fastforce simp del: dicts_ok.simps simp: bind_r_Inr split: if_split_asm) }
qed simp_all

lemma loads_bytes_distinct: "loads_bytes raw = Inr v \<Longrightarrow> dicts_ok v"
  by (auto simp: loads_bytes_def json_loads_def bind_r_Inr dest: read_dicts_ok(1) split: option.split_asm if_split_asm)

lemma map_of_update_from: "distinct (map fst s) \<Longrightarrow> map_of (update_from d s) = map_of d ++ map_of s"
proof (induction s arbitrary: d)
  case (Cons kv s)
  obtain k v where kv: "kv = (k, v)" by force
  have "map_of (update_from d (kv # s)) = (map_of d)(k \<mapsto> v) ++ map_of s"
    using Cons by (simp add: update_from_def kv map_of_put_key)
  moreover have "k \<notin> dom (map_of s)" using Cons.prems by (auto simp: kv dom_map_of_conv_image_fst)
  ultimately show ?case by (auto simp: kv map_add_def fun_eq_iff dom_def split: option.split)
qed (simp add: update_from_def)

lemma jget_update_from:
  "distinct (map fst s) \<Longrightarrow> jget (update_from d s) k = (if k \<in> fst ` set s then jget s k else jget d k)"
proof (cases "k \<in> fst ` set s")
  case True
  then obtain v where "map_of s k = Some v" by (metis map_of_eq_None_iff option.exhaust)
  then show "distinct (map fst s) \<Longrightarrow> ?thesis" using True by (simp add: jget_def map_of_update_from)
next
  case False
  then have "map_of s k = None" by (simp add: map_of_eq_None_iff)
  then show "distinct (map fst s) \<Longrightarrow> ?thesis" using False by (simp add: jget_def map_of_update_from map_add_def)
qed

section \<open>The adapter\<close>

lemma summary_body_ok: "summary_body reply = Inr body \<Longrightarrow> jget body ''ok'' = JBool True \<and>
    (\<exists>raw. reply = Ipc_body raw \<and> length raw \<le> ipc_max_response \<and> loads_bytes raw = Inr (JObj body))"
  by (auto simp: summary_body_def bind_r_Inr decode_response_def raise_ipc_error_def
      split: ipc_reply.split_asm sum.split_asm if_split_asm json.split_asm)

lemma jget_filter: "P (k, jget d k) \<Longrightarrow> (\<And>v w. P (k, v) = P (k, w)) \<Longrightarrow> jget (filter P d) k = jget d k"
  by (induction d) (auto simp: jget_def)

lemma jget_filter_out: "(\<And>v. \<not> P (k, v)) \<Longrightarrow> jget (filter P d) k = JNull"
  by (induction d) (auto simp: jget_def)

text \<open> The transport metadata of a fetched summary are the daemon's: whatever the remote summary contains under such
  keys, the path is the daemon's and is direct or relay, a relay identity is present exactly for a relayed answer,
  and every other field is the remote one.
\<close>
theorem adapter_metadata_is_local:
  assumes "fetch_summary cfg ipc node = Inr s"
  shows "\<exists>nid peer body remote. routing_ids (ag_timeout cfg) node = Inr (nid, peer) \<and>
    summary_body (ipc (summary_payload nid peer)) = Inr body \<and> jget body ''summary'' = JObj remote \<and>
    jget s ''_tep_transport_path'' = JStr (jtext_strip body ''path'') \<and> jtext_strip body ''path'' \<in> {''direct'', ''relay''} \<and>
    (case jget body ''relay_peer_id'' of
       JStr r \<Rightarrow> jget s ''_tep_relay_peer_id'' = (if jtext_strip body ''path'' = ''relay'' then JStr (py_strip r) else JNull)
     | _ \<Rightarrow> jtext_strip body ''path'' = ''direct'' \<and> jget s ''_tep_relay_peer_id'' = JNull) \<and>
    (\<forall>k. starts_with ''_tep_'' k \<or> jget s k = jget remote k)"
proof -
  obtain nid peer body where b: "routing_ids (ag_timeout cfg) node = Inr (nid, peer)"
    "summary_body (ipc (summary_payload nid peer)) = Inr body"
    "(case jget body ''summary'' of
        JObj summary \<Rightarrow> bind_r (relay_metadata body (filter (\<lambda>kv. \<not> starts_with ''_tep_'' (fst kv)) summary)) (rtt_metadata body)
      | _ \<Rightarrow> bad_response ''TEP IPC summary must be an object'') = Inr s"
    using assms by (auto simp: fetch_summary_def bind_r_Inr split: prod.split_asm)
  obtain remote out where a: "routing_ids (ag_timeout cfg) node = Inr (nid, peer)"
    "summary_body (ipc (summary_payload nid peer)) = Inr body" "jget body ''summary'' = JObj remote"
    "relay_metadata body (filter (\<lambda>kv. \<not> starts_with ''_tep_'' (fst kv)) remote) = Inr out" "rtt_metadata body out = Inr s"
    using b by (cases "jget body ''summary''") (auto simp: bind_r_Inr bad_response_def)
  have rtt: "jget s k = jget out k" if "k \<noteq> ''_tep_rtt_ms''" for k
    using a(5) that by (auto simp: rtt_metadata_def bad_response_def split: json.split_asm if_split_asm)
  have keep: "jget (filter (\<lambda>kv. \<not> starts_with ''_tep_'' (fst kv)) remote) k = (if starts_with ''_tep_'' k then JNull else jget remote k)" for k
    by (auto intro: jget_filter jget_filter_out)
  have same: "jget s k = jget remote k" if k: "\<not> starts_with ''_tep_'' k" for k
  proof -
    from k have "k \<noteq> ''_tep_rtt_ms''" "k \<noteq> ''_tep_transport_path''" "k \<noteq> ''_tep_relay_peer_id''" by auto
    then show "jget s k = jget remote k"
      using a(4) rtt [of k] k
      by (auto simp: relay_metadata_def bad_response_def Let_def keep split: json.split_asm if_split_asm)
  qed
  have path: "jget s ''_tep_transport_path'' = JStr (jtext_strip body ''path'')" "jtext_strip body ''path'' \<in> {''direct'', ''relay''}"
    using a(4) rtt [of "''_tep_transport_path''"]
    by (auto simp: relay_metadata_def bad_response_def Let_def split: json.split_asm if_split_asm)
  have relay: "case jget body ''relay_peer_id'' of
       JStr r \<Rightarrow> jget s ''_tep_relay_peer_id'' = (if jtext_strip body ''path'' = ''relay'' then JStr (py_strip r) else JNull)
     | _ \<Rightarrow> jtext_strip body ''path'' = ''direct'' \<and> jget s ''_tep_relay_peer_id'' = JNull"
    using a(4) rtt [of "''_tep_relay_peer_id''"] path(2) keep [of "''_tep_relay_peer_id''"]
    by (cases "jget body ''relay_peer_id''") (auto simp: relay_metadata_def bad_response_def Let_def split: if_split_asm)
  show ?thesis using a(1-3) path relay same by blast
qed

section \<open>Counting\<close>

definition differs :: "node_result \<Rightarrow> node_result \<Rightarrow> bool" where
  "differs a b \<longleftrightarrow> \<not> py_same (jget (nr_fields a) ''node_id'') (jget (nr_fields b) ''node_id'')"

lemma py_same_sym: "py_same a b \<longleftrightarrow> py_same b a"
  by (auto simp: py_same_def split: option.splits)

lemma duplicate_offline [simp]: "\<not> is_online (mark_duplicate r)"
  by (simp add: is_online_def mark_duplicate_def)

abbreviation node_of :: "node_result \<Rightarrow> json" where "node_of r \<equiv> jget (nr_fields r) ''node_id''"

lemma count_nodes_ConsE:
  assumes "count_nodes seen (r # rs) = Inr (marked, counted)"
  obtains (offline) m where "\<not> is_online r" "count_nodes seen rs = Inr (m, counted)" "marked = r # m"
  | (duplicate) m where "is_online r" "count_nodes seen rs = Inr (m, counted)" "marked = mark_duplicate r # m"
      "list_ex (py_same (node_of r)) seen"
  | (counts) m c where "is_online r" "count_nodes (node_of r # seen) rs = Inr (m, c)" "marked = r # m" "counted = r # c"
      "hashable (node_of r)" "\<not> list_ex (py_same (node_of r)) seen"
  using assms by (auto simp: bind_r_Inr Let_def split: if_split_asm)

lemma count_nodes_marked:
  "count_nodes seen rs = Inr (marked, counted) \<Longrightarrow>
   length marked = length rs \<and> filter is_online marked = counted \<and> set counted \<subseteq> set rs \<and> (\<forall>r \<in> set counted. is_online r)"
proof (induction rs arbitrary: seen marked counted)
  case (Cons r rs)
  from Cons.prems show ?case
    by (cases rule: count_nodes_ConsE) (use Cons.IH in fastforce)+
qed simp

lemma count_nodes_unseen:
  "count_nodes seen rs = Inr (marked, counted) \<Longrightarrow>
   sorted_wrt differs counted \<and> (\<forall>r \<in> set counted. \<not> list_ex (py_same (node_of r)) seen)"
proof (induction rs arbitrary: seen marked counted)
  case (Cons r rs)
  from Cons.prems show ?case
  proof (cases rule: count_nodes_ConsE)
    case (counts m c)
    have "\<not> py_same (node_of r) (node_of x)" if "x \<in> set c" for x
      using Cons.IH [OF counts(2)] that by (auto simp: py_same_sym)
    then show ?thesis using Cons.IH [OF counts(2)] counts by (auto simp: differs_def)
  qed (use Cons.IH in auto)
qed simp

section \<open>Lines that are online\<close>

definition sound_fields :: "agg_config \<Rightarrow> int \<Rightarrow> jobj \<Rightarrow> bool" where
  "sound_fields cfg now f \<longleftrightarrow> jtext_strip f ''node_id'' \<noteq> [] \<and> jtext_strip f ''role'' \<in> set node_roles \<and>
     jget f ''available'' \<noteq> JBool False \<and> check_capacity f = Inr () \<and> check_age cfg now f = Inr ()"

lemma validate_summary_Inr: "validate_summary cfg now v = Inr s \<Longrightarrow> v = JObj s \<and> sound_fields cfg now s"
  by (auto simp: validate_summary_def sound_fields_def bind_r_Inr split: if_split_asm json.split_asm)

lemma sound_fields_cong:
  assumes "\<And>k. k \<in> {''node_id'', ''role'', ''available'', ''capacity_total_gb'', ''used_gb'', ''timestamp''} \<Longrightarrow> jget f k = jget g k"
  shows "sound_fields cfg now f = sound_fields cfg now g"
  using assms by (simp add: sound_fields_def check_capacity_def check_age_def jtext_strip_def jtext_def)

lemma base_result_keys: "jget (base_result node) ''node_id'' = JNull" "jget (base_result node) ''role'' = JNull"
  "jget (base_result node) ''available'' = JNull" "jget (base_result node) ''capacity_total_gb'' = JNull"
  "jget (base_result node) ''used_gb'' = JNull" "jget (base_result node) ''timestamp'' = JNull"
  by (simp_all add: base_result_def)

lemma jget_absent: "k \<notin> fst ` set s \<Longrightarrow> jget s k = JNull"
  by (simp add: jget_def map_of_eq_None_iff [THEN iffD2])

lemma updated_fields:
  assumes "distinct (map fst s)" "k \<in> {''node_id'', ''role'', ''available'', ''capacity_total_gb'', ''used_gb'', ''timestamp''}"
  shows "jget (update_from (base_result node) s) k = jget s k"
  using assms base_result_keys [of node] jget_absent [of k s] by (auto simp: jget_update_from)

lemma failed_offline [simp]: "\<not> is_online (failed_result node e)"
  by (simp add: is_online_def failed_result_def base_result_def)

lemma relay_metadata_distinct:
  "relay_metadata body out = Inr out' \<Longrightarrow> distinct (map fst out) \<Longrightarrow> distinct (map fst out')"
  by (auto simp: relay_metadata_def Let_def bad_response_def distinct_put_key split: if_split_asm json.split_asm)

lemma rtt_metadata_distinct: "rtt_metadata body out = Inr out' \<Longrightarrow> distinct (map fst out) \<Longrightarrow> distinct (map fst out')"
  by (auto simp: rtt_metadata_def bad_response_def distinct_put_key split: if_split_asm json.split_asm)

lemma dicts_ok_jget: "dicts_ok (JObj d) \<Longrightarrow> jget d k = JObj e \<Longrightarrow> distinct (map fst e)"
  by (auto simp: jget_def dest!: map_of_SomeD split: option.split_asm)

lemma fetch_summary_distinct: "fetch_summary cfg ipc node = Inr s \<Longrightarrow> distinct (map fst s)"
proof -
  assume "fetch_summary cfg ipc node = Inr s"
  then obtain body where body: "jget body ''ok'' = JBool True" "dicts_ok (JObj body)"
    and r: "(case jget body ''summary'' of
        JObj summary \<Rightarrow> bind_r (relay_metadata body (filter (\<lambda>kv. \<not> starts_with ''_tep_'' (fst kv)) summary)) (rtt_metadata body)
      | _ \<Rightarrow> bad_response ''TEP IPC summary must be an object'') = Inr s"
    by (auto simp: fetch_summary_def bind_r_Inr split: prod.split_asm dest!: summary_body_ok loads_bytes_distinct)
  show ?thesis
  proof (cases "jget body ''summary''")
    case (JObj summary)
    then have "distinct (map fst (filter (\<lambda>kv. \<not> starts_with ''_tep_'' (fst kv)) summary))"
      using dicts_ok_jget [OF body(2)] distinct_map_filter by blast
    then show ?thesis
      using r JObj by (auto simp: bind_r_Inr dest!: relay_metadata_distinct rtt_metadata_distinct)
  qed (use r in \<open>simp_all add: bad_response_def\<close>)
qed

lemma fetch_node_online:
  assumes "is_online (fetch_node cfg now web ipc node)"
  shows "sound_fields cfg now (nr_fields (fetch_node cfg now web ipc node)) \<and> nr_error (fetch_node cfg now web ipc node) = None"
proof -
  consider s where "distinct (map fst s)" "sound_fields cfg now s" "nr_error (fetch_node cfg now web ipc node) = None"
      "nr_fields (fetch_node cfg now web ipc node) =
         put_key ''transport_path'' (JStr ''direct'') (put_key ''online'' (JBool True) (update_from (base_result node) s))"
    | s where "distinct (map fst s)" "sound_fields cfg now s" "nr_error (fetch_node cfg now web ipc node) = None"
      "nr_fields (fetch_node cfg now web ipc node) = tep_fields node s"
  proof (cases "fetch_node cfg now web ipc node" )
    case (fields f e)
    show thesis
      using assms that
      by (auto simp: fetch_node_def fetch_direct_def fetch_tep_def read_direct_def bind_r_Inr
          dest!: validate_summary_Inr loads_bytes_distinct fetch_summary_distinct
          split: if_split_asm sum.split_asm option.split_asm)
  qed
  then show ?thesis
    by cases (auto simp: tep_fields_def Let_def updated_fields intro: sound_fields_cong [THEN iffD2])
qed

lemma duplicate_unchanged:
  assumes "count_nodes seen rs = Inr (marked, counted)" "r \<in> set marked" "is_online r"
  shows "r \<in> set rs"
proof -
  have "r \<in> set (filter is_online marked)" using assms(2,3) by simp
  then show ?thesis using count_nodes_marked [OF assms(1)] by blast
qed

text \<open> The report counts what it shows. It has one line per configured node; the lines shown online carry pairwise
  different node ids, their number is the number of online nodes, and each shows a summary that passed every check:
  an id, a known role, not marked unavailable, a capacity within bounds and a time stamp that is missing or recent.
\<close>
theorem online_lines_are_sound:
  assumes "aggregate cfg now web ipc file = Inr (Some rep)"
  shows "\<exists>rs. nt_nodes rep = map node_line rs \<and> length rs = length (discover_nodes file) \<and> nt_total rep = length rs \<and>
    sorted_wrt differs (filter is_online rs) \<and> nt_online rep = length (filter is_online rs) \<and>
    (\<forall>r \<in> set rs. is_online r \<longrightarrow> sound_fields cfg now (nr_fields r) \<and> nr_error r = None) \<and>
    nt_committable rep = length (filter (\<lambda>r. is_online r \<and> is_committable r) rs)"
proof -
  obtain marked counted a where c: "count_nodes [] (map (fetch_node cfg now web ipc) (discover_nodes file)) = Inr (marked, counted)"
    "rep = network_report now marked counted a"
    using assms by (auto simp: aggregate_def Let_def bind_r_Inr split: if_split_asm)
  have facts: "length marked = length (discover_nodes file)" "counted = filter is_online marked"
    using count_nodes_marked [OF c(1)] by auto
  have sound: "sound_fields cfg now (nr_fields r) \<and> nr_error r = None" if "r \<in> set marked" "is_online r" for r
    using duplicate_unchanged [OF c(1) that] that(2) fetch_node_online by auto
  have "sorted_wrt differs (filter is_online marked)" using count_nodes_unseen [OF c(1)] facts(2) by simp
  then show ?thesis
    using facts(1) sound by (intro exI [of _ marked]) (simp add: c(2) network_report_def Let_def facts(2))
qed

section \<open>Sellable capacity\<close>

lemma count_all:
  "sorted_wrt differs (filter is_online rs) \<Longrightarrow>
   \<forall>r \<in> set rs. is_online r \<longrightarrow> hashable (node_of r) \<and> \<not> list_ex (py_same (node_of r)) seen \<Longrightarrow>
   count_nodes seen rs = Inr (rs, filter is_online rs)"
proof (induction rs arbitrary: seen)
  case (Cons r rs)
  show ?case
  proof (cases "is_online r")
    case True
    have "\<forall>x \<in> set rs. is_online x \<longrightarrow> hashable (node_of x) \<and> \<not> list_ex (py_same (node_of x)) (node_of r # seen)"
      using Cons.prems True by (auto simp: differs_def py_same_sym [of _ "node_of r"])
    then show ?thesis using Cons.IH [of "node_of r # seen"] Cons.prems True by simp
  qed (use Cons.IH [of seen] Cons.prems in simp)
qed simp

lemma counted_hashable: "count_nodes seen rs = Inr (marked, counted) \<Longrightarrow> r \<in> set counted \<Longrightarrow> hashable (node_of r)"
proof (induction rs arbitrary: seen marked counted)
  case (Cons x rs)
  from Cons.prems(1) show ?case by (cases rule: count_nodes_ConsE) (use Cons.IH Cons.prems(2) in auto)
qed simp

lemma count_distinct:
  assumes "count_nodes seen rs = Inr (marked, counted)" "sorted_wrt differs (filter is_online rs)"
    and "\<forall>r \<in> set rs. is_online r \<longrightarrow> \<not> list_ex (py_same (node_of r)) seen"
  shows "counted = filter is_online rs"
  using assms
proof (induction rs arbitrary: seen marked counted)
  case (Cons r rs)
  from Cons.prems(1) show ?case
  proof (cases rule: count_nodes_ConsE)
    case (counts m c)
    have "c = filter is_online rs"
      by (rule Cons.IH [OF counts(2)]) (use Cons.prems counts in \<open>auto simp: differs_def py_same_sym [of _ "node_of r"]\<close>)
    then show ?thesis using counts by simp
  qed (use Cons.IH Cons.prems in auto)
qed simp

lemma no_edge_filters:
  "filter is_committable (filter (\<lambda>r. \<not> has_role ''edge'' r) c) = filter is_committable c"
  "filter (has_role ''primary'') (filter (\<lambda>r. \<not> has_role ''edge'' r) c) = filter (has_role ''primary'') c"
  "filter (has_role ''edge'') (filter (\<lambda>r. \<not> has_role ''edge'' r) c) = []"
  by (auto simp: filter_empty_conv is_committable_def has_role_def intro: filter_cong)

lemma account_primary_edge:
  "account_primary ct cu et eu ps = Inr a \<Longrightarrow> account_primary ct cu 0 0 ps = Inr (a\<lparr>ac_edge_total := 0, ac_edge_used := 0\<rparr>)"
  by (auto simp: account_primary_def bind_r_Inr Let_def split: list.splits option.splits)

lemma account_without_edge:
  "account c = Inr a \<Longrightarrow> account (filter (\<lambda>r. \<not> has_role ''edge'' r) c) = Inr (a\<lparr>ac_edge_total := 0, ac_edge_used := 0\<rparr>)"
  by (auto simp del: filter_filter simp: account_def Let_def no_edge_filters bind_r_Inr account_primary_edge)

lemma account_primary_sellable:
  "account_primary ct cu et eu ps = Inr a \<Longrightarrow> ac_comm_total a = ct \<and> ac_comm_used a = cu \<and>
   (case ac_sellable a of None \<Rightarrow> ac_status a \<noteq> ''ok'' | Some x \<Rightarrow> 0 \<le> x \<and> x \<le> max 0 (ct - cu))"
  by (auto simp: account_primary_def bind_r_Inr Let_def split: list.split_asm option.split_asm)

lemma account_sellable:
  "account c = Inr a \<Longrightarrow>
   (case ac_sellable a of None \<Rightarrow> ac_status a \<noteq> ''ok'' | Some x \<Rightarrow> 0 \<le> x \<and> x \<le> max 0 (ac_comm_total a - ac_comm_used a))"
  by (auto simp: account_def Let_def bind_r_Inr dest!: account_primary_sellable)


end
