(* ===== verification/Aggregator_Examples.thy ===== *)
theory Aggregator_Examples
  imports Aggregator_Safety
begin

text \<open>Runs of the aggregator on concrete networks, and inputs on which it does not do what its contract says.\<close>

section \<open>Concrete runs\<close>

lemma loads_text: "plain v \<Longrightarrow> loads_bytes (utf8_encode (dump v)) = Inr v"
  by (simp add: loads_bytes_def utf8_round_trip loads_dump)

definition agg_cfg :: agg_config where
  "agg_cfg = \<lparr>ag_timeout = 3, ag_stale = 120, ag_max_response = 1000, ag_port = ''47778''\<rparr>"

definition a_summary :: jobj where
  "a_summary = [(''node_id'', JStr ''n1''), (''role'', JStr ''primary''), (''capacity_total_gb'', JInt 100), (''used_gb'', JInt 10),
     (''reserved_stakeholders_gb'', JInt 20), (''stakeholders'', JInt 2)]"

definition a_node :: jobj where "a_node = [(''name'', JStr ''n1''), (''url'', JStr ''http://h/'')]"
definition a_file :: json where "a_file = JObj [(''nodes'', JList [JObj a_node])]"
definition a_text :: string where "a_text = utf8_encode (dump (JObj a_summary))"

lemma a_summary_reads: "read_direct agg_cfg (Some a_text) = Inr (JObj a_summary)"
proof -
  have "plain (JObj a_summary)" by (simp add: a_summary_def int_digits_def show_nat.simps)
  moreover have "length a_text \<le> 1000"
    by (simp add: a_text_def a_summary_def json_string_def esc_char_def utf8_encode_def utf8_char_def show_int_def show_nat.simps Let_def)
  ultimately show ?thesis by (simp add: read_direct_def agg_cfg_def a_text_def loads_text del: dump.simps plain.simps)
qed

lemma a_summary_valid: "validate_summary agg_cfg 500 (JObj a_summary) = Inr a_summary"
  by code_simp

definition a_result :: node_result where
  "a_result = \<lparr>nr_fields = put_key ''transport_path'' (JStr ''direct'') (put_key ''online'' (JBool True) (update_from (base_result a_node) a_summary)),
     nr_error = None\<rparr>"

lemma a_fetch: "fetch_node agg_cfg 500 (\<lambda>u. Some a_text) ipc a_node = a_result"
proof -
  have "node_transport a_node = ''direct''" by code_simp
  then show ?thesis
    by (simp add: fetch_node_def fetch_direct_def a_summary_reads a_summary_valid a_result_def)
qed

lemma a_counted: "count_nodes [] [a_result] = Inr ([a_result], [a_result])"
  by code_simp

theorem online_lines_are_sound_witness:
  "\<exists>rep. aggregate agg_cfg 500 (\<lambda>u. Some a_text) (\<lambda>p. Ipc_down) (Some a_file) = Inr (Some rep) \<and>
     nt_online rep = 1 \<and> nt_sellable rep = Some 80 \<and> (\<exists>rs. nt_nodes rep = map node_line rs \<and> length rs = 1)"
proof -
  have d: "discover_nodes (Some a_file) = [a_node]" by code_simp
  obtain a where a: "account [a_result] = Inr a" "ac_sellable a = Some 80"
  proof -
    have "(case account [a_result] of Inl e \<Rightarrow> False | Inr a \<Rightarrow> ac_sellable a = Some 80)" by code_simp
    then show thesis using that by (auto split: sum.split_asm)
  qed
  let ?rep = "network_report 500 [a_result] [a_result] a"
  have u: "\<not> unclassifiable a_result" by code_simp
  have r: "aggregate agg_cfg 500 (\<lambda>u. Some a_text) (\<lambda>p. Ipc_down) (Some a_file) = Inr (Some ?rep)"
    by (simp add: aggregate_def d a_fetch a_counted a(1) u del: count_nodes.simps)
  have "is_online a_result" by code_simp
  moreover have "py_round 2 80 = 80" by (simp add: py_round_def)
  ultimately have "nt_online ?rep = 1 \<and> nt_sellable ?rep = Some 80" by (simp add: network_report_def a(2))
  then show ?thesis using online_lines_are_sound [OF r] r d by auto
qed

definition e_result :: node_result where
  "e_result = \<lparr>nr_fields = [(''node_id'', JStr ''n2''), (''role'', JStr ''edge''), (''online'', JBool True), (''capacity_total_gb'', JInt 900)],
     nr_error = None\<rparr>"


definition t_node :: jobj where
  "t_node = [(''name'', JStr ''n1''), (''transport'', JStr ''tep''), (''tep_peer_id'', JStr ''p1'')]"

definition t_body :: jobj where
  "t_body = [(''ok'', JBool True), (''summary'', JObj [(''node_id'', JStr ''n1''), (''_tep_transport_path'', JStr ''relay'')]),
     (''path'', JStr ''direct'')]"

theorem adapter_metadata_is_local_witness:
  "\<exists>s. fetch_summary agg_cfg (\<lambda>p. Ipc_body (utf8_encode (dump (JObj t_body)))) t_node = Inr s \<and>
     jget s ''_tep_transport_path'' = JStr ''direct'' \<and> jget s ''node_id'' = JStr ''n1''"
proof -
  let ?ipc = "\<lambda>p::string. Ipc_body (utf8_encode (dump (JObj t_body)))"
  have "plain (JObj t_body)" by (simp add: t_body_def)
  moreover have "length (utf8_encode (dump (JObj t_body))) \<le> 1000"
    by (simp add: t_body_def json_string_def esc_char_def utf8_encode_def utf8_char_def Let_def)
  moreover have "jget t_body ''ok'' = JBool True" by (simp add: t_body_def)
  ultimately have "summary_body (?ipc p) = Inr t_body" for p
    by (simp add: summary_body_def decode_response_def ipc_max_response_def loads_text del: dump.simps plain.simps)
  moreover have "routing_ids (ag_timeout agg_cfg) t_node = Inr (''n1'', ''p1'')" by code_simp
  moreover have "ipc_port (ag_port agg_cfg) = Inr 47778" by code_simp
  moreover have "rtt_metadata t_body out = Inr out" for out by (simp add: rtt_metadata_def t_body_def)
  moreover have "relay_metadata t_body (filter (\<lambda>kv. \<not> starts_with ''_tep_'' (fst kv)) [(''node_id'', JStr ''n1''), (''_tep_transport_path'', JStr ''relay'')])
      = Inr [(''node_id'', JStr ''n1''), (''_tep_transport_path'', JStr ''direct'')]" by code_simp
  moreover have "jget t_body ''summary'' = JObj [(''node_id'', JStr ''n1''), (''_tep_transport_path'', JStr ''relay'')]" by (simp add: t_body_def)
  ultimately have s: "fetch_summary agg_cfg ?ipc t_node = Inr [(''node_id'', JStr ''n1''), (''_tep_transport_path'', JStr ''direct'')]"
    by (simp add: fetch_summary_def)
  from adapter_metadata_is_local [OF s] show ?thesis using s by auto
qed

section \<open>Where the contract fails\<close>

text \<open>A summary without a time stamp is never stale.\<close>

lemma untimed_summary_is_fresh: "jget s ''timestamp'' = JNull \<Longrightarrow> check_age cfg now s = Inr ()"
  by (simp add: check_age_def)

text \<open>Over the direct transport the configured role is not compared: a node configured as edge counts as committable.\<close>

lemma direct_role_is_not_compared:
  assumes "role \<in> {''primary'', ''secondary''}" "web (rstrip_slash (py_str (jget node ''url'')) @ ''/api/public/storage-summary'') = Some raw"
    and "read_direct cfg (Some raw) = Inr (JObj s)" "validate_summary cfg now (JObj s) = Inr s" "jget s ''role'' = JStr role"
  shows "is_online (fetch_direct cfg now web node) \<and> is_committable (fetch_direct cfg now web node)"
proof -
  have "distinct (map fst s)"
    using assms(3) loads_bytes_distinct [of raw "JObj s"] by (simp add: read_direct_def split: if_split_asm sum.split_asm)
  then show ?thesis
    using assms by (auto simp: fetch_direct_def is_online_def is_committable_def has_role_def updated_fields)
qed

text \<open>Ids that differ in surrounding blanks are two nodes, and the capacity counts twice.\<close>

definition padded_result :: node_result where
  "padded_result = \<lparr>nr_fields = [(''node_id'', JStr '' n1''), (''role'', JStr ''secondary''), (''online'', JBool True), (''capacity_total_gb'', JInt 100)],
     nr_error = None\<rparr>"

lemma padded_id_counts_twice:
  "\<exists>a. count_nodes [] [a_result, padded_result] = Inr ([a_result, padded_result], [a_result, padded_result]) \<and>
     account [a_result, padded_result] = Inr a \<and> ac_comm_total a = 200"
proof -
  have "(case account [a_result, padded_result] of Inl e \<Rightarrow> False | Inr a \<Rightarrow> ac_comm_total a = 200)" by code_simp
  moreover have "count_nodes [] [a_result, padded_result] = Inr ([a_result, padded_result], [a_result, padded_result])" by code_simp
  ultimately show ?thesis by (auto simp del: count_nodes.simps split: sum.split_asm)
qed

text \<open>A node id that is a list passes the checks and ends the whole report with an exception.\<close>

lemma list_id_stops_the_report:
  "\<exists>f. sound_fields agg_cfg 500 f \<and> count_nodes [] [\<lparr>nr_fields = put_key ''online'' (JBool True) f, nr_error = None\<rparr>] = Inl Python_error"
proof -
  have "sound_fields agg_cfg 500 (put_key ''node_id'' (JList [JInt 1]) a_summary) \<and>
    count_nodes [] [\<lparr>nr_fields = put_key ''online'' (JBool True) (put_key ''node_id'' (JList [JInt 1]) a_summary), nr_error = None\<rparr>] = Inl Python_error"
    by code_simp
  then show ?thesis by blast
qed

text \<open>So does a primary whose accounting fields are not numbers: they are not among the validated fields.\<close>

lemma text_stakeholders_stop_the_report:
  "\<exists>f. sound_fields agg_cfg 500 f \<and> account [\<lparr>nr_fields = put_key ''online'' (JBool True) f, nr_error = None\<rparr>] = Inl Python_error"
proof -
  have "sound_fields agg_cfg 500 (put_key ''stakeholders'' (JStr ''two'') a_summary) \<and>
    account [\<lparr>nr_fields = put_key ''online'' (JBool True) (put_key ''stakeholders'' (JStr ''two'') a_summary), nr_error = None\<rparr>] = Inl Python_error"
    by code_simp
  then show ?thesis by blast
qed

end
