(* ===== verification/Aggregator_Daemon.thy ===== *)
theory Aggregator_Daemon
  imports Aggregator_Safety Tep_Ipc
begin

text \<open>The adapter of the aggregator against the loopback endpoint of the TEP daemon.\<close>

lemma read_digits_all: "list_all is_digit ds \<Longrightarrow> read_digits acc b ds = (if ds = [] then read_digits acc b [] else Some (foldl (\<lambda>a c. 10 * a + digit_val c) acc ds))"
  by (induction ds arbitrary: acc b) auto

lemma py_strip_none: "\<forall>x \<in> set s. \<not> py_space x \<Longrightarrow> py_strip s = s"
proof -
  assume a: "\<forall>x \<in> set s. \<not> py_space x"
  have d: "dropWhile py_space t = t" if "\<forall>x \<in> set t. \<not> py_space x" for t using that by (cases t) auto
  show ?thesis using d [OF a] d [of "rev s"] a by (simp add: py_strip_def)
qed

lemma py_int_text_show_nat: "py_int_text (show_nat n) = Some (int n)"
proof -
  obtain c cs where c: "show_nat n = c # cs" using show_nat_digits [of n] by (cases "show_nat n") auto
  have d: "list_all is_digit (c # cs)" using show_nat_digits [of n] by (simp add: c list_all_iff)
  have "py_strip (show_nat n) = show_nat n"
    using show_nat_digits [of n] by (intro py_strip_none) (auto simp: is_digit_def py_space_def Let_def)
  moreover have "c \<noteq> CHR ''-''" "c \<noteq> CHR ''+''" using d by (auto simp: is_digit_def)
  ultimately show ?thesis
    using read_digits_all [OF d, of 0 False] show_nat_digits [of n] by (simp add: py_int_text_def digits_val_def c)
qed

lemma summary_payload_dump:
  assumes "printable nid" "printable peer"
  shows "summary_payload nid peer = utf8_encode (dump (JObj [(''node_id'', JStr nid), (''peer_id'', JStr peer)]))"
proof -
  have "printable ''node_id''" "printable ''peer_id''" by (simp_all add: printable_def)
  then show ?thesis using assms by (simp add: summary_payload_def ascii_json_printable)
qed

text \<open> The two sides of the loopback interface agree: for every pair of printable identities whose request is within
  the daemon's size limit, the endpoint reads the adapter's request as exactly the call of that node and peer, and
  never answers one of its client errors for it.
\<close>
theorem adapter_request_reaches_the_rpc:
  assumes "printable nid" "printable peer" "length (summary_payload nid peer) \<le> 8192"
  shows "core_post cfg ce ''/app/storage-summary'' (Some ''application/json'') (Some (show_nat (length (summary_payload nid peer))))
      (summary_payload nid peer) = Some (call_outcome (storage_summary_rpc cfg ce (JStr nid) (JStr peer)))"
proof -
  let ?d = "[(''node_id'', JStr nid), (''peer_id'', JStr peer)]"
  have p: "plain (JObj ?d)" by simp
  have "loads_bytes (summary_payload nid peer) = Inr (JObj ?d)"
    unfolding summary_payload_dump [OF assms(1,2)] loads_bytes_def utf8_round_trip by (simp add: loads_dump [OF p] del: dump.simps)
  moreover have "content_kind (Some ''application/json'') = ''application/json''" by code_simp
  moreover have "0 < length (summary_payload nid peer)" by (simp add: summary_payload_def utf8_encode_def utf8_char_def)
  moreover have "exact_keys [''node_id'', ''peer_id''] ?d" by (simp add: exact_keys_def)
  ultimately show ?thesis using assms(3) by (simp add: core_post_def py_int_text_show_nat)
qed

theorem adapter_request_reaches_the_rpc_witness:
  "length (summary_payload ''n1'' ''p1'') \<le> 8192 \<and> printable ''n1'' \<and>
   core_post caller (call_now (\<lambda>d m t. Inl Timeout_error)) ''/app/storage-summary'' (Some ''application/json'')
     (Some (show_nat (length (summary_payload ''n1'' ''p1'')))) (summary_payload ''n1'' ''p1'') =
   Some (call_outcome (storage_summary_rpc caller (call_now (\<lambda>d m t. Inl Timeout_error)) (JStr ''n1'') (JStr ''p1'')))"
proof -
  have p: "printable ''n1''" "printable ''p1''" by (simp_all add: printable_def)
  moreover have l: "length (summary_payload ''n1'' ''p1'') \<le> 8192"
    unfolding summary_payload_dump [OF p] by (simp add: json_string_def esc_char_def utf8_encode_def utf8_char_def Let_def)
  ultimately show ?thesis using adapter_request_reaches_the_rpc [OF p l] by blast
qed

end
