(* ===== verification/Files_Registry.thy ===== *)
theory Files_Registry
  imports Json "HOL-Library.AList"
begin

text \<open>
  The stakeholder registry of the file server (\<open>hbfiles/hb_registry.py\<close>) and its capacity accounting
  (\<open>hbfiles/hb_capacity.py\<close>). What the file system, ZFS, \<open>du\<close> and the environment say are arguments. Floats are exact
  rationals; \<open>round\<close> rounds half to even.
\<close>

section \<open>The registry\<close>

text \<open>\<open>rg_key\<close> is the modification time and the size of the file that was read last.\<close>

record registry =
  rg_key :: "(int \<times> int) option"
  rg_entries :: "(string \<times> jobj) list"

definition empty_registry :: registry where "empty_registry = \<lparr>rg_key = None, rg_entries = []\<rparr>"

definition raw_entries :: "json \<Rightarrow> json list" where
  "raw_entries raw =
     (case raw of
        JList xs \<Rightarrow> xs
      | JObj d \<Rightarrow>
          (case List.map_filter (\<lambda>k. case jget d k of JList xs \<Rightarrow> Some xs | _ \<Rightarrow> None) [''users'', ''list'', ''entries'', ''data''] of
             xs # rest \<Rightarrow> xs
           | [] \<Rightarrow> filter (\<lambda>v. as_obj v \<noteq> None) (map snd d))
      | _ \<Rightarrow> [])"

definition norm_key :: "string \<Rightarrow> string" where "norm_key s = py_lower (py_strip s)"

definition add_entry :: "json \<Rightarrow> (string \<times> jobj) list \<Rightarrow> (string \<times> jobj) list" where
  "add_entry e t =
     (case e of
        JObj d \<Rightarrow> if truthy (jget d ''apikey'') then AList.update (norm_key (py_str (jget d ''apikey''))) d t else t
      | _ \<Rightarrow> t)"

definition by_apikey :: "json list \<Rightarrow> (string \<times> jobj) list" where
  "by_apikey es = fold add_entry es []"

text \<open>What \<open>stat\<close> and the parse of the file give; \<open>None\<close> is a missing file, and an unreadable or malformed one.\<close>

record list_file =
  lf_stat :: "(int \<times> int) option"
  lf_content :: "json option"

definition reload :: "list_file \<Rightarrow> registry \<Rightarrow> registry" where
  "reload f reg =
     (case lf_stat f of
        None \<Rightarrow> empty_registry
      | Some k \<Rightarrow>
          if rg_key reg = Some k \<and> rg_entries reg \<noteq> [] then reg
          else (case lf_content f of
                  None \<Rightarrow> reg
                | Some raw \<Rightarrow> \<lparr>rg_key = Some k, rg_entries = by_apikey (raw_entries raw)\<rparr>))"

definition entry_of :: "string \<Rightarrow> registry \<Rightarrow> jobj option" where
  "entry_of apikey reg = map_of (rg_entries reg) (norm_key apikey)"

definition ascii_only :: "string \<Rightarrow> bool" where "ascii_only s \<longleftrightarrow> (\<forall>c \<in> set s. (of_char c :: nat) < 128)"

text \<open>\<open>str(entry.get("signature", ""))\<close>; \<open>compare_digest\<close> raises on texts that are not ASCII (\<open>None\<close>).\<close>

definition verify_entry :: "jobj option \<Rightarrow> string \<Rightarrow> bool option" where
  "verify_entry entry signature =
     (case entry of
        None \<Rightarrow> Some False
      | Some e \<Rightarrow>
          if e = [] then Some False
          else let expected = py_str (jget_def_to e ''signature'' (JStr []))
               in if expected = [] \<or> signature = [] then Some False
                  else if \<not> ascii_only expected \<or> \<not> ascii_only signature then None
                  else Some (expected = signature))"

definition verify :: "list_file \<Rightarrow> string \<Rightarrow> string \<Rightarrow> registry \<Rightarrow> bool option \<times> registry" where
  "verify f apikey signature reg = (let r = reload f reg in (verify_entry (entry_of apikey r) signature, r))"

definition entry_quota :: "py_float \<Rightarrow> jobj \<Rightarrow> py_float" where
  "entry_quota dflt e =
     (case jget e ''storage_quota_gb'' of
        JNull \<Rightarrow> dflt
      | q \<Rightarrow> (case py_float_of q of None \<Rightarrow> dflt | Some x \<Rightarrow> x))"

definition quota_gb :: "py_float \<Rightarrow> list_file \<Rightarrow> string \<Rightarrow> registry \<Rightarrow> py_float \<times> registry" where
  "quota_gb dflt f apikey reg =
     (let r = reload f reg
      in (case entry_of apikey r of None \<Rightarrow> dflt | Some e \<Rightarrow> if e = [] then dflt else entry_quota dflt e, r))"

definition registry_count :: "list_file \<Rightarrow> registry \<Rightarrow> nat \<times> registry" where
  "registry_count f reg = (let r = reload f reg in (length (rg_entries r), r))"

definition sum_assigned :: "py_float \<Rightarrow> list_file \<Rightarrow> registry \<Rightarrow> py_float \<times> registry" where
  "sum_assigned dflt f reg = (let r = reload f reg in (sum_list (map (entry_quota dflt \<circ> snd) (rg_entries r)), r))"

section \<open>Capacity\<close>

definition gib :: int where "gib = 1024 ^ 3"

text \<open>\<open>zfs get\<close>: the return code and the output; \<open>None\<close> is a command that could not run.\<close>

definition zfs_value :: "(int \<times> string) option \<Rightarrow> int option" where
  "zfs_value out =
     (case out of
        None \<Rightarrow> None
      | Some (rc, text) \<Rightarrow>
          if rc \<noteq> 0 \<or> py_strip text \<in> {''none'', ''-'', []} then None else py_int_text (py_strip text))"

record machine =
  mc_quota :: "(int \<times> string) option"
  mc_used :: "(int \<times> string) option"
  mc_backend :: string
  mc_limit :: "string option"
  mc_disk_total :: "int option"
  mc_disk_used :: "int option"

record physical =
  ph_total :: "int option"
  ph_total_gb :: "py_float option"
  ph_total_tb :: "py_float option"
  ph_used_gb :: "py_float option"
  ph_zfs :: bool
  ph_source :: string

definition gb_of :: "nat \<Rightarrow> int \<Rightarrow> int \<Rightarrow> py_float" where
  "gb_of n unit bytes = py_round n (of_int bytes / of_int unit)"

definition physical_of :: "int option \<Rightarrow> int option \<Rightarrow> bool \<Rightarrow> string \<Rightarrow> physical" where
  "physical_of bytes used zfs source =
     \<lparr>ph_total = bytes,
      ph_total_gb = (case bytes of None \<Rightarrow> None | Some b \<Rightarrow> if b = 0 then None else Some (gb_of 2 gib b)),
      ph_total_tb = (case bytes of None \<Rightarrow> None | Some b \<Rightarrow> if b = 0 then None else Some (gb_of 3 (gib * 1024) b)),
      ph_used_gb = map_option (gb_of 2 gib) used, ph_zfs = zfs, ph_source = source\<rparr>"

text \<open>\<open>None\<close> is the \<open>ValueError\<close> of a limit that is not a number.\<close>

definition physical :: "machine \<Rightarrow> physical option" where
  "physical mc =
     (if py_lower (mc_backend mc) = ''zfs'' then
        (case zfs_value (mc_quota mc) of
           None \<Rightarrow> Some (physical_of None None False ''zfs-unavailable'')
         | Some q \<Rightarrow> Some (physical_of (Some q) (zfs_value (mc_used mc)) True ''zfs''))
      else (case mc_limit mc of
              Some (c # cs) \<Rightarrow>
                map_option (\<lambda>x. physical_of (Some (py_trunc (x * of_int gib))) (mc_disk_used mc) False ''logical'') (py_float_text (c # cs))
            | _ \<Rightarrow> Some (physical_of (mc_disk_total mc) (mc_disk_used mc) False ''disk'')))"

record grant_row =
  gr_gb :: py_float
  gr_ref :: json
  gr_time :: int

type_synonym grants = "(string \<times> grant_row) list"

definition granted_sum :: "grants \<Rightarrow> py_float" where "granted_sum g = sum_list (map (gr_gb \<circ> snd) g)"

record sovereign =
  sv_holders :: nat
  sv_assigned :: py_float
  sv_granted :: py_float
  sv_committed :: py_float

definition sovereign :: "py_float \<Rightarrow> list_file \<Rightarrow> grants \<Rightarrow> registry \<Rightarrow> sovereign \<times> registry" where
  "sovereign dflt f g reg =
     (case sum_assigned dflt f reg of
        (assigned, r1) \<Rightarrow>
          (case registry_count f r1 of
             (n, r2) \<Rightarrow>
               (\<lparr>sv_holders = n, sv_assigned = py_round 2 assigned, sv_granted = py_round 2 (granted_sum g),
                 sv_committed = py_round 2 (assigned + granted_sum g)\<rparr>, r2)))"

record commerciable =
  cm_total :: py_float
  cm_committed :: py_float
  cm_surplus :: py_float
  cm_surplus_tb :: py_float
  cm_percent :: py_float
  cm_over :: bool

text \<open>The answer is \<open>None\<close> when the physical capacity cannot be read.\<close>

definition commerciable_of :: "py_float option \<Rightarrow> py_float \<Rightarrow> commerciable option" where
  "commerciable_of total_gb committed =
     map_option (\<lambda>t. \<lparr>cm_total = t, cm_committed = committed, cm_surplus = py_round 2 (t - committed),
       cm_surplus_tb = py_round 3 ((t - committed) / 1024),
       cm_percent = (if t = 0 then 0 else py_round 1 (committed / t * 100)), cm_over = (t - committed < 0)\<rparr>) total_gb"

definition commerciable ::
  "py_float \<Rightarrow> machine \<Rightarrow> list_file \<Rightarrow> grants \<Rightarrow> registry \<Rightarrow> commerciable option option \<times> registry" where
  "commerciable dflt mc f g reg =
     (case physical mc of
        None \<Rightarrow> (None, reg)
      | Some ph \<Rightarrow>
          (case sovereign dflt f g reg of (sv, r) \<Rightarrow> (Some (commerciable_of (ph_total_gb ph) (sv_committed sv)), r)))"

datatype grant_answer = Granted | Not_positive | No_surplus py_float | Grant_raises

text \<open>\<open>grant_quota\<close>: \<open>Grant_raises\<close> is an amount that is not a number, or the error of \<open>physical\<close>.\<close>

definition grant_quota ::
  "py_float \<Rightarrow> machine \<Rightarrow> list_file \<Rightarrow> int \<Rightarrow> string \<Rightarrow> json \<Rightarrow> json \<Rightarrow> grants \<Rightarrow> registry \<Rightarrow> grant_answer \<times> grants \<times> registry" where
  "grant_quota dflt mc f now apikey amount ref g reg =
     (case py_float_of amount of
        None \<Rightarrow> (Grant_raises, g, reg)
      | Some gb \<Rightarrow>
          if gb \<le> 0 then (Not_positive, g, reg)
          else (case commerciable dflt mc f g reg of
                  (None, r) \<Rightarrow> (Grant_raises, g, r)
                | (Some (Some cm), r) \<Rightarrow>
                    if cm_surplus cm < gb then (No_surplus (cm_surplus cm), g, r)
                    else (Granted, AList.update apikey \<lparr>gr_gb = gb, gr_ref = ref, gr_time = now\<rparr> g, r)
                | (Some None, r) \<Rightarrow> (Granted, AList.update apikey \<lparr>gr_gb = gb, gr_ref = ref, gr_time = now\<rparr> g, r)))"

definition revoke_quota :: "string \<Rightarrow> grants \<Rightarrow> bool \<times> grants" where
  "revoke_quota apikey g = (if apikey \<in> fst ` set g then (True, AList.delete apikey g) else (False, g))"

section \<open>Properties\<close>

definition grants_ok :: "grants \<Rightarrow> bool" where
  "grants_ok g \<longleftrightarrow> distinct (map fst g) \<and> (\<forall>x \<in> set g. 0 < gr_gb (snd x))"

lemma granted_sum_update:
  "grants_ok g \<Longrightarrow> granted_sum (AList.update k v g) \<le> granted_sum g + gr_gb v"
  by (induction g) (auto simp: granted_sum_def grants_ok_def)

lemma set_update_cases: "x \<in> set (AList.update k v g) \<Longrightarrow> x = (k, v) \<or> x \<in> set g"
  by (induction g) (auto split: if_split_asm)

lemma grants_ok_update: "grants_ok g \<Longrightarrow> 0 < gr_gb v \<Longrightarrow> grants_ok (AList.update k v g)"
  using distinct_update [of g k v]
  by (auto simp: grants_ok_def dest!: set_update_cases)

lemma grants_ok_delete: "grants_ok g \<Longrightarrow> grants_ok (AList.delete k g)"
  by (auto simp: grants_ok_def AList.delete_eq distinct_map_filter)

text \<open> A grant that is given stays within what the node can hold: whenever the physical capacity is known, the quotas of
  all stakeholders and all grants together exceed it by at most a hundredth of a gigabyte, which is the rounding of the
  figures it is checked against; and the table keeps one positive grant per client.
\<close>
theorem grants_stay_within_capacity:
  assumes "grants_ok g" "grant_quota dflt mc f now apikey amount ref g reg = (Granted, g', reg')"
    and "physical mc = Some ph" "ph_total_gb ph = Some cap"
  shows "fst (sum_assigned dflt f reg) + granted_sum g' \<le> cap + 1 / 100 \<and> grants_ok g' \<and> map_of g' apikey \<noteq> None"
proof -
  let ?assigned = "fst (sum_assigned dflt f reg)"
  obtain gb where gb: "py_float_of amount = Some gb" "0 < gb"
    "gb \<le> py_round 2 (cap - py_round 2 (?assigned + granted_sum g))"
    "g' = AList.update apikey \<lparr>gr_gb = gb, gr_ref = ref, gr_time = now\<rparr> g"
    using assms(2-4)
    by (auto simp: grant_quota_def commerciable_def commerciable_of_def sovereign_def split: option.split_asm if_split_asm prod.split_asm)
  have "granted_sum g' \<le> granted_sum g + gb" using granted_sum_update [OF assms(1), of apikey "\<lparr>gr_gb = gb, gr_ref = ref, gr_time = now\<rparr>"] by (simp add: gb(4))
  moreover have "\<bar>py_round 2 (cap - py_round 2 (?assigned + granted_sum g)) - (cap - py_round 2 (?assigned + granted_sum g))\<bar> \<le> 1 / 200"
    using py_round_close [of 2] by simp
  moreover have "\<bar>py_round 2 (?assigned + granted_sum g) - (?assigned + granted_sum g)\<bar> \<le> 1 / 200"
    using py_round_close [of 2] by simp
  ultimately have "?assigned + granted_sum g' \<le> cap + 1 / 100" using gb(3) by linarith
  then show ?thesis using grants_ok_update [OF assms(1)] gb(2) by (simp add: gb(4) update_conv')
qed

definition small_machine :: machine where
  "small_machine = \<lparr>mc_quota = None, mc_used = None, mc_backend = ''auto'', mc_limit = None, mc_disk_total = Some (10 * gib),
     mc_disk_used = Some 0\<rparr>"

definition no_list :: list_file where "no_list = \<lparr>lf_stat = None, lf_content = None\<rparr>"

theorem grants_stay_within_capacity_witness:
  "\<exists>g' reg' ph. grant_quota 100 small_machine no_list 7 ''k'' (JInt 5) (JStr ''tx'') [] empty_registry = (Granted, g', reg') \<and>
     physical small_machine = Some ph \<and> ph_total_gb ph = Some 10 \<and> granted_sum g' \<le> 10 + 1 / 100"
proof -
  have g: "grant_quota 100 small_machine no_list 7 ''k'' (JInt 5) (JStr ''tx'') [] empty_registry =
      (Granted, [(''k'', \<lparr>gr_gb = 5, gr_ref = JStr ''tx'', gr_time = 7\<rparr>)], empty_registry)" by code_simp
  have p: "physical small_machine = Some (physical_of (Some (10 * gib)) (Some 0) False ''disk'')" by code_simp
  have t: "ph_total_gb (physical_of (Some (10 * gib)) (Some 0) False ''disk'') = Some 10" by code_simp
  have a: "fst (sum_assigned 100 no_list empty_registry) = 0" by code_simp
  have "grants_ok []" by (simp add: grants_ok_def)
  from grants_stay_within_capacity [OF this g p t] show ?thesis using g p t a by auto
qed

text \<open>Without a readable capacity the check is left out: every amount is granted.\<close>

lemma unknown_capacity_grants_anything:
  assumes "physical mc = Some ph" "ph_total_gb ph = None" "py_float_of amount = Some gb" "0 < gb"
  shows "fst (grant_quota dflt mc f now apikey amount ref g reg) = Granted"
  using assms by (simp add: grant_quota_def commerciable_def commerciable_of_def split: prod.split)

text \<open>A dataset without a quota, for which \<open>zfs get -p\<close> prints 0, counts as unreadable.\<close>

lemma zero_quota_is_unreadable:
  "py_lower (mc_backend mc) = ''zfs'' \<Longrightarrow> mc_quota mc = Some (0, ''0'') \<Longrightarrow> \<exists>ph. physical mc = Some ph \<and> ph_total_gb ph = None"
proof -
  assume a: "py_lower (mc_backend mc) = ''zfs''" "mc_quota mc = Some (0, ''0'')"
  have "zfs_value (Some (0, ''0'')) = Some 0" by code_simp
  then show ?thesis using a by (simp add: physical_def physical_of_def)
qed

text \<open>A \<open>null\<close> signature is compared as the text \<open>None\<close>.\<close>

lemma null_signature_is_a_password:
  "jget e ''signature'' = JNull \<Longrightarrow> ''signature'' \<in> fst ` set e \<Longrightarrow> verify_entry (Some e) ''None'' = Some True"
proof -
  assume a: "jget e ''signature'' = JNull" "''signature'' \<in> fst ` set e"
  then have "map_of e ''signature'' \<noteq> None" by (simp add: map_of_eq_None_iff)
  then have "jget_def_to e ''signature'' (JStr []) = JNull" using a(1) by (auto simp: jget_def jget_def_to_def)
  moreover have "e \<noteq> []" using a(2) by auto
  ultimately show ?thesis by (simp add: verify_entry_def py_str_def ascii_only_def)
qed

section \<open>The cache\<close>

text \<open>Files with the same time and size have the same content, where it could be read.\<close>

definition stable_files :: "list_file list \<Rightarrow> bool" where
  "stable_files fs \<longleftrightarrow> (\<forall>f \<in> set fs. \<forall>f' \<in> set fs. lf_stat f = lf_stat f' \<and> lf_content f \<noteq> None \<and> lf_content f' \<noteq> None \<longrightarrow>
     lf_content f = lf_content f')"

definition read_from :: "list_file list \<Rightarrow> registry \<Rightarrow> bool" where
  "read_from fs reg \<longleftrightarrow> (\<forall>k. rg_key reg = Some k \<longrightarrow>
     (\<exists>f \<in> set fs. \<exists>raw. lf_stat f = Some k \<and> lf_content f = Some raw \<and> rg_entries reg = by_apikey (raw_entries raw)))"

lemma read_from_reload: "read_from fs reg \<Longrightarrow> f \<in> set fs \<Longrightarrow> read_from fs (reload f reg)"
  by (auto simp: read_from_def reload_def empty_registry_def split: option.split)

lemma read_from_fold: "read_from fs reg \<Longrightarrow> set gs \<subseteq> set fs \<Longrightarrow> read_from fs (fold reload gs reg)"
  by (induction gs arbitrary: reg) (auto simp: read_from_reload)

text \<open>C39: The cache of the registry is transparent. After any sequence of readings, a reading that finds a well-formed
  list gives exactly the entries of that list, and one that finds no list gives none, as if nothing were cached; this
  holds as long as two lists with the same time stamp and size have the same content.
\<close>
theorem registry_cache_is_transparent:
  assumes "stable_files (fs @ [f])"
  shows "(lf_stat f = None \<longrightarrow> rg_entries (reload f (fold reload fs empty_registry)) = []) \<and>
    (\<forall>k raw. lf_stat f = Some k \<and> lf_content f = Some raw \<longrightarrow>
       rg_entries (reload f (fold reload fs empty_registry)) = by_apikey (raw_entries raw))"
proof -
  let ?reg = "fold reload fs empty_registry"
  have r: "read_from (fs @ [f]) ?reg" by (rule read_from_fold) (auto simp: read_from_def empty_registry_def)
  have "rg_entries (reload f ?reg) = by_apikey (raw_entries raw)" if f: "lf_stat f = Some k" "lf_content f = Some raw" for k raw
  proof (cases "rg_key ?reg = Some k \<and> rg_entries ?reg \<noteq> []")
    case True
    then obtain f' raw' where "f' \<in> set (fs @ [f])" "lf_stat f' = Some k" "lf_content f' = Some raw'"
      "rg_entries ?reg = by_apikey (raw_entries raw')" using r by (auto simp: read_from_def)
    moreover from this have "raw' = raw" using assms f unfolding stable_files_def
      by (metis in_set_conv_decomp option.distinct(1) option.inject)
    ultimately show ?thesis using True f by (simp add: reload_def)
  qed (use f in \<open>auto simp: reload_def\<close>)
  then show ?thesis by (simp add: reload_def empty_registry_def)
qed

definition one_entry :: json where
  "one_entry = JList [JObj [(''apikey'', JStr '' AB ''), (''signature'', JStr ''s'')]]"

theorem registry_cache_is_transparent_witness:
  "rg_entries (reload \<lparr>lf_stat = Some (1, 2), lf_content = Some one_entry\<rparr> (fold reload [no_list, \<lparr>lf_stat = Some (1, 2), lf_content = None\<rparr>]
     empty_registry)) = [(''ab'', [(''apikey'', JStr '' AB ''), (''signature'', JStr ''s'')])]"
proof -
  let ?f = "\<lparr>lf_stat = Some (1, 2), lf_content = Some one_entry\<rparr>" and ?fs = "[no_list, \<lparr>lf_stat = Some (1, 2), lf_content = None\<rparr>]"
  have "stable_files (?fs @ [?f])" by (simp add: stable_files_def no_list_def)
  from registry_cache_is_transparent [OF this]
  have "rg_entries (reload ?f (fold reload ?fs empty_registry)) = by_apikey (raw_entries one_entry)" by simp
  moreover have "by_apikey (raw_entries one_entry) = [(''ab'', [(''apikey'', JStr '' AB ''), (''signature'', JStr ''s'')])]" by code_simp
  ultimately show ?thesis by simp
qed

end
