(* ===== verification/Files_Upload.thy ===== *)
theory Files_Upload
  imports Prelude
begin

text \<open>
  The multipart reader of the file server (\<open>_handle_upload\<close> of \<open>hbfiles/hb_files.py\<close>) on bytes. \<open>decode\<close> is
  \<open>bytes.decode("utf-8", "replace")\<close>.
\<close>

section \<open>Byte strings\<close>

text \<open>\<open>s.find(sep)\<close>\<close>

fun find_sub :: "string \<Rightarrow> string \<Rightarrow> nat option" where
  "find_sub sep s =
     (if starts_with sep s then Some 0
      else (case s of [] \<Rightarrow> None | c # cs \<Rightarrow> map_option Suc (find_sub sep cs)))"

declare find_sub.simps [simp del]

definition has_sub :: "string \<Rightarrow> string \<Rightarrow> bool" where "has_sub sep s \<longleftrightarrow> find_sub sep s \<noteq> None"

lemma starts_with_take: "starts_with p s \<longleftrightarrow> take (length p) s = p"
  by (induction p s rule: starts_with.induct) auto

lemma find_sub_bound: "find_sub sep s = Some i \<Longrightarrow> i + length sep \<le> length s"
proof (induction sep s arbitrary: i rule: find_sub.induct)
  case (1 sep s)
  show ?case
  proof (cases "starts_with sep s")
    case True
    then have "length sep \<le> length s" unfolding starts_with_take by (metis length_take min.cobounded1)
    then show ?thesis using 1(2) True by (simp add: find_sub.simps)
  next
    case False
    then obtain c cs j where "s = c # cs" "find_sub sep cs = Some j" "i = Suc j"
      using 1(2) by (subst (asm) find_sub.simps) (auto split: list.split_asm)
    then show ?thesis using 1(1) [OF False] by simp
  qed
qed

text \<open>\<open>s.split(sep)\<close> for a non-empty separator, and \<open>s.partition(sep)\<close> without its middle part.\<close>

function split_sub :: "string \<Rightarrow> string \<Rightarrow> string list" where
  "split_sub sep s =
     (if sep = [] then [s]
      else (case find_sub sep s of None \<Rightarrow> [s] | Some i \<Rightarrow> take i s # split_sub sep (drop (i + length sep) s)))"
  by pat_completeness auto
termination
proof (relation "measure (length \<circ> snd)", goal_cases)
  case (2 sep s i)
  then show ?case using find_sub_bound [of sep s i] by (cases sep) auto
qed simp

declare split_sub.simps [simp del]

definition partition_sub :: "string \<Rightarrow> string \<Rightarrow> string \<times> string" where
  "partition_sub sep s = (case find_sub sep s of None \<Rightarrow> (s, []) | Some i \<Rightarrow> (take i s, drop (i + length sep) s))"

definition crlf :: string where "crlf = [CHR 0x0D, CHR 0x0A]"

text \<open>\<open>s.strip(chr)\<close> for a single character.\<close>

definition strip_char :: "char \<Rightarrow> string \<Rightarrow> string" where
  "strip_char c s = rev (dropWhile (\<lambda>x. x = c) (rev (dropWhile (\<lambda>x. x = c) s)))"

definition ends_with :: "string \<Rightarrow> string \<Rightarrow> bool" where
  "ends_with p s \<longleftrightarrow> starts_with (rev p) (rev s)"

section \<open>The reader\<close>

definition boundary_of :: "string \<Rightarrow> string option" where
  "boundary_of ct =
     fold (\<lambda>part b. if starts_with ''boundary='' (py_strip part) then Some (strip_char (CHR 0x22) (drop 9 (py_strip part))) else b)
       (split_on (CHR '';'') ct) None"

definition unframe :: "string \<Rightarrow> string" where
  "unframe content =
     (let c = (if starts_with crlf content then drop 2 content else content)
      in if ends_with crlf c then take (length c - 2) c else c)"

definition header_filename :: "(string \<Rightarrow> string) \<Rightarrow> string \<Rightarrow> string option \<Rightarrow> string option" where
  "header_filename decode hdr name =
     fold (\<lambda>line n. if has_sub ''filename='' line
                     then Some (strip_char (CHR 0x22) (py_strip (last (split_sub ''filename='' (decode line))))) else n)
       (split_sub crlf hdr) name"

definition read_chunk :: "(string \<Rightarrow> string) \<Rightarrow> string \<Rightarrow> string option \<times> string option \<Rightarrow> string option \<times> string option" where
  "read_chunk decode chunk acc =
     (if \<not> has_sub ''Content-Disposition'' chunk then acc
      else (case partition_sub (crlf @ crlf) chunk of
              (hdr, content) \<Rightarrow>
                if has_sub ''filename='' hdr then (header_filename decode hdr (fst acc), Some (unframe content)) else acc))"

text \<open>The name and the data of the upload; an empty name counts as none.\<close>

definition read_multipart :: "(string \<Rightarrow> string) \<Rightarrow> string \<Rightarrow> string \<Rightarrow> (string \<times> string) option" where
  "read_multipart decode boundary body =
     (case fold (read_chunk decode) (split_sub (''--'' @ boundary) body) (None, None) of
        (Some name, Some data) \<Rightarrow> if name = [] then None else Some (name, data)
      | _ \<Rightarrow> None)"

text \<open>\<open>Path(name).name\<close>\<close>

definition path_name :: "string \<Rightarrow> string" where
  "path_name s =
     (case rev (filter (\<lambda>p. p \<noteq> [] \<and> p \<noteq> ''.'') (split_on (CHR ''/'') s)) of [] \<Rightarrow> [] | p # ps \<Rightarrow> p)"

section \<open>What a client sends\<close>

text \<open>One file part, as browsers and the panel send it.\<close>

definition part_header :: "string \<Rightarrow> string" where
  "part_header name =
     ''Content-Disposition: form-data; name='' @ [CHR 0x22] @ ''file'' @ [CHR 0x22] @ ''; filename='' @ [CHR 0x22] @ name @ [CHR 0x22]"

definition multipart_of :: "string \<Rightarrow> string \<Rightarrow> string \<Rightarrow> string" where
  "multipart_of boundary name data =
     ''--'' @ boundary @ crlf @ part_header name @ crlf @ crlf @ data @ crlf @ ''--'' @ boundary @ ''--'' @ crlf"

lemma find_sub_first:
  "starts_with sep (drop i s) \<Longrightarrow> i \<le> length s \<Longrightarrow> \<forall>j < i. \<not> starts_with sep (drop j s) \<Longrightarrow> find_sub sep s = Some i"
proof (induction i arbitrary: s)
  case 0
  then show ?case by (simp add: find_sub.simps)
next
  case (Suc i)
  then obtain c cs where s: "s = c # cs" by (cases s) auto
  have "\<not> starts_with sep s" using Suc.prems(3) by force
  moreover have "\<not> starts_with sep (drop j cs)" if "j < i" for j
    using Suc.prems(3) that s by (metis Suc_less_eq drop_Suc_Cons)
  then have "find_sub sep cs = Some i" using Suc.prems s by (intro Suc.IH) auto
  ultimately show ?case by (subst find_sub.simps) (simp add: s)
qed

lemma starts_with_append [simp]: "starts_with p (p @ s)"
  by (simp add: starts_with_take)

lemma not_starts_hd: "p \<noteq> [] \<Longrightarrow> s \<noteq> [] \<Longrightarrow> hd s \<noteq> hd p \<Longrightarrow> \<not> starts_with p s"
  by (cases p; cases s) auto

lemma find_sub_absent: "p \<noteq> [] \<Longrightarrow> hd p \<notin> set s \<Longrightarrow> find_sub p s = None"
proof (induction s)
  case Nil
  then show ?case by (subst find_sub.simps) (cases p, auto)
next
  case (Cons c s)
  then show ?case using not_starts_hd [of p "c # s"] by (subst find_sub.simps) auto
qed

lemma find_sub_short: "length s < length sep \<Longrightarrow> find_sub sep s = None"
  using find_sub_bound [of sep s] by (cases "find_sub sep s") auto

lemma split_sub_none: "find_sub sep s = None \<Longrightarrow> split_sub sep s = [s]"
  by (subst split_sub.simps) simp

lemma split_sub_at: "sep \<noteq> [] \<Longrightarrow> find_sub sep (p @ sep @ s) = Some (length p) \<Longrightarrow> split_sub sep (p @ sep @ s) = p # split_sub sep s"
  by (subst split_sub.simps) simp

section \<open>Round trip\<close>

definition clean_name :: "string \<Rightarrow> bool" where
  "clean_name name \<longleftrightarrow> name \<noteq> [] \<and> set name \<inter> {CHR 0x0D, CHR 0x0A, CHR 0x22} = {} \<and>
     \<not> has_sub ''filename='' ([CHR 0x22] @ name @ [CHR 0x22])"

lemma strip_quotes: "CHR 0x22 \<notin> set name \<Longrightarrow> name \<noteq> [] \<Longrightarrow>
    strip_char (CHR 0x22) (py_strip ([CHR 0x22] @ name @ [CHR 0x22])) = name"
proof -
  assume a: "CHR 0x22 \<notin> set name" "name \<noteq> []"
  have q: "\<not> py_space (CHR 0x22)" by code_simp
  have d: "dropWhile (\<lambda>x. x = CHR 0x22) (t @ u) = t @ u" if "CHR 0x22 \<notin> set t" "t \<noteq> []" for t u :: string
    using that by (cases t) auto
  have "py_strip ([CHR 0x22] @ name @ [CHR 0x22]) = [CHR 0x22] @ name @ [CHR 0x22]" using q by (simp add: py_strip_def)
  then show ?thesis using d [of name "[CHR 0x22]"] d [of "rev name" "[]"] a by (simp add: strip_char_def)
qed

lemma header_name:
  assumes "clean_name name" "decode (part_header name) = part_header name"
  shows "header_filename decode (crlf @ part_header name) n = Some name"
proof -
  let ?pre = "''Content-Disposition: form-data; name='' @ [CHR 0x22] @ ''file'' @ [CHR 0x22] @ ''; ''"
  let ?q = "[CHR 0x22] @ name @ [CHR 0x22]"
  have h: "part_header name = ?pre @ ''filename='' @ ?q" by (simp add: part_header_def)
  have "find_sub ''filename='' (?pre @ ''filename='' @ ?q) = Some (length ?pre)" by (simp add: find_sub.simps)
  then have f: "has_sub ''filename='' (part_header name)" "split_sub ''filename='' (part_header name) = [?pre, ?q]"
    using split_sub_at [of "''filename=''" ?pre ?q] split_sub_none [of "''filename=''" ?q] assms(1)
    unfolding h has_sub_def clean_name_def by simp_all
  have "CHR 0x0D \<notin> set (part_header name)" using assms(1) by (auto simp: part_header_def clean_name_def)
  then have "find_sub crlf (part_header name) = None" by (intro find_sub_absent) (simp_all add: crlf_def)
  then have "split_sub crlf ([] @ crlf @ part_header name) = [[], part_header name]"
    using split_sub_at [of crlf "[]" "part_header name"] split_sub_none [of crlf "part_header name"]
    by (simp add: find_sub.simps crlf_def)
  moreover have "\<not> has_sub ''filename='' []" by (simp add: has_sub_def find_sub.simps)
  ultimately show ?thesis
    using f strip_quotes assms by (simp add: header_filename_def clean_name_def)
qed

lemma part_fields:
  assumes "CHR 0x0D \<notin> set name"
  shows "partition_sub (crlf @ crlf) (crlf @ part_header name @ crlf @ crlf @ rest) = (crlf @ part_header name, rest)"
proof -
  let ?h = "part_header name" and ?sep = "crlf @ crlf"
  let ?s = "crlf @ ?h @ ?sep @ rest"
  have cr: "CHR 0x0D \<notin> set ?h" using assms by (auto simp: part_header_def)
  obtain x xs where h: "?h = x # xs" "x \<noteq> CHR 0x0D" by (simp add: part_header_def)
  have "\<not> starts_with ?sep (drop j ?s)" if j: "j < 2 + length ?h" for j
  proof (cases "j < 2")
    case True
    then have "j = 0 \<or> j = 1" by auto
    then show ?thesis by (auto simp: crlf_def h)
  next
    case False
    then obtain i where i: "j = 2 + i" using le_Suc_ex by (metis not_less)
    then have "i < length ?h" using j by simp
    then have "drop i ?h = ?h ! i # drop (Suc i) ?h" "?h ! i \<noteq> CHR 0x0D" using cr by (simp_all add: Cons_nth_drop_Suc) (metis nth_mem)
    then show ?thesis by (simp add: i crlf_def)
  qed
  then have "find_sub ?sep ?s = Some (2 + length ?h)" by (intro find_sub_first) (simp_all add: crlf_def)
  then show ?thesis by (simp add: partition_sub_def crlf_def)
qed

lemma unframe_data: "\<not> starts_with crlf data \<Longrightarrow> unframe (data @ crlf) = data"
proof -
  assume a: "\<not> starts_with crlf data"
  have e: "ends_with crlf (d @ crlf)" for d by (simp add: ends_with_def)
  show ?thesis
  proof (cases "starts_with crlf (data @ crlf)")
    case True
    then have "data = []" using a by (cases data rule: remdups_adj.cases) (auto simp: crlf_def)
    then show ?thesis by (simp add: unframe_def crlf_def ends_with_def)
  qed (use e in \<open>simp add: unframe_def Let_def crlf_def\<close>)
qed

lemma reader_round_trip:
  assumes "clean_name name" "decode (part_header name) = part_header name" "3 \<le> length boundary"
    and "find_sub (''--'' @ boundary) (drop (2 + length boundary) (multipart_of boundary name data)) =
      Some (length (crlf @ part_header name @ crlf @ crlf @ data @ crlf))"
    and "\<not> starts_with crlf data"
  shows "read_multipart decode boundary (multipart_of boundary name data) = Some (name, data)"
proof -
  let ?sep = "''--'' @ boundary" and ?p = "crlf @ part_header name @ crlf @ crlf @ data @ crlf" and ?tail = "''--'' @ crlf"
  have m: "multipart_of boundary name data = [] @ ?sep @ ?p @ ?sep @ ?tail" by (simp add: multipart_of_def)
  have "find_sub ?sep ([] @ ?sep @ s) = Some (length [])" for s by (subst find_sub.simps) simp
  then have "split_sub ?sep (multipart_of boundary name data) = [] # split_sub ?sep (?p @ ?sep @ ?tail)"
    unfolding m by (rule split_sub_at [rotated]) simp
  moreover have "split_sub ?sep (?p @ ?sep @ ?tail) = ?p # split_sub ?sep ?tail"
    using assms(4) by (intro split_sub_at) (simp_all add: m)
  moreover have "split_sub ?sep ?tail = [?tail]" using assms(3) by (intro split_sub_none find_sub_short) (simp add: crlf_def)
  moreover have "read_chunk decode [] acc = acc" "read_chunk decode ?tail acc = acc" for acc
    by (simp_all add: read_chunk_def has_sub_def find_sub.simps crlf_def)
  moreover have "read_chunk decode ?p (None, None) = (Some name, Some data)"
  proof -
    have "has_sub ''Content-Disposition'' ?p" by (simp add: has_sub_def find_sub.simps crlf_def part_header_def)
    moreover have "has_sub ''filename='' (crlf @ part_header name)" by (simp add: has_sub_def find_sub.simps crlf_def part_header_def)
    moreover have "CHR 0x0D \<notin> set name" using assms(1) by (auto simp: clean_name_def)
    ultimately show ?thesis
      using part_fields [of name "data @ crlf"] header_name [where decode = decode, OF assms(1,2)] unframe_data [OF assms(5)] by (simp add: read_chunk_def)
  qed
  moreover have "name \<noteq> []" using assms(1) by (simp add: clean_name_def)
  ultimately show ?thesis by (simp add: read_multipart_def)
qed

text \<open> The upload reader gives back what was sent: the name and, byte for byte, the data of a form with one file, when
  the name is an ordinary header text, the boundary does not occur in the part, and the data do not begin with CR LF.
\<close>
theorem upload_round_trip:
  assumes "clean_name name" "decode (part_header name) = part_header name" "3 \<le> length boundary"
    and "find_sub (''--'' @ boundary) (drop (2 + length boundary) (multipart_of boundary name data)) =
      Some (length (crlf @ part_header name @ crlf @ crlf @ data @ crlf))"
    and "\<not> starts_with crlf data"
  shows "read_multipart decode boundary (multipart_of boundary name data) = Some (name, data)"
  using assms by (rule reader_round_trip)

theorem upload_round_trip_witness:
  "read_multipart (\<lambda>b. b) ''xyz'' (multipart_of ''xyz'' ''a.b'' ''hi'') = Some (''a.b'', ''hi'')"
proof (rule upload_round_trip)
  show "clean_name ''a.b''" by (simp add: clean_name_def has_sub_def find_sub.simps)
qed (simp_all add: crlf_def multipart_of_def part_header_def find_sub.simps)

text \<open>Data that begin with CR LF lose these two bytes.\<close>

lemma leading_crlf_is_lost: "unframe (crlf @ data @ crlf) = data"
  by (simp add: unframe_def ends_with_def crlf_def)

end
