(* ===== verification/Files_Store.thy ===== *)
theory Files_Store
  imports Files_Registry Files_Upload Json_Text
begin

text \<open>
  The file server: \<open>Storage\<close> and the request handlers of \<open>hbfiles/hb_files.py\<close>. A metadata directory is the table of
  its records, keyed by file name; the private IPFS node, the clock, random values, hashes and the environment are
  arguments. The server handles one request at a time. \<open>so_pins\<close> are the CIDs the node holds after the requests made
  to it. A handler that raises is an \<open>Inl\<close>: the client gets no answer and the state keeps what was done.
\<close>

section \<open>State\<close>

record tenant =
  tn_id :: string
  tn_name :: json
  tn_token :: string
  tn_quota :: py_float
  tn_created :: int
  tn_enabled :: bool
  tn_domain :: json

record file_record =
  fr_id :: string
  fr_tenant :: string
  fr_name :: string
  fr_mime :: string
  fr_size :: nat
  fr_sha :: string
  fr_path :: string
  fr_uploaded :: int
  fr_cid :: string
  fr_encrypted :: bool

record share_link =
  sh_token :: string
  sh_file :: string
  sh_tenant :: string
  sh_created :: int
  sh_expires :: int
  sh_count :: int
  sh_tep :: string
  sh_http :: string
  sh_domain :: string
  sh_max :: int

record store =
  so_tenants :: "tenant list"
  so_files :: "file_record list"
  so_shares :: "share_link list"
  so_keystores :: "(string \<times> json) list"
  so_grants :: grants
  so_registry :: registry
  so_pins :: "string list"

text \<open>What one request meets: clock, random values, IPFS, the registry file, the machine, the replication controller.\<close>

record files_world =
  fw_now :: int
  fw_uuid :: string
  fw_token :: string
  fw_add :: "string \<Rightarrow> string option"
  fw_cat :: "string \<Rightarrow> string option"
  fw_unpin :: bool
  fw_sha :: "string \<Rightarrow> string"
  fw_mime :: "string \<Rightarrow> string option"
  fw_decode :: "string \<Rightarrow> string"
  fw_list :: list_file
  fw_machine :: machine
  fw_pubkey :: string
  fw_ip :: string
  fw_hook :: "jobj option"
  fw_role :: "string option"
  fw_peers :: "nat option"

record files_config =
  fc_admin :: string
  fc_max_mb :: nat
  fc_ttl :: int
  fc_quota :: py_float
  fc_hook :: bool
  fc_hook_token :: string
  fc_node :: string
  fc_accountant :: bool

record files_request =
  fq_path :: string
  fq_apikey :: string
  fq_signature :: string
  fq_admin :: string
  fq_type :: string
  fq_length :: "string option"
  fq_encrypted :: string
  fq_body :: string

type_synonym 'a files = "(unit, store, 'a) st"

definition ret :: "'a \<Rightarrow> 'a files" where "ret = st_ret"
definition raise_f :: "'a files" where "raise_f = st_fail ()"
definition get_s :: "(store \<Rightarrow> 'a) \<Rightarrow> 'a files" where "get_s f s = (Inr (f s), s)"
definition upd_s :: "(store \<Rightarrow> store) \<Rightarrow> unit files" where "upd_s f s = (Inr (), f s)"
definition need :: "'a option \<Rightarrow> 'a files" where "need x = (case x of None \<Rightarrow> raise_f | Some v \<Rightarrow> ret v)"

section \<open>Storage\<close>

text \<open>\<open>_write\<close>: the file of a key is replaced or added.\<close>

definition put_row :: "('r \<Rightarrow> string) \<Rightarrow> 'r \<Rightarrow> 'r list \<Rightarrow> 'r list" where
  "put_row key r t = (if key r \<in> key ` set t then map (\<lambda>x. if key x = key r then r else x) t else t @ [r])"

definition get_file :: "string \<Rightarrow> store \<Rightarrow> file_record option" where "get_file fid s = tbl_find fr_id fid (so_files s)"
definition get_share :: "string \<Rightarrow> store \<Rightarrow> share_link option" where "get_share token s = tbl_find sh_token token (so_shares s)"
definition get_tenant :: "string \<Rightarrow> store \<Rightarrow> tenant option" where "get_tenant tid s = tbl_find tn_id tid (so_tenants s)"

definition get_tenant_by_token :: "string \<Rightarrow> store \<Rightarrow> tenant option" where
  "get_tenant_by_token token s = find (\<lambda>t. tn_token t = token \<and> tn_enabled t) (so_tenants s)"

definition save_file :: "file_record \<Rightarrow> store \<Rightarrow> store" where
  "save_file f s = s\<lparr>so_files := put_row fr_id f (so_files s)\<rparr>"

definition list_files :: "string \<Rightarrow> store \<Rightarrow> file_record list" where
  "list_files tid s = sort_desc fr_uploaded (filter (\<lambda>f. fr_tenant f = tid) (so_files s))"

definition tenant_usage :: "string \<Rightarrow> store \<Rightarrow> nat" where
  "tenant_usage tid s = sum_list (map fr_size (filter (\<lambda>f. fr_tenant f = tid) (so_files s)))"

definition bootstrap_tenant :: "string \<Rightarrow> int \<Rightarrow> store \<Rightarrow> store" where
  "bootstrap_tenant token now s =
     (if so_tenants s = []
      then s\<lparr>so_tenants := [\<lparr>tn_id = ''default'', tn_name = JStr ''Default Tenant'', tn_token = token, tn_quota = 1000, tn_created = now,
                             tn_enabled = True, tn_domain = JStr []\<rparr>]\<rparr>
      else s)"

definition create_tenant :: "files_world \<Rightarrow> json \<Rightarrow> py_float \<Rightarrow> json \<Rightarrow> store \<Rightarrow> tenant \<times> store" where
  "create_tenant w name quota domain s =
     (let t = \<lparr>tn_id = ''tenant_'' @ fw_uuid w, tn_name = name, tn_token = fw_token w, tn_quota = quota, tn_created = fw_now w,
               tn_enabled = True, tn_domain = domain\<rparr>
      in (t, s\<lparr>so_tenants := put_row tn_id t (so_tenants s)\<rparr>))"

text \<open>Tenants as the admin sees them: the first eight characters of the token, and the usage.\<close>

definition list_tenants :: "store \<Rightarrow> (tenant \<times> py_float) list" where
  "list_tenants s =
     map (\<lambda>t. (t\<lparr>tn_token := take 8 (tn_token t) @ ''...''\<rparr>, py_round 4 (of_nat (tenant_usage (tn_id t) s) / of_int gib))) (so_tenants s)"

text \<open>\<open>delete_file\<close>: the CID is unpinned only with its last record; \<open>fw_unpin\<close> says whether IPFS did it.\<close>

definition last_reference :: "file_record \<Rightarrow> string \<Rightarrow> store \<Rightarrow> bool" where
  "last_reference f fid s \<longleftrightarrow> fr_cid f \<noteq> [] \<and> \<not> list_ex (\<lambda>g. fr_id g \<noteq> fid \<and> fr_cid g = fr_cid f) (so_files s)"

definition delete_file :: "files_world \<Rightarrow> string \<Rightarrow> string \<Rightarrow> store \<Rightarrow> bool \<times> store" where
  "delete_file w fid tid s =
     (case get_file fid s of
        None \<Rightarrow> (False, s)
      | Some f \<Rightarrow>
          if fr_tenant f \<noteq> tid then (False, s)
          else (True, s\<lparr>so_pins := (if last_reference f fid s \<and> fw_unpin w then removeAll (fr_cid f) (so_pins s) else so_pins s),
                        so_files := filter (\<lambda>g. fr_id g \<noteq> fid) (so_files s)\<rparr>))"

definition create_share :: "files_world \<Rightarrow> string \<Rightarrow> tenant \<Rightarrow> int \<Rightarrow> int \<Rightarrow> store \<Rightarrow> share_link \<times> store" where
  "create_share w fid t ttl max_downloads s =
     (let token = fw_token w;
          domain = (if truthy (tn_domain t) then ''https://'' @ py_str (tn_domain t) @ ''/files/'' @ token else []);
          l = \<lparr>sh_token = token, sh_file = fid, sh_tenant = tn_id t, sh_created = fw_now w, sh_expires = fw_now w + ttl, sh_count = 0,
               sh_tep = ''tep://'' @ fw_pubkey w @ ''/'' @ token,
               sh_http = (if fw_ip w = [] then [] else ''http://'' @ fw_ip w @ ''/files/'' @ token), sh_domain = domain,
               sh_max = max_downloads\<rparr>
      in (l, s\<lparr>so_shares := put_row sh_token l (so_shares s)\<rparr>))"

definition increment_download :: "string \<Rightarrow> store \<Rightarrow> store" where
  "increment_download token s =
     (case get_share token s of
        None \<Rightarrow> s
      | Some l \<Rightarrow> s\<lparr>so_shares := put_row sh_token (l\<lparr>sh_count := sh_count l + 1\<rparr>) (so_shares s)\<rparr>)"

definition save_keystore :: "string \<Rightarrow> json \<Rightarrow> store \<Rightarrow> store" where
  "save_keystore tid ks s = s\<lparr>so_keystores := AList.update tid ks (so_keystores s)\<rparr>"

section \<open>Answers\<close>

datatype hook_answer = Hook_off | Hook_misconfigured | Hook_failed | Hook_done jobj

datatype files_body =
    B_error string
  | B_files "file_record list"
  | B_file file_record
  | B_share share_link
  | B_keystore json
  | B_stats nat nat nat
  | B_health nat nat nat "commerciable option"
  | B_summary "(string \<times> string \<times> nat option \<times> physical \<times> (sovereign \<times> commerciable option) option) option"
  | B_report physical sovereign "commerciable option"
  | B_grants grants
  | B_tenants "(tenant \<times> py_float) list"
  | B_uploaded file_record hook_answer
  | B_shared share_link file_record
  | B_saved
  | B_grant grant_answer
  | B_revoked bool
  | B_tenant tenant
  | B_deleted bool
  | B_download string share_link file_record

type_synonym files_answer = "nat \<times> files_body"

definition fail_with :: "string \<Rightarrow> nat \<Rightarrow> files_answer files" where "fail_with m code = ret (code, B_error m)"
definition unauthorized :: "files_answer files" where "unauthorized = fail_with ''Unauthorized'' 401"

section \<open>Authentication\<close>

definition with_registry :: "(registry \<Rightarrow> 'a \<times> registry) \<Rightarrow> 'a files" where
  "with_registry f s = (case f (so_registry s) of (x, r) \<Rightarrow> (Inr x, s\<lparr>so_registry := r\<rparr>))"

definition auth_tenant :: "files_config \<Rightarrow> files_world \<Rightarrow> files_request \<Rightarrow> tenant option files" where
  "auth_tenant cfg w q =
     (let apikey = py_strip (fq_apikey q); signature = py_strip (fq_signature q)
      in if apikey = [] \<or> signature = [] then ret None
         else st_bind (with_registry (verify (fw_list w) apikey signature)) (\<lambda>answer.
           case answer of
             None \<Rightarrow> raise_f
           | Some False \<Rightarrow> ret None
           | Some True \<Rightarrow>
               st_bind (with_registry (quota_gb (fc_quota cfg) (fw_list w) apikey)) (\<lambda>quota.
                 ret (Some \<lparr>tn_id = py_lower apikey, tn_name = JStr (''stakeholder:'' @ take 8 (py_lower apikey)), tn_token = [],
                            tn_quota = quota, tn_created = fw_now w, tn_enabled = True, tn_domain = JStr []\<rparr>))))"

definition auth_admin :: "files_config \<Rightarrow> files_request \<Rightarrow> bool" where
  "auth_admin cfg q \<longleftrightarrow> fq_admin q = fc_admin cfg"

definition as_tenant :: "files_config \<Rightarrow> files_world \<Rightarrow> files_request \<Rightarrow> (tenant \<Rightarrow> files_answer files) \<Rightarrow> files_answer files" where
  "as_tenant cfg w q f =
     st_bind (auth_tenant cfg w q) (\<lambda>t. case t of None \<Rightarrow> unauthorized | Some x \<Rightarrow> f x)"

definition as_admin :: "files_config \<Rightarrow> files_request \<Rightarrow> files_answer files \<Rightarrow> files_answer files" where
  "as_admin cfg q f = (if auth_admin cfg q then f else unauthorized)"

section \<open>Request bodies\<close>

definition body_length :: "files_request \<Rightarrow> int option" where
  "body_length q = (case fq_length q of None \<Rightarrow> Some 0 | Some t \<Rightarrow> py_int_text t)"

text \<open>\<open>read_json_body\<close>, for bodies in UTF-8.\<close>

definition read_json_body :: "files_request \<Rightarrow> json files" where
  "read_json_body q =
     st_bind (need (body_length q)) (\<lambda>n.
       ret (if 0 < n then (case loads_bytes (fq_body q) of Inl e \<Rightarrow> JObj [] | Inr v \<Rightarrow> v) else JObj []))"

definition body_get :: "json \<Rightarrow> string \<Rightarrow> json \<Rightarrow> json files" where
  "body_get v k d = (case v of JObj o' \<Rightarrow> ret (jget_def_to o' k d) | _ \<Rightarrow> raise_f)"

text \<open>\<open>k in v\<close> for a text \<open>k\<close>; \<open>None\<close> is a \<open>TypeError\<close>.\<close>

definition py_in :: "string \<Rightarrow> json \<Rightarrow> bool option" where
  "py_in k v =
     (case v of
        JObj d \<Rightarrow> Some (k \<in> fst ` set d)
      | JList xs \<Rightarrow> Some (JStr k \<in> set xs)
      | JStr t \<Rightarrow> Some (has_sub k t)
      | _ \<Rightarrow> None)"

section \<open>Upload\<close>

definition register_replication :: "files_config \<Rightarrow> files_world \<Rightarrow> hook_answer" where
  "register_replication cfg w =
     (if \<not> fc_hook cfg then Hook_off
      else if fc_hook_token cfg = [] \<or> fc_node cfg = [] then Hook_misconfigured
      else (case fw_hook w of None \<Rightarrow> Hook_failed | Some d \<Rightarrow> Hook_done d))"

definition quota_bytes :: "tenant \<Rightarrow> int" where "quota_bytes t = py_trunc (tn_quota t * of_int gib)"

definition new_record :: "files_world \<Rightarrow> files_request \<Rightarrow> tenant \<Rightarrow> string \<Rightarrow> string \<Rightarrow> string \<Rightarrow> file_record" where
  "new_record w q t name data cid =
     \<lparr>fr_id = fw_uuid w, fr_tenant = tn_id t, fr_name = name,
      fr_mime = (case fw_mime w name of Some m \<Rightarrow> if m = [] then ''application/octet-stream'' else m | None \<Rightarrow> ''application/octet-stream''),
      fr_size = length data, fr_sha = fw_sha w data, fr_path = [], fr_uploaded = fw_now w, fr_cid = cid,
      fr_encrypted = (py_lower (fq_encrypted q) \<in> {''1'', ''true'', ''yes''})\<rparr>"

definition store_upload :: "files_config \<Rightarrow> files_world \<Rightarrow> files_request \<Rightarrow> tenant \<Rightarrow> string \<Rightarrow> string \<Rightarrow> files_answer files" where
  "store_upload cfg w q t name data =
     (case fw_add w data of
        None \<Rightarrow> fail_with ''IPFS unavailable'' 502
      | Some cid \<Rightarrow>
          (let rec = new_record w q t (path_name name) data cid
           in st_bind (upd_s (\<lambda>s. save_file rec (s\<lparr>so_pins := List.insert cid (so_pins s)\<rparr>))) (\<lambda>_.
                ret (201, B_uploaded rec (register_replication cfg w)))))"

definition handle_upload :: "files_config \<Rightarrow> files_world \<Rightarrow> files_request \<Rightarrow> tenant \<Rightarrow> files_answer files" where
  "handle_upload cfg w q t =
     (if \<not> has_sub ''multipart/form-data'' (fq_type q) then fail_with ''Expected multipart/form-data'' 400
      else st_bind (need (body_length q)) (\<lambda>cl.
        if int (fc_max_mb cfg) * 1024 ^ 2 < cl then fail_with ''File too large'' 413
        else (case boundary_of (fq_type q) of
                None \<Rightarrow> fail_with ''No boundary in Content-Type'' 400
              | Some boundary \<Rightarrow>
                  if boundary = [] then fail_with ''No boundary in Content-Type'' 400
                  else (case read_multipart (fw_decode w) (utf8_encode boundary) (fq_body q) of
                          None \<Rightarrow> fail_with ''No file in multipart body'' 400
                        | Some (name, data) \<Rightarrow>
                            st_bind (get_s (tenant_usage (tn_id t))) (\<lambda>used.
                              if quota_bytes t < int (used + length data) then fail_with ''Storage quota exceeded'' 413
                              else store_upload cfg w q t name data)))))"

section \<open>Shares\<close>

definition handle_create_share :: "files_config \<Rightarrow> files_world \<Rightarrow> files_request \<Rightarrow> tenant \<Rightarrow> string \<Rightarrow> files_answer files" where
  "handle_create_share cfg w q t fid =
     st_bind (get_s (get_file fid)) (\<lambda>found.
       case found of
         None \<Rightarrow> fail_with ''File not found'' 404
       | Some f \<Rightarrow>
           if fr_tenant f \<noteq> tn_id t then fail_with ''File not found'' 404
           else st_bind (read_json_body q) (\<lambda>opts.
             st_bind (st_bind (body_get opts ''ttl_sec'' (JInt (fc_ttl cfg))) (\<lambda>v. need (py_int v))) (\<lambda>ttl.
             st_bind (st_bind (body_get opts ''max_downloads'' (JInt 0)) (\<lambda>v. need (py_int v))) (\<lambda>maxd.
             st_bind (\<lambda>s. case create_share w fid t ttl maxd s of (l, s1) \<Rightarrow> (Inr l, s1)) (\<lambda>l. ret (201, B_shared l f))))))"

definition serve_download :: "files_world \<Rightarrow> string \<Rightarrow> files_answer files" where
  "serve_download w token =
     st_bind (get_s (get_share token)) (\<lambda>found.
       case found of
         None \<Rightarrow> fail_with ''Share link not found'' 404
       | Some l \<Rightarrow>
           if sh_expires l < fw_now w then fail_with ''Share link expired'' 410
           else if 0 < sh_max l \<and> sh_max l \<le> sh_count l then fail_with ''Download limit reached'' 410
           else st_bind (get_s (get_file (sh_file l))) (\<lambda>file.
             case file of
               None \<Rightarrow> fail_with ''File not found'' 404
             | Some f \<Rightarrow>
                 (case (if fr_cid f = [] then None else fw_cat w (fr_cid f)) of
                    None \<Rightarrow> fail_with ''IPFS retrieval failed'' 502
                  | Some data \<Rightarrow> st_bind (upd_s (increment_download token)) (\<lambda>_. ret (200, B_download data l f)))))"

section \<open>Capacity pages\<close>

definition accountant_ready :: "files_config \<Rightarrow> files_answer files \<Rightarrow> files_answer files" where
  "accountant_ready cfg f = (if fc_accountant cfg then f else fail_with ''Accountant not ready'' 503)"

definition read_capacity :: "files_config \<Rightarrow> files_world \<Rightarrow> (physical \<times> sovereign \<times> commerciable option) files" where
  "read_capacity cfg w =
     st_bind (need (physical (fw_machine w))) (\<lambda>ph.
     st_bind (get_s so_grants) (\<lambda>g.
     st_bind (with_registry (sovereign (fc_quota cfg) (fw_list w) g)) (\<lambda>sv.
       ret (ph, sv, commerciable_of (ph_total_gb ph) (sv_committed sv)))))"

definition storage_counts :: "store \<Rightarrow> nat \<times> nat \<times> nat" where
  "storage_counts s = (length (so_files s), length (so_tenants s), length (so_shares s))"

definition health_page :: "files_config \<Rightarrow> files_world \<Rightarrow> files_answer files" where
  "health_page cfg w =
     st_bind (get_s storage_counts) (\<lambda>(nf, nt, ns).
       if fc_accountant cfg then st_bind (read_capacity cfg w) (\<lambda>(ph, sv, cm). ret (200, B_health nf nt ns cm))
       else ret (200, B_health nf nt ns None))"

text \<open>The public summary turns every exception into an answer.\<close>

definition storage_role :: "files_world \<Rightarrow> physical \<Rightarrow> string" where
  "storage_role w ph = (case fw_role w of Some r \<Rightarrow> r | None \<Rightarrow> if ph_zfs ph then ''primary'' else ''secondary'')"

definition public_summary :: "files_config \<Rightarrow> files_world \<Rightarrow> files_answer files" where
  "public_summary cfg w s =
     (if \<not> fc_accountant cfg then (Inr (200, B_summary None), s)
      else (case physical (fw_machine w) of
              None \<Rightarrow> (Inr (200, B_error ''summary error''), s)
            | Some ph \<Rightarrow>
                (let role = storage_role w ph; cls = (if role = ''edge'' then ''best-effort'' else ''committable'')
                 in if role = ''primary''
                    then (case read_capacity cfg w s of
                            (Inl e, s1) \<Rightarrow> (Inr (200, B_error ''summary error''), s1)
                          | (Inr (ph1, sv, cm), s1) \<Rightarrow> (Inr (200, B_summary (Some (role, cls, fw_peers w, ph, Some (sv, cm)))), s1))
                    else (Inr (200, B_summary (Some (role, cls, fw_peers w, ph, None))), s))))"

section \<open>Requests\<close>

definition parts :: "string \<Rightarrow> string list" where "parts path = split_on (CHR ''/'') path"

definition url_path :: "files_request \<Rightarrow> string" where
  "url_path q = rev (dropWhile (\<lambda>c. c = CHR ''/'') (rev (fq_path q)))"

definition show_file :: "tenant \<Rightarrow> string \<Rightarrow> files_answer files" where
  "show_file t fid =
     st_bind (get_s (get_file fid)) (\<lambda>found.
       case found of
         None \<Rightarrow> fail_with ''Not found'' 404
       | Some f \<Rightarrow> if fr_tenant f \<noteq> tn_id t then fail_with ''Not found'' 404 else ret (200, B_file f))"

definition files_get :: "files_config \<Rightarrow> files_world \<Rightarrow> files_request \<Rightarrow> files_answer files" where
  "files_get cfg w q =
     (let path = url_path q
      in if path = ''/health'' then health_page cfg w
         else if starts_with ''/files/'' path then serve_download w (drop 7 path)
         else if path = ''/api/files'' then as_tenant cfg w q (\<lambda>t. st_bind (get_s (list_files (tn_id t))) (\<lambda>fs. ret (200, B_files fs)))
         else if starts_with ''/api/files/'' path \<and> length (parts path) = 4 then as_tenant cfg w q (\<lambda>t. show_file t (last (parts path)))
         else if starts_with ''/api/share/'' path \<and> length (parts path) = 4 then
           st_bind (get_s (get_share (last (parts path)))) (\<lambda>l. case l of None \<Rightarrow> fail_with ''Not found'' 404 | Some x \<Rightarrow> ret (200, B_share x))
         else if path = ''/api/keystore'' then
           as_tenant cfg w q (\<lambda>t. st_bind (get_s (\<lambda>s. map_of (so_keystores s) (tn_id t))) (\<lambda>ks.
             case ks of None \<Rightarrow> fail_with ''No keystore'' 404 | Some v \<Rightarrow> ret (200, B_keystore v)))
         else if path = ''/api/storage'' then
           as_admin cfg q (st_bind (get_s storage_counts) (\<lambda>(nf, nt, ns). ret (200, B_stats nf nt ns)))
         else if path = ''/api/public/storage-summary'' then public_summary cfg w
         else if path = ''/api/capacity'' then
           as_admin cfg q (accountant_ready cfg (st_bind (read_capacity cfg w) (\<lambda>(ph, sv, cm). ret (200, B_report ph sv cm))))
         else if path = ''/api/grants'' then
           as_admin cfg q (st_bind (get_s so_grants) (\<lambda>g. ret (200, B_grants (if fc_accountant cfg then g else []))))
         else if path = ''/api/tenants'' then as_admin cfg q (st_bind (get_s list_tenants) (\<lambda>ts. ret (200, B_tenants ts)))
         else fail_with ''Not found'' 404)"

definition post_keystore :: "files_request \<Rightarrow> tenant \<Rightarrow> files_answer files" where
  "post_keystore q t =
     st_bind (read_json_body q) (\<lambda>ks.
       if \<not> truthy ks then fail_with ''Invalid keystore'' 400
       else st_bind (need (py_in ''pw'' ks)) (\<lambda>pw.
         if \<not> pw then fail_with ''Invalid keystore'' 400
         else st_bind (need (py_in ''rk'' ks)) (\<lambda>rk.
           if \<not> rk then fail_with ''Invalid keystore'' 400
           else st_bind (upd_s (save_keystore (tn_id t) ks)) (\<lambda>_. ret (201, B_saved)))))"

text \<open>A key of the grants file as \<open>json.dumps\<close> writes it; \<open>None\<close> is an unhashable one.\<close>

definition grant_key :: "json \<Rightarrow> string option" where
  "grant_key v =
     (case v of
        JStr s \<Rightarrow> Some s | JInt k \<Rightarrow> Some (show_int k) | JFloat x t \<Rightarrow> Some t
      | JBool b \<Rightarrow> Some (if b then ''true'' else ''false'') | JNull \<Rightarrow> Some ''null'' | _ \<Rightarrow> None)"

definition give_grant :: "files_config \<Rightarrow> files_world \<Rightarrow> json \<Rightarrow> json \<Rightarrow> json \<Rightarrow> grant_answer files" where
  "give_grant cfg w apikey amount ref s =
     (case grant_key apikey of
        Some k \<Rightarrow>
          (case grant_quota (fc_quota cfg) (fw_machine w) (fw_list w) (fw_now w) k amount ref (so_grants s) (so_registry s) of
             (Grant_raises, g, r) \<Rightarrow> (Inl (), s\<lparr>so_registry := r\<rparr>)
           | (a, g, r) \<Rightarrow> (Inr a, s\<lparr>so_grants := g, so_registry := r\<rparr>))
      | None \<Rightarrow>
          (case grant_quota (fc_quota cfg) (fw_machine w) (fw_list w) (fw_now w) [] amount ref (so_grants s) (so_registry s) of
             (Granted, g, r) \<Rightarrow> (Inl (), s\<lparr>so_registry := r\<rparr>)
           | (Grant_raises, g, r) \<Rightarrow> (Inl (), s\<lparr>so_registry := r\<rparr>)
           | (a, g, r) \<Rightarrow> (Inr a, s\<lparr>so_registry := r\<rparr>)))"

definition post_grant :: "files_config \<Rightarrow> files_world \<Rightarrow> files_request \<Rightarrow> files_answer files" where
  "post_grant cfg w q =
     accountant_ready cfg
       (st_bind (read_json_body q) (\<lambda>body.
        st_bind (body_get body ''apikey'' (JStr [])) (\<lambda>apikey.
        st_bind (body_get body ''gb'' (JInt 0)) (\<lambda>gb.
        st_bind (body_get body ''payment_ref'' (JStr [])) (\<lambda>ref.
          if \<not> truthy apikey \<or> \<not> truthy gb then fail_with ''apikey e gb richiesti'' 400
          else st_bind (give_grant cfg w apikey gb ref) (\<lambda>a. ret (if a = Granted then 200 else 400, B_grant a)))))))"

definition post_revoke :: "files_config \<Rightarrow> files_request \<Rightarrow> files_answer files" where
  "post_revoke cfg q =
     st_bind (read_json_body q) (\<lambda>body.
     st_bind (body_get body ''apikey'' (JStr [])) (\<lambda>apikey.
       if \<not> fc_accountant cfg then ret (404, B_revoked False)
       else (case apikey of
               JStr k \<Rightarrow> st_bind (\<lambda>s. case revoke_quota k (so_grants s) of (ok, g) \<Rightarrow> (Inr ok, s\<lparr>so_grants := g\<rparr>)) (\<lambda>ok.
                           ret (if ok then 200 else 404, B_revoked ok))
             | _ \<Rightarrow> if grant_key apikey = None then raise_f else ret (404, B_revoked False))))"

definition post_tenant :: "files_world \<Rightarrow> files_request \<Rightarrow> files_answer files" where
  "post_tenant w q =
     st_bind (read_json_body q) (\<lambda>opts.
     st_bind (body_get opts ''name'' (JStr ''New Tenant'')) (\<lambda>name.
     st_bind (st_bind (body_get opts ''quota_gb'' (JInt 100)) (\<lambda>v. need (py_float_of v))) (\<lambda>quota.
     st_bind (body_get opts ''domain'' (JStr [])) (\<lambda>domain.
     st_bind (\<lambda>s. case create_tenant w name quota domain s of (t, s1) \<Rightarrow> (Inr t, s1)) (\<lambda>t. ret (201, B_tenant t))))))"

definition files_post :: "files_config \<Rightarrow> files_world \<Rightarrow> files_request \<Rightarrow> files_answer files" where
  "files_post cfg w q =
     (let path = url_path q
      in if path = ''/api/upload'' then as_tenant cfg w q (handle_upload cfg w q)
         else if starts_with ''/api/share/'' path \<and> length (parts path) = 4 then
           as_tenant cfg w q (\<lambda>t. handle_create_share cfg w q t (last (parts path)))
         else if path = ''/api/keystore'' then as_tenant cfg w q (post_keystore q)
         else if path = ''/api/grant'' then as_admin cfg q (post_grant cfg w q)
         else if path = ''/api/revoke'' then as_admin cfg q (post_revoke cfg q)
         else if path = ''/api/tenants'' then as_admin cfg q (post_tenant w q)
         else fail_with ''Not found'' 404)"

definition files_delete :: "files_config \<Rightarrow> files_world \<Rightarrow> files_request \<Rightarrow> files_answer files" where
  "files_delete cfg w q =
     (let path = url_path q
      in if starts_with ''/api/files/'' path
         then as_tenant cfg w q (\<lambda>t. \<lambda>s. case delete_file w (last (parts path)) (tn_id t) s of
                (ok, s1) \<Rightarrow> (Inr (if ok then 200 else 404, B_deleted ok), s1))
         else fail_with ''Not found'' 404)"

datatype files_method = Get | Post | Delete

definition handle_request :: "files_config \<Rightarrow> files_method \<Rightarrow> files_world \<Rightarrow> files_request \<Rightarrow> files_answer files" where
  "handle_request cfg m w q = (case m of Get \<Rightarrow> files_get cfg w q | Post \<Rightarrow> files_post cfg w q | Delete \<Rightarrow> files_delete cfg w q)"

end
