(* ===== verification/Files_Spec.thy ===== *)
theory Files_Spec
  imports Files_Store
begin

text \<open>
  What a request to the file server may do, as an abstract step relation \<open>request_step\<close> over the stored tables, and the
  refinement: every request handled by \<open>handle_request\<close> is such a step.
\<close>

section \<open>The abstract step\<close>

definition requester :: "files_request \<Rightarrow> string" where
  "requester q = py_lower (py_strip (fq_apikey q))"

definition signed_in :: "files_world \<Rightarrow> files_request \<Rightarrow> store \<Rightarrow> bool" where
  "signed_in w q s \<longleftrightarrow> py_strip (fq_apikey q) \<noteq> [] \<and> py_strip (fq_signature q) \<noteq> [] \<and>
     fst (verify (fw_list w) (py_strip (fq_apikey q)) (py_strip (fq_signature q)) (so_registry s)) = Some True"

text \<open>The bytes the registry allows the requester, read after the credentials were checked.\<close>

definition allowance :: "files_config \<Rightarrow> files_world \<Rightarrow> files_request \<Rightarrow> store \<Rightarrow> int" where
  "allowance cfg w q s =
     py_trunc (fst (quota_gb (fc_quota cfg) (fw_list w) (py_strip (fq_apikey q)) (reload (fw_list w) (so_registry s))) * of_int gib)"

text \<open>The answers that come with a change of a table.\<close>

fun changing :: "unit + files_answer \<Rightarrow> bool" where
  "changing (Inr (code, B_uploaded rec h)) = True"
| "changing (Inr (code, B_shared l f)) = True"
| "changing (Inr (code, B_saved)) = True"
| "changing (Inr (code, B_grant a)) = (a = Granted)"
| "changing (Inr (code, B_revoked ok)) = ok"
| "changing (Inr (code, B_tenant t)) = True"
| "changing (Inr (code, B_deleted ok)) = ok"
| "changing (Inr (code, B_download data l f)) = True"
| "changing _ = False"

text \<open>Only the registry cache differs.\<close>

definition same :: "store \<Rightarrow> store \<Rightarrow> bool" where
  "same s s' \<longleftrightarrow> s' = s\<lparr>so_registry := so_registry s'\<rparr>"

inductive request_step :: "files_config \<Rightarrow> files_world \<Rightarrow> files_request \<Rightarrow> store \<Rightarrow> unit + files_answer \<Rightarrow> store \<Rightarrow> bool"
  for cfg w q s where
  read: "same s s' \<Longrightarrow> \<not> changing a \<Longrightarrow> request_step cfg w q s a s'"
| upload: "signed_in w q s \<Longrightarrow> boundary_of (fq_type q) = Some b \<Longrightarrow>
    read_multipart (fw_decode w) (utf8_encode b) (fq_body q) = Some (name, data) \<Longrightarrow> fw_add w data = Some (fr_cid rec) \<Longrightarrow> fr_name rec = path_name name \<Longrightarrow> fr_tenant rec = requester q \<Longrightarrow> fr_id rec = fw_uuid w \<Longrightarrow>
    fr_size rec = length data \<Longrightarrow> fr_sha rec = fw_sha w data \<Longrightarrow>
    int (tenant_usage (requester q) s + length data) \<le> allowance cfg w q s \<Longrightarrow>
    same (save_file rec (s\<lparr>so_pins := List.insert (fr_cid rec) (so_pins s)\<rparr>)) s' \<Longrightarrow>
    request_step cfg w q s (Inr (201, B_uploaded rec h)) s'"
| delete: "signed_in w q s \<Longrightarrow> get_file fid s = Some f \<Longrightarrow> fr_tenant f = requester q \<Longrightarrow>
    same (snd (delete_file w fid (requester q) s)) s' \<Longrightarrow> request_step cfg w q s (Inr (200, B_deleted True)) s'"
| share: "signed_in w q s \<Longrightarrow> get_file fid s = Some f \<Longrightarrow> fr_tenant f = requester q \<Longrightarrow> tn_id t = requester q \<Longrightarrow> tn_domain t = JStr [] \<Longrightarrow>
    create_share w fid t ttl maxd s = (l, s1) \<Longrightarrow> same s1 s' \<Longrightarrow> request_step cfg w q s (Inr (201, B_shared l f)) s'"
| keystore: "signed_in w q s \<Longrightarrow> same (save_keystore (requester q) ks s) s' \<Longrightarrow> request_step cfg w q s (Inr (201, B_saved)) s'"
| download: "get_share token s = Some l \<Longrightarrow> fw_now w \<le> sh_expires l \<Longrightarrow> sh_max l \<le> 0 \<or> sh_count l < sh_max l \<Longrightarrow>
    get_file (sh_file l) s = Some f \<Longrightarrow> fr_cid f \<noteq> [] \<Longrightarrow> fw_cat w (fr_cid f) = Some data \<Longrightarrow>
    same (increment_download token s) s' \<Longrightarrow> request_step cfg w q s (Inr (200, B_download data l f)) s'"
| grant: "fq_admin q = fc_admin cfg \<Longrightarrow>
    grant_quota (fc_quota cfg) (fw_machine w) (fw_list w) (fw_now w) k amount ref (so_grants s) (so_registry s) = (Granted, g, r) \<Longrightarrow>
    same (s\<lparr>so_grants := g\<rparr>) s' \<Longrightarrow> request_step cfg w q s (Inr (200, B_grant Granted)) s'"
| revoke: "fq_admin q = fc_admin cfg \<Longrightarrow> revoke_quota k (so_grants s) = (True, g) \<Longrightarrow> same (s\<lparr>so_grants := g\<rparr>) s' \<Longrightarrow>
    request_step cfg w q s (Inr (200, B_revoked True)) s'"
| tenant: "fq_admin q = fc_admin cfg \<Longrightarrow> create_tenant w name quota domain s = (t, s1) \<Longrightarrow> same s1 s' \<Longrightarrow>
    request_step cfg w q s (Inr (201, B_tenant t)) s'"

section \<open>Code that changes no table\<close>

definition frames :: "'a files \<Rightarrow> bool" where "frames m \<longleftrightarrow> (\<forall>s. same s (snd (m s)))"
definition quiet :: "files_answer files \<Rightarrow> bool" where "quiet m \<longleftrightarrow> (\<forall>s. same s (snd (m s)) \<and> \<not> changing (fst (m s)))"

named_theorems quiet_intro

lemma same_refl [simp]: "same s s"
  by (simp add: same_def)

lemma same_trans: "same s t \<Longrightarrow> same t u \<Longrightarrow> same s u"
  by (cases s; cases t; cases u) (simp add: same_def)

lemma same_registry [simp]: "same s (s\<lparr>so_registry := r\<rparr>)"
  by (simp add: same_def)

lemma frames_ret [quiet_intro]: "frames (ret x)" "frames raise_f" "frames (get_s f)" "frames (need y)"
  by (auto simp: frames_def ret_def raise_f_def get_s_def need_def split: option.split)

lemma frames_registry [quiet_intro]: "frames (with_registry f)"
  by (simp add: frames_def with_registry_def split: prod.split)

lemma frames_same: "frames m \<Longrightarrow> m s = (a, s') \<Longrightarrow> same s s'"
  by (metis frames_def snd_conv)

lemma st_bind_cases:
  assumes "st_bind m f s = (a, s')"
  obtains e where "m s = (Inl e, s')" "a = Inl e" | x s1 where "m s = (Inr x, s1)" "f x s1 = (a, s')"
  using assms by (auto simp: st_bind_def split: prod.split_asm sum.split_asm)

lemma frames_bind [quiet_intro]:
  assumes "frames m" "\<And>x. frames (f x)"
  shows "frames (st_bind m f)"
  unfolding frames_def
proof
  fix s
  obtain a s' where run: "st_bind m f s = (a, s')" by fastforce
  then have "same s s'"
    by (cases rule: st_bind_cases) (blast intro: same_trans frames_same [OF assms(1)] frames_same [OF assms(2)])+
  then show "same s (snd (st_bind m f s))" using run by simp
qed

lemma quiet_bind [quiet_intro]:
  assumes "frames m" "\<And>x. quiet (f x)"
  shows "quiet (st_bind m f)"
  unfolding quiet_def
proof
  fix s
  obtain a s' where run: "st_bind m f s = (a, s')" by fastforce
  then show "same s (snd (st_bind m f s)) \<and> \<not> changing (fst (st_bind m f s))"
  proof (cases rule: st_bind_cases)
    case (1 e)
    then show ?thesis using frames_same [OF assms(1)] run by simp
  next
    case (2 x s1)
    then have "same s1 s'" "\<not> changing a" using assms(2) [of x] by (auto simp: quiet_def dest: spec [of _ s1])
    then show ?thesis using same_trans [OF frames_same [OF assms(1) 2(1)]] run by simp
  qed
qed

lemma quiet_fail [quiet_intro]: "quiet (fail_with m c)" "quiet unauthorized" "quiet raise_f"
  by (auto simp: quiet_def fail_with_def ret_def raise_f_def unauthorized_def)

lemma quiet_ret [quiet_intro]: "\<not> changing (Inr a) \<Longrightarrow> quiet (ret a)"
  by (simp add: quiet_def ret_def)

lemma quiet_step: "quiet m \<Longrightarrow> m s = (a, s') \<Longrightarrow> request_step cfg w q s a s'"
  by (metis fst_conv quiet_def request_step.read snd_conv)

lemma same_fields: "same s s' \<Longrightarrow> so_files s' = so_files s \<and> so_shares s' = so_shares s \<and> so_keystores s' = so_keystores s \<and>
  so_grants s' = so_grants s \<and> so_tenants s' = so_tenants s \<and> so_pins s' = so_pins s"
  by (cases s; cases s') (simp add: same_def)


section \<open>Signing in\<close>

lemma auth_outcome:
  assumes "auth_tenant cfg w q s = (Inr (Some t), s1)"
  shows "same s s1 \<and> signed_in w q s \<and> tn_id t = requester q \<and> tn_domain t = JStr [] \<and> quota_bytes t = allowance cfg w q s"
  using assms
  by (auto simp: auth_tenant_def Let_def ret_def raise_f_def st_bind_def with_registry_def signed_in_def requester_def
      quota_bytes_def allowance_def verify_def same_def split: if_split_asm prod.split_asm sum.split_asm option.split_asm bool.split_asm)

lemma frames_auth [quiet_intro]: "frames (auth_tenant cfg w q)"
  unfolding auth_tenant_def Let_def
  by (auto intro!: quiet_intro split: option.split bool.split)

text \<open>Code that, started where only the registry cache differs from \<open>s\<close>, makes a step from \<open>s\<close>.\<close>

definition steps :: "files_config \<Rightarrow> files_world \<Rightarrow> files_request \<Rightarrow> store \<Rightarrow> files_answer files \<Rightarrow> bool" where
  "steps cfg w q s m \<longleftrightarrow> (\<forall>s1 a s'. same s s1 \<longrightarrow> m s1 = (a, s') \<longrightarrow> request_step cfg w q s a s')"

lemma stepsI: "(\<And>s1 a s'. same s s1 \<Longrightarrow> m s1 = (a, s') \<Longrightarrow> request_step cfg w q s a s') \<Longrightarrow> steps cfg w q s m"
  by (simp add: steps_def)

lemma stepsD: "steps cfg w q s m \<Longrightarrow> same s s1 \<Longrightarrow> m s1 = (a, s') \<Longrightarrow> request_step cfg w q s a s'"
  by (simp add: steps_def)

lemma steps_quiet: "quiet m \<Longrightarrow> steps cfg w q s m"
  by (rule stepsI) (metis fst_conv quiet_def request_step.read same_trans snd_conv)

lemma steps_bind:
  assumes "frames m" "\<And>x s1 s2. same s s1 \<Longrightarrow> m s1 = (Inr x, s2) \<Longrightarrow> steps cfg w q s (f x)"
  shows "steps cfg w q s (st_bind m f)"
proof (rule stepsI)
  fix s1 a s'
  assume s1: "same s s1" and "st_bind m f s1 = (a, s')"
  from this(2) show "request_step cfg w q s a s'"
  proof (cases rule: st_bind_cases)
    case (1 e)
    then show ?thesis using same_trans [OF s1 frames_same [OF assms(1) 1(1)]] by (simp add: request_step.read)
  next
    case (2 x s2)
    then show ?thesis using stepsD [OF assms(2) [OF s1 2(1)]] same_trans [OF s1 frames_same [OF assms(1) 2(1)]] by blast
  qed
qed

lemma steps_get:
  assumes "\<And>s1. same s s1 \<Longrightarrow> g s1 = g s" "steps cfg w q s (f (g s))"
  shows "steps cfg w q s (st_bind (get_s g) f)"
proof (rule steps_bind [OF frames_ret(3)])
  fix x s1 s2
  assume s1: "same s s1" and "get_s g s1 = (Inr x, s2)"
  then have "x = g s" using assms(1) [OF s1] by (simp add: get_s_def)
  then show "steps cfg w q s (f x)" using assms(2) by simp
qed

lemma same_reads: "same s s1 \<Longrightarrow> get_file fid s1 = get_file fid s" "same s s1 \<Longrightarrow> get_share token s1 = get_share token s"
  "same s s1 \<Longrightarrow> tenant_usage tid s1 = tenant_usage tid s"
  using same_fields [of s s1] by (simp_all add: get_file_def get_share_def tenant_usage_def)

lemmas steps_reads = steps_get [OF same_reads(1)] steps_get [OF same_reads(2)] steps_get [OF same_reads(3)]
lemmas steps_need = steps_bind [OF frames_ret(4)]
lemmas steps_fail = steps_quiet [OF quiet_fail(1)]
lemmas steps_ret = steps_quiet [OF quiet_ret]

lemma steps_tenant:
  assumes "\<And>t. signed_in w q s \<Longrightarrow> tn_id t = requester q \<Longrightarrow> tn_domain t = JStr [] \<Longrightarrow> quota_bytes t = allowance cfg w q s \<Longrightarrow>
      steps cfg w q s (f t)"
  shows "as_tenant cfg w q f s = (a, s') \<Longrightarrow> request_step cfg w q s a s'"
  unfolding as_tenant_def
proof (elim st_bind_cases)
  fix e
  assume "auth_tenant cfg w q s = (Inl e, s')" "a = Inl e"
  then show ?thesis using frames_same [OF frames_auth] by (simp add: request_step.read)
next
  fix x s1
  assume auth: "auth_tenant cfg w q s = (Inr x, s1)" and
    rest: "(case x of None \<Rightarrow> unauthorized | Some t \<Rightarrow> f t) s1 = (a, s')"
  show ?thesis
  proof (cases x)
    case None
    then show ?thesis using stepsD [OF steps_quiet [OF quiet_fail(2)] frames_same [OF frames_auth auth]] rest by simp
  next
    case (Some t)
    then have facts: "same s s1" "signed_in w q s" "tn_id t = requester q" "tn_domain t = JStr []" "quota_bytes t = allowance cfg w q s"
      using auth_outcome [of cfg w q s t s1] auth by auto
    then show ?thesis using stepsD [OF assms [OF facts(2-5)] facts(1)] Some rest by simp
  qed
qed

lemma steps_admin:
  assumes "fq_admin q = fc_admin cfg \<Longrightarrow> steps cfg w q s m"
  shows "as_admin cfg q m s = (a, s') \<Longrightarrow> request_step cfg w q s a s'"
  using stepsD [OF assms same_refl] stepsD [OF steps_quiet [OF quiet_fail(2)] same_refl]
  by (auto simp: as_admin_def auth_admin_def split: if_split_asm)

lemma frames_body [quiet_intro]: "frames (read_json_body q)" "frames (body_get v k d)"
  by (auto simp: read_json_body_def body_get_def intro!: quiet_intro split: json.split)


section \<open>The handlers\<close>

lemma store_upload_step:
  assumes s: "signed_in w q s" "tn_id t = requester q"
    and room: "int (tenant_usage (requester q) s + length data) \<le> allowance cfg w q s"
    and body: "\<exists>b. boundary_of (fq_type q) = Some b \<and> read_multipart (fw_decode w) (utf8_encode b) (fq_body q) = Some (name, data)"
  shows "steps cfg w q s (store_upload cfg w q t name data)"
proof (cases "fw_add w data")
  case None
  then show ?thesis by (simp add: store_upload_def steps_quiet quiet_intro)
next
  case (Some cid)
  let ?rec = "new_record w q t (path_name name) data cid"
  show ?thesis
  proof (rule stepsI)
    fix s1 a s'
    assume s1: "same s s1" and run: "store_upload cfg w q t name data s1 = (a, s')"
    have eq: "a = Inr (201, B_uploaded ?rec (register_replication cfg w))"
      "s' = save_file ?rec (s1\<lparr>so_pins := List.insert cid (so_pins s1)\<rparr>)"
      using run Some by (auto simp: store_upload_def Let_def st_bind_def upd_s_def ret_def)
    have "same (save_file ?rec (s\<lparr>so_pins := List.insert (fr_cid ?rec) (so_pins s)\<rparr>)) s'"
      using s1 unfolding eq by (cases s; cases s1) (simp add: same_def save_file_def new_record_def)
    moreover obtain b where "boundary_of (fq_type q) = Some b" "read_multipart (fw_decode w) (utf8_encode b) (fq_body q) = Some (name, data)"
      using body by blast
    ultimately show "request_step cfg w q s a s'"
      unfolding eq(1) using Some s room by (intro request_step.upload [of w q s b name data]) (simp_all add: new_record_def)
  qed
qed

lemma upload_step:
  assumes s: "signed_in w q s" "tn_id t = requester q" "quota_bytes t = allowance cfg w q s"
  shows "steps cfg w q s (handle_upload cfg w q t)"
  unfolding handle_upload_def
  by (auto intro!: steps_need steps_reads steps_fail store_upload_step s simp: s not_less split: option.split)

text \<open>A last action that changes a table is a step of its own.\<close>

lemma steps_act:
  fixes g :: "'a \<Rightarrow> files_answer"
  assumes "\<And>s1 x s'. same s s1 \<Longrightarrow> m s1 = (x, s') \<Longrightarrow> \<exists>y. x = Inr y \<and> request_step cfg w q s (Inr (g y)) s'"
  shows "steps cfg w q s (st_bind m (\<lambda>y. ret (g y)))"
proof (rule stepsI)
  fix s1 a s'
  assume s1: "same s s1" and "st_bind m (\<lambda>y. ret (g y)) s1 = (a, s')"
  from this(2) show "request_step cfg w q s a s'"
    using assms [OF s1] by (cases rule: st_bind_cases) (auto simp: ret_def)
qed

lemma create_share_step:
  assumes s: "signed_in w q s" "tn_id t = requester q" "tn_domain t = JStr []"
  shows "steps cfg w q s (handle_create_share cfg w q t fid)"
proof -
  have last: "steps cfg w q s (st_bind (\<lambda>s. case create_share w fid t ttl maxd s of (l, s1) \<Rightarrow> (Inr l, s1)) (\<lambda>l. ret (201, B_shared l f)))"
    if f: "get_file fid s = Some f" "fr_tenant f = requester q" for ttl maxd f
  proof (rule steps_act)
    fix s1 x s'
    assume s1: "same s s1" and run: "(case create_share w fid t ttl maxd s1 of (l, s1) \<Rightarrow> (Inr l, s1)) = (x, s')"
    obtain l s2 where l: "create_share w fid t ttl maxd s = (l, s2)" by fastforce
    have "x = Inr l \<and> same s2 s'"
      using l run s1 by (cases s; cases s1) (auto simp: create_share_def Let_def same_def split: if_split_asm)
    then show "\<exists>l. x = Inr l \<and> request_step cfg w q s (Inr (201, B_shared l f)) s'"
      using request_step.share [OF s(1) f s(2,3) l] by blast
  qed
  show ?thesis
    unfolding handle_create_share_def
    by (auto intro!: steps_reads steps_fail steps_bind [OF frames_body(1)] steps_bind [OF frames_bind [OF frames_body(2) frames_ret(4)]] last
        simp: s split: option.split)
qed

lemma delete_step:
  assumes s: "signed_in w q s"
  shows "steps cfg w q s (\<lambda>s. case delete_file w fid (requester q) s of (ok, s1) \<Rightarrow> (Inr (if ok then 200 else 404, B_deleted ok), s1))"
proof (rule stepsI)
  fix s1 s' :: store and a :: "unit + files_answer"
  assume s1: "same s s1" and
    run: "(case delete_file w fid (requester q) s1 of (ok, s1) \<Rightarrow> (Inr (if ok then 200 else 404, B_deleted ok), s1)) = (a, s')"
  have del: "fst (delete_file w fid (requester q) s1) = fst (delete_file w fid (requester q) s) \<and>
      same (snd (delete_file w fid (requester q) s)) (snd (delete_file w fid (requester q) s1))"
    using s1 by (cases s; cases s1) (auto simp: delete_file_def same_def get_file_def last_reference_def split: option.split)
  show "request_step cfg w q s a s'"
  proof (cases "fst (delete_file w fid (requester q) s)")
    case True
    then obtain f where "get_file fid s = Some f" "fr_tenant f = requester q"
      by (auto simp: delete_file_def split: option.split_asm if_split_asm)
    then show ?thesis using request_step.delete [OF s] del run True by (auto split: prod.split_asm)
  next
    case False
    then have "snd (delete_file w fid (requester q) s) = s" by (auto simp: delete_file_def split: option.split_asm if_split_asm)
    then show ?thesis using del run False by (auto split: prod.split_asm intro!: request_step.read)
  qed
qed

lemma keystore_step:
  assumes s: "signed_in w q s" "tn_id t = requester q"
  shows "steps cfg w q s (post_keystore q t)"
proof -
  have last: "steps cfg w q s (st_bind (upd_s (save_keystore (tn_id t) ks)) (\<lambda>_. ret (201, B_saved)))" for ks
  proof (rule steps_act)
    fix s1 x s'
    assume s1: "same s s1" and run: "upd_s (save_keystore (tn_id t) ks) s1 = (x, s')"
    have "same (save_keystore (requester q) ks s) s'"
      using s1 run s(2) by (cases s; cases s1) (auto simp: same_def upd_s_def save_keystore_def)
    then show "\<exists>y. x = Inr y \<and> request_step cfg w q s (Inr (201, B_saved)) s'"
      using run request_step.keystore [OF s(1)] by (auto simp: upd_s_def)
  qed
  show ?thesis
    unfolding post_keystore_def
    by (auto intro!: steps_bind [OF frames_body(1)] steps_need steps_fail last)
qed

lemma download_step: "steps cfg w q s (serve_download w token)"
proof -
  have last: "steps cfg w q s (st_bind (upd_s (increment_download token)) (\<lambda>_. ret (200, B_download data l f)))"
    if "get_share token s = Some l" "fw_now w \<le> sh_expires l" "sh_max l \<le> 0 \<or> sh_count l < sh_max l"
      "get_file (sh_file l) s = Some f" "fr_cid f \<noteq> []" "fw_cat w (fr_cid f) = Some data" for l f data
  proof (rule steps_act)
    fix s1 x s'
    assume s1: "same s s1" and run: "upd_s (increment_download token) s1 = (x, s')"
    have "same (increment_download token s) s'"
      using s1 run by (cases s; cases s1) (auto simp: same_def upd_s_def increment_download_def get_share_def split: option.split)
    then show "\<exists>y. x = Inr y \<and> request_step cfg w q s (Inr (200, B_download data l f)) s'"
      using run request_step.download [OF that] by (auto simp: upd_s_def)
  qed
  show ?thesis
    unfolding serve_download_def
    by (auto intro!: steps_reads steps_fail last simp: not_less not_le split: option.split)
qed

lemma tenant_step:
  assumes admin: "fq_admin q = fc_admin cfg"
  shows "steps cfg w q s (post_tenant w q)"
proof -
  have last: "steps cfg w q s (st_bind (\<lambda>s. case create_tenant w name quota domain s of (t, s1) \<Rightarrow> (Inr t, s1)) (\<lambda>t. ret (201, B_tenant t)))"
    for name quota domain
  proof (rule steps_act)
    fix s1 x s'
    assume s1: "same s s1" and run: "(case create_tenant w name quota domain s1 of (t, s1) \<Rightarrow> (Inr t, s1)) = (x, s')"
    obtain t s2 where t: "create_tenant w name quota domain s = (t, s2)" by fastforce
    have "x = Inr t \<and> same s2 s'"
      using t run s1 by (cases s; cases s1) (auto simp: create_tenant_def Let_def same_def)
    then show "\<exists>t. x = Inr t \<and> request_step cfg w q s (Inr (201, B_tenant t)) s'"
      using request_step.tenant [OF admin t] by blast
  qed
  show ?thesis
    unfolding post_tenant_def
    by (intro steps_bind [OF frames_body(1)] steps_bind [OF frames_body(2)] steps_bind [OF frames_bind [OF frames_body(2) frames_ret(4)]] last)
qed

lemma revoke_step:
  assumes admin: "fq_admin q = fc_admin cfg"
  shows "steps cfg w q s (post_revoke cfg q)"
proof -
  have last: "steps cfg w q s
     (st_bind (\<lambda>s. case revoke_quota k (so_grants s) of (ok, g) \<Rightarrow> (Inr ok, s\<lparr>so_grants := g\<rparr>)) (\<lambda>ok. ret (if ok then 200 else 404, B_revoked ok)))"
    for k
  proof (rule steps_act)
    fix s1 s' :: store and x :: "unit + bool"
    assume s1: "same s s1" and run: "(case revoke_quota k (so_grants s1) of (ok, g) \<Rightarrow> (Inr ok, s1\<lparr>so_grants := g\<rparr>)) = (x, s')"
    obtain ok g where ok: "revoke_quota k (so_grants s) = (ok, g)" by fastforce
    then have x: "x = Inr ok \<and> same (s\<lparr>so_grants := g\<rparr>) s'"
      using run s1 by (cases s; cases s1) (auto simp: same_def)
    have "request_step cfg w q s (Inr (if ok then 200 else 404, B_revoked ok)) s'"
    proof (cases ok)
      case True
      then show ?thesis using request_step.revoke [OF admin, of k s g s' w] ok x by simp
    next
      case False
      then have "g = so_grants s" using ok by (auto simp: revoke_quota_def split: if_split_asm)
      then have "same s s'" using x by (cases s) (simp add: same_def)
      then show ?thesis using False by (simp add: request_step.read)
    qed
    then show "\<exists>ok. x = Inr ok \<and> request_step cfg w q s (Inr (if ok then 200 else 404, B_revoked ok)) s'" using x by blast
  qed
  have rest: "steps cfg w q s
     (if \<not> fc_accountant cfg then ret (404, B_revoked False)
      else (case apikey of
              JStr k \<Rightarrow> st_bind (\<lambda>s. case revoke_quota k (so_grants s) of (ok, g) \<Rightarrow> (Inr ok, s\<lparr>so_grants := g\<rparr>)) (\<lambda>ok.
                          ret (if ok then 200 else 404, B_revoked ok))
            | _ \<Rightarrow> if grant_key apikey = None then raise_f else ret (404, B_revoked False)))" for apikey
    using last steps_quiet [OF quiet_fail(3)] steps_ret [of "(404, B_revoked False)"] by (cases apikey) auto
  show ?thesis
    unfolding post_revoke_def by (intro steps_bind [OF frames_body(1)] steps_bind [OF frames_body(2)] rest)
qed

lemma body_state: "read_json_body q s = (x, s1) \<Longrightarrow> s1 = s" "body_get v k d s = (x, s1) \<Longrightarrow> s1 = s"
  by (auto simp: read_json_body_def body_get_def need_def ret_def raise_f_def st_bind_def split: option.split_asm json.split_asm)

lemma give_grant_step:
  assumes admin: "fq_admin q = fc_admin cfg"
    and run: "st_bind (give_grant cfg w k amount ref) (\<lambda>a. ret (if a = Granted then 200 else 400, B_grant a)) s = (a, s')"
  shows "request_step cfg w q s a s'"
  using run
proof (cases rule: st_bind_cases)
  case (1 e)
  then show ?thesis
    by (auto simp: give_grant_def same_def split: option.split_asm prod.split_asm grant_answer.split_asm intro!: request_step.read)
next
  case (2 x s1)
  then have a: "a = Inr (if x = Granted then 200 else 400, B_grant x)" "s' = s1" by (auto simp: ret_def)
  show ?thesis
  proof (cases "x = Granted")
    case True
    then obtain key g r where "grant_quota (fc_quota cfg) (fw_machine w) (fw_list w) (fw_now w) key amount ref (so_grants s) (so_registry s) = (Granted, g, r)"
      "same (s\<lparr>so_grants := g\<rparr>) s1"
      using 2(1) by (auto simp: give_grant_def same_def split: option.split_asm prod.split_asm grant_answer.split_asm)
    then show ?thesis unfolding a using request_step.grant [OF admin] True by simp
  next
    case False
    then have "same s s1"
      using 2(1) by (auto simp: give_grant_def grant_quota_def same_def split: option.split_asm prod.split_asm grant_answer.split_asm if_split_asm)
    then show ?thesis unfolding a using False by (simp add: request_step.read)
  qed
qed

lemma after_body:
  assumes "st_bind m f s = (a, s')" "\<And>x s1. m s = (x, s1) \<Longrightarrow> s1 = s" "\<And>x. f x s = (a, s') \<Longrightarrow> request_step cfg w q s a s'"
  shows "request_step cfg w q s a s'"
  using assms(1)
proof (cases rule: st_bind_cases)
  case (1 e)
  then show ?thesis using assms(2) [OF 1(1)] by (simp add: request_step.read)
next
  case (2 x s1)
  then show ?thesis using assms(2) [OF 2(1)] assms(3) by simp
qed

lemma after_read:
  "st_bind (read_json_body q') f s = (a, s') \<Longrightarrow> (\<And>x. f x s = (a, s') \<Longrightarrow> request_step cfg w q s a s') \<Longrightarrow> request_step cfg w q s a s'"
  by (erule after_body) (auto dest: body_state)

lemma after_get:
  "st_bind (body_get v k d) f s = (a, s') \<Longrightarrow> (\<And>x. f x s = (a, s') \<Longrightarrow> request_step cfg w q s a s') \<Longrightarrow> request_step cfg w q s a s'"
  by (erule after_body) (auto dest: body_state)

lemma grant_step:
  assumes "fq_admin q = fc_admin cfg" "post_grant cfg w q s = (a, s')"
  shows "request_step cfg w q s a s'"
  using assms(2) unfolding post_grant_def accountant_ready_def
  by (auto elim!: after_read after_get split: if_split_asm elim: give_grant_step [OF assms(1)] quiet_step [OF quiet_fail(1)])


section \<open>Every request is a step\<close>

lemma steps_start: "steps cfg w q s m \<Longrightarrow> m s = (a, s') \<Longrightarrow> request_step cfg w q s a s'"
  by (rule stepsD [OF _ same_refl])

lemma quiet_capacity [quiet_intro]: "frames (read_capacity cfg w)"
  unfolding read_capacity_def by (intro quiet_intro)

lemma quiet_health [quiet_intro]: "quiet (health_page cfg w)"
  unfolding health_page_def by (auto intro!: quiet_intro)

lemma quiet_summary [quiet_intro]: "quiet (public_summary cfg w)"
  using quiet_capacity [of cfg w]
  by (auto simp: quiet_def frames_def public_summary_def Let_def split: option.split prod.split sum.split) (metis snd_conv)+

lemma quiet_show [quiet_intro]: "quiet (show_file t fid)"
  unfolding show_file_def by (auto intro!: quiet_intro split: option.split)

lemma quiet_guarded [quiet_intro]:
  "(\<And>t. quiet (f t)) \<Longrightarrow> quiet (as_tenant cfg w q f)" "quiet m \<Longrightarrow> quiet (as_admin cfg q m)" "quiet m \<Longrightarrow> quiet (accountant_ready cfg m)"
  unfolding as_tenant_def as_admin_def accountant_ready_def
  by (auto intro!: quiet_intro split: option.split)

lemma get_request_step:
  assumes run: "files_get cfg w q s = (a, s')"
  shows "request_step cfg w q s a s'"
proof (cases "starts_with ''/files/'' (url_path q) \<and> url_path q \<noteq> ''/health''")
  case True
  then show ?thesis using run steps_start [OF download_step] by (simp add: files_get_def Let_def)
next
  case False
  then have "quiet (files_get cfg w q)"
    unfolding files_get_def Let_def by (auto intro!: quiet_intro split: option.split)
  then show ?thesis using run by (rule quiet_step)
qed

lemma tenant_requests:
  "as_tenant cfg w q (handle_upload cfg w q) s = (a, s') \<Longrightarrow> request_step cfg w q s a s'"
  "as_tenant cfg w q (\<lambda>t. handle_create_share cfg w q t fid) s = (a, s') \<Longrightarrow> request_step cfg w q s a s'"
  "as_tenant cfg w q (post_keystore q) s = (a, s') \<Longrightarrow> request_step cfg w q s a s'"
  by (erule steps_tenant [rotated], simp add: upload_step create_share_step keystore_step)+

lemma admin_requests:
  "as_admin cfg q (post_grant cfg w q) s = (a, s') \<Longrightarrow> request_step cfg w q s a s'"
  "as_admin cfg q (post_revoke cfg q) s = (a, s') \<Longrightarrow> request_step cfg w q s a s'"
  "as_admin cfg q (post_tenant w q) s = (a, s') \<Longrightarrow> request_step cfg w q s a s'"
  by (auto simp: as_admin_def auth_admin_def split: if_split_asm intro: quiet_step [OF quiet_fail(2)] grant_step
      dest: steps_start [OF revoke_step] steps_start [OF tenant_step])

lemma post_request_step: "files_post cfg w q s = (a, s') \<Longrightarrow> request_step cfg w q s a s'"
  unfolding files_post_def Let_def
  by (auto split: if_split_asm elim: tenant_requests admin_requests quiet_step [OF quiet_fail(1)])

lemma delete_request_step:
  assumes run: "files_delete cfg w q s = (a, s')"
  shows "request_step cfg w q s a s'"
proof (cases "starts_with ''/api/files/'' (url_path q)")
  case True
  let ?act = "\<lambda>tid s. case delete_file w (last (parts (url_path q))) tid s of
    (ok, s1) \<Rightarrow> (Inr (if ok then 200 else 404, B_deleted ok) :: unit + files_answer, s1)"
  have "as_tenant cfg w q (\<lambda>t. ?act (tn_id t)) s = (a, s')" using run True by (simp add: files_delete_def Let_def)
  then show ?thesis by (rule steps_tenant [rotated]) (simp add: delete_step)
next
  case False
  then show ?thesis using run quiet_step [OF quiet_fail(1)] by (simp add: files_delete_def Let_def)
qed

lemma handled_step: "handle_request cfg m w q s = (a, s') \<Longrightarrow> request_step cfg w q s a s'"
  by (auto simp: handle_request_def split: files_method.split_asm intro: get_request_step post_request_step delete_request_step)

end
