(* ===== verification/Files_Safety.thy ===== *)
theory Files_Safety
  imports Files_Spec
begin

text \<open>What the file server guarantees, from the abstract steps of \<open>Files_Spec\<close>.\<close>

text \<open>C37: Refinement of the request contract: whatever a request contains and whatever IPFS, the registry file and the
  controller answer, the handler makes exactly one abstract step: it leaves all tables alone, or makes the one change the
  contract allows to a signed-in requester, a share holder or the administrator.
\<close>
theorem request_refines_contract:
  assumes "handle_request cfg m w q s = (a, s')"
  shows "request_step cfg w q s a s'"
  using assms by (rule handled_step)

section \<open>The stored tables\<close>

definition store_ok :: "store \<Rightarrow> bool" where
  "store_ok s \<longleftrightarrow> distinct (map fr_id (so_files s)) \<and> distinct (map sh_token (so_shares s)) \<and> distinct (map tn_id (so_tenants s)) \<and>
     (\<forall>f \<in> set (so_files s). fr_cid f \<in> set (so_pins s)) \<and>
     (\<forall>l \<in> set (so_shares s). 0 \<le> sh_count l \<and> (0 < sh_max l \<longrightarrow> sh_count l \<le> sh_max l)) \<and> grants_ok (so_grants s)"

definition empty_store :: "registry \<Rightarrow> store" where
  "empty_store r = \<lparr>so_tenants = [], so_files = [], so_shares = [], so_keystores = [], so_grants = [], so_registry = r, so_pins = []\<rparr>"

inductive files_reach :: "files_config \<Rightarrow> store \<Rightarrow> bool" for cfg where
  start: "files_reach cfg (bootstrap_tenant token now (empty_store empty_registry))"
| request: "files_reach cfg s \<Longrightarrow> handle_request cfg m w q s = (a, s') \<Longrightarrow> files_reach cfg s'"

lemma set_put_row: "x \<in> set (put_row key r t) \<Longrightarrow> x = r \<or> x \<in> set t \<and> key x \<noteq> key r"
  by (cases "key r \<in> key ` set t") (auto simp: put_row_def image_iff)

lemma keys_put_row: "map key (put_row key r t) = (if key r \<in> key ` set t then map key t else map key t @ [key r])"
  by (auto simp: put_row_def)

lemma distinct_put_row [simp]: "distinct (map key t) \<Longrightarrow> distinct (map key (put_row key r t))"
  by (auto simp: keys_put_row)

lemma find_map_row: "tbl_find key k (map (\<lambda>x. if key x = key r then r else x) t) =
    (if k = key r then if k \<in> key ` set t then Some r else None else tbl_find key k t)"
  by (induction t) auto

lemma find_put_row [simp]: "tbl_find key k (put_row key r t) = (if k = key r then Some r else tbl_find key k t)"
  using tbl_find_None [of key "key r" t] by (auto simp: put_row_def find_map_row tbl_find_append split: option.split)

lemma store_ok_same: "same s s' \<Longrightarrow> store_ok s' = store_ok s"
  using same_fields [of s s'] by (simp add: store_ok_def)

lemma store_ok_save: "store_ok s \<Longrightarrow> store_ok (save_file rec (s\<lparr>so_pins := List.insert (fr_cid rec) (so_pins s)\<rparr>))"
  by (auto simp: store_ok_def save_file_def dest!: set_put_row)

lemma store_ok_delete: "store_ok s \<Longrightarrow> store_ok (snd (delete_file w fid tid s))"
  by (auto simp: store_ok_def delete_file_def last_reference_def distinct_map_filter list_ex_iff split: option.split)

lemma store_ok_share: "store_ok s \<Longrightarrow> create_share w fid t ttl maxd s = (l, s1) \<Longrightarrow> store_ok s1"
  by (auto simp: store_ok_def create_share_def Let_def dest!: set_put_row)

lemma store_ok_count:
  assumes "store_ok s" "get_share token s = Some l" "sh_max l \<le> 0 \<or> sh_count l < sh_max l"
  shows "store_ok (increment_download token s)"
  using assms tbl_find_SomeD [of sh_token token "so_shares s" l]
  by (fastforce simp: store_ok_def increment_download_def get_share_def dest!: set_put_row)

lemma store_ok_grant:
  assumes "store_ok s" "grant_quota dflt mc f now k amount ref (so_grants s) r0 = (Granted, g, r)"
  shows "store_ok (s\<lparr>so_grants := g\<rparr>)"
  using assms grants_ok_update
  by (auto simp: store_ok_def grant_quota_def split: option.split_asm if_split_asm prod.split_asm)

lemma store_ok_step: "request_step cfg w q s a s' \<Longrightarrow> store_ok s \<Longrightarrow> store_ok s'"
proof (induction rule: request_step.induct)
  case (revoke k g s')
  then show ?case
    using grants_ok_delete by (auto simp: store_ok_same store_ok_def revoke_quota_def same_fields split: if_split_asm dest!: same_fields)
next
  case (tenant name quota domain t s1 s')
  then show ?case by (auto simp: store_ok_def create_tenant_def Let_def dest!: same_fields)
next
  case (keystore ks s')
  then show ?case by (auto simp: store_ok_def save_keystore_def dest!: same_fields)
qed (auto simp: store_ok_same store_ok_save store_ok_delete intro: store_ok_share store_ok_count store_ok_grant)

lemma reach_ok: "files_reach cfg s \<Longrightarrow> store_ok s"
proof (induction rule: files_reach.induct)
  case (start token now)
  then show ?case by (simp add: store_ok_def bootstrap_tenant_def empty_store_def grants_ok_def)
next
  case (request s m w q a s')
  then show ?case using store_ok_step [OF handled_step] by blast
qed

text \<open>C15: The file server never unpins data it still lists: after any sequence of requests, whatever IPFS answers, the records
  have different ids and the content of every stored record is still pinned, also when several records share one CID and
  one of them is deleted; a limited share is never counted past its limit, and every client has one positive grant.
\<close>
theorem stored_files_stay_pinned:
  assumes "files_reach cfg s"
  shows "distinct (map fr_id (so_files s)) \<and> (\<forall>f \<in> set (so_files s). fr_cid f \<in> set (so_pins s)) \<and>
    (\<forall>l \<in> set (so_shares s). 0 < sh_max l \<longrightarrow> sh_count l \<le> sh_max l) \<and> grants_ok (so_grants s)"
  using reach_ok [OF assms] by (auto simp: store_ok_def)

section \<open>Tenants\<close>

definition of_tenant :: "string \<Rightarrow> store \<Rightarrow> file_record list \<times> share_link list \<times> json option" where
  "of_tenant tid s = (filter (\<lambda>f. fr_tenant f = tid) (so_files s),
     map (\<lambda>l. l\<lparr>sh_count := 0\<rparr>) (filter (\<lambda>l. sh_tenant l = tid) (so_shares s)), map_of (so_keystores s) tid)"

lemma filter_put_row:
  assumes "key r \<notin> key ` set t" "\<not> P r"
  shows "filter P (put_row key r t) = filter P t"
  using assms by (simp add: put_row_def)

lemma of_tenant_same: "same s s' \<Longrightarrow> of_tenant tid s' = of_tenant tid s"
  using same_fields [of s s'] by (simp add: of_tenant_def)

lemma of_tenant_delete:
  assumes "store_ok s" "get_file fid s = Some f" "fr_tenant f \<noteq> tid"
  shows "of_tenant tid (snd (delete_file w fid tn s)) = of_tenant tid s"
proof -
  have "fr_id g \<noteq> fid" if "g \<in> set (so_files s)" "fr_tenant g = tid" for g
    using assms that tbl_find_in [of fr_id "so_files s" g] by (auto simp: store_ok_def get_file_def)
  then have "filter (\<lambda>g. fr_tenant g = tid \<and> fr_id g \<noteq> fid) (so_files s) = filter (\<lambda>g. fr_tenant g = tid) (so_files s)"
    by (auto intro: filter_cong)
  then show ?thesis by (auto simp: of_tenant_def delete_file_def filter_filter conj_commute split: option.split)
qed

lemma of_tenant_count:
  assumes "store_ok s" "get_share token s = Some l"
  shows "of_tenant tid (increment_download token s) = of_tenant tid s"
proof -
  let ?l = "l\<lparr>sh_count := sh_count l + 1\<rparr>" and ?zero = "\<lambda>l. l\<lparr>sh_count := 0\<rparr>"
  have l: "l \<in> set (so_shares s)" "sh_token l = token"
    using tbl_find_SomeD [of sh_token token "so_shares s" l] assms(2) by (auto simp: get_share_def)
  have only: "x = l" if "x \<in> set (so_shares s)" "sh_token x = token" for x
    using assms(1) that l by (auto simp: store_ok_def distinct_map dest: inj_onD)
  have "map ?zero (filter (\<lambda>l. sh_tenant l = tid) (map (\<lambda>x. if sh_token x = token then ?l else x) xs)) =
      map ?zero (filter (\<lambda>l. sh_tenant l = tid) xs)" if "set xs \<subseteq> set (so_shares s)" for xs
    using that only by (induction xs) auto
  then show ?thesis
    using l assms(2) by (force simp: of_tenant_def increment_download_def put_row_def)
qed

lemma of_tenant_save:
  assumes "fr_id rec \<notin> fr_id ` set (so_files s)" "fr_tenant rec \<noteq> tid"
  shows "of_tenant tid (save_file rec (s\<lparr>so_pins := p\<rparr>)) = of_tenant tid s"
  using assms by (simp add: of_tenant_def save_file_def filter_put_row)

lemma of_tenant_share:
  assumes "create_share w fid t ttl maxd s = (l, s1)" "fw_token w \<notin> sh_token ` set (so_shares s)" "tn_id t \<noteq> tid"
  shows "of_tenant tid s1 = of_tenant tid s"
  using assms by (auto simp: of_tenant_def create_share_def Let_def filter_put_row)

lemma of_tenant_step:
  assumes "request_step cfg w q s a s'" "store_ok s" "fw_uuid w \<notin> fr_id ` set (so_files s)" "fw_token w \<notin> sh_token ` set (so_shares s)"
  shows "of_tenant tid s' = of_tenant tid s \<or> requester q = tid \<and> signed_in w q s"
  using assms
proof (induction rule: request_step.induct)
  case (keystore ks s')
  then show ?case by (auto simp: of_tenant_def save_keystore_def update_conv' dest!: same_fields)
next
  case (tenant name quota domain t s1 s')
  then show ?case by (auto simp: of_tenant_def create_tenant_def Let_def dest!: same_fields)
next
  case (grant k amount ref g r s')
  then show ?case by (auto simp: of_tenant_def dest!: same_fields)
next
  case (revoke k g s')
  then show ?case by (auto simp: of_tenant_def dest!: same_fields)
next
  case (share fid f t ttl maxd l s1 s')
  then show ?case using of_tenant_share [of w fid t ttl maxd s l s1 tid] by (auto simp: of_tenant_same)
next
  case (upload b name data rec s' h)
  then show ?case using of_tenant_save [of rec s tid] by (auto simp: of_tenant_same)
qed (auto simp: of_tenant_same of_tenant_count of_tenant_delete)


section \<open>Quotas\<close>

lemma tenant_usage_save:
  assumes "fr_id rec \<notin> fr_id ` set (so_files s)"
  shows "tenant_usage (fr_tenant rec) (save_file rec s) = tenant_usage (fr_tenant rec) s + fr_size rec"
  using assms by (simp add: tenant_usage_def save_file_def put_row_def)

text \<open>C38: An upload is stored only for a signed-in requester and within the quota: after it the requester uses at most the
  bytes the registry allows, the record is found under its id, has the size and the digest of the received data, and its
  content is pinned.
\<close>
theorem uploads_stay_within_quota:
  assumes "handle_request cfg m w q s = (Inr (201, B_uploaded rec h), s')" "fw_uuid w \<notin> fr_id ` set (so_files s)"
  shows "signed_in w q s \<and> int (tenant_usage (requester q) s') \<le> allowance cfg w q s \<and> get_file (fr_id rec) s' = Some rec \<and>
    fr_cid rec \<in> set (so_pins s') \<and> (\<exists>data. fw_add w data = Some (fr_cid rec) \<and> fr_size rec = length data \<and> fr_sha rec = fw_sha w data)"
  using handled_step [OF assms(1)]
proof (cases rule: request_step.cases)
  case (upload b name data)
  then have "tenant_usage (requester q) s' = tenant_usage (requester q) s + length data"
    using tenant_usage_save [of rec "s\<lparr>so_pins := List.insert (fr_cid rec) (so_pins s)\<rparr>"] assms(2) same_reads(3) [of _ s' "requester q"]
    by (simp add: tenant_usage_def)
  then show ?thesis using upload same_fields [OF upload(11)] by (auto simp: get_file_def save_file_def)
qed simp

section \<open>Share links\<close>

fun run_requests :: "files_config \<Rightarrow> (files_method \<times> files_world \<times> files_request) list \<Rightarrow> store \<Rightarrow> (unit + files_answer) list \<times> store" where
  "run_requests cfg [] s = ([], s)"
| "run_requests cfg ((m, w, q) # rs) s =
     (case handle_request cfg m w q s of (a, s1) \<Rightarrow> (case run_requests cfg rs s1 of (as, s2) \<Rightarrow> (a # as, s2)))"

text \<open>The downloads answered through one link.\<close>

definition through :: "string \<Rightarrow> unit + files_answer \<Rightarrow> bool" where
  "through token a \<longleftrightarrow> (case a of Inr (code, B_download data l f) \<Rightarrow> sh_token l = token | _ \<Rightarrow> False)"

definition downloaded :: "string \<Rightarrow> (unit + files_answer) list \<Rightarrow> nat" where
  "downloaded token as = length (filter (through token) as)"

lemma through_quiet: "\<not> changing a \<Longrightarrow> \<not> through token a"
  by (auto simp: through_def split: sum.split prod.split files_body.split)

lemma share_step:
  assumes "request_step cfg w q s a s'" "get_share token s = Some l" "fw_token w \<noteq> token"
  shows "get_share token s' = Some (l\<lparr>sh_count := sh_count l + of_bool (through token a)\<rparr>) \<and>
    (through token a \<longrightarrow> (sh_max l \<le> 0 \<or> sh_count l < sh_max l) \<and> fw_now w \<le> sh_expires l)"
  using assms(1)
proof (cases rule: request_step.cases)
  case (download tok l' f data)
  then show ?thesis
    using assms(2) same_reads(2) [OF download(8), of token] tbl_find_SomeD [of sh_token tok "so_shares s" l']
    by (auto simp: through_def increment_download_def get_share_def)
qed (use assms(2,3) in \<open>auto simp: through_quiet get_share_def save_file_def delete_file_def create_share_def Let_def save_keystore_def
      create_tenant_def dest!: same_fields split: option.split\<close>, auto simp: through_def)

lemma served_run:
  assumes "run_requests cfg rs s = (as, s')" "get_share token s = Some l" "\<And>m w q. (m, w, q) \<in> set rs \<Longrightarrow> fw_token w \<noteq> token"
  shows "get_share token s' = Some (l\<lparr>sh_count := sh_count l + int (downloaded token as)\<rparr>) \<and>
    (0 < sh_max l \<longrightarrow> downloaded token as \<noteq> 0 \<longrightarrow> sh_count l + int (downloaded token as) \<le> sh_max l) \<and>
    (downloaded token as \<noteq> 0 \<longrightarrow> (\<exists>(m, w, q) \<in> set rs. fw_now w \<le> sh_expires l))"
  using assms
proof (induction cfg rs s arbitrary: l as rule: run_requests.induct)
  case (2 cfg m w q rs s)
  obtain a s1 as1 where run: "handle_request cfg m w q s = (a, s1)" "run_requests cfg rs s1 = (as1, s')" "as = a # as1"
    using 2(2) by (auto split: prod.split_asm)
  let ?l = "l\<lparr>sh_count := sh_count l + of_bool (through token a)\<rparr>"
  have step: "get_share token s1 = Some ?l" "through token a \<longrightarrow> (sh_max l \<le> 0 \<or> sh_count l < sh_max l) \<and> fw_now w \<le> sh_expires l"
    using share_step [OF handled_step [OF run(1)] 2(3) 2(4) [of m w q]] by auto
  have "downloaded token as = of_bool (through token a) + downloaded token as1" by (simp add: downloaded_def run(3))
  moreover have "\<And>m w q. (m, w, q) \<in> set rs \<Longrightarrow> fw_token w \<noteq> token" using 2(4) by auto
  ultimately show ?case using 2(1) [OF run(1)[symmetric] run(2) step(1)] step(2) by (auto simp: algebra_simps of_bool_def split: if_split_asm)
qed (simp add: downloaded_def)

text \<open>C36: A share link gives at most what it was created for: over any sequence of requests by anybody, the downloads
  answered through a link with a limit never exceed what is left of the limit, and none is answered when every request
  comes after the link expired.
\<close>
theorem share_limits_hold:
  assumes "get_share token s = Some l" "0 < sh_max l" "sh_count l \<le> sh_max l" "run_requests cfg rs s = (as, s')"
    and "\<forall>(m, w, q) \<in> set rs. fw_token w \<noteq> token"
  shows "int (downloaded token as) \<le> sh_max l - sh_count l \<and>
    ((\<forall>(m, w, q) \<in> set rs. sh_expires l < fw_now w) \<longrightarrow> downloaded token as = 0)"
proof -
  have "get_share token s' = Some (l\<lparr>sh_count := sh_count l + int (downloaded token as)\<rparr>) \<and>
    (0 < sh_max l \<longrightarrow> downloaded token as \<noteq> 0 \<longrightarrow> sh_count l + int (downloaded token as) \<le> sh_max l) \<and>
    (downloaded token as \<noteq> 0 \<longrightarrow> (\<exists>(m, w, q) \<in> set rs. fw_now w \<le> sh_expires l))"
    using assms(5) by (intro served_run [OF assms(4,1)]) auto
  then show ?thesis using assms(2,3) by fastforce
qed

section \<open>From upload to download\<close>

lemma find_filter_row [simp]: "tbl_find key k (filter (\<lambda>g. key g \<noteq> k') xs) = (if k = k' then None else tbl_find key k xs)"
  by (induction xs) auto

lemma record_step:
  assumes "request_step cfg w q s a s'" "fw_uuid w \<noteq> fid"
  shows "get_file fid s' \<in> {None, get_file fid s}"
  using assms(1)
proof (cases rule: request_step.cases)
  case (delete fid' f)
  then show ?thesis using same_reads(1) [OF delete(5), of fid] by (auto simp: get_file_def delete_file_def)
qed (use assms(2) in \<open>auto simp: get_file_def save_file_def increment_download_def create_share_def Let_def save_keystore_def
      create_tenant_def dest!: same_fields split: option.split\<close>)

lemma record_run:
  assumes "run_requests cfg rs s = (as, s')" "get_file fid s \<in> {None, Some rec}" "\<And>m w q. (m, w, q) \<in> set rs \<Longrightarrow> fw_uuid w \<noteq> fid"
  shows "get_file fid s' \<in> {None, Some rec}"
  using assms
proof (induction cfg rs s arbitrary: as rule: run_requests.induct)
  case (2 cfg m w q rs s)
  obtain a s1 as1 where run: "handle_request cfg m w q s = (a, s1)" "run_requests cfg rs s1 = (as1, s')"
    using 2(2) by (auto split: prod.split_asm)
  have "get_file fid s1 \<in> {None, Some rec}"
    using record_step [OF handled_step [OF run(1)], of fid] 2(3) 2(4) [of m w q] by auto
  then show ?case using 2(1) [OF run(1)[symmetric] run(2)] 2(4) by auto
qed simp


section \<open>Private answers\<close>

text \<open>Answers with the data of one tenant: who they belong to.\<close>

fun private_of :: "unit + files_answer \<Rightarrow> string \<Rightarrow> store \<Rightarrow> bool" where
  "private_of (Inr (code, B_files fs)) tid s = (fs = list_files tid s)"
| "private_of (Inr (code, B_file f)) tid s = (f \<in> set (so_files s) \<and> fr_tenant f = tid)"
| "private_of (Inr (code, B_keystore ks)) tid s = (map_of (so_keystores s) tid = Some ks)"
| "private_of a tid s = True"

fun is_private :: "unit + files_answer \<Rightarrow> bool" where
  "is_private (Inr (code, B_files fs)) = True"
| "is_private (Inr (code, B_file f)) = True"
| "is_private (Inr (code, B_keystore ks)) = True"
| "is_private a = False"

definition discreet :: "files_answer files \<Rightarrow> bool" where
  "discreet m \<longleftrightarrow> (\<forall>s. \<not> is_private (fst (m s)))"

lemma discreet_bind: "(\<And>x. discreet (f x)) \<Longrightarrow> discreet (st_bind m f)"
  by (auto simp: discreet_def st_bind_def split: prod.split sum.split)

lemma discreet_simps: "discreet (fail_with m c)" "discreet unauthorized" "discreet raise_f" "\<not> is_private (Inr a) \<Longrightarrow> discreet (ret a)"
  by (simp_all add: discreet_def fail_with_def unauthorized_def raise_f_def ret_def)

lemmas discreet_intro = discreet_bind discreet_simps

lemma discreet_guarded:
  "(\<And>t. discreet (f t)) \<Longrightarrow> discreet (as_tenant cfg w q f)" "discreet m \<Longrightarrow> discreet (as_admin cfg q m)"
  "discreet m \<Longrightarrow> discreet (accountant_ready cfg m)"
  by (auto simp: as_tenant_def as_admin_def accountant_ready_def intro!: discreet_intro split: option.split)


lemma discreet_post: "discreet (files_post cfg w q)"
  unfolding files_post_def Let_def handle_upload_def store_upload_def handle_create_share_def post_keystore_def post_grant_def
    post_revoke_def post_tenant_def
  by (auto intro!: discreet_intro discreet_guarded split: option.split json.split)

lemma discreet_delete: "discreet (files_delete cfg w q)"
  unfolding files_delete_def Let_def
  by (auto intro!: discreet_intro discreet_guarded simp: discreet_def [of "\<lambda>s. case delete_file _ _ _ s of (ok, s1) \<Rightarrow> _ ok s1"] split: prod.split)

lemma discreet_pages: "discreet (health_page cfg w)" "discreet (public_summary cfg w)" "discreet (serve_download w token)"
  by (auto simp: health_page_def serve_download_def discreet_def [of "public_summary cfg w"] public_summary_def Let_def
      intro!: discreet_intro split: option.split prod.split sum.split)


lemma private_tenant:
  assumes "as_tenant cfg w q f s = (a, s')" "is_private a"
    and "\<And>t s1. same s s1 \<Longrightarrow> tn_id t = requester q \<Longrightarrow> f t s1 = (a, s') \<Longrightarrow> private_of a (requester q) s"
  shows "signed_in w q s \<and> private_of a (requester q) s"
  using assms(1) unfolding as_tenant_def
proof (cases rule: st_bind_cases)
  case (1 e)
  then show ?thesis using assms(2) by simp
next
  case (2 x s1)
  then show ?thesis
    using assms(2) assms(3) [of s1] auth_outcome [of cfg w q s _ s1]
    by (cases x) (auto simp: unauthorized_def fail_with_def ret_def)
qed

lemma private_routes:
  assumes "same s s1" "tn_id t = requester q"
  shows "st_bind (get_s (list_files (tn_id t))) (\<lambda>fs. ret (200, B_files fs)) s1 = (a, s') \<Longrightarrow> private_of a (requester q) s"
    and "show_file t fid s1 = (a, s') \<Longrightarrow> private_of a (requester q) s"
    and "st_bind (get_s (\<lambda>s. map_of (so_keystores s) (tn_id t))) (\<lambda>ks. case ks of None \<Rightarrow> fail_with ''No keystore'' 404 |
      Some v \<Rightarrow> ret (200, B_keystore v)) s1 = (a, s') \<Longrightarrow> private_of a (requester q) s"
  using assms same_fields [OF assms(1)] tbl_find_SomeD [of fr_id fid "so_files s"]
  by (auto simp: st_bind_def get_s_def ret_def list_files_def show_file_def fail_with_def get_file_def split: option.split_asm if_split_asm)

lemma discreetD: "discreet m \<Longrightarrow> m s = (a, s') \<Longrightarrow> \<not> is_private a"
  by (metis discreet_def fst_conv)

lemma get_private:
  assumes "files_get cfg w q s = (a, s')" "is_private a"
  shows "as_tenant cfg w q (\<lambda>t. st_bind (get_s (list_files (tn_id t))) (\<lambda>fs. ret (200, B_files fs))) s = (a, s') \<or>
    as_tenant cfg w q (\<lambda>t. show_file t (last (parts (url_path q)))) s = (a, s') \<or>
    as_tenant cfg w q (\<lambda>t. st_bind (get_s (\<lambda>s. map_of (so_keystores s) (tn_id t))) (\<lambda>ks.
      case ks of None \<Rightarrow> fail_with ''No keystore'' 404 | Some v \<Rightarrow> ret (200, B_keystore v))) s = (a, s')"
proof (rule ccontr)
  assume no: "\<not> ?thesis"
  have "discreet (st_bind (get_s (get_share tok)) (\<lambda>l. case l of None \<Rightarrow> fail_with ''Not found'' 404 | Some x \<Rightarrow> ret (200, B_share x)))"
    "discreet (as_admin cfg q (st_bind (get_s storage_counts) (\<lambda>(nf, nt, ns). ret (200, B_stats nf nt ns))))"
    "discreet (as_admin cfg q (accountant_ready cfg (st_bind (read_capacity cfg w) (\<lambda>(ph, sv, cm). ret (200, B_report ph sv cm)))))"
    "discreet (as_admin cfg q (st_bind (get_s so_grants) (\<lambda>g. ret (200, B_grants (if fc_accountant cfg then g else [])))))"
    "discreet (as_admin cfg q (st_bind (get_s list_tenants) (\<lambda>ts. ret (200, B_tenants ts))))"
    "discreet (fail_with ''Not found'' 404)" for tok
    by (auto intro!: discreet_intro discreet_guarded split: option.split)
  note quiet = this [THEN discreetD] discreet_pages [THEN discreetD]
  show False
    using assms no unfolding files_get_def Let_def by (simp split: if_split_asm add: quiet)
qed

text \<open> Private data go only to their owner: whatever a request contains, an answer with a list of records, a record or a
  key store is given only to a requester who signed in, and holds exactly that requester's records, one of them, or that
  requester's key store.
\<close>
theorem private_answers_go_to_the_owner:
  assumes run: "handle_request cfg m w q s = (a, s')" and secret: "is_private a"
  shows "signed_in w q s \<and> private_of a (requester q) s"
proof (cases m)
  case Get
  then have get: "files_get cfg w q s = (a, s')" using run by (simp add: handle_request_def)
  have "as_tenant cfg w q f s = (a, s') \<Longrightarrow> (\<And>t s1. same s s1 \<Longrightarrow> tn_id t = requester q \<Longrightarrow> f t s1 = (a, s') \<Longrightarrow>
      private_of a (requester q) s) \<Longrightarrow> ?thesis" for f
    using private_tenant [of cfg w q f s a s'] secret by blast
  then show ?thesis using get_private [OF get secret] private_routes by blast
next
  case Post
  then show ?thesis using run secret discreet_post [of cfg w q] by (simp add: handle_request_def discreet_def) (metis fst_conv)
next
  case Delete
  then show ?thesis using run secret discreet_delete [of cfg w q] by (simp add: handle_request_def discreet_def) (metis fst_conv)
qed

end
