(* ===== verification/Files_Examples.thy ===== *)
theory Files_Examples
  imports Files_Safety
begin

text \<open>Concrete requests to the file server: the properties of \<open>Files_Safety\<close> applied, and behaviours worth knowing.\<close>

definition demo_config :: files_config where
  "demo_config = \<lparr>fc_admin = ''adm'', fc_max_mb = 1, fc_ttl = 60, fc_quota = 5, fc_hook = False, fc_hook_token = [], fc_node = [],
     fc_accountant = True\<rparr>"

definition demo_world :: "string \<Rightarrow> int \<Rightarrow> files_world" where
  "demo_world u now = \<lparr>fw_now = now, fw_uuid = ''f'' @ u, fw_token = ''t'' @ u, fw_add = (\<lambda>d. if d = ''hi'' then Some ''c1'' else None),
     fw_cat = (\<lambda>c. if c = ''c1'' then Some ''hi'' else None), fw_unpin = True, fw_sha = (\<lambda>d. ''sha'' @ d), fw_mime = (\<lambda>n. None),
     fw_decode = (\<lambda>b. b), fw_list = \<lparr>lf_stat = Some (1, 2), lf_content = Some one_entry\<rparr>, fw_machine = small_machine,
     fw_pubkey = ''pk'', fw_ip = [], fw_hook = None, fw_role = None, fw_peers = None\<rparr>"

definition demo_request :: "string \<Rightarrow> string \<Rightarrow> files_request" where
  "demo_request path body = \<lparr>fq_path = path, fq_apikey = ''AB'', fq_signature = ''s'', fq_admin = [],
     fq_type = ''multipart/form-data; boundary=xyz'', fq_length = Some ''9'', fq_encrypted = ''1'', fq_body = body\<rparr>"

definition demo_start :: store where "demo_start = bootstrap_tenant ''t'' 0 (empty_store empty_registry)"

definition demo_upload :: files_request where "demo_upload = demo_request ''/api/upload'' (multipart_of ''xyz'' ''a.b'' ''hi'')"
definition demo_share :: files_request where
  "demo_share = demo_request ''/api/share/f1'' (''{'' @ [CHR 0x22] @ ''max_downloads'' @ [CHR 0x22] @ '':1}'')"
definition demo_download :: files_request where "demo_download = demo_request ''/files/t2/'' []"

definition demo_record :: file_record where
  "demo_record = \<lparr>fr_id = ''f1'', fr_tenant = ''ab'', fr_name = ''a.b'', fr_mime = ''application/octet-stream'', fr_size = 2,
     fr_sha = ''shahi'', fr_path = [], fr_uploaded = 10, fr_cid = ''c1'', fr_encrypted = True\<rparr>"

definition demo_link :: share_link where
  "demo_link = \<lparr>sh_token = ''t2'', sh_file = ''f1'', sh_tenant = ''ab'', sh_created = 20, sh_expires = 80, sh_count = 0,
     sh_tep = ''tep://pk/t2'', sh_http = [], sh_domain = [], sh_max = 1\<rparr>"

definition demo_stored :: store where
  "demo_stored = snd (handle_request demo_config Post (demo_world ''1'' 10) demo_upload demo_start)"
definition demo_shared :: store where
  "demo_shared = snd (handle_request demo_config Post (demo_world ''2'' 20) demo_share demo_stored)"

lemma demo_upload_answer:
  "handle_request demo_config Post (demo_world ''1'' 10) demo_upload demo_start = (Inr (201, B_uploaded demo_record Hook_off), demo_stored)"
  unfolding demo_stored_def by code_simp

lemma demo_share_answer:
  "handle_request demo_config Post (demo_world ''2'' 20) demo_share demo_stored = (Inr (201, B_shared demo_link demo_record), demo_shared)"
  unfolding demo_shared_def by code_simp

lemma demo_downloads:
  "fst (run_requests demo_config [(Get, demo_world ''3'' 30, demo_download), (Get, demo_world ''4'' 40, demo_download)] demo_shared) =
     [Inr (200, B_download ''hi'' demo_link demo_record), Inr (410, B_error ''Download limit reached'')]"
  by code_simp

lemma demo_reach: "files_reach demo_config demo_stored" "files_reach demo_config demo_shared"
proof -
  have "files_reach demo_config demo_start" unfolding demo_start_def by (rule files_reach.start)
  then show stored: "files_reach demo_config demo_stored" using demo_upload_answer by (rule files_reach.request)
  then show "files_reach demo_config demo_shared" using demo_share_answer by (rule files_reach.request)
qed

lemma demo_tables: "so_files demo_start = []" "so_files demo_stored = [demo_record]" "so_files demo_shared = [demo_record]"
  "so_shares demo_stored = []" "get_share ''t2'' demo_shared = Some demo_link" "so_shares demo_start = []" "so_shares demo_shared = [demo_link]"
  by code_simp+

lemma demo_fields: "fw_uuid (demo_world u n) = ''f'' @ u" "fw_token (demo_world u n) = ''t'' @ u"
  by (simp_all add: demo_world_def)

section \<open>Witnesses\<close>

theorem request_refines_contract_witness:
  "request_step demo_config (demo_world ''1'' 10) demo_upload demo_start (Inr (201, B_uploaded demo_record Hook_off)) demo_stored"
  by (rule request_refines_contract [OF demo_upload_answer])

theorem stored_files_stay_pinned_witness: "fr_cid demo_record \<in> set (so_pins demo_shared) \<and> grants_ok (so_grants demo_shared)"
  using stored_files_stay_pinned [OF demo_reach(2)] by (simp add: demo_tables)

definition forged_delete :: files_request where "forged_delete = (demo_request ''/api/files/f1'' [])\<lparr>fq_signature := ''x''\<rparr>"


theorem uploads_stay_within_quota_witness:
  "int (tenant_usage (requester demo_upload) demo_stored) \<le> allowance demo_config (demo_world ''1'' 10) demo_upload demo_start"
  using uploads_stay_within_quota [OF demo_upload_answer] by (simp add: demo_tables)

definition two_downloads :: "(files_method \<times> files_world \<times> files_request) list" where
  "two_downloads = [(Get, demo_world ''3'' 30, demo_download), (Get, demo_world ''4'' 40, demo_download)]"

theorem share_limits_hold_witness: "int (downloaded ''t2'' (fst (run_requests demo_config two_downloads demo_shared))) \<le> 1"
proof -
  let ?r = "run_requests demo_config two_downloads demo_shared"
  have fresh: "\<forall>(m, w, q) \<in> set two_downloads. fw_token w \<noteq> ''t2''" by (simp add: two_downloads_def demo_fields)
  have run: "?r = (fst ?r, snd ?r)" by simp
  from share_limits_hold [OF demo_tables(5) _ _ run fresh] show ?thesis by (simp add: demo_link_def)
qed


theorem private_answers_go_to_the_owner_witness:
  "private_of (Inr (200, B_files [demo_record])) ''ab'' demo_shared"
proof -
  let ?run = "handle_request demo_config Get (demo_world ''3'' 30) (demo_request ''/api/files'' []) demo_shared"
  have "?run = (Inr (200, B_files [demo_record]), snd ?run)" by code_simp
  from private_answers_go_to_the_owner [OF this] have "private_of (Inr (200, B_files [demo_record])) (requester (demo_request ''/api/files'' [])) demo_shared"
    by simp
  moreover have "requester (demo_request ''/api/files'' []) = ''ab''" by code_simp
  ultimately show ?thesis by simp
qed

section \<open>Behaviours worth knowing\<close>

text \<open>The HTTPS address of a share is always empty: the tenant of a request is built without a domain.\<close>

lemma share_domain_is_empty:
  "handle_request cfg m w q s = (Inr (201, B_shared l f), s') \<Longrightarrow> sh_domain l = []"
  by (drule handled_step, erule request_step.cases) (auto simp: create_share_def Let_def)

text \<open>No request is authenticated by the token of a tenant record.\<close>

lemma tenant_tokens_are_never_read:
  "fst (auth_tenant cfg w q (s\<lparr>so_tenants := ts\<rparr>)) = fst (auth_tenant cfg w q s)"
  by (auto simp: auth_tenant_def Let_def ret_def raise_f_def st_bind_def with_registry_def split: prod.split option.split bool.split)

text \<open>A JSON list, or a text, that contains the two words passes for a key store.\<close>

lemma list_is_a_keystore:
  "map_of (so_keystores (snd (handle_request demo_config Post (demo_world ''3'' 30)
     (demo_request ''/api/keystore'' (CHR 0x22 # ''pw rk'' @ [CHR 0x22])) demo_start))) ''ab'' = Some (JStr ''pw rk'')"
  by code_simp

end
