(* ===== verification/Master_Node.thy ===== *)
theory Master_Node
  imports Json_Text
begin

text \<open>
  The mining master, \<open>ha/payload/master_node_v220.py\<close>: its UDP packets, the workers, the Stratum connections to the
  pools, the dispatch of nonce segments, and the status and configuration pages. One step is what a task of the event
  loop does between two suspensions: a share is handled in two steps around the \<open>drain\<close> of the pool connection, every
  other handler in one. Datagrams and lines sent are kept in \<open>ms_sent\<close> and \<open>ms_lines\<close>; clocks, random identifiers,
  \<open>repr\<close> of a clock reading and the texts of exceptions are arguments. A closed connection takes no more lines.
\<close>

section \<open>Packets\<close>

definition type_register :: nat where "type_register = 16"
definition type_job :: nat where "type_job = 17"
definition type_share :: nat where "type_share = 18"
definition type_heartbeat :: nat where "type_heartbeat = 20"
definition type_stats :: nat where "type_stats = 21"
definition type_ack :: nat where "type_ack = 22"

lemmas packet_type_defs = type_register_def type_job_def type_share_def type_heartbeat_def type_stats_def type_ack_def

text \<open>\<open>None\<close> is a \<open>ValueError\<close>.\<close>

definition tep_pack :: "nat \<Rightarrow> jobj \<Rightarrow> string option" where
  "tep_pack ty payload =
     (let body = utf8_encode (dump_ascii (JObj payload)); n = int (length body)
      in if \<not> ints_short (JObj payload) \<or> 65535 < n then None
         else Some (''HBT1'' @ [char_of ty, char_of (n div 256), char_of (n mod 256)] @ body))"

datatype unpacked = Packet nat json | Invalid_packet | Unpack_raises

definition tep_unpack :: "string \<Rightarrow> unpacked" where
  "tep_unpack data =
     (if length data < 7 \<or> take 4 data \<noteq> ''HBT1'' then Invalid_packet
      else let n = (of_char (data ! 5) :: int) * 256 + of_char (data ! 6)
           in if int (length data) - 7 < n then Invalid_packet
              else (case loads_bytes (take (nat n) (drop 7 data)) of
                      Inr v \<Rightarrow> Packet (of_char (data ! 4)) v
                    | Inl Digit_limit \<Rightarrow> Unpack_raises
                    | Inl e \<Rightarrow> Invalid_packet))"

text \<open>\<open>hex(n)\<close>\<close>

fun hex_nat :: "nat \<Rightarrow> string" where
  "hex_nat n = (if n < 16 then [hex_digit n] else hex_nat (n div 16) @ [hex_digit (n mod 16)])"

definition py_hex :: "int \<Rightarrow> string" where
  "py_hex k = (if k < 0 then ''-0x'' @ hex_nat (nat (- k)) else ''0x'' @ hex_nat (nat k))"

text \<open>\<open>a == b\<close> of parsed values: numbers by value, dictionaries without order.\<close>

fun py_norm :: "json \<Rightarrow> json" where
  "py_norm (JInt k) = JFloat (of_int k) []"
| "py_norm (JBool b) = JFloat (if b then 1 else 0) []"
| "py_norm (JFloat x t) = JFloat x []"
| "py_norm (JList xs) = JList (map py_norm xs)"
| "py_norm (JObj kvs) = JObj (sort_key fst (map (\<lambda>kv. (fst kv, py_norm (snd kv))) kvs))"
| "py_norm v = v"

definition py_eq :: "json \<Rightarrow> json \<Rightarrow> bool" where "py_eq a b \<longleftrightarrow> py_norm a = py_norm b"

section \<open>State\<close>

type_synonym udp_address = "string \<times> int"

record worker =
  wk_id :: json
  wk_addr :: udp_address
  wk_caps :: json
  wk_coin :: json
  wk_hash :: py_float
  wk_shares :: nat
  wk_seen :: py_float
  wk_active :: bool
  wk_since :: py_float
  wk_job :: json

record pool_link =
  up_cfg :: jobj
  up_job :: json
  up_target :: json
  up_seed :: json
  up_blob :: json
  up_session :: json
  up_req :: int
  up_pending :: "(int \<times> jobj) list"
  up_connected :: bool

record waiting_share =
  ws_node :: json
  ws_payload :: jobj
  ws_addr :: udp_address

record packet_out =
  sp_type :: nat
  sp_payload :: jobj
  sp_bytes :: string
  sp_addr :: udp_address

record master =
  ms_cfg :: jobj
  ms_file :: jobj
  ms_started :: bool
  ms_ready :: bool
  ms_workers :: "worker list"
  ms_pools :: "(string \<times> pool_link) list"
  ms_job :: "jobj option"
  ms_cursor :: nat
  ms_log :: "jobj list"
  ms_accepted :: nat
  ms_rejected :: nat
  ms_waiting :: "waiting_share list"
  ms_sent :: "packet_out list"
  ms_lines :: "(string \<times> jobj) list"

record master_world =
  mw_now :: py_float
  mw_repr :: "py_float \<Rightarrow> string"
  mw_uuid :: string

text \<open>The error is the text of the exception where the code records it.\<close>

type_synonym 'a mining = "(string, master, 'a) st"

definition quit :: "'a mining" where "quit = st_fail []"
definition look :: "(master \<Rightarrow> 'a) \<Rightarrow> 'a mining" where "look f s = (Inr (f s), s)"
definition change :: "(master \<Rightarrow> master) \<Rightarrow> unit mining" where "change f s = (Inr (), f s)"
definition demand :: "'a option \<Rightarrow> 'a mining" where "demand x = (case x of None \<Rightarrow> quit | Some v \<Rightarrow> st_ret v)"

definition clock_value :: "master_world \<Rightarrow> json" where "clock_value w = JFloat (mw_now w) (mw_repr w (mw_now w))"

section \<open>Configuration\<close>

definition required_keys :: "string list" where
  "required_keys = [''network'', ''tep_host'', ''tep_port'', ''api_port'', ''coins'', ''segmentation'']"

text \<open>\<open>load_mining\<close> on what the file holds (\<open>None\<close>: missing or not JSON); \<open>None\<close> is an exception.\<close>

definition load_mining :: "json option \<Rightarrow> jobj option" where
  "load_mining file =
     (case file of
        Some (JObj cfg) \<Rightarrow>
          if \<not> list_all (\<lambda>k. k \<in> fst ` set cfg) required_keys then None
          else (case (jget cfg ''coins'', jget cfg ''segmentation'') of
                  (JObj coins, JObj seg) \<Rightarrow>
                    if coins = [] then None
                    else (case py_int (py_or (jget_def_to seg ''nonce_segment_size'' (JInt 0)) (JInt 0)) of
                            None \<Rightarrow> None
                          | Some n \<Rightarrow> if n \<le> 0 then None else Some cfg)
                | _ \<Rightarrow> None)
      | _ \<Rightarrow> None)"

definition segment_size :: "jobj \<Rightarrow> int option" where
  "segment_size cfg =
     (case map_of cfg ''segmentation'' of
        Some (JObj seg) \<Rightarrow> (case map_of seg ''nonce_segment_size'' of None \<Rightarrow> None | Some v \<Rightarrow> py_int v)
      | _ \<Rightarrow> None)"

definition new_master :: "jobj \<Rightarrow> master" where
  "new_master cfg = \<lparr>ms_cfg = cfg, ms_file = cfg, ms_started = False, ms_ready = False, ms_workers = [], ms_pools = [], ms_job = None,
     ms_cursor = 0, ms_log = [], ms_accepted = 0, ms_rejected = 0, ms_waiting = [], ms_sent = [], ms_lines = []\<rparr>"

definition zeros :: "nat \<Rightarrow> json" where "zeros n = JStr (replicate n (CHR ''0''))"

definition new_upstream :: "jobj \<Rightarrow> pool_link" where
  "new_upstream cfg = \<lparr>up_cfg = cfg, up_job = JNull, up_target = JStr ''f3220000'', up_seed = zeros 64, up_blob = zeros 76, up_session = JNull,
     up_req = 1, up_pending = [], up_connected = False\<rparr>"

section \<open>Events and packets out\<close>

definition last_500 :: "'a list \<Rightarrow> 'a list" where
  "last_500 xs = (if 500 < int (length xs) then drop (nat (int (length xs) - 500)) xs else xs)"

definition log_event :: "master_world \<Rightarrow> string \<Rightarrow> jobj \<Rightarrow> unit mining" where
  "log_event w ty d =
     change (\<lambda>s. s\<lparr>ms_log := last_500 (ms_log s @ [update_from [(''ts'', clock_value w), (''type'', JStr ty)] d])\<rparr>)"

definition stratum_event :: "master_world \<Rightarrow> string \<Rightarrow> jobj \<Rightarrow> unit mining" where
  "stratum_event w ty d =
     st_bind (change (\<lambda>s. if ty = ''share_accepted'' then s\<lparr>ms_accepted := ms_accepted s + 1\<rparr>
                         else if ty = ''share_rejected'' then s\<lparr>ms_rejected := ms_rejected s + 1\<rparr> else s)) (\<lambda>_. log_event w ty d)"

definition send_packet :: "nat \<Rightarrow> jobj \<Rightarrow> udp_address \<Rightarrow> unit mining" where
  "send_packet ty payload addr =
     (case tep_pack ty payload of
        None \<Rightarrow> quit
      | Some b \<Rightarrow> change (\<lambda>s. s\<lparr>ms_sent := ms_sent s @ [\<lparr>sp_type = ty, sp_payload = payload, sp_bytes = b, sp_addr = addr\<rparr>]\<rparr>))"

section \<open>Workers\<close>

definition find_worker :: "json \<Rightarrow> master \<Rightarrow> worker option" where
  "find_worker nid s = find (\<lambda>k. py_eq (wk_id k) nid) (ms_workers s)"

definition upd_worker :: "json \<Rightarrow> (worker \<Rightarrow> worker) \<Rightarrow> unit mining" where
  "upd_worker nid f = change (\<lambda>s. s\<lparr>ms_workers := map (\<lambda>k. if py_eq (wk_id k) nid then f k else k) (ms_workers s)\<rparr>)"

definition new_worker :: "master_world \<Rightarrow> json \<Rightarrow> udp_address \<Rightarrow> jobj \<Rightarrow> worker" where
  "new_worker w nid addr payload =
     \<lparr>wk_id = nid, wk_addr = addr, wk_caps = jget_def_to payload ''caps'' (JObj []), wk_coin = JStr ''XMR'', wk_hash = 0, wk_shares = 0,
      wk_seen = mw_now w, wk_active = True, wk_since = mw_now w, wk_job = JNull\<rparr>"

definition refresh :: "master_world \<Rightarrow> udp_address \<Rightarrow> jobj \<Rightarrow> worker \<Rightarrow> worker" where
  "refresh w addr payload k =
     (let k1 = k\<lparr>wk_addr := addr, wk_seen := mw_now w, wk_active := True\<rparr>;
          k2 = (if ''hashrate'' \<in> fst ` set payload
                then (case py_float_of (jget payload ''hashrate'') of None \<Rightarrow> k1 | Some x \<Rightarrow> k1\<lparr>wk_hash := max 0 x\<rparr>) else k1)
      in if truthy (jget payload ''coin'') then k2\<lparr>wk_coin := jget payload ''coin''\<rparr> else k2)"

text \<open>\<open>_touch_worker\<close> with \<open>create=True\<close>, as all its callers ask.\<close>

definition touch_worker :: "master_world \<Rightarrow> json \<Rightarrow> udp_address \<Rightarrow> jobj \<Rightarrow> unit mining" where
  "touch_worker w nid addr payload =
     (if \<not> hashable nid then quit
      else st_bind (change (\<lambda>s. if find_worker nid s = None then s\<lparr>ms_workers := ms_workers s @ [new_worker w nid addr payload]\<rparr> else s)) (\<lambda>_.
        upd_worker nid (refresh w addr payload)))"

section \<open>Segments\<close>

definition worker_timeout :: py_float where "worker_timeout = 300"

definition segment_job :: "jobj \<Rightarrow> json \<Rightarrow> int \<Rightarrow> int \<Rightarrow> jobj" where
  "segment_job job nid start n = update_from job [(''node_id'', nid), (''nonce_start'', JStr (py_hex start)), (''nonce_count'', JInt n)]"

definition give_segment :: "master_world \<Rightarrow> json \<Rightarrow> udp_address \<Rightarrow> jobj \<Rightarrow> unit mining" where
  "give_segment w nid addr job =
     st_bind (st_bind (look ms_cfg) (\<lambda>cfg. demand (segment_size cfg))) (\<lambda>n.
     st_bind (look ms_cursor) (\<lambda>c.
     st_bind (change (\<lambda>s. s\<lparr>ms_cursor := c + 1\<rparr>)) (\<lambda>_.
     st_bind (upd_worker nid (\<lambda>k. k\<lparr>wk_job := jget job ''job_id''\<rparr>)) (\<lambda>_.
     st_bind (send_packet type_job (segment_job job nid (int c * n) n) addr) (\<lambda>_.
       log_event w ''dispatch'' [(''node_id'', nid), (''job_id'', jget job ''job_id''), (''nonce_start'', JStr (py_hex (int c * n))),
         (''nonce_count'', JInt n)])))))"

definition dispatch_segment :: "master_world \<Rightarrow> json \<Rightarrow> unit mining" where
  "dispatch_segment w nid =
     st_bind (look (\<lambda>s. (ms_job s, ms_ready s, find_worker nid s))) (\<lambda>x.
       case x of
         (Some job, True, Some k) \<Rightarrow>
           if worker_timeout < mw_now w - wk_seen k then upd_worker nid (\<lambda>k. k\<lparr>wk_active := False\<rparr>)
           else give_segment w (wk_id k) (wk_addr k) job
       | _ \<Rightarrow> st_ret ())"

text \<open>The workers of a new job, one after the other; the first exception ends the loop.\<close>

fun give_all :: "master_world \<Rightarrow> json list \<Rightarrow> unit mining" where
  "give_all w [] = st_ret ()"
| "give_all w (nid # ns) =
     st_bind (look (find_worker nid)) (\<lambda>k.
     st_bind (case k of
                Some k \<Rightarrow> if mw_now w - wk_seen k \<le> worker_timeout
                           then st_bind (upd_worker nid (\<lambda>k. k\<lparr>wk_active := True\<rparr>)) (\<lambda>_. dispatch_segment w nid) else st_ret ()
              | None \<Rightarrow> st_ret ()) (\<lambda>_. give_all w ns))"

definition on_new_job :: "master_world \<Rightarrow> jobj \<Rightarrow> unit mining" where
  "on_new_job w job =
     st_bind (change (\<lambda>s. s\<lparr>ms_job := Some job, ms_cursor := 0\<rparr>)) (\<lambda>_.
     st_bind (log_event w ''job'' job) (\<lambda>_.
     st_bind (look (\<lambda>s. map wk_id (ms_workers s))) (\<lambda>ids. give_all w ids)))"


section \<open>The pool connection\<close>

definition the_pool :: "string \<Rightarrow> master \<Rightarrow> pool_link option" where
  "the_pool coin s = map_of (ms_pools s) coin"

definition at_key :: "string \<Rightarrow> ('v \<Rightarrow> 'v) \<Rightarrow> (string \<times> 'v) list \<Rightarrow> (string \<times> 'v) list" where
  "at_key k f xs = map (\<lambda>(k', v). if k' = k then (k', f v) else (k', v)) xs"

definition upd_pool :: "string \<Rightarrow> (pool_link \<Rightarrow> pool_link) \<Rightarrow> unit mining" where
  "upd_pool coin f = change (\<lambda>s. s\<lparr>ms_pools := at_key coin f (ms_pools s)\<rparr>)"

text \<open>\<open>_send\<close> up to the suspension in \<open>drain\<close>.\<close>

definition send_line :: "master_world \<Rightarrow> string \<Rightarrow> jobj \<Rightarrow> unit mining" where
  "send_line w coin msg =
     st_bind (look (the_pool coin)) (\<lambda>u.
       if (case u of None \<Rightarrow> True | Some u \<Rightarrow> \<not> up_connected u) then st_fail ''Stratum writer unavailable''
       else st_bind (stratum_event w ''stratum_tx'' [(''message'', JObj msg)]) (\<lambda>_.
         change (\<lambda>s. s\<lparr>ms_lines := ms_lines s @ [(coin, msg)]\<rparr>)))"

definition submit_message :: "int \<Rightarrow> pool_link \<Rightarrow> json \<Rightarrow> json \<Rightarrow> json \<Rightarrow> jobj" where
  "submit_message rid u jid nonce result =
     [(''id'', JInt rid), (''method'', JStr ''submit''),
      (''params'', JObj [(''id'', py_or (up_session u) (JStr ''1'')), (''job_id'', jid), (''nonce'', nonce), (''result'', result)])]"

definition submit_share :: "master_world \<Rightarrow> string \<Rightarrow> json \<Rightarrow> json \<Rightarrow> json \<Rightarrow> json \<Rightarrow> unit mining" where
  "submit_share w coin nid jid nonce result =
     st_bind (st_bind (look (the_pool coin)) demand) (\<lambda>u.
       let rid = up_req u + 1;
           meta = [(''worker'', nid), (''job_id'', jid), (''nonce'', nonce), (''submitted_at'', clock_value w)]
       in st_bind (upd_pool coin (\<lambda>u. u\<lparr>up_req := rid, up_pending := up_pending u @ [(rid, meta)]\<rparr>)) (\<lambda>_.
            send_line w coin (submit_message rid u jid nonce result)))"

definition dispatch_job :: "master_world \<Rightarrow> string \<Rightarrow> json \<Rightarrow> unit mining" where
  "dispatch_job w coin v =
     (case v of
        JObj job \<Rightarrow>
          st_bind (upd_pool coin (\<lambda>u. u\<lparr>up_job := jget_def_to job ''job_id'' (up_job u), up_blob := jget_def_to job ''blob'' (up_blob u),
              up_target := jget_def_to job ''target'' (up_target u), up_seed := jget_def_to job ''seed_hash'' (up_seed u)\<rparr>)) (\<lambda>_.
          st_bind (st_bind (look (the_pool coin)) demand) (\<lambda>u.
            on_new_job w [(''job_id'', up_job u), (''blob'', up_blob u), (''seed_hash'', up_seed u), (''target'', up_target u),
              (''height'', jget_def_to job ''height'' (JInt 0)), (''coin'', JStr ''XMR''), (''timestamp'', clock_value w)]))
      | _ \<Rightarrow> quit)"

text \<open>The pending submission a message answers; an unhashable id raises.\<close>

definition pending_id :: "json \<Rightarrow> pool_link \<Rightarrow> int option" where
  "pending_id v u = map_option fst (find (\<lambda>p. py_eq (JInt (fst p)) v) (up_pending u))"

definition settle :: "master_world \<Rightarrow> string \<Rightarrow> jobj \<Rightarrow> unit mining" where
  "settle w coin msg =
     (if \<not> hashable (jget msg ''id'') then quit
      else st_bind (st_bind (look (the_pool coin)) demand) (\<lambda>u.
        case pending_id (jget msg ''id'') u of
          None \<Rightarrow> st_ret ()
        | Some rid \<Rightarrow>
            (let meta = the (map_of (up_pending u) rid);
                 accepted = (\<not> truthy (jget msg ''error'') \<and> jget msg ''result'' \<noteq> JNull)
             in st_bind (upd_pool coin (\<lambda>u. u\<lparr>up_pending := filter (\<lambda>p. fst p \<noteq> rid) (up_pending u)\<rparr>)) (\<lambda>_.
                  stratum_event w (if accepted then ''share_accepted'' else ''share_rejected'')
                    (update_from meta [(''request_id'', jget msg ''id''), (''response'', JObj msg)])))))"

definition handle_message :: "master_world \<Rightarrow> string \<Rightarrow> json \<Rightarrow> unit mining" where
  "handle_message w coin v =
     (case v of
        JObj msg \<Rightarrow>
          if py_eq (jget msg ''id'') (JInt 1) \<and> truthy (jget msg ''result'')
          then (case jget msg ''result'' of
                  JObj result \<Rightarrow>
                    st_bind (upd_pool coin (\<lambda>u. u\<lparr>up_session := jget result ''id''\<rparr>)) (\<lambda>_.
                      let job = jget_def_to result ''job'' (JObj [])
                      in if truthy job then dispatch_job w coin job else st_ret ())
                | _ \<Rightarrow> quit)
          else if jget msg ''method'' = JStr ''job'' then dispatch_job w coin (jget_def_to msg ''params'' (JObj []))
          else settle w coin msg
      | _ \<Rightarrow> quit)"

text \<open>A received line, \<open>text\<close> being its decoding with replacement; \<open>pool_dropped\<close> is what \<open>connect\<close> does with an exception.\<close>

definition read_line :: "master_world \<Rightarrow> string \<Rightarrow> string \<Rightarrow> unit mining" where
  "read_line w coin text =
     (let raw = py_strip text
      in if raw = [] then st_ret ()
         else (case json_loads raw of
                 Inl Digit_limit \<Rightarrow> quit
               | Inl e \<Rightarrow> st_ret ()
               | Inr msg \<Rightarrow> st_bind (stratum_event w ''stratum_rx'' [(''message'', msg)]) (\<lambda>_. handle_message w coin msg)))"

definition pool_dropped :: "master_world \<Rightarrow> string \<Rightarrow> string \<Rightarrow> unit mining" where
  "pool_dropped w coin err =
     st_bind (upd_pool coin (\<lambda>u. u\<lparr>up_connected := False\<rparr>)) (\<lambda>_. stratum_event w ''stratum_disconnected'' [(''error'', JStr err)])"

definition login_message :: "jobj \<Rightarrow> jobj option" where
  "login_message cfg =
     (case map_of cfg ''wallet'' of
        None \<Rightarrow> None
      | Some v \<Rightarrow>
          Some [(''id'', JInt 1), (''method'', JStr ''login''),
                (''params'', JObj [(''login'', JStr (py_str v @ ''.master'')), (''pass'', jget_def_to cfg ''password'' (JStr ''x'')),
                  (''agent'', JStr ''HashBurst-Master/1.1'')])])"

definition pool_up :: "master_world \<Rightarrow> string \<Rightarrow> unit mining" where
  "pool_up w coin =
     st_bind (st_bind (look (the_pool coin)) demand) (\<lambda>u.
     st_bind (upd_pool coin (\<lambda>u. u\<lparr>up_connected := True\<rparr>)) (\<lambda>_.
     st_bind (stratum_event w ''stratum_connected''
       [(''pool'', JStr (py_str (jget (up_cfg u) ''pool_host'') @ '':'' @ py_str (jget (up_cfg u) ''pool_port'')))]) (\<lambda>_.
     st_bind (demand (login_message (up_cfg u))) (\<lambda>msg. send_line w coin msg))))"

text \<open>What the connection task does with the outcome: an exception drops the connection, whatever its text \<open>err\<close>.\<close>

definition guarded :: "master_world \<Rightarrow> string \<Rightarrow> string \<Rightarrow> unit mining \<Rightarrow> unit mining" where
  "guarded w coin err m s = (case m s of (Inr x, s1) \<Rightarrow> (Inr x, s1) | (Inl e, s1) \<Rightarrow> pool_dropped w coin err s1)"

section \<open>Datagrams\<close>

definition addr_text :: "udp_address \<Rightarrow> string" where
  "addr_text a = ''('' @ repr_str (fst a) @ '', '' @ show_int (snd a) @ '')''"

definition handle_register :: "master_world \<Rightarrow> jobj \<Rightarrow> udp_address \<Rightarrow> unit mining" where
  "handle_register w payload addr =
     (let nid = py_or (jget payload ''node_id'') (JStr (mw_uuid w))
      in st_bind (touch_worker w nid addr payload) (\<lambda>_.
         st_bind (if truthy (jget payload ''caps'') then upd_worker nid (\<lambda>k. k\<lparr>wk_caps := jget payload ''caps''\<rparr>) else st_ret ()) (\<lambda>_.
         st_bind (log_event w ''register'' [(''node_id'', nid), (''addr'', JStr (addr_text addr))]) (\<lambda>_.
         st_bind (look ms_cfg) (\<lambda>cfg.
         st_bind (send_packet type_ack [(''status'', JStr ''ok''), (''node_id'', nid), (''network'', jget cfg ''network'')] addr) (\<lambda>_.
           dispatch_segment w nid))))))"

definition job_matches :: "jobj \<Rightarrow> master \<Rightarrow> bool" where
  "job_matches payload s =
     (case ms_job s of None \<Rightarrow> False | Some job \<Rightarrow> py_eq (jget payload ''job_id'') (jget job ''job_id''))"

text \<open>The end of a share, after the pool connection took it, refused it, or was not asked.\<close>

definition share_done :: "master_world \<Rightarrow> json \<Rightarrow> jobj \<Rightarrow> udp_address \<Rightarrow> unit mining" where
  "share_done w nid payload addr =
     st_bind (send_packet type_ack [(''status'', JStr ''ok''), (''share'', jget payload ''nonce'')] addr) (\<lambda>_.
     st_bind (look (job_matches payload)) (\<lambda>same. if same then dispatch_segment w nid else st_ret ()))"

definition forward_failed :: "master_world \<Rightarrow> json \<Rightarrow> string \<Rightarrow> unit mining" where
  "forward_failed w nid err = log_event w ''share_forward_error'' [(''node_id'', nid), (''error'', JStr err)]"

definition handle_share :: "master_world \<Rightarrow> json \<Rightarrow> jobj \<Rightarrow> udp_address \<Rightarrow> unit mining" where
  "handle_share w nid payload addr =
     st_bind (touch_worker w nid addr payload) (\<lambda>_.
     st_bind (upd_worker nid (\<lambda>k. k\<lparr>wk_shares := wk_shares k + 1\<rparr>)) (\<lambda>_.
     st_bind (log_event w ''share'' payload) (\<lambda>_.
       let coin = jget_def_to payload ''coin'' (JStr ''XMR'')
       in if \<not> hashable coin then quit
          else st_bind (look (\<lambda>s. case coin of JStr c \<Rightarrow> if the_pool c s = None then None else Some c | _ \<Rightarrow> None)) (\<lambda>pool.
            case pool of
              None \<Rightarrow> share_done w nid payload addr
            | Some c \<Rightarrow>
                (\<lambda>s. case submit_share w c nid (jget_def_to payload ''job_id'' (JStr [])) (jget_def_to payload ''nonce'' (JStr ''0''))
                            (jget_def_to payload ''result'' (zeros 64)) s of
                       (Inl err, s1) \<Rightarrow> st_bind (forward_failed w nid err) (\<lambda>_. share_done w nid payload addr) s1
                     | (Inr x, s1) \<Rightarrow> (Inr (), s1\<lparr>ms_waiting := ms_waiting s1 @ [\<lparr>ws_node = nid, ws_payload = payload, ws_addr = addr\<rparr>]\<rparr>))))))"

definition handle_heartbeat :: "master_world \<Rightarrow> json \<Rightarrow> jobj \<Rightarrow> udp_address \<Rightarrow> unit mining" where
  "handle_heartbeat w nid payload addr =
     st_bind (touch_worker w nid addr payload) (\<lambda>_.
     st_bind (send_packet type_ack [(''status'', JStr ''ok''), (''ts'', clock_value w)] addr) (\<lambda>_.
     st_bind (look (\<lambda>s. case (ms_job s, find_worker nid s) of
         (Some job, Some k) \<Rightarrow> \<not> py_eq (wk_job k) (jget job ''job_id'') | _ \<Rightarrow> False)) (\<lambda>other.
       if other then dispatch_segment w nid else st_ret ())))"

definition handle_stats :: "master_world \<Rightarrow> json \<Rightarrow> jobj \<Rightarrow> udp_address \<Rightarrow> unit mining" where
  "handle_stats w nid payload addr =
     st_bind (touch_worker w nid addr payload) (\<lambda>_.
     st_bind (look (job_matches payload)) (\<lambda>same.
       if jget payload ''event'' = JStr ''segment_done'' \<and> same then dispatch_segment w nid else st_ret ()))"

definition handle_packet :: "master_world \<Rightarrow> nat \<Rightarrow> json \<Rightarrow> udp_address \<Rightarrow> unit mining" where
  "handle_packet w ty v addr =
     (case v of
        JObj payload \<Rightarrow>
          (let nid = jget_def_to payload ''node_id'' (JStr ''unknown'')
           in if ty = type_register then handle_register w payload addr
              else if ty = type_share then handle_share w nid payload addr
              else if ty = type_heartbeat then handle_heartbeat w nid payload addr
              else if ty = type_stats then handle_stats w nid payload addr
              else st_ret ())
      | _ \<Rightarrow> quit)"

definition datagram_received :: "master_world \<Rightarrow> string \<Rightarrow> udp_address \<Rightarrow> unit mining" where
  "datagram_received w data addr =
     (case tep_unpack data of Packet ty v \<Rightarrow> handle_packet w ty v addr | Invalid_packet \<Rightarrow> st_ret () | Unpack_raises \<Rightarrow> quit)"

text \<open>A waiting share goes on: \<open>failure\<close> is the text of what \<open>drain\<close> raised.\<close>

definition resume_share :: "master_world \<Rightarrow> nat \<Rightarrow> string option \<Rightarrow> unit mining" where
  "resume_share w i failure s =
     (if i < length (ms_waiting s)
      then (let x = ms_waiting s ! i; s1 = s\<lparr>ms_waiting := take i (ms_waiting s) @ drop (Suc i) (ms_waiting s)\<rparr>
            in st_bind (case failure of None \<Rightarrow> st_ret () | Some err \<Rightarrow> forward_failed w (ws_node x) err) (\<lambda>_.
                 share_done w (ws_node x) (ws_payload x) (ws_addr x)) s1)
      else (Inr (), s))"

section \<open>Housekeeping, pages and start\<close>

definition check_worker :: "master_world \<Rightarrow> worker \<Rightarrow> worker" where
  "check_worker w k =
     (let alive = (mw_now w - wk_seen k \<le> worker_timeout)
      in if wk_active k \<and> \<not> alive then k\<lparr>wk_active := False, wk_hash := 0\<rparr> else k\<lparr>wk_active := alive\<rparr>)"

fun log_inactive :: "master_world \<Rightarrow> worker list \<Rightarrow> unit mining" where
  "log_inactive w [] = st_ret ()"
| "log_inactive w (k # ks) =
     st_bind (if wk_active k \<and> worker_timeout < mw_now w - wk_seen k then log_event w ''inactive'' [(''node_id'', wk_id k)] else st_ret ())
       (\<lambda>_. log_inactive w ks)"

definition housekeeping :: "master_world \<Rightarrow> unit mining" where
  "housekeeping w =
     st_bind (look ms_workers) (\<lambda>ks.
     st_bind (log_inactive w ks) (\<lambda>_. change (\<lambda>s. s\<lparr>ms_workers := map (check_worker w) (ms_workers s)\<rparr>)))"

record status_figures =
  mt_active :: nat
  mt_hash :: py_float
  mt_shares :: nat
  mt_accepted :: nat
  mt_rejected :: nat
  mt_job :: "jobj option"
  mt_workers :: "worker list"
  mt_log :: "jobj list"

definition handle_status :: "master \<Rightarrow> status_figures" where
  "handle_status s =
     \<lparr>mt_active = length (filter wk_active (ms_workers s)), mt_hash = sum_list (map wk_hash (filter wk_active (ms_workers s))),
      mt_shares = sum_list (map wk_shares (ms_workers s)), mt_accepted = ms_accepted s, mt_rejected = ms_rejected s, mt_job = ms_job s,
      mt_workers = ms_workers s, mt_log = drop (length (ms_log s) - 100) (ms_log s)\<rparr>"

text \<open>\<open>POST /api/config\<close> with an object; it is merged and saved as it is.\<close>

definition post_config :: "jobj \<Rightarrow> unit mining" where
  "post_config body = change (\<lambda>s. s\<lparr>ms_cfg := update_from (ms_cfg s) body, ms_file := update_from (ms_cfg s) body\<rparr>)"

fun enabled_pools :: "jobj \<Rightarrow> (string \<times> pool_link) list option" where
  "enabled_pools [] = Some []"
| "enabled_pools ((coin, v) # cs) =
     (case v of
        JObj c \<Rightarrow> map_option (\<lambda>ps. if truthy (jget c ''enabled'') then (coin, new_upstream c) # ps else ps) (enabled_pools cs)
      | _ \<Rightarrow> None)"

definition start_master :: "unit mining" where
  "start_master s =
     (if ms_started s then (Inr (), s)
      else let s1 = s\<lparr>ms_started := True, ms_ready := True\<rparr>
           in (case jget (ms_cfg s) ''coins'' of
                 JObj coins \<Rightarrow> (case enabled_pools coins of None \<Rightarrow> (Inl [], s1) | Some ps \<Rightarrow> (Inr (), s1\<lparr>ms_pools := ps\<rparr>))
               | _ \<Rightarrow> (Inl [], s1)))"

section \<open>The event loop\<close>

datatype master_event =
    Got_datagram string udp_address
  | Share_resumes nat "string option"
  | Pool_connected string
  | Pool_line string string
  | Pool_lost string
  | Housekeeping
  | Config_posted jobj

definition handle_event :: "master_world \<Rightarrow> string \<Rightarrow> master_event \<Rightarrow> unit mining" where
  "handle_event w err e =
     (case e of
        Got_datagram data addr \<Rightarrow> datagram_received w data addr
      | Share_resumes i failure \<Rightarrow> resume_share w i failure
      | Pool_connected coin \<Rightarrow> guarded w coin err (pool_up w coin)
      | Pool_line coin text \<Rightarrow> guarded w coin err (read_line w coin text)
      | Pool_lost coin \<Rightarrow> pool_dropped w coin err
      | Housekeeping \<Rightarrow> housekeeping w
      | Config_posted body \<Rightarrow> post_config body)"

text \<open>An exception ends the task it is raised in; the loop goes on.\<close>

fun run_events :: "(master_world \<times> string \<times> master_event) list \<Rightarrow> master \<Rightarrow> master" where
  "run_events [] s = s"
| "run_events ((w, err, e) # es) s = run_events es (snd (handle_event w err e s))"

end
