(* ===== verification/Master_Relation.thy ===== *)
theory Master_Relation
  imports Master_Node
begin

text \<open>
  The contract between the primitive state changes of the master and its handlers: a reflexive and transitive relation
  that every primitive change is in holds between the states before and after every handler. Proved once, it gives both
  the invariant of the master and the order of its nonce segments.
\<close>

section \<open>Actions in a relation\<close>

definition stays :: "(master \<Rightarrow> master \<Rightarrow> bool) \<Rightarrow> 'a mining \<Rightarrow> bool" where
  "stays R m \<longleftrightarrow> (\<forall>s. R s (snd (m s)))"

locale preorder_step =
  fixes R :: "master \<Rightarrow> master \<Rightarrow> bool"
  assumes R_refl: "R s s" and R_trans: "R s t \<Longrightarrow> R t u \<Longrightarrow> R s u"
begin

lemma stays_bind:
  assumes "stays R m" "\<And>x. stays R (f x)"
  shows "stays R (st_bind m f)"
  unfolding stays_def
proof
  fix s
  obtain a s1 where m: "m s = (a, s1)" by fastforce
  then have "R s s1" using assms(1) unfolding stays_def by (metis snd_conv)
  moreover have "R s1 (snd (f x s1))" for x using assms(2) by (simp add: stays_def)
  ultimately show "R s (snd (st_bind m f s))" using m R_trans by (cases a) (auto simp: st_bind_def)
qed

lemma stays_still: "stays R (st_ret x)" "stays R (st_fail e)" "stays R quit" "stays R (look f)" "stays R (demand y)"
  using R_refl by (auto simp: stays_def quit_def look_def demand_def split: option.split)

lemma stays_change: "(\<And>s. R s (f s)) \<Longrightarrow> stays R (change f)"
  by (simp add: stays_def change_def)

lemma stays_if: "stays R m \<Longrightarrow> stays R m' \<Longrightarrow> stays R (if b then m else m')"
  by simp

lemma stays_option: "stays R m \<Longrightarrow> (\<And>x. stays R (f x)) \<Longrightarrow> stays R (case y of None \<Rightarrow> m | Some x \<Rightarrow> f x)"
  by (simp split: option.split)

lemmas stays_intro = stays_bind stays_still stays_if stays_option

end

section \<open>The primitive changes\<close>

locale mining_step = preorder_step +
  assumes R_log: "R s (s\<lparr>ms_log := last_500 (ms_log s @ [e])\<rparr>)"
    and R_sent: "sp_type p \<noteq> type_job \<Longrightarrow> R s (s\<lparr>ms_sent := ms_sent s @ [p]\<rparr>)"
    and R_worker: "(\<And>k. wk_id (f k) = wk_id k \<and> (0 \<le> wk_hash k \<longrightarrow> 0 \<le> wk_hash (f k))) \<Longrightarrow> R s (s\<lparr>ms_workers := map f (ms_workers s)\<rparr>)"
    and R_new: "find_worker (wk_id k) s = None \<Longrightarrow> hashable (wk_id k) \<Longrightarrow> wk_hash k = 0 \<Longrightarrow> R s (s\<lparr>ms_workers := ms_workers s @ [k]\<rparr>)"
    and R_give: "R s (snd (give_segment w nid addr job s))"
    and R_waiting: "R s (s\<lparr>ms_waiting := ws\<rparr>)"
    and R_lines: "R s (s\<lparr>ms_lines := ls\<rparr>)"
    and R_pool: "(\<And>u. up_req (g u) = up_req u \<and> up_pending (g u) = up_pending u) \<Longrightarrow>
      R s (s\<lparr>ms_pools := at_key coin g (ms_pools s)\<rparr>)"
    and R_submit: "the_pool coin s = Some u \<Longrightarrow>
      R s (s\<lparr>ms_pools := at_key coin (\<lambda>v. v\<lparr>up_req := up_req u + 1, up_pending := up_pending v @ [(up_req u + 1, meta)]\<rparr>) (ms_pools s)\<rparr>)"
    and R_settle: "the_pool coin s = Some u \<Longrightarrow> rid \<in> fst ` set (up_pending u) \<Longrightarrow> a + r = (1 :: nat) \<Longrightarrow>
      R s (s\<lparr>ms_pools := at_key coin (\<lambda>v. v\<lparr>up_pending := filter (\<lambda>p. fst p \<noteq> rid) (up_pending v)\<rparr>) (ms_pools s),
        ms_accepted := ms_accepted s + a, ms_rejected := ms_rejected s + r\<rparr>)"
begin

lemma stays_log: "stays R (log_event w ty d)"
  unfolding log_event_def by (intro stays_change R_log)

lemma stays_event: "ty \<notin> {''share_accepted'', ''share_rejected''} \<Longrightarrow> stays R (stratum_event w ty d)"
  unfolding stratum_event_def by (intro stays_bind stays_change stays_log) (simp add: R_refl)

lemma stays_packet: "ty \<noteq> type_job \<Longrightarrow> stays R (send_packet ty payload addr)"
  unfolding send_packet_def by (intro stays_option stays_still stays_change R_sent) simp

lemma stays_worker: "(\<And>k. wk_id (f k) = wk_id k \<and> (0 \<le> wk_hash k \<longrightarrow> 0 \<le> wk_hash (f k))) \<Longrightarrow> stays R (upd_worker nid f)"
  unfolding upd_worker_def by (intro stays_change R_worker) auto

lemma refresh_keeps: "wk_id (refresh w addr payload k) = wk_id k \<and> (0 \<le> wk_hash k \<longrightarrow> 0 \<le> wk_hash (refresh w addr payload k))"
  by (auto simp: refresh_def Let_def split: option.split)

lemma stays_touch: "stays R (touch_worker w nid addr payload)"
proof (cases "hashable nid")
  case True
  have "R s (if find_worker nid s = None then s\<lparr>ms_workers := ms_workers s @ [new_worker w nid addr payload]\<rparr> else s)" for s
    using R_new [of "new_worker w nid addr payload" s] True R_refl by (simp add: new_worker_def)
  then show ?thesis
    unfolding touch_worker_def by (intro stays_if stays_still stays_bind stays_change stays_worker refresh_keeps)
qed (simp add: touch_worker_def stays_still)

lemma stays_dispatch: "stays R (dispatch_segment w nid)"
proof -
  have give: "stays R (give_segment w i a j)" for i a j by (simp add: stays_def R_give)
  then show ?thesis
    unfolding dispatch_segment_def
    by (auto intro!: stays_bind stays_still stays_worker give split: option.split prod.split bool.split)
qed

lemma stays_give_all: "stays R (give_all w ids)"
proof (induction ids)
  case (Cons nid ids)
  show ?case
    unfolding give_all.simps by (intro stays_intro stays_worker stays_dispatch Cons.IH) simp
qed (simp only: give_all.simps stays_still)

lemma stays_upd_pool: "(\<And>u. up_req (f u) = up_req u \<and> up_pending (f u) = up_pending u) \<Longrightarrow> stays R (upd_pool coin f)"
  unfolding upd_pool_def by (intro stays_change R_pool) auto

lemma stays_line: "stays R (send_line w coin msg)"
  unfolding send_line_def by (intro stays_intro stays_event stays_change R_lines) simp

lemma stays_dropped: "stays R (pool_dropped w coin err)"
  unfolding pool_dropped_def by (intro stays_bind stays_upd_pool stays_event) simp_all

lemma stays_pool_up: "stays R (pool_up w coin)"
  unfolding pool_up_def by (intro stays_intro stays_upd_pool stays_event stays_line) simp_all

lemma stays_submit: "stays R (submit_share w coin nid jid nonce result)"
  unfolding stays_def
proof
  fix s
  show "R s (snd (submit_share w coin nid jid nonce result s))"
  proof (cases "the_pool coin s")
    case None
    then show ?thesis by (simp add: submit_share_def st_bind_def look_def demand_def quit_def R_refl)
  next
    case (Some u)
    let ?meta = "[(''worker'', nid), (''job_id'', jid), (''nonce'', nonce), (''submitted_at'', clock_value w)]"
    let ?s = "s\<lparr>ms_pools := at_key coin (\<lambda>v. v\<lparr>up_req := up_req u + 1, up_pending := up_pending v @ [(up_req u + 1, ?meta)]\<rparr>) (ms_pools s)\<rparr>"
    have "snd (submit_share w coin nid jid nonce result s) = snd (send_line w coin (submit_message (up_req u + 1) u jid nonce result) ?s)"
      using Some by (simp add: submit_share_def st_bind_def look_def demand_def upd_pool_def change_def Let_def)
    moreover have "R ?s (snd (send_line w coin (submit_message (up_req u + 1) u jid nonce result) ?s))"
      using stays_line by (simp add: stays_def)
    ultimately show ?thesis using R_trans [OF R_submit [OF Some]] by simp
  qed
qed

lemma stays_settle: "stays R (settle w coin msg)"
  unfolding stays_def
proof
  fix s
  show "R s (snd (settle w coin msg s))"
  proof (cases "hashable (jget msg ''id'') \<and> the_pool coin s \<noteq> None \<and> pending_id (jget msg ''id'') (the (the_pool coin s)) \<noteq> None")
    case False
    then show ?thesis
      by (auto simp: settle_def st_bind_def look_def demand_def quit_def R_refl split: option.split)
  next
    case True
    then obtain u rid where u: "hashable (jget msg ''id'')" "the_pool coin s = Some u" "pending_id (jget msg ''id'') u = Some rid" by auto
    have rid: "rid \<in> fst ` set (up_pending u)"
      using u(3) by (auto simp: pending_id_def find_Some_iff image_iff) (metis nth_mem fst_conv)
    define ok where "ok \<longleftrightarrow> \<not> truthy (jget msg ''error'') \<and> jget msg ''result'' \<noteq> JNull"
    define d where "d = update_from (the (map_of (up_pending u) rid)) [(''request_id'', jget msg ''id''), (''response'', JObj msg)]"
    let ?s = "s\<lparr>ms_pools := at_key coin (\<lambda>v. v\<lparr>up_pending := filter (\<lambda>p. fst p \<noteq> rid) (up_pending v)\<rparr>) (ms_pools s),
        ms_accepted := ms_accepted s + of_bool ok, ms_rejected := ms_rejected s + of_bool (\<not> ok)\<rparr>"
    let ?ty = "if ok then ''share_accepted'' else ''share_rejected''"
    have "snd (settle w coin msg s) = snd (log_event w ?ty d ?s)"
      using u unfolding settle_def ok_def [symmetric] d_def
      by (cases ok) (simp_all add: st_bind_def look_def demand_def upd_pool_def change_def Let_def stratum_event_def ok_def [symmetric])
    moreover have "R ?s (snd (log_event w ?ty d ?s))" using stays_log by (simp add: stays_def)
    moreover have "R s ?s" using R_settle [OF u(2) rid, of "of_bool ok" "of_bool (\<not> ok)"] by simp
    ultimately show ?thesis using R_trans [of s ?s] by simp
  qed
qed

lemma stays_share_done: "stays R (share_done w nid payload addr)"
  unfolding share_done_def by (intro stays_intro stays_packet stays_dispatch) (simp add: packet_type_defs)

lemma stays_share: "stays R (handle_share w nid payload addr)"
proof -
  have "stays R (\<lambda>s. case submit_share w c nid a b r s of
       (Inl err, s1) \<Rightarrow> st_bind (forward_failed w nid err) (\<lambda>_. share_done w nid payload addr) s1
     | (Inr x, s1) \<Rightarrow> (Inr (), s1\<lparr>ms_waiting := ms_waiting s1 @ [ws]\<rparr>))" for c a b r ws
    unfolding stays_def
  proof
    fix s
    have "stays R (st_bind (forward_failed w nid err) (\<lambda>_. share_done w nid payload addr))" for err
      unfolding forward_failed_def by (intro stays_bind stays_log stays_share_done)
    then have "R s1 (snd (st_bind (forward_failed w nid err) (\<lambda>_. share_done w nid payload addr) s1))" for err s1 by (simp add: stays_def)
    moreover have "R s (snd (submit_share w c nid a b r s))" using stays_submit by (simp add: stays_def)
    ultimately show "R s (snd (case submit_share w c nid a b r s of
       (Inl err, s1) \<Rightarrow> st_bind (forward_failed w nid err) (\<lambda>_. share_done w nid payload addr) s1
     | (Inr x, s1) \<Rightarrow> (Inr (), s1\<lparr>ms_waiting := ms_waiting s1 @ [ws]\<rparr>)))"
      using R_trans R_waiting by (auto split: prod.split sum.split)
  qed
  then show ?thesis
    unfolding handle_share_def Let_def
    by (intro stays_bind stays_touch stays_worker stays_log stays_if stays_still stays_option stays_share_done) simp_all
qed

lemma stays_tep: "stays R (handle_packet w ty v addr)"
proof -
  have reg: "stays R (handle_register w payload addr)" for payload
    unfolding handle_register_def Let_def
    by (intro stays_intro stays_touch stays_worker stays_log stays_packet stays_dispatch) (simp_all add: packet_type_defs)
  have heart: "stays R (handle_heartbeat w nid payload addr)" for nid payload
    unfolding handle_heartbeat_def by (intro stays_intro stays_touch stays_packet stays_dispatch) (simp add: packet_type_defs)
  have stats: "stays R (handle_stats w nid payload addr)" for nid payload
    unfolding handle_stats_def by (intro stays_intro stays_touch stays_dispatch)
  show ?thesis
    by (cases v) (simp_all add: handle_packet_def Let_def reg heart stats stays_share stays_still)
qed

lemma stays_datagram: "stays R (datagram_received w data addr)"
  by (simp add: datagram_received_def stays_tep stays_still split: unpacked.split)

lemma stays_resume: "stays R (resume_share w i failure)"
proof -
  have "stays R (st_bind (case failure of None \<Rightarrow> st_ret () | Some err \<Rightarrow> forward_failed w (ws_node x) err) (\<lambda>_.
      share_done w (ws_node x) (ws_payload x) (ws_addr x)))" for x :: waiting_share
    unfolding forward_failed_def by (intro stays_intro stays_log stays_share_done)
  then have rest: "R s1 (snd (st_bind (case failure of None \<Rightarrow> st_ret () | Some err \<Rightarrow> forward_failed w (ws_node x) err) (\<lambda>_.
      share_done w (ws_node x) (ws_payload x) (ws_addr x)) s1))" for x :: waiting_share and s1 unfolding stays_def by blast
  have "R s (snd (resume_share w i failure s))" for s
    using R_trans [OF R_waiting rest] R_refl by (simp add: resume_share_def Let_def)
  then show ?thesis by (simp add: stays_def)
qed

lemma stays_housekeeping: "stays R (housekeeping w)"
proof -
  have "stays R (log_inactive w ks)" for ks
    by (induction ks) (simp_all only: log_inactive.simps stays_still stays_bind stays_if stays_log)
  moreover have "stays R (change (\<lambda>s. s\<lparr>ms_workers := map (check_worker w) (ms_workers s)\<rparr>))"
    by (intro stays_change R_worker) (simp add: check_worker_def Let_def)
  ultimately show ?thesis unfolding housekeeping_def by (intro stays_bind stays_still)
qed

lemma stays_guarded: "stays R m \<Longrightarrow> stays R (guarded w coin err m)"
  using stays_dropped R_trans unfolding stays_def guarded_def
  by (auto split: prod.split sum.split) (metis snd_conv)+

end

text \<open>Every event but a posted configuration and a line with a new job.\<close>

fun brings_job :: "json \<Rightarrow> bool" where
  "brings_job (JObj msg) = (py_eq (jget msg ''id'') (JInt 1) \<and> truthy (jget msg ''result'') \<or> jget msg ''method'' = JStr ''job'')"
| "brings_job v = False"

definition keeps_job :: "master_event \<Rightarrow> bool" where
  "keeps_job e = (case e of
     Config_posted body \<Rightarrow> False
   | Pool_line coin text \<Rightarrow> (case json_loads (py_strip text) of Inr msg \<Rightarrow> \<not> brings_job msg | Inl e \<Rightarrow> True)
   | _ \<Rightarrow> True)"

context mining_step begin

lemma stays_kept: "keeps_job e \<Longrightarrow> stays R (handle_event w err e)"
proof (cases e)
  case (Pool_line coin line)
  assume k: "keeps_job e"
  have "stays R (read_line w coin line)"
  proof (cases "json_loads (py_strip line)")
    case (Inl x)
    then show ?thesis by (cases x) (simp_all add: read_line_def Let_def stays_still)
  next
    case (Inr msg)
    have "stays R (handle_message w coin msg)"
      using k by (cases msg) (auto simp: Pool_line Inr keeps_job_def handle_message_def stays_still stays_settle)
    then show ?thesis
      by (simp add: read_line_def Let_def Inr stays_still stays_bind stays_event)
  qed
  then show ?thesis by (simp add: Pool_line handle_event_def stays_guarded)
qed (simp_all add: handle_event_def keeps_job_def stays_datagram stays_resume stays_guarded stays_pool_up stays_dropped stays_housekeeping)

end

section \<open>With new jobs and configurations\<close>

locale any_step = mining_step +
  assumes R_job: "R s (s\<lparr>ms_job := Some job, ms_cursor := 0\<rparr>)"
    and R_config: "R s (s\<lparr>ms_cfg := c, ms_file := c'\<rparr>)"
begin

lemma stays_new_job: "stays R (on_new_job w job)"
  unfolding on_new_job_def by (intro stays_intro stays_change R_job stays_log stays_give_all)

lemma stays_dispatch_job: "stays R (dispatch_job w coin v)"
  by (cases v) (auto simp: dispatch_job_def intro!: stays_intro stays_upd_pool stays_new_job)

lemma stays_message: "stays R (handle_message w coin v)"
  unfolding handle_message_def Let_def
  by (auto split: json.split intro!: stays_intro stays_upd_pool stays_dispatch_job stays_settle)

lemma stays_read: "stays R (read_line w coin text)"
  unfolding read_line_def Let_def
  by (auto split: sum.split json_error.split intro!: stays_intro stays_event stays_message)

lemma stays_any: "stays R (handle_event w err e)"
  unfolding handle_event_def
  by (cases e) (auto simp: stays_datagram stays_resume stays_guarded stays_pool_up stays_dropped stays_housekeeping stays_read post_config_def
      intro!: stays_change R_config)

end

end
