(* ===== verification/Master_Safety.thy ===== *)
theory Master_Safety
  imports Master_Relation
begin

text \<open>What the mining master guarantees, as the two relations of \<open>Master_Relation\<close> its steps are in, and its packets.\<close>

section \<open>The invariant\<close>

definition pool_ok :: "pool_link \<Rightarrow> bool" where
  "pool_ok u \<longleftrightarrow> distinct (map fst (up_pending u)) \<and> 1 \<le> up_req u \<and> (\<forall>r \<in> fst ` set (up_pending u). 2 \<le> r \<and> r \<le> up_req u)"

definition submitted :: "master \<Rightarrow> int" where "submitted s = sum_list (map (\<lambda>(c, u). up_req u - 1) (ms_pools s))"
definition open_submits :: "master \<Rightarrow> int" where "open_submits s = sum_list (map (\<lambda>(c, u). int (length (up_pending u))) (ms_pools s))"

definition master_ok :: "master \<Rightarrow> bool" where
  "master_ok s \<longleftrightarrow> distinct (map fst (ms_pools s)) \<and> (\<forall>u \<in> snd ` set (ms_pools s). pool_ok u) \<and>
     int (ms_accepted s + ms_rejected s) + open_submits s = submitted s \<and> int (length (ms_log s)) \<le> 500 \<and>
     distinct (map (\<lambda>k. py_norm (wk_id k)) (ms_workers s)) \<and> (\<forall>k \<in> set (ms_workers s). 0 \<le> wk_hash k)"

definition keeps_ok :: "master \<Rightarrow> master \<Rightarrow> bool" where
  "keeps_ok s s' \<longleftrightarrow> (master_ok s \<longrightarrow> master_ok s')"

lemma last_500_bound: "int (length (last_500 xs)) \<le> 500"
  by (auto simp: last_500_def)

lemma at_key_simps [simp]: "at_key k f [] = []" "at_key k f ((k', v) # xs) = (k', if k' = k then f v else v) # at_key k f xs"
  by (simp_all add: at_key_def)

lemma keys_at [simp]: "map fst (at_key k f xs) = map fst xs"
  by (induction xs) auto

lemma at_key_absent: "k \<notin> fst ` set xs \<Longrightarrow> at_key k f xs = xs"
  by (induction xs) auto

lemma sum_at:
  "distinct (map fst xs) \<Longrightarrow> map_of xs k = Some u \<Longrightarrow>
    sum_list (map (\<lambda>(k', v). g v) (at_key k f xs)) = sum_list (map (\<lambda>(k', v). g v) xs) - g u + (g (f u) :: int)"
  by (induction xs) (auto simp: at_key_absent)

lemma sum_same: "(\<And>u. g (f u) = g u) \<Longrightarrow> sum_list (map (\<lambda>(k', v). g v) (at_key k f xs)) = (sum_list (map (\<lambda>(k', v). g v) xs) :: int)"
  by (induction xs) auto

lemma all_at: "\<forall>u \<in> snd ` set xs. P u \<Longrightarrow> (\<And>v. (k, v) \<in> set xs \<Longrightarrow> P v \<Longrightarrow> P (f v)) \<Longrightarrow> \<forall>u \<in> snd ` set (at_key k f xs). P u"
  by (induction xs) auto

lemma length_filter_key:
  assumes "distinct (map fst xs)" "k \<in> fst ` set xs"
  shows "int (length (filter (\<lambda>p. fst p \<noteq> k) xs)) = int (length xs) - 1"
proof -
  obtain v where v: "(k, v) \<in> set xs" using assms(2) by auto
  have only: "fst p \<noteq> k \<longleftrightarrow> p \<noteq> (k, v)" if "p \<in> set xs" for p
    using assms(1) v that inj_onD [of fst "set xs" p "(k, v)"] by (auto simp: distinct_map)
  have "filter (\<lambda>p. fst p \<noteq> k) xs = removeAll (k, v) xs"
    unfolding removeAll_filter_not_eq using only by (intro filter_cong) auto
  also have "\<dots> = remove1 (k, v) xs" using distinct_remove1_removeAll [of xs "(k, v)"] assms(1) by (simp add: distinct_map)
  finally show ?thesis using length_remove1 [of "(k, v)" xs] length_pos_if_in_set [OF v] v by (cases xs) simp_all
qed

lemma ok_pools:
  assumes "master_ok s" "\<And>v. (coin, v) \<in> set (ms_pools s) \<Longrightarrow> pool_ok v \<Longrightarrow> pool_ok (f v)"
    and "int n + sum_list (map (\<lambda>(c, u). int (length (up_pending u))) (at_key coin f (ms_pools s))) =
      sum_list (map (\<lambda>(c, u). up_req u - 1) (at_key coin f (ms_pools s)))" "n = ms_accepted s + a + (ms_rejected s + r)"
  shows "master_ok (s\<lparr>ms_pools := at_key coin f (ms_pools s), ms_accepted := ms_accepted s + a, ms_rejected := ms_rejected s + r\<rparr>)"
proof -
  have "\<forall>u \<in> snd ` set (at_key coin f (ms_pools s)). pool_ok u"
    using assms(1,2) by (intro all_at) (simp_all add: master_ok_def)
  then show ?thesis using assms(1,3,4) by (simp add: master_ok_def submitted_def open_submits_def)
qed

lemma ok_pools_same:
  assumes "\<And>u. up_req (g u) = up_req u \<and> up_pending (g u) = up_pending u" "master_ok s"
  shows "master_ok (s\<lparr>ms_pools := at_key coin g (ms_pools s)\<rparr>)"
proof -
  have "pool_ok (g v)" if "pool_ok v" for v using that assms(1) by (simp add: pool_ok_def)
  then show ?thesis
    using ok_pools [OF assms(2), of coin g _ 0 0] assms(2)
      sum_same [where f = g and g = "\<lambda>u. up_req u - 1"] sum_same [where f = g and g = "\<lambda>u. int (length (up_pending u))"] assms(1)
    by (simp add: master_ok_def submitted_def open_submits_def)
qed

lemma pool_of:
  assumes "the_pool coin s = Some u" "master_ok s"
  shows "distinct (map fst (ms_pools s))" "map_of (ms_pools s) coin = Some u" "pool_ok u" "(coin, v) \<in> set (ms_pools s) \<Longrightarrow> v = u"
  using assms by (auto simp: master_ok_def the_pool_def dest: map_of_SomeD)

lemma ok_submit:
  assumes "the_pool coin s = Some u" "master_ok s"
  shows "master_ok (s\<lparr>ms_pools := at_key coin (\<lambda>v. v\<lparr>up_req := up_req u + 1, up_pending := up_pending v @ [(up_req u + 1, meta)]\<rparr>) (ms_pools s)\<rparr>)"
proof -
  let ?f = "\<lambda>v. v\<lparr>up_req := up_req u + 1, up_pending := up_pending v @ [(up_req u + 1, meta)]\<rparr>"
  note u = pool_of [OF assms]
  have "pool_ok (?f v)" if "(coin, v) \<in> set (ms_pools s)" for v
    using u(3) u(4) [OF that] by (force simp: pool_ok_def)
  then show ?thesis
    using ok_pools [OF assms(2), of coin ?f _ 0 0] assms(2)
      sum_at [OF u(1,2), of "\<lambda>v. up_req v - 1" ?f] sum_at [OF u(1,2), of "\<lambda>v. int (length (up_pending v))" ?f]
    by (simp add: master_ok_def submitted_def open_submits_def)
qed

lemma ok_settle:
  assumes "the_pool coin s = Some u" "rid \<in> fst ` set (up_pending u)" "a + r = (1 :: nat)" "master_ok s"
  shows "master_ok (s\<lparr>ms_pools := at_key coin (\<lambda>v. v\<lparr>up_pending := filter (\<lambda>p. fst p \<noteq> rid) (up_pending v)\<rparr>) (ms_pools s),
        ms_accepted := ms_accepted s + a, ms_rejected := ms_rejected s + r\<rparr>)"
proof (rule ok_pools [OF assms(4) _ _ refl])
  let ?f = "\<lambda>v. v\<lparr>up_pending := filter (\<lambda>p. fst p \<noteq> rid) (up_pending v)\<rparr>"
  note u = pool_of [OF assms(1,4)]
  show "pool_ok (?f v)" if "pool_ok v" for v using that by (auto simp: pool_ok_def distinct_map_filter)
  have "int (length (up_pending (?f u))) = int (length (up_pending u)) - 1"
    using length_filter_key [OF _ assms(2)] u(3) by (simp add: pool_ok_def)
  moreover have "int a + int r = 1" using assms(3) by linarith
  ultimately show "int (ms_accepted s + a + (ms_rejected s + r)) + sum_list (map (\<lambda>(c, u). int (length (up_pending u))) (at_key coin ?f (ms_pools s))) =
      sum_list (map (\<lambda>(c, u). up_req u - 1) (at_key coin ?f (ms_pools s)))"
    using assms(4) sum_at [OF u(1,2), of "\<lambda>v. up_req v - 1" ?f] sum_at [OF u(1,2), of "\<lambda>v. int (length (up_pending v))" ?f]
    by (simp add: master_ok_def submitted_def open_submits_def)
qed

lemma ok_workers:
  assumes "\<And>k. wk_id (f k) = wk_id k \<and> (0 \<le> wk_hash k \<longrightarrow> 0 \<le> wk_hash (f k))" "master_ok s"
  shows "master_ok (s\<lparr>ms_workers := map f (ms_workers s)\<rparr>)"
  using assms by (auto simp: master_ok_def submitted_def open_submits_def comp_def)

lemma ok_new:
  assumes "find_worker (wk_id k) s = None" "wk_hash k = 0" "master_ok s"
  shows "master_ok (s\<lparr>ms_workers := ms_workers s @ [k]\<rparr>)"
  using assms by (auto simp: master_ok_def submitted_def open_submits_def find_worker_def find_None_iff py_eq_def)

lemma ok_fields: "master_ok s \<Longrightarrow> master_ok (s\<lparr>ms_log := last_500 l\<rparr>)" "master_ok s \<Longrightarrow> master_ok (s\<lparr>ms_sent := p\<rparr>)"
  "master_ok s \<Longrightarrow> master_ok (s\<lparr>ms_waiting := ws\<rparr>)" "master_ok s \<Longrightarrow> master_ok (s\<lparr>ms_lines := ls\<rparr>)" "master_ok s \<Longrightarrow> master_ok (s\<lparr>ms_cursor := c\<rparr>)"
  "master_ok s \<Longrightarrow> master_ok (s\<lparr>ms_job := j, ms_cursor := c\<rparr>)" "master_ok s \<Longrightarrow> master_ok (s\<lparr>ms_cfg := g, ms_file := g'\<rparr>)"
  using last_500_bound [of l] by (simp_all add: master_ok_def submitted_def open_submits_def)

interpretation ok: preorder_step keeps_ok
  by unfold_locales (auto simp: keeps_ok_def)

lemma ok_give: "stays keeps_ok (give_segment w nid addr job)"
  unfolding give_segment_def send_packet_def log_event_def upd_worker_def
  by (intro ok.stays_intro ok.stays_change) (auto simp: keeps_ok_def ok_fields intro!: ok_workers)

interpretation invariant: any_step keeps_ok
proof unfold_locales
  show "keeps_ok s (snd (give_segment w nid addr job s))" for s w nid addr job using ok_give by (simp add: stays_def)
qed (auto simp: keeps_ok_def ok_fields ok_new ok_submit ok_settle intro!: ok_workers ok_pools_same)

inductive master_reach :: "master \<Rightarrow> bool" where
  begin_master: "load_mining saved = Some cfg \<Longrightarrow> jget cfg ''coins'' = JObj coins \<Longrightarrow> distinct (map fst coins) \<Longrightarrow>
    start_master (new_master cfg) = (Inr (), s) \<Longrightarrow> master_reach s"
| master_event: "master_reach s \<Longrightarrow> master_reach (snd (handle_event w err e s))"

lemma enabled_keys: "enabled_pools coins = Some ps \<Longrightarrow> distinct (map fst coins) \<Longrightarrow>
    distinct (map fst ps) \<and> fst ` set ps \<subseteq> fst ` set coins \<and> (\<forall>(c, u) \<in> set ps. up_req u = 1 \<and> up_pending u = [])"
proof (induction coins arbitrary: ps)
  case (Cons x coins)
  obtain coin v where x: "x = (coin, v)" by fastforce
  obtain c qs where q: "v = JObj c" "enabled_pools coins = Some qs" "ps = (if truthy (jget c ''enabled'') then (coin, new_upstream c) # qs else qs)"
    using Cons.prems(1) x by (auto split: json.split_asm)
  have "distinct (map fst qs) \<and> fst ` set qs \<subseteq> fst ` set coins \<and> (\<forall>(c, u) \<in> set qs. up_req u = 1 \<and> up_pending u = [])"
    using Cons.IH [OF q(2)] Cons.prems(2) by simp
  then show ?case using Cons.prems(2) x by (auto simp: q(3) new_upstream_def)
qed simp

lemma no_submissions: "\<forall>(c, u) \<in> set ps. up_req u = 1 \<and> up_pending u = [] \<Longrightarrow>
    sum_list (map (\<lambda>(c, u). up_req u - 1) ps) = 0 \<and> sum_list (map (\<lambda>(c, u). int (length (up_pending u))) ps) = 0"
  by (induction ps) auto

lemma reach_master_ok: "master_reach s \<Longrightarrow> master_ok s"
proof (induction rule: master_reach.induct)
  case (begin_master saved cfg coins s)
  then obtain ps where ps: "enabled_pools coins = Some ps" "s = (new_master cfg)\<lparr>ms_started := True, ms_ready := True, ms_pools := ps\<rparr>"
    by (auto simp: start_master_def new_master_def Let_def split: option.split_asm)
  show ?case
    using enabled_keys [OF ps(1) begin_master(3)] no_submissions [of ps]
    by (auto simp: ps(2) master_ok_def submitted_def open_submits_def new_master_def pool_ok_def)
next
  case (master_event s w err e)
  then show ?case using invariant.stays_any by (auto simp: stays_def keeps_ok_def)
qed

text \<open>C17: Every submission to a pool is accounted for exactly once: in every reachable state of the master, whatever workers and
  pools send, the shares counted as accepted and rejected together with the unanswered submissions are as many as the
  submissions; the ids in use are different; the event log holds at most 500 entries; no worker is listed twice, and no hash
  rate is negative.
\<close>
theorem shares_are_accounted_once:
  assumes "master_reach s"
  shows "int (ms_accepted s + ms_rejected s) + open_submits s = submitted s \<and>
    (\<forall>(c, u) \<in> set (ms_pools s). distinct (map fst (up_pending u))) \<and> int (length (ms_log s)) \<le> 500 \<and>
    distinct (map (\<lambda>k. py_norm (wk_id k)) (ms_workers s)) \<and> (\<forall>k \<in> set (ms_workers s). 0 \<le> wk_hash k)"
  using reach_master_ok [OF assms] by (auto simp: master_ok_def pool_ok_def)

section \<open>Nonce segments\<close>

text \<open>The segments handed out, as the workers read them from their packets.\<close>

definition handed :: "master \<Rightarrow> (json \<times> json) list" where
  "handed s = map (\<lambda>p. (jget (sp_payload p) ''nonce_start'', jget (sp_payload p) ''nonce_count''))
     (filter (\<lambda>p. sp_type p = type_job) (ms_sent s))"

definition segment :: "int \<Rightarrow> nat \<Rightarrow> json \<times> json" where
  "segment n c = (JStr (py_hex (int c * n)), JInt n)"

definition hands_on :: "int \<Rightarrow> master \<Rightarrow> master \<Rightarrow> bool" where
  "hands_on n s s' \<longleftrightarrow> (segment_size (ms_cfg s) = Some n \<longrightarrow>
     segment_size (ms_cfg s') = Some n \<and> ms_cursor s \<le> ms_cursor s' \<and>
     (\<exists>cs. handed s' = handed s @ map (segment n) cs \<and> sorted_wrt (<) cs \<and> (\<forall>c \<in> set cs. ms_cursor s \<le> c \<and> c < ms_cursor s')))"

lemma hands_on_same: "ms_cfg s' = ms_cfg s \<Longrightarrow> ms_cursor s \<le> ms_cursor s' \<Longrightarrow> handed s' = handed s \<Longrightarrow> hands_on n s s'"
  by (auto simp: hands_on_def intro: exI [of _ "[]"])

lemma hands_on_trans: "hands_on n s t \<Longrightarrow> hands_on n t u \<Longrightarrow> hands_on n s u"
  unfolding hands_on_def
proof
  assume st: "segment_size (ms_cfg s) = Some n \<longrightarrow> segment_size (ms_cfg t) = Some n \<and> ms_cursor s \<le> ms_cursor t \<and>
     (\<exists>cs. handed t = handed s @ map (segment n) cs \<and> sorted_wrt (<) cs \<and> (\<forall>c \<in> set cs. ms_cursor s \<le> c \<and> c < ms_cursor t))"
    and tu: "segment_size (ms_cfg t) = Some n \<longrightarrow> segment_size (ms_cfg u) = Some n \<and> ms_cursor t \<le> ms_cursor u \<and>
     (\<exists>cs. handed u = handed t @ map (segment n) cs \<and> sorted_wrt (<) cs \<and> (\<forall>c \<in> set cs. ms_cursor t \<le> c \<and> c < ms_cursor u))"
    and s: "segment_size (ms_cfg s) = Some n"
  obtain cs where cs: "handed t = handed s @ map (segment n) cs" "sorted_wrt (<) cs" "\<forall>c \<in> set cs. ms_cursor s \<le> c \<and> c < ms_cursor t"
    using st s by blast
  obtain ds where ds: "handed u = handed t @ map (segment n) ds" "sorted_wrt (<) ds" "\<forall>c \<in> set ds. ms_cursor t \<le> c \<and> c < ms_cursor u"
    using st tu s by blast
  have "sorted_wrt (<) (cs @ ds)" using cs ds by (fastforce simp: sorted_wrt_append)
  moreover have "handed u = handed s @ map (segment n) (cs @ ds)" using cs ds by simp
  moreover have "\<forall>c \<in> set (cs @ ds). ms_cursor s \<le> c \<and> c < ms_cursor u" using cs ds st tu s by fastforce
  ultimately show "segment_size (ms_cfg u) = Some n \<and> ms_cursor s \<le> ms_cursor u \<and>
     (\<exists>cs. handed u = handed s @ map (segment n) cs \<and> sorted_wrt (<) cs \<and> (\<forall>c \<in> set cs. ms_cursor s \<le> c \<and> c < ms_cursor u))"
    using st tu s by (meson le_trans)
qed

interpretation handing: preorder_step "hands_on n" for n
  by unfold_locales (auto simp: hands_on_same intro: hands_on_trans)

lemma handed_segment: "handed (s\<lparr>ms_sent := ms_sent s @ [\<lparr>sp_type = type_job, sp_payload = segment_job job nid (int c * n) n, sp_bytes = b, sp_addr = a\<rparr>]\<rparr>) =
    handed s @ [segment n c]"
  by (simp add: handed_def segment_def segment_job_def update_from_def)

lemma hands_on_give: "hands_on n s (snd (give_segment w nid addr job s))"
proof (cases "segment_size (ms_cfg s) = Some n")
  case True
  let ?c = "ms_cursor s"
  let ?s1 = "s\<lparr>ms_cursor := ?c + 1\<rparr>\<lparr>ms_workers := map (\<lambda>k. if py_eq (wk_id k) nid then k\<lparr>wk_job := jget job ''job_id''\<rparr> else k) (ms_workers s)\<rparr>"
  show ?thesis
  proof (cases "tep_pack type_job (segment_job job nid (int ?c * n) n)")
    case None
    then have "snd (give_segment w nid addr job s) = ?s1"
      using True by (simp add: give_segment_def st_bind_def look_def demand_def change_def upd_worker_def send_packet_def quit_def)
    then show ?thesis by (simp add: hands_on_same handed_def)
  next
    case (Some b)
    let ?p = "\<lparr>sp_type = type_job, sp_payload = segment_job job nid (int ?c * n) n, sp_bytes = b, sp_addr = addr\<rparr>"
    obtain l where "snd (give_segment w nid addr job s) = ?s1\<lparr>ms_sent := ms_sent ?s1 @ [?p]\<rparr>\<lparr>ms_log := l\<rparr>"
      using True Some by (simp add: give_segment_def st_bind_def look_def demand_def change_def upd_worker_def send_packet_def log_event_def)
    moreover have "handed (?s1\<lparr>ms_sent := ms_sent ?s1 @ [?p]\<rparr>\<lparr>ms_log := l\<rparr>) = handed s @ map (segment n) [?c]"
      using handed_segment [of s job nid ?c n b addr] by (simp add: handed_def)
    moreover have "sorted_wrt (<) [?c]" by simp
    ultimately show ?thesis using True unfolding hands_on_def by (intro impI conjI exI [of _ "[?c]"]) simp_all
  qed
qed (simp add: hands_on_def)

interpretation segments: mining_step "hands_on n" for n
  by unfold_locales (auto intro: hands_on_same hands_on_give simp: handed_def)

lemma segments_run:
  assumes "\<And>w err e. (w, err, e) \<in> set es \<Longrightarrow> keeps_job e"
  shows "hands_on n s (run_events es s)"
  using assms
proof (induction es s rule: run_events.induct)
  case (2 w err e es s)
  have "keeps_job e" using 2(2) [of w err e] by simp
  then have "hands_on n s (snd (handle_event w err e s))" using segments.stays_kept unfolding stays_def by blast
  moreover have "hands_on n (snd (handle_event w err e s)) (run_events es (snd (handle_event w err e s)))"
    by (rule 2(1)) (use 2(2) in auto)
  ultimately show ?case by (simp add: hands_on_trans)
qed (simp add: handing.R_refl)

lemma new_job_run: "hands_on n (s\<lparr>ms_job := Some job, ms_cursor := 0\<rparr>) (snd (on_new_job w job s))"
proof -
  have "stays (hands_on n) (st_bind (log_event w ''job'' job) (\<lambda>_. st_bind (look (\<lambda>s. map wk_id (ms_workers s))) (\<lambda>ids. give_all w ids)))"
    by (intro handing.stays_intro segments.stays_log segments.stays_give_all)
  then show ?thesis by (simp add: stays_def on_new_job_def st_bind_def [of "change _"] change_def)
qed

lemma segments_apart:
  assumes "sorted_wrt (<) cs" "0 < n" "i < j" "j < length cs"
  shows "{int (cs ! i) * n ..< int (cs ! i) * n + n} \<inter> {int (cs ! j) * n ..< int (cs ! j) * n + n} = {}"
proof -
  have "int (cs ! i) + 1 \<le> int (cs ! j)" using assms sorted_wrt_nth_less [of "(<)" cs i j] by simp
  then have "(int (cs ! i) + 1) * n \<le> int (cs ! j) * n" using assms(2) by (intro mult_right_mono) auto
  then show ?thesis by (auto simp: algebra_simps)
qed


section \<open>Packets\<close>

fun printable_value :: "json \<Rightarrow> bool" where
  "printable_value (JStr s) = printable s"
| "printable_value (JList xs) = (\<forall>x \<in> set xs. printable_value x)"
| "printable_value (JObj kvs) = (\<forall>kv \<in> set kvs. printable (fst kv) \<and> printable_value (snd kv))"
| "printable_value v = True"

lemma dump_ascii_printable: "printable_value v \<Longrightarrow> dump_ascii v = dump v"
proof (induction v rule: printable_value.induct)
  case (2 xs)
  then have "map dump_ascii xs = map dump xs" by simp
  then show ?case by (simp only: dump_ascii.simps dump.simps)
next
  case (3 kvs)
  then have "map (\<lambda>kv. ascii_json (fst kv) @ CHR '':'' # dump_ascii (snd kv)) kvs = map (\<lambda>kv. json_string (fst kv) @ CHR '':'' # dump (snd kv)) kvs"
    by (auto simp: ascii_json_printable)
  then show ?case by (simp only: dump_ascii.simps dump.simps)
qed (simp_all add: ascii_json_printable)

text \<open> A packet the master packs is read back by the other side: \<open>tep_unpack\<close> gives the same type and the same payload, for
  every payload of printable texts within the size limit; a payload over the limit is refused, never cut.
\<close>
theorem master_packet_round_trip:
  assumes "tep_pack ty payload = Some b" "ty < 256" "plain (JObj payload)" "printable_value (JObj payload)"
  shows "tep_unpack b = Packet ty (JObj payload)"
proof -
  define body where "body = utf8_encode (dump (JObj payload))"
  let ?n = "int (length body)"
  have n: "?n \<le> 65535" and b: "b = ''HBT1'' @ [char_of ty, char_of (?n div 256), char_of (?n mod 256)] @ body"
    using assms(1) unfolding tep_pack_def dump_ascii_printable [OF assms(4)] body_def [symmetric]
    by (auto simp: Let_def split: if_split_asm)
  have byte: "(of_char (char_of k :: char) :: int) = k mod 256" for k :: int by simp
  have "?n div 256 mod 256 = ?n div 256" using n by simp
  moreover have "b ! 5 = char_of (?n div 256)" "b ! 6 = char_of (?n mod 256)" unfolding b by simp_all
  ultimately have len: "(of_char (b ! 5) :: int) * 256 + of_char (b ! 6) = ?n" by (simp only: byte mod_mod_trivial div_mult_mod_eq)
  have "take (length body) (drop 7 b) = body" "take 4 b = ''HBT1''" "\<not> length b < 7" "int (length b) - 7 = ?n" "(of_char (b ! 4) :: nat) = ty"
    using b assms(2) by simp_all
  moreover have "loads_bytes body = Inr (JObj payload)"
    unfolding body_def loads_bytes_def utf8_round_trip by (simp add: loads_dump [OF assms(3)] del: dump.simps)
  ultimately show ?thesis unfolding tep_unpack_def by (simp add: len)
qed

text \<open> A datagram that is not a well-formed packet, or whose content is not a JSON object, changes nothing: no worker is
  listed, no share counted, no packet or line sent.
\<close>
theorem malformed_packet_changes_nothing:
  assumes "\<And>ty payload. tep_unpack data \<noteq> Packet ty (JObj payload)"
  shows "snd (datagram_received w data addr s) = s"
  using assms by (cases "tep_unpack data") (auto simp: datagram_received_def handle_packet_def quit_def split: json.split)

end
