(* ===== verification/Master_Examples.thy ===== *)
theory Master_Examples
  imports Master_Safety
begin

text \<open>A concrete run of the mining master, the properties of \<open>Master_Safety\<close> on it, and behaviours worth knowing.\<close>

section \<open>A run\<close>

definition quoted :: "string \<Rightarrow> string" where "quoted s = map (\<lambda>c. if c = CHR 0x27 then CHR 0x22 else c) s"

definition mine_config :: jobj where
  "mine_config = [(''network'', JStr ''n''), (''tep_host'', JStr ''h''), (''tep_port'', JInt 1), (''api_port'', JInt 2),
     (''coins'', JObj [(''XMR'', JObj [(''enabled'', JBool True), (''pool_host'', JStr ''p''), (''pool_port'', JInt 3), (''wallet'', JStr ''w'')])]),
     (''segmentation'', JObj [(''nonce_segment_size'', JInt 10)])]"

definition mine_world :: "py_float \<Rightarrow> master_world" where
  "mine_world t = \<lparr>mw_now = t, mw_repr = (\<lambda>_. ''1.0''), mw_uuid = ''abcd1234''\<rparr>"

definition mine_start :: master where "mine_start = snd (start_master (new_master mine_config))"

definition packet_of :: "nat \<Rightarrow> jobj \<Rightarrow> string" where "packet_of ty d = the (tep_pack ty d)"

definition got :: "py_float \<Rightarrow> nat \<Rightarrow> jobj \<Rightarrow> master_world \<times> string \<times> master_event" where
  "got t ty d = (mine_world t, [], Got_datagram (packet_of ty d) (''10.0.0.1'', 7))"

definition login_line :: string where
  "login_line = quoted (''{'' @ [CHR 0x27] @ ''id'' @ [CHR 0x27] @ '':1,'' @ [CHR 0x27] @ ''result'' @ [CHR 0x27] @ '':{'' @ [CHR 0x27] @ ''id'' @ [CHR 0x27] @ '':1}}'')"

definition accept_line :: string where
  "accept_line = quoted (''{'' @ [CHR 0x27] @ ''id'' @ [CHR 0x27] @ '':2,'' @ [CHR 0x27] @ ''result'' @ [CHR 0x27] @ '':1}'')"

definition share_payload :: jobj where
  "share_payload = [(''node_id'', JStr ''a''), (''job_id'', JStr ''j''), (''type'', JStr ''share_accepted'')]"

definition mine_events :: "(master_world \<times> string \<times> master_event) list" where
  "mine_events = [(mine_world 1, [], Pool_connected ''XMR''), (mine_world 1, [], Pool_line ''XMR'' login_line), got 2 type_register [(''node_id'', JStr ''a'')],
     got 3 type_share share_payload, (mine_world 3, [], Share_resumes 0 None), (mine_world 4, [], Pool_line ''XMR'' accept_line)]"

definition mine_end :: master where "mine_end = run_events mine_events mine_start"

definition run_summary :: "master \<Rightarrow> nat \<times> nat \<times> int \<times> int \<times> int option \<times> nat list \<times> json list \<times> (json \<times> json) list" where
  "run_summary s = (ms_accepted s, ms_rejected s, submitted s, open_submits s, segment_size (ms_cfg s), map wk_shares (ms_workers s),
     map (\<lambda>e. jget e ''type'') (ms_log s), handed s)"

lemma mine_outcome: "run_summary mine_end = (1, 0, 1, 0, Some 10, [1],
    [JStr ''stratum_connected'', JStr ''stratum_tx'', JStr ''stratum_rx'', JStr ''register'', JStr ''share_accepted'', JStr ''stratum_tx'',
     JStr ''stratum_rx'', JStr ''share_accepted''], [])"
  by code_simp

lemma run_reach: "master_reach s \<Longrightarrow> master_reach (run_events es s)"
  by (induction es s rule: run_events.induct) (auto intro: master_reach.intros)

lemma mine_reach: "master_reach mine_end"
proof -
  let ?coins = "[(''XMR'', JObj [(''enabled'', JBool True), (''pool_host'', JStr ''p''), (''pool_port'', JInt 3), (''wallet'', JStr ''w'')])]"
  have "load_mining (Some (JObj mine_config)) = Some mine_config" "jget mine_config ''coins'' = JObj ?coins" by code_simp+
  moreover have "distinct (map fst ?coins)" by simp
  moreover have "start_master (new_master mine_config) = (Inr (), mine_start)" unfolding mine_start_def by code_simp
  ultimately have "master_reach mine_start" by (rule master_reach.begin_master)
  then show ?thesis unfolding mine_end_def by (rule run_reach)
qed

theorem shares_are_accounted_once_witness:
  "int (ms_accepted mine_end + ms_rejected mine_end) + open_submits mine_end = submitted mine_end \<and> submitted mine_end = 1"
  using shares_are_accounted_once [OF mine_reach] mine_outcome by (simp add: run_summary_def)

section \<open>Segments\<close>

definition mine_job :: jobj where "mine_job = [(''job_id'', JStr ''j'')]"

definition more_events :: "(master_world \<times> string \<times> master_event) list" where
  "more_events = [got 5 type_share share_payload, (mine_world 5, [], Share_resumes 0 None), got 6 type_heartbeat [(''node_id'', JStr ''b'')]]"

definition mine_after :: master where "mine_after = run_events more_events (snd (on_new_job (mine_world 4) mine_job mine_end))"

lemma more_outcome: "(case run_summary mine_after of (a, r, n, u, g, k, l, h) \<Rightarrow> h) =
    [(JStr ''0x0'', JInt 10), (JStr ''0xa'', JInt 10), (JStr ''0x14'', JInt 10)]"
  by code_simp


theorem master_packet_round_trip_witness:
  "tep_unpack (packet_of 17 mine_job) = Packet 17 (JObj mine_job)"
proof -
  have "tep_pack 17 mine_job = Some (packet_of 17 mine_job)" by code_simp
  then show ?thesis by (rule master_packet_round_trip) (simp_all add: mine_job_def printable_def)
qed

theorem malformed_packet_changes_nothing_witness:
  "snd (datagram_received (mine_world 1) ''HBT1x'' (''10.0.0.1'', 7) mine_end) = mine_end"
proof (rule malformed_packet_changes_nothing)
  show "tep_unpack ''HBT1x'' \<noteq> Packet ty (JObj payload)" for ty payload by (simp add: tep_unpack_def)
qed

section \<open>Behaviours worth knowing\<close>

text \<open>The entry of a share takes its type from the worker's message: the share of the run above is logged as accepted twice,
  once before the pool was asked (\<open>mine_outcome\<close>).\<close>

text \<open>A worker with a long id stops every new job: the job does not fit into its packet, the exception ends the loop over the
  workers before any other is served, and drops the pool connection that brought the job.\<close>

lemma length_join: "x \<in> set xs \<Longrightarrow> length x \<le> length (join sep xs)"
  by (induction sep xs rule: join.induct) auto

lemma length_dump_member:
  assumes "(k, v) \<in> set d"
  shows "length (dump_ascii v) \<le> length (dump_ascii (JObj d))"
proof -
  let ?m = "\<lambda>kv. ascii_json (fst kv) @ CHR '':'' # dump_ascii (snd kv)"
  have "?m (k, v) \<in> set (map ?m d)" using imageI [OF assms, of ?m] by simp
  then have "length (?m (k, v)) \<le> length (join '','' (map ?m d))" by (rule length_join)
  then show ?thesis by simp
qed

lemma length_utf8: "length s \<le> length (utf8_encode s)"
  by (induction s) (auto simp: utf8_encode_def utf8_char_def Let_def)

lemma map_of_put: "map_of (put_key k v d) k' = (if k' = k then Some v else map_of d k')"
  by (simp add: map_of_put_key)

lemma long_id_has_no_packet:
  assumes "65535 < int (length (ascii_json t))"
  shows "tep_pack ty (segment_job job (JStr t) start n) = None"
proof -
  have "(''node_id'', JStr t) \<in> set (segment_job job (JStr t) start n)"
    by (rule map_of_SomeD) (simp add: segment_job_def update_from_def map_of_put)
  then have "length (ascii_json t) \<le> length (dump_ascii (JObj (segment_job job (JStr t) start n)))" using length_dump_member by fastforce
  then show ?thesis using assms length_utf8 [of "dump_ascii (JObj (segment_job job (JStr t) start n))"] by (simp add: tep_pack_def Let_def)
qed

lemma long_id_stops_every_job:
  assumes "ms_workers s = k # ks" "wk_id k = JStr t" "65535 < int (length (ascii_json t))" "mw_now w - wk_seen k \<le> worker_timeout"
    and "ms_ready s" "segment_size (ms_cfg s) = Some n"
  shows "fst (on_new_job w job s) = Inl [] \<and> ms_sent (snd (on_new_job w job s)) = ms_sent s"
  using assms long_id_has_no_packet [OF assms(3)]
  by (simp add: on_new_job_def st_bind_def change_def look_def log_event_def upd_worker_def find_worker_def py_eq_def dispatch_segment_def
      give_segment_def demand_def send_packet_def quit_def)

text \<open>A submission that finds the pool disconnected stays in the table of pending submissions for ever.\<close>

lemma failed_submit_stays_pending:
  assumes "the_pool coin s = Some u" "\<not> up_connected u"
  shows "fst (submit_share w coin nid jid nonce result s) = Inl ''Stratum writer unavailable'' \<and>
    (\<exists>u' meta. the_pool coin (snd (submit_share w coin nid jid nonce result s)) = Some u' \<and> up_pending u' = up_pending u @ [(up_req u + 1, meta)])"
proof -
  have at: "map_of (at_key coin f xs) coin = map_option f (map_of xs coin)" for f and xs :: "(string \<times> pool_link) list"
    by (induction xs) auto
  show ?thesis
    using assms by (simp add: submit_share_def st_bind_def look_def demand_def upd_pool_def change_def Let_def send_line_def the_pool_def at)
qed

text \<open>The configuration page saves what the next start refuses.\<close>

lemma posted_config_blocks_restart:
  "load_mining (Some (JObj (ms_file (snd (post_config [(''segmentation'', JObj [])] s))))) = None"
  by (auto simp: load_mining_def post_config_def change_def update_from_def jget_def_to_def py_or_def split: json.split)

text \<open>A segment size posted during a job takes effect at once, without the restart the answer asks for, and hands nonces out twice.\<close>

definition resized :: master where
  "resized = run_events [got 5 type_stats [(''node_id'', JStr ''a''), (''job_id'', JStr ''j''), (''event'', JStr ''segment_done'')],
     (mine_world 5, [], Config_posted [(''segmentation'', JObj [(''nonce_segment_size'', JInt 5)])]),
     got 6 type_stats [(''node_id'', JStr ''a''), (''job_id'', JStr ''j''), (''event'', JStr ''segment_done'')]]
     (snd (on_new_job (mine_world 4) mine_job mine_end))"

lemma posted_size_repeats_nonces:
  "(case run_summary resized of (a, r, n, u, g, k, l, h) \<Rightarrow> h) = [(JStr ''0x0'', JInt 10), (JStr ''0xa'', JInt 10), (JStr ''0xa'', JInt 5)]"
  by code_simp

end
