(* ===== verification/Accelerator.thy ===== *)
theory Accelerator
  imports Json_Text "HOL-Library.Product_Lexorder"
begin

text \<open>
  The mining accelerator \<open>tools/accelerator/accelerator.py\<close>: the collection of worker telemetry into its SQLite
  tables, and the evaluation of a policy over them. SHA-256, HMAC, \<open>repr\<close> of a computed float and the square root are
  an argument (\<open>accel_env\<close>). A table with a primary key that is only read by that key is a map. A sample keeps the text
  of its payload, which \<open>recommend\<close> parses again; a field of a type no collector writes there counts as a
  \<open>TypeError\<close>. The exceptions are told apart because \<open>collect\<close> catches only some of them.
\<close>

datatype fault = Value_error string | Key_error | Type_error | Attribute_error | Overflow_error | Os_error

record accel_env =
  hmac_hex :: "string \<Rightarrow> string \<Rightarrow> string"
  sha_hex :: "string \<Rightarrow> string"
  float_repr :: "py_float \<Rightarrow> string"
  square_root :: "py_float \<Rightarrow> py_float"

record sample_row =
  sample_worker :: string
  sample_time :: int
  sample_profile :: string
  sample_payload :: string

record accel_db =
  samples :: "sample_row list"
  collections :: "int \<rightharpoonup> string"
  worker_health :: "string \<rightharpoonup> int \<times> bool"
  local_salt :: "string option"

text \<open>\<open>CREATE TABLE IF NOT EXISTS\<close>, and \<open>INSERT OR IGNORE\<close> of the salt.\<close>

definition fresh_accel_db :: accel_db where
  "fresh_accel_db = \<lparr>samples = [], collections = Map.empty, worker_health = Map.empty, local_salt = None\<rparr>"

definition open_database :: "string \<Rightarrow> accel_db option \<Rightarrow> accel_db" where
  "open_database random stored =
     (let db = (case stored of None \<Rightarrow> fresh_accel_db | Some d \<Rightarrow> d)
      in case local_salt db of None \<Rightarrow> db\<lparr>local_salt := Some random\<rparr> | Some s \<Rightarrow> db)"

section \<open>Values\<close>

text \<open>\<open>d[k]\<close> of a dictionary, and of any parsed value.\<close>

definition item :: "jobj \<Rightarrow> string \<Rightarrow> fault + json" where
  "item d k = (case map_of d k of None \<Rightarrow> Inl Key_error | Some v \<Rightarrow> Inr v)"

definition item_of :: "json \<Rightarrow> string \<Rightarrow> fault + json" where
  "item_of v k = (case v of JObj d \<Rightarrow> item d k | _ \<Rightarrow> Inl Type_error)"

definition items_of :: "json \<Rightarrow> fault + json list" where
  "items_of v = (case py_iter v of None \<Rightarrow> Inl Type_error | Some xs \<Rightarrow> Inr xs)"

definition num_val :: "json \<Rightarrow> py_float" where
  "num_val v = (case as_num v of None \<Rightarrow> 0 | Some x \<Rightarrow> x)"

text \<open>\<open>math.isfinite\<close> converts an integer to a double first and raises \<open>OverflowError\<close> where that is impossible.\<close>

definition double_limit :: int where "double_limit = 2 ^ 1024 - 2 ^ 970"

lemma double_limit_value [code]:
  "double_limit = 0xFFFFFFFFFFFFFC00000000000000000000000000000000000000000000000000000000000000000000000000000000000000000000000000000000000000000000000000000000000000000000000000000000000000000000000000000000000000000000000000000000000000000000000000000000000000000000000000"
  by (simp add: double_limit_def)

definition number_message :: string where "number_message = ''invalid finite numeric telemetry''"

fun number :: "json \<Rightarrow> fault + json" where
  "number (JInt k) =
     (if double_limit \<le> \<bar>k\<bar> then Inl Overflow_error
      else if k < 0 then Inl (Value_error number_message) else Inr (JInt k))"
| "number (JFloat x t) = (if x < 0 then Inl (Value_error number_message) else Inr (JFloat x t))"
| "number v = Inl (Value_error number_message)"

text \<open>\<open>a + b\<close> of two numbers.\<close>

fun num_add :: "accel_env \<Rightarrow> json \<Rightarrow> json \<Rightarrow> json" where
  "num_add e (JInt a) (JInt b) = JInt (a + b)"
| "num_add e a b = (let x = num_val a + num_val b in JFloat x (float_repr e x))"

definition digits_message :: string where
  "digits_message = ''Exceeds the limit (4300 digits) for integer string conversion; use sys.set_int_max_str_digits() to increase the limit''"

definition canonical_text :: "json \<Rightarrow> string" where
  "canonical_text v = dump_ascii (sort_keys v)"

definition canonical :: "json \<Rightarrow> fault + string" where
  "canonical v = (if ints_short v then Inr (canonical_text v) else Inl (Value_error digits_message))"

definition digest :: "accel_env \<Rightarrow> json \<Rightarrow> fault + string" where
  "digest e v = bind_r (canonical v) (\<lambda>t. Inr (sha_hex e t))"

fun short_text :: "json \<Rightarrow> bool" where
  "short_text (JStr s) = (s \<noteq> [] \<and> length s \<le> 128)"
| "short_text v = False"

definition strings :: "json \<Rightarrow> fault + json list" where
  "strings v =
     (case v of JList xs \<Rightarrow> if xs \<noteq> [] \<and> list_all short_text xs then Inr xs else Inl (Value_error ''expected nonempty string list'')
      | _ \<Rightarrow> Inl (Value_error ''expected nonempty string list''))"

section \<open>Endpoints\<close>

text \<open>\<open>urlsplit\<close> gives the scheme, the user and the password; \<open>None\<close> of the answer is an \<open>URLError\<close>, and a
  redirect raises \<open>ValueError\<close> in the opener.\<close>

datatype fetched = No_reply | Redirected | Body string

definition max_bytes :: nat where "max_bytes = 16 * 1024 * 1024"

definition fetch_json :: "(string \<Rightarrow> string \<times> string option \<times> string option) \<Rightarrow> (string \<Rightarrow> fetched) \<Rightarrow> string \<Rightarrow> fault + json" where
  "fetch_json split answer url =
     (case split url of (scheme, user, password) \<Rightarrow>
        if scheme \<noteq> ''https'' \<or> user \<notin> {None, Some []} \<or> password \<notin> {None, Some []}
        then Inl (Value_error ''HTTPS endpoint required without embedded credentials'')
        else case answer url of
          No_reply \<Rightarrow> Inl Os_error
        | Redirected \<Rightarrow> Inl (Value_error ''API redirects refused'')
        | Body raw \<Rightarrow>
            (let data = take (max_bytes + 1) raw
             in if max_bytes < length data then Inl (Value_error ''API response exceeds limit'')
                else case loads_bytes data of Inl _ \<Rightarrow> Inl (Value_error []) | Inr v \<Rightarrow> Inr v))"

section \<open>Normalization of one worker\<close>

definition identity_of :: "jobj \<Rightarrow> json list" where
  "identity_of worker = [jget worker ''user'', jget worker ''worker'', jget worker ''machinename'']"

definition worker_key :: "accel_env \<Rightarrow> string \<Rightarrow> jobj \<Rightarrow> fault + string" where
  "worker_key e salt worker = bind_r (canonical (JList (identity_of worker))) (\<lambda>t. Inr (hmac_hex e salt t))"

fun named :: "json \<Rightarrow> bool" where
  "named (JStr s) = (s \<noteq> [])"
| "named v = False"

text \<open>\<open>v in (None, 0, False, '')\<close>\<close>

definition no_alert :: "json \<Rightarrow> bool" where
  "no_alert v \<longleftrightarrow> v = JNull \<or> as_num v = Some 0 \<or> v = JStr []"

text \<open>One device: the hottest reading so far and the slots.\<close>

definition scan_device :: "json \<times> json list \<Rightarrow> json \<Rightarrow> fault + json \<times> json list" where
  "scan_device acc device =
     (case acc of (temp, slots) \<Rightarrow>
       bind_r (item_of device ''Id'') (\<lambda>i.
       bind_r (item_of device ''Name'') (\<lambda>n.
         let slots' = slots @ [JObj [(''id'', JStr (py_str i)), (''name'', JStr (py_str n))]];
             reading = (case device of JObj d \<Rightarrow> jget d ''Temp'' | _ \<Rightarrow> JNull)
         in case number reading of
              Inl (Value_error _) \<Rightarrow> Inr (temp, slots')
            | Inl f \<Rightarrow> Inl f
            | Inr measured \<Rightarrow>
                Inr (if 0 < num_val measured \<and> num_val temp < num_val measured then measured else temp, slots'))))"

fun scan_devices :: "json \<times> json list \<Rightarrow> json list \<Rightarrow> fault + json \<times> json list" where
  "scan_devices acc [] = Inr acc"
| "scan_devices acc (d # ds) = bind_r (scan_device acc d) (\<lambda>acc'. scan_devices acc' ds)"

fun sum_numbers :: "accel_env \<Rightarrow> json \<Rightarrow> json list \<Rightarrow> fault + json" where
  "sum_numbers e acc [] = Inr acc"
| "sum_numbers e acc (v # vs) = bind_r (number v) (\<lambda>n. sum_numbers e (num_add e acc n) vs)"

definition share_total :: "accel_env \<Rightarrow> jobj \<Rightarrow> string \<Rightarrow> fault + json" where
  "share_total e miner field =
     (case jget miner field of
        JList (v # vs) \<Rightarrow> sum_numbers e (JInt 0) (v # vs)
      | _ \<Rightarrow> Inl (Value_error ''missing share counters''))"

record tally =
  hottest :: json
  workload :: "json list"
  revenue :: json
  accepted_shares :: json
  rejected_shares :: json

definition add_miner :: "accel_env \<Rightarrow> tally \<Rightarrow> json \<Rightarrow> fault + tally" where
  "add_miner e t m =
     (case m of
        JObj miner \<Rightarrow>
          if jget miner ''Benchmarking'' \<noteq> JBool False \<or> jget miner ''Donator'' \<noteq> JBool False
          then Inl (Value_error ''benchmark or donation workload'')
          else
            bind_r (items_of (jget_def_to miner ''Devices'' (JList []))) (\<lambda>devices.
            bind_r (scan_devices (hottest t, []) devices) (\<lambda>(hot, slots).
              if slots = [] then Inl (Value_error ''missing device inventory'')
              else if num_val hot \<le> 0 then Inl (Value_error ''missing measured device temperature'')
              else
                bind_r (item miner ''Name'') (\<lambda>name.
                bind_r (item miner ''Version'') (\<lambda>version.
                bind_r (bind_r (item miner ''Algorithm'') strings) (\<lambda>algorithms.
                bind_r (bind_r (item miner ''Pool'') strings) (\<lambda>pools.
                bind_r (bind_r (item miner ''BTC/day'') number) (\<lambda>btc.
                bind_r (share_total e miner ''Accepted'') (\<lambda>good.
                bind_r (share_total e miner ''Rejected'') (\<lambda>bad.
                bind_r (share_total e miner ''Stale'') (\<lambda>stale.
                  Inr \<lparr>hottest = hot,
                       workload = workload t @ [JObj [(''miner'', JStr (py_str name)), (''version'', JStr (py_str version)),
                         (''algorithms'', JList algorithms), (''pools'', JList pools),
                         (''devices'', JList (sort_key canonical_text slots))]],
                       revenue = num_add e (revenue t) btc, accepted_shares = num_add e (accepted_shares t) good,
                       rejected_shares = num_add e (num_add e (rejected_shares t) bad) stale\<rparr>))))))))))
      | _ \<Rightarrow> Inl Attribute_error)"

fun add_miners :: "accel_env \<Rightarrow> tally \<Rightarrow> json list \<Rightarrow> fault + tally" where
  "add_miners e t [] = Inr t"
| "add_miners e t (m # ms) = bind_r (add_miner e t m) (\<lambda>t'. add_miners e t' ms)"

definition devices_in :: "json \<Rightarrow> json" where
  "devices_in entry = (case entry of JObj d \<Rightarrow> jget d ''devices'' | _ \<Rightarrow> JNull)"

record normal_row =
  row_worker :: string
  row_sampled :: int
  row_profile :: string
  row_hardware :: string
  row_tally :: tally
  row_watts :: json

definition row_json :: "normal_row \<Rightarrow> json" where
  "row_json r =
     JObj [(''worker'', JStr (row_worker r)), (''sampled'', JInt (row_sampled r)), (''profile'', JStr (row_profile r)),
       (''hardware'', JStr (row_hardware r)), (''workload'', JList (workload (row_tally r))),
       (''estimated_btc_day'', revenue (row_tally r)), (''watts'', row_watts r), (''temperature_c'', hottest (row_tally r)),
       (''temperature_source'', JStr ''device_temp_v1''), (''accepted'', accepted_shares (row_tally r)),
       (''rejected_or_stale'', rejected_shares (row_tally r))]"

definition stale_worker :: "jobj \<Rightarrow> int \<Rightarrow> int \<Rightarrow> int \<Rightarrow> bool" where
  "stale_worker worker seen now max_age \<longleftrightarrow>
     now + 30 < seen \<or> max_age < now - seen \<or> jget worker ''online'' \<noteq> JBool True \<or> jget worker ''status'' \<noteq> JStr ''Running''"

definition alerted :: "jobj \<Rightarrow> bool" where
  "alerted worker \<longleftrightarrow> list_ex (\<lambda>k. \<not> no_alert (jget worker k)) [''tempalert'', ''crashalert'', ''uncleanalert'', ''diskmingbalert'']"

definition no_tally :: tally where
  "no_tally = \<lparr>hottest = JInt 0, workload = [], revenue = JInt 0, accepted_shares = JInt 0, rejected_shares = JInt 0\<rparr>"

text \<open>The row of a worker whose state is accepted: power, workload, hashes.\<close>

definition workload_row :: "accel_env \<Rightarrow> string \<Rightarrow> int \<Rightarrow> json \<Rightarrow> jobj \<Rightarrow> fault + normal_row" where
  "workload_row e key seen watts worker =
     (case jget worker ''data'' of
        JList (m # ms) \<Rightarrow>
          bind_r (add_miners e no_tally (m # ms)) (\<lambda>t0.
            let t = t0\<lparr>workload := sort_key canonical_text (workload t0)\<rparr>
            in bind_r (digest e (JObj [(''cpu'', jget worker ''cpu''), (''slots'', JList (map devices_in (workload t)))])) (\<lambda>hardware.
               bind_r (digest e (JList (workload t))) (\<lambda>profile.
                 Inr \<lparr>row_worker = key, row_sampled = seen, row_profile = profile, row_hardware = hardware,
                      row_tally = t, row_watts = watts\<rparr>)))
      | _ \<Rightarrow> Inl (Value_error ''missing workload''))"

definition measured_row :: "accel_env \<Rightarrow> string \<Rightarrow> int \<Rightarrow> jobj \<Rightarrow> fault + normal_row" where
  "measured_row e key seen worker =
     bind_r (bind_r (item worker ''powerdraw'') number) (\<lambda>watts.
       if num_val watts \<le> 0 then Inl (Value_error ''missing measured power'')
       else workload_row e key seen watts worker)"

definition normalize :: "accel_env \<Rightarrow> string \<Rightarrow> int \<Rightarrow> int \<Rightarrow> jobj \<Rightarrow> fault + normal_row" where
  "normalize e salt now max_age worker =
     (if \<not> list_all named (identity_of worker) then Inl (Value_error ''worker identity incomplete'')
      else
        bind_r (worker_key e salt worker) (\<lambda>key.
        bind_r (bind_r (item worker ''lastseen'') number) (\<lambda>last.
          let seen = py_trunc (num_val last)
          in if stale_worker worker seen now max_age then Inl (Value_error ''worker offline, paused or stale'')
             else if alerted worker then Inl (Value_error ''worker health alert'')
             else measured_row e key seen worker)))"

section \<open>Collection\<close>

record counts =
  inserted :: int
  duplicates :: int
  excluded :: int
  reasons :: jobj

definition note_reason :: "string \<Rightarrow> counts \<Rightarrow> counts" where
  "note_reason reason c =
     c\<lparr>excluded := excluded c + 1,
       reasons := put_key reason (JInt (case jget (reasons c) reason of JInt k \<Rightarrow> k + 1 | _ \<Rightarrow> 1)) (reasons c)\<rparr>"

text \<open>\<open>INSERT OR IGNORE\<close> under the key of worker and time.\<close>

definition known_sample :: "sample_row \<Rightarrow> accel_db \<Rightarrow> bool" where
  "known_sample r db \<longleftrightarrow> list_ex (\<lambda>s. sample_worker s = sample_worker r \<and> sample_time s = sample_time r) (samples db)"

definition insert_sample :: "sample_row \<Rightarrow> accel_db \<times> counts \<Rightarrow> accel_db \<times> counts" where
  "insert_sample r dc =
     (case dc of (db, c) \<Rightarrow>
        if known_sample r db then (db, c\<lparr>duplicates := duplicates c + 1\<rparr>)
        else (db\<lparr>samples := samples db @ [r]\<rparr>, c\<lparr>inserted := inserted c + 1\<rparr>))"

definition mark_health :: "string \<Rightarrow> int \<Rightarrow> bool \<Rightarrow> accel_db \<Rightarrow> accel_db" where
  "mark_health key now healthy db = db\<lparr>worker_health := (worker_health db)(key \<mapsto> (now, healthy))\<rparr>"

definition stored_row :: "accel_env \<Rightarrow> string \<Rightarrow> int \<Rightarrow> int \<Rightarrow> jobj \<Rightarrow> fault + sample_row" where
  "stored_row e salt now max_age worker =
     bind_r (normalize e salt now max_age worker) (\<lambda>row.
     bind_r (canonical (row_json row)) (\<lambda>text'.
       Inr \<lparr>sample_worker = row_worker row, sample_time = row_sampled row, sample_profile = row_profile row, sample_payload = text'\<rparr>))"

text \<open>The reason recorded for a caught exception; \<open>None\<close> is one that \<open>collect\<close> does not catch.\<close>

fun caught :: "fault \<Rightarrow> string option" where
  "caught (Value_error s) = Some s"
| "caught Key_error = Some ''incomplete telemetry''"
| "caught Type_error = Some ''incomplete telemetry''"
| "caught f = None"

definition take_worker :: "accel_env \<Rightarrow> string \<Rightarrow> int \<Rightarrow> int \<Rightarrow> accel_db \<times> counts \<Rightarrow> json \<Rightarrow> fault + accel_db \<times> counts" where
  "take_worker e salt now max_age dc w =
     (case dc of (db, c) \<Rightarrow>
       case w of
         JObj worker \<Rightarrow>
           bind_r (worker_key e salt worker) (\<lambda>key.
             let db1 = mark_health key now False db
             in case stored_row e salt now max_age worker of
                  Inr r \<Rightarrow> (case insert_sample r (db1, c) of (db2, c2) \<Rightarrow> Inr (mark_health key now True db2, c2))
                | Inl f \<Rightarrow> (case caught f of Some reason \<Rightarrow> Inr (db1, note_reason reason c) | None \<Rightarrow> Inl f))
       | _ \<Rightarrow> Inr (db, note_reason ''incomplete telemetry'' c))"

fun take_workers :: "accel_env \<Rightarrow> string \<Rightarrow> int \<Rightarrow> int \<Rightarrow> accel_db \<times> counts \<Rightarrow> json list \<Rightarrow> fault + accel_db \<times> counts" where
  "take_workers e salt now max_age dc [] = Inr dc"
| "take_workers e salt now max_age dc (w # ws) =
     bind_r (take_worker e salt now max_age dc w) (\<lambda>dc'. take_workers e salt now max_age dc' ws)"

definition counts_json :: "int \<Rightarrow> counts \<Rightarrow> json" where
  "counts_json received c =
     JObj [(''received'', JInt received), (''inserted'', JInt (inserted c)), (''duplicates'', JInt (duplicates c)),
       (''excluded'', JInt (excluded c))]"

definition no_counts :: counts where
  "no_counts = \<lparr>inserted = 0, duplicates = 0, excluded = 0, reasons = []\<rparr>"

text \<open>An exception rolls the transaction back: no new state is returned.\<close>

definition collect :: "accel_env \<Rightarrow> accel_db \<Rightarrow> json \<Rightarrow> json \<Rightarrow> int \<Rightarrow> int \<Rightarrow> fault + jobj \<times> accel_db" where
  "collect e db workers pools now max_age =
     (case (workers, pools) of
        (JList ws, JObj pl) \<Rightarrow>
          (case jget pl ''pools'' of
             JList ps \<Rightarrow>
               bind_r (bind_r (item pl ''generated_at'') number) (\<lambda>g.
                 let timestamp = py_trunc (num_val g)
                 in if \<not> (-30 \<le> now - timestamp \<and> now - timestamp \<le> max_age) then Inl (Value_error ''pool summary stale'')
                    else case local_salt db of
                      None \<Rightarrow> Inl Type_error
                    | Some salt \<Rightarrow>
                        bind_r (take_workers e salt now max_age (db, no_counts) ws) (\<lambda>(db1, c).
                        bind_r (digest e pools) (\<lambda>pool_hash.
                        bind_r (digest e workers) (\<lambda>worker_hash.
                          let summary = [(''collected_at'', JInt now), (''workers'', counts_json (int (length ws)) c),
                                (''excluded_reasons'', JObj (reasons c)), (''pool_generated_at'', JInt timestamp),
                                (''pool_count'', JInt (int (length ps))), (''pool_summary_sha256'', JStr pool_hash),
                                (''worker_response_sha256'', JStr worker_hash)]
                          in bind_r (canonical (JObj summary)) (\<lambda>text'.
                               Inr (summary, db1\<lparr>collections := (collections db1)(now \<mapsto> text')\<rparr>))))))
           | _ \<Rightarrow> Inl (Value_error ''pool summary schema not recognized''))
      | (JList ws, _) \<Rightarrow> Inl (Value_error ''pool summary schema not recognized'')
      | _ \<Rightarrow> Inl (Value_error ''RainbowMiner response must be a worker list''))"

end
