(* ===== verification/Accelerator_Policy.thy ===== *)
theory Accelerator_Policy
  imports Accelerator
begin

text \<open>
  The evaluation of the accelerator: \<open>validate_policy\<close> and \<open>recommend\<close>. A decision is a record of the entries the code
  puts into its dictionary. The policy is the parsed file; after validation its numbers are read with \<open>policy_num\<close>.
\<close>

section \<open>The policy\<close>

definition policy_numbers :: "string list" where
  "policy_numbers = [''max_age_seconds'', ''history_seconds'', ''min_samples'', ''min_span_seconds'', ''min_sample_spacing_seconds'',
     ''max_temperature_c'', ''min_improvement_btc_day'', ''min_improvement_ratio'', ''confidence_multiplier'']"

fun check_numbers :: "jobj \<Rightarrow> string list \<Rightarrow> fault + unit" where
  "check_numbers p [] = Inr ()"
| "check_numbers p (k # ks) = bind_r (bind_r (item p k) number) (\<lambda>_. check_numbers p ks)"

fun check_strings :: "jobj \<Rightarrow> string list \<Rightarrow> fault + unit" where
  "check_strings p [] = Inr ()"
| "check_strings p (k # ks) = bind_r (bind_r (item p k) strings) (\<lambda>_. check_strings p ks)"

fun check_optional :: "jobj \<Rightarrow> string list \<Rightarrow> fault + unit" where
  "check_optional p [] = Inr ()"
| "check_optional p (k # ks) =
     (if jget p k = JNull then check_optional p ks else bind_r (number (jget p k)) (\<lambda>_. check_optional p ks))"

definition policy_num :: "jobj \<Rightarrow> string \<Rightarrow> py_float" where
  "policy_num p k = num_val (jget p k)"

definition policy_list :: "jobj \<Rightarrow> string \<Rightarrow> json list" where
  "policy_list p k = (case jget p k of JList xs \<Rightarrow> xs | _ \<Rightarrow> [])"

definition validate_policy :: "json \<Rightarrow> fault + jobj" where
  "validate_policy v =
     (case v of
        JObj p \<Rightarrow>
          if jget p ''mode'' \<noteq> JStr ''shadow'' then Inl (Value_error ''only shadow mode is implemented'')
          else
            bind_r (check_numbers p policy_numbers) (\<lambda>_.
              if policy_num p ''min_samples'' < 3 \<or> policy_num p ''min_span_seconds'' < 60 \<or> policy_num p ''min_sample_spacing_seconds'' < 1
              then Inl (Value_error ''insufficient statistical observation policy'')
              else
                bind_r (check_strings p [''allowed_pools'', ''allowed_algorithms'']) (\<lambda>_.
                bind_r (check_optional p [''electricity_fiat_kwh'', ''btc_fiat'']) (\<lambda>_.
                  if as_num (jget p ''btc_fiat'') = Some 0 then Inl (Value_error ''BTC exchange rate must be positive'')
                  else if jget p ''btc_fiat'' = JNull then Inr p
                  else bind_r (bind_r (item p ''price_observed_at'') number) (\<lambda>_. Inr p))))
      | _ \<Rightarrow> Inl Attribute_error)"

definition economics :: "jobj \<Rightarrow> int \<Rightarrow> bool" where
  "economics p now \<longleftrightarrow>
     jget p ''electricity_fiat_kwh'' \<noteq> JNull \<and> jget p ''btc_fiat'' \<noteq> JNull \<and>
     -30 \<le> of_int now - policy_num p ''price_observed_at'' \<and>
     of_int now - policy_num p ''price_observed_at'' \<le> policy_num p ''max_age_seconds''"

section \<open>Reading the history\<close>

definition text_item :: "jobj \<Rightarrow> string \<Rightarrow> fault + string" where
  "text_item r k = bind_r (item r k) (\<lambda>v. case v of JStr s \<Rightarrow> Inr s | _ \<Rightarrow> Inl Type_error)"

definition num_item :: "jobj \<Rightarrow> string \<Rightarrow> fault + py_float" where
  "num_item r k = bind_r (item r k) (\<lambda>v. case as_num v of Some x \<Rightarrow> Inr x | None \<Rightarrow> Inl Type_error)"

text \<open>The bounds are SQL parameters, and an integer beyond 64 bits has no SQL value.\<close>

definition sql_integer :: "json \<Rightarrow> int \<Rightarrow> bool" where
  "sql_integer h now = (case h of JInt k \<Rightarrow> - (2 ^ 63) \<le> now - k | _ \<Rightarrow> True)"

definition selected :: "accel_db \<Rightarrow> jobj \<Rightarrow> int \<Rightarrow> sample_row list" where
  "selected db p now =
     sort_key (\<lambda>s. (sample_worker s, sample_time s))
       (filter (\<lambda>s. of_int now - policy_num p ''history_seconds'' \<le> of_int (sample_time s) \<and> sample_time s \<le> now + 30) (samples db))"

fun map_r :: "('a \<Rightarrow> 'e + 'b) \<Rightarrow> 'a list \<Rightarrow> 'e + 'b list" where
  "map_r f [] = Inr []"
| "map_r f (x # xs) = bind_r (f x) (\<lambda>y. bind_r (map_r f xs) (\<lambda>ys. Inr (y # ys)))"

fun exists_r :: "('a \<Rightarrow> 'e + bool) \<Rightarrow> 'a list \<Rightarrow> 'e + bool" where
  "exists_r f [] = Inr False"
| "exists_r f (x # xs) = bind_r (f x) (\<lambda>b. if b then Inr True else exists_r f xs)"

definition parsed :: "sample_row \<Rightarrow> fault + json" where
  "parsed s = (case json_loads (sample_payload s) of Inl _ \<Rightarrow> Inl (Value_error []) | Inr v \<Rightarrow> Inr v)"

text \<open>\<open>d.setdefault(k, []).append(x)\<close>\<close>

fun append_to :: "string \<Rightarrow> 'a \<Rightarrow> (string \<times> 'a list) list \<Rightarrow> (string \<times> 'a list) list" where
  "append_to k x [] = [(k, [x])]"
| "append_to k x ((k', xs) # g) = (if k' = k then (k', xs @ [x]) # g else (k', xs) # append_to k x g)"

definition row_obj :: "json \<Rightarrow> fault + string \<times> jobj" where
  "row_obj v =
     (case v of JObj r \<Rightarrow> bind_r (text_item r ''worker'') (\<lambda>w. Inr (w, r)) | _ \<Rightarrow> Inl Type_error)"

definition by_worker :: "(string \<times> jobj) list \<Rightarrow> (string \<times> jobj list) list" where
  "by_worker rows = fold (\<lambda>(w, r). append_to w r) rows []"

section \<open>Comparable samples\<close>

definition measured :: "jobj \<Rightarrow> bool" where
  "measured r \<longleftrightarrow> jget r ''temperature_source'' = JStr ''device_temp_v1''"

text \<open>\<open>any(x not in allowed for m in workload for x in m[k])\<close>\<close>

definition some_not_in :: "json list \<Rightarrow> string \<Rightarrow> json \<Rightarrow> fault + bool" where
  "some_not_in allowed k wl =
     bind_r (items_of wl) (exists_r (\<lambda>m.
       bind_r (bind_r (item_of m k) items_of) (exists_r (\<lambda>x. Inr (x \<notin> set allowed)))))"

definition comparable :: "jobj \<Rightarrow> jobj \<Rightarrow> jobj \<Rightarrow> fault + bool" where
  "comparable p latest r =
     (if \<not> measured r then Inr False
      else
        bind_r (text_item r ''hardware'') (\<lambda>h.
        bind_r (text_item latest ''hardware'') (\<lambda>h'.
          if h \<noteq> h' then Inr False
          else
            bind_r (num_item r ''temperature_c'') (\<lambda>t.
              if policy_num p ''max_temperature_c'' < t then Inr False
              else
                bind_r (item r ''workload'') (\<lambda>wl.
                bind_r (some_not_in (policy_list p ''allowed_pools'') ''pools'' wl) (\<lambda>bad.
                  if bad then Inr False
                  else bind_r (some_not_in (policy_list p ''allowed_algorithms'') ''algorithms'' wl) (\<lambda>bad'. Inr (\<not> bad'))))))))"

fun group_of :: "string \<Rightarrow> (string \<times> 'a list) list \<Rightarrow> 'a list" where
  "group_of k [] = []"
| "group_of k ((k', xs) # g) = (if k' = k then xs else group_of k g)"

definition add_sample :: "jobj \<Rightarrow> jobj \<Rightarrow> (string \<times> jobj list) list \<Rightarrow> jobj \<Rightarrow> fault + (string \<times> jobj list) list" where
  "add_sample p latest grouped r =
     bind_r (comparable p latest r) (\<lambda>ok.
       if \<not> ok then Inr grouped
       else
         bind_r (text_item r ''profile'') (\<lambda>profile.
           let group' = group_of profile grouped
           in if group' = [] then Inr (append_to profile r grouped)
              else
                bind_r (num_item r ''sampled'') (\<lambda>t.
                bind_r (num_item (last group') ''sampled'') (\<lambda>t'.
                  if policy_num p ''min_sample_spacing_seconds'' \<le> t - t' then Inr (append_to profile r grouped) else Inr grouped))))"

fun group_samples :: "jobj \<Rightarrow> jobj \<Rightarrow> (string \<times> jobj list) list \<Rightarrow> jobj list \<Rightarrow> fault + (string \<times> jobj list) list" where
  "group_samples p latest grouped [] = Inr grouped"
| "group_samples p latest grouped (r # rs) = bind_r (add_sample p latest grouped r) (\<lambda>g. group_samples p latest g rs)"

section \<open>Models\<close>

record model =
  mean :: py_float
  lower :: py_float
  upper :: py_float
  model_samples :: nat
  model_workload :: json

text \<open>BTC per day minus the cost of the electricity.\<close>

definition sample_value :: "jobj \<Rightarrow> jobj \<Rightarrow> fault + py_float" where
  "sample_value p s =
     bind_r (num_item s ''estimated_btc_day'') (\<lambda>btc.
     bind_r (num_item s ''watts'') (\<lambda>watts.
       Inr (btc - watts * 24 / 1000 * policy_num p ''electricity_fiat_kwh'' / policy_num p ''btc_fiat'')))"

definition mean_of :: "py_float list \<Rightarrow> py_float" where
  "mean_of xs = sum_list xs / of_nat (length xs)"

text \<open>\<open>statistics.stdev\<close>: \<open>StatisticsError\<close>, a \<open>ValueError\<close>, of fewer than two values.\<close>

definition stdev :: "accel_env \<Rightarrow> py_float list \<Rightarrow> fault + py_float" where
  "stdev e xs =
     (if length xs < 2 then Inl (Value_error ''variance requires at least two data points'')
      else Inr (square_root e (sum_list (map (\<lambda>x. (x - mean_of xs)\<^sup>2) xs) / of_nat (length xs - 1))))"

text \<open>\<open>None\<close> is \<open>continue\<close>: too few samples, too short a span, or none recent.\<close>

definition model_of :: "accel_env \<Rightarrow> jobj \<Rightarrow> int \<Rightarrow> jobj list \<Rightarrow> fault + model option" where
  "model_of e p now group' =
     (if of_nat (length group') < policy_num p ''min_samples'' then Inr None
      else
        bind_r (num_item (last group') ''sampled'') (\<lambda>newest.
        bind_r (num_item (hd group') ''sampled'') (\<lambda>oldest.
          if newest - oldest < policy_num p ''min_span_seconds'' then Inr None
          else if policy_num p ''max_age_seconds'' < of_int now - newest then Inr None
          else
            bind_r (map_r (sample_value p) group') (\<lambda>values.
            bind_r (stdev e values) (\<lambda>deviation.
            bind_r (item (last group') ''workload'') (\<lambda>wl.
              let m = mean_of values;
                  margin = policy_num p ''confidence_multiplier'' * deviation / square_root e (of_nat (length values))
              in Inr (Some \<lparr>mean = m, lower = m - margin, upper = m + margin, model_samples = length values, model_workload = wl\<rparr>)))))))"

fun models_of :: "accel_env \<Rightarrow> jobj \<Rightarrow> int \<Rightarrow> (string \<times> jobj list) list \<Rightarrow> fault + (string \<times> model) list" where
  "models_of e p now [] = Inr []"
| "models_of e p now ((profile, group') # g) =
     bind_r (model_of e p now group') (\<lambda>m.
     bind_r (models_of e p now g) (\<lambda>ms. Inr (case m of None \<Rightarrow> ms | Some m' \<Rightarrow> (profile, m') # ms)))"

text \<open>\<open>max\<close> keeps the first of equal keys.\<close>

fun best_model :: "string \<times> model \<Rightarrow> (string \<times> model) list \<Rightarrow> string \<times> model" where
  "best_model b [] = b"
| "best_model b (m # ms) = best_model (if lower (snd b) < lower (snd m) then m else b) ms"

section \<open>Decisions\<close>

datatype action = Hold | Recommend_profile

record decision =
  for_worker :: string
  action :: action
  current_profile :: string
  decided_sample :: py_float
  reason :: string
  candidate :: "(string \<times> json \<times> py_float) option"
  models :: "(string \<times> model) list"

definition no_decision :: "string \<Rightarrow> string \<Rightarrow> py_float \<Rightarrow> decision" where
  "no_decision w profile t =
     \<lparr>for_worker = w, action = Hold, current_profile = profile, decided_sample = t, reason = [], candidate = None, models = []\<rparr>"

definition compare_models :: "jobj \<Rightarrow> decision \<Rightarrow> (string \<times> model) list \<Rightarrow> decision" where
  "compare_models p d ms =
     (case (map_of ms (current_profile d), ms) of
        (Some current, m # m' # rest) \<Rightarrow>
          (case best_model m (m' # rest) of
             (best, bm) \<Rightarrow>
               let delta = lower bm - upper current;
                   threshold = max (policy_num p ''min_improvement_btc_day'') (\<bar>mean current\<bar> * policy_num p ''min_improvement_ratio'')
               in if best \<noteq> current_profile d \<and> threshold < delta
                  then d\<lparr>action := Recommend_profile, candidate := Some (best, model_workload bm, delta),
                         reason := ''empirical estimate exceeds switching threshold'', models := ms\<rparr>
                  else d\<lparr>reason := ''no sufficiently supported improvement'', models := ms\<rparr>)
      | _ \<Rightarrow> d\<lparr>reason := ''insufficient recent comparable workload history''\<rparr>)"

definition healthy :: "accel_db \<Rightarrow> jobj \<Rightarrow> int \<Rightarrow> string \<Rightarrow> bool" where
  "healthy db p now w \<longleftrightarrow>
     (case worker_health db w of None \<Rightarrow> False
      | Some (collected, ok) \<Rightarrow> ok \<and> of_int (now - collected) \<le> policy_num p ''max_age_seconds'')"

definition decide :: "accel_env \<Rightarrow> accel_db \<Rightarrow> jobj \<Rightarrow> int \<Rightarrow> string \<times> jobj list \<Rightarrow> fault + decision" where
  "decide e db p now wh =
     (case wh of (w, history) \<Rightarrow>
        let latest = last history
        in bind_r (text_item latest ''profile'') (\<lambda>profile.
           bind_r (num_item latest ''sampled'') (\<lambda>t.
             let d = no_decision w profile t
             in if \<not> measured latest then Inr (d\<lparr>reason := ''new temperature telemetry required after collector upgrade''\<rparr>)
                else if \<not> healthy db p now w then Inr (d\<lparr>reason := ''current worker health not confirmed''\<rparr>)
                else if policy_num p ''max_age_seconds'' < of_int now - t then Inr (d\<lparr>reason := ''stale telemetry''\<rparr>)
                else
                  bind_r (num_item latest ''temperature_c'') (\<lambda>hot.
                    if policy_num p ''max_temperature_c'' < hot then Inr (d\<lparr>reason := ''current temperature exceeds policy''\<rparr>)
                    else if \<not> economics p now then Inr (d\<lparr>reason := ''electricity cost or fresh BTC price missing''\<rparr>)
                    else
                      bind_r (group_samples p latest [] history) (\<lambda>grouped.
                      bind_r (models_of e p now grouped) (\<lambda>ms. Inr (compare_models p d ms)))))))"

record plan =
  created_at :: int
  expires_at :: py_float
  policy_sha256 :: string
  decisions :: "decision list"

text \<open>The constant entries (\<open>schema\<close>, \<open>mode\<close>, \<open>apply_supported\<close>, \<open>objective\<close>) are left out.\<close>

definition recommend :: "accel_env \<Rightarrow> accel_db \<Rightarrow> json \<Rightarrow> int \<Rightarrow> fault + plan" where
  "recommend e db policy now =
     bind_r (validate_policy policy) (\<lambda>p.
     bind_r (digest e policy) (\<lambda>h.
       if \<not> sql_integer (jget p ''history_seconds'') now then Inl Overflow_error
       else
         bind_r (map_r parsed (selected db p now)) (\<lambda>values.
         bind_r (map_r row_obj values) (\<lambda>rows.
         bind_r (map_r (decide e db p now) (by_worker rows)) (\<lambda>ds.
           Inr \<lparr>created_at = now, expires_at = of_int now + policy_num p ''max_age_seconds'', policy_sha256 = h, decisions = ds\<rparr>)))))"

end
