(* ===== verification/Accelerator_Safety.thy ===== *)
theory Accelerator_Safety
  imports Accelerator_Policy
begin

text \<open>
  What the accelerator promises: a collection accounts for every entry it received and adds only new samples, an excluded
  worker is held until a later collection confirms it, and a recommendation rests on enough comparable recent samples.
\<close>

section \<open>Fallible lists\<close>

lemma map_r_Inr: "map_r f xs = Inr ys \<longleftrightarrow> list_all2 (\<lambda>x y. f x = Inr y) xs ys"
  by (induction xs arbitrary: ys) (auto simp: bind_r_Inr list_all2_Cons1)

lemma map_r_member: "map_r f xs = Inr ys \<Longrightarrow> y \<in> set ys \<Longrightarrow> \<exists>x \<in> set xs. f x = Inr y"
  unfolding map_r_Inr by (induction rule: list_all2_induct) auto

lemma exists_r_False: "exists_r f xs = Inr False \<longleftrightarrow> (\<forall>x \<in> set xs. f x = Inr False)"
  by (induction xs) (auto simp: bind_r_Inr)

lemma number_Inr: "number v = Inr n \<Longrightarrow> n = v \<and> 0 \<le> num_val v"
  by (cases v rule: number.cases) (auto simp: num_val_def split: if_splits)

lemma append_to_set:
  "(k', xs) \<in> set (append_to k x g) \<Longrightarrow> (k', xs) \<in> set g \<or> k' = k \<and> xs = group_of k g @ [x]"
  by (induction k x g rule: append_to.induct) (auto split: if_splits)

lemma group_of_set: "group_of k g \<noteq> [] \<Longrightarrow> (k, group_of k g) \<in> set g"
  by (induction k g rule: group_of.induct) auto

section \<open>Collection\<close>

definition sample_keys :: "accel_db \<Rightarrow> (string \<times> int) list" where
  "sample_keys db = map (\<lambda>s. (sample_worker s, sample_time s)) (samples db)"

definition all_counted :: "counts \<Rightarrow> int" where
  "all_counted c = inserted c + duplicates c + excluded c"

text \<open>What one or several entries may do to the tables and the counters.\<close>

definition collected :: "int \<Rightarrow> int \<Rightarrow> nat \<Rightarrow> accel_db \<times> counts \<Rightarrow> accel_db \<times> counts \<Rightarrow> bool" where
  "collected now max_age n dc dc' \<longleftrightarrow>
     (\<exists>new. samples (fst dc') = samples (fst dc) @ new \<and> inserted (snd dc') = inserted (snd dc) + int (length new) \<and>
        (\<forall>s \<in> set new. now - max_age \<le> sample_time s \<and> sample_time s \<le> now + 30)) \<and>
     all_counted (snd dc') = all_counted (snd dc) + int n \<and>
     (distinct (sample_keys (fst dc)) \<longrightarrow> distinct (sample_keys (fst dc')))"

lemma collected_refl: "collected now max_age 0 dc dc"
  by (simp add: collected_def)

lemma collected_trans:
  assumes "collected now max_age m a b" "collected now max_age n b c"
  shows "collected now max_age (m + n) a c"
proof -
  obtain xs where xs: "samples (fst b) = samples (fst a) @ xs" "inserted (snd b) = inserted (snd a) + int (length xs)"
      "\<forall>s \<in> set xs. now - max_age \<le> sample_time s \<and> sample_time s \<le> now + 30"
    using assms(1) by (auto simp: collected_def)
  obtain ys where ys: "samples (fst c) = samples (fst b) @ ys" "inserted (snd c) = inserted (snd b) + int (length ys)"
      "\<forall>s \<in> set ys. now - max_age \<le> sample_time s \<and> sample_time s \<le> now + 30"
    using assms(2) by (auto simp: collected_def)
  show ?thesis unfolding collected_def
  proof (intro conjI)
    show "\<exists>new. samples (fst c) = samples (fst a) @ new \<and> inserted (snd c) = inserted (snd a) + int (length new) \<and>
        (\<forall>s \<in> set new. now - max_age \<le> sample_time s \<and> sample_time s \<le> now + 30)"
      by (rule exI [of _ "xs @ ys"]) (use xs ys in auto)
  qed (use assms in \<open>auto simp: collected_def\<close>)
qed

lemma bind_r_InrE: "bind_r m f = Inr y \<Longrightarrow> (\<And>x. m = Inr x \<Longrightarrow> f x = Inr y \<Longrightarrow> P) \<Longrightarrow> P"
  by (auto simp: bind_r_Inr)

lemma measured_row_fields:
  assumes "measured_row e key seen worker = Inr row"
  shows "row_worker row = key \<and> row_sampled row = seen"
proof -
  obtain watts where "\<not> num_val watts \<le> 0" "workload_row e key seen watts worker = Inr row"
    using assms unfolding measured_row_def by (auto elim!: bind_r_InrE split: if_splits)
  then obtain m ms where "jget worker ''data'' = JList (m # ms)"
    by (auto simp: workload_row_def split: json.splits list.splits)
  then show ?thesis using \<open>workload_row e key seen watts worker = Inr row\<close> unfolding workload_row_def
    by (auto simp: Let_def simp del: add_miners.simps elim!: bind_r_InrE)
qed

lemma normalize_time:
  assumes "normalize e salt now max_age worker = Inr row"
  shows "now - max_age \<le> row_sampled row \<and> row_sampled row \<le> now + 30 \<and> worker_key e salt worker = Inr (row_worker row)"
  using assms by (auto simp: normalize_def bind_r_Inr Let_def stale_worker_def dest!: measured_row_fields split: if_splits)

lemma stored_row_time:
  assumes "stored_row e salt now max_age worker = Inr r"
  shows "now - max_age \<le> sample_time r \<and> sample_time r \<le> now + 30 \<and> worker_key e salt worker = Inr (sample_worker r)"
  using assms normalize_time [of e salt now max_age worker] by (auto simp: stored_row_def bind_r_Inr)

lemma mark_health_simps [simp]:
  "samples (mark_health k now b db) = samples db" "sample_keys (mark_health k now b db) = sample_keys db"
  "worker_health (mark_health k now b db) = (worker_health db)(k \<mapsto> (now, b))"
  by (simp_all add: mark_health_def sample_keys_def)

lemma insert_sample_collected:
  assumes "now - max_age \<le> sample_time r" "sample_time r \<le> now + 30"
  shows "collected now max_age 1 (db, c) (insert_sample r (db, c))"
proof (cases "known_sample r db")
  case True
  then show ?thesis by (simp add: insert_sample_def collected_def all_counted_def)
next
  case False
  then have "(sample_worker r, sample_time r) \<notin> set (sample_keys db)"
    by (auto simp: known_sample_def list_ex_iff sample_keys_def)
  then show ?thesis using False assms by (auto simp: insert_sample_def collected_def all_counted_def sample_keys_def)
qed

lemma note_reason_counted: "inserted (note_reason r c) = inserted c" "all_counted (note_reason r c) = all_counted c + 1"
  by (simp_all add: note_reason_def all_counted_def)

lemma collected_cong:
  "samples db' = samples db'' \<Longrightarrow> collected now max_age n dc (db', c) \<longleftrightarrow> collected now max_age n dc (db'', c)"
  by (simp add: collected_def sample_keys_def)

lemma collected_cong_left:
  "samples db = samples db1 \<Longrightarrow> collected now max_age n (db, c) dc \<longleftrightarrow> collected now max_age n (db1, c) dc"
  by (simp add: collected_def sample_keys_def)

lemma excluded_collected: "samples db' = samples db \<Longrightarrow> collected now max_age (Suc 0) (db, c) (db', note_reason r c)"
  by (simp add: collected_def note_reason_counted sample_keys_def)

lemma take_worker_collected:
  assumes "take_worker e salt now max_age (db, c) w = Inr dc'"
  shows "collected now max_age 1 (db, c) dc'"
proof (cases w)
  case (JObj worker)
  obtain key where key: "worker_key e salt worker = Inr key"
    using assms JObj by (auto simp: take_worker_def bind_r_Inr)
  show ?thesis
  proof (cases "stored_row e salt now max_age worker")
    case (Inl f)
    then show ?thesis using assms JObj key
      by (auto simp: take_worker_def excluded_collected split: option.splits)
  next
    case (Inr r)
    let ?db1 = "mark_health key now False db"
    have "collected now max_age 1 (db, c) (insert_sample r (?db1, c))"
      using insert_sample_collected [of now max_age r ?db1 c] stored_row_time [OF Inr] collected_cong_left [of db ?db1] by simp
    moreover obtain db2 c2 where step: "insert_sample r (?db1, c) = (db2, c2)" by fastforce
    moreover have "dc' = (mark_health key now True db2, c2)" using assms JObj key Inr step by (simp add: take_worker_def Let_def)
    ultimately show ?thesis using collected_cong [of "mark_health key now True db2" db2] by simp
  qed
qed (use assms in \<open>auto simp: take_worker_def excluded_collected\<close>)

lemma take_workers_collected:
  "take_workers e salt now max_age dc ws = Inr dc' \<Longrightarrow> collected now max_age (length ws) dc dc'"
proof (induction ws arbitrary: dc)
  case (Cons w ws)
  then obtain dc1 where dc1: "take_worker e salt now max_age dc w = Inr dc1" "take_workers e salt now max_age dc1 ws = Inr dc'"
    by (auto simp: bind_r_Inr)
  have "collected now max_age (1 + length ws) dc dc'"
    by (rule collected_trans [OF _ Cons.IH [OF dc1(2)]]) (use take_worker_collected dc1(1) in \<open>cases dc; blast\<close>)
  then show ?case by simp
qed (simp add: collected_refl)

lemma collect_Inr:
  assumes "collect e db workers pools now max_age = Inr (summary, db')"
  obtains ws salt db1 c where "workers = JList ws" "local_salt db = Some salt"
    "take_workers e salt now max_age (db, no_counts) ws = Inr (db1, c)" "samples db' = samples db1"
    "worker_health db' = worker_health db1" "jget summary ''workers'' = counts_json (int (length ws)) c"
proof -
  obtain ws pl where "workers = JList ws" "pools = JObj pl"
    using assms by (auto simp: collect_def split: json.splits)
  then show ?thesis using assms that
    by (fastforce simp: collect_def bind_r_Inr Let_def split: json.splits if_splits option.splits)
qed


text \<open>C20: a collection keeps every stored sample and the key of the table, adds only samples from the accepted time, and
  every received entry is counted once, as inserted, duplicate or excluded; the inserted ones are the new rows.\<close>

theorem collection_is_accounted:
  assumes "collect e db workers pools now max_age = Inr (summary, db')" "distinct (sample_keys db)"
  shows "distinct (sample_keys db') \<and>
    (\<exists>ws c new. workers = JList ws \<and> jget summary ''workers'' = counts_json (int (length ws)) c \<and>
       all_counted c = int (length ws) \<and> samples db' = samples db @ new \<and> inserted c = int (length new) \<and>
       (\<forall>s \<in> set new. now - max_age \<le> sample_time s \<and> sample_time s \<le> now + 30))"
  using assms(1)
proof (rule collect_Inr)
  fix ws salt db1 c
  assume *: "workers = JList ws" "take_workers e salt now max_age (db, no_counts) ws = Inr (db1, c)" "samples db' = samples db1"
    "jget summary ''workers'' = counts_json (int (length ws)) c"
  have "collected now max_age (length ws) (db, no_counts) (db1, c)" by (rule take_workers_collected [OF *(2)])
  then show ?thesis using * assms(2) by (auto simp: collected_def sample_keys_def all_counted_def no_counts_def)
qed

section \<open>Health\<close>

lemma take_workers_append:
  "take_workers e salt now max_age dc (xs @ ys) = bind_r (take_workers e salt now max_age dc xs) (\<lambda>dc'. take_workers e salt now max_age dc' ys)"
  by (induction xs arbitrary: dc) (auto simp: bind_r_def split: sum.splits)

lemma insert_sample_health: "insert_sample r (db, c) = (db', c') \<Longrightarrow> worker_health db' = worker_health db"
  by (auto simp: insert_sample_def split: if_splits)

lemma take_worker_health:
  assumes "take_worker e salt now max_age (db, c) w = Inr (db', c')" "\<And>o'. w = JObj o' \<Longrightarrow> worker_key e salt o' \<noteq> Inr k"
  shows "worker_health db' k = worker_health db k"
proof (cases w)
  case (JObj o')
  then obtain key where key: "worker_key e salt o' = Inr key" "key \<noteq> k"
    using assms by (auto simp: take_worker_def bind_r_Inr)
  show ?thesis
  proof (cases "stored_row e salt now max_age o'")
    case (Inl f)
    then show ?thesis using assms(1) JObj key by (auto simp: take_worker_def split: option.splits)
  next
    case (Inr r)
    then show ?thesis using assms(1) JObj key
      by (auto simp: take_worker_def Let_def split: prod.splits dest!: insert_sample_health)
  qed
qed (use assms in \<open>auto simp: take_worker_def\<close>)

lemma take_workers_health:
  assumes "take_workers e salt now max_age dc ws = Inr dc'" "\<And>o'. JObj o' \<in> set ws \<Longrightarrow> worker_key e salt o' \<noteq> Inr k"
  shows "worker_health (fst dc') k = worker_health (fst dc) k"
  using assms
proof (induction ws arbitrary: dc)
  case (Cons w ws)
  then obtain dc1 where dc1: "take_worker e salt now max_age dc w = Inr dc1" "take_workers e salt now max_age dc1 ws = Inr dc'"
    by (auto simp: bind_r_Inr)
  have "worker_health (fst dc1) k = worker_health (fst dc) k"
    using take_worker_health [of e salt now max_age "fst dc" "snd dc" w "fst dc1" "snd dc1" k] dc1(1) Cons.prems(2) by simp
  then show ?case using Cons.IH [OF dc1(2)] Cons.prems(2) by simp
qed simp

lemma excluded_health:
  assumes "take_worker e salt now max_age dc (JObj o') = Inr dc'" "worker_key e salt o' = Inr k" "normalize e salt now max_age o' = Inl f"
  shows "worker_health (fst dc') k = Some (now, False)"
  using assms by (cases dc) (auto simp: take_worker_def stored_row_def split: option.splits)

lemma excluded_stays_unhealthy:
  assumes "take_workers e salt now max_age dc (xs @ JObj o' # ys) = Inr dc'" "worker_key e salt o' = Inr k"
    and "normalize e salt now max_age o' = Inl f" "\<And>o''. JObj o'' \<in> set ys \<Longrightarrow> worker_key e salt o'' \<noteq> Inr k"
  shows "worker_health (fst dc') k = Some (now, False)"
proof -
  obtain dc1 dc2 where "take_worker e salt now max_age dc1 (JObj o') = Inr dc2" "take_workers e salt now max_age dc2 ys = Inr dc'"
    using assms(1) by (auto simp: take_workers_append bind_r_Inr)
  then show ?thesis using take_workers_health [of e salt now max_age dc2 ys dc' k] excluded_health assms by metis
qed

section \<open>The policy\<close>

lemma check_numbers_Inr: "check_numbers p ks = Inr u \<Longrightarrow> k \<in> set ks \<Longrightarrow> 0 \<le> policy_num p k"
proof (induction p ks rule: check_numbers.induct)
  case (2 p k' ks)
  then obtain v n where "item p k' = Inr v" "number v = Inr n" "check_numbers p ks = Inr u"
    by (auto elim!: bind_r_InrE)
  then show ?case using 2 number_Inr [of v n] by (auto simp: policy_num_def item_def jget_def split: option.splits)
qed simp

lemma policy_sound:
  assumes "validate_policy v = Inr p"
  shows "3 \<le> policy_num p ''min_samples'' \<and> 60 \<le> policy_num p ''min_span_seconds'' \<and> 1 \<le> policy_num p ''min_sample_spacing_seconds'' \<and>
    (\<forall>k \<in> set policy_numbers. 0 \<le> policy_num p k)"
proof -
  obtain p' where "v = JObj p'" using assms by (auto simp: validate_policy_def split: json.splits)
  then have "p' = p" "check_numbers p policy_numbers = Inr ()"
    "\<not> (policy_num p ''min_samples'' < 3 \<or> policy_num p ''min_span_seconds'' < 60 \<or> policy_num p ''min_sample_spacing_seconds'' < 1)"
    using assms by (auto simp: validate_policy_def elim!: bind_r_InrE split: if_splits)
  then show ?thesis using check_numbers_Inr by force
qed


section \<open>What a decision rests on\<close>

text \<open>A stored row of a worker inside the history of the policy.\<close>

definition stored_sample :: "accel_db \<Rightarrow> jobj \<Rightarrow> int \<Rightarrow> string \<Rightarrow> jobj \<Rightarrow> bool" where
  "stored_sample db p now w r \<longleftrightarrow>
     jget r ''worker'' = JStr w \<and>
     (\<exists>s \<in> set (samples db). json_loads (sample_payload s) = Inr (JObj r) \<and>
        of_int now - policy_num p ''history_seconds'' \<le> of_int (sample_time s) \<and> sample_time s \<le> now + 30)"

text \<open>Every entry under \<open>k\<close> of the workload is allowed.\<close>

definition all_allowed :: "json list \<Rightarrow> string \<Rightarrow> json \<Rightarrow> bool" where
  "all_allowed allowed k wl \<longleftrightarrow>
     (\<exists>ms. py_iter wl = Some ms \<and>
        (\<forall>m \<in> set ms. \<exists>d v xs. m = JObj d \<and> map_of d k = Some v \<and> py_iter v = Some xs \<and> set xs \<subseteq> set allowed))"

definition sample_fits :: "jobj \<Rightarrow> jobj \<Rightarrow> string \<Rightarrow> jobj \<Rightarrow> bool" where
  "sample_fits p latest profile r \<longleftrightarrow>
     measured r \<and> jget r ''hardware'' = jget latest ''hardware'' \<and> jget r ''profile'' = JStr profile \<and>
     num_val (jget r ''temperature_c'') \<le> policy_num p ''max_temperature_c'' \<and>
     all_allowed (policy_list p ''allowed_pools'') ''pools'' (jget r ''workload'') \<and>
     all_allowed (policy_list p ''allowed_algorithms'') ''algorithms'' (jget r ''workload'')"

definition time_of :: "jobj \<Rightarrow> py_float" where
  "time_of r = num_val (jget r ''sampled'')"

definition spaced :: "jobj \<Rightarrow> jobj list \<Rightarrow> bool" where
  "spaced p g \<longleftrightarrow> sorted_wrt (\<lambda>r r'. policy_num p ''min_sample_spacing_seconds'' \<le> time_of r' - time_of r) g"

definition good_group :: "jobj \<Rightarrow> jobj \<Rightarrow> jobj set \<Rightarrow> string \<times> jobj list \<Rightarrow> bool" where
  "good_group p latest R pg \<longleftrightarrow>
     (case pg of (profile, g) \<Rightarrow> g \<noteq> [] \<and> set g \<subseteq> R \<and> (\<forall>r \<in> set g. sample_fits p latest profile r) \<and> spaced p g)"

lemma item_jget: "item r k = Inr v \<Longrightarrow> jget r k = v"
  by (auto simp: item_def jget_def split: option.splits)

lemma text_item_jget: "text_item r k = Inr s \<Longrightarrow> jget r k = JStr s"
  by (auto simp: text_item_def elim!: bind_r_InrE dest!: item_jget split: json.splits)

lemma num_item_jget: "num_item r k = Inr x \<Longrightarrow> num_val (jget r k) = x"
  by (auto simp: num_item_def num_val_def elim!: bind_r_InrE dest!: item_jget split: option.splits)

lemma items_of_Inr: "items_of v = Inr xs \<longleftrightarrow> py_iter v = Some xs"
  by (auto simp: items_of_def split: option.splits)

lemma item_of_Inr: "item_of m k = Inr v \<Longrightarrow> \<exists>d. m = JObj d \<and> map_of d k = Some v"
  by (auto simp: item_of_def item_def split: json.splits option.splits)

lemma some_not_in_False:
  assumes "some_not_in allowed k wl = Inr False"
  shows "all_allowed allowed k wl"
proof -
  obtain ms where ms: "py_iter wl = Some ms" and each:
    "\<forall>m \<in> set ms. bind_r (bind_r (item_of m k) items_of) (exists_r (\<lambda>x. Inr (x \<notin> set allowed))) = Inr False"
    using assms by (auto simp: some_not_in_def items_of_Inr exists_r_False elim!: bind_r_InrE)
  have "\<exists>d v xs. m = JObj d \<and> map_of d k = Some v \<and> py_iter v = Some xs \<and> set xs \<subseteq> set allowed" if m: "m \<in> set ms" for m
  proof -
    obtain v xs where "item_of m k = Inr v" "py_iter v = Some xs" "exists_r (\<lambda>x. Inr (x \<notin> set allowed) :: fault + bool) xs = Inr False"
      using each m by (auto simp: items_of_Inr elim!: bind_r_InrE)
    then show ?thesis using item_of_Inr [of m k v] by (auto simp: exists_r_False)
  qed
  then show ?thesis using ms by (auto simp: all_allowed_def)
qed

lemma comparable_fits:
  assumes "comparable p latest r = Inr True" "text_item r ''profile'' = Inr profile"
  shows "sample_fits p latest profile r"
proof -
  obtain wl bad' where "measured r" "jget r ''hardware'' = jget latest ''hardware''"
      "num_val (jget r ''temperature_c'') \<le> policy_num p ''max_temperature_c''" "jget r ''workload'' = wl"
      "some_not_in (policy_list p ''allowed_pools'') ''pools'' wl = Inr False"
      "some_not_in (policy_list p ''allowed_algorithms'') ''algorithms'' wl = Inr False"
    using assms(1)
    by (auto simp: comparable_def elim!: bind_r_InrE split: if_splits dest!: text_item_jget num_item_jget item_jget)
  then show ?thesis using some_not_in_False text_item_jget [OF assms(2)] by (auto simp: sample_fits_def)
qed

lemma spaced_snoc:
  assumes "spaced p g" "g \<noteq> []" "policy_num p ''min_sample_spacing_seconds'' \<le> time_of r - time_of (last g)"
    and "0 \<le> policy_num p ''min_sample_spacing_seconds''"
  shows "spaced p (g @ [r])"
proof -
  have "policy_num p ''min_sample_spacing_seconds'' \<le> time_of r - time_of x" if x: "x \<in> set g" for x
  proof (cases "x = last g")
    case False
    then have "x \<in> set (butlast g)" using x by (metis append_butlast_last_id assms(2) in_set_butlast_appendI set_ConsD split_list_first Un_iff set_append empty_iff empty_set)
    moreover have "sorted_wrt (\<lambda>r r'. policy_num p ''min_sample_spacing_seconds'' \<le> time_of r' - time_of r) (butlast g @ [last g])"
      using assms(1,2) by (simp add: spaced_def)
    ultimately have "policy_num p ''min_sample_spacing_seconds'' \<le> time_of (last g) - time_of x" by (simp add: sorted_wrt_append)
    then show ?thesis using assms(3,4) by simp
  qed (use assms(3) in simp)
  then show ?thesis using assms(1) by (simp add: spaced_def sorted_wrt_append)
qed

lemma add_sample_good:
  assumes "add_sample p latest grouped r = Inr g'" "\<forall>pg \<in> set grouped. good_group p latest R pg" "r \<in> R"
    and "0 \<le> policy_num p ''min_sample_spacing_seconds''" "pg \<in> set g'"
  shows "good_group p latest R pg"
proof -
  obtain ok where ok: "comparable p latest r = Inr ok" using assms(1) by (auto simp: add_sample_def elim!: bind_r_InrE)
  show ?thesis
  proof (cases "g' = grouped")
    case False
    then obtain profile where fits: "ok" "text_item r ''profile'' = Inr profile" and g': "g' = append_to profile r grouped"
      and far: "group_of profile grouped \<noteq> [] \<Longrightarrow> policy_num p ''min_sample_spacing_seconds'' \<le> time_of r - time_of (last (group_of profile grouped))"
      using assms(1) ok
      by (auto simp: add_sample_def Let_def time_of_def elim!: bind_r_InrE split: if_splits dest!: num_item_jget)
    have fit: "sample_fits p latest profile r" using comparable_fits ok fits by simp
    have old: "good_group p latest R (profile, group_of profile grouped)" if "group_of profile grouped \<noteq> []"
      using assms(2) group_of_set [OF that] by blast
    have "good_group p latest R (profile, group_of profile grouped @ [r])"
      using old spaced_snoc [OF _ _ far assms(4)] fit assms(3)
      by (cases "group_of profile grouped = []") (auto simp: good_group_def spaced_def)
    then show ?thesis using assms(2,5) g' append_to_set [of "fst pg" "snd pg" profile r grouped] by (metis prod.collapse)
  qed (use assms in blast)
qed

lemma group_samples_good:
  assumes "group_samples p latest grouped rs = Inr g'" "\<forall>pg \<in> set grouped. good_group p latest R pg" "set rs \<subseteq> R"
    and "0 \<le> policy_num p ''min_sample_spacing_seconds''"
  shows "\<forall>pg \<in> set g'. good_group p latest R pg"
  using assms
proof (induction rs arbitrary: grouped)
  case (Cons r rs)
  obtain g1 where g1: "add_sample p latest grouped r = Inr g1" "group_samples p latest g1 rs = Inr g'"
    using Cons.prems(1) by (auto elim!: bind_r_InrE)
  have "\<forall>pg \<in> set g1. good_group p latest R pg" using add_sample_good [OF g1(1)] Cons.prems by auto
  then show ?case using Cons.IH [OF g1(2)] Cons.prems by simp
qed simp


section \<open>Models\<close>

lemma models_of_member:
  "models_of e p now g = Inr ms \<Longrightarrow> (profile, m) \<in> set ms \<Longrightarrow>
   \<exists>group'. (profile, group') \<in> set g \<and> model_of e p now group' = Inr (Some m)"
proof (induction e p now g arbitrary: ms rule: models_of.induct)
  case (2 e p now profile' group' g)
  then obtain mo ms' where "model_of e p now group' = Inr mo" "models_of e p now g = Inr ms'"
      "ms = (case mo of None \<Rightarrow> ms' | Some m' \<Rightarrow> (profile', m') # ms')"
    by (auto elim!: bind_r_InrE)
  then show ?case using 2 by (auto split: option.splits)
qed simp

text \<open>The conditions under which a group of samples gives a model.\<close>

definition enough :: "jobj \<Rightarrow> int \<Rightarrow> jobj list \<Rightarrow> bool" where
  "enough p now g \<longleftrightarrow>
     policy_num p ''min_samples'' \<le> of_nat (length g) \<and> policy_num p ''min_span_seconds'' \<le> time_of (last g) - time_of (hd g) \<and>
     of_int now - time_of (last g) \<le> policy_num p ''max_age_seconds''"

lemma model_of_Some:
  assumes "model_of e p now g = Inr (Some m)"
  obtains dev where "enough p now g" "model_workload m = jget (last g) ''workload''"
    "model_samples m = length g" "lower m = mean m - policy_num p ''confidence_multiplier'' * dev / square_root e (of_nat (length g))"
    "upper m = mean m + policy_num p ''confidence_multiplier'' * dev / square_root e (of_nat (length g))" "\<exists>x. dev = square_root e x"
proof -
  obtain vals dev where v: "map_r (sample_value p) g = Inr vals" "stdev e vals = Inr dev" and en: "enough p now g"
    and m: "model_workload m = jget (last g) ''workload''" "model_samples m = length vals"
      "lower m = mean m - policy_num p ''confidence_multiplier'' * dev / square_root e (of_nat (length vals))"
      "upper m = mean m + policy_num p ''confidence_multiplier'' * dev / square_root e (of_nat (length vals))"
    using assms
    by (auto simp: model_of_def enough_def Let_def time_of_def elim!: bind_r_InrE dest!: num_item_jget item_jget split: if_splits)
  moreover have "length vals = length g" using v(1) unfolding map_r_Inr by (simp add: list_all2_lengthD)
  moreover have "\<exists>x. dev = square_root e x" using v(2) by (auto simp: stdev_def split: if_splits)
  ultimately show ?thesis using that by metis
qed

lemma model_interval:
  assumes "model_of e p now g = Inr (Some m)" "0 \<le> policy_num p ''confidence_multiplier''" "\<And>x. 0 \<le> square_root e x"
  shows "lower m \<le> mean m \<and> mean m \<le> upper m"
  using assms(1)
proof (rule model_of_Some)
  fix dev
  assume *: "lower m = mean m - policy_num p ''confidence_multiplier'' * dev / square_root e (of_nat (length g))"
    "upper m = mean m + policy_num p ''confidence_multiplier'' * dev / square_root e (of_nat (length g))" "\<exists>x. dev = square_root e x"
  have "0 \<le> policy_num p ''confidence_multiplier'' * dev / square_root e (of_nat (length g))"
    using assms(2,3) *(3) by (metis divide_nonneg_nonneg mult_nonneg_nonneg)
  then show ?thesis using *(1,2) by simp
qed

lemma best_model_member: "best_model b ms \<in> insert b (set ms)"
  by (induction b ms rule: best_model.induct) (auto split: if_splits)

lemma compare_models_recommends:
  assumes "action (compare_models p d ms) = Recommend_profile" "action d = Hold"
  obtains current best bm where "map_of ms (current_profile d) = Some current" "(best, bm) \<in> set ms" "best \<noteq> current_profile d"
    "candidate (compare_models p d ms) = Some (best, model_workload bm, lower bm - upper current)"
    "max (policy_num p ''min_improvement_btc_day'') (\<bar>mean current\<bar> * policy_num p ''min_improvement_ratio'') < lower bm - upper current"
proof -
  obtain current m m' rest where ms: "map_of ms (current_profile d) = Some current" "ms = m # m' # rest"
    using assms by (auto simp: compare_models_def simp del: map_of.simps best_model.simps split: option.splits list.splits)
  obtain best bm where b: "best_model m (m' # rest) = (best, bm)" by fastforce
  then have "(best, bm) \<in> set ms" using best_model_member [of m "m' # rest"] ms(2) by simp
  then show ?thesis using that assms ms b by (auto simp: compare_models_def Let_def simp del: best_model.simps map_of.simps split: if_splits)
qed

lemma compare_models_frame [simp]:
  "for_worker (compare_models p d ms) = for_worker d \<and> current_profile (compare_models p d ms) = current_profile d"
proof (cases "map_of ms (current_profile d)")
  case (Some current)
  consider "ms = []" | m where "ms = [m]" | m m' rest where "ms = m # m' # rest" by (metis neq_Nil_conv)
  then show ?thesis
  proof cases
    case (3 m m' rest)
    obtain best bm where "best_model m (m' # rest) = (best, bm)" by fastforce
    then show ?thesis using Some 3 by (simp add: compare_models_def Let_def del: best_model.simps map_of.simps)
  qed (use Some in \<open>simp_all add: compare_models_def\<close>)
qed (simp add: compare_models_def)

section \<open>Recommendations\<close>

text \<open>A group of samples that stands for a profile of a worker.\<close>

definition evidence :: "accel_env \<Rightarrow> accel_db \<Rightarrow> jobj \<Rightarrow> int \<Rightarrow> string \<Rightarrow> jobj \<Rightarrow> string \<Rightarrow> model \<Rightarrow> bool" where
  "evidence e db p now w latest profile m \<longleftrightarrow>
     (\<exists>g. (\<forall>r \<in> set g. stored_sample db p now w r \<and> sample_fits p latest profile r) \<and> spaced p g \<and> enough p now g \<and>
        model_of e p now g = Inr (Some m))"

text \<open>What has to hold of the latest sample of a worker before its profiles are compared.\<close>

definition current_state_ok :: "accel_db \<Rightarrow> jobj \<Rightarrow> int \<Rightarrow> string \<Rightarrow> jobj \<Rightarrow> bool" where
  "current_state_ok db p now w latest \<longleftrightarrow>
     stored_sample db p now w latest \<and> measured latest \<and> healthy db p now w \<and>
     of_int now - time_of latest \<le> policy_num p ''max_age_seconds'' \<and>
     num_val (jget latest ''temperature_c'') \<le> policy_num p ''max_temperature_c'' \<and> economics p now"

definition supported :: "accel_env \<Rightarrow> accel_db \<Rightarrow> jobj \<Rightarrow> int \<Rightarrow> decision \<Rightarrow> bool" where
  "supported e db p now d \<longleftrightarrow>
     (\<exists>latest profile current best.
        current_state_ok db p now (for_worker d) latest \<and> jget latest ''profile'' = JStr (current_profile d) \<and>
        profile \<noteq> current_profile d \<and>
        evidence e db p now (for_worker d) latest (current_profile d) current \<and>
        evidence e db p now (for_worker d) latest profile best \<and>
        candidate d = Some (profile, model_workload best, lower best - upper current) \<and>
        max (policy_num p ''min_improvement_btc_day'') (\<bar>mean current\<bar> * policy_num p ''min_improvement_ratio'') < lower best - upper current)"

definition rows_in :: "(string \<times> jobj) set \<Rightarrow> (string \<times> jobj list) list \<Rightarrow> bool" where
  "rows_in R g \<longleftrightarrow> (\<forall>w h. (w, h) \<in> set g \<longrightarrow> h \<noteq> [] \<and> (\<forall>r \<in> set h. (w, r) \<in> R))"

lemma rows_in_append: "rows_in R g \<Longrightarrow> (w, r) \<in> R \<Longrightarrow> rows_in R (append_to w r g)"
  unfolding rows_in_def using append_to_set [of _ _ w r g] group_of_set [of w g]
  by (metis Un_iff append_is_Nil_conv empty_iff empty_set not_Cons_self2 set_ConsD set_append)

lemma by_worker_member:
  assumes "(w, h) \<in> set (by_worker rows)"
  shows "h \<noteq> [] \<and> (\<forall>r \<in> set h. (w, r) \<in> set rows)"
proof -
  have "rows_in R (fold (\<lambda>(w, r). append_to w r) rows g)" if "rows_in R g" "set rows \<subseteq> R" for g R
    using that by (induction rows arbitrary: g) (auto simp: rows_in_append)
  from this [of "set rows" "[]"] show ?thesis using assms by (simp add: by_worker_def rows_in_def)
qed

lemma decide_basic:
  assumes "decide e db p now (w, h) = Inr d"
  shows "for_worker d = w \<and> (action d = Recommend_profile \<longrightarrow> healthy db p now w)"
  using assms compare_models_frame by (auto simp: decide_def Let_def no_decision_def elim!: bind_r_InrE split: if_splits)


lemma no_decision_simps [simp]:
  "action (no_decision w profile t) = Hold" "for_worker (no_decision w profile t) = w"
  "current_profile (no_decision w profile t) = profile" "decided_sample (no_decision w profile t) = t"
  by (simp_all add: no_decision_def)

lemma decide_recommends:
  assumes "decide e db p now (w, h) = Inr d" "action d = Recommend_profile"
  obtains profile t grouped ms where "text_item (last h) ''profile'' = Inr profile" "measured (last h)" "healthy db p now w"
    "of_int now - time_of (last h) \<le> policy_num p ''max_age_seconds''"
    "num_val (jget (last h) ''temperature_c'') \<le> policy_num p ''max_temperature_c''" "economics p now"
    "group_samples p (last h) [] h = Inr grouped" "models_of e p now grouped = Inr ms"
    "d = compare_models p (no_decision w profile t) ms"
proof -
  obtain profile t where r: "text_item (last h) ''profile'' = Inr profile" "num_item (last h) ''sampled'' = Inr t"
      "measured (last h)" "healthy db p now w" "\<not> policy_num p ''max_age_seconds'' < of_int now - t"
    and tail: "bind_r (num_item (last h) ''temperature_c'') (\<lambda>hot.
        if policy_num p ''max_temperature_c'' < hot
        then Inr (no_decision w profile t\<lparr>reason := ''current temperature exceeds policy''\<rparr>)
        else if \<not> economics p now then Inr (no_decision w profile t\<lparr>reason := ''electricity cost or fresh BTC price missing''\<rparr>)
        else bind_r (group_samples p (last h) [] h) (\<lambda>grouped.
             bind_r (models_of e p now grouped) (\<lambda>ms. Inr (compare_models p (no_decision w profile t) ms)))) = Inr d"
    using assms unfolding decide_def prod.case Let_def by (elim bind_r_InrE) (auto split: if_splits)
  obtain hot where hot: "num_item (last h) ''temperature_c'' = Inr hot" "hot \<le> policy_num p ''max_temperature_c''" "economics p now"
    and steps: "bind_r (group_samples p (last h) [] h) (\<lambda>grouped.
             bind_r (models_of e p now grouped) (\<lambda>ms. Inr (compare_models p (no_decision w profile t) ms))) = Inr d"
    using tail assms(2) by (elim bind_r_InrE) (auto split: if_splits)
  have "of_int now - time_of (last h) \<le> policy_num p ''max_age_seconds''" using num_item_jget [OF r(2)] r(5) by (simp add: time_of_def)
  then show ?thesis using that r hot num_item_jget [OF hot(1)] steps by (elim bind_r_InrE) auto
qed

lemma decide_supported:
  assumes "decide e db p now (w, h) = Inr d" "action d = Recommend_profile" "h \<noteq> []" "\<forall>r \<in> set h. stored_sample db p now w r"
    and "0 \<le> policy_num p ''min_sample_spacing_seconds''"
  shows "supported e db p now d"
  using assms(1,2)
proof (rule decide_recommends)
  fix profile t grouped ms
  assume ok: "text_item (last h) ''profile'' = Inr profile" "measured (last h)" "healthy db p now w"
      "of_int now - time_of (last h) \<le> policy_num p ''max_age_seconds''"
      "num_val (jget (last h) ''temperature_c'') \<le> policy_num p ''max_temperature_c''" "economics p now"
    and steps: "group_samples p (last h) [] h = Inr grouped" "models_of e p now grouped = Inr ms"
      "d = compare_models p (no_decision w profile t) ms"
  have good: "\<forall>pg \<in> set grouped. good_group p (last h) (set h) pg"
    using group_samples_good [OF steps(1)] assms(5) by simp
  have ev: "evidence e db p now w (last h) profile m" if m: "(profile, m) \<in> set ms" for profile m
  proof -
    obtain g where g: "(profile, g) \<in> set grouped" "model_of e p now g = Inr (Some m)"
      using models_of_member [OF steps(2) m] by blast
    then have "enough p now g" by (auto elim: model_of_Some)
    then show ?thesis using g good assms(4) unfolding evidence_def good_group_def by fastforce
  qed
  have d0: "current_profile d = profile" "for_worker d = w" using steps(3) compare_models_frame [of p "no_decision w profile t" ms] by simp_all
  obtain current best bm where c: "map_of ms profile = Some current" "(best, bm) \<in> set ms" "best \<noteq> profile"
    "candidate d = Some (best, model_workload bm, lower bm - upper current)"
    "max (policy_num p ''min_improvement_btc_day'') (\<bar>mean current\<bar> * policy_num p ''min_improvement_ratio'') < lower bm - upper current"
    using compare_models_recommends [of p "no_decision w profile t" ms] assms(2) steps(3) by (metis no_decision_simps(1,3))
  have "current_state_ok db p now w (last h)" using ok assms(3,4) by (simp add: current_state_ok_def)
  then show ?thesis unfolding supported_def d0
    using c ev [OF c(2)] ev [OF map_of_SomeD [OF c(1)]] text_item_jget [OF ok(1)] by blast
qed

lemma recommend_Inr:
  assumes "recommend e db policy now = Inr pl" "d \<in> set (decisions pl)"
  obtains p w h where "policy = JObj p" "validate_policy policy = Inr p" "decide e db p now (w, h) = Inr d" "h \<noteq> []"
    "\<forall>r \<in> set h. stored_sample db p now w r"
proof -
  obtain p vals rows where v: "validate_policy policy = Inr p" "map_r parsed (selected db p now) = Inr vals" "map_r row_obj vals = Inr rows"
      "map_r (decide e db p now) (by_worker rows) = Inr (decisions pl)"
    using assms(1) by (auto simp: recommend_def elim!: bind_r_InrE split: if_splits)
  obtain w h where wh: "(w, h) \<in> set (by_worker rows)" "decide e db p now (w, h) = Inr d"
    using map_r_member [OF v(4) assms(2)] by auto
  have "stored_sample db p now w r" if r: "r \<in> set h" for r
  proof -
    obtain v' where "v' \<in> set vals" "row_obj v' = Inr (w, r)" using by_worker_member [OF wh(1)] r map_r_member [OF v(3)] by blast
    then have "JObj r \<in> set vals" "jget r ''worker'' = JStr w"
      by (auto simp: row_obj_def elim!: bind_r_InrE split: json.splits dest!: text_item_jget)
    then show ?thesis using map_r_member [OF v(2)]
      by (fastforce simp: stored_sample_def selected_def parsed_def split: sum.splits)
  qed
  moreover have "policy = JObj p" using v(1) by (auto simp: validate_policy_def elim!: bind_r_InrE split: json.splits if_splits)
  ultimately show ?thesis using that v(1) wh by_worker_member [OF wh(1)] by blast
qed

text \<open>C18: a recommended profile is supported: the worker is healthy, fresh and cool, the price is fresh, both profiles have
  enough spaced samples of the same hardware, with allowed pools and algorithms, and the lower estimate of the candidate exceeds
  the upper estimate of the current profile by more than the threshold; with it the mean improves, too.\<close>

theorem recommendation_is_supported:
  assumes "recommend e db policy now = Inr pl" "d \<in> set (decisions pl)" "action d = Recommend_profile" "\<And>x. 0 \<le> square_root e x"
  shows "\<exists>p. policy = JObj p \<and> supported e db p now d \<and> 3 \<le> policy_num p ''min_samples'' \<and>
    (\<exists>latest profile current best. candidate d = Some (profile, model_workload best, lower best - upper current) \<and>
       evidence e db p now (for_worker d) latest (current_profile d) current \<and>
       evidence e db p now (for_worker d) latest profile best \<and>
       mean current + policy_num p ''min_improvement_btc_day'' < mean best)"
proof -
  obtain p w h where p: "policy = JObj p" "validate_policy policy = Inr p" and dec: "decide e db p now (w, h) = Inr d" "h \<noteq> []"
      "\<forall>r \<in> set h. stored_sample db p now w r"
    using recommend_Inr [OF assms(1,2)] by metis
  have pos: "3 \<le> policy_num p ''min_samples''" "0 \<le> policy_num p ''min_sample_spacing_seconds''"
      "0 \<le> policy_num p ''confidence_multiplier''"
    using policy_sound [OF p(2)] by (auto simp: policy_numbers_def)
  have sup: "supported e db p now d" by (rule decide_supported [OF dec(1) assms(3) dec(2,3) pos(2)])
  then obtain latest profile current best where ev: "evidence e db p now (for_worker d) latest (current_profile d) current"
      "evidence e db p now (for_worker d) latest profile best" "candidate d = Some (profile, model_workload best, lower best - upper current)"
      "policy_num p ''min_improvement_btc_day'' < lower best - upper current"
    unfolding supported_def by (metis max_less_iff_conj)
  have "lower best \<le> mean best" "mean current \<le> upper current"
    using ev(1,2) model_interval [OF _ pos(3) assms(4)] unfolding evidence_def by blast+
  then have "mean current + policy_num p ''min_improvement_btc_day'' < mean best" using ev(4) by linarith
  then show ?thesis using p(1) sup pos(1) ev by blast
qed

text \<open>C19: after a collection in which the last entry of a worker was excluded, no evaluation recommends anything for it,
  whatever samples are stored.\<close>

theorem excluded_worker_is_held:
  assumes "collect e db (JList (xs @ JObj o' # ys)) pools now max_age = Inr (summary, db')"
    and "local_salt db = Some salt" "worker_key e salt o' = Inr k" "normalize e salt now max_age o' = Inl f"
    and "\<And>o''. JObj o'' \<in> set ys \<Longrightarrow> worker_key e salt o'' \<noteq> Inr k"
    and "recommend e db' policy later = Inr pl" "d \<in> set (decisions pl)" "for_worker d = k"
  shows "action d = Hold"
proof -
  have "worker_health db' k = Some (now, False)"
    using assms(1)
  proof (rule collect_Inr)
    fix ws s db1 c
    assume *: "JList (xs @ JObj o' # ys) = JList ws" "local_salt db = Some s" "worker_health db' = worker_health db1"
      "take_workers e s now max_age (db, no_counts) ws = Inr (db1, c)"
    then show ?thesis using excluded_stays_unhealthy [of e salt now max_age "(db, no_counts)" xs o' ys "(db1, c)" k f] assms(2-5) by simp
  qed
  then have "\<not> healthy db' p later k" for p by (simp add: healthy_def)
  moreover obtain p w h where "decide e db' p later (w, h) = Inr d" using recommend_Inr [OF assms(6,7)] by metis
  ultimately show ?thesis using decide_basic [of e db' p later w h d] assms(8) by (cases "action d") auto
qed

end
