(* ===== verification/Accelerator_Examples.thy ===== *)
theory Accelerator_Examples
  imports Accelerator_Safety
begin

text \<open>The accelerator on concrete telemetry: the properties at work, and inputs it does not handle.\<close>

definition demo_env :: accel_env where
  "demo_env = \<lparr>hmac_hex = (\<lambda>k t. ''w1''), sha_hex = (\<lambda>t. ''s1''),
     float_repr = (\<lambda>x. show_int \<lfloor>x\<rfloor> @ ''.0''), square_root = (\<lambda>x. \<bar>x\<bar>)\<rparr>"

definition demo_miner :: "json \<Rightarrow> jobj" where
  "demo_miner reading =
     [(''Name'', JStr ''x''), (''Version'', JStr ''1''), (''Algorithm'', JList [JStr ''RandomX'']), (''Pool'', JList [JStr ''Zpool'']),
      (''Devices'', JList [JObj [(''Id'', JInt 0), (''Name'', JStr ''CPU''), (''Temp'', reading)]]), (''BTC/day'', JInt 5),
      (''Benchmarking'', JBool False), (''Donator'', JBool False), (''Accepted'', JList [JInt 9]), (''Rejected'', JList [JInt 0]),
      (''Stale'', JList [JInt 1])]"

definition demo_worker :: "json \<Rightarrow> json \<Rightarrow> json list \<Rightarrow> jobj" where
  "demo_worker crash watts miners =
     [(''user'', JStr ''u''), (''worker'', JStr ''a''), (''machinename'', JStr ''h''), (''cpu'', JStr ''c''), (''lastseen'', JInt 1000),
      (''online'', JBool True), (''status'', JStr ''Running''), (''crashalert'', crash), (''powerdraw'', watts), (''data'', JList miners)]"

definition good_worker :: jobj where "good_worker = demo_worker JNull (JInt 100) [JObj (demo_miner (JInt 50))]"

definition alert_worker :: jobj where "alert_worker = demo_worker (JInt 1) (JInt 100) [JObj (demo_miner (JInt 50))]"

definition demo_pools :: json where "demo_pools = JObj [(''generated_at'', JInt 1000), (''pools'', JList [])]"

definition salted :: "accel_db" where "salted = open_database ''salt'' None"

definition demo_collect :: "accel_db \<Rightarrow> fault + jobj \<times> accel_db" where
  "demo_collect db = collect demo_env db (JList [JObj good_worker, JNull, JObj good_worker, JObj alert_worker]) demo_pools 1000 300"

lemmas demo_defs = demo_env_def demo_miner_def demo_worker_def good_worker_def alert_worker_def demo_pools_def

lemma demo_key: "worker_key demo_env salt (demo_worker c w ms) = Inr ''w1''"
  by (simp add: worker_key_def canonical_def identity_of_def demo_worker_def demo_env_def)

lemma small_int: "int_digits k \<le> 4300" if "\<bar>k\<bar> < 100000" for k
proof -
  have "length (show_nat n) \<le> 5" if "n < 100000" for n
    using that by (subst show_nat.simps, subst show_nat.simps, subst show_nat.simps, subst show_nat.simps, subst show_nat.simps) auto
  moreover have "nat \<bar>k\<bar> < 100000" using that by linarith
  ultimately have "length (show_nat (nat \<bar>k\<bar>)) \<le> 5" by blast
  then show ?thesis unfolding int_digits_def by linarith
qed

lemma good_stored:
  "\<exists>t. stored_row demo_env salt 1000 300 good_worker = Inr \<lparr>sample_worker = ''w1'', sample_time = 1000, sample_profile = ''s1'', sample_payload = t\<rparr>"
  unfolding stored_row_def normalize_def good_worker_def demo_key
  by (simp add: demo_worker_def identity_of_def item_def double_limit_value num_val_def stale_worker_def alerted_def no_alert_def measured_row_def
      workload_row_def add_miner_def demo_miner_def items_of_def scan_device_def item_of_def strings_def share_total_def no_tally_def
      digest_def canonical_def small_int devices_in_def row_json_def demo_env_def Let_def py_trunc_def)


lemma alert_excluded: "normalize demo_env salt 1000 300 alert_worker = Inl (Value_error ''worker health alert'')"
  unfolding normalize_def alert_worker_def demo_key
  by (simp add: demo_worker_def identity_of_def item_def double_limit_value num_val_def stale_worker_def alerted_def no_alert_def py_trunc_def Let_def)

lemma demo_keys: "worker_key demo_env salt good_worker = Inr ''w1''" "worker_key demo_env salt alert_worker = Inr ''w1''"
  by (simp_all add: good_worker_def alert_worker_def demo_key)

lemma demo_collected:
  assumes "local_salt db = Some salt" "samples db = []"
  shows "\<exists>summary db'. demo_collect db = Inr (summary, db') \<and> length (samples db') = 1 \<and> worker_health db' ''w1'' = Some (1000, False) \<and>
    jget summary ''workers'' = JObj [(''received'', JInt 4), (''inserted'', JInt 1), (''duplicates'', JInt 1), (''excluded'', JInt 2)]"
proof -
  obtain t where good: "stored_row demo_env salt 1000 300 good_worker = Inr \<lparr>sample_worker = ''w1'', sample_time = 1000, sample_profile = ''s1'', sample_payload = t\<rparr>"
    using good_stored by blast
  have bad: "stored_row demo_env salt 1000 300 alert_worker = Inl (Value_error ''worker health alert'')"
    by (simp add: stored_row_def alert_excluded)
  have hashes: "digest demo_env demo_pools = Inr ''s1''"
    "digest demo_env (JList [JObj good_worker, JNull, JObj good_worker, JObj alert_worker]) = Inr ''s1''"
    by (simp_all add: digest_def canonical_def small_int demo_defs)
  show ?thesis
    using assms good bad hashes
    by (simp add: demo_collect_def collect_def demo_pools_def item_def double_limit_value num_val_def py_trunc_def take_worker_def demo_keys
        Let_def insert_sample_def known_sample_def note_reason_def no_counts_def counts_json_def canonical_def small_int mark_health_def)
qed

text \<open>Six samples of one worker under two profiles.\<close>

definition demo_row :: "int \<Rightarrow> string \<Rightarrow> int \<Rightarrow> jobj" where
  "demo_row t profile btc =
     [(''estimated_btc_day'', JInt btc), (''hardware'', JStr ''s1''), (''profile'', JStr profile), (''sampled'', JInt t), (''temperature_c'', JInt 50),
      (''temperature_source'', JStr ''device_temp_v1''), (''watts'', JInt 100), (''worker'', JStr ''w1''),
      (''workload'', JList [JObj [(''algorithms'', JList [JStr ''RandomX'']), (''pools'', JList [JStr ''Zpool''])]])]"

definition demo_sample :: "int \<Rightarrow> string \<Rightarrow> int \<Rightarrow> sample_row" where
  "demo_sample t profile btc =
     \<lparr>sample_worker = ''w1'', sample_time = t, sample_profile = profile, sample_payload = dump (JObj (demo_row t profile btc))\<rparr>"

definition demo_policy :: jobj where
  "demo_policy =
     [(''mode'', JStr ''shadow''), (''max_age_seconds'', JInt 1000), (''history_seconds'', JInt 9000), (''min_samples'', JInt 3),
      (''min_span_seconds'', JInt 60), (''min_sample_spacing_seconds'', JInt 60), (''max_temperature_c'', JInt 80),
      (''min_improvement_btc_day'', JInt 1), (''min_improvement_ratio'', JInt 0), (''confidence_multiplier'', JInt 2),
      (''allowed_pools'', JList [JStr ''Zpool'']), (''allowed_algorithms'', JList [JStr ''RandomX'']),
      (''electricity_fiat_kwh'', JInt 1), (''btc_fiat'', JInt 100), (''price_observed_at'', JInt 900)]"

definition demo_db :: "(int \<times> bool) \<Rightarrow> accel_db" where
  "demo_db health = salted\<lparr>worker_health := [''w1'' \<mapsto> health],
     samples := [demo_sample 600 ''a'' 9, demo_sample 660 ''a'' 9, demo_sample 720 ''a'' 9,
       demo_sample 800 ''b'' 5, demo_sample 860 ''b'' 5, demo_sample 920 ''b'' 5]\<rparr>"

lemma parsed_demo: "\<bar>t\<bar> < 100000 \<Longrightarrow> \<bar>btc\<bar> < 100000 \<Longrightarrow> parsed (demo_sample t profile btc) = Inr (JObj (demo_row t profile btc))"
proof -
  assume "\<bar>t\<bar> < 100000" "\<bar>btc\<bar> < 100000"
  then have "plain (JObj (demo_row t profile btc))" by (simp add: demo_row_def small_int)
  then show ?thesis by (simp only: parsed_def demo_sample_def sample_row.simps loads_dump sum.case)
qed

definition demo_rows :: "(string \<times> jobj) list" where
  "demo_rows = [(''w1'', demo_row 600 ''a'' 9), (''w1'', demo_row 660 ''a'' 9), (''w1'', demo_row 720 ''a'' 9),
     (''w1'', demo_row 800 ''b'' 5), (''w1'', demo_row 860 ''b'' 5), (''w1'', demo_row 920 ''b'' 5)]"

lemma demo_decisions:
  "case map_r (decide demo_env (demo_db (990, True)) demo_policy 1000) (by_worker demo_rows) of
     Inr [d] \<Rightarrow> action d = Recommend_profile \<and> map_option fst (candidate d) = Some ''a'' | _ \<Rightarrow> False"
  by code_simp


lemma demo_selected: "selected (demo_db health) demo_policy 1000 = samples (demo_db health)"
  by (simp add: selected_def demo_db_def demo_sample_def policy_num_def demo_policy_def num_val_def)

lemma demo_history: "bind_r (map_r parsed (selected (demo_db health) demo_policy 1000)) (map_r row_obj) = Inr demo_rows"
proof -
  have row: "row_obj (JObj (demo_row t profile btc)) = Inr (''w1'', demo_row t profile btc)" for t profile btc
    by (simp add: row_obj_def text_item_def item_def demo_row_def)
  show ?thesis unfolding demo_selected by (simp add: demo_db_def parsed_demo row demo_rows_def)
qed

lemma demo_valid: "validate_policy (JObj demo_policy) = Inr demo_policy"
  by (simp add: validate_policy_def demo_policy_def policy_numbers_def policy_num_def item_def num_val_def double_limit_value strings_def)

lemma demo_recommend:
  "recommend demo_env (demo_db health) (JObj demo_policy) 1000 =
   bind_r (map_r (decide demo_env (demo_db health) demo_policy 1000) (by_worker demo_rows)) (\<lambda>ds.
     Inr \<lparr>created_at = 1000, expires_at = 2000, policy_sha256 = ''s1'', decisions = ds\<rparr>)"
proof -
  have "digest demo_env (JObj demo_policy) = Inr ''s1''" by (simp add: digest_def canonical_def demo_policy_def small_int demo_env_def)
  moreover have "sql_integer (jget demo_policy ''history_seconds'') 1000" "policy_num demo_policy ''max_age_seconds'' = 1000"
    by (simp_all add: demo_policy_def sql_integer_def policy_num_def num_val_def)
  moreover obtain vals where "map_r parsed (selected (demo_db health) demo_policy 1000) = Inr vals" "map_r row_obj vals = Inr demo_rows"
    using demo_history [of health] by (auto simp: bind_r_Inr)
  ultimately show ?thesis unfolding recommend_def by (simp add: demo_valid)
qed

lemma demo_recommends:
  "\<exists>pl d. recommend demo_env (demo_db (990, True)) (JObj demo_policy) 1000 = Inr pl \<and> decisions pl = [d] \<and> action d = Recommend_profile \<and>
     map_option fst (candidate d) = Some ''a''"
  using demo_decisions unfolding demo_recommend
  by (auto split: sum.splits list.splits)

lemma recommendation_is_supported_witness:
  "\<exists>pl d. recommend demo_env (demo_db (990, True)) (JObj demo_policy) 1000 = Inr pl \<and> d \<in> set (decisions pl) \<and> action d = Recommend_profile \<and>
     supported demo_env (demo_db (990, True)) demo_policy 1000 d"
proof -
  obtain pl d where d: "recommend demo_env (demo_db (990, True)) (JObj demo_policy) 1000 = Inr pl" "d \<in> set (decisions pl)" "action d = Recommend_profile"
    using demo_recommends by force
  have "0 \<le> square_root demo_env x" for x by (simp add: demo_env_def)
  from recommendation_is_supported [OF d this] have "supported demo_env (demo_db (990, True)) demo_policy 1000 d" by auto
  then show ?thesis using d by blast
qed

lemma collection_is_accounted_witness:
  "\<exists>summary db'. demo_collect salted = Inr (summary, db') \<and> distinct (sample_keys db') \<and> length (samples db') = 1"
proof -
  have "local_salt salted = Some ''salt''" "samples salted = []"
    by (simp_all add: salted_def open_database_def fresh_accel_db_def)
  then obtain summary db' where c: "demo_collect salted = Inr (summary, db')" "length (samples db') = 1" using demo_collected by blast
  have "distinct (sample_keys db')"
    using collection_is_accounted [OF c(1) [unfolded demo_collect_def]] by (simp add: salted_def open_database_def fresh_accel_db_def sample_keys_def)
  then show ?thesis using c by blast
qed


lemma recommend_ignores_collections: "recommend e (db\<lparr>collections := c\<rparr>) = recommend e db"
proof -
  have "healthy (db\<lparr>collections := c\<rparr>) = healthy db" by (intro ext) (simp add: healthy_def)
  then have "decide e (db\<lparr>collections := c\<rparr>) = decide e db" by (intro ext) (simp add: decide_def Let_def split: prod.split cong: if_cong)
  moreover have "selected (db\<lparr>collections := c\<rparr>) = selected db" by (intro ext) (simp add: selected_def)
  ultimately show ?thesis by (intro ext) (simp add: recommend_def cong: if_cong)
qed

lemma demo_alert:
  "\<exists>summary c. collect demo_env (demo_db (990, True)) (JList ([] @ JObj alert_worker # [])) demo_pools 1000 300 =
     Inr (summary, demo_db (1000, False)\<lparr>collections := c\<rparr>)"
proof -
  have "stored_row demo_env salt 1000 300 alert_worker = Inl (Value_error ''worker health alert'')" for salt
    by (simp add: stored_row_def alert_excluded)
  moreover have "digest demo_env demo_pools = Inr ''s1''" "digest demo_env (JList [JObj alert_worker]) = Inr ''s1''"
    by (simp_all add: digest_def canonical_def small_int demo_defs)
  ultimately show ?thesis
    by (simp add: collect_def demo_pools_def item_def double_limit_value num_val_def py_trunc_def take_worker_def demo_keys demo_db_def
        salted_def open_database_def fresh_accel_db_def Let_def note_reason_def no_counts_def counts_json_def canonical_def small_int mark_health_def)
qed

lemma demo_held: "case recommend demo_env (demo_db (1000, False)) (JObj demo_policy) 1000 of Inr pl \<Rightarrow> map for_worker (decisions pl) = [''w1''] | Inl _ \<Rightarrow> False"
proof -
  have "case map_r (decide demo_env (demo_db (1000, False)) demo_policy 1000) (by_worker demo_rows) of
      Inr ds \<Rightarrow> map for_worker ds = [''w1''] | Inl _ \<Rightarrow> False"
    by code_simp
  then show ?thesis unfolding demo_recommend by (auto split: sum.splits)
qed

lemma excluded_worker_is_held_witness:
  "\<exists>summary db' pl d. collect demo_env (demo_db (990, True)) (JList ([] @ JObj alert_worker # [])) demo_pools 1000 300 = Inr (summary, db') \<and>
     recommend demo_env db' (JObj demo_policy) 1000 = Inr pl \<and> decisions pl = [d] \<and> action d = Hold"
proof -
  obtain summary c where col: "collect demo_env (demo_db (990, True)) (JList ([] @ JObj alert_worker # [])) demo_pools 1000 300 =
      Inr (summary, demo_db (1000, False)\<lparr>collections := c\<rparr>)"
    using demo_alert by blast
  obtain pl d where pl: "recommend demo_env (demo_db (1000, False)\<lparr>collections := c\<rparr>) (JObj demo_policy) 1000 = Inr pl" "decisions pl = [d]" "for_worker d = ''w1''"
    using demo_held unfolding recommend_ignores_collections by (auto split: sum.splits)
  have salt: "local_salt (demo_db (990, True)) = Some ''salt''"
    by (simp add: demo_db_def salted_def open_database_def fresh_accel_db_def)
  have "action d = Hold"
    by (rule excluded_worker_is_held [OF col salt demo_keys(2) alert_excluded _ pl(1) _ pl(3)]) (simp_all add: pl(2))
  then show ?thesis using col pl by blast
qed

section \<open>Telemetry that is not handled\<close>

text \<open>One entry whose workload is not an object, or whose power does not fit a double, ends the collection of all workers.\<close>

lemma demo_escapes:
  assumes "miners = [JInt 1] \<and> watts = JInt 100 \<and> f = Attribute_error \<or> watts = JInt (2 ^ 1024) \<and> f = Overflow_error"
  shows "stored_row demo_env salt 1000 300 (demo_worker JNull watts miners) = Inl f"
  unfolding stored_row_def normalize_def demo_key using assms
  by (auto simp: demo_worker_def identity_of_def item_def double_limit_value num_val_def stale_worker_def alerted_def no_alert_def measured_row_def
      workload_row_def add_miner_def py_trunc_def Let_def)

lemma one_worker_stops_the_collection:
  assumes "take_workers demo_env salt 1000 300 (db, no_counts) xs = Inr dc" "local_salt db = Some salt"
    and "miners = [JInt 1] \<and> watts = JInt 100 \<and> f = Attribute_error \<or> watts = JInt (2 ^ 1024) \<and> f = Overflow_error"
  shows "collect demo_env db (JList (xs @ JObj (demo_worker JNull watts miners) # ys)) demo_pools 1000 300 = Inl f"
proof -
  have "take_worker demo_env salt 1000 300 dc (JObj (demo_worker JNull watts miners)) = Inl f"
    using demo_escapes [OF assms(3)] assms(3) by (cases dc) (auto simp: take_worker_def demo_key Let_def)
  then have "take_workers demo_env salt 1000 300 (db, no_counts) (xs @ JObj (demo_worker JNull watts miners) # ys) = Inl f"
    using assms(1) by (simp add: take_workers_append)
  then show ?thesis using assms(2)
    by (simp add: collect_def demo_pools_def item_def double_limit_value num_val_def py_trunc_def Let_def)
qed

text \<open>The reading of an earlier miner stands for a later one that has none.\<close>

lemma later_miner_needs_no_reading:
  "add_miners demo_env no_tally [JObj (demo_miner JNull), JObj (demo_miner (JInt 50))] = Inl (Value_error ''missing measured device temperature'')"
  "\<exists>t. add_miners demo_env no_tally [JObj (demo_miner (JInt 50)), JObj (demo_miner JNull)] = Inr t"
  by (simp_all add: add_miner_def demo_miner_def items_of_def scan_device_def item_of_def item_def double_limit_value num_val_def
      strings_def share_total_def no_tally_def Let_def)

end
