(* ===== verification/Replication_Client.thy ===== *)
theory Replication_Client
  imports Files_Store Controller_Safety Replication_References
begin

text \<open>
  The replication client \<open>replication/hb_replication_client.py\<close>, the upload hook of \<open>hbfiles/hb_files.py\<close> that calls it, and the
  HTTP server of the controller at its other end (\<open>_body\<close>, \<open>_token\<close> and \<open>do_POST\<close>): the file server and the replication
  controller joined. What the controller writes into a reply is an argument; a released URL prefix is removed by \<open>urlparse\<close>,
  also an argument.
\<close>

section \<open>The client\<close>

text \<open>\<open>json.dumps(v)\<close> with its default separators.\<close>

fun dump_spaced :: "json \<Rightarrow> string" where
  "dump_spaced (JStr s) = ascii_json s"
| "dump_spaced (JList xs) = ''['' @ join '', '' (map dump_spaced xs) @ '']''"
| "dump_spaced (JObj kvs) = ''{'' @ join '', '' (map (\<lambda>kv. ascii_json (fst kv) @ '': '' @ dump_spaced (snd kv)) kvs) @ ''}''"
| "dump_spaced v = dump v"

record http_post =
  hp_url :: string
  hp_token :: string
  hp_body :: string

text \<open>A 2xx answer with its body, a \<open>URLError\<close> or \<open>HTTPError\<close>, or another exception of the connection. The text of a
  \<open>ReplicationClientError\<close> is left out.\<close>

datatype post_answer = Answered string | Refused | Broken

datatype client_error = Client_error | Other_error

record client =
  rc_base :: string
  rc_token :: string

definition base_url :: "string \<Rightarrow> string" where
  "base_url s = rev (dropWhile (\<lambda>c. c = CHR ''/'') (rev s))"

definition new_client :: "string \<Rightarrow> string \<Rightarrow> client" where
  "new_client url token = \<lparr>rc_base = base_url url, rc_token = token\<rparr>"

type_synonym 's server = "http_post \<Rightarrow> 's \<Rightarrow> post_answer \<times> 's"

definition client_post :: "client \<Rightarrow> 's server \<Rightarrow> string \<Rightarrow> jobj \<Rightarrow> (client_error, 's, json) st" where
  "client_post c srv path payload s =
     (if \<not> ints_short (JObj payload) then (Inl Other_error, s)
      else case srv \<lparr>hp_url = rc_base c @ path, hp_token = rc_token c, hp_body = utf8_encode (dump_spaced (JObj payload))\<rparr> s of
        (Answered raw, s1) \<Rightarrow>
          (case loads_bytes raw of Inl _ \<Rightarrow> (Inl Client_error, s1) | Inr v \<Rightarrow> (Inr v, s1))
      | (Refused, s1) \<Rightarrow> (Inl Client_error, s1)
      | (Broken, s1) \<Rightarrow> (Inl Other_error, s1))"

definition opt_member :: "string \<Rightarrow> json option \<Rightarrow> jobj" where
  "opt_member k v = (case v of None \<Rightarrow> [] | Some x \<Rightarrow> [(k, x)])"

definition opt_ref :: "string option \<Rightarrow> json option" where
  "opt_ref r = (case r of None \<Rightarrow> None | Some t \<Rightarrow> if t = [] then None else Some (JStr t))"

definition register_payload :: "string \<Rightarrow> int \<Rightarrow> string \<Rightarrow> string option \<Rightarrow> int option \<Rightarrow> int option \<Rightarrow> jobj" where
  "register_payload cid sz source ref n m =
     [(''cid'', JStr cid), (''size_bytes'', JInt sz), (''source_node'', JStr source)] @ opt_member ''reference_id'' (opt_ref ref) @
     opt_member ''replication_n'' (map_option JInt n) @ opt_member ''committable_m'' (map_option JInt m)"

definition client_register ::
  "client \<Rightarrow> 's server \<Rightarrow> string \<Rightarrow> int \<Rightarrow> string \<Rightarrow> string option \<Rightarrow> int option \<Rightarrow> int option \<Rightarrow> (client_error, 's, json) st" where
  "client_register c srv cid sz source ref n m = client_post c srv ''/v1/objects/register'' (register_payload cid sz source ref n m)"

definition client_release :: "client \<Rightarrow> 's server \<Rightarrow> string \<Rightarrow> string option \<Rightarrow> (client_error, 's, json) st" where
  "client_release c srv cid ref = client_post c srv ''/v1/objects/release'' ([(''cid'', JStr cid)] @ opt_member ''reference_id'' (opt_ref ref))"

section \<open>The hook of the file server\<close>

text \<open>The answer of the upload for a result of the controller; \<open>None\<close> stands for any exception.\<close>

definition hook_fields :: "json \<Rightarrow> jobj option" where
  "hook_fields result =
     (case result of
        JObj r \<Rightarrow>
          Some ([(''enabled'', JBool True), (''registered'', JBool True), (''state'', JStr (py_str (py_or (jget r ''state'') (JStr ''pending''))))] @
            map (\<lambda>k. (k, jget r k)) [''target_replicas'', ''required_committable'', ''confirmed_total'', ''confirmed_committable''])
      | _ \<Rightarrow> None)"

definition hook_result :: "files_config \<Rightarrow> string \<Rightarrow> 's server \<Rightarrow> file_record \<Rightarrow> 's \<Rightarrow> jobj option \<times> 's" where
  "hook_result cfg url srv rec s =
     (case client_register (new_client (base_url url) (fc_hook_token cfg)) srv (fr_cid rec) (int (fr_size rec)) (fc_node cfg)
             (Some (fr_id rec)) None None s of
        (Inr v, s1) \<Rightarrow> (hook_fields v, s1)
      | (Inl _, s1) \<Rightarrow> (None, s1))"

section \<open>The server of the controller\<close>

text \<open>\<open>max_body\<close> is \<open>MAX_BODY\<close>, from the environment; \<open>Content-Length\<close> is what \<open>urllib\<close> sends.\<close>

definition controller_body :: "nat \<Rightarrow> string \<Rightarrow> db_error + jobj" where
  "controller_body max_body raw =
     (if max_body < length raw then Inl (ValueError ''request body too large'')
      else if raw = [] then Inr []
      else case loads_bytes raw of
        Inl _ \<Rightarrow> Inl (ValueError ''json'')
      | Inr (JObj d) \<Rightarrow> Inr d
      | Inr _ \<Rightarrow> Inl (RuntimeErr ''no attribute get''))"

definition controller_server ::
  "ctl_config \<Rightarrow> (string \<Rightarrow> string \<Rightarrow> int) \<Rightarrow> (nat \<Rightarrow> string) \<Rightarrow> string \<Rightarrow> int \<Rightarrow> nat \<Rightarrow> (string \<Rightarrow> string) \<Rightarrow> (reply \<Rightarrow> string) \<Rightarrow> db server" where
  "controller_server cfg tb uid rid now max_body strip_url render q d =
     (case do_post cfg tb uid rid now (strip_url (hp_url q)) (hp_token q) (controller_body max_body (hp_body q)) d of
        ((code, r), d1) \<Rightarrow> (if code = 200 then Answered (render r) else Refused, d1))"


section \<open>Flat objects read back\<close>

fun scalar :: "json \<Rightarrow> bool" where
  "scalar (JStr s) = True"
| "scalar (JInt k) = (int_digits k \<le> 4300)"
| "scalar v = False"

lemma read_scalar:
  assumes "scalar v" "ends rest" "2 * length (dump_spaced v) < n"
  shows "read_value n (dump_spaced v @ rest) = Inr (v, rest)"
proof (cases v)
  case (JStr s)
  then show ?thesis using assms(3) by (cases n) (simp_all add: ascii_json_def read_chars_ascii)
next
  case (JInt k)
  then show ?thesis using assms reads_backD [of v rest n] reads_back [of v] by simp
qed (use assms in auto)

lemma skip_ws_scalar: "scalar v \<Longrightarrow> skip_ws (dump_spaced v @ s) = dump_spaced v @ s"
  using skip_ws_dump [of v s] by (cases v) (auto simp: ascii_json_def skip_ws_def json_space_def)

definition spaced_member :: "string \<times> json \<Rightarrow> string" where
  "spaced_member kv = ascii_json (fst kv) @ '': '' @ dump_spaced (snd kv)"

lemma skip_ws_spaced: "skip_ws (CHR '' '' # s) = skip_ws s" "skip_ws (spaced_member kv @ s) = spaced_member kv @ s"
  by (simp_all add: spaced_member_def ascii_json_def skip_ws_def json_space_def)

lemma read_members_spaced:
  assumes "kvs \<noteq> []" "\<forall>kv \<in> set kvs. scalar (snd kv)" "distinct (map fst (acc @ kvs))"
    and "2 * length (join '', '' (map spaced_member kvs)) < n"
  shows "read_members n acc (join '', '' (map spaced_member kvs) @ CHR ''}'' # rest) = Inr (acc @ kvs, rest)"
  using assms
proof (induction kvs arbitrary: n acc)
  case (Cons kv kvs)
  obtain m where m: "n = Suc m" using Cons.prems(4) by (cases n) auto
  obtain k v where kv: "kv = (k, v)" by fastforce
  let ?tail = "(if kvs = [] then [] else '', '' @ join '', '' (map spaced_member kvs)) @ CHR ''}'' # rest"
  have v: "read_value m (dump_spaced v @ ?tail) = Inr (v, ?tail)"
    using Cons.prems m by (intro read_scalar) (auto simp: join_Cons kv spaced_member_def)
  have sv: "skip_ws (dump_spaced v @ ?tail) = dump_spaced v @ ?tail"
    by (rule skip_ws_scalar) (use Cons.prems(2) kv in auto)
  have e: "join '', '' (map spaced_member (kv # kvs)) @ CHR ''}'' # rest =
      CHR 0x22 # concat (map ascii_json_char k) @ CHR 0x22 # CHR '':'' # CHR '' '' # dump_spaced v @ ?tail"
    by (simp add: join_Cons kv spaced_member_def ascii_json_def)
  have p: "put_key k v acc = acc @ [kv]" using Cons.prems(3) by (auto simp: kv intro!: put_key_new)
  have c: "skip_ws (CHR '':'' # s) = CHR '':'' # s" for s by (simp add: skip_ws_def json_space_def)
  show ?case
  proof (cases "kvs = []")
    case True
    then show ?thesis using v sv unfolding e m by (simp add: read_chars_ascii c p skip_ws_ends skip_ws_spaced)
  next
    case False
    have j: "skip_ws (join '', '' (map spaced_member kvs) @ CHR ''}'' # rest) = join '', '' (map spaced_member kvs) @ CHR ''}'' # rest"
      using False skip_ws_spaced by (cases kvs) (auto simp: join_Cons)
    have "read_members m (acc @ [kv]) (join '', '' (map spaced_member kvs) @ CHR ''}'' # rest) = Inr ((acc @ [kv]) @ kvs, rest)"
      using Cons.prems(2,3,4) m False by (intro Cons.IH) (auto simp: join_Cons)
    then show ?thesis using v sv False j unfolding e m by (simp add: read_chars_ascii c p skip_ws_ends skip_ws_spaced)
  qed
qed simp

lemma loads_flat:
  assumes "kvs \<noteq> []" "\<forall>kv \<in> set kvs. scalar (snd kv)" "distinct (map fst kvs)"
  shows "loads_bytes (utf8_encode (dump_spaced (JObj kvs))) = Inr (JObj kvs)"
proof -
  have d: "dump_spaced (JObj kvs) = CHR ''{'' # join '', '' (map spaced_member kvs) @ ''}''"
    by (simp add: spaced_member_def [abs_def])
  have "skip_ws (join '', '' (map spaced_member kvs) @ ''}'') = join '', '' (map spaced_member kvs) @ ''}''"
    using skip_ws_spaced assms(1) by (cases kvs) (auto simp: join_Cons)
  moreover have "join '', '' (map spaced_member kvs) \<noteq> []" "hd (join '', '' (map spaced_member kvs) @ ''}'') \<noteq> CHR ''}''"
    using assms(1) by (cases kvs; simp add: join_Cons spaced_member_def ascii_json_def)+
  moreover have members: "read_members n [] (join '', '' (map spaced_member kvs) @ ''}'') = Inr (kvs, [])"
    if "2 * length (join '', '' (map spaced_member kvs)) < n" for n
    using read_members_spaced [OF assms(1,2), of "[]" n "[]"] assms(3) that by simp
  ultimately have "read_value (Suc n) (CHR ''{'' # join '', '' (map spaced_member kvs) @ ''}'') = Inr (JObj kvs, [])"
    if "2 * length (join '', '' (map spaced_member kvs)) < n" for n
    using members [OF that] by (simp del: read_members.simps)
  from this [of "2 * length (dump_spaced (JObj kvs)) + 1"]
  have "read_value (2 * length (dump_spaced (JObj kvs)) + 2) (dump_spaced (JObj kvs)) = Inr (JObj kvs, [])"
    unfolding d by simp
  moreover have "skip_ws (dump_spaced (JObj kvs)) = dump_spaced (JObj kvs)" unfolding d by (simp add: skip_ws_def json_space_def)
  ultimately show ?thesis unfolding loads_bytes_def utf8_round_trip by (simp add: json_loads_def skip_ws_def del: dump_spaced.simps)
qed


section \<open>From an upload to the reference at the controller\<close>

lemma same_refs_trans: "same_refs a b \<Longrightarrow> same_refs b c \<Longrightarrow> same_refs a c"
  by (simp add: same_refs_def)

interpretation refs: store_client cfg "same_refs d0" for cfg d0
  by unfold_locales (blast intro: same_refs_trans content_step_refs content_step.intros)+

lemma keeps_same_refs: "keeps (same_refs d1) m \<Longrightarrow> m d1 = (Inr x, d2) \<Longrightarrow> same_refs d1 d2"
  unfolding keeps_def by (metis same_refs_def snd_conv)

lemma object_status_state: "object_status cid d = (Inr st, d') \<Longrightarrow> d' = d"
  by (auto simp: object_status_def c_bind_Inr split: option.splits prod.splits)

lemma ctl_register_Inr:
  assumes "ctl_register cfg tb uid now body d = (Inr st, d')"
  obtains sz n m res d1 where
    "register_object now (jtext_strip body ''cid'') sz n m (non_empty (jtext_strip body ''source_node''))
       (non_empty (jtext_strip body ''reference_id'')) d = Inr (res, d1)"
    "same_refs d1 d'"
proof -
  let ?cid = "jtext_strip body ''cid''"
  obtain sz n m res d1 u d2 where r: "register_object now ?cid sz n m (non_empty (jtext_strip body ''source_node''))
       (non_empty (jtext_strip body ''reference_id'')) d = Inr (res, d1)"
    and d2: "reconcile_cid cfg tb uid now ?cid d1 = (Inr u, d2)" and st: "object_status ?cid d2 = (Inr st, d')"
    using assms by (auto simp: ctl_register_def Let_def c_bind_Inr c_of_Inr c_try_def split: option.splits if_splits sum.splits)
  have "same_refs d1 d'" using keeps_same_refs [OF refs.reconcile d2] object_status_state [OF st] by simp
  then show ?thesis using that r by blast
qed

lemma register_new_ref:
  assumes "register_object now cid sz n m src ref d = Inr (res, d')" "norm_opt ref = Some r" "find_ref d r = None"
  shows "db_refs d' = db_refs d @ [\<lparr>rf_id = r, rf_cid = cid, rf_created = now, rf_released_at = 0, rf_request = []\<rparr>]"
  using assms
  by (auto simp: register_object_def register_object_base_def take_reference_def Let_def bind_r_Inr add_reference_refs
      split: option.splits prod.splits dest!: record_source_refs)

lemma register_request_served:
  assumes "client_register c (controller_server cfg tb uid rid now max_body strip_url render) cid sz source (Some fid) None None d = (Inr v, d')"
    and "strip_url (rc_base c @ ''/v1/objects/register'') = ''/v1/objects/register''" "fid \<noteq> []"
  obtains st where "ctl_register cfg tb uid now (register_payload cid sz source (Some fid) None None) d = (Inr st, d')"
proof -
  let ?p = "register_payload cid sz source (Some fid) None None"
  have p: "?p = [(''cid'', JStr cid), (''size_bytes'', JInt sz), (''source_node'', JStr source), (''reference_id'', JStr fid)]"
    using assms(3) by (simp add: register_payload_def opt_member_def opt_ref_def)
  have short: "ints_short (JObj ?p)" using assms(1) by (auto simp: client_register_def client_post_def split: if_splits)
  have "loads_bytes (utf8_encode (dump_spaced (JObj ?p))) = Inr (JObj ?p)"
    by (rule loads_flat) (use short in \<open>simp_all add: p\<close>)
  moreover have "utf8_encode (dump_spaced (JObj ?p)) \<noteq> []" by (simp add: utf8_encode_def utf8_char_def Let_def)
  ultimately have body: "controller_body max_body (utf8_encode (dump_spaced (JObj ?p))) \<in> {Inr ?p, Inl (ValueError ''request body too large'')}"
    by (simp add: controller_body_def)
  show ?thesis
  proof (cases "ctl_register cfg tb uid now ?p d")
    case (Pair r d1)
    then show ?thesis using assms(1,2) body that short
      by (cases r) (auto simp: client_register_def client_post_def controller_server_def do_post_def respond_def error_code_def
          simp del: dump_spaced.simps ints_short.simps split: if_splits sum.splits db_error.splits)
  qed
qed

text \<open>And the other way round: what the controller registers is reported to the client.\<close>

lemma register_request_succeeds:
  assumes "ctl_register cfg tb uid now (register_payload cid sz source (Some fid) None None) d = (Inr st, d')" "fid \<noteq> []"
    and "strip_url (rc_base c @ ''/v1/objects/register'') = ''/v1/objects/register''" "is_admin cfg (rc_token c)"
    and "length (utf8_encode (dump_spaced (JObj (register_payload cid sz source (Some fid) None None)))) \<le> max_body"
    and "int_digits sz \<le> 4300" "loads_bytes (render (ReplyStatus st)) = Inr v"
  shows "client_register c (controller_server cfg tb uid rid now max_body strip_url render) cid sz source (Some fid) None None d = (Inr v, d')"
proof -
  let ?p = "register_payload cid sz source (Some fid) None None"
  have p: "?p = [(''cid'', JStr cid), (''size_bytes'', JInt sz), (''source_node'', JStr source), (''reference_id'', JStr fid)]"
    using assms(2) by (simp add: register_payload_def opt_member_def opt_ref_def)
  have short: "ints_short (JObj ?p)" using assms(6) by (simp add: p)
  have "loads_bytes (utf8_encode (dump_spaced (JObj ?p))) = Inr (JObj ?p)"
    by (rule loads_flat) (use assms(6) in \<open>simp_all add: p\<close>)
  moreover have "utf8_encode (dump_spaced (JObj ?p)) \<noteq> []" by (simp add: utf8_encode_def utf8_char_def Let_def)
  ultimately have "controller_body max_body (utf8_encode (dump_spaced (JObj ?p))) = Inr ?p"
    using assms(5) by (simp add: controller_body_def)
  then show ?thesis using assms(1,3,4,7) short
    by (simp add: client_register_def client_post_def controller_server_def do_post_def respond_def del: dump_spaced.simps ints_short.simps)
qed

text \<open>C13: when the file server answers an upload as registered, the controller it is joined to holds a new live reference of
  the record's id for its CID, and the reference count of the CID is one higher than before.\<close>

theorem registered_upload_is_referenced:
  assumes "store_upload cfg w q t name data s = (Inr (code, B_uploaded rec (Hook_done answer)), s')"
    and "hook_result cfg url (controller_server ctl tb uid rid now max_body strip_url render) rec db = (fw_hook w, db')"
    and "strip_url (base_url url @ ''/v1/objects/register'') = ''/v1/objects/register''"
    and "norm_opt (Some (fr_id rec)) = Some r" "find_ref db r = None"
  shows "(\<exists>row \<in> set (db_refs db'). rf_id row = r \<and> rf_cid row = py_strip (fr_cid rec) \<and> rf_released_at row = 0) \<and>
    live_refs db' (py_strip (fr_cid rec)) = live_refs db (py_strip (fr_cid rec)) + 1 \<and>
    refcount_of db' (py_strip (fr_cid rec)) = refcount_of db (py_strip (fr_cid rec)) + 1"
proof -
  have hook: "fw_hook w = Some answer"
    using assms(1)
    by (auto simp: store_upload_def st_bind_def upd_s_def ret_def fail_with_def register_replication_def Let_def
        split: option.splits if_splits)
  have fid: "fr_id rec \<noteq> []" using assms(4) by (auto simp: norm_opt_def py_strip_def Let_def)
  have rs: "base_url (base_url url) = base_url url" by (simp add: base_url_def dropWhile_idem)
  obtain v where "client_register (new_client (base_url url) (fc_hook_token cfg)) (controller_server ctl tb uid rid now max_body strip_url render)
      (fr_cid rec) (int (fr_size rec)) (fc_node cfg) (Some (fr_id rec)) None None db = (Inr v, db')"
    using assms(2) hook by (auto simp: hook_result_def split: prod.splits sum.splits)
  then obtain st where "ctl_register ctl tb uid now (register_payload (fr_cid rec) (int (fr_size rec)) (fc_node cfg) (Some (fr_id rec)) None None) db = (Inr st, db')"
    by (rule register_request_served) (use assms(3) fid rs in \<open>simp_all add: new_client_def\<close>)
  then obtain sz n m res d1 src ref where reg: "register_object now (py_strip (fr_cid rec)) sz n m src ref db = Inr (res, d1)"
      "ref = non_empty (py_strip (fr_id rec))" and same: "same_refs d1 db'"
    by (rule ctl_register_Inr) (use fid in \<open>auto simp: register_payload_def opt_member_def opt_ref_def jtext_strip_def jtext_JStr\<close>)
  have ref: "norm_opt ref = Some r" using assms(4) reg(2) by (auto simp: norm_opt_def non_empty_def Let_def split: if_splits)
  have "db_refs d1 = db_refs db @ [\<lparr>rf_id = r, rf_cid = py_strip (fr_cid rec), rf_created = now, rf_released_at = 0, rf_request = []\<rparr>]"
    by (rule register_new_ref [OF reg(1) ref assms(5)])
  moreover have "db_refs db' = db_refs d1" "live_refs db' = live_refs d1" "refcount_of db' = refcount_of d1"
    using same by (simp_all add: same_refs_def live_refs_def fun_eq_iff)
  ultimately show ?thesis using register_counts [OF reg(1) ref, of "py_strip (fr_cid rec)"]
    by (simp add: live_refs_def tbl_count_append)
qed

end
