(* ===== verification/Client_Examples.thy ===== *)
theory Client_Examples
  imports Replication_Client Files_Examples
begin

text \<open>An upload whose hook reaches a running controller.\<close>

definition hooked_config :: files_config where
  "hooked_config = demo_config\<lparr>fc_hook := True, fc_hook_token := ''adm'', fc_node := ''a''\<rparr>"

definition hooked_tenant :: tenant where
  "hooked_tenant = \<lparr>tn_id = ''ab'', tn_name = JStr ''t'', tn_token = [], tn_quota = 5, tn_created = 0, tn_enabled = True, tn_domain = JStr []\<rparr>"

definition hooked_world :: files_world where "hooked_world = (demo_world ''1'' 5)\<lparr>fw_hook := hook_fields (JObj [])\<rparr>"

definition hooked_record :: file_record where "hooked_record = new_record hooked_world demo_upload hooked_tenant ''a.b'' ''hi'' ''c1''"

definition hooked_payload :: jobj where "hooked_payload = register_payload ''c1'' 2 ''a'' (Some ''f1'') None None"

definition hooked_server :: "db server" where
  "hooked_server = controller_server (sample_ctl PinOnly) no_tie job_name ''q'' 20
     (length (utf8_encode (dump_spaced (JObj hooked_payload)))) (\<lambda>u. drop 8 u) (\<lambda>r. ''{}'')"

lemma hooked_register:
  "case ctl_register (sample_ctl PinOnly) no_tie job_name 20 hooked_payload run1 of (Inr st, d) \<Rightarrow> True | _ \<Rightarrow> False"
  by code_simp

lemma empty_answer: "loads_bytes ''{}'' = Inr (JObj [])"
  by code_simp

lemma hooked_result: "\<exists>d'. hook_result hooked_config ''http://c'' hooked_server hooked_record run1 = (hook_fields (JObj []), d')"
proof -
  obtain st d' where reg: "ctl_register (sample_ctl PinOnly) no_tie job_name 20 hooked_payload run1 = (Inr st, d')"
    using hooked_register by (auto split: prod.splits sum.splits)
  have "client_register (new_client (base_url ''http://c'') (fc_hook_token hooked_config)) hooked_server ''c1'' 2 ''a'' (Some ''f1'') None None run1
      = (Inr (JObj []), d')"
    unfolding hooked_server_def
    by (rule register_request_succeeds [OF reg [unfolded hooked_payload_def]])
      (simp_all add: new_client_def base_url_def is_admin_def sample_ctl_def hooked_config_def demo_config_def hooked_payload_def empty_answer int_digits_def show_nat.simps)
  then show ?thesis
    by (simp add: hook_result_def hooked_record_def new_record_def hooked_world_def demo_world_def hooked_config_def)
qed

theorem registered_upload_is_referenced_witness:
  "\<exists>db'. snd (hook_result hooked_config ''http://c'' hooked_server hooked_record run1) = db' \<and> live_refs db' ''c1'' = live_refs run1 ''c1'' + 1"
proof -
  obtain d' where h: "hook_result hooked_config ''http://c'' hooked_server hooked_record run1 = (fw_hook hooked_world, d')"
    using hooked_result by (auto simp: hooked_world_def)
  obtain answer where a: "fw_hook hooked_world = Some answer" by (simp add: hooked_world_def hook_fields_def)
  have up: "\<exists>s'. store_upload hooked_config hooked_world demo_upload hooked_tenant ''a.b'' ''hi'' demo_start = (Inr (201, B_uploaded hooked_record (Hook_done answer)), s')"
    using a by (simp add: store_upload_def hooked_world_def demo_world_def register_replication_def hooked_config_def hooked_record_def
        path_name_def Let_def st_bind_def upd_s_def ret_def)
  have cid: "py_strip (fr_cid hooked_record) = ''c1''" "norm_opt (Some (fr_id hooked_record)) = Some ''f1''"
    by (simp_all add: hooked_record_def new_record_def hooked_world_def demo_world_def norm_opt_def py_strip_def py_space_def)
  have new: "find_ref run1 ''f1'' = None" by code_simp
  from up obtain s' where "store_upload hooked_config hooked_world demo_upload hooked_tenant ''a.b'' ''hi'' demo_start =
      (Inr (201, B_uploaded hooked_record (Hook_done answer)), s')" by blast
  from registered_upload_is_referenced [OF this h [unfolded hooked_server_def] _ cid(2) new] cid(1) h
  show ?thesis by (simp add: base_url_def)
qed

end
