(* ===== verification/Ipfs_Client.thy ===== *)
theory Ipfs_Client
  imports Replica_Agent Json_Text
begin

text \<open>
  The Kubo client \<open>hbfiles/hb_ipfs.py\<close> on the level of HTTP: the request it posts, the answer it takes apart, and the calls
  the agent's model uses abstractly (\<open>Replica_Agent\<close>), here derived from the same \<open>_post\<close>. Kubo answers a request over an
  arbitrary state of the world; \<open>decode\<close> is \<open>bytes.decode("utf-8", "replace")\<close>, \<open>quote\<close> is \<open>urlencode\<close>, and \<open>uid\<close> the hex
  text of the random boundary. The texts of an \<open>IPFSError\<close> are left out.
\<close>

record ipfs_request =
  iq_url :: string
  iq_type :: string
  iq_data :: string

text \<open>A 2xx answer; an \<open>HTTPError\<close> or \<open>URLError\<close>; another exception of the connection.\<close>

datatype ipfs_answer = Ipfs_body string | Ipfs_refused | Ipfs_broken

datatype ipfs_error = Ipfs_error | Ipfs_other

type_synonym 'w kubo = "ipfs_request \<Rightarrow> 'w \<Rightarrow> ipfs_answer \<times> 'w"

definition strip_left :: "string \<Rightarrow> string" where "strip_left s = dropWhile (\<lambda>c. c = CHR ''/'') s"

definition strip_right :: "string \<Rightarrow> string" where "strip_right s = rev (strip_left (rev s))"

definition ipfs_url :: "string \<Rightarrow> string \<Rightarrow> string" where
  "ipfs_url api path = strip_right api @ ''/api/v0/'' @ strip_left path"

definition ipfs_post :: "'w kubo \<Rightarrow> string \<Rightarrow> string \<Rightarrow> string \<Rightarrow> string \<Rightarrow> (ipfs_error, 'w, string) st" where
  "ipfs_post kubo api path ctype data w =
     (case kubo \<lparr>iq_url = ipfs_url api path, iq_type = ctype, iq_data = data\<rparr> w of
        (Ipfs_body raw, w1) \<Rightarrow> (Inr raw, w1)
      | (Ipfs_refused, w1) \<Rightarrow> (Inl Ipfs_error, w1)
      | (Ipfs_broken, w1) \<Rightarrow> (Inl Ipfs_other, w1))"

section \<open>Adding and reading\<close>

definition line_end :: string where "line_end = [char_of (13 :: nat), char_of (10 :: nat)]"

definition in_quotes :: "string \<Rightarrow> string" where "in_quotes s = CHR 0x22 # s @ [CHR 0x22]"

definition multipart_body :: "string \<Rightarrow> string \<Rightarrow> string \<Rightarrow> string" where
  "multipart_body boundary filename blob =
     utf8_encode (''--'' @ boundary @ line_end @ ''Content-Disposition: form-data; name='' @ in_quotes ''file'' @ ''; filename='' @ in_quotes filename @
       line_end @ ''Content-Type: application/octet-stream'' @ line_end @ line_end) @ blob @
     utf8_encode (line_end @ ''--'' @ boundary @ ''--'' @ line_end)"

text \<open>\<open>str.splitlines\<close>; the empty line it does not see inside a CRLF is skipped by the caller like any other.\<close>

definition line_break :: "char \<Rightarrow> bool" where
  "line_break c \<longleftrightarrow> (let n = (of_char c :: nat) in (10 \<le> n \<and> n \<le> 13) \<or> (28 \<le> n \<and> n \<le> 30) \<or> n = 133)"

fun lines_of :: "string \<Rightarrow> string \<Rightarrow> string list" where
  "lines_of acc [] = [rev acc]"
| "lines_of acc (c # cs) = (if line_break c then rev acc # lines_of [] cs else lines_of (c # acc) cs)"

text \<open>The last truthy \<open>Hash\<close>. Only \<open>JSONDecodeError\<close> is caught: the \<open>ValueError\<close> of an overlong number and the
  \<open>AttributeError\<close> of an answer that is no object are not.\<close>

fun last_hash :: "json option \<Rightarrow> string list \<Rightarrow> ipfs_error + json option" where
  "last_hash cid [] = Inr cid"
| "last_hash cid (l # ls) =
     (let t = py_strip l
      in if t = [] then last_hash cid ls
         else case json_loads t of
           Inl Digit_limit \<Rightarrow> Inl Ipfs_other
         | Inl _ \<Rightarrow> last_hash cid ls
         | Inr (JObj d) \<Rightarrow> last_hash (if truthy (jget d ''Hash'') then Some (jget d ''Hash'') else cid) ls
         | Inr _ \<Rightarrow> Inl Ipfs_other)"

definition ipfs_add :: "'w kubo \<Rightarrow> (string \<Rightarrow> string) \<Rightarrow> string \<Rightarrow> string \<Rightarrow> string \<Rightarrow> string \<Rightarrow> (ipfs_error, 'w, json) st" where
  "ipfs_add kubo decode uid api blob filename =
     (let boundary = ''----hbfiles'' @ uid
      in st_bind (ipfs_post kubo api ''add?pin=true&cid-version=1&quieter=true'' (''multipart/form-data; boundary='' @ boundary)
                    (multipart_body boundary filename blob)) (\<lambda>raw.
         case last_hash None (lines_of [] (decode raw)) of
           Inl e \<Rightarrow> st_fail e
         | Inr None \<Rightarrow> st_fail Ipfs_error
         | Inr (Some cid) \<Rightarrow> st_ret cid))"

definition form_type :: string where "form_type = ''application/x-www-form-urlencoded''"

definition ipfs_cat :: "'w kubo \<Rightarrow> string \<Rightarrow> string \<Rightarrow> (ipfs_error, 'w, string) st" where
  "ipfs_cat kubo api cid = (if cid = [] then st_fail Ipfs_error else ipfs_post kubo api (''cat?arg='' @ cid) form_type [])"

section \<open>State of the node\<close>

definition ipfs_json :: "(string \<Rightarrow> string) \<Rightarrow> string \<Rightarrow> (ipfs_error, 'w, json) st" where
  "ipfs_json decode raw = (case json_loads (decode raw) of Inl _ \<Rightarrow> st_fail Ipfs_other | Inr v \<Rightarrow> st_ret v)"

definition ipfs_node_id :: "'w kubo \<Rightarrow> (string \<Rightarrow> string) \<Rightarrow> string \<Rightarrow> (ipfs_error, 'w, json) st" where
  "ipfs_node_id kubo decode api = st_bind (ipfs_post kubo api ''id'' form_type []) (ipfs_json decode)"

definition ipfs_is_alive :: "'w kubo \<Rightarrow> (string \<Rightarrow> string) \<Rightarrow> string \<Rightarrow> (ipfs_error, 'w, bool) st" where
  "ipfs_is_alive kubo decode api w =
     (case ipfs_node_id kubo decode api w of
        (Inr v, w1) \<Rightarrow> (Inr True, w1)
      | (Inl Ipfs_error, w1) \<Rightarrow> (Inr False, w1)
      | (Inl Ipfs_other, w1) \<Rightarrow> (Inl Ipfs_other, w1))"

definition ipfs_repo_stat :: "'w kubo \<Rightarrow> (string \<Rightarrow> string) \<Rightarrow> string \<Rightarrow> (ipfs_error, 'w, json) st" where
  "ipfs_repo_stat kubo decode api = st_bind (ipfs_post kubo api ''repo/stat?size-only=false'' form_type []) (ipfs_json decode)"

section \<open>The calls of the agent\<close>

fun call_path :: "(string \<Rightarrow> string) \<Rightarrow> kubo_call \<Rightarrow> string" where
  "call_path quote (PinAdd cid) = ''pin/add?arg='' @ quote cid @ ''&recursive=true''"
| "call_path quote (PinLs cid) = ''pin/ls?arg='' @ quote cid @ ''&type=recursive''"
| "call_path quote (PinRm cid) = ''pin/rm?arg='' @ cid"

definition kubo_rpc :: "'w kubo \<Rightarrow> (string \<Rightarrow> string) \<Rightarrow> (string \<Rightarrow> string) \<Rightarrow> string \<Rightarrow> 'w rpc" where
  "kubo_rpc kubo decode quote api call w =
     (case ipfs_post kubo api (call_path quote call) form_type [] w of
        (Inl e, w1) \<Rightarrow> (Inl ''IPFS'', w1)
      | (Inr raw, w1) \<Rightarrow> (Inr (case json_loads (decode raw) of Inl _ \<Rightarrow> None | Inr v \<Rightarrow> Some v), w1))"

section \<open>Facts\<close>

lemma last_hash_result:
  "last_hash cid ls = Inr (Some h) \<Longrightarrow>
   cid = Some h \<or> truthy h \<and> (\<exists>l \<in> set ls. \<exists>d. json_loads (py_strip l) = Inr (JObj d) \<and> jget d ''Hash'' = h)"
proof (induction ls arbitrary: cid)
  case (Cons l ls)
  show ?case
  proof (cases "\<exists>d. py_strip l \<noteq> [] \<and> json_loads (py_strip l) = Inr (JObj d)")
    case True
    then obtain d where "py_strip l \<noteq> []" "json_loads (py_strip l) = Inr (JObj d)" by blast
    then show ?thesis using Cons by (cases "truthy (jget d ''Hash'')") fastforce+
  next
    case False
    then have "last_hash cid ls = Inr (Some h)"
      using Cons.prems by (auto simp: Let_def split: if_splits sum.splits json.splits json_error.splits)
    then show ?thesis using Cons.IH by auto
  qed
qed simp

text \<open>A CID that \<open>add\<close> returns is a non-empty \<open>Hash\<close> of a line of Kubo's answer.\<close>

lemma added_cid_is_answered:
  assumes "ipfs_add kubo decode uid api blob filename w = (Inr cid, w')"
  shows "truthy cid \<and> (\<exists>raw. \<exists>l \<in> set (lines_of [] (decode raw)). \<exists>d. json_loads (py_strip l) = Inr (JObj d) \<and> jget d ''Hash'' = cid)"
proof -
  obtain raw w1 where r: "(case last_hash None (lines_of [] (decode raw)) of
      Inl e \<Rightarrow> st_fail e | Inr None \<Rightarrow> st_fail Ipfs_error | Inr (Some h) \<Rightarrow> st_ret h) w1 = (Inr cid, w')"
    using assms unfolding ipfs_add_def Let_def st_bind_Inr by blast
  then have "last_hash None (lines_of [] (decode raw)) = Inr (Some cid)"
  proof (cases "last_hash None (lines_of [] (decode raw))")
    case (Inr found)
    then show ?thesis using r by (cases found) simp_all
  qed simp
  from last_hash_result [OF this] show ?thesis by blast
qed

text \<open>An answer of \<open>id\<close> that is not JSON is no \<open>IPFSError\<close>, so \<open>is_alive\<close> raises instead of answering False.\<close>

lemma odd_identity_breaks_health:
  assumes "\<And>q w. kubo q w = (Ipfs_body ''ok'', w)" "decode ''ok'' = ''ok''"
  shows "ipfs_is_alive kubo decode api w = (Inl Ipfs_other, w)"
proof -
  have "json_loads ''ok'' = Inl Bad_json" by code_simp
  then show ?thesis using assms
    by (simp add: ipfs_is_alive_def ipfs_node_id_def st_bind_def ipfs_post_def ipfs_json_def)
qed

end
