(* ===== verification/Tep_Node.thy ===== *)
theory Tep_Node
  imports Tep_Daemon
begin

text \<open>
  What the daemon has besides its engine: the keys and the two ciphers of \<open>TepCrypto\<close>, the static peer list and the
  registry sync of \<open>PeerManager\<close> (which the runtime replaces by its reconciliation), and the status page
  (\<open>tep/hb_tep.py\<close>). X25519, AES-GCM, SHA-256 and HMAC are arguments. A peer record of a file or registry whose fields have
  types the \<open>Peer\<close> class does not declare ends the load like an exception.
\<close>

section \<open>Keys\<close>

record crypto_library =
  cl_have :: bool
  cl_public :: "string \<Rightarrow> string"
  cl_exchange :: "string \<Rightarrow> string \<Rightarrow> string option"
  cl_seal :: "string \<Rightarrow> string \<Rightarrow> string \<Rightarrow> string"
  cl_open :: "string \<Rightarrow> string \<Rightarrow> string \<Rightarrow> string option"
  cl_sha :: "string \<Rightarrow> string"
  cl_hmac :: "string \<Rightarrow> string \<Rightarrow> string"

record key_files =
  kf_node :: "string option"
  kf_x25519 :: "string option"

text \<open>The files as they are after the start: a missing key is generated.\<close>

definition keep_or :: "string option \<Rightarrow> string \<Rightarrow> string option" where
  "keep_or old new = (case old of None \<Rightarrow> Some new | Some k \<Rightarrow> Some k)"

definition create_keys :: "crypto_library \<Rightarrow> string \<Rightarrow> string \<Rightarrow> key_files \<Rightarrow> key_files" where
  "create_keys lib random private_key files =
     files\<lparr>kf_node := keep_or (kf_node files) random,
           kf_x25519 := (if cl_have lib then keep_or (kf_x25519 files) private_key else kf_x25519 files)\<rparr>"

fun hex_bytes :: "string \<Rightarrow> string" where
  "hex_bytes [] = []"
| "hex_bytes (c # cs) = hex_digit (of_char c div 16) # hex_digit (of_char c mod 16) # hex_bytes cs"

text \<open>\<open>bytes.fromhex\<close>; \<open>None\<close> is a \<open>ValueError\<close>.\<close>

fun unhex :: "string \<Rightarrow> string option" where
  "unhex [] = Some []"
| "unhex (c # cs) =
     (if ascii_space c then unhex cs
      else (case cs of [] \<Rightarrow> None
        | d # ds \<Rightarrow>
            (case (Json_Text.hex_val c, Json_Text.hex_val d) of
               (Some x, Some y) \<Rightarrow> map_option ((#) (char_of (x * 16 + y))) (unhex ds)
             | _ \<Rightarrow> None)))"

definition public_hex :: "crypto_library \<Rightarrow> string option \<Rightarrow> string" where
  "public_hex lib priv = (case priv of None \<Rightarrow> [] | Some k \<Rightarrow> hex_bytes (cl_public lib k))"

definition shared_key :: "crypto_library \<Rightarrow> string \<Rightarrow> string option \<Rightarrow> string \<Rightarrow> string option" where
  "shared_key lib hmac_key priv peer_pubkey =
     (if \<not> cl_have lib then Some hmac_key
      else case priv of
        None \<Rightarrow> Some hmac_key
      | Some k \<Rightarrow>
          (case unhex peer_pubkey of
             None \<Rightarrow> None
           | Some pub \<Rightarrow> map_option (\<lambda>s. cl_sha lib (''hb-tep-v2'' @ s)) (cl_exchange lib k pub)))"

text \<open>The fallback appends 16 bytes of an HMAC over text and nonce; the text stays readable.\<close>

definition seal_packet :: "crypto_library \<Rightarrow> cipher" where
  "seal_packet lib msg key nonce =
     (if cl_have lib then cl_seal lib msg key nonce else msg @ take 16 (cl_hmac lib key (msg @ nonce)))"

definition open_packet :: "crypto_library \<Rightarrow> string \<Rightarrow> string \<Rightarrow> string \<Rightarrow> string option" where
  "open_packet lib data key nonce =
     (if cl_have lib then cl_open lib data key nonce
      else let n = length data - 16; ct = take n data; tag = drop n data
           in if tag = take 16 (cl_hmac lib key (ct @ nonce)) then Some ct else None)"

definition new_crypto :: "crypto_library \<Rightarrow> key_files \<Rightarrow> tep_crypto option" where
  "new_crypto lib files =
     (case kf_node files of
        None \<Rightarrow> None
      | Some hmac_key \<Rightarrow>
          (let priv = (if cl_have lib then kf_x25519 files else None)
           in Some \<lparr>cy_have = cl_have lib, cy_pubkey = public_hex lib priv, cy_derive = shared_key lib hmac_key priv,
                    cy_encrypt = seal_packet lib, cy_decrypt = open_packet lib\<rparr>))"

section \<open>The static list and the registry sync of the base class\<close>

text \<open>The value of an optional text field; \<open>None\<close> is another type.\<close>

definition text_field :: "jobj \<Rightarrow> string \<Rightarrow> string option option" where
  "text_field p k = (case jget p k of JNull \<Rightarrow> Some None | JStr s \<Rightarrow> Some (Some s) | _ \<Rightarrow> None)"

definition loaded_peer :: "string \<Rightarrow> string \<Rightarrow> jobj \<Rightarrow> peer option" where
  "loaded_peer node ip p =
     (case (py_int (jget_def_to p ''port'' (JInt listen_port)), text_field p ''pubkey'', text_field p ''peer_id'') of
        (Some port, Some pubkey, Some pid) \<Rightarrow>
          Some \<lparr>pr_id = node, pr_ip = ip, pr_port = port, pr_seen = 0, pr_latency = None, pr_online = False,
                pr_pubkey = pubkey, pr_peer = pid\<rparr>
      | _ \<Rightarrow> None)"

definition static_peer :: "json \<Rightarrow> peer option" where
  "static_peer v =
     (case v of
        JObj p \<Rightarrow> (case (jget p ''id'', jget p ''ip'') of (JStr node, JStr ip) \<Rightarrow> loaded_peer node ip p | _ \<Rightarrow> None)
      | _ \<Rightarrow> None)"

text \<open>\<open>self._peers[peer.id] = peer\<close>\<close>

definition put_peer :: "peer \<Rightarrow> peer list \<Rightarrow> peer list" where
  "put_peer p t = tbl_upsert (\<lambda>q. pr_id q = pr_id p) p (\<lambda>_. p) t"

fun add_static :: "json list \<Rightarrow> peer list \<Rightarrow> peer list" where
  "add_static [] t = t"
| "add_static (v # vs) t = (case static_peer v of None \<Rightarrow> t | Some p \<Rightarrow> add_static vs (put_peer p t))"

definition empty_file :: string where
  "empty_file = ''{'' @ [char_of (10 :: nat)] @ ''  '' @ json_string ''peers'' @ '': []'' @ [char_of (10 :: nat)] @ ''}''"

text \<open>\<open>_load_static\<close>: the file afterwards and the table. What was loaded before an exception stays.\<close>

definition load_static :: "string option \<Rightarrow> peer list \<Rightarrow> string option \<times> peer list" where
  "load_static content t =
     (case content of
        None \<Rightarrow> (Some empty_file, t)
      | Some text' \<Rightarrow>
          (content,
           (case json_loads text' of
              Inr (JObj d) \<Rightarrow>
                (case py_iter (jget_def_to d ''peers'' (JList [])) of None \<Rightarrow> t | Some vs \<Rightarrow> add_static vs t)
            | _ \<Rightarrow> t)))"

text \<open>One record of the registry; the outer \<open>None\<close> is an exception, the inner one \<open>continue\<close>.\<close>

definition synced_peer :: "peer list \<Rightarrow> json \<Rightarrow> peer option option" where
  "synced_peer old v =
     (case v of
        JObj p \<Rightarrow>
          if \<not> truthy (jget_def_to p ''id'' (JStr [])) \<or> \<not> truthy (jget p ''ip'') then Some None
          else (case (jget p ''id'', jget p ''ip'') of
              (JStr node, JStr ip) \<Rightarrow>
                map_option (\<lambda>q. Some (case find_peer node old of None \<Rightarrow> q
                                       | Some prev \<Rightarrow> q\<lparr>pr_seen := pr_seen prev, pr_online := pr_online prev\<rparr>))
                  (loaded_peer node ip p)
            | _ \<Rightarrow> None)
      | _ \<Rightarrow> None)"

fun sync_peers :: "peer list \<Rightarrow> json list \<Rightarrow> peer list \<Rightarrow> peer list option" where
  "sync_peers old [] fresh = Some fresh"
| "sync_peers old (v # vs) fresh =
     (case synced_peer old v of
        None \<Rightarrow> None
      | Some None \<Rightarrow> sync_peers old vs fresh
      | Some (Some p) \<Rightarrow> sync_peers old vs (put_peer p fresh))"

definition base_sync :: "json option \<Rightarrow> peer_manager \<Rightarrow> bool \<times> peer_manager" where
  "base_sync answer pm =
     (let failed = (False, pm\<lparr>pm_source := ''static''\<rparr>)
      in case answer of
           Some (JObj d) \<Rightarrow>
             (let records = jget_def_to d ''peers'' (JList [])
              in if \<not> truthy records then (False, pm)
                 else case py_iter records of
                   None \<Rightarrow> failed
                 | Some vs \<Rightarrow>
                     (case sync_peers (pm_peers pm) vs [] of
                        None \<Rightarrow> failed
                      | Some fresh \<Rightarrow> (True, pm\<lparr>pm_peers := fresh, pm_source := ''blockchain''\<rparr>)))
         | _ \<Rightarrow> failed)"

section \<open>The status page\<close>

text \<open>\<open>show\<close> is \<open>repr\<close> of a float.\<close>

definition opt_json :: "('a \<Rightarrow> json) \<Rightarrow> 'a option \<Rightarrow> json" where
  "opt_json f x = (case x of None \<Rightarrow> JNull | Some v \<Rightarrow> f v)"

definition float_json :: "(py_float \<Rightarrow> string) \<Rightarrow> py_float \<Rightarrow> json" where "float_json show x = JFloat x (show x)"

definition peer_json :: "(py_float \<Rightarrow> string) \<Rightarrow> peer \<Rightarrow> json" where
  "peer_json show p =
     JObj [(''id'', JStr (pr_id p)), (''ip'', JStr (pr_ip p)), (''port'', JInt (pr_port p)), (''last_seen'', float_json show (pr_seen p)),
       (''latency_ms'', opt_json (float_json show) (pr_latency p)), (''online'', JBool (pr_online p)),
       (''pubkey'', opt_json JStr (pr_pubkey p)), (''peer_id'', opt_json JStr (pr_peer p))]"

definition peers_json :: "(py_float \<Rightarrow> string) \<Rightarrow> py_float \<Rightarrow> peer list \<Rightarrow> json \<times> peer list" where
  "peers_json show now t = (let t1 = expire_stale now t in (JList (map (peer_json show) t1), t1))"

definition nat_json :: "nat \<Rightarrow> json" where "nat_json n = JInt (int n)"

definition stats_json :: "(py_float \<Rightarrow> string) \<Rightarrow> tep_config \<Rightarrow> string \<Rightarrow> int \<Rightarrow> nat \<Rightarrow> py_float \<Rightarrow> string \<Rightarrow> tep_stats \<Rightarrow> json" where
  "stats_json show cfg host port known uptime source s =
     JObj [(''pkts_sent'', nat_json (st_sent s)), (''pkts_recv'', nat_json (st_recv s)), (''pkts_dropped'', nat_json (st_dropped s)),
       (''peers_online'', nat_json (st_online s)), (''peers_total'', nat_json known), (''uptime_sec'', float_json show uptime),
       (''node_id'', JStr (tc_node cfg)), (''listen_ip'', JStr host), (''listen_port'', JInt port), (''dns_source'', JStr source),
       (''app_requests'', nat_json (st_requests s)), (''app_responses'', nat_json (st_responses s)), (''app_errors'', nat_json (st_errors s)),
       (''app_auth_rejected'', nat_json (st_auth s)), (''app_replay_rejected'', nat_json (st_replay s)), (''relay_requests'', nat_json (st_relay s))]"

definition status_note :: "string \<Rightarrow> string" where
  "status_note source =
     (if source = ''blockchain'' then ''blockchain'' else ''using static peers.json (blockchain DNS not yet populated)'')"

definition status_page ::
  "(py_float \<Rightarrow> string) \<Rightarrow> tep_config \<Rightarrow> string list \<Rightarrow> string \<Rightarrow> int \<Rightarrow> py_float \<Rightarrow> py_float \<Rightarrow> daemon \<Rightarrow> jobj \<times> daemon" where
  "status_page show cfg served host port started now d =
     (case online_count now (table d) of
        (n, t) \<Rightarrow>
          let d1 = upd_stats (\<lambda>s. s\<lparr>st_online := n\<rparr>) (upd_table (\<lambda>_. t) d);
              source = pm_source (dm_peers d1);
              ready = app_ready cfg
          in case peers_json show now (table d1) of
            (listed, t2) \<Rightarrow>
              ([(''node_id'', JStr (tc_node cfg)), (''pubkey'', JStr (cy_pubkey (tc_crypto cfg))),
                (''stats'', stats_json show cfg host port (length (table d1)) (now - started) source (dm_stats d1)),
                (''peers'', listed),
                (''crypto_mode'', JStr (if cy_have (tc_crypto cfg) then ''AES-256-GCM'' else ''HMAC-fallback'')),
                (''dns_source'', JStr source), (''note'', JStr (status_note source)),
                (''app_protocols'', JList (if ready then [JStr ''HB-TEP-APP/1''] else [])),
                (''services'', JList (if ready then map JStr served else [])), (''app_ready'', JBool ready),
                (''relay'', JBool (ready \<and> tc_relay_enabled cfg)),
                (''app_packet_types'', JObj [(''PKT_APP_REQUEST'', JInt 32), (''PKT_APP_RESPONSE'', JInt 33), (''PKT_APP_ERROR'', JInt 34),
                   (''PKT_RELAY_REQUEST'', JInt 35), (''PKT_RELAY_RESPONSE'', JInt 36)])],
               upd_table (\<lambda>_. t2) d1))"


section \<open>Both ends of a pair\<close>

lemma hex_digit_not_space: "d < 16 \<Longrightarrow> \<not> ascii_space (hex_digit d)"
  by (auto simp: hex_digit_def ascii_space_def)

lemma unhex_hex: "unhex (hex_bytes s) = Some s"
proof (induction s)
  case (Cons c s)
  have "(of_char c :: nat) div 16 < 16" using of_char_less [of c] by (intro less_mult_imp_div_less) simp
  moreover have "(of_char c :: nat) mod 16 < 16" by simp
  ultimately show ?case using Cons by (simp add: hex_digit_not_space hex_val_digit)
qed simp

lemma new_crypto_fields:
  assumes "new_crypto lib files = Some c" "cl_have lib" "kf_x25519 files = Some priv"
  shows "cy_have c" "cy_pubkey c = hex_bytes (cl_public lib priv)" "cy_encrypt c = cl_seal lib" "cy_decrypt c = cl_open lib"
    "cy_derive c (hex_bytes pub) = map_option (\<lambda>s. cl_sha lib (''hb-tep-v2'' @ s)) (cl_exchange lib priv pub)"
  using assms
  by (auto simp: new_crypto_def public_hex_def shared_key_def unhex_hex seal_packet_def open_packet_def fun_eq_iff split: option.splits)

text \<open>C34: two nodes with X25519 derive the same key from each other's published key, and a packet the one builds under it is taken
  apart and opened by the other, for a library whose exchange is symmetric and whose AES-GCM opens what it sealed.
\<close>
theorem sealed_packet_opens_at_the_peer:
  assumes "new_crypto lib fa = Some a" "new_crypto lib fb = Some b" "kf_x25519 fa = Some pa" "kf_x25519 fb = Some pb" "cl_have lib"
    and "\<And>p q. cl_exchange lib p (cl_public lib q) = cl_exchange lib q (cl_public lib p)"
    and "\<And>x k n. cl_open lib (cl_seal lib x k n) k n = Some x"
    and "cy_derive a (cy_pubkey b) = Some key" "build_packet (cy_encrypt a) node ptype body key time counter = Inr data"
    and "\<forall>c \<in> set node. c \<noteq> CHR 0x00"
  shows "cy_derive b (cy_pubkey a) = Some key \<and>
    (\<exists>p. parse_packet (data @ extra) = Some p \<and> pk_type p = ptype \<and> pk_node p = wire_node node \<and>
       cy_decrypt b (pk_payload p) key (pk_nonce p) = Some body)"
proof -
  note fa = new_crypto_fields [OF assms(1,5,3)] and fb = new_crypto_fields [OF assms(2,5,4)]
  have "cy_derive b (cy_pubkey a) = cy_derive a (cy_pubkey b)" by (simp add: fa fb assms(6))
  then show ?thesis using parse_built_packet [OF assms(9,10), of extra] assms(7,8) by (auto simp: fa fb)
qed

text \<open>A toy library: the public key is the private one, the exchange orders the pair.\<close>

definition toy_library :: crypto_library where
  "toy_library = \<lparr>cl_have = True, cl_public = (\<lambda>k. k), cl_exchange = (\<lambda>a b. Some (if a \<le> b then a @ b else b @ a)),
     cl_seal = (\<lambda>x k n. k @ x), cl_open = (\<lambda>d k n. Some (drop (length k) d)), cl_sha = (\<lambda>t. t), cl_hmac = (\<lambda>k t. k @ t)\<rparr>"

theorem sealed_packet_opens_at_the_peer_witness:
  "\<exists>a b key data p. new_crypto toy_library (create_keys toy_library ''r'' ''x'' \<lparr>kf_node = None, kf_x25519 = None\<rparr>) = Some a \<and>
     new_crypto toy_library (create_keys toy_library ''r'' ''y'' \<lparr>kf_node = None, kf_x25519 = None\<rparr>) = Some b \<and>
     cy_derive a (cy_pubkey b) = Some key \<and> build_packet (cy_encrypt a) ''n'' 32 ''hi'' key 1000 7 = Inr data \<and>
     parse_packet data = Some p \<and> cy_decrypt b (pk_payload p) key (pk_nonce p) = Some ''hi''"
proof -
  let ?fa = "create_keys toy_library ''r'' ''x'' \<lparr>kf_node = None, kf_x25519 = None\<rparr>"
  let ?fb = "create_keys toy_library ''r'' ''y'' \<lparr>kf_node = None, kf_x25519 = None\<rparr>"
  obtain a b where ab: "new_crypto toy_library ?fa = Some a" "new_crypto toy_library ?fb = Some b"
    by (simp add: new_crypto_def create_keys_def keep_or_def Let_def)
  have k: "kf_x25519 ?fa = Some ''x''" "kf_x25519 ?fb = Some ''y''" "cl_have toy_library"
    by (simp_all add: create_keys_def keep_or_def toy_library_def)
  note fa = new_crypto_fields [OF ab(1) k(3,1)] and fb = new_crypto_fields [OF ab(2) k(3,2)]
  have key: "cy_derive a (cy_pubkey b) = Some ''hb-tep-v2xy''"
    unfolding fb(2) fa(5) by (simp add: toy_library_def)
  have law: "cl_exchange toy_library p (cl_public toy_library q) = cl_exchange toy_library q (cl_public toy_library p)"
    "cl_open toy_library (cl_seal toy_library x k' n) k' n = Some x" for p q x k' n
    by (auto simp: toy_library_def)
  obtain data where data: "build_packet (cy_encrypt a) ''n'' 32 ''hi'' ''hb-tep-v2xy'' 1000 7 = Inr data"
    unfolding fa(3) by (simp add: toy_library_def build_packet_def pack_be_def packet_nonce_def)
  from sealed_packet_opens_at_the_peer [OF ab k law key data, of "[]"] show ?thesis using ab key data by auto
qed

text \<open>Without the library every node uses its own random key, so two nodes never open each other's packets.\<close>

lemma fallback_keys_are_not_shared:
  assumes "\<not> cl_have lib" "new_crypto lib fa = Some a" "new_crypto lib fb = Some b" "kf_node fa = Some ka" "kf_node fb = Some kb"
    and "take 16 (cl_hmac lib ka (x @ n)) \<noteq> take 16 (cl_hmac lib kb (x @ n))" "\<And>k t. length (cl_hmac lib k t) = 32"
  shows "cy_derive a pub = Some ka \<and> cy_derive b pub' = Some kb \<and> cy_decrypt b (cy_encrypt a x ka n) kb n = None"
  using assms by (auto simp: new_crypto_def shared_key_def seal_packet_def open_packet_def Let_def)

section \<open>The table\<close>

lemma put_peer_distinct: "distinct (map pr_id t) \<Longrightarrow> distinct (map pr_id (put_peer p t))"
  unfolding put_peer_def by (rule distinct_tbl_upsert [where k = "pr_id p"]) auto

lemma add_static_distinct: "distinct (map pr_id t) \<Longrightarrow> distinct (map pr_id (add_static vs t))"
  by (induction vs t rule: add_static.induct) (auto simp: put_peer_distinct split: option.splits)

lemma load_static_distinct: "distinct (map pr_id t) \<Longrightarrow> distinct (map pr_id (snd (load_static content t)))"
  by (auto simp: load_static_def add_static_distinct split: option.splits sum.splits json.splits)

lemma sync_peers_distinct: "sync_peers old vs fresh = Some t \<Longrightarrow> distinct (map pr_id fresh) \<Longrightarrow> distinct (map pr_id t)"
  by (induction old vs fresh rule: sync_peers.induct) (auto simp: put_peer_distinct split: option.splits)

text \<open>A sync of the base class either installs a table with distinct ids or keeps the old one.\<close>

lemma base_sync_table:
  assumes "base_sync answer pm = (ok, pm')" "distinct (map pr_id (pm_peers pm))"
  shows "distinct (map pr_id (pm_peers pm')) \<and> (\<not> ok \<longrightarrow> pm_peers pm' = pm_peers pm)"
  using assms sync_peers_distinct [of "pm_peers pm" _ "[]"]
  by (auto simp: base_sync_def Let_def split: option.splits json.splits if_splits)

text \<open>The page lists exactly the peers of the table, and the ones it calls online are fresh and are those it counts.\<close>

lemma status_page_counts:
  assumes "status_page show cfg served host port started now d = (page, d')"
  shows "table d' = expire_stale now (table d) \<and> st_online (dm_stats d') = length (filter pr_online (table d')) \<and>
    jget page ''peers'' = JList (map (peer_json show) (table d')) \<and> (\<forall>p \<in> set (table d'). pr_online p \<longrightarrow> peer_is_fresh now p)"
proof -
  have fresh: "pr_online p \<Longrightarrow> peer_is_fresh now p" if "p \<in> set (expire_stale now t)" for p t
    using that by (auto simp: expire_stale_def set_tbl_update split: if_splits)
  have again: "expire_stale now (expire_stale now t) = expire_stale now t" for t
    unfolding expire_stale_def [of now "expire_stale now t"] by (rule tbl_update_none) (use fresh in blast)
  show ?thesis using assms fresh
    by (auto simp: status_page_def online_count_def peers_json_def Let_def table_def upd_table_def upd_stats_def again split: prod.splits)
qed

end
