(* ===== verification/Spec2Isabelle.thy ===== *)
theory Spec2Isabelle
  imports Controller_Safety Replica_Agent Ha_Cluster Ha_Vote Ha_Checks Ha_Readiness Master_Ingress Tep_Replay Tep_Ha Tep_Guarantees Tep_Ipc
    Aggregator_Examples Aggregator_Daemon Files_Examples Master_Examples Accelerator_Examples Client_Examples Ipfs_Client Tep_Node
begin

text \<open>
  HashBurst node software: a verification development.

  \<^bold>\<open>The program.\<close> A HashBurst node runs a group of Python services. The TEP daemon (\<open>tep/\<close>) carries sealed datagrams
  between nodes, with requests and answers, relays, a peer table and a loopback endpoint for the other services of the node.
  The lease agents (\<open>ha/\<close>) elect one master over it, and the master ingress sends local clients to that master. The replication
  controller (\<open>replication/\<close>) keeps the copies of every CID at the numbers of the policy, through jobs that the replica agents
  of the storage nodes execute. The file server (\<open>hbfiles/\<close>) takes the uploads of the stakeholders, stores them in IPFS and
  registers them with the controller. The aggregator (\<open>aggregator/\<close>) collects the storage summaries of all nodes over the daemon.
  The elected master runs the mining payload (\<open>ha/payload/\<close>), which hands out the work of the pools to workers over UDP; an
  operator's tool (\<open>tools/accelerator/\<close>) evaluates the telemetry of miners.

  \<^bold>\<open>Foundations.\<close> \<open>Prelude\<close> holds Python texts and numbers, tables of rows, and state passing with errors. \<open>Json\<close> holds
  the dynamically typed values of \<open>json.loads\<close> with \<open>str\<close>, \<open>int\<close>, \<open>float\<close> and truth. \<open>Json_Text\<close> holds the text of JSON
  and UTF-8, with a parser of fuel \<open>2 * length + 2\<close>, proved to be enough for every text.

  \<^bold>\<open>Replication.\<close>
  \<^item> \<open>Replication_Policy\<close>: \<open>hb_replication_policy.py\<close>; a placement is eligible, diverse and as large as the policy asks.
  \<^item> \<open>Replication_Db\<close>, \<open>Replication_V214\<close>: the methods of \<open>hb_replication_db.py\<close>, \<open>hb_replication_v214_db.py\<close> and
    \<open>hb_replication_v214_recovery.py\<close> on tables of rows; a transaction that raises returns no new state.
  \<^item> \<open>Replication_Invariant\<close>, \<open>Replication_Safety\<close>, \<open>Replication_References\<close>: the steps of the store and their invariant; floors
    kept by trims, no registration under an authorised deletion, exclusive delivery, exact reference counts.
  \<^item> \<open>Replication_Controller\<close>, \<open>Controller_Safety\<close>: the controller; its entry points only take steps of the store.
  \<^item> \<open>Replica_Agent\<close>: the agent; it removes a pin only on the authorisation of that very job.

  \<^bold>\<open>High availability.\<close>
  \<^item> \<open>Ha_Lease\<close>, \<open>Ha_Engine\<close>: the lease agent with its v2.2.0 overrides, its loop, fencing and watchdog.
  \<^item> \<open>Ha_Cluster\<close>, \<open>Ha_Loop\<close>: many agents on an asynchronous network, with crashes and restarts; at most one guard file is
    valid at any time, a live lease is exclusive, and an isolated primary steps down. The locales \<open>quorum_system\<close> and the
    voter contract are interpreted on the engine.
  \<^item> \<open>Ha_Vote\<close>: the vote file and its saves, one file operation at a time; a voter killed anywhere in a save restarts with the
    old vote or the new one and grants one candidate in a term. The locale \<open>vote_store\<close> is interpreted on the file; a save that
    fails without ending the process breaks the rule.
  \<^item> \<open>Ha_Checks\<close>, \<open>Ha_Readiness\<close>: eligibility, configuration, the local HTTP handler, and the readiness producer.
  \<^item> \<open>Master_Ingress\<close>: the front end; a route exists only with the evidence of a live quorum-backed master.

  \<^bold>\<open>Transport.\<close>
  \<^item> \<open>Tep_App\<close>, \<open>Tep_Messages\<close>, \<open>Tep_Wire\<close>: envelopes, framing and base64; typed decoding and round trips.
  \<^item> \<open>Tep_Replay\<close>, \<open>Tep_Client\<close>, \<open>Tep_Relay\<close>: the replay cache (which refines a window of keys), the client, the relay.
  \<^item> \<open>Tep_Services\<close>, \<open>Tep_Ha\<close>: registry, storage summary, lease gateway, master status, and the gateway joined to the engine.
  \<^item> \<open>Tep_Peers\<close>, \<open>Tep_Daemon\<close>, \<open>Tep_Ipc\<close>: the daemon with its overrides, and the loopback endpoint.
  \<^item> \<open>Tep_Node\<close>: the keys and ciphers, the static peers, the registry sync of the base class, the status page; two nodes derive the
    same key, and a packet sealed by one opens at the other.
  \<^item> \<open>Tep_Safety\<close>, \<open>Tep_Guarantees\<close>: its threads as a transition system; authentic requests, fresh nonces, one answer.

  \<^bold>\<open>Storage.\<close>
  \<^item> \<open>Aggregator\<close>, \<open>Aggregator_Safety\<close>, \<open>Aggregator_Examples\<close>, \<open>Aggregator_Daemon\<close>: \<open>hb_aggregator.py\<close>,
    \<open>hb_aggregator_server.py\<close> and \<open>hb_tep_adapter.py\<close>; edge nodes add no capacity, shown lines are validated and counted once,
    and the adapter is joined to the daemon's endpoint.
  \<^item> \<open>Files_Registry\<close>: \<open>hb_registry.py\<close> and \<open>hb_capacity.py\<close>; the cache is transparent, grants stay within the capacity.
  \<^item> \<open>Files_Upload\<close>: the multipart reader of \<open>hb_files.py\<close>.
  \<^item> \<open>Files_Store\<close>: \<open>Storage\<close> and the handlers \<open>do_GET\<close>, \<open>do_POST\<close>, \<open>do_DELETE\<close> of \<open>hb_files.py\<close>.
  \<^item> \<open>Files_Spec\<close>, \<open>Files_Safety\<close>, \<open>Files_Examples\<close>: the abstract contract of a request and the refinement; isolation of
    tenants, pinned content, quotas, limits of share links, and the way of an upload back to a download.

  \<^item> \<open>Ipfs_Client\<close>: the requests of \<open>hb_ipfs.py\<close> to Kubo and the reading of its answers.
  \<^item> \<open>Replication_Client\<close>, \<open>Client_Examples\<close>: \<open>hb_replication_client.py\<close>, the upload hook, and both joined to the HTTP server of
    the controller: an upload answered as registered has a new live reference there. The interpretation \<open>refs\<close> of the locale
    \<open>store_client\<close> shows that reconciliation keeps references.

  \<^bold>\<open>Mining.\<close>
  \<^item> \<open>Master_Node\<close>: \<open>ha/payload/master_node_v220.py\<close> as steps of its event loop; a share that waits for the socket of the pool is
    handled in two steps with other events between them.
  \<^item> \<open>Master_Relation\<close>: the contract of one step as locales over an arbitrary relation of states (\<open>preorder_step\<close>,
    \<open>mining_step\<close>, \<open>any_step\<close>). \<open>Master_Safety\<close> interprets them: every share is accounted once, and the nonce segments of a
    job never overlap. \<open>Master_Examples\<close>: witnesses and inputs the payload does not handle.
  \<^item> \<open>Accelerator\<close>, \<open>Accelerator_Policy\<close>: \<open>tools/accelerator/accelerator.py\<close>, the collection and the evaluation.
    \<open>Accelerator_Safety\<close>, \<open>Accelerator_Examples\<close>: a recommendation rests on enough comparable recent samples, an excluded worker
    is held, and a collection accounts for every entry.

  \<^bold>\<open>Conventions.\<close> A Python method is a function from its arguments and the state to its result and the new state; an
  exception is a value of a sum type or \<open>None\<close>, and what was done before it is kept where the code keeps it. Clocks, random
  identifiers, hashes, the cipher, \<open>urlsplit\<close>, IPFS, the file system, HTTP answers and the network are arguments. A handler
  that waits for an answer takes it as an argument, so one handler is one step; the clock is read once per step. Floats are
  exact rationals without nan and infinities; texts have code points below 256; files and JSON bodies are in UTF-8; a write of
  a file succeeds, except in \<open>Ha_Vote\<close>, and what is written survives the death of a process (a power failure is not modelled).

  \<^bold>\<open>Not modelled.\<close> The web panel and its browser cryptography (HTML and JavaScript); the earlier copies of the daemon under
  \<open>baseline/\<close>, \<open>patched/\<close> and \<open>staging/\<close>, whose current version is modelled; the network test and packet tools, the explorer
  patch, the installer, unit files and tests. Of the modelled services: logging, \<open>http.server\<close>, argument parsing, process start
  and signal handling.
\<close>

end
